(* ===== verification/Bank_Prelude.thy ===== *)
theory Bank_Prelude
  imports Main
begin

text \<open>
  Shared vocabulary of the development: the errors a request can end with, database
  transactions as state-passing functions that either fail (and leave no state behind,
  as an aborted Prisma \<open>$transaction\<close> does) or return a value and the new state, and
  the string, list and decimal lemmas the component theories share.
\<close>

section \<open>Errors\<close>

text \<open>
  The Nest exceptions carry their message. The remaining constructors are the database's
  own errors: a violated unique constraint (Prisma's P2002), a row that an \<open>update\<close> or
  \<open>findFirstOrThrow\<close> does not find (P2025), and a value that does not fit its
  \<open>Decimal(36, 18)\<close> column. \<open>TypeError\<close> is JavaScript's: a field of
  \<open>null\<close> is read.
\<close>

datatype error =
    ConflictException string
  | NotFoundException string
  | BadRequestException string
  | ForbiddenException string
  | ServiceUnavailableException string
  | UniqueConstraintViolation
  | RecordNotFound
  | NumericFieldOverflow
  | TypeError

section \<open>Transactions\<close>

type_synonym ('s, 'a) tx = "'s \<Rightarrow> error + ('a \<times> 's)"

definition returnT :: "'a \<Rightarrow> ('s, 'a) tx" where
  "returnT x = (\<lambda>s. Inr (x, s))"

definition throwT :: "error \<Rightarrow> ('s, 'a) tx" where
  "throwT e = (\<lambda>s. Inl e)"

definition bindT :: "('s, 'a) tx \<Rightarrow> ('a \<Rightarrow> ('s, 'b) tx) \<Rightarrow> ('s, 'b) tx" where
  "bindT m f = (\<lambda>s. case m s of Inl e \<Rightarrow> Inl e | Inr (x, s') \<Rightarrow> f x s')"

definition readT :: "('s \<Rightarrow> 'a) \<Rightarrow> ('s, 'a) tx" where
  "readT f = (\<lambda>s. Inr (f s, s))"

definition writeT :: "('s \<Rightarrow> 's) \<Rightarrow> ('s, unit) tx" where
  "writeT g = (\<lambda>s. Inr ((), g s))"

text \<open>\<open>if (b) throw e;\<close>\<close>

definition throwIf :: "bool \<Rightarrow> error \<Rightarrow> ('s, unit) tx" where
  "throwIf b e = (if b then throwT e else returnT ())"

text \<open>\<open>const x = f(...); if (!x) throw e;\<close>\<close>

definition requireT :: "'a option \<Rightarrow> error \<Rightarrow> ('s, 'a) tx" where
  "requireT x e = (case x of None \<Rightarrow> throwT e | Some v \<Rightarrow> returnT v)"

text \<open>\<open>catch (error) { if (error.code === "P2002") ... }\<close>: the handler starts from the
  state before the aborted transaction.\<close>

definition catchUnique :: "('s, 'a) tx \<Rightarrow> ('s, 'a) tx \<Rightarrow> ('s, 'a) tx" where
  "catchUnique m h = (\<lambda>s. case m s of
     Inl e \<Rightarrow> (if e = UniqueConstraintViolation then h s else Inl e)
   | Inr r \<Rightarrow> Inr r)"

text \<open>\<open>await Promise.all(xs.map(f))\<close>, or a loop that collects.\<close>

primrec mapT :: "('a \<Rightarrow> ('s, 'b) tx) \<Rightarrow> 'a list \<Rightarrow> ('s, 'b list) tx" where
  "mapT f [] = returnT []"
| "mapT f (x # xs) = bindT (f x) (\<lambda>y. bindT (mapT f xs) (\<lambda>ys. returnT (y # ys)))"

text \<open>
  \<open>tx_iff\<close> turns a successful run of a composed transaction into the chain of its
  successful steps; \<open>tx_eval\<close> evaluates a transaction on a concrete state.
\<close>

named_theorems tx_iff
named_theorems tx_eval

lemma returnT_Inr [tx_iff]: "returnT x s = Inr (y, t) \<longleftrightarrow> y = x \<and> t = s"
  by (auto simp: returnT_def)

lemma throwT_Inr [tx_iff]: "throwT e s = Inr (y, t) \<longleftrightarrow> False"
  by (simp add: throwT_def)

lemma bindT_Inr [tx_iff]:
  "bindT m f s = Inr (y, t) \<longleftrightarrow> (\<exists>x u. m s = Inr (x, u) \<and> f x u = Inr (y, t))"
  by (auto simp: bindT_def split: sum.splits)

lemma readT_Inr [tx_iff]: "readT f s = Inr (y, t) \<longleftrightarrow> y = f s \<and> t = s"
  by (auto simp: readT_def)

lemma writeT_Inr [tx_iff]: "writeT g s = Inr (y, t) \<longleftrightarrow> t = g s"
  by (auto simp: writeT_def)

lemma throwIf_Inr [tx_iff]: "throwIf b e s = Inr (y, t) \<longleftrightarrow> \<not> b \<and> t = s"
  by (auto simp: throwIf_def returnT_def throwT_def)

lemma requireT_Inr [tx_iff]: "requireT x e s = Inr (y, t) \<longleftrightarrow> x = Some y \<and> t = s"
  by (auto simp: requireT_def returnT_def throwT_def split: option.splits)

lemma catchUnique_Inr [tx_iff]:
  "catchUnique m h s = Inr (y, t) \<longleftrightarrow>
     m s = Inr (y, t) \<or> (m s = Inl UniqueConstraintViolation \<and> h s = Inr (y, t))"
  by (auto simp: catchUnique_def split: sum.splits)

lemma if_tx_Inr [tx_iff]:
  "(if b then m else m') s = Inr (y, t) \<longleftrightarrow> (b \<and> m s = Inr (y, t)) \<or> (\<not> b \<and> m' s = Inr (y, t))"
  by simp

lemmas tx_defs [tx_eval] = returnT_def throwT_def bindT_def readT_def writeT_def
  throwIf_def requireT_def catchUnique_def

lemma bindT_Inl: "m s = Inl e \<Longrightarrow> bindT m f s = Inl e"
  by (simp add: bindT_def)

lemma bindT_returnT [simp]: "bindT (returnT x) f = f x"
  by (rule ext) (simp add: bindT_def returnT_def)

lemma bindT_assoc: "bindT (bindT m f) g = bindT m (\<lambda>x. bindT (f x) g)"
  by (rule ext) (auto simp: bindT_def split: sum.splits)

text \<open>A predicate on states that every successful run of a transaction keeps.\<close>

definition keeps :: "('s \<Rightarrow> bool) \<Rightarrow> ('s, 'a) tx \<Rightarrow> bool" where
  "keeps P m \<longleftrightarrow> (\<forall>s x t. P s \<longrightarrow> m s = Inr (x, t) \<longrightarrow> P t)"

named_theorems keeps_intro

lemma keepsD: "keeps P m \<Longrightarrow> m s = Inr (x, t) \<Longrightarrow> P s \<Longrightarrow> P t"
  by (auto simp: keeps_def)

lemma keeps_returnT [keeps_intro]: "keeps P (returnT x)"
  by (simp add: keeps_def returnT_def)

lemma keeps_throwT [keeps_intro]: "keeps P (throwT e)"
  by (simp add: keeps_def throwT_def)

lemma keeps_readT [keeps_intro]: "keeps P (readT f)"
  by (simp add: keeps_def readT_def)

lemma keeps_throwIf [keeps_intro]: "keeps P (throwIf b e)"
  by (simp add: keeps_def throwIf_Inr)

lemma keeps_requireT [keeps_intro]: "keeps P (requireT x e)"
  by (simp add: keeps_def requireT_Inr)

lemma keeps_bindT [keeps_intro]:
  assumes "keeps P m" "\<And>x. keeps P (f x)"
  shows "keeps P (bindT m f)"
  unfolding keeps_def
proof (intro allI impI)
  fix s y t
  assume "P s" "bindT m f s = Inr (y, t)"
  then obtain x u where "m s = Inr (x, u)" "f x u = Inr (y, t)"
    unfolding bindT_Inr by blast
  with assms \<open>P s\<close> show "P t" by (meson keepsD)
qed

lemma keeps_if [keeps_intro]: "keeps P m \<Longrightarrow> keeps P m' \<Longrightarrow> keeps P (if b then m else m')"
  by simp

section \<open>Decimal columns\<close>

text \<open>
  A \<open>Decimal(36, 18)\<close> is an integer count of \<open>10 ^ -18\<close> units; the request
  validators admit at most 18 fractional digits, so amounts enter the services exactly.
  PostgreSQL rejects a write whose value needs more than 36 digits.
\<close>

type_synonym decimal = int

definition decimal_limit :: int where
  "decimal_limit = 10 ^ 36"

definition fits_decimal :: "decimal \<Rightarrow> bool" where
  "fits_decimal x \<longleftrightarrow> - decimal_limit < x \<and> x < decimal_limit"

section \<open>Strings\<close>

text \<open>The decimal rendering of a JavaScript template literal's integer.\<close>

definition digit_char :: "nat \<Rightarrow> char" where
  "digit_char d = ''0123456789'' ! d"

fun show_nat :: "nat \<Rightarrow> string" where
  "show_nat n = (if n < 10 then [digit_char n] else show_nat (n div 10) @ [digit_char (n mod 10)])"

declare show_nat.simps [simp del]

text \<open>Identifiers of rows (\<open>cuid()\<close>s) contain no colon, the separator of ledger keys.\<close>

definition no_colon :: "string \<Rightarrow> bool" where
  "no_colon x \<longleftrightarrow> CHR '':'' \<notin> set x"

definition colon_key :: "string \<Rightarrow> string \<Rightarrow> string \<Rightarrow> string" where
  "colon_key p x y = p @ '':'' @ x @ '':'' @ y"

lemma split_at_sep:
  assumes "c \<notin> set xs" "c \<notin> set xs'" "xs @ c # ys = xs' @ c # ys'"
  shows "xs = xs' \<and> ys = ys'"
  using assms
proof (induction xs arbitrary: xs')
  case Nil
  then show ?case by (cases xs') auto
next
  case (Cons a xs)
  then show ?case by (cases xs') auto
qed

lemma colon_key_prefix:
  assumes "no_colon p" "no_colon p'" "colon_key p x y = colon_key p' x' y'"
  shows "p = p'"
  using split_at_sep [of "CHR '':''" p p' "x @ '':'' @ y" "x' @ '':'' @ y'"] assms
  by (simp add: no_colon_def colon_key_def)

lemma colon_key_eq_iff:
  assumes "no_colon p" "no_colon p'" "no_colon x" "no_colon x'"
  shows "colon_key p x y = colon_key p' x' y' \<longleftrightarrow> p = p' \<and> x = x' \<and> y = y'"
proof
  assume eq: "colon_key p x y = colon_key p' x' y'"
  with assms have p: "p = p'" by (blast dest: colon_key_prefix)
  with eq have "x @ '':'' @ y = x' @ '':'' @ y'" by (simp add: colon_key_def)
  with assms have "x = x' \<and> y = y'"
    using split_at_sep [of "CHR '':''" x x' y y'] by (simp add: no_colon_def)
  with p show "p = p' \<and> x = x' \<and> y = y'" by simp
qed simp

lemma digit_char_no_colon: "d < 10 \<Longrightarrow> digit_char d \<noteq> CHR '':''"
  by (auto simp: digit_char_def less_Suc_eq numeral_eq_Suc)

lemma no_colon_show_nat: "no_colon (show_nat n)"
proof (induction n rule: show_nat.induct)
  case (1 n)
  show ?case
  proof (cases "n < 10")
    case True
    then show ?thesis
      using digit_char_no_colon [of n] by (subst show_nat.simps) (auto simp: no_colon_def)
  next
    case False
    with 1 have "no_colon (show_nat (n div 10))" by simp
    with False show ?thesis
      using digit_char_no_colon [of "n mod 10"]
      by (subst show_nat.simps) (auto simp: no_colon_def)
  qed
qed

section \<open>Sums over lists of rows\<close>

lemma sum_list_all_zero: "\<forall>x\<in>set xs. f x = 0 \<Longrightarrow> sum_list (map f xs) = 0"
  for f :: "'a \<Rightarrow> int"
  by (induction xs) auto

lemma find_None_iff_all: "find P xs = None \<longleftrightarrow> (\<forall>x\<in>set xs. \<not> P x)"
  by (auto simp: find_None_iff)

lemma find_SomeD: "find P xs = Some x \<Longrightarrow> x \<in> set xs \<and> P x"
  by (auto simp: find_Some_iff)

end
