(* ===== verification/Schema.thy ===== *)
theory Schema
  imports Bank_Prelude
begin

text \<open>
  The tables of \<open>apps/api/prisma/schema.prisma\<close> that the modelled services read and
  write: enums as datatypes, models as records (the columns the services use), a table with
  a unique key as a map from that key, a table that is only searched or appended to as a
  list in insertion order. The whole database is the record \<open>db\<close>; it also holds what
  the runtime supplies, the clock and the generator behind \<open>@default(cuid())\<close>.
\<close>

section \<open>Enums\<close>

datatype ledger_account_type =
    asset_inbound_clearing
  | asset_outbound_clearing
  | customer_asset_liability
  | customer_asset_pending_withdrawal_liability
  | customer_asset_pending_internal_transfer_liability
  | customer_retirement_vault_liability
  | loan_principal_receivable
  | loan_service_fee_receivable
  | loan_service_fee_income
  | loan_collateral_custody
  | loan_liquidation_clearing

datatype ledger_journal_type =
    deposit_settlement
  | withdrawal_reservation
  | withdrawal_reservation_release
  | withdrawal_settlement
  | internal_balance_transfer_reservation
  | internal_balance_transfer_reservation_release
  | internal_balance_transfer_settlement
  | retirement_vault_funding
  | retirement_vault_release
  | loan_disbursement
  | loan_repayment
  | loan_service_fee_accrual
  | loan_collateral_lock
  | loan_collateral_release
  | loan_liquidation

datatype ledger_posting_direction = debit | credit

text \<open>
  The enums of the service tables; their values are written qualified, as in the source
  (\<open>TransactionIntentStatus.broadcast\<close>), because several enums share value names.
\<close>

datatype AccountLifecycleStatus =
  registered | email_verified | review_required | active | restricted | frozen | closed

datatype WalletStatus = pending | active | restricted | archived

datatype AssetStatus = active | disabled

datatype TransactionIntentType =
    deposit
  | withdrawal
  | internal_balance_transfer
  | vault_subscription
  | vault_redemption
  | treasury_transfer
  | adjustment

datatype TransactionIntentStatus =
    requested
  | review_required
  | approved
  | queued
  | broadcast
  | confirmed
  | settled
  | failed
  | cancelled
  | manually_resolved

datatype PolicyDecision = pending | approved | denied | review_required

datatype BlockchainTransactionStatus =
  created | signed | broadcast | confirmed | failed | replaced | dropped

datatype WithdrawalExecutionFailureCategory = retryable | permanent | manual_intervention_required

datatype ReviewCaseStatus = "open" | in_progress | resolved | dismissed

datatype ReviewCaseType =
    account_review
  | withdrawal_review
  | internal_balance_transfer_review
  | reconciliation_review
  | manual_intervention

datatype ReviewCaseEventType =
    opened
  | started
  | note_added
  | handed_off
  | manual_resolution_applied
  | account_release_requested
  | account_release_approved
  | account_release_denied
  | resolved
  | dismissed

section \<open>Rows\<close>

record ledger_account =
  la_id :: string
  la_ledgerKey :: string
  la_accountType :: ledger_account_type
  la_chainId :: nat
  la_assetId :: string
  la_customerAccountId :: "string option"

record ledger_journal =
  lj_id :: string
  lj_transactionIntentId :: "string option"
  lj_loanAgreementId :: "string option"
  lj_loanRepaymentEventId :: "string option"
  lj_journalType :: ledger_journal_type
  lj_chainId :: nat
  lj_assetId :: string
  lj_postedAt :: int

record ledger_posting =
  lp_ledgerJournalId :: string
  lp_ledgerAccountId :: string
  lp_direction :: ledger_posting_direction
  lp_amount :: decimal

record customer_asset_balance =
  cab_availableBalance :: decimal
  cab_pendingBalance :: decimal

record retirement_vault =
  rv_customerAccountId :: string
  rv_assetId :: string
  rv_lockedBalance :: decimal
  rv_fundedAt :: "int option"
  rv_lastFundedAt :: "int option"

text \<open>
  A customer account joined with its customer (\<open>customerId\<close> is unique, so the join is one
  to one), wallets and assets. The modelled services only read these three tables.
\<close>

record customer_account =
  ca_id :: string
  ca_status :: AccountLifecycleStatus
  ca_customerId :: string
  ca_supabaseUserId :: string
  ca_email :: string
  ca_firstName :: "string option"
  ca_lastName :: "string option"

record wallet =
  wa_id :: string
  wa_customerAccountId :: "string option"
  wa_chainId :: nat
  wa_address :: string
  wa_status :: WalletStatus

record asset =
  as_id :: string
  as_chainId :: nat
  as_symbol :: string
  as_status :: AssetStatus

record transaction_intent =
  ti_id :: string
  ti_customerAccountId :: "string option"
  ti_recipientCustomerAccountId :: "string option"
  ti_assetId :: string
  ti_sourceWalletId :: "string option"
  ti_destinationWalletId :: "string option"
  ti_externalAddress :: "string option"
  ti_recipientMaskedEmail :: "string option"
  ti_recipientMaskedDisplay :: "string option"
  ti_chainId :: nat
  ti_intentType :: TransactionIntentType
  ti_status :: TransactionIntentStatus
  ti_policyDecision :: PolicyDecision
  ti_requestedAmount :: decimal
  ti_settledAmount :: "decimal option"
  ti_idempotencyKey :: string
  ti_failureCode :: "string option"
  ti_failureReason :: "string option"
  ti_executionFailureCategory :: "WithdrawalExecutionFailureCategory option"
  ti_executionFailureObservedAt :: "int option"
  ti_executionClaimedAt :: "int option"
  ti_executionClaimedByWorkerId :: "string option"
  ti_manualInterventionRequiredAt :: "int option"
  ti_manualInterventionReviewCaseId :: "string option"

record blockchain_transaction =
  bt_id :: string
  bt_transactionIntentId :: string
  bt_chainId :: nat
  bt_txHash :: "string option"
  bt_nonce :: "int option"
  bt_serializedTransaction :: "string option"
  bt_status :: BlockchainTransactionStatus
  bt_fromAddress :: "string option"
  bt_toAddress :: "string option"
  bt_broadcastAt :: "int option"
  bt_confirmedAt :: "int option"

record deposit_settlement_proof =
  dp_id :: string
  dp_transactionIntentId :: string
  dp_blockchainTransactionId :: string
  dp_ledgerJournalId :: string
  dp_assetId :: string
  dp_chainId :: nat
  dp_txHash :: string
  dp_fromAddress :: string
  dp_toAddress :: string
  dp_settledAmount :: decimal
  dp_confirmedAt :: int

record review_case =
  rc_id :: string
  rc_customerId :: "string option"
  rc_customerAccountId :: "string option"
  rc_transactionIntentId :: "string option"
  rc_type :: ReviewCaseType
  rc_status :: ReviewCaseStatus
  rc_reasonCode :: "string option"
  rc_notes :: "string option"
  rc_assignedOperatorId :: "string option"
  rc_resolvedAt :: "int option"

record review_case_event =
  re_id :: string
  re_reviewCaseId :: string
  re_actorType :: string
  re_actorId :: "string option"
  re_eventType :: ReviewCaseEventType
  re_note :: "string option"

text \<open>
  Of an audit event's metadata the model keeps the status transition it reports
  (\<open>previousStatus\<close>, \<open>newStatus\<close>); the rest repeats columns of other rows.
\<close>

record audit_event =
  ae_id :: string
  ae_customerId :: "string option"
  ae_actorType :: string
  ae_actorId :: "string option"
  ae_action :: string
  ae_targetType :: string
  ae_targetId :: "string option"
  ae_previousStatus :: "TransactionIntentStatus option"
  ae_newStatus :: "TransactionIntentStatus option"

datatype SolvencyPolicyStateStatus = normal | guarded | paused

text \<open>The policy row of the environment; \<open>sp_updatedAt\<close> is set by every write (\<open>@updatedAt\<close>).\<close>

record solvency_policy_state =
  sp_status :: SolvencyPolicyStateStatus
  sp_pauseWithdrawalApprovals :: bool
  sp_pauseManagedWithdrawalExecution :: bool
  sp_pauseLoanFunding :: bool
  sp_pauseStakingWrites :: bool
  sp_requireManualOperatorReview :: bool
  sp_latestSnapshotId :: "string option"
  sp_triggeredAt :: "int option"
  sp_clearedAt :: "int option"
  sp_reasonCode :: "string option"
  sp_reasonSummary :: "string option"
  sp_manualResumeRequired :: bool
  sp_manualResumeRequestedAt :: "int option"
  sp_manualResumeApprovedAt :: "int option"
  sp_manualResumeApprovedByOperatorId :: "string option"
  sp_manualResumeApprovedByOperatorRole :: "string option"
  sp_updatedAt :: int

section \<open>The database\<close>

record db =
  cuid_of :: "nat \<Rightarrow> string"
  cuid_count :: nat
  now_ms :: int
  ledgerAccounts :: "string \<rightharpoonup> ledger_account"
  ledgerJournals :: "ledger_journal list"
  ledgerPostings :: "ledger_posting list"
  customerAssetBalances :: "string \<times> string \<rightharpoonup> customer_asset_balance"
  retirementVaults :: "string \<rightharpoonup> retirement_vault"
  customerAccounts :: "customer_account list"
  wallets :: "wallet list"
  assets :: "asset list"
  transactionIntents :: "transaction_intent list"
  blockchainTransactions :: "blockchain_transaction list"
  depositSettlementProofs :: "deposit_settlement_proof list"
  reviewCases :: "review_case list"
  reviewCaseEvents :: "review_case_event list"
  auditEvents :: "audit_event list"
  solvencyPolicyState :: "solvency_policy_state option"

type_synonym 'a dbtx = "(db, 'a) tx"

text \<open>A fresh identifier: the next one of the generator, never handed out again.\<close>

definition cuid :: "string dbtx" where
  "cuid = (\<lambda>s. Inr (cuid_of s (cuid_count s), s\<lparr>cuid_count := Suc (cuid_count s)\<rparr>))"

definition allocated :: "db \<Rightarrow> string \<Rightarrow> bool" where
  "allocated s i \<longleftrightarrow> (\<exists>n < cuid_count s. i = cuid_of s n)"

text \<open>\<open>new Date()\<close>: the clock, in milliseconds.\<close>

definition new_Date :: "int dbtx" where
  "new_Date = readT now_ms"

text \<open>A database without rows, for a given generator and clock.\<close>

definition empty_db :: "(nat \<Rightarrow> string) \<Rightarrow> int \<Rightarrow> db" where
  "empty_db gen now =
     \<lparr>cuid_of = gen, cuid_count = 0, now_ms = now, ledgerAccounts = Map.empty, ledgerJournals = [],
      ledgerPostings = [], customerAssetBalances = Map.empty, retirementVaults = Map.empty,
      customerAccounts = [], wallets = [], assets = [], transactionIntents = [],
      blockchainTransactions = [], depositSettlementProofs = [], reviewCases = [],
      reviewCaseEvents = [], auditEvents = [], solvencyPolicyState = None\<rparr>"

lemma new_Date_Inr [tx_iff]: "new_Date s = Inr (y, t) \<longleftrightarrow> y = now_ms s \<and> t = s"
  by (simp add: new_Date_def tx_iff)

lemma cuid_Inr:
  "cuid s = Inr (i, t) \<longleftrightarrow> i = cuid_of s (cuid_count s) \<and> t = s\<lparr>cuid_count := Suc (cuid_count s)\<rparr>"
  by (auto simp: cuid_def)

lemma cuid_fresh: "inj (cuid_of s) \<Longrightarrow> \<not> allocated s (cuid_of s (cuid_count s))"
  by (auto simp: allocated_def dest: injD)

end
