(* ===== verification/Ledger_Tables.thy ===== *)
theory Ledger_Tables
  imports Schema
begin

text \<open>
  The Prisma calls the ledger makes, as transactions over \<^typ>\<open>db\<close>: \<open>upsert\<close> and
  \<open>create\<close> on the ledger tables with the unique constraints of the schema, conditional
  \<open>updateMany\<close>s and \<open>findUnique\<close>s on balances and vaults. Then the quantities the
  ledger is judged by (the net credit of an account and the sum of a journal) and, for each
  call, what it does to them.
\<close>

section \<open>Calls on the ledger tables\<close>

definition ledgerAccount_upsert ::
  "string \<Rightarrow> ledger_account_type \<Rightarrow> nat \<Rightarrow> string \<Rightarrow> string option \<Rightarrow> ledger_account dbtx" where
  "ledgerAccount_upsert key ty chain asset customer =
     (\<lambda>s. case ledgerAccounts s key of
            Some a \<Rightarrow> Inr (a, s)
          | None \<Rightarrow>
              bindT cuid (\<lambda>i.
                let a = \<lparr>la_id = i, la_ledgerKey = key, la_accountType = ty, la_chainId = chain,
                         la_assetId = asset, la_customerAccountId = customer\<rparr>
                in bindT (writeT (\<lambda>s. s\<lparr>ledgerAccounts := (ledgerAccounts s)(key \<mapsto> a)\<rparr>))
                     (\<lambda>_. returnT a)) s)"

text \<open>A \<open>NULL\<close> in a unique key never conflicts.\<close>

definition same_key :: "string option \<Rightarrow> string option \<Rightarrow> bool" where
  "same_key x y \<longleftrightarrow> x \<noteq> None \<and> x = y"

definition journal_conflict ::
  "string option \<Rightarrow> string option \<Rightarrow> string option \<Rightarrow> ledger_journal_type \<Rightarrow> ledger_journal \<Rightarrow> bool" where
  "journal_conflict intent agreement event ty j \<longleftrightarrow>
     lj_journalType j = ty \<and>
     (same_key (lj_transactionIntentId j) intent \<or>
      same_key (lj_loanAgreementId j) agreement \<or>
      same_key (lj_loanRepaymentEventId j) event)"

definition ledgerJournal_create ::
  "string option \<Rightarrow> string option \<Rightarrow> string option \<Rightarrow> ledger_journal_type \<Rightarrow> nat \<Rightarrow> string
     \<Rightarrow> ledger_journal dbtx" where
  "ledgerJournal_create intent agreement event ty chain asset =
     bindT (readT ledgerJournals) (\<lambda>js.
     bindT (throwIf (\<exists>j\<in>set js. journal_conflict intent agreement event ty j)
       UniqueConstraintViolation) (\<lambda>_.
     bindT new_Date (\<lambda>now.
     bindT cuid (\<lambda>i.
       let j = \<lparr>lj_id = i, lj_transactionIntentId = intent, lj_loanAgreementId = agreement,
                lj_loanRepaymentEventId = event, lj_journalType = ty, lj_chainId = chain,
                lj_assetId = asset, lj_postedAt = now\<rparr>
       in bindT (writeT (\<lambda>s. s\<lparr>ledgerJournals := ledgerJournals s @ [j]\<rparr>)) (\<lambda>_. returnT j)))))"

definition ledgerPosting_createMany :: "ledger_posting list \<Rightarrow> unit dbtx" where
  "ledgerPosting_createMany ps =
     bindT (throwIf (\<exists>p\<in>set ps. \<not> fits_decimal (lp_amount p)) NumericFieldOverflow) (\<lambda>_.
       writeT (\<lambda>s. s\<lparr>ledgerPostings := ledgerPostings s @ ps\<rparr>))"

definition posting :: "ledger_journal \<Rightarrow> ledger_account \<Rightarrow> ledger_posting_direction \<Rightarrow> decimal \<Rightarrow> ledger_posting" where
  "posting j a dir x =
     \<lparr>lp_ledgerJournalId = lj_id j, lp_ledgerAccountId = la_id a, lp_direction = dir, lp_amount = x\<rparr>"

section \<open>Calls on balances and vaults\<close>

definition fits_balance :: "customer_asset_balance \<Rightarrow> bool" where
  "fits_balance b \<longleftrightarrow> fits_decimal (cab_availableBalance b) \<and> fits_decimal (cab_pendingBalance b)"

definition customerAssetBalance_put :: "string \<Rightarrow> string \<Rightarrow> customer_asset_balance \<Rightarrow> unit dbtx" where
  "customerAssetBalance_put customer asset b =
     bindT (throwIf (\<not> fits_balance b) NumericFieldOverflow) (\<lambda>_.
       writeT (\<lambda>s. s\<lparr>customerAssetBalances := (customerAssetBalances s)((customer, asset) \<mapsto> b)\<rparr>))"

definition customerAssetBalance_findUnique :: "string \<Rightarrow> string \<Rightarrow> customer_asset_balance option dbtx" where
  "customerAssetBalance_findUnique customer asset =
     readT (\<lambda>s. customerAssetBalances s (customer, asset))"

text \<open>\<open>upsert\<close> with \<open>create: {available: x, pending: 0}\<close> and \<open>update: {available: increment x}\<close>.\<close>

definition customerAssetBalance_credit :: "string \<Rightarrow> string \<Rightarrow> decimal \<Rightarrow> customer_asset_balance dbtx" where
  "customerAssetBalance_credit customer asset x =
     bindT (customerAssetBalance_findUnique customer asset) (\<lambda>row.
       let b = (case row of
                  None \<Rightarrow> \<lparr>cab_availableBalance = x, cab_pendingBalance = 0\<rparr>
                | Some b \<Rightarrow> b\<lparr>cab_availableBalance := cab_availableBalance b + x\<rparr>)
       in bindT (customerAssetBalance_put customer asset b) (\<lambda>_. returnT b))"

text \<open>
  \<open>updateMany\<close> on the row of \<open>(customer, asset)\<close>, guarded by a condition on it: the
  count of rows updated, which the unique key makes 0 or 1.
\<close>

definition customerAssetBalance_updateMany ::
  "string \<Rightarrow> string \<Rightarrow> (customer_asset_balance \<Rightarrow> bool)
     \<Rightarrow> (customer_asset_balance \<Rightarrow> customer_asset_balance) \<Rightarrow> nat dbtx" where
  "customerAssetBalance_updateMany customer asset guard upd =
     bindT (customerAssetBalance_findUnique customer asset) (\<lambda>row.
       case row of
         None \<Rightarrow> returnT 0
       | Some b \<Rightarrow>
           if guard b
           then bindT (customerAssetBalance_put customer asset (upd b)) (\<lambda>_. returnT 1)
           else returnT 0)"

definition retirementVault_findUnique :: "string \<Rightarrow> retirement_vault option dbtx" where
  "retirementVault_findUnique v = readT (\<lambda>s. retirementVaults s v)"

definition retirementVault_put :: "string \<Rightarrow> retirement_vault \<Rightarrow> unit dbtx" where
  "retirementVault_put v row =
     bindT (throwIf (\<not> fits_decimal (rv_lockedBalance row)) NumericFieldOverflow) (\<lambda>_.
       writeT (\<lambda>s. s\<lparr>retirementVaults := (retirementVaults s)(v \<mapsto> row)\<rparr>))"

definition retirementVault_update ::
  "string \<Rightarrow> (retirement_vault \<Rightarrow> retirement_vault) \<Rightarrow> retirement_vault dbtx" where
  "retirementVault_update v upd =
     bindT (retirementVault_findUnique v) (\<lambda>row.
     bindT (requireT row RecordNotFound) (\<lambda>old.
     bindT (retirementVault_put v (upd old)) (\<lambda>_. returnT (upd old))))"

definition retirementVault_updateMany ::
  "string \<Rightarrow> (retirement_vault \<Rightarrow> bool) \<Rightarrow> (retirement_vault \<Rightarrow> retirement_vault) \<Rightarrow> nat dbtx" where
  "retirementVault_updateMany v guard upd =
     bindT (retirementVault_findUnique v) (\<lambda>row.
       case row of
         None \<Rightarrow> returnT 0
       | Some old \<Rightarrow>
           if guard old then bindT (retirementVault_put v (upd old)) (\<lambda>_. returnT 1)
           else returnT 0)"

section \<open>What the ledger is judged by\<close>

definition credit_effect :: "ledger_posting \<Rightarrow> decimal" where
  "credit_effect p = (case lp_direction p of credit \<Rightarrow> lp_amount p | debit \<Rightarrow> - lp_amount p)"

text \<open>Credits minus debits posted to an account, and the same over one journal.\<close>

definition account_net :: "ledger_posting list \<Rightarrow> string \<Rightarrow> decimal" where
  "account_net ps i = sum_list (map credit_effect (filter (\<lambda>p. lp_ledgerAccountId p = i) ps))"

definition journal_sum :: "ledger_posting list \<Rightarrow> string \<Rightarrow> decimal" where
  "journal_sum ps i = sum_list (map credit_effect (filter (\<lambda>p. lp_ledgerJournalId p = i) ps))"

definition key_net :: "db \<Rightarrow> string \<Rightarrow> decimal" where
  "key_net s k = (case ledgerAccounts s k of None \<Rightarrow> 0 | Some a \<Rightarrow> account_net (ledgerPostings s) (la_id a))"

definition available :: "db \<Rightarrow> string \<Rightarrow> string \<Rightarrow> decimal" where
  "available s c a = (case customerAssetBalances s (c, a) of None \<Rightarrow> 0 | Some b \<Rightarrow> cab_availableBalance b)"

definition pending :: "db \<Rightarrow> string \<Rightarrow> string \<Rightarrow> decimal" where
  "pending s c a = (case customerAssetBalances s (c, a) of None \<Rightarrow> 0 | Some b \<Rightarrow> cab_pendingBalance b)"

definition locked :: "db \<Rightarrow> string \<Rightarrow> decimal" where
  "locked s v = (case retirementVaults s v of None \<Rightarrow> 0 | Some r \<Rightarrow> rv_lockedBalance r)"

text \<open>
  Well-formed ledger tables: the generator never repeats an identifier, every row's
  identifier came from it, accounts sit under their own key and do not share an identifier,
  journals do not share one either, and every posting belongs to a journal of the table.
\<close>

definition ledger_wf :: "db \<Rightarrow> bool" where
  "ledger_wf s \<longleftrightarrow>
     inj (cuid_of s) \<and>
     (\<forall>k a. ledgerAccounts s k = Some a \<longrightarrow> la_ledgerKey a = k \<and> allocated s (la_id a)) \<and>
     (\<forall>k k' a a'. ledgerAccounts s k = Some a \<longrightarrow> ledgerAccounts s k' = Some a' \<longrightarrow>
        la_id a = la_id a' \<longrightarrow> k = k') \<and>
     (\<forall>p\<in>set (ledgerPostings s). allocated s (lp_ledgerAccountId p) \<and>
        lp_ledgerJournalId p \<in> lj_id ` set (ledgerJournals s)) \<and>
     (\<forall>j\<in>set (ledgerJournals s). allocated s (lj_id j)) \<and>
     distinct (map lj_id (ledgerJournals s))"

definition journals_balanced :: "db \<Rightarrow> bool" where
  "journals_balanced s \<longleftrightarrow> (\<forall>j\<in>set (ledgerJournals s). journal_sum (ledgerPostings s) (lj_id j) = 0)"

section \<open>What each call does to them\<close>

lemma account_net_append: "account_net (ps @ qs) i = account_net ps i + account_net qs i"
  by (simp add: account_net_def)

lemma journal_sum_append: "journal_sum (ps @ qs) i = journal_sum ps i + journal_sum qs i"
  by (simp add: journal_sum_def)

lemma account_net_absent: "\<forall>p\<in>set ps. lp_ledgerAccountId p \<noteq> i \<Longrightarrow> account_net ps i = 0"
  by (induction ps) (auto simp: account_net_def)

lemma journal_sum_absent: "\<forall>p\<in>set ps. lp_ledgerJournalId p \<noteq> i \<Longrightarrow> journal_sum ps i = 0"
  by (induction ps) (auto simp: journal_sum_def)

lemma credit_effect_posting [simp]:
  "credit_effect (posting j a debit x) = - x" "credit_effect (posting j a credit x) = x"
  by (simp_all add: credit_effect_def posting_def)

lemma posting_sel [simp]:
  "lp_ledgerJournalId (posting j a d x) = lj_id j" "lp_ledgerAccountId (posting j a d x) = la_id a"
  "lp_amount (posting j a d x) = x"
  by (simp_all add: posting_def)

text \<open>The tables a call may leave alone.\<close>

definition same_money :: "db \<Rightarrow> db \<Rightarrow> bool" where
  "same_money s t \<longleftrightarrow> customerAssetBalances t = customerAssetBalances s \<and>
     retirementVaults t = retirementVaults s"

definition same_books :: "db \<Rightarrow> db \<Rightarrow> bool" where
  "same_books s t \<longleftrightarrow> cuid_of t = cuid_of s \<and> cuid_count t = cuid_count s \<and>
     ledgerAccounts t = ledgerAccounts s \<and> ledgerJournals t = ledgerJournals s \<and>
     ledgerPostings t = ledgerPostings s"

lemma same_books_key_net: "same_books s t \<Longrightarrow> key_net t k = key_net s k"
  by (simp add: same_books_def key_net_def split: option.splits)

lemma same_books_wf: "same_books s t \<Longrightarrow> ledger_wf t = ledger_wf s"
  by (simp add: same_books_def ledger_wf_def allocated_def)

lemma same_books_balanced: "same_books s t \<Longrightarrow> journals_balanced t = journals_balanced s"
  by (simp add: same_books_def journals_balanced_def)

lemma same_money_balances:
  "same_money s t \<Longrightarrow> available t c a = available s c a"
  "same_money s t \<Longrightarrow> pending t c a = pending s c a"
  "same_money s t \<Longrightarrow> locked t v = locked s v"
  by (simp_all add: same_money_def available_def pending_def locked_def)

text \<open>
  A step outside the ledger: it may write other tables, allocate identifiers and advance the
  clock.
\<close>

definition off_ledger :: "db \<Rightarrow> db \<Rightarrow> bool" where
  "off_ledger s t \<longleftrightarrow> cuid_of t = cuid_of s \<and> cuid_count s \<le> cuid_count t \<and>
     ledgerAccounts t = ledgerAccounts s \<and> ledgerJournals t = ledgerJournals s \<and>
     ledgerPostings t = ledgerPostings s \<and> same_money s t"

lemma off_ledger_refl [simp]: "off_ledger s s"
  by (simp add: off_ledger_def same_money_def)

lemma off_ledger_trans: "off_ledger s t \<Longrightarrow> off_ledger t u \<Longrightarrow> off_ledger s u"
  by (auto simp: off_ledger_def same_money_def)

lemma off_ledger_allocated: "off_ledger s t \<Longrightarrow> allocated s i \<Longrightarrow> allocated t i"
  unfolding off_ledger_def allocated_def by (metis order.strict_trans2)

lemma off_ledger_wf: "off_ledger s t \<Longrightarrow> ledger_wf s \<Longrightarrow> ledger_wf t"
  unfolding ledger_wf_def using off_ledger_allocated [of s t]
  by (auto simp: off_ledger_def)

lemma off_ledger_key_net: "off_ledger s t \<Longrightarrow> key_net t k = key_net s k"
  by (simp add: off_ledger_def key_net_def split: option.splits)

lemma off_ledger_balanced: "off_ledger s t \<Longrightarrow> journals_balanced t = journals_balanced s"
  by (simp add: off_ledger_def journals_balanced_def)

lemma off_ledger_money:
  "off_ledger s t \<Longrightarrow> available t c a = available s c a"
  "off_ledger s t \<Longrightarrow> pending t c a = pending s c a"
  "off_ledger s t \<Longrightarrow> locked t v = locked s v"
  by (simp_all add: off_ledger_def same_money_balances)

subsection \<open>Opening an account\<close>

lemma ledgerAccount_upsert_cases:
  assumes "ledgerAccount_upsert key ty chain asset customer s = Inr (a, t)"
  shows "(ledgerAccounts s key = Some a \<and> t = s) \<or>
    (ledgerAccounts s key = None \<and>
     a = \<lparr>la_id = cuid_of s (cuid_count s), la_ledgerKey = key, la_accountType = ty,
          la_chainId = chain, la_assetId = asset, la_customerAccountId = customer\<rparr> \<and>
     t = s\<lparr>cuid_count := Suc (cuid_count s), ledgerAccounts := (ledgerAccounts s)(key \<mapsto> a)\<rparr>)"
  using assms
  by (auto simp: ledgerAccount_upsert_def tx_iff cuid_Inr Let_def split: option.splits)

text \<open>
  \<open>opens s t\<close>: \<open>t\<close> has the money, journals and postings of \<open>s\<close> and at least
  its accounts, each with the same net credit.
\<close>

definition opens :: "db \<Rightarrow> db \<Rightarrow> bool" where
  "opens s t \<longleftrightarrow> same_money s t \<and> ledgerJournals t = ledgerJournals s \<and>
     ledgerPostings t = ledgerPostings s \<and> (\<forall>k. key_net t k = key_net s k) \<and>
     ledgerAccounts s \<subseteq>\<^sub>m ledgerAccounts t"

lemma opens_refl: "opens s s"
  by (simp add: opens_def same_money_def)

lemma opens_trans: "opens s t \<Longrightarrow> opens t u \<Longrightarrow> opens s u"
  by (auto simp: opens_def same_money_def intro: map_le_trans)

lemma opens_balanced: "opens s t \<Longrightarrow> journals_balanced t = journals_balanced s"
  by (simp add: opens_def journals_balanced_def)

lemma allocated_Suc:
  "allocated (s\<lparr>cuid_count := Suc (cuid_count s)\<rparr>) i \<longleftrightarrow> allocated s i \<or> i = cuid_of s (cuid_count s)"
  by (auto simp: allocated_def less_Suc_eq)

lemma allocated_upd [simp]:
  "allocated (s\<lparr>ledgerAccounts := x\<rparr>) i = allocated s i"
  "allocated (s\<lparr>ledgerJournals := y\<rparr>) i = allocated s i"
  "allocated (s\<lparr>ledgerPostings := z\<rparr>) i = allocated s i"
  by (simp_all add: allocated_def)

lemma ledgerAccount_upsert_opens:
  assumes run: "ledgerAccount_upsert key ty chain asset customer s = Inr (a, t)"
    and wf: "ledger_wf s"
  shows "opens s t" and "ledger_wf t" and "ledgerAccounts t key = Some a"
proof -
  let ?i = "cuid_of s (cuid_count s)"
  let ?t = "s\<lparr>cuid_count := Suc (cuid_count s), ledgerAccounts := (ledgerAccounts s)(key \<mapsto> a)\<rparr>"
  have "(opens s t \<and> ledger_wf t) \<and> ledgerAccounts t key = Some a"
    using ledgerAccount_upsert_cases [OF run]
  proof
    assume "ledgerAccounts s key = Some a \<and> t = s"
    with wf show ?thesis by (simp add: opens_refl)
  next
    assume new: "ledgerAccounts s key = None \<and>
      a = \<lparr>la_id = ?i, la_ledgerKey = key, la_accountType = ty, la_chainId = chain,
           la_assetId = asset, la_customerAccountId = customer\<rparr> \<and> t = ?t"
    have fresh: "\<not> allocated s ?i" using wf by (simp add: ledger_wf_def cuid_fresh)
    have "\<forall>p\<in>set (ledgerPostings s). lp_ledgerAccountId p \<noteq> ?i"
      using wf fresh by (auto simp: ledger_wf_def)
    then have "account_net (ledgerPostings s) ?i = 0" by (rule account_net_absent)
    then have "opens s t"
      using new by (auto simp: opens_def same_money_def key_net_def map_le_def split: option.splits)
    moreover have "allocated t i \<longleftrightarrow> allocated s i \<or> i = ?i" for i
      using new by (auto simp: allocated_def less_Suc_eq)
    then have "ledger_wf t"
      using new wf fresh by (auto simp: ledger_wf_def split: if_splits) (metis+)
    ultimately show ?thesis using new by simp
  qed
  then show "opens s t" and "ledger_wf t" and "ledgerAccounts t key = Some a" by simp_all
qed

subsection \<open>Writing a journal and its postings\<close>

lemma ledgerJournal_create_cases:
  assumes "ledgerJournal_create intent agreement event ty chain asset s = Inr (j, t)"
  shows "(\<forall>j'\<in>set (ledgerJournals s). \<not> journal_conflict intent agreement event ty j') \<and>
    j = \<lparr>lj_id = cuid_of s (cuid_count s), lj_transactionIntentId = intent,
         lj_loanAgreementId = agreement, lj_loanRepaymentEventId = event, lj_journalType = ty,
         lj_chainId = chain, lj_assetId = asset, lj_postedAt = now_ms s\<rparr> \<and>
    t = s\<lparr>cuid_count := Suc (cuid_count s), ledgerJournals := ledgerJournals s @ [j]\<rparr>"
  using assms by (auto simp: ledgerJournal_create_def tx_iff cuid_Inr Let_def)

lemma ledgerPosting_createMany_cases:
  assumes "ledgerPosting_createMany ps s = Inr (u, t)"
  shows "(\<forall>p\<in>set ps. fits_decimal (lp_amount p)) \<and> t = s\<lparr>ledgerPostings := ledgerPostings s @ ps\<rparr>"
  using assms by (auto simp: ledgerPosting_createMany_def tx_iff)

text \<open>
  A journal whose postings refer to it and to accounts of the database: the tables stay
  well formed, every account moves by what was posted to it, money is untouched, and the
  books stay balanced exactly when the new postings cancel.
\<close>

lemma post_journal:
  assumes wf: "ledger_wf s"
    and create: "ledgerJournal_create intent agreement event ty chain asset s = Inr (j, s1)"
    and post: "ledgerPosting_createMany ps s1 = Inr (u, t)"
    and own: "\<forall>p\<in>set ps. lp_ledgerJournalId p = lj_id j \<and>
      (\<exists>k a. ledgerAccounts s k = Some a \<and> lp_ledgerAccountId p = la_id a)"
  shows "ledger_wf t" and "same_money s t" and "ledgerAccounts t = ledgerAccounts s"
    and "ledgerJournals t = ledgerJournals s @ [j]"
    and "ledgerPostings t = ledgerPostings s @ ps"
    and "sum_list (map credit_effect ps) = 0 \<Longrightarrow> journals_balanced s \<Longrightarrow> journals_balanced t"
    and "journals_balanced t \<Longrightarrow> sum_list (map credit_effect ps) = 0"
proof -
  let ?i = "cuid_of s (cuid_count s)"
  note j = ledgerJournal_create_cases [OF create]
  note p = ledgerPosting_createMany_cases [OF post]
  from j p have t: "t = s\<lparr>cuid_count := Suc (cuid_count s),
      ledgerJournals := ledgerJournals s @ [j], ledgerPostings := ledgerPostings s @ ps\<rparr>"
    and id: "lj_id j = ?i" by simp_all
  have fresh: "\<not> allocated s ?i" using wf by (simp add: ledger_wf_def cuid_fresh)
  have alloc: "allocated t i \<longleftrightarrow> allocated s i \<or> i = ?i" for i
    using t by (auto simp: allocated_def less_Suc_eq)
  have acc: "\<forall>p\<in>set ps. allocated s (lp_ledgerAccountId p)"
    using own wf by (fastforce simp: ledger_wf_def)
  show "ledger_wf t"
    using wf own acc fresh id t alloc unfolding ledger_wf_def by auto
  show "same_money s t" and "ledgerAccounts t = ledgerAccounts s"
    and "ledgerJournals t = ledgerJournals s @ [j]"
    and posts: "ledgerPostings t = ledgerPostings s @ ps"
    using t by (simp_all add: same_money_def)
  have old0: "journal_sum (ledgerPostings s) ?i = 0"
    using wf fresh by (intro journal_sum_absent) (fastforce simp: ledger_wf_def)
  have new: "journal_sum ps ?i = sum_list (map credit_effect ps)"
    using own id by (simp add: journal_sum_def filter_True)
  have others: "lj_id j' \<noteq> ?i \<and> journal_sum ps (lj_id j') = 0" if "j' \<in> set (ledgerJournals s)" for j'
  proof -
    have "lj_id j' \<noteq> ?i" using that wf fresh by (auto simp: ledger_wf_def)
    then show ?thesis using own id by (auto intro!: journal_sum_absent)
  qed
  show "journals_balanced t" if "sum_list (map credit_effect ps) = 0" "journals_balanced s"
    using that old0 new others id t by (auto simp: journals_balanced_def journal_sum_append)
  show "sum_list (map credit_effect ps) = 0" if "journals_balanced t"
    using that old0 new id t by (simp add: journals_balanced_def journal_sum_append)
qed

text \<open>The net credit after a journal, and the two-posting journal every transfer writes.\<close>

lemma key_net_append:
  assumes "ledgerAccounts t = ledgerAccounts s" "ledgerPostings t = ledgerPostings s @ ps"
  shows "key_net t k = key_net s k + (case ledgerAccounts s k of None \<Rightarrow> 0 | Some a \<Rightarrow> account_net ps (la_id a))"
  using assms by (simp add: key_net_def account_net_append split: option.splits)

lemma account_net_posting:
  assumes "ledger_wf s" "ledgerAccounts s kx = Some x" "ledgerAccounts s k = Some a"
  shows "la_id x = la_id a \<longleftrightarrow> k = kx"
  using assms by (auto simp: ledger_wf_def)

text \<open>
  \<open>shifts f s t\<close>: from \<open>s\<close> to \<open>t\<close> the net credit of the account under each
  key changes by \<open>f\<close>. The postings of a journal, given by the keys of the accounts they
  are posted to, shift the nets by their entries.
\<close>

definition shifts :: "(string \<Rightarrow> decimal) \<Rightarrow> db \<Rightarrow> db \<Rightarrow> bool" where
  "shifts f s t \<longleftrightarrow> (\<forall>k. key_net t k = key_net s k + f k)"

definition moves :: "string \<Rightarrow> string \<Rightarrow> decimal \<Rightarrow> string \<Rightarrow> decimal" where
  "moves kd kc x k = (if k = kc then x else 0) - (if k = kd then x else 0)"

type_synonym entry = "string \<times> ledger_account \<times> ledger_posting_direction \<times> decimal"

fun entry_posting :: "ledger_journal \<Rightarrow> entry \<Rightarrow> ledger_posting" where
  "entry_posting j (k, a, d, x) = posting j a d x"

fun entry_shift :: "string \<Rightarrow> entry \<Rightarrow> decimal" where
  "entry_shift k (k', a, d, x) = (if k' = k then (case d of credit \<Rightarrow> x | debit \<Rightarrow> - x) else 0)"

definition entries_shift :: "entry list \<Rightarrow> string \<Rightarrow> decimal" where
  "entries_shift es k = sum_list (map (entry_shift k) es)"

definition entries_open :: "db \<Rightarrow> entry list \<Rightarrow> bool" where
  "entries_open s es \<longleftrightarrow> (\<forall>(k, a, d, x)\<in>set es. ledgerAccounts s k = Some a)"

lemma credit_effect_entry: "credit_effect (posting j a d x) = (case d of credit \<Rightarrow> x | debit \<Rightarrow> - x)"
  by (cases d) simp_all

lemma entries_account_net:
  assumes wf: "ledger_wf s" and k: "ledgerAccounts s k = Some a" and op: "entries_open s es"
  shows "account_net (map (entry_posting j) es) (la_id a) = entries_shift es k"
  using op
proof (induction es)
  case Nil
  then show ?case by (simp add: account_net_def entries_shift_def)
next
  case (Cons e es)
  obtain k' b d x where e: "e = (k', b, d, x)" by (cases e) auto
  with Cons.prems have b: "ledgerAccounts s k' = Some b" and rest: "entries_open s es"
    by (auto simp: entries_open_def)
  have "la_id b = la_id a \<longleftrightarrow> k' = k" using account_net_posting [OF wf b k] by auto
  with Cons.IH [OF rest] e show ?case
    by (auto simp: account_net_def entries_shift_def credit_effect_entry)
qed

lemma entries_shift_absent: "ledgerAccounts s k = None \<Longrightarrow> entries_open s es \<Longrightarrow> entries_shift es k = 0"
  by (induction es) (auto simp: entries_shift_def entries_open_def)

lemma opens_entries: "opens s t \<Longrightarrow> entries_open s es \<Longrightarrow> entries_open t es"
  by (force simp: opens_def entries_open_def map_le_def dom_def)

text \<open>The whole tail of an operation: accounts opened, money moved, journal written.\<close>

lemma journal_effect:
  assumes wf: "ledger_wf s1" and op: "opens s s1" and books: "same_books s1 s2"
    and es: "entries_open s1 es"
    and create: "ledgerJournal_create intent agreement event ty chain asset s2 = Inr (j, s3)"
    and post: "ledgerPosting_createMany ps s3 = Inr (u, t)"
    and ps: "ps = map (entry_posting j) es"
  shows "ledger_wf t" and "same_money s2 t" and "shifts (entries_shift es) s t"
    and "ledgerJournals t = ledgerJournals s @ [j]"
    and "sum_list (map credit_effect ps) = 0 \<Longrightarrow> journals_balanced s \<Longrightarrow> journals_balanced t"
    and "journals_balanced t \<Longrightarrow> sum_list (map credit_effect ps) = 0"
proof -
  have wf2: "ledger_wf s2" using wf books by (simp add: same_books_wf)
  have es2: "entries_open s2 es" using es books by (simp add: entries_open_def same_books_def)
  have own: "\<forall>p\<in>set ps. lp_ledgerJournalId p = lj_id j \<and>
      (\<exists>k a. ledgerAccounts s2 k = Some a \<and> lp_ledgerAccountId p = la_id a)"
    unfolding ps using es2 by (fastforce simp: entries_open_def)
  note pj = post_journal [OF wf2 create post own]
  show "ledger_wf t" "same_money s2 t" by (rule pj)+
  show "ledgerJournals t = ledgerJournals s @ [j]"
    using pj(4) books op by (simp add: same_books_def opens_def)
  have bal: "journals_balanced s2 = journals_balanced s"
    using books op by (simp add: same_books_balanced opens_balanced)
  show "journals_balanced t" if "sum_list (map credit_effect ps) = 0" "journals_balanced s"
    using that bal by (intro pj(6)) simp_all
  show "sum_list (map credit_effect ps) = 0" if "journals_balanced t" using that by (rule pj(7))
  have "key_net t k = key_net s2 k + entries_shift es k" for k
    unfolding key_net_append [OF pj(3) pj(5)] ps
    using entries_account_net [OF wf2 _ es2] entries_shift_absent [OF _ es2]
    by (simp split: option.splits)
  moreover have "key_net s2 k = key_net s k" for k
    using books op by (simp add: same_books_key_net opens_def)
  ultimately show "shifts (entries_shift es) s t" by (simp add: shifts_def)
qed

lemma entries_shift_pair:
  "entries_shift [(kd, d, debit, x), (kc, c, credit, x)] = moves kd kc x"
  by (rule ext) (simp add: entries_shift_def moves_def)

lemma open_two:
  assumes "ledger_wf s"
    and "ledgerAccount_upsert k1 ty1 ch1 as1 cu1 s = Inr (a1, s1)"
    and "ledgerAccount_upsert k2 ty2 ch2 as2 cu2 s1 = Inr (a2, s2)"
  shows "ledger_wf s2" and "opens s s2"
    and "ledgerAccounts s2 k1 = Some a1" and "ledgerAccounts s2 k2 = Some a2"
proof -
  note o1 = ledgerAccount_upsert_opens [OF assms(2,1)]
  note o2 = ledgerAccount_upsert_opens [OF assms(3) o1(2)]
  show "ledger_wf s2" "ledgerAccounts s2 k2 = Some a2" by (rule o2)+
  show "opens s s2" using o1(1) o2(1) by (rule opens_trans)
  show "ledgerAccounts s2 k1 = Some a1"
    using o1(3) o2(1) by (auto simp: opens_def map_le_def dom_def)
qed

subsection \<open>Balances and vaults\<close>

lemma customerAssetBalance_put_Inr [tx_iff]:
  "customerAssetBalance_put c a b s = Inr (u, t) \<longleftrightarrow>
     fits_balance b \<and> t = s\<lparr>customerAssetBalances := (customerAssetBalances s)((c, a) \<mapsto> b)\<rparr>"
  by (auto simp: customerAssetBalance_put_def tx_iff)

lemma customerAssetBalance_findUnique_Inr [tx_iff]:
  "customerAssetBalance_findUnique c a s = Inr (r, t) \<longleftrightarrow> r = customerAssetBalances s (c, a) \<and> t = s"
  by (auto simp: customerAssetBalance_findUnique_def tx_iff)

lemma customerAssetBalance_updateMany_Inr [tx_iff]:
  "customerAssetBalance_updateMany c a guard upd s = Inr (n, t) \<longleftrightarrow>
     (case customerAssetBalances s (c, a) of
        None \<Rightarrow> n = 0 \<and> t = s
      | Some b \<Rightarrow>
          if guard b
          then n = 1 \<and> fits_balance (upd b) \<and>
            t = s\<lparr>customerAssetBalances := (customerAssetBalances s)((c, a) \<mapsto> upd b)\<rparr>
          else n = 0 \<and> t = s)"
  by (auto simp: customerAssetBalance_updateMany_def tx_iff split: option.splits)

lemma customerAssetBalance_credit_Inr [tx_iff]:
  "customerAssetBalance_credit c a x s = Inr (b, t) \<longleftrightarrow>
     b = (case customerAssetBalances s (c, a) of
            None \<Rightarrow> \<lparr>cab_availableBalance = x, cab_pendingBalance = 0\<rparr>
          | Some b \<Rightarrow> b\<lparr>cab_availableBalance := cab_availableBalance b + x\<rparr>) \<and>
     fits_balance b \<and> t = s\<lparr>customerAssetBalances := (customerAssetBalances s)((c, a) \<mapsto> b)\<rparr>"
  by (auto simp: customerAssetBalance_credit_def tx_iff Let_def)

lemma retirementVault_findUnique_Inr [tx_iff]:
  "retirementVault_findUnique v s = Inr (r, t) \<longleftrightarrow> r = retirementVaults s v \<and> t = s"
  by (auto simp: retirementVault_findUnique_def tx_iff)

lemma retirementVault_put_Inr [tx_iff]:
  "retirementVault_put v r s = Inr (u, t) \<longleftrightarrow>
     fits_decimal (rv_lockedBalance r) \<and> t = s\<lparr>retirementVaults := (retirementVaults s)(v \<mapsto> r)\<rparr>"
  by (auto simp: retirementVault_put_def tx_iff)

lemma retirementVault_update_Inr [tx_iff]:
  "retirementVault_update v upd s = Inr (r, t) \<longleftrightarrow>
     (\<exists>old. retirementVaults s v = Some old \<and> r = upd old \<and> fits_decimal (rv_lockedBalance r) \<and>
       t = s\<lparr>retirementVaults := (retirementVaults s)(v \<mapsto> r)\<rparr>)"
  by (auto simp: retirementVault_update_def tx_iff)

lemma retirementVault_updateMany_Inr [tx_iff]:
  "retirementVault_updateMany v guard upd s = Inr (n, t) \<longleftrightarrow>
     (case retirementVaults s v of
        None \<Rightarrow> n = 0 \<and> t = s
      | Some r \<Rightarrow>
          if guard r
          then n = 1 \<and> fits_decimal (rv_lockedBalance (upd r)) \<and>
            t = s\<lparr>retirementVaults := (retirementVaults s)(v \<mapsto> upd r)\<rparr>
          else n = 0 \<and> t = s)"
  by (auto simp: retirementVault_updateMany_def tx_iff split: option.splits)

lemma same_books_balances [simp]:
  "same_books s (s\<lparr>customerAssetBalances := x\<rparr>)" "same_books s (s\<lparr>retirementVaults := y\<rparr>)"
  "same_books s (s\<lparr>customerAssetBalances := x, retirementVaults := y\<rparr>)" "same_books s s"
  by (simp_all add: same_books_def)

lemma same_books_trans: "same_books s t \<Longrightarrow> same_books t u \<Longrightarrow> same_books s u"
  by (simp add: same_books_def)

end
