(* ===== verification/Ledger.thy ===== *)
theory Ledger
  imports Ledger_Tables
begin

text \<open>
  \<open>apps/api/src/ledger/ledger.service.ts\<close>: the ledger key builders, the journal lookups
  and the eleven operations of \<open>LedgerService\<close>, each a transaction with the guards,
  writes and errors of the source in its order. Amounts of the results are kept as decimals
  where the source renders them with \<open>toString()\<close>.
\<close>

section \<open>Parameters and results\<close>

record SettleConfirmedDepositParams =
  p_transactionIntentId :: string
  p_customerAccountId :: string
  p_assetId :: string
  p_chainId :: nat
  p_amount :: decimal

type_synonym ReserveWithdrawalBalanceParams = SettleConfirmedDepositParams
type_synonym ReleaseWithdrawalReservationParams = SettleConfirmedDepositParams
type_synonym ReserveInternalBalanceTransferParams = SettleConfirmedDepositParams
type_synonym ReleaseInternalBalanceTransferReservationParams = SettleConfirmedDepositParams
type_synonym SettleConfirmedWithdrawalParams = SettleConfirmedDepositParams

record SettleInternalBalanceTransferParams =
  si_transactionIntentId :: string
  si_senderCustomerAccountId :: string
  si_recipientCustomerAccountId :: string
  si_assetId :: string
  si_chainId :: nat
  si_amount :: decimal
  si_settleFromPending :: bool

record FundRetirementVaultBalanceParams =
  fv_transactionIntentId :: string
  fv_retirementVaultId :: string
  fv_customerAccountId :: string
  fv_assetId :: string
  fv_chainId :: nat
  fv_amount :: decimal

type_synonym ReleaseRetirementVaultBalanceParams = FundRetirementVaultBalanceParams

record RecordLoanDisbursementParams =
  ld_loanAgreementId :: string
  ld_assetId :: string
  ld_chainId :: nat
  ld_principalAmount :: decimal
  ld_serviceFeeAmount :: decimal

record RecordLoanRepaymentParams =
  lr_loanAgreementId :: string
  lr_loanRepaymentEventId :: string
  lr_customerAccountId :: string
  lr_assetId :: string
  lr_chainId :: nat
  lr_principalAmount :: decimal
  lr_serviceFeeAmount :: decimal
  lr_totalAmount :: decimal

record SettledDepositLedgerResult =
  sd_ledgerJournalId :: string
  sd_debitLedgerAccountId :: string
  sd_creditLedgerAccountId :: string
  sd_availableBalance :: decimal

record WithdrawalBalanceTransitionResult =
  wb_ledgerJournalId :: string
  wb_debitLedgerAccountId :: string
  wb_creditLedgerAccountId :: string
  wb_availableBalance :: decimal
  wb_pendingBalance :: decimal

type_synonym InternalBalanceTransferReservationResult = WithdrawalBalanceTransitionResult
type_synonym SettledWithdrawalLedgerResult = WithdrawalBalanceTransitionResult

record InternalBalanceTransferSettlementResult =
  is_ledgerJournalId :: string
  is_debitLedgerAccountId :: string
  is_creditLedgerAccountId :: string
  is_senderAvailableBalance :: decimal
  is_senderPendingBalance :: decimal
  is_recipientAvailableBalance :: decimal
  is_recipientPendingBalance :: decimal

record RetirementVaultBalanceTransitionResult =
  vb_ledgerJournalId :: string
  vb_debitLedgerAccountId :: string
  vb_creditLedgerAccountId :: string
  vb_availableBalance :: decimal
  vb_lockedBalance :: decimal

record LoanDisbursementLedgerResult =
  dr_ledgerJournalId :: string
  dr_principalReceivableLedgerAccountId :: string
  dr_serviceFeeReceivableLedgerAccountId :: "string option"
  dr_serviceFeeIncomeLedgerAccountId :: "string option"
  dr_creditLedgerAccountId :: string

record LoanRepaymentLedgerResult =
  rr_ledgerJournalId :: string
  rr_debitLedgerAccountId :: string
  rr_principalReceivableLedgerAccountId :: string
  rr_serviceFeeReceivableLedgerAccountId :: "string option"
  rr_availableBalance :: decimal

section \<open>Ledger keys\<close>

definition buildInboundClearingLedgerKey :: "nat \<Rightarrow> string \<Rightarrow> string" where
  "buildInboundClearingLedgerKey chainId assetId =
     colon_key ''asset_inbound_clearing'' (show_nat chainId) assetId"

definition buildOutboundClearingLedgerKey :: "nat \<Rightarrow> string \<Rightarrow> string" where
  "buildOutboundClearingLedgerKey chainId assetId =
     colon_key ''asset_outbound_clearing'' (show_nat chainId) assetId"

definition buildCustomerLiabilityLedgerKey :: "string \<Rightarrow> string \<Rightarrow> string" where
  "buildCustomerLiabilityLedgerKey customerAccountId assetId =
     colon_key ''customer_asset_liability'' customerAccountId assetId"

definition buildPendingWithdrawalLiabilityLedgerKey :: "string \<Rightarrow> string \<Rightarrow> string" where
  "buildPendingWithdrawalLiabilityLedgerKey customerAccountId assetId =
     colon_key ''customer_asset_pending_withdrawal_liability'' customerAccountId assetId"

definition buildPendingInternalTransferLiabilityLedgerKey :: "string \<Rightarrow> string \<Rightarrow> string" where
  "buildPendingInternalTransferLiabilityLedgerKey customerAccountId assetId =
     colon_key ''customer_asset_pending_internal_transfer_liability'' customerAccountId assetId"

definition buildRetirementVaultLiabilityLedgerKey :: "string \<Rightarrow> string \<Rightarrow> string" where
  "buildRetirementVaultLiabilityLedgerKey retirementVaultId assetId =
     colon_key ''customer_retirement_vault_liability'' retirementVaultId assetId"

definition buildLoanPrincipalReceivableLedgerKey :: "string \<Rightarrow> string \<Rightarrow> string" where
  "buildLoanPrincipalReceivableLedgerKey loanAgreementId assetId =
     colon_key ''loan_principal_receivable'' loanAgreementId assetId"

definition buildLoanServiceFeeReceivableLedgerKey :: "string \<Rightarrow> string \<Rightarrow> string" where
  "buildLoanServiceFeeReceivableLedgerKey loanAgreementId assetId =
     colon_key ''loan_service_fee_receivable'' loanAgreementId assetId"

definition buildLoanServiceFeeIncomeLedgerKey :: "nat \<Rightarrow> string \<Rightarrow> string" where
  "buildLoanServiceFeeIncomeLedgerKey chainId assetId =
     colon_key ''loan_service_fee_income'' (show_nat chainId) assetId"

lemmas ledger_key_defs =
  buildInboundClearingLedgerKey_def buildOutboundClearingLedgerKey_def
  buildCustomerLiabilityLedgerKey_def buildPendingWithdrawalLiabilityLedgerKey_def
  buildPendingInternalTransferLiabilityLedgerKey_def buildRetirementVaultLiabilityLedgerKey_def
  buildLoanPrincipalReceivableLedgerKey_def buildLoanServiceFeeReceivableLedgerKey_def
  buildLoanServiceFeeIncomeLedgerKey_def

section \<open>Journal lookups\<close>

definition findLedgerJournalByIntentAndType ::
  "string \<Rightarrow> ledger_journal_type \<Rightarrow> ledger_journal option dbtx" where
  "findLedgerJournalByIntentAndType transactionIntentId journalType =
     readT (\<lambda>s. find (\<lambda>j. lj_transactionIntentId j = Some transactionIntentId \<and>
       lj_journalType j = journalType) (ledgerJournals s))"

definition findLedgerJournalByLoanAgreementAndType ::
  "string \<Rightarrow> ledger_journal_type \<Rightarrow> ledger_journal option dbtx" where
  "findLedgerJournalByLoanAgreementAndType loanAgreementId journalType =
     readT (\<lambda>s. find (\<lambda>j. lj_loanAgreementId j = Some loanAgreementId \<and>
       lj_journalType j = journalType) (ledgerJournals s))"

definition findLedgerJournalByLoanRepaymentEventAndType ::
  "string \<Rightarrow> ledger_journal_type \<Rightarrow> ledger_journal option dbtx" where
  "findLedgerJournalByLoanRepaymentEventAndType loanRepaymentEventId journalType =
     readT (\<lambda>s. find (\<lambda>j. lj_loanRepaymentEventId j = Some loanRepaymentEventId \<and>
       lj_journalType j = journalType) (ledgerJournals s))"

text \<open>The accounts the operations open: \<open>upsert\<close> by key, with the row to create.\<close>

definition customerLiabilityAccount :: "string \<Rightarrow> nat \<Rightarrow> string \<Rightarrow> ledger_account dbtx" where
  "customerLiabilityAccount customerAccountId chainId assetId =
     ledgerAccount_upsert (buildCustomerLiabilityLedgerKey customerAccountId assetId)
       customer_asset_liability chainId assetId (Some customerAccountId)"

definition pendingWithdrawalLiabilityAccount :: "string \<Rightarrow> nat \<Rightarrow> string \<Rightarrow> ledger_account dbtx" where
  "pendingWithdrawalLiabilityAccount customerAccountId chainId assetId =
     ledgerAccount_upsert (buildPendingWithdrawalLiabilityLedgerKey customerAccountId assetId)
       customer_asset_pending_withdrawal_liability chainId assetId (Some customerAccountId)"

definition pendingInternalTransferLiabilityAccount :: "string \<Rightarrow> nat \<Rightarrow> string \<Rightarrow> ledger_account dbtx" where
  "pendingInternalTransferLiabilityAccount customerAccountId chainId assetId =
     ledgerAccount_upsert (buildPendingInternalTransferLiabilityLedgerKey customerAccountId assetId)
       customer_asset_pending_internal_transfer_liability chainId assetId (Some customerAccountId)"

definition retirementVaultLiabilityAccount :: "string \<Rightarrow> string \<Rightarrow> nat \<Rightarrow> string \<Rightarrow> ledger_account dbtx" where
  "retirementVaultLiabilityAccount retirementVaultId customerAccountId chainId assetId =
     ledgerAccount_upsert (buildRetirementVaultLiabilityLedgerKey retirementVaultId assetId)
       customer_retirement_vault_liability chainId assetId (Some customerAccountId)"

definition inboundClearingAccount :: "nat \<Rightarrow> string \<Rightarrow> ledger_account dbtx" where
  "inboundClearingAccount chainId assetId =
     ledgerAccount_upsert (buildInboundClearingLedgerKey chainId assetId)
       asset_inbound_clearing chainId assetId None"

definition outboundClearingAccount :: "nat \<Rightarrow> string \<Rightarrow> ledger_account dbtx" where
  "outboundClearingAccount chainId assetId =
     ledgerAccount_upsert (buildOutboundClearingLedgerKey chainId assetId)
       asset_outbound_clearing chainId assetId None"

definition loanPrincipalReceivableAccount :: "string \<Rightarrow> nat \<Rightarrow> string \<Rightarrow> ledger_account dbtx" where
  "loanPrincipalReceivableAccount loanAgreementId chainId assetId =
     ledgerAccount_upsert (buildLoanPrincipalReceivableLedgerKey loanAgreementId assetId)
       loan_principal_receivable chainId assetId None"

definition loanServiceFeeReceivableAccount :: "string \<Rightarrow> nat \<Rightarrow> string \<Rightarrow> ledger_account dbtx" where
  "loanServiceFeeReceivableAccount loanAgreementId chainId assetId =
     ledgerAccount_upsert (buildLoanServiceFeeReceivableLedgerKey loanAgreementId assetId)
       loan_service_fee_receivable chainId assetId None"

definition loanServiceFeeIncomeAccount :: "nat \<Rightarrow> string \<Rightarrow> ledger_account dbtx" where
  "loanServiceFeeIncomeAccount chainId assetId =
     ledgerAccount_upsert (buildLoanServiceFeeIncomeLedgerKey chainId assetId)
       loan_service_fee_income chainId assetId None"

lemmas ledger_account_defs =
  customerLiabilityAccount_def pendingWithdrawalLiabilityAccount_def
  pendingInternalTransferLiabilityAccount_def retirementVaultLiabilityAccount_def
  inboundClearingAccount_def outboundClearingAccount_def loanPrincipalReceivableAccount_def
  loanServiceFeeReceivableAccount_def loanServiceFeeIncomeAccount_def

section \<open>Deposits\<close>

definition settleConfirmedDeposit ::
  "SettleConfirmedDepositParams \<Rightarrow> SettledDepositLedgerResult dbtx" where
  "settleConfirmedDeposit params =
     bindT (findLedgerJournalByIntentAndType (p_transactionIntentId params) deposit_settlement) (\<lambda>existing.
     bindT (throwIf (existing \<noteq> None)
       (ConflictException ''Ledger settlement already exists for this transaction intent.'')) (\<lambda>_.
     bindT (inboundClearingAccount (p_chainId params) (p_assetId params)) (\<lambda>inbound.
     bindT (customerLiabilityAccount (p_customerAccountId params) (p_chainId params) (p_assetId params)) (\<lambda>liability.
     bindT (ledgerJournal_create (Some (p_transactionIntentId params)) None None deposit_settlement
       (p_chainId params) (p_assetId params)) (\<lambda>journal.
     bindT (ledgerPosting_createMany
       [posting journal inbound debit (p_amount params),
        posting journal liability credit (p_amount params)]) (\<lambda>_.
     bindT (customerAssetBalance_credit (p_customerAccountId params) (p_assetId params) (p_amount params)) (\<lambda>balance.
     returnT
       \<lparr>sd_ledgerJournalId = lj_id journal,
        sd_debitLedgerAccountId = la_id inbound,
        sd_creditLedgerAccountId = la_id liability,
        sd_availableBalance = cab_availableBalance balance\<rparr>)))))))"

section \<open>Withdrawals\<close>

definition reserveWithdrawalBalance ::
  "ReserveWithdrawalBalanceParams \<Rightarrow> WithdrawalBalanceTransitionResult dbtx" where
  "reserveWithdrawalBalance params =
     bindT (findLedgerJournalByIntentAndType (p_transactionIntentId params) withdrawal_reservation) (\<lambda>existing.
     bindT (throwIf (existing \<noteq> None) (ConflictException
       ''Withdrawal reservation ledger journal already exists for this transaction intent.'')) (\<lambda>_.
     bindT (customerLiabilityAccount (p_customerAccountId params) (p_chainId params) (p_assetId params)) (\<lambda>avail.
     bindT (pendingWithdrawalLiabilityAccount (p_customerAccountId params) (p_chainId params) (p_assetId params)) (\<lambda>pend.
     bindT (customerAssetBalance_updateMany (p_customerAccountId params) (p_assetId params)
       (\<lambda>b. cab_availableBalance b \<ge> p_amount params)
       (\<lambda>b. b\<lparr>cab_availableBalance := cab_availableBalance b - p_amount params,
              cab_pendingBalance := cab_pendingBalance b + p_amount params\<rparr>)) (\<lambda>count.
     bindT (throwIf (count \<noteq> 1)
       (ConflictException ''Insufficient available balance for withdrawal request.'')) (\<lambda>_.
     bindT (customerAssetBalance_findUnique (p_customerAccountId params) (p_assetId params)) (\<lambda>row.
     bindT (requireT row (ConflictException ''Customer balance row not found.'')) (\<lambda>balance.
     bindT (ledgerJournal_create (Some (p_transactionIntentId params)) None None withdrawal_reservation
       (p_chainId params) (p_assetId params)) (\<lambda>journal.
     bindT (ledgerPosting_createMany
       [posting journal avail debit (p_amount params),
        posting journal pend credit (p_amount params)]) (\<lambda>_.
     returnT
       \<lparr>wb_ledgerJournalId = lj_id journal,
        wb_debitLedgerAccountId = la_id avail,
        wb_creditLedgerAccountId = la_id pend,
        wb_availableBalance = cab_availableBalance balance,
        wb_pendingBalance = cab_pendingBalance balance\<rparr>))))))))))"

definition releaseWithdrawalReservation ::
  "ReleaseWithdrawalReservationParams \<Rightarrow> WithdrawalBalanceTransitionResult dbtx" where
  "releaseWithdrawalReservation params =
     bindT (findLedgerJournalByIntentAndType (p_transactionIntentId params) withdrawal_reservation_release) (\<lambda>existing.
     bindT (throwIf (existing \<noteq> None) (ConflictException
       ''Withdrawal reservation release ledger journal already exists for this transaction intent.'')) (\<lambda>_.
     bindT (customerLiabilityAccount (p_customerAccountId params) (p_chainId params) (p_assetId params)) (\<lambda>avail.
     bindT (pendingWithdrawalLiabilityAccount (p_customerAccountId params) (p_chainId params) (p_assetId params)) (\<lambda>pend.
     bindT (customerAssetBalance_updateMany (p_customerAccountId params) (p_assetId params)
       (\<lambda>b. cab_pendingBalance b \<ge> p_amount params)
       (\<lambda>b. b\<lparr>cab_availableBalance := cab_availableBalance b + p_amount params,
              cab_pendingBalance := cab_pendingBalance b - p_amount params\<rparr>)) (\<lambda>count.
     bindT (throwIf (count \<noteq> 1)
       (ConflictException ''Withdrawal reservation is not available to release.'')) (\<lambda>_.
     bindT (customerAssetBalance_findUnique (p_customerAccountId params) (p_assetId params)) (\<lambda>row.
     bindT (requireT row (ConflictException ''Customer balance row not found.'')) (\<lambda>balance.
     bindT (ledgerJournal_create (Some (p_transactionIntentId params)) None None
       withdrawal_reservation_release (p_chainId params) (p_assetId params)) (\<lambda>journal.
     bindT (ledgerPosting_createMany
       [posting journal pend debit (p_amount params),
        posting journal avail credit (p_amount params)]) (\<lambda>_.
     returnT
       \<lparr>wb_ledgerJournalId = lj_id journal,
        wb_debitLedgerAccountId = la_id pend,
        wb_creditLedgerAccountId = la_id avail,
        wb_availableBalance = cab_availableBalance balance,
        wb_pendingBalance = cab_pendingBalance balance\<rparr>))))))))))"

definition settleConfirmedWithdrawal ::
  "SettleConfirmedWithdrawalParams \<Rightarrow> SettledWithdrawalLedgerResult dbtx" where
  "settleConfirmedWithdrawal params =
     bindT (findLedgerJournalByIntentAndType (p_transactionIntentId params) withdrawal_settlement) (\<lambda>existing.
     bindT (throwIf (existing \<noteq> None)
       (ConflictException ''Ledger settlement already exists for this transaction intent.'')) (\<lambda>_.
     bindT (outboundClearingAccount (p_chainId params) (p_assetId params)) (\<lambda>outbound.
     bindT (pendingWithdrawalLiabilityAccount (p_customerAccountId params) (p_chainId params) (p_assetId params)) (\<lambda>pend.
     bindT (customerAssetBalance_updateMany (p_customerAccountId params) (p_assetId params)
       (\<lambda>b. cab_pendingBalance b \<ge> p_amount params)
       (\<lambda>b. b\<lparr>cab_pendingBalance := cab_pendingBalance b - p_amount params\<rparr>)) (\<lambda>count.
     bindT (throwIf (count \<noteq> 1)
       (ConflictException ''Reserved withdrawal balance is not available to settle.'')) (\<lambda>_.
     bindT (customerAssetBalance_findUnique (p_customerAccountId params) (p_assetId params)) (\<lambda>row.
     bindT (requireT row (ConflictException ''Customer balance row not found.'')) (\<lambda>balance.
     bindT (ledgerJournal_create (Some (p_transactionIntentId params)) None None withdrawal_settlement
       (p_chainId params) (p_assetId params)) (\<lambda>journal.
     bindT (ledgerPosting_createMany
       [posting journal pend debit (p_amount params),
        posting journal outbound credit (p_amount params)]) (\<lambda>_.
     returnT
       \<lparr>wb_ledgerJournalId = lj_id journal,
        wb_debitLedgerAccountId = la_id pend,
        wb_creditLedgerAccountId = la_id outbound,
        wb_availableBalance = cab_availableBalance balance,
        wb_pendingBalance = cab_pendingBalance balance\<rparr>))))))))))"

section \<open>Internal balance transfers\<close>

definition reserveInternalBalanceTransferBalance ::
  "ReserveInternalBalanceTransferParams \<Rightarrow> InternalBalanceTransferReservationResult dbtx" where
  "reserveInternalBalanceTransferBalance params =
     bindT (findLedgerJournalByIntentAndType (p_transactionIntentId params)
       internal_balance_transfer_reservation) (\<lambda>existing.
     bindT (throwIf (existing \<noteq> None) (ConflictException
       ''Internal balance transfer reservation ledger journal already exists for this transaction intent.'')) (\<lambda>_.
     bindT (customerLiabilityAccount (p_customerAccountId params) (p_chainId params) (p_assetId params)) (\<lambda>avail.
     bindT (pendingInternalTransferLiabilityAccount (p_customerAccountId params) (p_chainId params) (p_assetId params)) (\<lambda>pend.
     bindT (customerAssetBalance_updateMany (p_customerAccountId params) (p_assetId params)
       (\<lambda>b. cab_availableBalance b \<ge> p_amount params)
       (\<lambda>b. b\<lparr>cab_availableBalance := cab_availableBalance b - p_amount params,
              cab_pendingBalance := cab_pendingBalance b + p_amount params\<rparr>)) (\<lambda>count.
     bindT (throwIf (count \<noteq> 1)
       (ConflictException ''Insufficient available balance for internal transfer request.'')) (\<lambda>_.
     bindT (customerAssetBalance_findUnique (p_customerAccountId params) (p_assetId params)) (\<lambda>row.
     bindT (requireT row (ConflictException ''Customer balance row not found.'')) (\<lambda>balance.
     bindT (ledgerJournal_create (Some (p_transactionIntentId params)) None None
       internal_balance_transfer_reservation (p_chainId params) (p_assetId params)) (\<lambda>journal.
     bindT (ledgerPosting_createMany
       [posting journal avail debit (p_amount params),
        posting journal pend credit (p_amount params)]) (\<lambda>_.
     returnT
       \<lparr>wb_ledgerJournalId = lj_id journal,
        wb_debitLedgerAccountId = la_id avail,
        wb_creditLedgerAccountId = la_id pend,
        wb_availableBalance = cab_availableBalance balance,
        wb_pendingBalance = cab_pendingBalance balance\<rparr>))))))))))"

definition releaseInternalBalanceTransferReservation ::
  "ReleaseInternalBalanceTransferReservationParams \<Rightarrow> InternalBalanceTransferReservationResult dbtx" where
  "releaseInternalBalanceTransferReservation params =
     bindT (findLedgerJournalByIntentAndType (p_transactionIntentId params)
       internal_balance_transfer_reservation_release) (\<lambda>existing.
     bindT (throwIf (existing \<noteq> None) (ConflictException
       ''Internal balance transfer reservation release ledger journal already exists for this transaction intent.'')) (\<lambda>_.
     bindT (customerLiabilityAccount (p_customerAccountId params) (p_chainId params) (p_assetId params)) (\<lambda>avail.
     bindT (pendingInternalTransferLiabilityAccount (p_customerAccountId params) (p_chainId params) (p_assetId params)) (\<lambda>pend.
     bindT (customerAssetBalance_updateMany (p_customerAccountId params) (p_assetId params)
       (\<lambda>b. cab_pendingBalance b \<ge> p_amount params)
       (\<lambda>b. b\<lparr>cab_availableBalance := cab_availableBalance b + p_amount params,
              cab_pendingBalance := cab_pendingBalance b - p_amount params\<rparr>)) (\<lambda>count.
     bindT (throwIf (count \<noteq> 1)
       (ConflictException ''Internal transfer reservation is not available to release.'')) (\<lambda>_.
     bindT (customerAssetBalance_findUnique (p_customerAccountId params) (p_assetId params)) (\<lambda>row.
     bindT (requireT row (ConflictException ''Customer balance row not found.'')) (\<lambda>balance.
     bindT (ledgerJournal_create (Some (p_transactionIntentId params)) None None
       internal_balance_transfer_reservation_release (p_chainId params) (p_assetId params)) (\<lambda>journal.
     bindT (ledgerPosting_createMany
       [posting journal pend debit (p_amount params),
        posting journal avail credit (p_amount params)]) (\<lambda>_.
     returnT
       \<lparr>wb_ledgerJournalId = lj_id journal,
        wb_debitLedgerAccountId = la_id pend,
        wb_creditLedgerAccountId = la_id avail,
        wb_availableBalance = cab_availableBalance balance,
        wb_pendingBalance = cab_pendingBalance balance\<rparr>))))))))))"

text \<open>
  The sender's side of a settlement: the account debited and the balance taken from depend on
  whether the amount was reserved first.
\<close>

definition senderDebitAccount :: "SettleInternalBalanceTransferParams \<Rightarrow> ledger_account dbtx" where
  "senderDebitAccount params =
     (if si_settleFromPending params
      then pendingInternalTransferLiabilityAccount (si_senderCustomerAccountId params)
             (si_chainId params) (si_assetId params)
      else customerLiabilityAccount (si_senderCustomerAccountId params)
             (si_chainId params) (si_assetId params))"

definition debitSenderBalance :: "SettleInternalBalanceTransferParams \<Rightarrow> unit dbtx" where
  "debitSenderBalance params =
     (if si_settleFromPending params
      then
        bindT (customerAssetBalance_updateMany (si_senderCustomerAccountId params) (si_assetId params)
          (\<lambda>b. cab_pendingBalance b \<ge> si_amount params)
          (\<lambda>b. b\<lparr>cab_pendingBalance := cab_pendingBalance b - si_amount params\<rparr>)) (\<lambda>count.
        throwIf (count \<noteq> 1)
          (ConflictException ''Reserved internal transfer balance is not available to settle.''))
      else
        bindT (customerAssetBalance_updateMany (si_senderCustomerAccountId params) (si_assetId params)
          (\<lambda>b. cab_availableBalance b \<ge> si_amount params)
          (\<lambda>b. b\<lparr>cab_availableBalance := cab_availableBalance b - si_amount params\<rparr>)) (\<lambda>count.
        throwIf (count \<noteq> 1)
          (ConflictException ''Insufficient available balance for internal transfer settlement.'')))"

definition settleInternalBalanceTransfer ::
  "SettleInternalBalanceTransferParams \<Rightarrow> InternalBalanceTransferSettlementResult dbtx" where
  "settleInternalBalanceTransfer params =
     bindT (findLedgerJournalByIntentAndType (si_transactionIntentId params)
       internal_balance_transfer_settlement) (\<lambda>existing.
     bindT (throwIf (existing \<noteq> None) (ConflictException
       ''Internal balance transfer settlement already exists for this transaction intent.'')) (\<lambda>_.
     bindT (senderDebitAccount params) (\<lambda>sender.
     bindT (customerLiabilityAccount (si_recipientCustomerAccountId params)
       (si_chainId params) (si_assetId params)) (\<lambda>recipient.
     bindT (debitSenderBalance params) (\<lambda>_.
     bindT (customerAssetBalance_credit (si_recipientCustomerAccountId params)
       (si_assetId params) (si_amount params)) (\<lambda>recipientBalance.
     bindT (customerAssetBalance_findUnique (si_senderCustomerAccountId params) (si_assetId params)) (\<lambda>row.
     bindT (requireT row (ConflictException ''Sender balance row not found.'')) (\<lambda>senderBalance.
     bindT (ledgerJournal_create (Some (si_transactionIntentId params)) None None
       internal_balance_transfer_settlement (si_chainId params) (si_assetId params)) (\<lambda>journal.
     bindT (ledgerPosting_createMany
       [posting journal sender debit (si_amount params),
        posting journal recipient credit (si_amount params)]) (\<lambda>_.
     returnT
       \<lparr>is_ledgerJournalId = lj_id journal,
        is_debitLedgerAccountId = la_id sender,
        is_creditLedgerAccountId = la_id recipient,
        is_senderAvailableBalance = cab_availableBalance senderBalance,
        is_senderPendingBalance = cab_pendingBalance senderBalance,
        is_recipientAvailableBalance = cab_availableBalance recipientBalance,
        is_recipientPendingBalance = cab_pendingBalance recipientBalance\<rparr>))))))))))"

section \<open>Retirement vaults\<close>

text \<open>The \<open>data\<close> of the vault update: \<open>fundedAt\<close> keeps its first value.\<close>

definition fundedVaultRow :: "retirement_vault \<Rightarrow> int \<Rightarrow> decimal \<Rightarrow> retirement_vault \<Rightarrow> retirement_vault" where
  "fundedVaultRow existingVault observedAt amount v =
     v\<lparr>rv_lockedBalance := rv_lockedBalance v + amount,
       rv_fundedAt := (case rv_fundedAt existingVault of Some t \<Rightarrow> Some t | None \<Rightarrow> Some observedAt),
       rv_lastFundedAt := Some observedAt\<rparr>"

lemma fundedVaultRow_sel [simp]:
  "rv_lockedBalance (fundedVaultRow e t x v) = rv_lockedBalance v + x"
  "rv_assetId (fundedVaultRow e t x v) = rv_assetId v"
  "rv_customerAccountId (fundedVaultRow e t x v) = rv_customerAccountId v"
  by (simp_all add: fundedVaultRow_def)

definition fundRetirementVaultBalance ::
  "FundRetirementVaultBalanceParams \<Rightarrow> RetirementVaultBalanceTransitionResult dbtx" where
  "fundRetirementVaultBalance params =
     bindT (findLedgerJournalByIntentAndType (fv_transactionIntentId params) retirement_vault_funding) (\<lambda>existing.
     bindT (throwIf (existing \<noteq> None) (ConflictException
       ''Retirement vault funding ledger journal already exists for this transaction intent.'')) (\<lambda>_.
     bindT (customerLiabilityAccount (fv_customerAccountId params) (fv_chainId params) (fv_assetId params)) (\<lambda>avail.
     bindT (retirementVaultLiabilityAccount (fv_retirementVaultId params) (fv_customerAccountId params)
       (fv_chainId params) (fv_assetId params)) (\<lambda>vault.
     bindT (customerAssetBalance_updateMany (fv_customerAccountId params) (fv_assetId params)
       (\<lambda>b. cab_availableBalance b \<ge> fv_amount params)
       (\<lambda>b. b\<lparr>cab_availableBalance := cab_availableBalance b - fv_amount params\<rparr>)) (\<lambda>count.
     bindT (throwIf (count \<noteq> 1)
       (ConflictException ''Insufficient available balance for retirement vault funding.'')) (\<lambda>_.
     bindT (retirementVault_findUnique (fv_retirementVaultId params)) (\<lambda>vaultRow.
     bindT (requireT vaultRow (ConflictException ''Retirement vault not found.'')) (\<lambda>existingVault.
     bindT new_Date (\<lambda>observedAt.
     bindT (retirementVault_update (fv_retirementVaultId params)
       (fundedVaultRow existingVault observedAt (fv_amount params))) (\<lambda>updatedVault.
     bindT (customerAssetBalance_findUnique (fv_customerAccountId params) (fv_assetId params)) (\<lambda>row.
     bindT (requireT row (ConflictException ''Customer balance row not found.'')) (\<lambda>balance.
     bindT (ledgerJournal_create (Some (fv_transactionIntentId params)) None None
       retirement_vault_funding (fv_chainId params) (fv_assetId params)) (\<lambda>journal.
     bindT (ledgerPosting_createMany
       [posting journal avail debit (fv_amount params),
        posting journal vault credit (fv_amount params)]) (\<lambda>_.
     returnT
       \<lparr>vb_ledgerJournalId = lj_id journal,
        vb_debitLedgerAccountId = la_id avail,
        vb_creditLedgerAccountId = la_id vault,
        vb_availableBalance = cab_availableBalance balance,
        vb_lockedBalance = rv_lockedBalance updatedVault\<rparr>))))))))))))))"

definition releaseRetirementVaultBalance ::
  "ReleaseRetirementVaultBalanceParams \<Rightarrow> RetirementVaultBalanceTransitionResult dbtx" where
  "releaseRetirementVaultBalance params =
     bindT (findLedgerJournalByIntentAndType (fv_transactionIntentId params) retirement_vault_release) (\<lambda>existing.
     bindT (throwIf (existing \<noteq> None) (ConflictException
       ''Retirement vault release ledger journal already exists for this transaction intent.'')) (\<lambda>_.
     bindT (customerLiabilityAccount (fv_customerAccountId params) (fv_chainId params) (fv_assetId params)) (\<lambda>avail.
     bindT (retirementVaultLiabilityAccount (fv_retirementVaultId params) (fv_customerAccountId params)
       (fv_chainId params) (fv_assetId params)) (\<lambda>vault.
     bindT (retirementVault_updateMany (fv_retirementVaultId params)
       (\<lambda>v. rv_customerAccountId v = fv_customerAccountId params \<and> rv_assetId v = fv_assetId params \<and>
            rv_lockedBalance v \<ge> fv_amount params)
       (\<lambda>v. v\<lparr>rv_lockedBalance := rv_lockedBalance v - fv_amount params\<rparr>)) (\<lambda>count.
     bindT (throwIf (count \<noteq> 1)
       (ConflictException ''Insufficient locked balance for retirement vault release.'')) (\<lambda>_.
     bindT (customerAssetBalance_updateMany (fv_customerAccountId params) (fv_assetId params)
       (\<lambda>b. True)
       (\<lambda>b. b\<lparr>cab_availableBalance := cab_availableBalance b + fv_amount params\<rparr>)) (\<lambda>_.
     bindT (retirementVault_findUnique (fv_retirementVaultId params)) (\<lambda>vaultRow.
     bindT (customerAssetBalance_findUnique (fv_customerAccountId params) (fv_assetId params)) (\<lambda>row.
     bindT (requireT vaultRow (ConflictException
       ''Retirement vault release projections could not be refreshed.'')) (\<lambda>updatedVault.
     bindT (requireT row (ConflictException
       ''Retirement vault release projections could not be refreshed.'')) (\<lambda>balance.
     bindT (ledgerJournal_create (Some (fv_transactionIntentId params)) None None
       retirement_vault_release (fv_chainId params) (fv_assetId params)) (\<lambda>journal.
     bindT (ledgerPosting_createMany
       [posting journal vault debit (fv_amount params),
        posting journal avail credit (fv_amount params)]) (\<lambda>_.
     returnT
       \<lparr>vb_ledgerJournalId = lj_id journal,
        vb_debitLedgerAccountId = la_id vault,
        vb_creditLedgerAccountId = la_id avail,
        vb_availableBalance = cab_availableBalance balance,
        vb_lockedBalance = rv_lockedBalance updatedVault\<rparr>)))))))))))))"

section \<open>Loans\<close>

text \<open>\<open>params.serviceFeeAmount.greaterThan(0) ? await upsert(...) : null\<close>\<close>

definition whenFee :: "decimal \<Rightarrow> ledger_account dbtx \<Rightarrow> ledger_account option dbtx" where
  "whenFee fee open_account =
     (if fee > 0 then bindT open_account (\<lambda>a. returnT (Some a)) else returnT None)"

definition recordLoanDisbursement ::
  "RecordLoanDisbursementParams \<Rightarrow> LoanDisbursementLedgerResult dbtx" where
  "recordLoanDisbursement params =
     bindT (findLedgerJournalByLoanAgreementAndType (ld_loanAgreementId params) loan_disbursement) (\<lambda>existing.
     bindT (throwIf (existing \<noteq> None) (ConflictException
       ''Loan disbursement ledger journal already exists for this agreement.'')) (\<lambda>_.
     bindT (outboundClearingAccount (ld_chainId params) (ld_assetId params)) (\<lambda>outbound.
     bindT (loanPrincipalReceivableAccount (ld_loanAgreementId params) (ld_chainId params) (ld_assetId params)) (\<lambda>principal.
     bindT (whenFee (ld_serviceFeeAmount params)
       (loanServiceFeeReceivableAccount (ld_loanAgreementId params) (ld_chainId params) (ld_assetId params))) (\<lambda>feeReceivable.
     bindT (whenFee (ld_serviceFeeAmount params)
       (loanServiceFeeIncomeAccount (ld_chainId params) (ld_assetId params))) (\<lambda>feeIncome.
     bindT (ledgerJournal_create None (Some (ld_loanAgreementId params)) None loan_disbursement
       (ld_chainId params) (ld_assetId params)) (\<lambda>journal.
     bindT (ledgerPosting_createMany
       ([posting journal principal debit (ld_principalAmount params),
         posting journal outbound credit (ld_principalAmount params)] @
        (case (feeReceivable, feeIncome) of
           (Some receivable, Some income) \<Rightarrow>
             [posting journal receivable debit (ld_serviceFeeAmount params),
              posting journal income credit (ld_serviceFeeAmount params)]
         | _ \<Rightarrow> []))) (\<lambda>_.
     returnT
       \<lparr>dr_ledgerJournalId = lj_id journal,
        dr_principalReceivableLedgerAccountId = la_id principal,
        dr_serviceFeeReceivableLedgerAccountId = map_option la_id feeReceivable,
        dr_serviceFeeIncomeLedgerAccountId = map_option la_id feeIncome,
        dr_creditLedgerAccountId = la_id outbound\<rparr>))))))))"

definition recordLoanRepayment ::
  "RecordLoanRepaymentParams \<Rightarrow> LoanRepaymentLedgerResult dbtx" where
  "recordLoanRepayment params =
     bindT (findLedgerJournalByLoanRepaymentEventAndType (lr_loanRepaymentEventId params) loan_repayment) (\<lambda>existing.
     bindT (throwIf (existing \<noteq> None) (ConflictException
       ''Loan repayment ledger journal already exists for this repayment event.'')) (\<lambda>_.
     bindT (customerLiabilityAccount (lr_customerAccountId params) (lr_chainId params) (lr_assetId params)) (\<lambda>liability.
     bindT (loanPrincipalReceivableAccount (lr_loanAgreementId params) (lr_chainId params) (lr_assetId params)) (\<lambda>principal.
     bindT (whenFee (lr_serviceFeeAmount params)
       (loanServiceFeeReceivableAccount (lr_loanAgreementId params) (lr_chainId params) (lr_assetId params))) (\<lambda>feeReceivable.
     bindT (customerAssetBalance_updateMany (lr_customerAccountId params) (lr_assetId params)
       (\<lambda>b. cab_availableBalance b \<ge> lr_totalAmount params)
       (\<lambda>b. b\<lparr>cab_availableBalance := cab_availableBalance b - lr_totalAmount params\<rparr>)) (\<lambda>count.
     bindT (throwIf (count \<noteq> 1) (ConflictException
       ''Managed balance is not available to settle the loan repayment.'')) (\<lambda>_.
     bindT (customerAssetBalance_findUnique (lr_customerAccountId params) (lr_assetId params)) (\<lambda>row.
     bindT (requireT row (ConflictException ''Customer balance row not found.'')) (\<lambda>balance.
     bindT (ledgerJournal_create None (Some (lr_loanAgreementId params))
       (Some (lr_loanRepaymentEventId params)) loan_repayment
       (lr_chainId params) (lr_assetId params)) (\<lambda>journal.
     bindT (ledgerPosting_createMany
       ([posting journal liability debit (lr_totalAmount params),
         posting journal principal credit (lr_principalAmount params)] @
        (case feeReceivable of
           Some receivable \<Rightarrow> [posting journal receivable credit (lr_serviceFeeAmount params)]
         | None \<Rightarrow> []))) (\<lambda>_.
     returnT
       \<lparr>rr_ledgerJournalId = lj_id journal,
        rr_debitLedgerAccountId = la_id liability,
        rr_principalReceivableLedgerAccountId = la_id principal,
        rr_serviceFeeReceivableLedgerAccountId = map_option la_id feeReceivable,
        rr_availableBalance = cab_availableBalance balance\<rparr>)))))))))))"

end
