(* ===== verification/Ledger_Laws.thy ===== *)
theory Ledger_Laws
  imports Ledger
begin

text \<open>
  What each operation of \<open>LedgerService\<close> does, stated once per operation over the ledger
  tables (the journal it appends, the accounts it moves, whether the books stay balanced) and
  over the projections (available, pending and locked amounts).
\<close>

section \<open>Effects\<close>

text \<open>A change at one key.\<close>

definition change_at :: "'k \<Rightarrow> decimal \<Rightarrow> 'k \<Rightarrow> decimal" where
  "change_at k x k' = (if k' = k then x else 0)"

lemma change_at_simps [simp]: "change_at k x k = x" "k' \<noteq> k \<Longrightarrow> change_at k x k' = 0" "change_at k 0 k' = 0"
  by (simp_all add: change_at_def)

definition no_change :: "'k \<Rightarrow> decimal" where
  "no_change k = 0"

lemma no_change_simp [simp]: "no_change k = 0"
  by (simp add: no_change_def)

definition money_shift ::
  "(string \<times> string \<Rightarrow> decimal) \<Rightarrow> (string \<times> string \<Rightarrow> decimal) \<Rightarrow> (string \<Rightarrow> decimal) \<Rightarrow> db \<Rightarrow> db \<Rightarrow> bool" where
  "money_shift fa fp fl s t \<longleftrightarrow>
     (\<forall>c a. available t c a = available s c a + fa (c, a)) \<and>
     (\<forall>c a. pending t c a = pending s c a + fp (c, a)) \<and>
     (\<forall>v. locked t v = locked s v + fl v) \<and>
     (\<forall>v. map_option rv_assetId (retirementVaults t v) = map_option rv_assetId (retirementVaults s v)) \<and>
     (\<forall>v. map_option rv_customerAccountId (retirementVaults t v) =
          map_option rv_customerAccountId (retirementVaults s v))"

definition recorded :: "(ledger_journal \<Rightarrow> string option) \<Rightarrow> string \<Rightarrow> ledger_journal_type \<Rightarrow> db \<Rightarrow> bool" where
  "recorded sel i ty s \<longleftrightarrow> (\<exists>j\<in>set (ledgerJournals s). sel j = Some i \<and> lj_journalType j = ty)"

definition ledger_effect ::
  "(ledger_journal \<Rightarrow> string option) \<Rightarrow> string \<Rightarrow> ledger_journal_type \<Rightarrow> (string \<Rightarrow> decimal) \<Rightarrow> db \<Rightarrow> db \<Rightarrow> bool" where
  "ledger_effect sel i ty f s t \<longleftrightarrow>
     ledger_wf t \<and> shifts f s t \<and> \<not> recorded sel i ty s \<and>
     (\<exists>j. ledgerJournals t = ledgerJournals s @ [j] \<and> sel j = Some i \<and> lj_journalType j = ty)"

lemma ledger_effect_shifts: "ledger_effect sel i ty f s t \<Longrightarrow> shifts f s t"
  and ledger_effect_wf: "ledger_effect sel i ty f s t \<Longrightarrow> ledger_wf t"
  and ledger_effect_new: "ledger_effect sel i ty f s t \<Longrightarrow> \<not> recorded sel i ty s"
  and ledger_effect_recorded: "ledger_effect sel i ty f s t \<Longrightarrow> recorded sel i ty t"
  and ledger_effect_grows:
    "ledger_effect sel i ty f s t \<Longrightarrow> set (ledgerJournals s) \<subseteq> set (ledgerJournals t)"
  by (auto simp: ledger_effect_def recorded_def)

lemma find_recorded:
  "find (\<lambda>j. sel j = Some i \<and> lj_journalType j = ty) (ledgerJournals s) = None \<longleftrightarrow> \<not> recorded sel i ty s"
  by (auto simp: find_None_iff recorded_def)

lemma findLedgerJournalByIntentAndType_Inr [tx_iff]:
  "findLedgerJournalByIntentAndType i ty s = Inr (r, t) \<longleftrightarrow>
     r = find (\<lambda>j. lj_transactionIntentId j = Some i \<and> lj_journalType j = ty) (ledgerJournals s) \<and> t = s"
  by (auto simp: findLedgerJournalByIntentAndType_def tx_iff)

lemma findLedgerJournalByLoanAgreementAndType_Inr [tx_iff]:
  "findLedgerJournalByLoanAgreementAndType i ty s = Inr (r, t) \<longleftrightarrow>
     r = find (\<lambda>j. lj_loanAgreementId j = Some i \<and> lj_journalType j = ty) (ledgerJournals s) \<and> t = s"
  by (auto simp: findLedgerJournalByLoanAgreementAndType_def tx_iff)

lemma findLedgerJournalByLoanRepaymentEventAndType_Inr [tx_iff]:
  "findLedgerJournalByLoanRepaymentEventAndType i ty s = Inr (r, t) \<longleftrightarrow>
     r = find (\<lambda>j. lj_loanRepaymentEventId j = Some i \<and> lj_journalType j = ty) (ledgerJournals s) \<and> t = s"
  by (auto simp: findLedgerJournalByLoanRepaymentEventAndType_def tx_iff)

text \<open>The balance row of a key after an update, read through the projections.\<close>

lemma available_upd [simp]:
  "available (s\<lparr>customerAssetBalances := m((c, a) \<mapsto> b)\<rparr>) c' a' =
     (if (c', a') = (c, a) then cab_availableBalance b
      else available (s\<lparr>customerAssetBalances := m\<rparr>) c' a')"
  by (auto simp: available_def)

lemma pending_upd [simp]:
  "pending (s\<lparr>customerAssetBalances := m((c, a) \<mapsto> b)\<rparr>) c' a' =
     (if (c', a') = (c, a) then cab_pendingBalance b
      else pending (s\<lparr>customerAssetBalances := m\<rparr>) c' a')"
  by (auto simp: pending_def)

text \<open>
  Two accounts opened, balances updated in between, one journal of two postings: the common
  tail of every customer operation.
\<close>

lemma pair_effect:
  assumes wf: "ledger_wf s"
    and o1: "ledgerAccount_upsert k1 ty1 ch1 as1 cu1 s = Inr (a1, s1)"
    and o2: "ledgerAccount_upsert k2 ty2 ch2 as2 cu2 s1 = Inr (a2, s2)"
    and books: "same_books s2 s3"
    and create: "ledgerJournal_create (Some i) None None ty chain asset s3 = Inr (j, s4)"
    and post: "ledgerPosting_createMany [posting j d debit x, posting j c credit x] s4 = Inr (u, t)"
    and dc: "(kd, d) \<in> {(k1, a1), (k2, a2)}" "(kc, c) \<in> {(k1, a1), (k2, a2)}"
    and new: "\<not> recorded lj_transactionIntentId i ty s"
  shows "ledger_effect lj_transactionIntentId i ty (moves kd kc x) s t"
    and "journals_balanced s \<Longrightarrow> journals_balanced t"
    and "same_money s s2" and "same_money s3 t"
proof -
  let ?es = "[(kd, d, debit, x), (kc, c, credit, x)]"
  note o = open_two [OF wf o1 o2]
  have es: "entries_open s2 ?es" using o(3,4) dc by (auto simp: entries_open_def)
  have ps: "[posting j d debit x, posting j c credit x] = map (entry_posting j) ?es" by simp
  note je = journal_effect [OF o(1,2) books es create post ps]
  have "lj_transactionIntentId j = Some i \<and> lj_journalType j = ty"
    using ledgerJournal_create_cases [OF create] by simp
  with je(1,3,4) new show "ledger_effect lj_transactionIntentId i ty (moves kd kc x) s t"
    by (simp add: ledger_effect_def entries_shift_pair)
  show "journals_balanced t" if "journals_balanced s" using that by (intro je(5)) simp_all
  show "same_money s s2" using o(2) by (simp add: opens_def)
  show "same_money s3 t" by (rule je(2))
qed

lemma pair_forward:
  assumes "ledger_wf s"
    and "ledgerAccount_upsert k1 ty1 ch1 as1 cu1 s = Inr (a1, s1)"
    and "ledgerAccount_upsert k2 ty2 ch2 as2 cu2 s1 = Inr (a2, s2)"
    and "same_books s2 s3"
    and "ledgerJournal_create (Some i) None None ty chain asset s3 = Inr (j, s4)"
    and "ledgerPosting_createMany [posting j a1 debit x, posting j a2 credit x] s4 = Inr (u, t)"
    and "\<not> recorded lj_transactionIntentId i ty s"
  shows "ledger_effect lj_transactionIntentId i ty (moves k1 k2 x) s t"
    and "journals_balanced s \<Longrightarrow> journals_balanced t"
    and "same_money s s2" and "same_money s3 t"
  using pair_effect [where kd = k1 and d = a1 and kc = k2 and c = a2, OF assms(1-6) _ _ assms(7)]
  by simp_all

lemma pair_backward:
  assumes "ledger_wf s"
    and "ledgerAccount_upsert k1 ty1 ch1 as1 cu1 s = Inr (a1, s1)"
    and "ledgerAccount_upsert k2 ty2 ch2 as2 cu2 s1 = Inr (a2, s2)"
    and "same_books s2 s3"
    and "ledgerJournal_create (Some i) None None ty chain asset s3 = Inr (j, s4)"
    and "ledgerPosting_createMany [posting j a2 debit x, posting j a1 credit x] s4 = Inr (u, t)"
    and "\<not> recorded lj_transactionIntentId i ty s"
  shows "ledger_effect lj_transactionIntentId i ty (moves k2 k1 x) s t"
    and "journals_balanced s \<Longrightarrow> journals_balanced t"
    and "same_money s s2" and "same_money s3 t"
  using pair_effect [where kd = k2 and d = a2 and kc = k1 and c = a1, OF assms(1-6) _ _ assms(7)]
  by simp_all

text \<open>
  The shape the five reservation operations share: guard on the journal, open two accounts,
  move the balance under its guard, write the journal. One lemma per direction of posting.
\<close>

lemma guarded_forward:
  assumes run: "bindT (findLedgerJournalByIntentAndType i ty) (\<lambda>existing.
      bindT (throwIf (existing \<noteq> None) e1) (\<lambda>_.
      bindT (ledgerAccount_upsert k1 ty1 ch1 as1 cu1) (\<lambda>a1.
      bindT (ledgerAccount_upsert k2 ty2 ch2 as2 cu2) (\<lambda>a2.
      bindT (customerAssetBalance_updateMany c a guard upd) (\<lambda>count.
      bindT (throwIf (count \<noteq> 1) e2) (\<lambda>_.
      bindT (customerAssetBalance_findUnique c a) (\<lambda>row.
      bindT (requireT row e3) (\<lambda>balance.
      bindT (ledgerJournal_create (Some i) None None ty chain asset) (\<lambda>j.
      bindT (ledgerPosting_createMany [posting j a1 debit x, posting j a2 credit x]) (\<lambda>_.
      returnT (f j a1 a2 balance))))))))))) s = Inr (r, t)"
    and wf: "ledger_wf s"
  shows "ledger_effect lj_transactionIntentId i ty (moves k1 k2 x) s t"
    and "journals_balanced s \<Longrightarrow> journals_balanced t"
    and "\<exists>b j a1 a2. customerAssetBalances s (c, a) = Some b \<and> guard b \<and> fits_balance (upd b) \<and>
      customerAssetBalances t = (customerAssetBalances s)((c, a) \<mapsto> upd b) \<and>
      retirementVaults t = retirementVaults s \<and> r = f j a1 a2 (upd b)"
proof -
  from run obtain a1 s1 a2 s2 s3 b j s4 where
    new: "\<not> recorded lj_transactionIntentId i ty s"
    and o1: "ledgerAccount_upsert k1 ty1 ch1 as1 cu1 s = Inr (a1, s1)"
    and o2: "ledgerAccount_upsert k2 ty2 ch2 as2 cu2 s1 = Inr (a2, s2)"
    and b: "customerAssetBalances s2 (c, a) = Some b" "guard b" "fits_balance (upd b)"
    and s3: "s3 = s2\<lparr>customerAssetBalances := (customerAssetBalances s2)((c, a) \<mapsto> upd b)\<rparr>"
    and create: "ledgerJournal_create (Some i) None None ty chain asset s3 = Inr (j, s4)"
    and post: "ledgerPosting_createMany [posting j a1 debit x, posting j a2 credit x] s4 = Inr ((), t)"
    and r: "r = f j a1 a2 (upd b)"
    by (auto simp: tx_iff find_recorded split: option.splits if_splits)
  have "same_books s2 s3" using s3 by simp
  note pe = pair_forward [OF wf o1 o2 this create post new]
  show "ledger_effect lj_transactionIntentId i ty (moves k1 k2 x) s t" by (rule pe(1))
  show "journals_balanced t" if "journals_balanced s" using that by (rule pe(2))
  show "\<exists>b j a1 a2. customerAssetBalances s (c, a) = Some b \<and> guard b \<and> fits_balance (upd b) \<and>
      customerAssetBalances t = (customerAssetBalances s)((c, a) \<mapsto> upd b) \<and>
      retirementVaults t = retirementVaults s \<and> r = f j a1 a2 (upd b)"
    using pe(3,4) b s3 r by (auto simp: same_money_def)
qed

lemma guarded_backward:
  assumes run: "bindT (findLedgerJournalByIntentAndType i ty) (\<lambda>existing.
      bindT (throwIf (existing \<noteq> None) e1) (\<lambda>_.
      bindT (ledgerAccount_upsert k1 ty1 ch1 as1 cu1) (\<lambda>a1.
      bindT (ledgerAccount_upsert k2 ty2 ch2 as2 cu2) (\<lambda>a2.
      bindT (customerAssetBalance_updateMany c a guard upd) (\<lambda>count.
      bindT (throwIf (count \<noteq> 1) e2) (\<lambda>_.
      bindT (customerAssetBalance_findUnique c a) (\<lambda>row.
      bindT (requireT row e3) (\<lambda>balance.
      bindT (ledgerJournal_create (Some i) None None ty chain asset) (\<lambda>j.
      bindT (ledgerPosting_createMany [posting j a2 debit x, posting j a1 credit x]) (\<lambda>_.
      returnT (f j a1 a2 balance))))))))))) s = Inr (r, t)"
    and wf: "ledger_wf s"
  shows "ledger_effect lj_transactionIntentId i ty (moves k2 k1 x) s t"
    and "journals_balanced s \<Longrightarrow> journals_balanced t"
    and "\<exists>b j a1 a2. customerAssetBalances s (c, a) = Some b \<and> guard b \<and> fits_balance (upd b) \<and>
      customerAssetBalances t = (customerAssetBalances s)((c, a) \<mapsto> upd b) \<and>
      retirementVaults t = retirementVaults s \<and> r = f j a1 a2 (upd b)"
proof -
  from run obtain a1 s1 a2 s2 s3 b j s4 where
    new: "\<not> recorded lj_transactionIntentId i ty s"
    and o1: "ledgerAccount_upsert k1 ty1 ch1 as1 cu1 s = Inr (a1, s1)"
    and o2: "ledgerAccount_upsert k2 ty2 ch2 as2 cu2 s1 = Inr (a2, s2)"
    and b: "customerAssetBalances s2 (c, a) = Some b" "guard b" "fits_balance (upd b)"
    and s3: "s3 = s2\<lparr>customerAssetBalances := (customerAssetBalances s2)((c, a) \<mapsto> upd b)\<rparr>"
    and create: "ledgerJournal_create (Some i) None None ty chain asset s3 = Inr (j, s4)"
    and post: "ledgerPosting_createMany [posting j a2 debit x, posting j a1 credit x] s4 = Inr ((), t)"
    and r: "r = f j a1 a2 (upd b)"
    by (auto simp: tx_iff find_recorded split: option.splits if_splits)
  have "same_books s2 s3" using s3 by simp
  note pe = pair_backward [OF wf o1 o2 this create post new]
  show "ledger_effect lj_transactionIntentId i ty (moves k2 k1 x) s t" by (rule pe(1))
  show "journals_balanced t" if "journals_balanced s" using that by (rule pe(2))
  show "\<exists>b j a1 a2. customerAssetBalances s (c, a) = Some b \<and> guard b \<and> fits_balance (upd b) \<and>
      customerAssetBalances t = (customerAssetBalances s)((c, a) \<mapsto> upd b) \<and>
      retirementVaults t = retirementVaults s \<and> r = f j a1 a2 (upd b)"
    using pe(3,4) b s3 r by (auto simp: same_money_def)
qed

lemma money_shift_row:
  assumes "customerAssetBalances s (c, a) = Some b"
    and "customerAssetBalances t = (customerAssetBalances s)((c, a) \<mapsto> b')"
    and "retirementVaults t = retirementVaults s"
    and "cab_availableBalance b' = cab_availableBalance b + x"
    and "cab_pendingBalance b' = cab_pendingBalance b + y"
  shows "money_shift (change_at (c, a) x) (change_at (c, a) y) no_change s t"
  using assms by (auto simp: money_shift_def available_def pending_def locked_def change_at_def)

section \<open>One law per operation\<close>

lemma settleConfirmedDeposit_law:
  assumes run: "settleConfirmedDeposit p s = Inr (r, t)" and wf: "ledger_wf s"
  shows "ledger_effect lj_transactionIntentId (p_transactionIntentId p) deposit_settlement
      (moves (buildInboundClearingLedgerKey (p_chainId p) (p_assetId p))
        (buildCustomerLiabilityLedgerKey (p_customerAccountId p) (p_assetId p)) (p_amount p)) s t"
    and "journals_balanced s \<Longrightarrow> journals_balanced t"
    and "money_shift (change_at (p_customerAccountId p, p_assetId p) (p_amount p)) no_change no_change s t"
    and "sd_availableBalance r = available t (p_customerAccountId p) (p_assetId p)"
proof -
  let ?c = "p_customerAccountId p" and ?a = "p_assetId p" and ?x = "p_amount p"
  from run obtain d s1 c s2 j s3 s4 b where
    new: "\<not> recorded lj_transactionIntentId (p_transactionIntentId p) deposit_settlement s"
    and o1: "inboundClearingAccount (p_chainId p) ?a s = Inr (d, s1)"
    and o2: "customerLiabilityAccount ?c (p_chainId p) ?a s1 = Inr (c, s2)"
    and create: "ledgerJournal_create (Some (p_transactionIntentId p)) None None deposit_settlement
        (p_chainId p) ?a s2 = Inr (j, s3)"
    and post: "ledgerPosting_createMany [posting j d debit ?x, posting j c credit ?x] s3 = Inr ((), s4)"
    and bal: "customerAssetBalance_credit ?c ?a ?x s4 = Inr (b, t)"
    and r: "sd_availableBalance r = cab_availableBalance b"
    unfolding settleConfirmedDeposit_def bindT_Inr
    by (auto simp: tx_iff find_recorded simp del: customerAssetBalance_credit_Inr)
  note pe = pair_forward [OF wf o1 [unfolded ledger_account_defs] o2 [unfolded ledger_account_defs]
      same_books_balances(4) create post new]
  have "same_books s4 t" using bal by (auto simp: tx_iff)
  then have books: "key_net t k = key_net s4 k" "ledger_wf t = ledger_wf s4"
    "journals_balanced t = journals_balanced s4" "ledgerJournals t = ledgerJournals s4" for k
    by (simp_all add: same_books_key_net same_books_wf same_books_balanced) (simp add: same_books_def)
  show "ledger_effect lj_transactionIntentId (p_transactionIntentId p) deposit_settlement
      (moves (buildInboundClearingLedgerKey (p_chainId p) ?a)
        (buildCustomerLiabilityLedgerKey ?c ?a) ?x) s t"
    using pe(1) books by (simp add: ledger_effect_def shifts_def)
  show "journals_balanced t" if "journals_balanced s" using pe(2) that books by simp
  have "same_money s s4" using pe(3,4) by (simp add: same_money_def)
  with bal show "money_shift (change_at (?c, ?a) ?x) no_change no_change s t"
    by (auto simp: tx_iff money_shift_def same_money_def available_def pending_def locked_def change_at_def
        split: option.splits)
  show "sd_availableBalance r = available t ?c ?a" using bal r by (auto simp: tx_iff)
qed

lemma reserveWithdrawalBalance_law:
  assumes run: "reserveWithdrawalBalance p s = Inr (r, t)" and wf: "ledger_wf s"
  shows "ledger_effect lj_transactionIntentId (p_transactionIntentId p) withdrawal_reservation
      (moves (buildCustomerLiabilityLedgerKey (p_customerAccountId p) (p_assetId p))
        (buildPendingWithdrawalLiabilityLedgerKey (p_customerAccountId p) (p_assetId p)) (p_amount p)) s t"
    and "journals_balanced s \<Longrightarrow> journals_balanced t"
    and "money_shift (change_at (p_customerAccountId p, p_assetId p) (- p_amount p))
      (change_at (p_customerAccountId p, p_assetId p) (p_amount p)) no_change s t"
    and "p_amount p \<le> available s (p_customerAccountId p) (p_assetId p)"
proof -
  note g = guarded_forward [OF run [unfolded reserveWithdrawalBalance_def ledger_account_defs] wf]
  show "ledger_effect lj_transactionIntentId (p_transactionIntentId p) withdrawal_reservation
      (moves (buildCustomerLiabilityLedgerKey (p_customerAccountId p) (p_assetId p))
        (buildPendingWithdrawalLiabilityLedgerKey (p_customerAccountId p) (p_assetId p)) (p_amount p)) s t"
    by (rule g(1))
  show "journals_balanced t" if "journals_balanced s" using that by (rule g(2))
  show "money_shift (change_at (p_customerAccountId p, p_assetId p) (- p_amount p))
      (change_at (p_customerAccountId p, p_assetId p) (p_amount p)) no_change s t"
    using g(3) by (auto intro: money_shift_row)
  show "p_amount p \<le> available s (p_customerAccountId p) (p_assetId p)"
    using g(3) by (auto simp: available_def)
qed

lemma releaseWithdrawalReservation_law:
  assumes run: "releaseWithdrawalReservation p s = Inr (r, t)" and wf: "ledger_wf s"
  shows "ledger_effect lj_transactionIntentId (p_transactionIntentId p) withdrawal_reservation_release
      (moves (buildPendingWithdrawalLiabilityLedgerKey (p_customerAccountId p) (p_assetId p))
        (buildCustomerLiabilityLedgerKey (p_customerAccountId p) (p_assetId p)) (p_amount p)) s t"
    and "journals_balanced s \<Longrightarrow> journals_balanced t"
    and "money_shift (change_at (p_customerAccountId p, p_assetId p) (p_amount p))
      (change_at (p_customerAccountId p, p_assetId p) (- p_amount p)) no_change s t"
    and "p_amount p \<le> pending s (p_customerAccountId p) (p_assetId p)"
proof -
  note g = guarded_backward [OF run [unfolded releaseWithdrawalReservation_def ledger_account_defs] wf]
  show "ledger_effect lj_transactionIntentId (p_transactionIntentId p) withdrawal_reservation_release
      (moves (buildPendingWithdrawalLiabilityLedgerKey (p_customerAccountId p) (p_assetId p))
        (buildCustomerLiabilityLedgerKey (p_customerAccountId p) (p_assetId p)) (p_amount p)) s t"
    by (rule g(1))
  show "journals_balanced t" if "journals_balanced s" using that by (rule g(2))
  show "money_shift (change_at (p_customerAccountId p, p_assetId p) (p_amount p))
      (change_at (p_customerAccountId p, p_assetId p) (- p_amount p)) no_change s t"
    using g(3) by (auto intro: money_shift_row)
  show "p_amount p \<le> pending s (p_customerAccountId p) (p_assetId p)"
    using g(3) by (auto simp: pending_def)
qed

lemma settleConfirmedWithdrawal_law:
  assumes run: "settleConfirmedWithdrawal p s = Inr (r, t)" and wf: "ledger_wf s"
  shows "ledger_effect lj_transactionIntentId (p_transactionIntentId p) withdrawal_settlement
      (moves (buildPendingWithdrawalLiabilityLedgerKey (p_customerAccountId p) (p_assetId p))
        (buildOutboundClearingLedgerKey (p_chainId p) (p_assetId p)) (p_amount p)) s t"
    and "journals_balanced s \<Longrightarrow> journals_balanced t"
    and "money_shift (no_change)
      (change_at (p_customerAccountId p, p_assetId p) (- p_amount p)) no_change s t"
    and "p_amount p \<le> pending s (p_customerAccountId p) (p_assetId p)"
proof -
  note g = guarded_backward [OF run [unfolded settleConfirmedWithdrawal_def ledger_account_defs] wf]
  show "ledger_effect lj_transactionIntentId (p_transactionIntentId p) withdrawal_settlement
      (moves (buildPendingWithdrawalLiabilityLedgerKey (p_customerAccountId p) (p_assetId p))
        (buildOutboundClearingLedgerKey (p_chainId p) (p_assetId p)) (p_amount p)) s t"
    by (rule g(1))
  show "journals_balanced t" if "journals_balanced s" using that by (rule g(2))
  have "money_shift (change_at (p_customerAccountId p, p_assetId p) 0)
      (change_at (p_customerAccountId p, p_assetId p) (- p_amount p)) no_change s t"
    using g(3) by (auto intro: money_shift_row)
  then show "money_shift (no_change)
      (change_at (p_customerAccountId p, p_assetId p) (- p_amount p)) no_change s t"
    by (simp add: money_shift_def)
  show "p_amount p \<le> pending s (p_customerAccountId p) (p_assetId p)"
    using g(3) by (auto simp: pending_def)
qed

lemma reserveInternalBalanceTransferBalance_law:
  assumes run: "reserveInternalBalanceTransferBalance p s = Inr (r, t)" and wf: "ledger_wf s"
  shows "ledger_effect lj_transactionIntentId (p_transactionIntentId p) internal_balance_transfer_reservation
      (moves (buildCustomerLiabilityLedgerKey (p_customerAccountId p) (p_assetId p))
        (buildPendingInternalTransferLiabilityLedgerKey (p_customerAccountId p) (p_assetId p)) (p_amount p)) s t"
    and "journals_balanced s \<Longrightarrow> journals_balanced t"
    and "money_shift (change_at (p_customerAccountId p, p_assetId p) (- p_amount p))
      (change_at (p_customerAccountId p, p_assetId p) (p_amount p)) no_change s t"
    and "p_amount p \<le> available s (p_customerAccountId p) (p_assetId p)"
proof -
  note g = guarded_forward [OF run [unfolded reserveInternalBalanceTransferBalance_def ledger_account_defs] wf]
  show "ledger_effect lj_transactionIntentId (p_transactionIntentId p) internal_balance_transfer_reservation
      (moves (buildCustomerLiabilityLedgerKey (p_customerAccountId p) (p_assetId p))
        (buildPendingInternalTransferLiabilityLedgerKey (p_customerAccountId p) (p_assetId p)) (p_amount p)) s t"
    by (rule g(1))
  show "journals_balanced t" if "journals_balanced s" using that by (rule g(2))
  show "money_shift (change_at (p_customerAccountId p, p_assetId p) (- p_amount p))
      (change_at (p_customerAccountId p, p_assetId p) (p_amount p)) no_change s t"
    using g(3) by (auto intro: money_shift_row)
  show "p_amount p \<le> available s (p_customerAccountId p) (p_assetId p)"
    using g(3) by (auto simp: available_def)
qed

lemma releaseInternalBalanceTransferReservation_law:
  assumes run: "releaseInternalBalanceTransferReservation p s = Inr (r, t)" and wf: "ledger_wf s"
  shows "ledger_effect lj_transactionIntentId (p_transactionIntentId p) internal_balance_transfer_reservation_release
      (moves (buildPendingInternalTransferLiabilityLedgerKey (p_customerAccountId p) (p_assetId p))
        (buildCustomerLiabilityLedgerKey (p_customerAccountId p) (p_assetId p)) (p_amount p)) s t"
    and "journals_balanced s \<Longrightarrow> journals_balanced t"
    and "money_shift (change_at (p_customerAccountId p, p_assetId p) (p_amount p))
      (change_at (p_customerAccountId p, p_assetId p) (- p_amount p)) no_change s t"
    and "p_amount p \<le> pending s (p_customerAccountId p) (p_assetId p)"
proof -
  note g = guarded_backward [OF run [unfolded releaseInternalBalanceTransferReservation_def ledger_account_defs] wf]
  show "ledger_effect lj_transactionIntentId (p_transactionIntentId p) internal_balance_transfer_reservation_release
      (moves (buildPendingInternalTransferLiabilityLedgerKey (p_customerAccountId p) (p_assetId p))
        (buildCustomerLiabilityLedgerKey (p_customerAccountId p) (p_assetId p)) (p_amount p)) s t"
    by (rule g(1))
  show "journals_balanced t" if "journals_balanced s" using that by (rule g(2))
  show "money_shift (change_at (p_customerAccountId p, p_assetId p) (p_amount p))
      (change_at (p_customerAccountId p, p_assetId p) (- p_amount p)) no_change s t"
    using g(3) by (auto intro: money_shift_row)
  show "p_amount p \<le> pending s (p_customerAccountId p) (p_assetId p)"
    using g(3) by (auto simp: pending_def)
qed

text \<open>The settlement of an internal transfer, from the reserved or the available amount.\<close>

definition senderKey :: "SettleInternalBalanceTransferParams \<Rightarrow> string" where
  "senderKey p =
     (if si_settleFromPending p
      then buildPendingInternalTransferLiabilityLedgerKey (si_senderCustomerAccountId p) (si_assetId p)
      else buildCustomerLiabilityLedgerKey (si_senderCustomerAccountId p) (si_assetId p))"

lemma senderDebitAccount_upsert:
  "\<exists>ty. senderDebitAccount p = ledgerAccount_upsert (senderKey p) ty (si_chainId p) (si_assetId p)
     (Some (si_senderCustomerAccountId p))"
  by (auto simp: senderDebitAccount_def senderKey_def ledger_account_defs)

definition taken :: "SettleInternalBalanceTransferParams \<Rightarrow> bool \<Rightarrow> string \<times> string \<Rightarrow> decimal" where
  "taken p from =
     (if si_settleFromPending p = from
      then change_at (si_senderCustomerAccountId p, si_assetId p) (- si_amount p) else no_change)"

lemma debitSenderBalance_Inr:
  assumes "debitSenderBalance p s = Inr (u, t)"
  shows "same_books s t \<and> money_shift (taken p False) (taken p True) no_change s t \<and>
    (if si_settleFromPending p
     then si_amount p \<le> pending s (si_senderCustomerAccountId p) (si_assetId p)
     else si_amount p \<le> available s (si_senderCustomerAccountId p) (si_assetId p))"
  using assms
  by (auto simp: debitSenderBalance_def tx_iff taken_def money_shift_def available_def pending_def
      locked_def change_at_def split: option.splits if_splits)

lemma customerAssetBalance_credit_shift:
  assumes "customerAssetBalance_credit c a x s = Inr (b, t)"
  shows "same_books s t \<and> money_shift (change_at (c, a) x) no_change no_change s t \<and>
    cab_availableBalance b = available t c a \<and> cab_pendingBalance b = pending t c a"
  using assms
  by (auto simp: tx_iff money_shift_def available_def pending_def locked_def change_at_def split: option.splits)

lemma money_shift_trans:
  assumes "money_shift fa fp fl s t" "money_shift ga gp gl t u"
  shows "money_shift (\<lambda>k. fa k + ga k) (\<lambda>k. fp k + gp k) (\<lambda>v. fl v + gl v) s u"
  using assms by (simp add: money_shift_def)

lemma money_shift_cong:
  assumes "money_shift fa fp fl s t" "\<And>k. ga k = fa k" "\<And>k. gp k = fp k" "\<And>v. gl v = fl v"
  shows "money_shift ga gp gl s t"
  using assms by (simp add: money_shift_def)

lemma same_money_shift: "same_money s t \<Longrightarrow> money_shift no_change no_change no_change s t"
  by (simp add: money_shift_def same_money_balances) (simp add: same_money_def)

lemma settleInternalBalanceTransfer_law:
  assumes run: "settleInternalBalanceTransfer p s = Inr (r, t)" and wf: "ledger_wf s"
  shows "ledger_effect lj_transactionIntentId (si_transactionIntentId p) internal_balance_transfer_settlement
      (moves (senderKey p)
        (buildCustomerLiabilityLedgerKey (si_recipientCustomerAccountId p) (si_assetId p)) (si_amount p)) s t"
    and "journals_balanced s \<Longrightarrow> journals_balanced t"
    and "money_shift
      (\<lambda>k. taken p False k + change_at (si_recipientCustomerAccountId p, si_assetId p) (si_amount p) k)
      (taken p True) no_change s t"
    and "if si_settleFromPending p
      then si_amount p \<le> pending s (si_senderCustomerAccountId p) (si_assetId p)
      else si_amount p \<le> available s (si_senderCustomerAccountId p) (si_assetId p)"
proof -
  let ?r = "si_recipientCustomerAccountId p" and ?a = "si_assetId p" and ?x = "si_amount p"
  obtain ty where sd: "senderDebitAccount p = ledgerAccount_upsert (senderKey p) ty (si_chainId p) ?a
      (Some (si_senderCustomerAccountId p))"
    using senderDebitAccount_upsert by blast
  from run obtain d s1 c s2 s3 rb s4 j s5 where
    new: "\<not> recorded lj_transactionIntentId (si_transactionIntentId p) internal_balance_transfer_settlement s"
    and o1: "senderDebitAccount p s = Inr (d, s1)"
    and o2: "customerLiabilityAccount ?r (si_chainId p) ?a s1 = Inr (c, s2)"
    and deb: "debitSenderBalance p s2 = Inr ((), s3)"
    and cred: "customerAssetBalance_credit ?r ?a ?x s3 = Inr (rb, s4)"
    and create: "ledgerJournal_create (Some (si_transactionIntentId p)) None None
        internal_balance_transfer_settlement (si_chainId p) ?a s4 = Inr (j, s5)"
    and post: "ledgerPosting_createMany [posting j d debit ?x, posting j c credit ?x] s5 = Inr ((), t)"
    unfolding settleInternalBalanceTransfer_def bindT_Inr
    by (auto simp: tx_iff find_recorded simp del: customerAssetBalance_credit_Inr)
  note deb' = debitSenderBalance_Inr [OF deb]
  note cred' = customerAssetBalance_credit_shift [OF cred]
  have books: "same_books s2 s4" using deb' cred' by (blast intro: same_books_trans)
  note pe = pair_forward [OF wf o1 [unfolded sd] o2 [unfolded ledger_account_defs] books create post new]
  show "ledger_effect lj_transactionIntentId (si_transactionIntentId p) internal_balance_transfer_settlement
      (moves (senderKey p) (buildCustomerLiabilityLedgerKey ?r ?a) ?x) s t" by (rule pe(1))
  show "journals_balanced t" if "journals_balanced s" using that by (rule pe(2))
  have m24: "money_shift (\<lambda>k. taken p False k + change_at (?r, ?a) ?x k) (taken p True) no_change s2 s4"
    using money_shift_trans [of "taken p False" "taken p True" no_change s2 s3 "change_at (?r, ?a) ?x" no_change no_change s4]
      deb' cred' by (auto elim!: money_shift_cong)
  from money_shift_trans [OF same_money_shift [OF pe(3)] m24]
  have "money_shift (\<lambda>k. taken p False k + change_at (?r, ?a) ?x k) (taken p True) no_change s s4"
    by (rule money_shift_cong) simp_all
  from money_shift_trans [OF this same_money_shift [OF pe(4)]]
  show "money_shift (\<lambda>k. taken p False k + change_at (?r, ?a) ?x k) (taken p True) no_change s t"
    by (rule money_shift_cong) simp_all
  show "if si_settleFromPending p
      then ?x \<le> pending s (si_senderCustomerAccountId p) ?a
      else ?x \<le> available s (si_senderCustomerAccountId p) ?a"
    using deb' unfolding same_money_balances [OF pe(3)] by (simp split: if_splits)
qed

section \<open>Vaults\<close>

lemma fundRetirementVaultBalance_law:
  assumes run: "fundRetirementVaultBalance p s = Inr (r, t)" and wf: "ledger_wf s"
  shows "ledger_effect lj_transactionIntentId (fv_transactionIntentId p) retirement_vault_funding
      (moves (buildCustomerLiabilityLedgerKey (fv_customerAccountId p) (fv_assetId p))
        (buildRetirementVaultLiabilityLedgerKey (fv_retirementVaultId p) (fv_assetId p)) (fv_amount p)) s t"
    and "journals_balanced s \<Longrightarrow> journals_balanced t"
    and "money_shift (change_at (fv_customerAccountId p, fv_assetId p) (- fv_amount p)) no_change
      (change_at (fv_retirementVaultId p) (fv_amount p)) s t"
    and "fv_amount p \<le> available s (fv_customerAccountId p) (fv_assetId p)"
    and "retirementVaults s (fv_retirementVaultId p) \<noteq> None"
proof -
  let ?c = "fv_customerAccountId p" and ?a = "fv_assetId p" and ?x = "fv_amount p"
    and ?v = "fv_retirementVaultId p"
  from run obtain d s1 c s2 s3 b old j s4 where
    new: "\<not> recorded lj_transactionIntentId (fv_transactionIntentId p) retirement_vault_funding s"
    and o1: "customerLiabilityAccount ?c (fv_chainId p) ?a s = Inr (d, s1)"
    and o2: "retirementVaultLiabilityAccount ?v ?c (fv_chainId p) ?a s1 = Inr (c, s2)"
    and b: "customerAssetBalances s2 (?c, ?a) = Some b" "?x \<le> cab_availableBalance b"
    and old: "retirementVaults s2 ?v = Some old"
    and s3: "s3 = s2\<lparr>customerAssetBalances := (customerAssetBalances s2)((?c, ?a) \<mapsto>
        b\<lparr>cab_availableBalance := cab_availableBalance b - ?x\<rparr>),
        retirementVaults := (retirementVaults s2)(?v \<mapsto> fundedVaultRow old (now_ms s2) ?x old)\<rparr>"
    and create: "ledgerJournal_create (Some (fv_transactionIntentId p)) None None
        retirement_vault_funding (fv_chainId p) ?a s3 = Inr (j, s4)"
    and post: "ledgerPosting_createMany [posting j d debit ?x, posting j c credit ?x] s4 = Inr ((), t)"
    unfolding fundRetirementVaultBalance_def bindT_Inr
    by (auto simp: tx_iff find_recorded split: option.splits if_splits)
  have books: "same_books s2 s3" using s3 by (simp add: same_books_def)
  note pe = pair_forward [OF wf o1 [unfolded ledger_account_defs] o2 [unfolded ledger_account_defs]
      books create post new]
  show "ledger_effect lj_transactionIntentId (fv_transactionIntentId p) retirement_vault_funding
      (moves (buildCustomerLiabilityLedgerKey ?c ?a) (buildRetirementVaultLiabilityLedgerKey ?v ?a) ?x) s t"
    by (rule pe(1))
  show "journals_balanced t" if "journals_balanced s" using that by (rule pe(2))
  show "money_shift (change_at (?c, ?a) (- ?x)) no_change (change_at ?v ?x) s t"
    using pe(3,4) b old s3
    by (auto simp: money_shift_def same_money_def available_def pending_def locked_def change_at_def)
  show "?x \<le> available s ?c ?a" and "retirementVaults s ?v \<noteq> None"
    using pe(3) b old by (auto simp: same_money_def available_def)
qed

lemma releaseRetirementVaultBalance_law:
  assumes run: "releaseRetirementVaultBalance p s = Inr (r, t)" and wf: "ledger_wf s"
  shows "ledger_effect lj_transactionIntentId (fv_transactionIntentId p) retirement_vault_release
      (moves (buildRetirementVaultLiabilityLedgerKey (fv_retirementVaultId p) (fv_assetId p))
        (buildCustomerLiabilityLedgerKey (fv_customerAccountId p) (fv_assetId p)) (fv_amount p)) s t"
    and "journals_balanced s \<Longrightarrow> journals_balanced t"
    and "money_shift (change_at (fv_customerAccountId p, fv_assetId p) (fv_amount p)) no_change
      (change_at (fv_retirementVaultId p) (- fv_amount p)) s t"
    and "fv_amount p \<le> locked s (fv_retirementVaultId p)"
    and "\<exists>row. retirementVaults s (fv_retirementVaultId p) = Some row \<and> rv_assetId row = fv_assetId p"
proof -
  let ?c = "fv_customerAccountId p" and ?a = "fv_assetId p" and ?x = "fv_amount p"
    and ?v = "fv_retirementVaultId p"
  from run obtain d s1 c s2 s3 b old j s4 where
    new: "\<not> recorded lj_transactionIntentId (fv_transactionIntentId p) retirement_vault_release s"
    and o1: "customerLiabilityAccount ?c (fv_chainId p) ?a s = Inr (d, s1)"
    and o2: "retirementVaultLiabilityAccount ?v ?c (fv_chainId p) ?a s1 = Inr (c, s2)"
    and old: "retirementVaults s2 ?v = Some old" "rv_assetId old = ?a" "?x \<le> rv_lockedBalance old"
    and b: "customerAssetBalances s2 (?c, ?a) = Some b"
    and s3: "s3 = s2\<lparr>retirementVaults := (retirementVaults s2)(?v \<mapsto>
          old\<lparr>rv_lockedBalance := rv_lockedBalance old - ?x\<rparr>),
        customerAssetBalances := (customerAssetBalances s2)((?c, ?a) \<mapsto>
          b\<lparr>cab_availableBalance := cab_availableBalance b + ?x\<rparr>)\<rparr>"
    and create: "ledgerJournal_create (Some (fv_transactionIntentId p)) None None
        retirement_vault_release (fv_chainId p) ?a s3 = Inr (j, s4)"
    and post: "ledgerPosting_createMany [posting j c debit ?x, posting j d credit ?x] s4 = Inr ((), t)"
    unfolding releaseRetirementVaultBalance_def bindT_Inr
    by (auto simp: tx_iff find_recorded split: option.splits if_splits)
  have books: "same_books s2 s3" using s3 by (simp add: same_books_def)
  note pe = pair_backward [OF wf o1 [unfolded ledger_account_defs] o2 [unfolded ledger_account_defs]
      books create post new]
  show "ledger_effect lj_transactionIntentId (fv_transactionIntentId p) retirement_vault_release
      (moves (buildRetirementVaultLiabilityLedgerKey ?v ?a) (buildCustomerLiabilityLedgerKey ?c ?a) ?x) s t"
    by (rule pe(1))
  show "journals_balanced t" if "journals_balanced s" using that by (rule pe(2))
  show "money_shift (change_at (?c, ?a) ?x) no_change (change_at ?v (- ?x)) s t"
    using pe(3,4) b old s3
    by (auto simp: money_shift_def same_money_def available_def pending_def locked_def change_at_def)
  show "?x \<le> locked s ?v" and "\<exists>row. retirementVaults s ?v = Some row \<and> rv_assetId row = ?a"
    using pe(3) old by (auto simp: same_money_def locked_def)
qed

section \<open>Loans\<close>

text \<open>The optional fee account: opened under its key exactly when the fee is positive.\<close>

lemma whenFee_opens:
  assumes run: "whenFee fee (ledgerAccount_upsert k ty ch as cu) s = Inr (r, t)" and wf: "ledger_wf s"
  shows "opens s t" and "ledger_wf t"
    and "if fee > 0 then \<exists>a. r = Some a \<and> ledgerAccounts t k = Some a else r = None"
  using run ledgerAccount_upsert_opens [OF _ wf] opens_refl [of s] wf
  by (auto simp: whenFee_def tx_iff split: if_splits)

lemma opens_account: "opens s t \<Longrightarrow> ledgerAccounts s k = Some a \<Longrightarrow> ledgerAccounts t k = Some a"
  by (auto simp: opens_def map_le_def dom_def)

definition disbursementEntries ::
  "RecordLoanDisbursementParams \<Rightarrow> ledger_account \<Rightarrow> ledger_account \<Rightarrow> ledger_account option
     \<Rightarrow> ledger_account option \<Rightarrow> entry list" where
  "disbursementEntries p principalAcc outbound feeReceivable feeIncome =
     [(buildLoanPrincipalReceivableLedgerKey (ld_loanAgreementId p) (ld_assetId p), principalAcc, debit,
         ld_principalAmount p),
      (buildOutboundClearingLedgerKey (ld_chainId p) (ld_assetId p), outbound, credit, ld_principalAmount p)] @
     (case (feeReceivable, feeIncome) of
        (Some receivable, Some income) \<Rightarrow>
          [(buildLoanServiceFeeReceivableLedgerKey (ld_loanAgreementId p) (ld_assetId p), receivable, debit,
              ld_serviceFeeAmount p),
           (buildLoanServiceFeeIncomeLedgerKey (ld_chainId p) (ld_assetId p), income, credit,
              ld_serviceFeeAmount p)]
      | _ \<Rightarrow> [])"

lemma recordLoanDisbursement_law:
  assumes run: "recordLoanDisbursement p s = Inr (r, t)" and wf: "ledger_wf s"
  shows "\<exists>principalAcc outbound fr fi. ledger_effect lj_loanAgreementId (ld_loanAgreementId p) loan_disbursement
      (entries_shift (disbursementEntries p principalAcc outbound fr fi)) s t"
    and "journals_balanced s \<Longrightarrow> journals_balanced t"
    and "money_shift no_change no_change no_change s t"
proof -
  let ?a = "ld_assetId p" and ?n = "ld_chainId p" and ?l = "ld_loanAgreementId p"
  from run obtain outbound s1 principalAcc s2 fr s3 fi s4 j s5 where
    new: "\<not> recorded lj_loanAgreementId ?l loan_disbursement s"
    and o1: "outboundClearingAccount ?n ?a s = Inr (outbound, s1)"
    and o2: "loanPrincipalReceivableAccount ?l ?n ?a s1 = Inr (principalAcc, s2)"
    and o3: "whenFee (ld_serviceFeeAmount p) (loanServiceFeeReceivableAccount ?l ?n ?a) s2 = Inr (fr, s3)"
    and o4: "whenFee (ld_serviceFeeAmount p) (loanServiceFeeIncomeAccount ?n ?a) s3 = Inr (fi, s4)"
    and create: "ledgerJournal_create None (Some ?l) None loan_disbursement ?n ?a s4 = Inr (j, s5)"
    and post: "ledgerPosting_createMany
       ([posting j principalAcc debit (ld_principalAmount p), posting j outbound credit (ld_principalAmount p)] @
        (case (fr, fi) of (Some receivable, Some income) \<Rightarrow>
             [posting j receivable debit (ld_serviceFeeAmount p), posting j income credit (ld_serviceFeeAmount p)]
         | _ \<Rightarrow> [])) s5 = Inr ((), t)"
    unfolding recordLoanDisbursement_def bindT_Inr by (auto simp: tx_iff find_recorded)
  let ?es = "disbursementEntries p principalAcc outbound fr fi"
  note o12 = open_two [OF wf o1 [unfolded ledger_account_defs] o2 [unfolded ledger_account_defs]]
  note f3 = whenFee_opens [OF o3 [unfolded ledger_account_defs] o12(1)]
  note f4 = whenFee_opens [OF o4 [unfolded ledger_account_defs] f3(2)]
  have op: "opens s s4" using o12(2) f3(1) f4(1) by (blast intro: opens_trans)
  have es: "entries_open s4 ?es"
    using o12(3,4) f3 f4
    by (auto simp: entries_open_def disbursementEntries_def split: option.splits if_splits
        intro: opens_account)
  have ps: "[posting j principalAcc debit (ld_principalAmount p), posting j outbound credit (ld_principalAmount p)] @
      (case (fr, fi) of (Some receivable, Some income) \<Rightarrow>
           [posting j receivable debit (ld_serviceFeeAmount p), posting j income credit (ld_serviceFeeAmount p)]
       | _ \<Rightarrow> []) = map (entry_posting j) ?es"
    by (simp add: disbursementEntries_def split: option.splits)
  note je = journal_effect [OF f4(2) op same_books_balances(4) es create post ps]
  have j: "lj_loanAgreementId j = Some ?l \<and> lj_journalType j = loan_disbursement"
    using ledgerJournal_create_cases [OF create] by simp
  with je(1,3,4) new
  have "ledger_effect lj_loanAgreementId ?l loan_disbursement (entries_shift ?es) s t"
    by (simp add: ledger_effect_def)
  then show "\<exists>principalAcc outbound fr fi. ledger_effect lj_loanAgreementId ?l loan_disbursement
      (entries_shift (disbursementEntries p principalAcc outbound fr fi)) s t" by blast
  show "journals_balanced t" if "journals_balanced s"
    using that by (intro je(5)) (simp_all split: option.splits)
  have "same_money s t" using je(2) op by (simp add: same_money_def opens_def)
  then show "money_shift no_change no_change no_change s t" by (rule same_money_shift)
qed

definition repaymentEntries ::
  "RecordLoanRepaymentParams \<Rightarrow> ledger_account \<Rightarrow> ledger_account \<Rightarrow> ledger_account option \<Rightarrow> entry list" where
  "repaymentEntries p liability principalAcc feeReceivable =
     [(buildCustomerLiabilityLedgerKey (lr_customerAccountId p) (lr_assetId p), liability, debit,
         lr_totalAmount p),
      (buildLoanPrincipalReceivableLedgerKey (lr_loanAgreementId p) (lr_assetId p), principalAcc, credit,
         lr_principalAmount p)] @
     (case feeReceivable of
        Some receivable \<Rightarrow>
          [(buildLoanServiceFeeReceivableLedgerKey (lr_loanAgreementId p) (lr_assetId p), receivable, credit,
              lr_serviceFeeAmount p)]
      | None \<Rightarrow> [])"

definition feeApplied :: "RecordLoanRepaymentParams \<Rightarrow> decimal" where
  "feeApplied p = (if lr_serviceFeeAmount p > 0 then lr_serviceFeeAmount p else 0)"

lemma recordLoanRepayment_law:
  assumes run: "recordLoanRepayment p s = Inr (r, t)" and wf: "ledger_wf s"
  shows "\<exists>liability principalAcc fr. ledger_effect lj_loanRepaymentEventId (lr_loanRepaymentEventId p) loan_repayment
      (entries_shift (repaymentEntries p liability principalAcc fr)) s t"
    and "lr_totalAmount p = lr_principalAmount p + feeApplied p \<Longrightarrow> journals_balanced s \<Longrightarrow> journals_balanced t"
    and "journals_balanced t \<Longrightarrow> lr_totalAmount p = lr_principalAmount p + feeApplied p"
    and "money_shift (change_at (lr_customerAccountId p, lr_assetId p) (- lr_totalAmount p)) no_change no_change s t"
    and "lr_totalAmount p \<le> available s (lr_customerAccountId p) (lr_assetId p)"
    and "\<not> recorded lj_loanAgreementId (lr_loanAgreementId p) loan_repayment s"
    and "recorded lj_loanAgreementId (lr_loanAgreementId p) loan_repayment t"
proof -
  let ?c = "lr_customerAccountId p" and ?a = "lr_assetId p" and ?n = "lr_chainId p"
    and ?l = "lr_loanAgreementId p" and ?e = "lr_loanRepaymentEventId p" and ?x = "lr_totalAmount p"
  let ?fee = "\<lambda>j fr. case fr of Some receivable \<Rightarrow> [posting j receivable credit (lr_serviceFeeAmount p)]
    | None \<Rightarrow> []"
  from run obtain liability s1 principalAcc s2 fr s3 s4 b j s5 where
    new: "\<not> recorded lj_loanRepaymentEventId ?e loan_repayment s"
    and o1: "customerLiabilityAccount ?c ?n ?a s = Inr (liability, s1)"
    and o2: "loanPrincipalReceivableAccount ?l ?n ?a s1 = Inr (principalAcc, s2)"
    and o3: "whenFee (lr_serviceFeeAmount p) (loanServiceFeeReceivableAccount ?l ?n ?a) s2 = Inr (fr, s3)"
    and b: "customerAssetBalances s3 (?c, ?a) = Some b" "?x \<le> cab_availableBalance b"
    and s4: "s4 = s3\<lparr>customerAssetBalances := (customerAssetBalances s3)((?c, ?a) \<mapsto>
        b\<lparr>cab_availableBalance := cab_availableBalance b - ?x\<rparr>)\<rparr>"
    and create: "ledgerJournal_create None (Some ?l) (Some ?e) loan_repayment ?n ?a s4 = Inr (j, s5)"
    and post: "ledgerPosting_createMany
       ([posting j liability debit ?x, posting j principalAcc credit (lr_principalAmount p)] @ ?fee j fr) s5
       = Inr ((), t)"
    unfolding recordLoanRepayment_def bindT_Inr
    by (auto simp: tx_iff find_recorded split: option.splits if_splits)
  let ?es = "repaymentEntries p liability principalAcc fr"
  note o12 = open_two [OF wf o1 [unfolded ledger_account_defs] o2 [unfolded ledger_account_defs]]
  note f3 = whenFee_opens [OF o3 [unfolded ledger_account_defs] o12(1)]
  have op: "opens s s3" using o12(2) f3(1) by (rule opens_trans)
  have books: "same_books s3 s4" using s4 by simp
  have es: "entries_open s3 ?es"
    using o12(3,4) f3
    by (auto simp: entries_open_def repaymentEntries_def split: option.splits if_splits
        intro: opens_account)
  have ps: "[posting j liability debit ?x, posting j principalAcc credit (lr_principalAmount p)] @ ?fee j fr
      = map (entry_posting j) ?es"
    by (simp add: repaymentEntries_def split: option.splits)
  note je = journal_effect [OF f3(2) op books es create post ps]
  have j: "lj_loanRepaymentEventId j = Some ?e \<and> lj_loanAgreementId j = Some ?l \<and>
      lj_journalType j = loan_repayment"
    and noconf: "\<forall>j'\<in>set (ledgerJournals s4). \<not> journal_conflict None (Some ?l) (Some ?e) loan_repayment j'"
    using ledgerJournal_create_cases [OF create] by simp_all
  with je(1,3,4) new
  have "ledger_effect lj_loanRepaymentEventId ?e loan_repayment (entries_shift ?es) s t"
    by (simp add: ledger_effect_def)
  then show "\<exists>liability principalAcc fr. ledger_effect lj_loanRepaymentEventId ?e loan_repayment
      (entries_shift (repaymentEntries p liability principalAcc fr)) s t" by blast
  have total: "sum_list (map credit_effect
      ([posting j liability debit ?x, posting j principalAcc credit (lr_principalAmount p)] @ ?fee j fr))
      = lr_principalAmount p + feeApplied p - ?x"
    using f3(3) by (auto simp: feeApplied_def split: if_splits)
  show "journals_balanced t" if "?x = lr_principalAmount p + feeApplied p" "journals_balanced s"
    using that total by (intro je(5)) simp_all
  show "?x = lr_principalAmount p + feeApplied p" if "journals_balanced t"
    using je(6) [OF that] total by simp
  show "money_shift (change_at (?c, ?a) (- ?x)) no_change no_change s t"
    using op je(2) b s4
    by (auto simp: opens_def money_shift_def same_money_def available_def pending_def locked_def change_at_def)
  show "?x \<le> available s ?c ?a"
    using op b by (auto simp: opens_def same_money_def available_def)
  have "ledgerJournals s4 = ledgerJournals s" using op books by (simp add: opens_def same_books_def)
  with noconf show "\<not> recorded lj_loanAgreementId ?l loan_repayment s"
    by (auto simp: recorded_def journal_conflict_def same_key_def)
  show "recorded lj_loanAgreementId ?l loan_repayment t"
    using je(4) j by (auto simp: recorded_def)
qed

end
