(* ===== verification/Ledger_Invariants.thy ===== *)
theory Ledger_Invariants
  imports Ledger_Laws
begin

text \<open>
  The ledger as a whole: its operations as commands, the states they reach, and what holds in
  all of them. The customer projections (\<open>CustomerAssetBalance\<close>, the vaults' locked
  amounts) agree with the net credits of the ledger accounts, every journal is balanced, no
  projection is negative, and no journal is written twice.
\<close>

section \<open>Commands\<close>

datatype ledger_op =
    SettleDeposit SettleConfirmedDepositParams
  | ReserveWithdrawal ReserveWithdrawalBalanceParams
  | ReleaseWithdrawal ReleaseWithdrawalReservationParams
  | SettleWithdrawal SettleConfirmedWithdrawalParams
  | ReserveTransfer ReserveInternalBalanceTransferParams
  | ReleaseTransfer ReleaseInternalBalanceTransferReservationParams
  | SettleTransfer SettleInternalBalanceTransferParams
  | FundVault FundRetirementVaultBalanceParams
  | ReleaseVault ReleaseRetirementVaultBalanceParams
  | DisburseLoan RecordLoanDisbursementParams
  | RepayLoan RecordLoanRepaymentParams

definition voidT :: "'a dbtx \<Rightarrow> unit dbtx" where
  "voidT m = bindT m (\<lambda>_. returnT ())"

lemma voidT_Inr [tx_iff]: "voidT m s = Inr (u, t) \<longleftrightarrow> (\<exists>x. m s = Inr (x, t))"
  by (auto simp: voidT_def tx_iff)

fun run_ledger_op :: "ledger_op \<Rightarrow> unit dbtx" where
  "run_ledger_op (SettleDeposit p) = voidT (settleConfirmedDeposit p)"
| "run_ledger_op (ReserveWithdrawal p) = voidT (reserveWithdrawalBalance p)"
| "run_ledger_op (ReleaseWithdrawal p) = voidT (releaseWithdrawalReservation p)"
| "run_ledger_op (SettleWithdrawal p) = voidT (settleConfirmedWithdrawal p)"
| "run_ledger_op (ReserveTransfer p) = voidT (reserveInternalBalanceTransferBalance p)"
| "run_ledger_op (ReleaseTransfer p) = voidT (releaseInternalBalanceTransferReservation p)"
| "run_ledger_op (SettleTransfer p) = voidT (settleInternalBalanceTransfer p)"
| "run_ledger_op (FundVault p) = voidT (fundRetirementVaultBalance p)"
| "run_ledger_op (ReleaseVault p) = voidT (releaseRetirementVaultBalance p)"
| "run_ledger_op (DisburseLoan p) = voidT (recordLoanDisbursement p)"
| "run_ledger_op (RepayLoan p) = voidT (recordLoanRepayment p)"

text \<open>
  What the callers guarantee: amounts are not negative (\<open>parseRequestedAmount\<close>), the
  identifiers of customers and vaults are \<open>cuid\<close>s, a vault is funded in its own asset,
  and a repayment is split exactly into principal and fee.
\<close>

fun valid_op :: "db \<Rightarrow> ledger_op \<Rightarrow> bool" where
  "valid_op s (SettleDeposit p) = (0 \<le> p_amount p \<and> no_colon (p_customerAccountId p))"
| "valid_op s (ReserveWithdrawal p) = (0 \<le> p_amount p \<and> no_colon (p_customerAccountId p))"
| "valid_op s (ReleaseWithdrawal p) = (0 \<le> p_amount p \<and> no_colon (p_customerAccountId p))"
| "valid_op s (SettleWithdrawal p) = (0 \<le> p_amount p \<and> no_colon (p_customerAccountId p))"
| "valid_op s (ReserveTransfer p) = (0 \<le> p_amount p \<and> no_colon (p_customerAccountId p))"
| "valid_op s (ReleaseTransfer p) = (0 \<le> p_amount p \<and> no_colon (p_customerAccountId p))"
| "valid_op s (SettleTransfer p) = (0 \<le> si_amount p \<and> no_colon (si_senderCustomerAccountId p) \<and>
     no_colon (si_recipientCustomerAccountId p))"
| "valid_op s (FundVault p) = (0 \<le> fv_amount p \<and> no_colon (fv_customerAccountId p) \<and>
     no_colon (fv_retirementVaultId p) \<and>
     (case retirementVaults s (fv_retirementVaultId p) of None \<Rightarrow> True | Some v \<Rightarrow> rv_assetId v = fv_assetId p))"
| "valid_op s (ReleaseVault p) = (0 \<le> fv_amount p \<and> no_colon (fv_customerAccountId p) \<and>
     no_colon (fv_retirementVaultId p))"
| "valid_op s (DisburseLoan p) = True"
| "valid_op s (RepayLoan p) = (0 \<le> lr_totalAmount p \<and> no_colon (lr_customerAccountId p) \<and>
     lr_totalAmount p = lr_principalAmount p + feeApplied p)"

section \<open>Reconciliation\<close>

text \<open>What the vault \<open>v\<close> holds of the asset \<open>a\<close>.\<close>

definition vault_locked :: "db \<Rightarrow> string \<Rightarrow> string \<Rightarrow> decimal" where
  "vault_locked s v a =
     (case retirementVaults s v of None \<Rightarrow> 0 | Some r \<Rightarrow> if rv_assetId r = a then rv_lockedBalance r else 0)"

definition reconciled :: "db \<Rightarrow> bool" where
  "reconciled s \<longleftrightarrow>
     (\<forall>c a. no_colon c \<longrightarrow>
        available s c a = key_net s (buildCustomerLiabilityLedgerKey c a) \<and>
        pending s c a = key_net s (buildPendingWithdrawalLiabilityLedgerKey c a) +
          key_net s (buildPendingInternalTransferLiabilityLedgerKey c a)) \<and>
     (\<forall>v a. no_colon v \<longrightarrow>
        key_net s (buildRetirementVaultLiabilityLedgerKey v a) = vault_locked s v a)"

definition solvent :: "db \<Rightarrow> bool" where
  "solvent s \<longleftrightarrow> (\<forall>c a. 0 \<le> available s c a \<and> 0 \<le> pending s c a) \<and> (\<forall>v. 0 \<le> locked s v)"

lemma reconciled_shift:
  assumes rec: "reconciled s" and sh: "shifts f s t" and ms: "money_shift fa fp fl s t"
    and fa: "\<And>c a. no_colon c \<Longrightarrow> fa (c, a) = f (buildCustomerLiabilityLedgerKey c a)"
    and fp: "\<And>c a. no_colon c \<Longrightarrow> fp (c, a) = f (buildPendingWithdrawalLiabilityLedgerKey c a) +
      f (buildPendingInternalTransferLiabilityLedgerKey c a)"
    and fl: "\<And>v a. no_colon v \<Longrightarrow> f (buildRetirementVaultLiabilityLedgerKey v a) =
      (case retirementVaults s v of None \<Rightarrow> 0 | Some r \<Rightarrow> if rv_assetId r = a then fl v else 0)"
  shows "reconciled t"
proof -
  have "vault_locked t v a = vault_locked s v a + f (buildRetirementVaultLiabilityLedgerKey v a)"
    if "no_colon v" for v a
  proof (cases "retirementVaults s v")
    case None
    then have "retirementVaults t v = None" using ms by (metis money_shift_def option.map_disc_iff)
    with None fl [OF that] show ?thesis by (simp add: vault_locked_def)
  next
    case (Some r)
    have "map_option rv_assetId (retirementVaults t v) = map_option rv_assetId (retirementVaults s v)"
      using ms by (simp add: money_shift_def)
    with Some obtain r' where r': "retirementVaults t v = Some r'" "rv_assetId r' = rv_assetId r" by auto
    moreover have "locked t v = locked s v + fl v" using ms by (simp add: money_shift_def)
    ultimately show ?thesis using Some fl [OF that, of a] by (auto simp: vault_locked_def locked_def)
  qed
  with rec sh ms fa fp show ?thesis by (simp add: reconciled_def shifts_def money_shift_def)
qed

text \<open>Two ledger keys are equal only when they name the same account.\<close>

lemma colon_key_neq: "no_colon p \<Longrightarrow> no_colon p' \<Longrightarrow> p \<noteq> p' \<Longrightarrow> colon_key p x y \<noteq> colon_key p' x' y'"
  using colon_key_prefix by blast

lemma prefix_no_colon [simp]:
  "no_colon ''asset_inbound_clearing''" "no_colon ''asset_outbound_clearing''"
  "no_colon ''customer_asset_liability''" "no_colon ''customer_asset_pending_withdrawal_liability''"
  "no_colon ''customer_asset_pending_internal_transfer_liability''"
  "no_colon ''customer_retirement_vault_liability''" "no_colon ''loan_principal_receivable''"
  "no_colon ''loan_service_fee_receivable''" "no_colon ''loan_service_fee_income''"
  by (simp_all add: no_colon_def)

lemmas key_simps = ledger_key_defs colon_key_neq colon_key_eq_iff moves_def change_at_def
  entries_shift_def disbursementEntries_def repaymentEntries_def senderKey_def taken_def

lemma run_ledger_op_reconciled:
  assumes run: "run_ledger_op op s = Inr (u, t)" and wf: "ledger_wf s"
    and valid: "valid_op s op" and rec: "reconciled s"
  shows "reconciled t"
proof (cases op)
  case (SettleDeposit p)
  with run obtain r where r: "settleConfirmedDeposit p s = Inr (r, t)" by (auto simp: tx_iff)
  note l = settleConfirmedDeposit_law [OF r wf]
  show ?thesis
    using valid SettleDeposit
    by (intro reconciled_shift [OF rec ledger_effect_shifts [OF l(1)] l(3)])
      (auto simp: key_simps split: option.splits)
next
  case (ReserveWithdrawal p)
  with run obtain r where r: "reserveWithdrawalBalance p s = Inr (r, t)" by (auto simp: tx_iff)
  note l = reserveWithdrawalBalance_law [OF r wf]
  show ?thesis
    using valid ReserveWithdrawal
    by (intro reconciled_shift [OF rec ledger_effect_shifts [OF l(1)] l(3)])
      (auto simp: key_simps split: option.splits)
next
  case (ReleaseWithdrawal p)
  with run obtain r where r: "releaseWithdrawalReservation p s = Inr (r, t)" by (auto simp: tx_iff)
  note l = releaseWithdrawalReservation_law [OF r wf]
  show ?thesis
    using valid ReleaseWithdrawal
    by (intro reconciled_shift [OF rec ledger_effect_shifts [OF l(1)] l(3)])
      (auto simp: key_simps split: option.splits)
next
  case (SettleWithdrawal p)
  with run obtain r where r: "settleConfirmedWithdrawal p s = Inr (r, t)" by (auto simp: tx_iff)
  note l = settleConfirmedWithdrawal_law [OF r wf]
  show ?thesis
    using valid SettleWithdrawal
    by (intro reconciled_shift [OF rec ledger_effect_shifts [OF l(1)] l(3)])
      (auto simp: key_simps split: option.splits)
next
  case (ReserveTransfer p)
  with run obtain r where r: "reserveInternalBalanceTransferBalance p s = Inr (r, t)" by (auto simp: tx_iff)
  note l = reserveInternalBalanceTransferBalance_law [OF r wf]
  show ?thesis
    using valid ReserveTransfer
    by (intro reconciled_shift [OF rec ledger_effect_shifts [OF l(1)] l(3)])
      (auto simp: key_simps split: option.splits)
next
  case (ReleaseTransfer p)
  with run obtain r where r: "releaseInternalBalanceTransferReservation p s = Inr (r, t)" by (auto simp: tx_iff)
  note l = releaseInternalBalanceTransferReservation_law [OF r wf]
  show ?thesis
    using valid ReleaseTransfer
    by (intro reconciled_shift [OF rec ledger_effect_shifts [OF l(1)] l(3)])
      (auto simp: key_simps split: option.splits)
next
  case (SettleTransfer p)
  with run obtain r where r: "settleInternalBalanceTransfer p s = Inr (r, t)" by (auto simp: tx_iff)
  note l = settleInternalBalanceTransfer_law [OF r wf]
  show ?thesis
    using valid SettleTransfer
    by (intro reconciled_shift [OF rec ledger_effect_shifts [OF l(1)] l(3)])
      (auto simp: key_simps split: option.splits)
next
  case (FundVault p)
  with run obtain r where r: "fundRetirementVaultBalance p s = Inr (r, t)" by (auto simp: tx_iff)
  note l = fundRetirementVaultBalance_law [OF r wf]
  show ?thesis
    using valid FundVault l(5)
    by (intro reconciled_shift [OF rec ledger_effect_shifts [OF l(1)] l(3)])
      (auto simp: key_simps split: option.splits)
next
  case (ReleaseVault p)
  with run obtain r where r: "releaseRetirementVaultBalance p s = Inr (r, t)" by (auto simp: tx_iff)
  note l = releaseRetirementVaultBalance_law [OF r wf]
  show ?thesis
    using valid ReleaseVault l(5)
    by (intro reconciled_shift [OF rec ledger_effect_shifts [OF l(1)] l(3)])
      (auto simp: key_simps split: option.splits)
next
  case (DisburseLoan p)
  with run obtain r where r: "recordLoanDisbursement p s = Inr (r, t)" by (auto simp: tx_iff)
  note l = recordLoanDisbursement_law [OF r wf]
  from l(1) obtain d c fr fi where "shifts (entries_shift (disbursementEntries p d c fr fi)) s t"
    unfolding ledger_effect_def by blast
  then show ?thesis
    by (rule reconciled_shift [OF rec _ l(3)]) (simp_all add: key_simps split: option.splits)
next
  case (RepayLoan p)
  with run obtain r where r: "recordLoanRepayment p s = Inr (r, t)" by (auto simp: tx_iff)
  note l = recordLoanRepayment_law [OF r wf]
  from l(1) obtain d c fr where sh: "shifts (entries_shift (repaymentEntries p d c fr)) s t"
    unfolding ledger_effect_def by blast
  show ?thesis
    using valid RepayLoan
    by (intro reconciled_shift [OF rec sh l(4)]) (auto simp add: key_simps split: option.splits)
qed

section \<open>Well-formedness, balance, solvency\<close>

text \<open>The laws of all operations, dispatched: one rule for each quantity.\<close>

lemma run_ledger_op_wf: "run_ledger_op op s = Inr (u, t) \<Longrightarrow> ledger_wf s \<Longrightarrow> ledger_wf t"
  by (cases op) (auto simp: tx_iff dest: ledger_effect_wf
      [OF settleConfirmedDeposit_law(1)] ledger_effect_wf [OF reserveWithdrawalBalance_law(1)]
      ledger_effect_wf [OF releaseWithdrawalReservation_law(1)]
      ledger_effect_wf [OF settleConfirmedWithdrawal_law(1)]
      ledger_effect_wf [OF reserveInternalBalanceTransferBalance_law(1)]
      ledger_effect_wf [OF releaseInternalBalanceTransferReservation_law(1)]
      ledger_effect_wf [OF settleInternalBalanceTransfer_law(1)]
      ledger_effect_wf [OF fundRetirementVaultBalance_law(1)]
      ledger_effect_wf [OF releaseRetirementVaultBalance_law(1)]
      recordLoanDisbursement_law(1) recordLoanRepayment_law(1) ledger_effect_wf)

lemma run_ledger_op_balanced:
  assumes "run_ledger_op op s = Inr (u, t)" "ledger_wf s" "valid_op s op" "journals_balanced s"
  shows "journals_balanced t"
  using assms
  by (cases op) (auto simp: tx_iff dest: settleConfirmedDeposit_law(2) reserveWithdrawalBalance_law(2)
      releaseWithdrawalReservation_law(2) settleConfirmedWithdrawal_law(2)
      reserveInternalBalanceTransferBalance_law(2) releaseInternalBalanceTransferReservation_law(2)
      settleInternalBalanceTransfer_law(2) fundRetirementVaultBalance_law(2)
      releaseRetirementVaultBalance_law(2) recordLoanDisbursement_law(2) recordLoanRepayment_law(2))

lemma solvent_shift:
  assumes "solvent s" "money_shift fa fp fl s t"
    and "\<And>c a. 0 \<le> available s c a \<Longrightarrow> 0 \<le> available s c a + fa (c, a)"
    and "\<And>c a. 0 \<le> pending s c a \<Longrightarrow> 0 \<le> pending s c a + fp (c, a)"
    and "\<And>v. 0 \<le> locked s v \<Longrightarrow> 0 \<le> locked s v + fl v"
  shows "solvent t"
proof -
  have "0 \<le> available s c a + fa (c, a)" "0 \<le> pending s c a + fp (c, a)" "0 \<le> locked s v + fl v"
    for c a v using assms(1,3-5) by (simp_all add: solvent_def)
  with assms(2) show ?thesis by (simp add: solvent_def money_shift_def)
qed

lemma run_ledger_op_solvent:
  assumes run: "run_ledger_op op s = Inr (u, t)" and wf: "ledger_wf s"
    and valid: "valid_op s op" and sol: "solvent s"
  shows "solvent t"
proof -
  show ?thesis
  proof (cases op)
    case (SettleDeposit p)
    with run obtain r where r: "settleConfirmedDeposit p s = Inr (r, t)" by (auto simp: tx_iff)
    note l = settleConfirmedDeposit_law [OF r wf]
    show ?thesis using valid SettleDeposit
      by (intro solvent_shift [OF sol l(3)]) (auto simp: change_at_def)
  next
    case (ReserveWithdrawal p)
    with run obtain r where r: "reserveWithdrawalBalance p s = Inr (r, t)" by (auto simp: tx_iff)
    note l = reserveWithdrawalBalance_law [OF r wf]
    show ?thesis using valid ReserveWithdrawal l(4)
      by (intro solvent_shift [OF sol l(3)]) (auto simp: change_at_def)
  next
    case (ReleaseWithdrawal p)
    with run obtain r where r: "releaseWithdrawalReservation p s = Inr (r, t)" by (auto simp: tx_iff)
    note l = releaseWithdrawalReservation_law [OF r wf]
    show ?thesis using valid ReleaseWithdrawal l(4)
      by (intro solvent_shift [OF sol l(3)]) (auto simp: change_at_def)
  next
    case (SettleWithdrawal p)
    with run obtain r where r: "settleConfirmedWithdrawal p s = Inr (r, t)" by (auto simp: tx_iff)
    note l = settleConfirmedWithdrawal_law [OF r wf]
    show ?thesis using valid SettleWithdrawal l(4)
      by (intro solvent_shift [OF sol l(3)]) (auto simp: change_at_def)
  next
    case (ReserveTransfer p)
    with run obtain r where r: "reserveInternalBalanceTransferBalance p s = Inr (r, t)" by (auto simp: tx_iff)
    note l = reserveInternalBalanceTransferBalance_law [OF r wf]
    show ?thesis using valid ReserveTransfer l(4)
      by (intro solvent_shift [OF sol l(3)]) (auto simp: change_at_def)
  next
    case (ReleaseTransfer p)
    with run obtain r where r: "releaseInternalBalanceTransferReservation p s = Inr (r, t)" by (auto simp: tx_iff)
    note l = releaseInternalBalanceTransferReservation_law [OF r wf]
    show ?thesis using valid ReleaseTransfer l(4)
      by (intro solvent_shift [OF sol l(3)]) (auto simp: change_at_def)
  next
    case (SettleTransfer p)
    with run obtain r where r: "settleInternalBalanceTransfer p s = Inr (r, t)" by (auto simp: tx_iff)
    note l = settleInternalBalanceTransfer_law [OF r wf]
    show ?thesis using valid SettleTransfer l(4)
      by (intro solvent_shift [OF sol l(3)]) (auto simp: change_at_def taken_def split: if_splits)
  next
    case (FundVault p)
    with run obtain r where r: "fundRetirementVaultBalance p s = Inr (r, t)" by (auto simp: tx_iff)
    note l = fundRetirementVaultBalance_law [OF r wf]
    show ?thesis using valid FundVault l(4)
      by (intro solvent_shift [OF sol l(3)]) (auto simp: change_at_def)
  next
    case (ReleaseVault p)
    with run obtain r where r: "releaseRetirementVaultBalance p s = Inr (r, t)" by (auto simp: tx_iff)
    note l = releaseRetirementVaultBalance_law [OF r wf]
    show ?thesis using valid ReleaseVault l(4)
      by (intro solvent_shift [OF sol l(3)]) (auto simp: change_at_def)
  next
    case (DisburseLoan p)
    with run obtain r where r: "recordLoanDisbursement p s = Inr (r, t)" by (auto simp: tx_iff)
    note l = recordLoanDisbursement_law [OF r wf]
    show ?thesis by (intro solvent_shift [OF sol l(3)]) auto
  next
    case (RepayLoan p)
    with run obtain r where r: "recordLoanRepayment p s = Inr (r, t)" by (auto simp: tx_iff)
    note l = recordLoanRepayment_law [OF r wf]
    show ?thesis using valid RepayLoan l(5)
      by (intro solvent_shift [OF sol l(4)]) (auto simp: change_at_def)
  qed
qed

section \<open>The trial balance\<close>

lemma sum_list_indicator:
  "distinct is \<Longrightarrow> k \<in> set is \<Longrightarrow> sum_list (map (\<lambda>i. if k = i then e else 0) is) = e"
  for e :: int
proof (induction "is")
  case Nil
  then show ?case by simp
next
  case (Cons i "is")
  show ?case
  proof (cases "k = i")
    case True
    with Cons.prems have "k \<notin> set is" by simp
    then have "sum_list (map (\<lambda>i. if k = i then e else 0) is) = 0"
      by (intro sum_list_all_zero) auto
    with True show ?thesis by simp
  next
    case False
    with Cons show ?thesis by simp
  qed
qed

lemma sum_by_journal:
  assumes "distinct is" "\<forall>p\<in>set ps. lp_ledgerJournalId p \<in> set is"
  shows "sum_list (map credit_effect ps) = sum_list (map (journal_sum ps) is)"
  using assms(2)
proof (induction ps)
  case Nil
  show ?case by (simp add: sum_list_all_zero journal_sum_def)
next
  case (Cons p ps)
  have "map (journal_sum (p # ps)) is =
      map (\<lambda>i. (if lp_ledgerJournalId p = i then credit_effect p else 0) + journal_sum ps i) is"
    by (auto simp: journal_sum_def)
  then have "sum_list (map (journal_sum (p # ps)) is) =
      sum_list (map (\<lambda>i. if lp_ledgerJournalId p = i then credit_effect p else 0) is) +
      sum_list (map (journal_sum ps) is)"
    by (simp only: sum_list_addf)
  also have "\<dots> = credit_effect p + sum_list (map credit_effect ps)"
    using Cons assms(1) sum_list_indicator [of "is" "lp_ledgerJournalId p" "credit_effect p"] by simp
  finally show ?case by simp
qed

lemma trial_balance:
  assumes "ledger_wf s" "journals_balanced s"
  shows "sum_list (map credit_effect (ledgerPostings s)) = 0"
proof -
  let ?is = "map lj_id (ledgerJournals s)"
  have "sum_list (map credit_effect (ledgerPostings s)) =
      sum_list (map (journal_sum (ledgerPostings s)) ?is)"
    using assms(1) by (intro sum_by_journal) (auto simp: ledger_wf_def)
  also have "\<dots> = 0"
    using assms(2) by (intro sum_list_all_zero) (auto simp: journals_balanced_def)
  finally show ?thesis .
qed

section \<open>Written once\<close>

text \<open>The unique key under which an operation records its journal.\<close>

datatype journal_anchor = IntentAnchor | AgreementAnchor | EventAnchor

fun anchor_sel :: "journal_anchor \<Rightarrow> ledger_journal \<Rightarrow> string option" where
  "anchor_sel IntentAnchor j = lj_transactionIntentId j"
| "anchor_sel AgreementAnchor j = lj_loanAgreementId j"
| "anchor_sel EventAnchor j = lj_loanRepaymentEventId j"

lemma anchor_sel_eqs:
  "anchor_sel IntentAnchor = lj_transactionIntentId" "anchor_sel AgreementAnchor = lj_loanAgreementId"
  "anchor_sel EventAnchor = lj_loanRepaymentEventId"
  by (rule ext, simp)+

fun op_key :: "ledger_op \<Rightarrow> journal_anchor \<times> string \<times> ledger_journal_type" where
  "op_key (SettleDeposit p) = (IntentAnchor, p_transactionIntentId p, deposit_settlement)"
| "op_key (ReserveWithdrawal p) = (IntentAnchor, p_transactionIntentId p, withdrawal_reservation)"
| "op_key (ReleaseWithdrawal p) = (IntentAnchor, p_transactionIntentId p, withdrawal_reservation_release)"
| "op_key (SettleWithdrawal p) = (IntentAnchor, p_transactionIntentId p, withdrawal_settlement)"
| "op_key (ReserveTransfer p) = (IntentAnchor, p_transactionIntentId p, internal_balance_transfer_reservation)"
| "op_key (ReleaseTransfer p) =
     (IntentAnchor, p_transactionIntentId p, internal_balance_transfer_reservation_release)"
| "op_key (SettleTransfer p) =
     (IntentAnchor, si_transactionIntentId p, internal_balance_transfer_settlement)"
| "op_key (FundVault p) = (IntentAnchor, fv_transactionIntentId p, retirement_vault_funding)"
| "op_key (ReleaseVault p) = (IntentAnchor, fv_transactionIntentId p, retirement_vault_release)"
| "op_key (DisburseLoan p) = (AgreementAnchor, ld_loanAgreementId p, loan_disbursement)"
| "op_key (RepayLoan p) = (EventAnchor, lr_loanRepaymentEventId p, loan_repayment)"

definition key_recorded :: "journal_anchor \<times> string \<times> ledger_journal_type \<Rightarrow> db \<Rightarrow> bool" where
  "key_recorded k s = (case k of (a, i, ty) \<Rightarrow> recorded (anchor_sel a) i ty s)"

lemma run_ledger_op_records:
  assumes "run_ledger_op op s = Inr (u, t)" "ledger_wf s"
  shows "key_recorded (op_key op) t" and "set (ledgerJournals s) \<subseteq> set (ledgerJournals t)"
proof -
  have "\<exists>f. ledger_effect (anchor_sel (fst (op_key op))) (fst (snd (op_key op))) (snd (snd (op_key op))) f s t"
    using assms
    by (cases op; simp add: tx_iff anchor_sel_eqs)
      (blast dest: settleConfirmedDeposit_law(1) reserveWithdrawalBalance_law(1)
        releaseWithdrawalReservation_law(1) settleConfirmedWithdrawal_law(1)
        reserveInternalBalanceTransferBalance_law(1) releaseInternalBalanceTransferReservation_law(1)
        settleInternalBalanceTransfer_law(1) fundRetirementVaultBalance_law(1)
        releaseRetirementVaultBalance_law(1) recordLoanDisbursement_law(1) recordLoanRepayment_law(1))+
  then show "key_recorded (op_key op) t" and "set (ledgerJournals s) \<subseteq> set (ledgerJournals t)"
    by (auto simp: key_recorded_def split: prod.splits dest: ledger_effect_recorded ledger_effect_grows)
qed

lemma recorded_mono: "set (ledgerJournals s) \<subseteq> set (ledgerJournals t) \<Longrightarrow> recorded sel i ty s \<Longrightarrow> recorded sel i ty t"
  by (auto simp: recorded_def)

lemma recorded_find:
  "recorded sel i ty s \<Longrightarrow> find (\<lambda>j. sel j = Some i \<and> lj_journalType j = ty) (ledgerJournals s) \<noteq> None"
  using find_recorded by blast

lemma recorded_conflict:
  assumes "key_recorded (op_key op) s"
  shows "\<exists>m. run_ledger_op op s = Inl (ConflictException m)"
  using assms
  by (cases op)
    (auto simp: key_recorded_def voidT_def settleConfirmedDeposit_def reserveWithdrawalBalance_def
      releaseWithdrawalReservation_def settleConfirmedWithdrawal_def
      reserveInternalBalanceTransferBalance_def releaseInternalBalanceTransferReservation_def
      settleInternalBalanceTransfer_def fundRetirementVaultBalance_def releaseRetirementVaultBalance_def
      recordLoanDisbursement_def recordLoanRepayment_def findLedgerJournalByIntentAndType_def
      findLedgerJournalByLoanAgreementAndType_def findLedgerJournalByLoanRepaymentEventAndType_def
      tx_defs dest!: recorded_find)

end
