(* ===== verification/Ledger_Spec.thy ===== *)
theory Ledger_Spec
  imports Ledger_Invariants
begin

text \<open>
  The abstract bank: what customers and operators see of the ledger is, per customer and
  asset, an available and a pending amount, and per vault a locked amount. Each operation
  moves amounts between them or is refused; the books behind it are an implementation.
\<close>

record bank_view =
  bv_available :: "string \<times> string \<Rightarrow> decimal"
  bv_pending :: "string \<times> string \<Rightarrow> decimal"
  bv_locked :: "string \<Rightarrow> decimal"

definition view :: "db \<Rightarrow> bank_view" where
  "view s = \<lparr>bv_available = (\<lambda>(c, a). available s c a), bv_pending = (\<lambda>(c, a). pending s c a),
     bv_locked = locked s\<rparr>"

definition add_available :: "string \<times> string \<Rightarrow> decimal \<Rightarrow> bank_view \<Rightarrow> bank_view" where
  "add_available k x v = v\<lparr>bv_available := (bv_available v)(k := bv_available v k + x)\<rparr>"

definition add_pending :: "string \<times> string \<Rightarrow> decimal \<Rightarrow> bank_view \<Rightarrow> bank_view" where
  "add_pending k x v = v\<lparr>bv_pending := (bv_pending v)(k := bv_pending v k + x)\<rparr>"

definition add_locked :: "string \<Rightarrow> decimal \<Rightarrow> bank_view \<Rightarrow> bank_view" where
  "add_locked k x v = v\<lparr>bv_locked := (bv_locked v)(k := bv_locked v k + x)\<rparr>"

definition allow :: "bool \<Rightarrow> bank_view \<Rightarrow> bank_view option" where
  "allow b v = (if b then Some v else None)"

fun bank_step :: "ledger_op \<Rightarrow> bank_view \<Rightarrow> bank_view option" where
  "bank_step (SettleDeposit p) v =
     (let k = (p_customerAccountId p, p_assetId p) in allow True (add_available k (p_amount p) v))"
| "bank_step (ReserveWithdrawal p) v =
     (let k = (p_customerAccountId p, p_assetId p)
      in allow (p_amount p \<le> bv_available v k)
           (add_pending k (p_amount p) (add_available k (- p_amount p) v)))"
| "bank_step (ReleaseWithdrawal p) v =
     (let k = (p_customerAccountId p, p_assetId p)
      in allow (p_amount p \<le> bv_pending v k)
           (add_pending k (- p_amount p) (add_available k (p_amount p) v)))"
| "bank_step (SettleWithdrawal p) v =
     (let k = (p_customerAccountId p, p_assetId p)
      in allow (p_amount p \<le> bv_pending v k) (add_pending k (- p_amount p) v))"
| "bank_step (ReserveTransfer p) v =
     (let k = (p_customerAccountId p, p_assetId p)
      in allow (p_amount p \<le> bv_available v k)
           (add_pending k (p_amount p) (add_available k (- p_amount p) v)))"
| "bank_step (ReleaseTransfer p) v =
     (let k = (p_customerAccountId p, p_assetId p)
      in allow (p_amount p \<le> bv_pending v k)
           (add_pending k (- p_amount p) (add_available k (p_amount p) v)))"
| "bank_step (SettleTransfer p) v =
     (let k = (si_senderCustomerAccountId p, si_assetId p);
          k' = (si_recipientCustomerAccountId p, si_assetId p)
      in if si_settleFromPending p
         then allow (si_amount p \<le> bv_pending v k)
                (add_available k' (si_amount p) (add_pending k (- si_amount p) v))
         else allow (si_amount p \<le> bv_available v k)
                (add_available k' (si_amount p) (add_available k (- si_amount p) v)))"
| "bank_step (FundVault p) v =
     (let k = (fv_customerAccountId p, fv_assetId p)
      in allow (fv_amount p \<le> bv_available v k)
           (add_locked (fv_retirementVaultId p) (fv_amount p) (add_available k (- fv_amount p) v)))"
| "bank_step (ReleaseVault p) v =
     (let k = (fv_customerAccountId p, fv_assetId p)
      in allow (fv_amount p \<le> bv_locked v (fv_retirementVaultId p))
           (add_locked (fv_retirementVaultId p) (- fv_amount p) (add_available k (fv_amount p) v)))"
| "bank_step (DisburseLoan p) v = Some v"
| "bank_step (RepayLoan p) v =
     (let k = (lr_customerAccountId p, lr_assetId p)
      in allow (lr_totalAmount p \<le> bv_available v k) (add_available k (- lr_totalAmount p) v))"

lemma money_shift_view:
  assumes "money_shift fa fp fl s t"
  shows "view t = \<lparr>bv_available = (\<lambda>k. bv_available (view s) k + fa k),
    bv_pending = (\<lambda>k. bv_pending (view s) k + fp k), bv_locked = (\<lambda>v. bv_locked (view s) v + fl v)\<rparr>"
  using assms by (simp add: view_def money_shift_def fun_eq_iff)

lemma view_sel [simp]:
  "bv_available (view s) (c, a) = available s c a" "bv_pending (view s) (c, a) = pending s c a"
  "bv_locked (view s) v = locked s v"
  by (simp_all add: view_def)

lemmas bank_step_defs = allow_def add_available_def add_pending_def add_locked_def change_at_def
  fun_eq_iff Let_def taken_def

lemma run_ledger_op_refines:
  assumes "run_ledger_op op s = Inr (u, t)" "ledger_wf s"
  shows "bank_step op (view s) = Some (view t)"
proof (cases op)
  case (SettleDeposit p)
  with assms show ?thesis
    by (auto simp: tx_iff bank_step_defs money_shift_view [OF settleConfirmedDeposit_law(3)])
next
  case (ReserveWithdrawal p)
  with assms show ?thesis
    by (auto simp: tx_iff bank_step_defs money_shift_view [OF reserveWithdrawalBalance_law(3)]
        dest: reserveWithdrawalBalance_law(4))
next
  case (ReleaseWithdrawal p)
  with assms show ?thesis
    by (auto simp: tx_iff bank_step_defs money_shift_view [OF releaseWithdrawalReservation_law(3)]
        dest: releaseWithdrawalReservation_law(4))
next
  case (SettleWithdrawal p)
  with assms show ?thesis
    by (auto simp: tx_iff bank_step_defs money_shift_view [OF settleConfirmedWithdrawal_law(3)]
        dest: settleConfirmedWithdrawal_law(4))
next
  case (ReserveTransfer p)
  with assms show ?thesis
    by (auto simp: tx_iff bank_step_defs money_shift_view [OF reserveInternalBalanceTransferBalance_law(3)]
        dest: reserveInternalBalanceTransferBalance_law(4))
next
  case (ReleaseTransfer p)
  with assms show ?thesis
    by (auto simp: tx_iff bank_step_defs money_shift_view [OF releaseInternalBalanceTransferReservation_law(3)]
        dest: releaseInternalBalanceTransferReservation_law(4))
next
  case (SettleTransfer p)
  with assms obtain r where r: "settleInternalBalanceTransfer p s = Inr (r, t)" by (auto simp: tx_iff)
  note l = settleInternalBalanceTransfer_law [OF r assms(2)]
  show ?thesis
    using l(4) SettleTransfer
    by (auto simp: bank_step_defs money_shift_view [OF l(3)])
next
  case (FundVault p)
  with assms show ?thesis
    by (auto simp: tx_iff bank_step_defs money_shift_view [OF fundRetirementVaultBalance_law(3)]
        dest: fundRetirementVaultBalance_law(4))
next
  case (ReleaseVault p)
  with assms show ?thesis
    by (auto simp: tx_iff bank_step_defs money_shift_view [OF releaseRetirementVaultBalance_law(3)]
        dest: releaseRetirementVaultBalance_law(4))
next
  case (DisburseLoan p)
  with assms show ?thesis
    by (auto simp: tx_iff bank_step_defs money_shift_view [OF recordLoanDisbursement_law(3)])
next
  case (RepayLoan p)
  with assms show ?thesis
    by (auto simp: tx_iff bank_step_defs money_shift_view [OF recordLoanRepayment_law(4)]
        dest: recordLoanRepayment_law(5))
qed

end
