(* ===== verification/Reservation.thy ===== *)
theory Reservation
  imports Ledger_Laws
begin

text \<open>
  The contract the intent services rely on when they hold a customer's money: reserve moves an
  amount from available to pending, then either release moves it back or settle takes it out of
  pending. The services call the ledger through it for withdrawals and, with other accounts and
  another settlement, for internal transfers; what follows from the contract is proved once here.
\<close>

locale reservation =
  fixes reserve :: "SettleConfirmedDepositParams \<Rightarrow> 'r dbtx"
    and release :: "SettleConfirmedDepositParams \<Rightarrow> 'q dbtx"
    and settle :: "SettleConfirmedDepositParams \<Rightarrow> 'u dbtx"
    and eligible :: "SettleConfirmedDepositParams \<Rightarrow> bool"
    and reserveType releaseType settleType :: ledger_journal_type
  assumes reserve_law: "reserve p s = Inr (r, t) \<Longrightarrow> ledger_wf s \<Longrightarrow>
      ledger_wf t \<and> \<not> recorded lj_transactionIntentId (p_transactionIntentId p) reserveType s \<and>
      recorded lj_transactionIntentId (p_transactionIntentId p) reserveType t \<and>
      p_amount p \<le> available s (p_customerAccountId p) (p_assetId p) \<and>
      money_shift (change_at (p_customerAccountId p, p_assetId p) (- p_amount p))
        (change_at (p_customerAccountId p, p_assetId p) (p_amount p)) no_change s t"
    and release_law: "release p s = Inr (q, t) \<Longrightarrow> ledger_wf s \<Longrightarrow>
      ledger_wf t \<and> \<not> recorded lj_transactionIntentId (p_transactionIntentId p) releaseType s \<and>
      recorded lj_transactionIntentId (p_transactionIntentId p) releaseType t \<and>
      money_shift (change_at (p_customerAccountId p, p_assetId p) (p_amount p))
        (change_at (p_customerAccountId p, p_assetId p) (- p_amount p)) no_change s t"
    and settle_law: "settle p s = Inr (v, t) \<Longrightarrow> ledger_wf s \<Longrightarrow> eligible p \<Longrightarrow>
      ledger_wf t \<and> \<not> recorded lj_transactionIntentId (p_transactionIntentId p) settleType s \<and>
      recorded lj_transactionIntentId (p_transactionIntentId p) settleType t \<and>
      available t (p_customerAccountId p) (p_assetId p) = available s (p_customerAccountId p) (p_assetId p) \<and>
      pending t (p_customerAccountId p) (p_assetId p) =
        pending s (p_customerAccountId p) (p_assetId p) - p_amount p"
begin

text \<open>A released reservation leaves every balance as it was.\<close>

lemma reserve_release:
  assumes "ledger_wf s" "reserve p s = Inr (r, s1)" "release p s1 = Inr (q, t)"
  shows "available t c a = available s c a" and "pending t c a = pending s c a"
    and "locked t v = locked s v"
proof -
  note r = reserve_law [OF assms(2,1)]
  note q = release_law [OF assms(3)]
  from r q have "money_shift (\<lambda>k. change_at (p_customerAccountId p, p_assetId p) (- p_amount p) k +
      change_at (p_customerAccountId p, p_assetId p) (p_amount p) k)
    (\<lambda>k. change_at (p_customerAccountId p, p_assetId p) (p_amount p) k +
      change_at (p_customerAccountId p, p_assetId p) (- p_amount p) k)
    (\<lambda>v. no_change v + no_change v) s t"
    by (blast intro: money_shift_trans)
  then show "available t c a = available s c a" and "pending t c a = pending s c a"
    and "locked t v = locked s v"
    by (simp_all add: money_shift_def change_at_def)
qed

text \<open>A settled one has taken exactly its amount from what was available.\<close>

lemma reserve_settle:
  assumes "ledger_wf s" "reserve p s = Inr (r, s1)" "settle p s1 = Inr (u, t)" "eligible p"
  shows "available t (p_customerAccountId p) (p_assetId p) =
      available s (p_customerAccountId p) (p_assetId p) - p_amount p"
    and "pending t (p_customerAccountId p) (p_assetId p) = pending s (p_customerAccountId p) (p_assetId p)"
  using reserve_law [OF assms(2,1)] settle_law [OF assms(3) _ assms(4)]
  by (auto simp: money_shift_def)

text \<open>Reserving never touches what other customers and assets have.\<close>

lemma reserve_frame:
  assumes "ledger_wf s" "reserve p s = Inr (r, t)" "(c, a) \<noteq> (p_customerAccountId p, p_assetId p)"
  shows "available t c a = available s c a \<and> pending t c a = pending s c a"
  using reserve_law [OF assms(2,1)] assms(3) by (simp add: money_shift_def)

text \<open>No overdraft.\<close>

lemma reserve_bounded:
  "ledger_wf s \<Longrightarrow> reserve p s = Inr (r, t) \<Longrightarrow> p_amount p \<le> available s (p_customerAccountId p) (p_assetId p)"
  using reserve_law by blast

end

text \<open>Withdrawals.\<close>

interpretation withdrawal: reservation reserveWithdrawalBalance releaseWithdrawalReservation
  settleConfirmedWithdrawal "\<lambda>_. True" withdrawal_reservation withdrawal_reservation_release
  withdrawal_settlement
proof unfold_locales
  fix p s r t
  assume run: "reserveWithdrawalBalance p s = Inr (r, t)" and wf: "ledger_wf s"
  note l = reserveWithdrawalBalance_law [OF run wf]
  show "ledger_wf t \<and> \<not> recorded lj_transactionIntentId (p_transactionIntentId p) withdrawal_reservation s \<and>
      recorded lj_transactionIntentId (p_transactionIntentId p) withdrawal_reservation t \<and>
      p_amount p \<le> available s (p_customerAccountId p) (p_assetId p) \<and>
      money_shift (change_at (p_customerAccountId p, p_assetId p) (- p_amount p))
        (change_at (p_customerAccountId p, p_assetId p) (p_amount p)) no_change s t"
    using l(3,4) ledger_effect_wf [OF l(1)] ledger_effect_new [OF l(1)] ledger_effect_recorded [OF l(1)]
    by simp
next
  fix p s q t
  assume run: "releaseWithdrawalReservation p s = Inr (q, t)" and wf: "ledger_wf s"
  note l = releaseWithdrawalReservation_law [OF run wf]
  show "ledger_wf t \<and> \<not> recorded lj_transactionIntentId (p_transactionIntentId p) withdrawal_reservation_release s \<and>
      recorded lj_transactionIntentId (p_transactionIntentId p) withdrawal_reservation_release t \<and>
      money_shift (change_at (p_customerAccountId p, p_assetId p) (p_amount p))
        (change_at (p_customerAccountId p, p_assetId p) (- p_amount p)) no_change s t"
    using l(3) ledger_effect_wf [OF l(1)] ledger_effect_new [OF l(1)] ledger_effect_recorded [OF l(1)]
    by simp
next
  fix p s v t
  assume run: "settleConfirmedWithdrawal p s = Inr (v, t)" and wf: "ledger_wf s"
  note l = settleConfirmedWithdrawal_law [OF run wf]
  show "ledger_wf t \<and> \<not> recorded lj_transactionIntentId (p_transactionIntentId p) withdrawal_settlement s \<and>
      recorded lj_transactionIntentId (p_transactionIntentId p) withdrawal_settlement t \<and>
      available t (p_customerAccountId p) (p_assetId p) = available s (p_customerAccountId p) (p_assetId p) \<and>
      pending t (p_customerAccountId p) (p_assetId p) =
        pending s (p_customerAccountId p) (p_assetId p) - p_amount p"
    using l(3) ledger_effect_wf [OF l(1)] ledger_effect_new [OF l(1)] ledger_effect_recorded [OF l(1)]
    by (simp add: money_shift_def)
qed

text \<open>Internal transfers to a recipient, settled from the reserved amount.\<close>

definition reservedTransferParams ::
  "string \<Rightarrow> SettleConfirmedDepositParams \<Rightarrow> SettleInternalBalanceTransferParams" where
  "reservedTransferParams recipient p =
     \<lparr>si_transactionIntentId = p_transactionIntentId p,
      si_senderCustomerAccountId = p_customerAccountId p,
      si_recipientCustomerAccountId = recipient,
      si_assetId = p_assetId p, si_chainId = p_chainId p, si_amount = p_amount p,
      si_settleFromPending = True\<rparr>"

interpretation transfer: reservation reserveInternalBalanceTransferBalance
  releaseInternalBalanceTransferReservation
  "\<lambda>p. settleInternalBalanceTransfer (reservedTransferParams recipient p)"
  "\<lambda>p. p_customerAccountId p \<noteq> recipient" internal_balance_transfer_reservation
  internal_balance_transfer_reservation_release internal_balance_transfer_settlement
  for recipient
proof unfold_locales
  fix p s r t
  assume run: "reserveInternalBalanceTransferBalance p s = Inr (r, t)" and wf: "ledger_wf s"
  note l = reserveInternalBalanceTransferBalance_law [OF run wf]
  show "ledger_wf t \<and>
      \<not> recorded lj_transactionIntentId (p_transactionIntentId p) internal_balance_transfer_reservation s \<and>
      recorded lj_transactionIntentId (p_transactionIntentId p) internal_balance_transfer_reservation t \<and>
      p_amount p \<le> available s (p_customerAccountId p) (p_assetId p) \<and>
      money_shift (change_at (p_customerAccountId p, p_assetId p) (- p_amount p))
        (change_at (p_customerAccountId p, p_assetId p) (p_amount p)) no_change s t"
    using l(3,4) ledger_effect_wf [OF l(1)] ledger_effect_new [OF l(1)] ledger_effect_recorded [OF l(1)]
    by simp
next
  fix p s q t
  assume run: "releaseInternalBalanceTransferReservation p s = Inr (q, t)" and wf: "ledger_wf s"
  note l = releaseInternalBalanceTransferReservation_law [OF run wf]
  show "ledger_wf t \<and>
      \<not> recorded lj_transactionIntentId (p_transactionIntentId p) internal_balance_transfer_reservation_release s \<and>
      recorded lj_transactionIntentId (p_transactionIntentId p) internal_balance_transfer_reservation_release t \<and>
      money_shift (change_at (p_customerAccountId p, p_assetId p) (p_amount p))
        (change_at (p_customerAccountId p, p_assetId p) (- p_amount p)) no_change s t"
    using l(3) ledger_effect_wf [OF l(1)] ledger_effect_new [OF l(1)] ledger_effect_recorded [OF l(1)]
    by simp
next
  fix p s v t
  assume run: "settleInternalBalanceTransfer (reservedTransferParams recipient p) s = Inr (v, t)"
    and wf: "ledger_wf s" and other: "p_customerAccountId p \<noteq> recipient"
  note l = settleInternalBalanceTransfer_law [OF run wf]
  show "ledger_wf t \<and>
      \<not> recorded lj_transactionIntentId (p_transactionIntentId p) internal_balance_transfer_settlement s \<and>
      recorded lj_transactionIntentId (p_transactionIntentId p) internal_balance_transfer_settlement t \<and>
      available t (p_customerAccountId p) (p_assetId p) = available s (p_customerAccountId p) (p_assetId p) \<and>
      pending t (p_customerAccountId p) (p_assetId p) =
        pending s (p_customerAccountId p) (p_assetId p) - p_amount p"
    using l(3) other ledger_effect_wf [OF l(1)] ledger_effect_new [OF l(1)] ledger_effect_recorded [OF l(1)]
    by (simp add: money_shift_def reservedTransferParams_def taken_def)
qed

end
