(* ===== verification/Ledger_Properties.thy ===== *)
theory Ledger_Properties
  imports Ledger_Spec Reservation
begin

text \<open>
  The reachable states of the ledger and its headline properties, each with a run on a small
  database that shows its hypotheses can hold.
\<close>

section \<open>Reachable states\<close>

text \<open>
  A step is a successful operation called as its callers call it, the opening of a vault (with
  nothing locked in it), or anything that leaves the ledger's tables alone (the clock, the
  other services' rows). A failed operation aborts its database transaction and
  is no step.
\<close>

inductive ledger_step :: "db \<Rightarrow> db \<Rightarrow> bool" where
  operation: "valid_op s op \<Longrightarrow> run_ledger_op op s = Inr (u, t) \<Longrightarrow> ledger_step s t"
| open_vault: "retirementVaults s v = None \<Longrightarrow> rv_lockedBalance r = 0 \<Longrightarrow>
    ledger_step s (s\<lparr>retirementVaults := (retirementVaults s)(v \<mapsto> r)\<rparr>)"
| elsewhere: "off_ledger s t \<Longrightarrow> ledger_step s t"

inductive ledger_reachable :: "db \<Rightarrow> bool" where
  start: "inj gen \<Longrightarrow> ledger_reachable (empty_db gen now)"
| step: "ledger_reachable s \<Longrightarrow> ledger_step s t \<Longrightarrow> ledger_reachable t"

definition ledger_invariant :: "db \<Rightarrow> bool" where
  "ledger_invariant s \<longleftrightarrow> ledger_wf s \<and> reconciled s \<and> journals_balanced s \<and> solvent s"

lemma ledger_invariant_start: "inj gen \<Longrightarrow> ledger_invariant (empty_db gen now)"
  by (simp add: ledger_invariant_def empty_db_def ledger_wf_def reconciled_def journals_balanced_def
      solvent_def available_def pending_def locked_def key_net_def vault_locked_def)

lemma ledger_invariant_step: "ledger_step s t \<Longrightarrow> ledger_invariant s \<Longrightarrow> ledger_invariant t"
proof (induction rule: ledger_step.induct)
  case (operation s op u t)
  then show ?case
    unfolding ledger_invariant_def
    by (blast intro: run_ledger_op_wf run_ledger_op_reconciled run_ledger_op_balanced run_ledger_op_solvent)
next
  case (open_vault s v r)
  let ?t = "s\<lparr>retirementVaults := (retirementVaults s)(v \<mapsto> r)\<rparr>"
  have money: "available ?t c a = available s c a" "pending ?t c a = pending s c a"
    "locked ?t w = locked s w" "vault_locked ?t w a = vault_locked s w a" for c a w
    using open_vault by (auto simp: available_def pending_def locked_def vault_locked_def)
  have books: "same_books s ?t" by simp
  with open_vault.prems show ?case
    by (simp add: ledger_invariant_def same_books_wf [OF books] same_books_balanced [OF books]
        reconciled_def solvent_def money same_books_key_net [OF books])
next
  case (elsewhere s t)
  have "vault_locked t v a = vault_locked s v a" for v a
    using elsewhere.hyps by (simp add: vault_locked_def off_ledger_def same_money_def)
  with elsewhere show ?case
    by (simp add: ledger_invariant_def off_ledger_wf [OF elsewhere.hyps] reconciled_def solvent_def
        off_ledger_balanced [OF elsewhere.hyps] off_ledger_money [OF elsewhere.hyps]
        off_ledger_key_net [OF elsewhere.hyps])
qed

lemma reachable_invariant: "ledger_reachable s \<Longrightarrow> ledger_invariant s"
  by (induction rule: ledger_reachable.induct) (blast intro: ledger_invariant_start ledger_invariant_step)+

section \<open>The demonstration database\<close>

definition demo_gen :: "nat \<Rightarrow> string" where
  "demo_gen n = replicate n CHR ''k''"

lemma inj_demo_gen: "inj demo_gen"
  by (rule injI) (metis demo_gen_def length_replicate)

definition demo0 :: db where
  "demo0 = empty_db demo_gen 0"

definition demo_deposit :: SettleConfirmedDepositParams where
  "demo_deposit = \<lparr>p_transactionIntentId = ''d1'', p_customerAccountId = ''alice'', p_assetId = ''eth'',
     p_chainId = 1, p_amount = 100\<rparr>"

lemmas ledger_eval = tx_eval cuid_def new_Date_def ledgerAccount_upsert_def ledgerJournal_create_def
  ledgerPosting_createMany_def customerAssetBalance_put_def customerAssetBalance_findUnique_def
  customerAssetBalance_credit_def customerAssetBalance_updateMany_def retirementVault_findUnique_def
  retirementVault_put_def retirementVault_update_def retirementVault_updateMany_def
  findLedgerJournalByIntentAndType_def findLedgerJournalByLoanAgreementAndType_def
  findLedgerJournalByLoanRepaymentEventAndType_def ledger_account_defs ledger_key_defs
  colon_key_def show_nat.simps digit_char_def fits_balance_def fits_decimal_def decimal_limit_def
  posting_def journal_conflict_def same_key_def Let_def voidT_def

text \<open>The database after a transaction: the new state, or the old one when it aborts.\<close>

definition commit :: "'a dbtx \<Rightarrow> db \<Rightarrow> db" where
  "commit m s = (case m s of Inl e \<Rightarrow> s | Inr (x, t) \<Rightarrow> t)"

lemma commit_eq: "m s = Inr (x, t) \<Longrightarrow> commit m s = t"
  by (simp add: commit_def)

definition demo1 :: db where
  "demo1 = commit (run_ledger_op (SettleDeposit demo_deposit)) demo0"

definition demo_withdrawal :: SettleConfirmedDepositParams where
  "demo_withdrawal = demo_deposit\<lparr>p_transactionIntentId := ''w1'', p_amount := 30\<rparr>"

definition demo2 :: db where
  "demo2 = commit (run_ledger_op (ReserveWithdrawal demo_withdrawal)) demo1"

lemma demo1_value: "demo1 =
  \<lparr>cuid_of = demo_gen, cuid_count = 3, now_ms = 0,
   ledgerAccounts = [''asset_inbound_clearing:1:eth'' \<mapsto>
       \<lparr>la_id = demo_gen 0, la_ledgerKey = ''asset_inbound_clearing:1:eth'',
        la_accountType = asset_inbound_clearing, la_chainId = 1, la_assetId = ''eth'',
        la_customerAccountId = None\<rparr>,
     ''customer_asset_liability:alice:eth'' \<mapsto>
       \<lparr>la_id = demo_gen 1, la_ledgerKey = ''customer_asset_liability:alice:eth'',
        la_accountType = customer_asset_liability, la_chainId = 1, la_assetId = ''eth'',
        la_customerAccountId = Some ''alice''\<rparr>],
   ledgerJournals = [\<lparr>lj_id = demo_gen 2, lj_transactionIntentId = Some ''d1'', lj_loanAgreementId = None,
     lj_loanRepaymentEventId = None, lj_journalType = deposit_settlement, lj_chainId = 1,
     lj_assetId = ''eth'', lj_postedAt = 0\<rparr>],
   ledgerPostings =
     [\<lparr>lp_ledgerJournalId = demo_gen 2, lp_ledgerAccountId = demo_gen 0, lp_direction = debit, lp_amount = 100\<rparr>,
      \<lparr>lp_ledgerJournalId = demo_gen 2, lp_ledgerAccountId = demo_gen 1, lp_direction = credit, lp_amount = 100\<rparr>],
   customerAssetBalances = [(''alice'', ''eth'') \<mapsto> \<lparr>cab_availableBalance = 100, cab_pendingBalance = 0\<rparr>],
   retirementVaults = Map.empty, customerAccounts = [], wallets = [], assets = [],
   transactionIntents = [], blockchainTransactions = [], depositSettlementProofs = [],
   reviewCases = [], reviewCaseEvents = [], auditEvents = [], solvencyPolicyState = None\<rparr>"
  by (simp add: demo1_def commit_def settleConfirmedDeposit_def demo_deposit_def demo0_def empty_db_def
      ledger_eval numeral_2_eq_2)

lemma demo1_run: "run_ledger_op (SettleDeposit demo_deposit) demo0 = Inr ((), demo1)"
  by (simp add: demo1_def commit_def settleConfirmedDeposit_def demo_deposit_def demo0_def empty_db_def
      ledger_eval)

lemma demo2_run: "run_ledger_op (ReserveWithdrawal demo_withdrawal) demo1 = Inr ((), demo2)"
  by (simp add: demo2_def commit_def demo1_value reserveWithdrawalBalance_def demo_deposit_def
      demo_withdrawal_def ledger_eval)

lemma demo1_reachable: "ledger_reachable demo1"
proof (rule ledger_reachable.step [OF ledger_reachable.start [OF inj_demo_gen]])
  show "ledger_step (empty_db demo_gen 0) demo1"
    using demo1_run unfolding demo0_def
    by (rule ledger_step.operation [rotated]) (simp add: demo_deposit_def no_colon_def)
qed

lemma demo2_reachable: "ledger_reachable demo2"
proof (rule ledger_reachable.step [OF demo1_reachable])
  show "ledger_step demo1 demo2"
    using demo2_run
    by (rule ledger_step.operation [rotated]) (simp add: demo_deposit_def demo_withdrawal_def no_colon_def)
qed

lemma demo2_balances: "available demo2 ''alice'' ''eth'' = 70" "pending demo2 ''alice'' ''eth'' = 30"
  by (simp_all add: demo2_def commit_def demo1_value reserveWithdrawalBalance_def demo_deposit_def
      demo_withdrawal_def ledger_eval available_def pending_def)

lemma demo1_wf: "ledger_wf demo1"
  using reachable_invariant [OF demo1_reachable] by (simp add: ledger_invariant_def)

lemma demo0_wf: "ledger_wf demo0"
  using ledger_invariant_start [OF inj_demo_gen] by (simp add: demo0_def ledger_invariant_def)

section \<open>Properties\<close>

text \<open>
  C1. Reconciliation: in every reachable state the projection the customer sees (available and
  pending balance, what a vault has locked) is exactly the net credit the double-entry postings
  give the corresponding ledger accounts.
\<close>

theorem ledger_projections_reconciled:
  assumes "ledger_reachable s" and "no_colon c" and "no_colon v"
  shows "available s c a = key_net s (buildCustomerLiabilityLedgerKey c a) \<and>
    pending s c a = key_net s (buildPendingWithdrawalLiabilityLedgerKey c a) +
      key_net s (buildPendingInternalTransferLiabilityLedgerKey c a) \<and>
    vault_locked s v a = key_net s (buildRetirementVaultLiabilityLedgerKey v a)"
  using reachable_invariant [OF assms(1)] assms(2,3) by (simp add: ledger_invariant_def reconciled_def)

theorem ledger_projections_reconciled_witness:
  "key_net demo2 (buildCustomerLiabilityLedgerKey ''alice'' ''eth'') = 70 \<and>
   key_net demo2 (buildPendingWithdrawalLiabilityLedgerKey ''alice'' ''eth'') +
     key_net demo2 (buildPendingInternalTransferLiabilityLedgerKey ''alice'' ''eth'') = 30"
proof -
  have "no_colon ''alice''" by (simp add: no_colon_def)
  from ledger_projections_reconciled [OF demo2_reachable this this, of "''eth''"] show ?thesis
    by (simp add: demo2_balances)
qed

text \<open>
  C2. Double entry: in every reachable state each journal's debits and credits cancel, and so
  does the trial balance over all postings.
\<close>

theorem ledger_trial_balance:
  assumes "ledger_reachable s"
  shows "sum_list (map credit_effect (ledgerPostings s)) = 0 \<and>
    list_all (\<lambda>j. journal_sum (ledgerPostings s) (lj_id j) = 0) (ledgerJournals s)"
  using reachable_invariant [OF assms] trial_balance [of s]
  by (simp add: ledger_invariant_def journals_balanced_def list_all_iff)

theorem ledger_trial_balance_witness:
  "sum_list (map credit_effect (ledgerPostings demo1)) = 0 \<and> length (ledgerPostings demo1) = 2"
  using ledger_trial_balance [OF demo1_reachable] by (simp add: demo1_value)

text \<open>
  C3. No projection is ever negative: neither an available, nor a pending, nor a locked amount.
\<close>

theorem ledger_never_negative:
  assumes "ledger_reachable s"
  shows "0 \<le> available s c a \<and> 0 \<le> pending s c a \<and> 0 \<le> locked s v"
  using reachable_invariant [OF assms] by (simp add: ledger_invariant_def solvent_def)

theorem ledger_never_negative_witness:
  "0 \<le> available demo2 ''alice'' ''eth'' \<and> 0 \<le> pending demo2 ''alice'' ''eth'' \<and> 0 \<le> locked demo2 ''v''"
  by (rule ledger_never_negative [OF demo2_reachable])

lemma ledger_steps_journals: "ledger_step s t \<Longrightarrow> ledger_wf s \<Longrightarrow>
    ledger_wf t \<and> set (ledgerJournals s) \<subseteq> set (ledgerJournals t)"
proof (induction rule: ledger_step.induct)
  case (operation s op u t)
  then show ?case using run_ledger_op_wf run_ledger_op_records(2) by blast
next
  case (open_vault s v r)
  have "same_books s (s\<lparr>retirementVaults := (retirementVaults s)(v \<mapsto> r)\<rparr>)" by simp
  from same_books_wf [OF this] open_vault show ?case by simp
next
  case (elsewhere s t)
  then show ?case using off_ledger_wf by (auto simp: off_ledger_def)
qed

lemma ledger_run_journals: "ledger_step\<^sup>*\<^sup>* s t \<Longrightarrow> ledger_wf s \<Longrightarrow>
    ledger_wf t \<and> set (ledgerJournals s) \<subseteq> set (ledgerJournals t)"
  by (induction rule: rtranclp_induct) (use ledger_steps_journals in blast)+

text \<open>
  C4. A money movement is booked at most once: after an operation has succeeded, any operation
  with the same journal key (the same intent, agreement or repayment event and the same journal
  type, whatever its other parameters) is refused as a conflict, however the ledger moved on.
\<close>

theorem ledger_operation_once:
  assumes "ledger_wf s" and "run_ledger_op op s = Inr ((), t)" and "ledger_step\<^sup>*\<^sup>* t t'"
    and "op_key op' = op_key op"
  shows "\<exists>m. run_ledger_op op' t' = Inl (ConflictException m)"
proof -
  note r = run_ledger_op_records [OF assms(2,1)] and wf = run_ledger_op_wf [OF assms(2,1)]
  from ledger_run_journals [OF assms(3) wf] r(1) have "key_recorded (op_key op) t'"
    by (auto simp: key_recorded_def dest: recorded_mono split: prod.splits)
  with assms(4) show ?thesis by (metis recorded_conflict)
qed

theorem ledger_operation_once_witness:
  "\<exists>m. run_ledger_op (SettleDeposit (demo_deposit\<lparr>p_amount := 7\<rparr>)) demo2 = Inl (ConflictException m)"
proof -
  have "ledger_step\<^sup>*\<^sup>* demo1 demo2"
    using ledger_step.operation [OF _ demo2_run]
    by (simp add: demo_deposit_def demo_withdrawal_def no_colon_def r_into_rtranclp)
  from ledger_operation_once [OF demo0_wf demo1_run this, of "SettleDeposit (demo_deposit\<lparr>p_amount := 7\<rparr>)"]
  show ?thesis by simp
qed

text \<open>
  C5. Refinement: on its view of available, pending and locked amounts every operation of the
  ledger does what the abstract bank does: a successful run is allowed there and reaches the same
  view.
\<close>

theorem ledger_refines_bank:
  assumes "ledger_wf s" and "run_ledger_op op s = Inr ((), t)"
  shows "bank_step op (view s) = Some (view t)"
  by (rule run_ledger_op_refines [OF assms(2,1)])

theorem ledger_refines_bank_witness:
  "bank_step (ReserveWithdrawal demo_withdrawal) (view demo1) = Some (view demo2)"
  by (rule ledger_refines_bank [OF demo1_wf demo2_run])

section \<open>Reservations\<close>

lemma ledgerAccount_upsert_total:
  obtains a t where "ledgerAccount_upsert k ty ch as cu s = Inr (a, t)"
    "customerAssetBalances t = customerAssetBalances s" "ledgerJournals t = ledgerJournals s"
  by (cases "ledgerAccounts s k") (auto simp: ledgerAccount_upsert_def tx_defs cuid_def Let_def)

lemma ledgerJournal_create_total:
  assumes "\<not> recorded lj_transactionIntentId i ty s"
  obtains j t where "ledgerJournal_create (Some i) None None ty chain asset s = Inr (j, t)"
    "ledgerPostings t = ledgerPostings s"
proof -
  have "\<not> (\<exists>j\<in>set (ledgerJournals s). journal_conflict (Some i) None None ty j)"
    using assms by (auto simp: recorded_def journal_conflict_def same_key_def)
  with that show ?thesis
    by (simp add: ledgerJournal_create_def tx_defs new_Date_def cuid_def Let_def)
qed

text \<open>
  C6. The overdraft guard: a withdrawal whose reservation is not booked yet and whose amount
  exceeds the available balance (or whose customer has no balance row) is refused with exactly
  the insufficient-balance conflict, and, the transaction aborted, changes nothing.
\<close>

theorem reserve_withdrawal_refuses_overdraft:
  assumes "\<not> recorded lj_transactionIntentId (p_transactionIntentId p) withdrawal_reservation s"
    and "available s (p_customerAccountId p) (p_assetId p) < p_amount p \<or>
      customerAssetBalances s (p_customerAccountId p, p_assetId p) = None"
  shows "reserveWithdrawalBalance p s =
      Inl (ConflictException ''Insufficient available balance for withdrawal request.'') \<and>
    commit (reserveWithdrawalBalance p) s = s"
proof -
  let ?c = "p_customerAccountId p" and ?a = "p_assetId p"
  obtain a1 s1 where o1: "customerLiabilityAccount ?c (p_chainId p) ?a s = Inr (a1, s1)"
    "customerAssetBalances s1 = customerAssetBalances s"
    unfolding ledger_account_defs by (rule ledgerAccount_upsert_total)
  obtain a2 s2 where o2: "pendingWithdrawalLiabilityAccount ?c (p_chainId p) ?a s1 = Inr (a2, s2)"
    "customerAssetBalances s2 = customerAssetBalances s1"
    unfolding ledger_account_defs by (rule ledgerAccount_upsert_total)
  have none: "find (\<lambda>j. lj_transactionIntentId j = Some (p_transactionIntentId p) \<and>
      lj_journalType j = withdrawal_reservation) (ledgerJournals s) = None"
    using assms(1) find_recorded by blast
  have "reserveWithdrawalBalance p s =
      Inl (ConflictException ''Insufficient available balance for withdrawal request.'')"
    using assms(2) o2(2) o1(2)
    by (auto simp: reserveWithdrawalBalance_def none
        findLedgerJournalByIntentAndType_def customerAssetBalance_updateMany_def
        customerAssetBalance_findUnique_def tx_defs available_def o1(1) o2(1) split: option.splits)
  then show ?thesis by (simp add: commit_def)
qed

theorem reserve_withdrawal_refuses_overdraft_witness:
  "reserveWithdrawalBalance (demo_withdrawal\<lparr>p_amount := 101\<rparr>) demo1 =
     Inl (ConflictException ''Insufficient available balance for withdrawal request.'')"
  using reserve_withdrawal_refuses_overdraft [of "demo_withdrawal\<lparr>p_amount := 101\<rparr>" demo1]
  by (simp add: demo1_value demo_withdrawal_def demo_deposit_def recorded_def available_def)

text \<open>
  C7. Progress: a withdrawal that is not booked yet, is covered by the available balance and
  keeps the columns in range does reserve its amount.
\<close>

theorem reserve_withdrawal_succeeds:
  assumes "\<not> recorded lj_transactionIntentId (p_transactionIntentId p) withdrawal_reservation s"
    and "customerAssetBalances s (p_customerAccountId p, p_assetId p) = Some b"
    and "p_amount p \<le> cab_availableBalance b"
    and "fits_decimal (p_amount p)" and "fits_decimal (cab_availableBalance b - p_amount p)"
    and "fits_decimal (cab_pendingBalance b + p_amount p)"
  shows "\<exists>r t. reserveWithdrawalBalance p s = Inr (r, t) \<and>
    wb_availableBalance r = cab_availableBalance b - p_amount p \<and>
    wb_pendingBalance r = cab_pendingBalance b + p_amount p"
proof -
  let ?c = "p_customerAccountId p" and ?a = "p_assetId p" and ?x = "p_amount p"
  obtain a1 s1 where o1: "customerLiabilityAccount ?c (p_chainId p) ?a s = Inr (a1, s1)"
    "customerAssetBalances s1 = customerAssetBalances s" "ledgerJournals s1 = ledgerJournals s"
    unfolding ledger_account_defs by (rule ledgerAccount_upsert_total)
  obtain a2 s2 where o2: "pendingWithdrawalLiabilityAccount ?c (p_chainId p) ?a s1 = Inr (a2, s2)"
    "customerAssetBalances s2 = customerAssetBalances s1" "ledgerJournals s2 = ledgerJournals s1"
    unfolding ledger_account_defs by (rule ledgerAccount_upsert_total)
  let ?b = "b\<lparr>cab_availableBalance := cab_availableBalance b - ?x,
      cab_pendingBalance := cab_pendingBalance b + ?x\<rparr>"
  let ?s3 = "s2\<lparr>customerAssetBalances := (customerAssetBalances s2)((?c, ?a) \<mapsto> ?b)\<rparr>"
  have none: "find (\<lambda>j. lj_transactionIntentId j = Some (p_transactionIntentId p) \<and>
      lj_journalType j = withdrawal_reservation) (ledgerJournals s) = None"
    using assms(1) find_recorded by blast
  have "\<not> recorded lj_transactionIntentId (p_transactionIntentId p) withdrawal_reservation ?s3"
    using assms(1) o1(3) o2(3) by (simp add: recorded_def)
  then obtain j s4 where cr: "ledgerJournal_create (Some (p_transactionIntentId p)) None None
      withdrawal_reservation (p_chainId p) ?a ?s3 = Inr (j, s4)"
    by (rule ledgerJournal_create_total)
  show ?thesis
    using assms(2-6) o1(2) o2(2)
    by (simp add: reserveWithdrawalBalance_def bindT_def o1(1) o2(1) cr [unfolded o2(2) o1(2)] none returnT_def readT_def
        throwIf_def throwT_def requireT_def writeT_def findLedgerJournalByIntentAndType_def
        customerAssetBalance_updateMany_def customerAssetBalance_findUnique_def
        customerAssetBalance_put_def fits_balance_def ledgerPosting_createMany_def)
qed

theorem reserve_withdrawal_succeeds_witness:
  "\<exists>r t. reserveWithdrawalBalance demo_withdrawal demo1 = Inr (r, t) \<and>
     wb_availableBalance r = 70 \<and> wb_pendingBalance r = 30"
  using reserve_withdrawal_succeeds [of demo_withdrawal demo1 "\<lparr>cab_availableBalance = 100, cab_pendingBalance = 0\<rparr>"]
  by (simp add: demo1_value demo_withdrawal_def demo_deposit_def recorded_def fits_decimal_def decimal_limit_def)

text \<open>
  C8. A released withdrawal reservation restores every available, pending and locked amount of
  every customer.
\<close>

theorem withdrawal_release_restores:
  assumes "ledger_wf s" and "reserveWithdrawalBalance p s = Inr (r, s1)"
    and "releaseWithdrawalReservation p s1 = Inr (q, t)"
  shows "available t c a = available s c a \<and> pending t c a = pending s c a \<and> locked t v = locked s v"
  using withdrawal.reserve_release [OF assms] by blast

definition demo3 :: db where
  "demo3 = commit (releaseWithdrawalReservation demo_withdrawal) demo2"

lemma demo2_reserve: "\<exists>r. reserveWithdrawalBalance demo_withdrawal demo1 = Inr (r, demo2)"
  using demo2_run by (simp add: tx_iff)

lemma demo3_release: "\<exists>q. releaseWithdrawalReservation demo_withdrawal demo2 = Inr (q, demo3)"
  by (simp add: demo3_def demo2_def commit_def demo1_value reserveWithdrawalBalance_def
      releaseWithdrawalReservation_def demo_deposit_def demo_withdrawal_def ledger_eval)

theorem withdrawal_release_restores_witness:
  "available demo3 ''alice'' ''eth'' = 100 \<and> pending demo3 ''alice'' ''eth'' = 0"
proof -
  from demo2_reserve obtain r where r: "reserveWithdrawalBalance demo_withdrawal demo1 = Inr (r, demo2)" ..
  from demo3_release obtain q where q: "releaseWithdrawalReservation demo_withdrawal demo2 = Inr (q, demo3)" ..
  from withdrawal_release_restores [OF demo1_wf r q, of "''alice''" "''eth''"] show ?thesis
    by (simp add: demo1_value available_def pending_def)
qed

text \<open>
  C9. A settled withdrawal has taken exactly its amount from what was available: reservation and
  settlement together leave the pending balance as it was.
\<close>

theorem withdrawal_settle_takes_amount:
  assumes "ledger_wf s" and "reserveWithdrawalBalance p s = Inr (r, s1)"
    and "settleConfirmedWithdrawal p s1 = Inr (q, t)"
  shows "available t (p_customerAccountId p) (p_assetId p) =
      available s (p_customerAccountId p) (p_assetId p) - p_amount p \<and>
    pending t (p_customerAccountId p) (p_assetId p) = pending s (p_customerAccountId p) (p_assetId p)"
  using withdrawal.reserve_settle [OF assms] by blast

definition demo4 :: db where
  "demo4 = commit (settleConfirmedWithdrawal demo_withdrawal) demo2"

lemma demo4_settle: "\<exists>q. settleConfirmedWithdrawal demo_withdrawal demo2 = Inr (q, demo4)"
  by (simp add: demo4_def demo2_def commit_def demo1_value reserveWithdrawalBalance_def
      settleConfirmedWithdrawal_def demo_deposit_def demo_withdrawal_def ledger_eval)

theorem withdrawal_settle_takes_amount_witness:
  "available demo4 ''alice'' ''eth'' = 70 \<and> pending demo4 ''alice'' ''eth'' = 0"
proof -
  from demo2_reserve obtain r where r: "reserveWithdrawalBalance demo_withdrawal demo1 = Inr (r, demo2)" ..
  from demo4_settle obtain q where q: "settleConfirmedWithdrawal demo_withdrawal demo2 = Inr (q, demo4)" ..
  from withdrawal_settle_takes_amount [OF demo1_wf r q] show ?thesis
    by (simp add: demo1_value available_def pending_def demo_withdrawal_def demo_deposit_def)
qed

section \<open>Internal transfers\<close>

text \<open>
  C10. An internal transfer conserves money: what the sender and the recipient hold together of
  the asset, available and pending, is the same before and after a settlement, reserved or
  immediate, and nobody else's balances change.
\<close>

theorem transfer_settlement_conserves:
  assumes "ledger_wf s" and "settleInternalBalanceTransfer p s = Inr (r, t)"
    and "si_senderCustomerAccountId p \<noteq> si_recipientCustomerAccountId p"
  shows "available t (si_senderCustomerAccountId p) (si_assetId p) + pending t (si_senderCustomerAccountId p) (si_assetId p) +
      available t (si_recipientCustomerAccountId p) (si_assetId p) + pending t (si_recipientCustomerAccountId p) (si_assetId p) =
    available s (si_senderCustomerAccountId p) (si_assetId p) + pending s (si_senderCustomerAccountId p) (si_assetId p) +
      available s (si_recipientCustomerAccountId p) (si_assetId p) + pending s (si_recipientCustomerAccountId p) (si_assetId p) \<and>
    (c \<noteq> si_senderCustomerAccountId p \<longrightarrow> c \<noteq> si_recipientCustomerAccountId p \<longrightarrow>
      available t c a = available s c a \<and> pending t c a = pending s c a)"
  using settleInternalBalanceTransfer_law(3) [OF assms(2,1)] assms(3)
  by (auto simp: money_shift_def taken_def change_at_def)

definition demo_transfer :: SettleInternalBalanceTransferParams where
  "demo_transfer = \<lparr>si_transactionIntentId = ''t1'', si_senderCustomerAccountId = ''alice'',
     si_recipientCustomerAccountId = ''bob'', si_assetId = ''eth'', si_chainId = 1, si_amount = 40,
     si_settleFromPending = False\<rparr>"

definition demo5 :: db where
  "demo5 = commit (settleInternalBalanceTransfer demo_transfer) demo1"

lemma demo5_settle: "\<exists>r. settleInternalBalanceTransfer demo_transfer demo1 = Inr (r, demo5)"
  by (simp add: demo5_def commit_def demo1_value settleInternalBalanceTransfer_def senderDebitAccount_def
      debitSenderBalance_def demo_transfer_def ledger_eval)

theorem transfer_settlement_conserves_witness:
  "available demo5 ''alice'' ''eth'' + pending demo5 ''alice'' ''eth'' +
     available demo5 ''bob'' ''eth'' + pending demo5 ''bob'' ''eth'' = 100"
proof -
  from demo5_settle obtain r where r: "settleInternalBalanceTransfer demo_transfer demo1 = Inr (r, demo5)" ..
  show ?thesis
    using transfer_settlement_conserves [OF demo1_wf r]
    by (simp add: demo_transfer_def demo1_value available_def pending_def)
qed

section \<open>Loan repayments\<close>

text \<open>
  C11. A repayment keeps the books balanced exactly when its total is the principal and the
  positive fee applied: the operation books the three amounts as it is given them.
\<close>

theorem loan_repayment_balanced_iff_split:
  assumes "ledger_wf s" and "journals_balanced s" and "recordLoanRepayment p s = Inr (r, t)"
  shows "journals_balanced t \<longleftrightarrow> lr_totalAmount p = lr_principalAmount p + feeApplied p"
  using recordLoanRepayment_law(2,3) [OF assms(3,1)] assms(2) by blast

definition demo_repayment :: RecordLoanRepaymentParams where
  "demo_repayment = \<lparr>lr_loanAgreementId = ''l1'', lr_loanRepaymentEventId = ''e1'',
     lr_customerAccountId = ''alice'', lr_assetId = ''eth'', lr_chainId = 1, lr_principalAmount = 20,
     lr_serviceFeeAmount = 2, lr_totalAmount = 22\<rparr>"

definition demo6 :: db where
  "demo6 = commit (recordLoanRepayment demo_repayment) demo1"

lemma demo6_repay: "\<exists>r. recordLoanRepayment demo_repayment demo1 = Inr (r, demo6)"
  by (simp add: demo6_def commit_def demo1_value recordLoanRepayment_def whenFee_def demo_repayment_def
      ledger_eval)

theorem loan_repayment_balanced_iff_split_witness:
  "journals_balanced demo6"
proof -
  from demo6_repay obtain r where r: "recordLoanRepayment demo_repayment demo1 = Inr (r, demo6)" ..
  have "journals_balanced demo1"
    using reachable_invariant [OF demo1_reachable] by (simp add: ledger_invariant_def)
  from loan_repayment_balanced_iff_split [OF demo1_wf this r] show ?thesis
    by (simp add: demo_repayment_def feeApplied_def)
qed

text \<open>
  C12. At most one repayment per loan agreement ever reaches the ledger: the journal carries the
  agreement's identifier besides the repayment event's, and the schema makes the pair of
  agreement and journal type unique, so once one installment is booked every later installment
  of the same agreement, whatever its event, is refused.
\<close>

theorem loan_second_repayment_refused:
  assumes "ledger_wf s" and "recordLoanRepayment p s = Inr (r, t)" and "ledger_step\<^sup>*\<^sup>* t t'"
    and "lr_loanAgreementId p' = lr_loanAgreementId p"
  shows "\<exists>e. recordLoanRepayment p' t' = Inl e"
proof (rule ccontr)
  note l = recordLoanRepayment_law [OF assms(2,1)]
  have wf: "ledger_wf t" using l(1) ledger_effect_wf by blast
  note run = ledger_run_journals [OF assms(3) wf]
  assume "\<not> (\<exists>e. recordLoanRepayment p' t' = Inl e)"
  then obtain r' u where "recordLoanRepayment p' t' = Inr (r', u)"
    by (cases "recordLoanRepayment p' t'") auto
  from recordLoanRepayment_law(6) [OF this] run l(7) assms(4) show False
    by (auto dest: recorded_mono)
qed

theorem loan_second_repayment_refused_witness:
  "\<exists>e. recordLoanRepayment (demo_repayment\<lparr>lr_loanRepaymentEventId := ''e2''\<rparr>) demo6 = Inl e"
proof -
  from demo6_repay obtain r where r: "recordLoanRepayment demo_repayment demo1 = Inr (r, demo6)" ..
  show ?thesis by (rule loan_second_repayment_refused [OF demo1_wf r rtranclp.rtrancl_refl]) simp
qed

end
