(* ===== verification/JS_Strings.thy ===== *)
theory JS_Strings
  imports Bank_Prelude
begin

text \<open>
  The string methods the services call: \<open>trim\<close>, \<open>toLowerCase\<close> and
  \<open>toUpperCase\<close> on single-byte strings (the request validators admit ASCII for the
  symbols, addresses, hashes and keys they are applied to), and JavaScript's truth value of a
  nullable string, which is false for \<open>null\<close>, \<open>undefined\<close> and the empty string.
\<close>

definition is_js_space :: "char \<Rightarrow> bool" where
  "is_js_space c \<longleftrightarrow> of_char c \<in> {9, 10, 11, 12, 13, 32, 160 :: nat}"

definition trim :: "string \<Rightarrow> string" where
  "trim x = rev (dropWhile is_js_space (rev (dropWhile is_js_space x)))"

definition lower_char :: "char \<Rightarrow> char" where
  "lower_char c = (let n = of_char c :: nat in if 65 \<le> n \<and> n \<le> 90 then char_of (n + 32) else c)"

definition upper_char :: "char \<Rightarrow> char" where
  "upper_char c = (let n = of_char c :: nat in if 97 \<le> n \<and> n \<le> 122 then char_of (n - 32) else c)"

definition toLowerCase :: "string \<Rightarrow> string" where
  "toLowerCase x = map lower_char x"

definition toUpperCase :: "string \<Rightarrow> string" where
  "toUpperCase x = map upper_char x"

text \<open>\<open>xs.join(sep)\<close>\<close>

fun join :: "string \<Rightarrow> string list \<Rightarrow> string" where
  "join sep [] = []"
| "join sep [x] = x"
| "join sep (x # y # xs) = x @ sep @ join sep (y # xs)"

text \<open>\<open>x?.trim()\<close>, \<open>x ?? y\<close> and the truth value of \<open>x\<close>.\<close>

definition trim_opt :: "string option \<Rightarrow> string option" where
  "trim_opt = map_option trim"

fun coalesce :: "'a option \<Rightarrow> 'a option \<Rightarrow> 'a option" where
  "coalesce (Some x) y = Some x"
| "coalesce None y = y"

fun truthy :: "string option \<Rightarrow> bool" where
  "truthy None = False"
| "truthy (Some x) = (x \<noteq> [])"

lemma truthy_iff: "truthy x \<longleftrightarrow> (\<exists>y. x = Some y \<and> y \<noteq> [])"
  by (cases x) auto

lemmas string_eval = trim_def is_js_space_def lower_char_def upper_char_def toLowerCase_def
  toUpperCase_def trim_opt_def

section \<open>Normal forms\<close>

text \<open>Trimming and lowering are idempotent, which is what lets normalised strings be compared.\<close>

lemma lower_char_idem [simp]: "lower_char (lower_char c) = lower_char c"
  by (auto simp: lower_char_def Let_def)

lemma toLowerCase_idem [simp]: "toLowerCase (toLowerCase x) = toLowerCase x"
  by (simp add: toLowerCase_def comp_def)

lemma dropWhile_prefix_id:
  assumes "dropWhile P (a @ b) = a @ b"
  shows "dropWhile P a = a"
  using assms length_dropWhile_le [of P "tl a @ b"] by (cases a) (auto split: if_splits)

lemma dropWhile_stop: "dropWhile P (dropWhile P x) = dropWhile P x"
  by (induction x) auto

lemma trim_idem [simp]: "trim (trim x) = trim x"
proof -
  define y where "y = dropWhile is_js_space x"
  define z where "z = rev (dropWhile is_js_space (rev y))"
  have "rev y = takeWhile is_js_space (rev y) @ rev z" by (simp add: z_def)
  then have split: "y = z @ rev (takeWhile is_js_space (rev y))"
    by (metis rev_append rev_rev_ident)
  have "dropWhile is_js_space y = y" by (simp add: y_def dropWhile_stop)
  with split have "dropWhile is_js_space z = z" by (metis dropWhile_prefix_id)
  then have "trim z = z" by (simp add: trim_def) (simp add: z_def dropWhile_stop)
  then show ?thesis by (simp add: trim_def z_def y_def)
qed

end
