(* ===== verification/Service_Tables.thy ===== *)
theory Service_Tables
  imports Ledger_Laws JS_Strings
begin

text \<open>
  The Prisma calls of the intent services: intents with their relations, blockchain
  transactions, deposit settlement proofs, review cases and their events, audit events. Tables
  are lists in insertion order, so the row with the greatest \<open>createdAt\<close> among those a
  query selects is the last one of the list. Unique constraints of the schema are checked where
  a call can violate them. Then the frame facts that let ledger and service steps be combined:
  a ledger operation leaves the service tables alone and a service call leaves the ledger alone.
\<close>

section \<open>Updating a row of a table\<close>

definition update_rows :: "('r \<Rightarrow> string) \<Rightarrow> string \<Rightarrow> ('r \<Rightarrow> 'r) \<Rightarrow> 'r list \<Rightarrow> 'r list" where
  "update_rows key i f rows = map (\<lambda>r. if key r = i then f r else r) rows"

lemma map_update_rows:
  assumes "\<And>r. key (f r) = key r"
  shows "map key (update_rows key i f rows) = map key rows"
  using assms by (simp add: update_rows_def)

lemma find_update_rows:
  assumes "\<And>r. key (f r) = key r"
  shows "find (\<lambda>r. key r = k) (update_rows key i f rows) =
    (if k = i then map_option f (find (\<lambda>r. key r = k) rows) else find (\<lambda>r. key r = k) rows)"
  using assms by (induction rows) (auto simp: update_rows_def)

lemma find_key_Some: "find (\<lambda>r. key r = k) rows = Some r \<Longrightarrow> r \<in> set rows \<and> key r = k"
  by (auto simp: find_Some_iff)

lemma find_key_None: "find (\<lambda>r. key r = k) rows = None \<longleftrightarrow> k \<notin> key ` set rows"
  by (auto simp: find_None_iff)

lemma find_key_unique:
  assumes "distinct (map key rows)" "r \<in> set rows"
  shows "find (\<lambda>r'. key r' = key r) rows = Some r"
  using assms by (induction rows) (auto simp: image_iff)

lemma find_append: "find P (xs @ ys) = (case find P xs of None \<Rightarrow> find P ys | Some x \<Rightarrow> Some x)"
  by (induction xs) auto

text \<open>A sum over a table changes by the change of the one row updated.\<close>

lemma sum_update_rows:
  fixes g :: "'r \<Rightarrow> int"
  assumes "distinct (map key rows)" "find (\<lambda>r. key r = i) rows = Some row"
  shows "sum_list (map g (update_rows key i f rows)) = sum_list (map g rows) - g row + g (f row)"
  using assms
proof (induction rows)
  case (Cons r rows)
  show ?case
  proof (cases "key r = i")
    case True
    with Cons.prems have "i \<notin> key ` set rows" by auto
    then have "update_rows key i f rows = rows" 
      unfolding update_rows_def by (intro map_idI) auto
    with True Cons.prems show ?thesis by (simp add: update_rows_def)
  next
    case False
    with Cons show ?thesis by (simp add: update_rows_def)
  qed
qed simp

section \<open>Intents\<close>

definition intent_row :: "db \<Rightarrow> string \<Rightarrow> transaction_intent option" where
  "intent_row s i = find (\<lambda>r. ti_id r = i) (transactionIntents s)"

text \<open>\<open>blockchainTransactions: \<lbrace>orderBy: \<lbrace>createdAt: "desc"\<rbrace>, take: 1\<rbrace>\<close>\<close>

definition latest_of :: "db \<Rightarrow> string \<Rightarrow> blockchain_transaction option" where
  "latest_of s i = find (\<lambda>b. bt_transactionIntentId b = i) (rev (blockchainTransactions s))"

record intent_record =
  ir_intent :: transaction_intent
  ir_asset :: "asset option"
  ir_customerAccount :: "customer_account option"
  ir_recipientCustomerAccount :: "customer_account option"
  ir_sourceWallet :: "wallet option"
  ir_destinationWallet :: "wallet option"
  ir_latest :: "blockchain_transaction option"
  ir_reviewCases :: "review_case list"

definition follow :: "('r \<Rightarrow> string) \<Rightarrow> 'r list \<Rightarrow> string option \<Rightarrow> 'r option" where
  "follow key rows i = (case i of None \<Rightarrow> None | Some k \<Rightarrow> find (\<lambda>r. key r = k) rows)"

text \<open>An intent with the relations its services include.\<close>

definition with_relations :: "db \<Rightarrow> transaction_intent \<Rightarrow> intent_record" where
  "with_relations s i =
     \<lparr>ir_intent = i,
      ir_asset = find (\<lambda>a. as_id a = ti_assetId i) (assets s),
      ir_customerAccount = follow ca_id (customerAccounts s) (ti_customerAccountId i),
      ir_recipientCustomerAccount = follow ca_id (customerAccounts s) (ti_recipientCustomerAccountId i),
      ir_sourceWallet = follow wa_id (wallets s) (ti_sourceWalletId i),
      ir_destinationWallet = follow wa_id (wallets s) (ti_destinationWalletId i),
      ir_latest = latest_of s (ti_id i),
      ir_reviewCases = rev (filter (\<lambda>c. rc_transactionIntentId c = Some (ti_id i)) (reviewCases s))\<rparr>"

definition transactionIntent_findFirst ::
  "string \<Rightarrow> (transaction_intent \<Rightarrow> bool) \<Rightarrow> intent_record option dbtx" where
  "transactionIntent_findFirst i cond =
     readT (\<lambda>s. case intent_row s i of
        None \<Rightarrow> None
      | Some r \<Rightarrow> if cond r then Some (with_relations s r) else None)"

definition transactionIntent_findByIdempotencyKey :: "string \<Rightarrow> intent_record option dbtx" where
  "transactionIntent_findByIdempotencyKey key =
     readT (\<lambda>s. map_option (with_relations s) (find (\<lambda>r. ti_idempotencyKey r = key) (transactionIntents s)))"

definition transactionIntent_findMany ::
  "(db \<Rightarrow> transaction_intent \<Rightarrow> bool) \<Rightarrow> nat \<Rightarrow> intent_record list dbtx" where
  "transactionIntent_findMany cond limit =
     readT (\<lambda>s. map (with_relations s) (take limit (filter (cond s) (transactionIntents s))))"

definition transactionIntent_create :: "(string \<Rightarrow> transaction_intent) \<Rightarrow> transaction_intent dbtx" where
  "transactionIntent_create build =
     bindT cuid (\<lambda>i.
     bindT (readT transactionIntents) (\<lambda>rows.
     bindT (throwIf (ti_idempotencyKey (build i) \<in> ti_idempotencyKey ` set rows)
       UniqueConstraintViolation) (\<lambda>_.
     bindT (throwIf (\<not> fits_decimal (ti_requestedAmount (build i))) NumericFieldOverflow) (\<lambda>_.
     bindT (writeT (\<lambda>s. s\<lparr>transactionIntents := rows @ [build i]\<rparr>)) (\<lambda>_.
     returnT (build i))))))"

definition transactionIntent_update ::
  "string \<Rightarrow> (transaction_intent \<Rightarrow> transaction_intent) \<Rightarrow> unit dbtx" where
  "transactionIntent_update i f =
     bindT (readT (\<lambda>s. intent_row s i)) (\<lambda>row.
     bindT (requireT row RecordNotFound) (\<lambda>_.
     writeT (\<lambda>s. s\<lparr>transactionIntents := update_rows ti_id i f (transactionIntents s)\<rparr>)))"

definition transactionIntent_updateMany ::
  "string \<Rightarrow> (transaction_intent \<Rightarrow> bool) \<Rightarrow> (transaction_intent \<Rightarrow> transaction_intent) \<Rightarrow> nat dbtx" where
  "transactionIntent_updateMany i cond f =
     bindT (readT (\<lambda>s. intent_row s i)) (\<lambda>row.
       case row of
         None \<Rightarrow> returnT 0
       | Some r \<Rightarrow>
           if cond r
           then bindT (writeT (\<lambda>s. s\<lparr>transactionIntents := update_rows ti_id i f (transactionIntents s)\<rparr>))
                  (\<lambda>_. returnT 1)
           else returnT 0)"

section \<open>Blockchain transactions\<close>

definition hash_taken :: "string option \<Rightarrow> string \<Rightarrow> blockchain_transaction list \<Rightarrow> bool" where
  "hash_taken h i rows \<longleftrightarrow> (\<exists>b\<in>set rows. same_key (bt_txHash b) h \<and> bt_id b \<noteq> i)"

definition blockchainTransaction_create :: "(string \<Rightarrow> blockchain_transaction) \<Rightarrow> unit dbtx" where
  "blockchainTransaction_create build =
     bindT cuid (\<lambda>i.
     bindT (readT blockchainTransactions) (\<lambda>rows.
     bindT (throwIf (hash_taken (bt_txHash (build i)) i rows) UniqueConstraintViolation) (\<lambda>_.
     writeT (\<lambda>s. s\<lparr>blockchainTransactions := rows @ [build i]\<rparr>))))"

definition blockchainTransaction_update ::
  "string \<Rightarrow> (blockchain_transaction \<Rightarrow> blockchain_transaction) \<Rightarrow> unit dbtx" where
  "blockchainTransaction_update i f =
     bindT (readT blockchainTransactions) (\<lambda>rows.
     bindT (requireT (find (\<lambda>b. bt_id b = i) rows) RecordNotFound) (\<lambda>b.
     bindT (throwIf (hash_taken (bt_txHash (f b)) i rows) UniqueConstraintViolation) (\<lambda>_.
     writeT (\<lambda>s. s\<lparr>blockchainTransactions := update_rows bt_id i f rows\<rparr>))))"

section \<open>Deposit settlement proofs\<close>

definition proof_of :: "db \<Rightarrow> string \<Rightarrow> deposit_settlement_proof option" where
  "proof_of s i = find (\<lambda>d. dp_transactionIntentId d = i) (depositSettlementProofs s)"

definition proof_for_transfer :: "db \<Rightarrow> nat \<Rightarrow> string \<Rightarrow> deposit_settlement_proof option" where
  "proof_for_transfer s chain hash =
     find (\<lambda>d. dp_chainId d = chain \<and> dp_txHash d = hash) (depositSettlementProofs s)"

definition depositSettlementProof_create :: "(string \<Rightarrow> deposit_settlement_proof) \<Rightarrow> unit dbtx" where
  "depositSettlementProof_create build =
     bindT cuid (\<lambda>i.
     bindT (readT depositSettlementProofs) (\<lambda>rows.
     bindT (throwIf (\<exists>d\<in>set rows. dp_transactionIntentId d = dp_transactionIntentId (build i) \<or>
         dp_blockchainTransactionId d = dp_blockchainTransactionId (build i) \<or>
         dp_ledgerJournalId d = dp_ledgerJournalId (build i) \<or>
         (dp_chainId d = dp_chainId (build i) \<and> dp_txHash d = dp_txHash (build i)))
       UniqueConstraintViolation) (\<lambda>_.
     writeT (\<lambda>s. s\<lparr>depositSettlementProofs := rows @ [build i]\<rparr>))))"

section \<open>Review cases and audit events\<close>

definition reviewCase_create :: "(string \<Rightarrow> review_case) \<Rightarrow> review_case dbtx" where
  "reviewCase_create build =
     bindT cuid (\<lambda>i.
     bindT (writeT (\<lambda>s. s\<lparr>reviewCases := reviewCases s @ [build i]\<rparr>)) (\<lambda>_.
     returnT (build i)))"

definition reviewCase_update :: "string \<Rightarrow> (review_case \<Rightarrow> review_case) \<Rightarrow> unit dbtx" where
  "reviewCase_update i f =
     bindT (readT (\<lambda>s. find (\<lambda>c. rc_id c = i) (reviewCases s))) (\<lambda>row.
     bindT (requireT row RecordNotFound) (\<lambda>_.
     writeT (\<lambda>s. s\<lparr>reviewCases := update_rows rc_id i f (reviewCases s)\<rparr>)))"

definition reviewCaseEvent_create ::
  "string \<Rightarrow> string \<Rightarrow> string option \<Rightarrow> ReviewCaseEventType \<Rightarrow> string option \<Rightarrow> unit dbtx" where
  "reviewCaseEvent_create case_id actorType actorId ty note =
     bindT cuid (\<lambda>i.
     writeT (\<lambda>s. s\<lparr>reviewCaseEvents := reviewCaseEvents s @
       [\<lparr>re_id = i, re_reviewCaseId = case_id, re_actorType = actorType, re_actorId = actorId,
         re_eventType = ty, re_note = note\<rparr>]\<rparr>))"

definition auditEvent_create ::
  "string option \<Rightarrow> string \<Rightarrow> string option \<Rightarrow> string \<Rightarrow> string \<Rightarrow> string
     \<Rightarrow> TransactionIntentStatus option \<Rightarrow> TransactionIntentStatus option \<Rightarrow> unit dbtx" where
  "auditEvent_create customer actorType actorId action targetType target prev new =
     bindT cuid (\<lambda>i.
     writeT (\<lambda>s. s\<lparr>auditEvents := auditEvents s @
       [\<lparr>ae_id = i, ae_customerId = customer, ae_actorType = actorType, ae_actorId = actorId,
         ae_action = action, ae_targetType = targetType, ae_targetId = Some target,
         ae_previousStatus = prev, ae_newStatus = new\<rparr>]\<rparr>))"

end
