(* ===== verification/Operator_Policy.thy ===== *)
theory Operator_Policy
  imports Service_Tables
begin

text \<open>
  Who may act: the operator role check of \<open>auth/internal-operator-role-policy.ts\<close>, the
  actor of a transition, and the configuration the services read at start-up (its values come
  from the environment and are parameters of the model), with decimal.js's rendering of an amount.
\<close>

definition normalizeOperatorRole :: "string option \<Rightarrow> string option" where
  "normalizeOperatorRole operatorRole =
     (case map_option (\<lambda>r. toLowerCase (trim r)) operatorRole of
        None \<Rightarrow> None
      | Some r \<Rightarrow> if r \<noteq> [] \<and> length r > 0 then Some r else None)"

definition assertOperatorRoleAuthorized ::
  "string option \<Rightarrow> string list \<Rightarrow> string \<Rightarrow> ('s, string) tx" where
  "assertOperatorRoleAuthorized operatorRole allowedOperatorRoles message =
     (case normalizeOperatorRole operatorRole of
        None \<Rightarrow> throwT (ForbiddenException message)
      | Some r \<Rightarrow> if r \<in> set allowedOperatorRoles then returnT r else throwT (ForbiddenException message))"

definition authorized :: "string option \<Rightarrow> string list \<Rightarrow> bool" where
  "authorized operatorRole allowed \<longleftrightarrow>
     (\<exists>r\<in>set allowed. r \<noteq> [] \<and> map_option (\<lambda>r. toLowerCase (trim r)) operatorRole = Some r)"

lemma assertOperatorRoleAuthorized_Inr [tx_iff]:
  "assertOperatorRoleAuthorized role allowed msg s = Inr (r, t) \<longleftrightarrow>
     authorized role allowed \<and> normalizeOperatorRole role = Some r \<and> t = s"
  by (cases role)
    (auto simp: assertOperatorRoleAuthorized_def authorized_def normalizeOperatorRole_def tx_iff)

lemma assertOperatorRoleAuthorized_Inl:
  "\<not> authorized role allowed \<Longrightarrow>
     assertOperatorRoleAuthorized role allowed msg s = Inl (ForbiddenException msg)"
  by (cases role)
    (auto simp: assertOperatorRoleAuthorized_def authorized_def normalizeOperatorRole_def throwT_def)

section \<open>Configuration\<close>

record service_config =
  productChainId :: nat
  transactionIntentDecisionAllowedOperatorRoles :: "string list"
  custodyOperationAllowedOperatorRoles :: "string list"
  depositAutoApproveThresholdByAssetSymbol :: "string \<rightharpoonup> decimal"
  reviewThresholds :: "(string \<times> decimal) list"
  decimalToString :: "decimal \<Rightarrow> string"

definition assertCanDecideTransactionIntent :: "service_config \<Rightarrow> string option \<Rightarrow> ('s, string) tx" where
  "assertCanDecideTransactionIntent cfg operatorRole =
     assertOperatorRoleAuthorized operatorRole (transactionIntentDecisionAllowedOperatorRoles cfg)
       ''Operator role is not authorized to approve or deny transaction intents.''"

definition assertCanOperateCustody :: "service_config \<Rightarrow> string option \<Rightarrow> ('s, string) tx" where
  "assertCanOperateCustody cfg operatorRole =
     assertOperatorRoleAuthorized operatorRole (custodyOperationAllowedOperatorRoles cfg)
       ''Operator role is not authorized to execute manual custody actions.''"

section \<open>Actors\<close>

record TransitionActor =
  actorType :: string
  actorId :: string
  actorRole :: "string option"
  reconciliationReplay :: bool
  replayReason :: "string option"
  replayApprovalRequestId :: "string option"
  replayRequestedByOperatorId :: "string option"
  replayRequestedByOperatorRole :: "string option"

definition workerActor :: "string \<Rightarrow> TransitionActor" where
  "workerActor workerId =
     \<lparr>actorType = ''worker'', actorId = workerId, actorRole = None, reconciliationReplay = False,
      replayReason = None, replayApprovalRequestId = None, replayRequestedByOperatorId = None,
      replayRequestedByOperatorRole = None\<rparr>"

definition operatorActor :: "string \<Rightarrow> string \<Rightarrow> TransitionActor" where
  "operatorActor operatorId role =
     \<lparr>actorType = ''operator'', actorId = operatorId, actorRole = Some role,
      reconciliationReplay = False, replayReason = None, replayApprovalRequestId = None,
      replayRequestedByOperatorId = None, replayRequestedByOperatorRole = None\<rparr>"

text \<open>The context of an approved replay: the request, and the operator who asked for it.\<close>

record ReplayApprovalContext =
  approvalRequestId :: string
  requestedByOperatorId :: "string option"
  requestedByOperatorRole :: "string option"

definition replayActor :: "string \<Rightarrow> string \<Rightarrow> string \<Rightarrow> ReplayApprovalContext option \<Rightarrow> TransitionActor" where
  "replayActor reason operatorId role ctx =
     \<lparr>actorType = ''operator'', actorId = operatorId, actorRole = Some role,
      reconciliationReplay = True, replayReason = Some reason,
      replayApprovalRequestId = map_option approvalRequestId ctx,
      replayRequestedByOperatorId = (case ctx of None \<Rightarrow> None | Some c \<Rightarrow> requestedByOperatorId c),
      replayRequestedByOperatorRole = (case ctx of None \<Rightarrow> None | Some c \<Rightarrow> requestedByOperatorRole c)\<rparr>"

end
