(* ===== verification/Review_Cases.thy ===== *)
theory Review_Cases
  imports Operator_Policy
begin

text \<open>
  The part of \<open>review-cases/review-cases.service.ts\<close> the intent services call:
  \<open>openOrReuseReviewCase\<close>, which returns an active case for the same account, intent, type and
  reason, or opens one with its event and its audit event. Then the resolution of the case linked
  to a deposit when an operator decides it.
\<close>

record OpenOrReuseReviewCaseParams =
  op_customerId :: "string option"
  op_customerAccountId :: "string option"
  op_transactionIntentId :: "string option"
  op_type :: ReviewCaseType
  op_reasonCode :: "string option"
  op_notes :: "string option"
  op_actorType :: string
  op_actorId :: "string option"
  op_auditAction :: string

definition is_active_case :: "review_case \<Rightarrow> bool" where
  "is_active_case c \<longleftrightarrow> rc_status c = ReviewCaseStatus.open \<or> rc_status c = ReviewCaseStatus.in_progress"

definition reusable_case :: "OpenOrReuseReviewCaseParams \<Rightarrow> review_case \<Rightarrow> bool" where
  "reusable_case params c \<longleftrightarrow>
     rc_customerAccountId c = op_customerAccountId params \<and>
     rc_transactionIntentId c = op_transactionIntentId params \<and>
     rc_type c = op_type params \<and> rc_reasonCode c = op_reasonCode params \<and> is_active_case c"

text \<open>The case and whether it was reused.\<close>

definition openOrReuseReviewCase :: "OpenOrReuseReviewCaseParams \<Rightarrow> (review_case \<times> bool) dbtx" where
  "openOrReuseReviewCase params =
     bindT (readT (\<lambda>s. find (reusable_case params) (reviewCases s))) (\<lambda>existing.
       case existing of
         Some c \<Rightarrow> returnT (c, True)
       | None \<Rightarrow>
           bindT (reviewCase_create (\<lambda>i.
             \<lparr>rc_id = i, rc_customerId = op_customerId params,
              rc_customerAccountId = op_customerAccountId params,
              rc_transactionIntentId = op_transactionIntentId params, rc_type = op_type params,
              rc_status = ReviewCaseStatus.open, rc_reasonCode = op_reasonCode params,
              rc_notes = op_notes params, rc_assignedOperatorId = None, rc_resolvedAt = None\<rparr>)) (\<lambda>c.
           bindT (reviewCaseEvent_create (rc_id c) (op_actorType params) (op_actorId params)
             ReviewCaseEventType.opened (op_notes params)) (\<lambda>_.
           bindT (auditEvent_create (op_customerId params) (op_actorType params) (op_actorId params)
             (op_auditAction params) ''ReviewCase'' (rc_id c) None None) (\<lambda>_.
           returnT (c, False)))))"

definition resolveLinkedDepositReviewCase ::
  "string option \<Rightarrow> string \<Rightarrow> string option \<Rightarrow> unit dbtx" where
  "resolveLinkedDepositReviewCase reviewCaseId operatorId note =
     (if \<not> truthy reviewCaseId then returnT ()
      else
        bindT (readT (\<lambda>s. find (\<lambda>c. Some (rc_id c) = reviewCaseId) (reviewCases s))) (\<lambda>existing.
          case existing of
            None \<Rightarrow> returnT ()
          | Some c \<Rightarrow>
              if rc_status c = ReviewCaseStatus.resolved \<or> rc_status c = ReviewCaseStatus.dismissed
              then returnT ()
              else
                bindT new_Date (\<lambda>now.
                bindT (reviewCase_update (rc_id c) (\<lambda>row. row\<lparr>
                  rc_status := ReviewCaseStatus.resolved,
                  rc_resolvedAt := Some now,
                  rc_assignedOperatorId := coalesce (rc_assignedOperatorId c) (Some operatorId),
                  rc_notes := coalesce note (rc_notes row)\<rparr>)) (\<lambda>_.
                bindT (reviewCaseEvent_create (rc_id c) ''operator'' (Some operatorId)
                  ReviewCaseEventType.resolved note) (\<lambda>_.
                auditEvent_create (rc_customerId c) ''operator'' (Some operatorId)
                  ''review_case.resolved'' ''ReviewCase'' (rc_id c) None None)))))"

end
