(* ===== verification/Intent_Common.thy ===== *)
theory Intent_Common
  imports Ledger Review_Cases
begin

text \<open>
  What the intent services share: the request checks both the deposit and the withdrawal service
  apply, the reload of an intent inside a database transaction, the audit event of a
  transition, and the shape of their results, which carry the intent with its relations (the
  source's projections rename its fields).
\<close>

section \<open>Requests\<close>

definition normalizeAssetSymbol :: "string \<Rightarrow> ('s, string) tx" where
  "normalizeAssetSymbol assetSymbol =
     (let n = toUpperCase (trim assetSymbol) in
      if n = [] then throwT (NotFoundException ''Asset symbol is required.'') else returnT n)"

definition assertSensitiveIntentRequestAllowed :: "AccountLifecycleStatus \<Rightarrow> ('s, unit) tx" where
  "assertSensitiveIntentRequestAllowed accountStatus =
     bindT (throwIf (accountStatus = AccountLifecycleStatus.restricted) (ConflictException
       ''Customer account is currently under a risk hold and cannot create sensitive transaction requests.'')) (\<lambda>_.
     throwIf (accountStatus = AccountLifecycleStatus.frozen \<or> accountStatus = AccountLifecycleStatus.closed)
       (ConflictException
       ''Customer account is not eligible for sensitive transaction requests in its current lifecycle state.''))"

definition parseRequestedAmount :: "decimal \<Rightarrow> ('s, decimal) tx" where
  "parseRequestedAmount amount =
     (if amount \<le> 0
      then throwT (BadRequestException ''Requested amount must be greater than zero.'')
      else returnT amount)"

section \<open>Intents and results\<close>

definition in_state :: "TransactionIntentStatus \<Rightarrow> transaction_intent \<Rightarrow> bool" where
  "in_state st intent \<longleftrightarrow> ti_status intent = st \<and> ti_policyDecision intent = PolicyDecision.approved"

text \<open>\<open>findFirst(\<lbrace>where: \<lbrace>id\<rbrace>\<rbrace>)\<close> and the 404 when there is none.\<close>

definition reloadIntent :: "error \<Rightarrow> string \<Rightarrow> intent_record dbtx" where
  "reloadIntent notFound intentId =
     bindT (transactionIntent_findFirst intentId (\<lambda>_. True)) (\<lambda>r. requireT r notFound)"

text \<open>\<open>intent.customerAccount!\<close>\<close>

definition account_of :: "intent_record \<Rightarrow> customer_account dbtx" where
  "account_of r = requireT (ir_customerAccount r) TypeError"

text \<open>The ledger parameters of an intent.\<close>

definition ledgerParams :: "string \<Rightarrow> transaction_intent \<Rightarrow> SettleConfirmedDepositParams" where
  "ledgerParams account intent =
     \<lparr>p_transactionIntentId = ti_id intent, p_customerAccountId = account,
      p_assetId = ti_assetId intent, p_chainId = ti_chainId intent,
      p_amount = ti_requestedAmount intent\<rparr>"

text \<open>An audit event about an intent's transition.\<close>

definition auditTransition ::
  "customer_account \<Rightarrow> TransitionActor \<Rightarrow> string \<Rightarrow> transaction_intent \<Rightarrow> TransactionIntentStatus
     \<Rightarrow> unit dbtx" where
  "auditTransition account actor action intent newStatus =
     auditEvent_create (Some (ca_customerId account)) (actorType actor) (Some (actorId actor)) action
       ''TransactionIntent'' (ti_id intent) (Some (ti_status intent)) (Some newStatus)"

text \<open>The response: reading the customer of an intent without one is a \<open>TypeError\<close>.\<close>

definition mapIntentReviewProjection :: "intent_record \<Rightarrow> intent_record dbtx" where
  "mapIntentReviewProjection r = bindT (account_of r) (\<lambda>_. returnT r)"

record intent_result =
  res_intent :: intent_record
  res_reused :: bool

definition reusedResult :: "intent_record \<Rightarrow> intent_result dbtx" where
  "reusedResult r =
     bindT (mapIntentReviewProjection r) (\<lambda>p. returnT \<lparr>res_intent = p, res_reused = True\<rparr>)"

definition freshResult :: "intent_record \<Rightarrow> intent_result dbtx" where
  "freshResult r =
     bindT (mapIntentReviewProjection r) (\<lambda>p. returnT \<lparr>res_intent = p, res_reused = False\<rparr>)"

end
