(* ===== verification/Deposit_Intents.thy ===== *)
theory Deposit_Intents
  imports Intent_Common
begin

text \<open>
  \<open>transaction-intents/transaction-intents.service.ts\<close>: the life of a deposit, from the
  customer's request through the operator's decision, the queue, the broadcast and confirmation
  of the chain transaction to its settlement in the ledger. Every operation reads the intent
  before it opens a database transaction; the body of that transaction is a definition of its own
  (\<open>..._transaction\<close>), so that it can also be run on a state other requests have changed
  since.
\<close>

section \<open>Guards and decisions\<close>

record DepositRequestDecision =
  rd_nextStatus :: TransactionIntentStatus
  rd_nextPolicyDecision :: PolicyDecision
  rd_requiresReview :: bool
  rd_reviewReasonCode :: "string option"
  rd_reviewNote :: "string option"

definition resolveDepositRequestDecision ::
  "service_config \<Rightarrow> string \<Rightarrow> decimal \<Rightarrow> DepositRequestDecision" where
  "resolveDepositRequestDecision cfg assetSymbol requestedAmount =
     (let threshold = depositAutoApproveThresholdByAssetSymbol cfg assetSymbol in
      if (case threshold of None \<Rightarrow> False | Some m \<Rightarrow> requestedAmount \<le> m)
      then \<lparr>rd_nextStatus = TransactionIntentStatus.approved,
            rd_nextPolicyDecision = PolicyDecision.approved,
            rd_requiresReview = False, rd_reviewReasonCode = None, rd_reviewNote = None\<rparr>
      else \<lparr>rd_nextStatus = TransactionIntentStatus.review_required,
            rd_nextPolicyDecision = PolicyDecision.review_required,
            rd_requiresReview = True,
            rd_reviewReasonCode = Some (if threshold \<noteq> None
              then ''deposit_review:auto_approve_threshold_exceeded''
              else ''deposit_review:operator_review_required''),
            rd_reviewNote = Some (if threshold \<noteq> None
              then ''Deposit request exceeded the automatic approval threshold for '' @ assetSymbol @ ''.''
              else ''Deposit request requires operator review before custody execution and settlement.'')\<rparr>)"

definition resolveApprovedDepositStatus :: "intent_record \<Rightarrow> TransactionIntentStatus" where
  "resolveApprovedDepositStatus intent =
     (if ti_status (ir_intent intent) \<noteq> TransactionIntentStatus.review_required \<or>
         ti_policyDecision (ir_intent intent) \<noteq> PolicyDecision.review_required
      then TransactionIntentStatus.approved
      else case ir_latest intent of
        None \<Rightarrow> TransactionIntentStatus.approved
      | Some b \<Rightarrow>
          if bt_status b = BlockchainTransactionStatus.confirmed then TransactionIntentStatus.confirmed
          else if bt_status b = BlockchainTransactionStatus.broadcast then TransactionIntentStatus.broadcast
          else TransactionIntentStatus.approved)"

text \<open>\<open>x?.trim().toLowerCase() ?? null\<close>\<close>

definition normalizedAddress :: "string option \<Rightarrow> string option" where
  "normalizedAddress = map_option (\<lambda>a. toLowerCase (trim a))"

text \<open>The verdict on the chain evidence: \<open>None\<close> when valid, else the reason's code and text.\<close>

definition evaluateDepositChainProof :: "intent_record \<Rightarrow> (string \<times> string) option" where
  "evaluateDepositChainProof intent =
     (let destination = normalizedAddress (map_option wa_address (ir_destinationWallet intent)) in
      case ir_latest intent of
        None \<Rightarrow> Some (''deposit_proof:missing_blockchain_transaction'',
                  ''No blockchain transaction exists for this deposit intent.'')
      | Some b \<Rightarrow>
          (let txHash = trim_opt (bt_txHash b);
               fromAddress = normalizedAddress (bt_fromAddress b);
               toAddress = normalizedAddress (bt_toAddress b) in
           if \<not> truthy txHash
           then Some (''deposit_proof:missing_tx_hash'',
                  ''The latest blockchain transaction is missing a transaction hash.'')
           else if \<not> truthy fromAddress
           then Some (''deposit_proof:missing_source_address'',
                  ''The latest blockchain transaction is missing a source address.'')
           else if \<not> truthy toAddress
           then Some (''deposit_proof:missing_destination_address'',
                  ''The latest blockchain transaction is missing a destination address.'')
           else if \<not> truthy destination \<or> toAddress \<noteq> destination
           then Some (''deposit_proof:destination_wallet_mismatch'',
                  ''The latest blockchain transaction destination does not match the managed deposit wallet.'')
           else if fromAddress = destination
           then Some (''deposit_proof:self_funding_detected'',
                  ''The latest blockchain transaction source matches the managed deposit wallet.'')
           else None))"

definition ensureDepositIntentIsPendingOperatorDecision :: "transaction_intent \<Rightarrow> ('s, unit) tx" where
  "ensureDepositIntentIsPendingOperatorDecision intent =
     throwIf (\<not> ((ti_status intent = TransactionIntentStatus.requested \<and>
                  ti_policyDecision intent = PolicyDecision.pending) \<or>
                 (ti_status intent = TransactionIntentStatus.review_required \<and>
                  ti_policyDecision intent = PolicyDecision.review_required)))
       (ConflictException ''Deposit transaction intent is not pending operator decision.'')"

definition ensureDepositIntentIsApproved :: "transaction_intent \<Rightarrow> ('s, unit) tx" where
  "ensureDepositIntentIsApproved intent = throwIf (\<not> in_state TransactionIntentStatus.approved intent)
     (ConflictException ''Deposit transaction intent is not approved and ready for queueing.'')"

definition ensureDepositIntentIsQueued :: "transaction_intent \<Rightarrow> ('s, unit) tx" where
  "ensureDepositIntentIsQueued intent = throwIf (\<not> in_state TransactionIntentStatus.queued intent)
     (ConflictException ''Deposit transaction intent is not queued for worker execution.'')"

definition ensureDepositIntentIsBroadcast :: "transaction_intent \<Rightarrow> ('s, unit) tx" where
  "ensureDepositIntentIsBroadcast intent = throwIf (\<not> in_state TransactionIntentStatus.broadcast intent)
     (ConflictException ''Deposit transaction intent is not broadcast and ready for confirmation.'')"

definition ensureDepositIntentIsConfirmed :: "transaction_intent \<Rightarrow> ('s, unit) tx" where
  "ensureDepositIntentIsConfirmed intent = throwIf (\<not> in_state TransactionIntentStatus.confirmed intent)
     (ConflictException ''Deposit transaction intent is not confirmed and ready for settlement.'')"

lemmas deposit_guards = ensureDepositIntentIsPendingOperatorDecision_def in_state_def
  ensureDepositIntentIsApproved_def ensureDepositIntentIsQueued_def
  ensureDepositIntentIsBroadcast_def ensureDepositIntentIsConfirmed_def

section \<open>Reading the intent\<close>

definition findDepositIntentForReview :: "service_config \<Rightarrow> string \<Rightarrow> intent_record option dbtx" where
  "findDepositIntentForReview cfg intentId =
     transactionIntent_findFirst intentId (\<lambda>i. ti_intentType i = TransactionIntentType.deposit \<and>
       ti_chainId i = productChainId cfg)"

definition depositNotFound :: error where
  "depositNotFound = NotFoundException ''Deposit transaction intent not found.''"


section \<open>Requesting a deposit\<close>

record CreateDepositIntentDto =
  cd_idempotencyKey :: string
  cd_assetSymbol :: string
  cd_amount :: decimal

record DepositIntentContext =
  ctx_customerId :: string
  ctx_customerAccountId :: string
  ctx_walletId :: string
  ctx_walletAddress :: string
  ctx_assetId :: string
  ctx_assetSymbol :: string

definition activeWallets :: "service_config \<Rightarrow> string \<Rightarrow> db \<Rightarrow> wallet list" where
  "activeWallets cfg account s = take 2 (filter (\<lambda>w. wa_customerAccountId w = Some account \<and>
     wa_chainId w = productChainId cfg \<and> wa_status w = WalletStatus.active) (wallets s))"

definition activeAsset :: "service_config \<Rightarrow> string \<Rightarrow> asset dbtx" where
  "activeAsset cfg assetSymbol =
     bindT (readT (\<lambda>s. find (\<lambda>a. as_chainId a = productChainId cfg \<and> as_symbol a = assetSymbol) (assets s))) (\<lambda>a.
     bindT (requireT a (NotFoundException ''Active asset not found for the product chain.'')) (\<lambda>asset.
     bindT (throwIf (as_status asset \<noteq> AssetStatus.active)
       (NotFoundException ''Active asset not found for the product chain.'')) (\<lambda>_.
     returnT asset)))"

definition resolveDepositIntentContext ::
  "service_config \<Rightarrow> string \<Rightarrow> string \<Rightarrow> DepositIntentContext dbtx" where
  "resolveDepositIntentContext cfg supabaseUserId assetSymbol =
     bindT (readT (\<lambda>s. find (\<lambda>c. ca_supabaseUserId c = supabaseUserId) (customerAccounts s))) (\<lambda>found.
     bindT (requireT found (NotFoundException ''Customer account projection not found.'')) (\<lambda>account.
     bindT (assertSensitiveIntentRequestAllowed (ca_status account)) (\<lambda>_.
     bindT (readT (activeWallets cfg (ca_id account))) (\<lambda>ws.
     bindT (throwIf (ws = []) (NotFoundException ''Active product-chain wallet projection not found.'')) (\<lambda>_.
     bindT (throwIf (length ws > 1)
       (ConflictException ''Multiple active product-chain wallets found for customer account.'')) (\<lambda>_.
     bindT (activeAsset cfg assetSymbol) (\<lambda>asset.
     returnT
       \<lparr>ctx_customerId = ca_customerId account, ctx_customerAccountId = ca_id account,
        ctx_walletId = wa_id (hd ws), ctx_walletAddress = wa_address (hd ws),
        ctx_assetId = as_id asset, ctx_assetSymbol = as_symbol asset\<rparr>)))))))"

definition reusableDepositIntent ::
  "service_config \<Rightarrow> DepositIntentContext \<Rightarrow> decimal \<Rightarrow> intent_record \<Rightarrow> bool" where
  "reusableDepositIntent cfg context requestedAmount existing \<longleftrightarrow>
     ti_customerAccountId (ir_intent existing) = Some (ctx_customerAccountId context) \<and>
     ti_intentType (ir_intent existing) = TransactionIntentType.deposit \<and>
     ti_chainId (ir_intent existing) = productChainId cfg \<and>
     map_option as_symbol (ir_asset existing) = Some (ctx_assetSymbol context) \<and>
     ti_destinationWalletId (ir_intent existing) = Some (ctx_walletId context) \<and>
     map_option wa_address (ir_destinationWallet existing) = Some (ctx_walletAddress context) \<and>
     ti_requestedAmount (ir_intent existing) = requestedAmount"

definition reuseDepositIntent ::
  "service_config \<Rightarrow> DepositIntentContext \<Rightarrow> decimal \<Rightarrow> intent_record \<Rightarrow> intent_result dbtx" where
  "reuseDepositIntent cfg context requestedAmount existing =
     bindT (throwIf (\<not> reusableDepositIntent cfg context requestedAmount existing) (ConflictException
       ''Idempotency key already exists for a different transaction intent request.'')) (\<lambda>_.
     returnT \<lparr>res_intent = existing, res_reused = True\<rparr>)"

definition newDepositIntent ::
  "service_config \<Rightarrow> CreateDepositIntentDto \<Rightarrow> DepositRequestDecision \<Rightarrow> DepositIntentContext
     \<Rightarrow> int option \<Rightarrow> string \<Rightarrow> transaction_intent" where
  "newDepositIntent cfg dto decision context reviewAt i =
     \<lparr>ti_id = i, ti_customerAccountId = Some (ctx_customerAccountId context),
      ti_recipientCustomerAccountId = None, ti_assetId = ctx_assetId context,
      ti_sourceWalletId = None, ti_destinationWalletId = Some (ctx_walletId context),
      ti_externalAddress = None, ti_recipientMaskedEmail = None, ti_recipientMaskedDisplay = None,
      ti_chainId = productChainId cfg, ti_intentType = TransactionIntentType.deposit,
      ti_status = rd_nextStatus decision, ti_policyDecision = rd_nextPolicyDecision decision,
      ti_requestedAmount = cd_amount dto, ti_settledAmount = None,
      ti_idempotencyKey = cd_idempotencyKey dto, ti_failureCode = None, ti_failureReason = None,
      ti_executionFailureCategory = None, ti_executionFailureObservedAt = None,
      ti_executionClaimedAt = None, ti_executionClaimedByWorkerId = None,
      ti_manualInterventionRequiredAt = reviewAt, ti_manualInterventionReviewCaseId = None\<rparr>"

definition createDepositIntent_transaction ::
  "service_config \<Rightarrow> string \<Rightarrow> CreateDepositIntentDto \<Rightarrow> DepositRequestDecision
     \<Rightarrow> DepositIntentContext \<Rightarrow> intent_record dbtx" where
  "createDepositIntent_transaction cfg supabaseUserId dto decision context =
     bindT new_Date (\<lambda>now.
     bindT (transactionIntent_create (newDepositIntent cfg dto decision context
       (if rd_requiresReview decision then Some now else None))) (\<lambda>intent.
     bindT (if rd_requiresReview decision
       then bindT (openOrReuseReviewCase
              \<lparr>op_customerId = Some (ctx_customerId context),
               op_customerAccountId = Some (ctx_customerAccountId context),
               op_transactionIntentId = Some (ti_id intent),
               op_type = ReviewCaseType.manual_intervention,
               op_reasonCode = rd_reviewReasonCode decision, op_notes = rd_reviewNote decision,
               op_actorType = ''customer'', op_actorId = Some supabaseUserId,
               op_auditAction = ''review_case.manual_intervention.opened''\<rparr>) (\<lambda>(c, _).
            bindT (transactionIntent_update (ti_id intent)
              (\<lambda>r. r\<lparr>ti_manualInterventionReviewCaseId := Some (rc_id c)\<rparr>)) (\<lambda>_.
            returnT (Some (rc_id c))))
       else returnT None) (\<lambda>caseId.
     bindT (auditEvent_create (Some (ctx_customerId context)) ''customer'' (Some supabaseUserId)
       ''transaction_intent.deposit.requested'' ''TransactionIntent'' (ti_id intent) None
       (Some (rd_nextStatus decision))) (\<lambda>_.
     readT (\<lambda>s. with_relations s (intent\<lparr>ti_manualInterventionReviewCaseId := caseId\<rparr>))))))"

definition createDepositIntent ::
  "service_config \<Rightarrow> string \<Rightarrow> CreateDepositIntentDto \<Rightarrow> intent_result dbtx" where
  "createDepositIntent cfg supabaseUserId dto =
     bindT (normalizeAssetSymbol (cd_assetSymbol dto)) (\<lambda>normalizedAssetSymbol.
     bindT (parseRequestedAmount (cd_amount dto)) (\<lambda>requestedAmount.
     let decision = resolveDepositRequestDecision cfg normalizedAssetSymbol requestedAmount in
     bindT (resolveDepositIntentContext cfg supabaseUserId normalizedAssetSymbol) (\<lambda>context.
     bindT (transactionIntent_findByIdempotencyKey (cd_idempotencyKey dto)) (\<lambda>existing.
       case existing of
         Some e \<Rightarrow> reuseDepositIntent cfg context requestedAmount e
       | None \<Rightarrow>
           catchUnique
             (bindT (createDepositIntent_transaction cfg supabaseUserId dto decision context) (\<lambda>created.
              returnT \<lparr>res_intent = created, res_reused = False\<rparr>))
             (bindT (transactionIntent_findByIdempotencyKey (cd_idempotencyKey dto)) (\<lambda>reused.
              bindT (requireT reused UniqueConstraintViolation) (\<lambda>r.
              reuseDepositIntent cfg context requestedAmount r)))))))"

section \<open>The operator's decision and the queue\<close>

datatype OperatorDecision = approved | denied

record DecideIntentDto =
  de_decision :: OperatorDecision
  de_note :: "string option"
  de_denialReason :: "string option"

definition decideDepositIntent_transaction ::
  "string \<Rightarrow> DecideIntentDto \<Rightarrow> string \<Rightarrow> intent_record \<Rightarrow> intent_record dbtx" where
  "decideDepositIntent_transaction operatorId dto role existing =
     (let intent = ir_intent existing;
          approve = (de_decision dto = OperatorDecision.approved);
          newStatus = (if approve then resolveApprovedDepositStatus existing
                       else TransactionIntentStatus.failed) in
      bindT (transactionIntent_update (ti_id intent) (\<lambda>r. r\<lparr>
        ti_status := newStatus,
        ti_policyDecision := (if approve then PolicyDecision.approved else PolicyDecision.denied),
        ti_failureCode := (if approve then None else Some ''policy_denied''),
        ti_failureReason := (if approve then None else trim_opt (de_denialReason dto)),
        ti_manualInterventionRequiredAt := None,
        ti_manualInterventionReviewCaseId := None\<rparr>)) (\<lambda>_.
      bindT (resolveLinkedDepositReviewCase (ti_manualInterventionReviewCaseId intent) operatorId
        (trim_opt (de_note dto))) (\<lambda>_.
      bindT (account_of existing) (\<lambda>account.
      bindT (auditTransition account (operatorActor operatorId role)
        (if approve then ''transaction_intent.deposit.approved'' else ''transaction_intent.deposit.denied'')
        intent newStatus) (\<lambda>_.
      reloadIntent depositNotFound (ti_id intent))))))"

definition decideDepositIntent ::
  "service_config \<Rightarrow> string \<Rightarrow> string \<Rightarrow> DecideIntentDto \<Rightarrow> string option \<Rightarrow> intent_result dbtx" where
  "decideDepositIntent cfg intentId operatorId dto operatorRole =
     bindT (assertCanDecideTransactionIntent cfg operatorRole) (\<lambda>role.
     bindT (throwIf (de_decision dto = OperatorDecision.denied \<and> \<not> truthy (trim_opt (de_denialReason dto)))
       (BadRequestException ''Denial reason is required for denied decisions.'')) (\<lambda>_.
     bindT (findDepositIntentForReview cfg intentId) (\<lambda>found.
     bindT (requireT found depositNotFound) (\<lambda>existing.
     bindT (ensureDepositIntentIsPendingOperatorDecision (ir_intent existing)) (\<lambda>_.
     bindT (decideDepositIntent_transaction operatorId dto role existing) freshResult)))))"

definition queueApprovedDepositIntent_transaction ::
  "string \<Rightarrow> string \<Rightarrow> intent_record \<Rightarrow> intent_record dbtx" where
  "queueApprovedDepositIntent_transaction operatorId role existing =
     (let intent = ir_intent existing in
      bindT (transactionIntent_update (ti_id intent) (\<lambda>r. r\<lparr>
        ti_status := TransactionIntentStatus.queued,
        ti_failureCode := None,
        ti_failureReason := None\<rparr>)) (\<lambda>_.
      bindT (account_of existing) (\<lambda>account.
      bindT (auditTransition account (operatorActor operatorId role) ''transaction_intent.deposit.queued''
        intent TransactionIntentStatus.queued) (\<lambda>_.
      reloadIntent depositNotFound (ti_id intent)))))"

definition queueApprovedDepositIntent ::
  "service_config \<Rightarrow> string \<Rightarrow> string \<Rightarrow> string option \<Rightarrow> intent_result dbtx" where
  "queueApprovedDepositIntent cfg intentId operatorId operatorRole =
     bindT (assertCanOperateCustody cfg operatorRole) (\<lambda>role.
     bindT (findDepositIntentForReview cfg intentId) (\<lambda>found.
     bindT (requireT found depositNotFound) (\<lambda>existing.
     if in_state TransactionIntentStatus.queued (ir_intent existing)
     then reusedResult existing
     else
       bindT (ensureDepositIntentIsApproved (ir_intent existing)) (\<lambda>_.
       bindT (queueApprovedDepositIntent_transaction operatorId role existing) freshResult))))"

section \<open>Broadcast\<close>

record RecordBroadcastDto =
  rb_txHash :: string
  rb_fromAddress :: "string option"
  rb_toAddress :: "string option"

definition latest_hash :: "intent_record \<Rightarrow> string option" where
  "latest_hash intent = (case ir_latest intent of None \<Rightarrow> None | Some b \<Rightarrow> bt_txHash b)"

definition latest_status :: "intent_record \<Rightarrow> BlockchainTransactionStatus option" where
  "latest_status intent = map_option bt_status (ir_latest intent)"

definition already_broadcast :: "string \<Rightarrow> intent_record \<Rightarrow> bool" where
  "already_broadcast txHash intent \<longleftrightarrow>
     ti_status (ir_intent intent) = TransactionIntentStatus.broadcast \<and>
     latest_hash intent = Some txHash \<and>
     latest_status intent = Some BlockchainTransactionStatus.broadcast"

text \<open>\<open>latest?.txHash && latest.txHash !== txHash\<close>\<close>

definition other_hash_recorded :: "string option \<Rightarrow> intent_record \<Rightarrow> bool" where
  "other_hash_recorded txHash intent \<longleftrightarrow> truthy (latest_hash intent) \<and> latest_hash intent \<noteq> txHash"

definition broadcastToOtherWallet :: "RecordBroadcastDto \<Rightarrow> intent_record \<Rightarrow> bool" where
  "broadcastToOtherWallet dto intent \<longleftrightarrow>
     truthy (rb_toAddress dto) \<and> truthy (map_option wa_address (ir_destinationWallet intent)) \<and>
     normalizedAddress (rb_toAddress dto) \<noteq>
       normalizedAddress (map_option wa_address (ir_destinationWallet intent))"

definition depositDestinationMismatch :: error where
  "depositDestinationMismatch =
     ConflictException ''Deposit broadcast destination must match the managed deposit wallet.''"

definition depositOtherTransaction :: error where
  "depositOtherTransaction = ConflictException
     ''A different blockchain transaction is already recorded for this deposit intent.''"

definition newDepositTransaction ::
  "transaction_intent \<Rightarrow> string option \<Rightarrow> BlockchainTransactionStatus \<Rightarrow> string option \<Rightarrow> string option
     \<Rightarrow> string \<Rightarrow> blockchain_transaction" where
  "newDepositTransaction intent txHash st fromAddress toAddress i =
     \<lparr>bt_id = i, bt_transactionIntentId = ti_id intent, bt_chainId = ti_chainId intent,
      bt_txHash = txHash, bt_nonce = None, bt_serializedTransaction = None, bt_status = st,
      bt_fromAddress = fromAddress, bt_toAddress = toAddress, bt_broadcastAt = None,
      bt_confirmedAt = None\<rparr>"

definition recordDepositBroadcast_transaction ::
  "string \<Rightarrow> RecordBroadcastDto \<Rightarrow> TransitionActor \<Rightarrow> intent_record dbtx" where
  "recordDepositBroadcast_transaction intentId dto actor =
     bindT (reloadIntent depositNotFound intentId) (\<lambda>current.
     let intent = ir_intent current in
     if already_broadcast (rb_txHash dto) current then returnT current
     else
       bindT (ensureDepositIntentIsQueued intent) (\<lambda>_.
       bindT (throwIf (broadcastToOtherWallet dto current) depositDestinationMismatch) (\<lambda>_.
       bindT (throwIf (other_hash_recorded (Some (rb_txHash dto)) current) depositOtherTransaction) (\<lambda>_.
       bindT (case ir_latest current of
           Some b \<Rightarrow> blockchainTransaction_update (bt_id b) (\<lambda>r. r\<lparr>
             bt_txHash := Some (rb_txHash dto),
             bt_status := BlockchainTransactionStatus.broadcast,
             bt_fromAddress := rb_fromAddress dto,
             bt_toAddress := rb_toAddress dto\<rparr>)
         | None \<Rightarrow> blockchainTransaction_create (newDepositTransaction intent (Some (rb_txHash dto))
             BlockchainTransactionStatus.broadcast (rb_fromAddress dto) (rb_toAddress dto))) (\<lambda>_.
       bindT (transactionIntent_update (ti_id intent) (\<lambda>r. r\<lparr>
         ti_status := TransactionIntentStatus.broadcast,
         ti_failureCode := None,
         ti_failureReason := None\<rparr>)) (\<lambda>_.
       bindT (account_of current) (\<lambda>account.
       bindT (auditTransition account actor ''transaction_intent.deposit.broadcast'' intent
         TransactionIntentStatus.broadcast) (\<lambda>_.
       reloadIntent depositNotFound (ti_id intent)))))))))"

definition recordDepositBroadcastWithActor ::
  "service_config \<Rightarrow> string \<Rightarrow> RecordBroadcastDto \<Rightarrow> TransitionActor \<Rightarrow> intent_result dbtx" where
  "recordDepositBroadcastWithActor cfg intentId dto actor =
     bindT (findDepositIntentForReview cfg intentId) (\<lambda>found.
     bindT (requireT found depositNotFound) (\<lambda>existing.
     if already_broadcast (rb_txHash dto) existing then reusedResult existing
     else
       bindT (ensureDepositIntentIsQueued (ir_intent existing)) (\<lambda>_.
       bindT (throwIf (broadcastToOtherWallet dto existing) depositDestinationMismatch) (\<lambda>_.
       bindT (recordDepositBroadcast_transaction (ti_id (ir_intent existing)) dto actor) freshResult))))"

definition recordDepositBroadcast ::
  "service_config \<Rightarrow> string \<Rightarrow> string \<Rightarrow> RecordBroadcastDto \<Rightarrow> intent_result dbtx" where
  "recordDepositBroadcast cfg intentId workerId dto =
     recordDepositBroadcastWithActor cfg intentId dto (workerActor workerId)"

definition recordDepositBroadcastByOperator ::
  "service_config \<Rightarrow> string \<Rightarrow> string \<Rightarrow> RecordBroadcastDto \<Rightarrow> string option \<Rightarrow> intent_result dbtx" where
  "recordDepositBroadcastByOperator cfg intentId operatorId dto operatorRole =
     bindT (assertCanOperateCustody cfg operatorRole) (\<lambda>role.
       recordDepositBroadcastWithActor cfg intentId dto (operatorActor operatorId role))"

section \<open>Failed execution\<close>

record FailExecutionDto =
  fe_failureCode :: string
  fe_failureReason :: string
  fe_failureCategory :: "WithdrawalExecutionFailureCategory option"
  fe_txHash :: "string option"
  fe_fromAddress :: "string option"
  fe_toAddress :: "string option"

text \<open>\<open>!dto.txHash || latest?.txHash === dto.txHash\<close>\<close>

definition hash_agrees :: "string option \<Rightarrow> intent_record \<Rightarrow> bool" where
  "hash_agrees txHash intent \<longleftrightarrow> \<not> truthy txHash \<or> latest_hash intent = txHash"

definition already_failed :: "FailExecutionDto \<Rightarrow> intent_record \<Rightarrow> bool" where
  "already_failed dto intent \<longleftrightarrow>
     in_state TransactionIntentStatus.failed (ir_intent intent) \<and>
     ti_failureCode (ir_intent intent) = Some (trim (fe_failureCode dto)) \<and>
     ti_failureReason (ir_intent intent) = Some (trim (fe_failureReason dto)) \<and>
     hash_agrees (fe_txHash dto) intent"

definition ensureDepositCanFail :: "transaction_intent \<Rightarrow> ('s, unit) tx" where
  "ensureDepositCanFail intent =
     throwIf (ti_policyDecision intent \<noteq> PolicyDecision.approved \<or>
       (ti_status intent \<noteq> TransactionIntentStatus.queued \<and>
        ti_status intent \<noteq> TransactionIntentStatus.broadcast))
       (ConflictException ''Deposit transaction intent is not in an execution state that can fail.'')"

definition failDepositIntentExecution_transaction ::
  "string \<Rightarrow> FailExecutionDto \<Rightarrow> TransitionActor \<Rightarrow> intent_record dbtx" where
  "failDepositIntentExecution_transaction intentId dto actor =
     bindT (reloadIntent depositNotFound intentId) (\<lambda>current.
     let intent = ir_intent current in
     if already_failed dto current then returnT current
     else
       bindT (ensureDepositCanFail intent) (\<lambda>_.
       bindT (throwIf (truthy (fe_txHash dto) \<and> other_hash_recorded (fe_txHash dto) current)
         depositOtherTransaction) (\<lambda>_.
       bindT (case ir_latest current of
           Some b \<Rightarrow> blockchainTransaction_update (bt_id b) (\<lambda>r. r\<lparr>
             bt_txHash := coalesce (fe_txHash dto) (bt_txHash b),
             bt_status := BlockchainTransactionStatus.failed,
             bt_fromAddress := coalesce (fe_fromAddress dto) (bt_fromAddress b),
             bt_toAddress := coalesce (fe_toAddress dto) (bt_toAddress b)\<rparr>)
         | None \<Rightarrow> blockchainTransaction_create (newDepositTransaction intent (fe_txHash dto)
             BlockchainTransactionStatus.failed (fe_fromAddress dto) (fe_toAddress dto))) (\<lambda>_.
       bindT (transactionIntent_update (ti_id intent) (\<lambda>r. r\<lparr>
         ti_status := TransactionIntentStatus.failed,
         ti_failureCode := Some (trim (fe_failureCode dto)),
         ti_failureReason := Some (trim (fe_failureReason dto))\<rparr>)) (\<lambda>_.
       bindT (account_of current) (\<lambda>account.
       bindT (auditTransition account actor ''transaction_intent.deposit.execution_failed'' intent
         TransactionIntentStatus.failed) (\<lambda>_.
       reloadIntent depositNotFound (ti_id intent))))))))"

definition failDepositIntentExecutionWithActor ::
  "service_config \<Rightarrow> string \<Rightarrow> FailExecutionDto \<Rightarrow> TransitionActor \<Rightarrow> intent_result dbtx" where
  "failDepositIntentExecutionWithActor cfg intentId dto actor =
     bindT (findDepositIntentForReview cfg intentId) (\<lambda>found.
     bindT (requireT found depositNotFound) (\<lambda>existing.
     if already_failed dto existing then reusedResult existing
     else
       bindT (ensureDepositCanFail (ir_intent existing)) (\<lambda>_.
       bindT (failDepositIntentExecution_transaction (ti_id (ir_intent existing)) dto actor) freshResult)))"

definition failDepositIntentExecution ::
  "service_config \<Rightarrow> string \<Rightarrow> string \<Rightarrow> FailExecutionDto \<Rightarrow> intent_result dbtx" where
  "failDepositIntentExecution cfg intentId workerId dto =
     failDepositIntentExecutionWithActor cfg intentId dto (workerActor workerId)"

definition failDepositIntentExecutionByOperator ::
  "service_config \<Rightarrow> string \<Rightarrow> string \<Rightarrow> FailExecutionDto \<Rightarrow> string option \<Rightarrow> intent_result dbtx" where
  "failDepositIntentExecutionByOperator cfg intentId operatorId dto operatorRole =
     bindT (assertCanOperateCustody cfg operatorRole) (\<lambda>role.
       failDepositIntentExecutionWithActor cfg intentId dto (operatorActor operatorId role))"

section \<open>Confirmation\<close>

definition placeDepositIntentUnderReview ::
  "intent_record \<Rightarrow> TransitionActor \<Rightarrow> string \<times> string \<Rightarrow> unit dbtx" where
  "placeDepositIntentUnderReview current actor verdict =
     (let intent = ir_intent current in
      bindT new_Date (\<lambda>observedAt.
      bindT (account_of current) (\<lambda>account.
      bindT (openOrReuseReviewCase
        \<lparr>op_customerId = Some (ca_customerId account), op_customerAccountId = Some (ca_id account),
         op_transactionIntentId = Some (ti_id intent), op_type = ReviewCaseType.manual_intervention,
         op_reasonCode = Some (fst verdict), op_notes = Some (snd verdict),
         op_actorType = actorType actor, op_actorId = Some (actorId actor),
         op_auditAction = ''review_case.manual_intervention.opened''\<rparr>) (\<lambda>(c, _).
      bindT (transactionIntent_update (ti_id intent) (\<lambda>r. r\<lparr>
        ti_status := TransactionIntentStatus.review_required,
        ti_policyDecision := PolicyDecision.review_required,
        ti_failureCode := Some (fst verdict),
        ti_failureReason := Some (snd verdict),
        ti_manualInterventionRequiredAt := Some observedAt,
        ti_manualInterventionReviewCaseId := Some (rc_id c)\<rparr>)) (\<lambda>_.
      auditTransition account actor ''transaction_intent.deposit.review_required'' intent
        TransactionIntentStatus.review_required)))))"

definition depositTransactionMissing :: error where
  "depositTransactionMissing =
     ConflictException ''No blockchain transaction exists for this deposit intent.''"

definition hashMismatch :: error where
  "hashMismatch = ConflictException ''Provided txHash does not match the latest blockchain transaction.''"

text \<open>\<open>txHash && latest.txHash !== txHash\<close>\<close>

definition contradicts_hash :: "string option \<Rightarrow> blockchain_transaction \<Rightarrow> bool" where
  "contradicts_hash txHash b \<longleftrightarrow> truthy txHash \<and> bt_txHash b \<noteq> txHash"

definition already_confirmed :: "transaction_intent \<Rightarrow> blockchain_transaction \<Rightarrow> bool" where
  "already_confirmed intent b \<longleftrightarrow> ti_status intent = TransactionIntentStatus.confirmed \<and>
     bt_status b = BlockchainTransactionStatus.confirmed"

definition confirmDepositIntent_transaction ::
  "string \<Rightarrow> string option \<Rightarrow> TransitionActor \<Rightarrow> intent_record dbtx" where
  "confirmDepositIntent_transaction intentId txHash actor =
     bindT (reloadIntent depositNotFound intentId) (\<lambda>current.
     let intent = ir_intent current in
     bindT (requireT (ir_latest current) depositTransactionMissing) (\<lambda>b.
     bindT (throwIf (contradicts_hash txHash b) hashMismatch) (\<lambda>_.
     if already_confirmed intent b then returnT current
     else
       bindT (ensureDepositIntentIsBroadcast intent) (\<lambda>_.
       case evaluateDepositChainProof current of
         Some verdict \<Rightarrow>
           bindT (placeDepositIntentUnderReview current actor verdict) (\<lambda>_.
           reloadIntent depositNotFound (ti_id intent))
       | None \<Rightarrow>
           bindT new_Date (\<lambda>now.
           bindT (blockchainTransaction_update (bt_id b) (\<lambda>r. r\<lparr>
             bt_status := BlockchainTransactionStatus.confirmed,
             bt_confirmedAt := Some now\<rparr>)) (\<lambda>_.
           bindT (transactionIntent_update (ti_id intent) (\<lambda>r. r\<lparr>
             ti_status := TransactionIntentStatus.confirmed\<rparr>)) (\<lambda>_.
           bindT (account_of current) (\<lambda>account.
           bindT (auditTransition account actor ''transaction_intent.deposit.confirmed'' intent
             TransactionIntentStatus.confirmed) (\<lambda>_.
           reloadIntent depositNotFound (ti_id intent))))))))))"

definition confirmDepositIntentWithActor ::
  "service_config \<Rightarrow> string \<Rightarrow> string option \<Rightarrow> TransitionActor \<Rightarrow> intent_result dbtx" where
  "confirmDepositIntentWithActor cfg intentId txHash actor =
     bindT (findDepositIntentForReview cfg intentId) (\<lambda>found.
     bindT (requireT found depositNotFound) (\<lambda>existing.
     bindT (requireT (ir_latest existing) depositTransactionMissing) (\<lambda>b.
     bindT (throwIf (contradicts_hash txHash b) hashMismatch) (\<lambda>_.
     if already_confirmed (ir_intent existing) b then reusedResult existing
     else
       bindT (ensureDepositIntentIsBroadcast (ir_intent existing)) (\<lambda>_.
       bindT (confirmDepositIntent_transaction (ti_id (ir_intent existing)) txHash actor) freshResult)))))"

definition confirmDepositIntent ::
  "service_config \<Rightarrow> string \<Rightarrow> string \<Rightarrow> string option \<Rightarrow> intent_result dbtx" where
  "confirmDepositIntent cfg intentId workerId txHash =
     confirmDepositIntentWithActor cfg intentId (trim_opt txHash) (workerActor workerId)"

definition confirmDepositIntentByOperator ::
  "service_config \<Rightarrow> string \<Rightarrow> string \<Rightarrow> string option \<Rightarrow> string option \<Rightarrow> intent_result dbtx" where
  "confirmDepositIntentByOperator cfg intentId operatorId txHash operatorRole =
     bindT (assertCanOperateCustody cfg operatorRole) (\<lambda>role.
       confirmDepositIntentWithActor cfg intentId (trim_opt txHash) (operatorActor operatorId role))"

definition replayConfirmDepositIntent ::
  "service_config \<Rightarrow> string \<Rightarrow> string \<Rightarrow> string option \<Rightarrow> ReplayApprovalContext option \<Rightarrow> intent_result dbtx" where
  "replayConfirmDepositIntent cfg intentId operatorId operatorRole ctx =
     bindT (assertCanOperateCustody cfg operatorRole) (\<lambda>role.
       confirmDepositIntentWithActor cfg intentId None
         (replayActor ''deposit_settlement_reconciliation'' operatorId role ctx))"

section \<open>Settlement\<close>

definition proofAnchorMissing :: error where
  "proofAnchorMissing = ConflictException
     ''Deposit settlement journal exists without a proof anchor. Reconciliation review is required.''"

definition latestNotConfirmed :: error where
  "latestNotConfirmed = ConflictException ''Latest blockchain transaction is not confirmed.''"

definition assertNoConflictingDepositSettlementProof ::
  "transaction_intent \<Rightarrow> blockchain_transaction \<Rightarrow> unit dbtx" where
  "assertNoConflictingDepositSettlementProof intent b =
     bindT (readT (\<lambda>s. proof_of s (ti_id intent))) (\<lambda>proofForIntent.
     bindT (throwIf (proofForIntent \<noteq> None)
       (ConflictException ''Deposit settlement proof already exists for this transaction intent.'')) (\<lambda>_.
     bindT (throwIf (\<not> truthy (bt_txHash b))
       (ConflictException ''Confirmed deposit settlement requires a transaction hash.'')) (\<lambda>_.
     bindT (readT (\<lambda>s. proof_for_transfer s (ti_chainId intent) (the (bt_txHash b)))) (\<lambda>proofForTransfer.
     throwIf (proofForTransfer \<noteq> None)
       (ConflictException ''A deposit settlement proof already exists for this chain transaction.'')))))"

text \<open>Whether the latest blockchain transaction is there and confirmed.\<close>

definition requireConfirmed :: "intent_record \<Rightarrow> blockchain_transaction dbtx" where
  "requireConfirmed r =
     bindT (requireT (ir_latest r) latestNotConfirmed) (\<lambda>b.
     bindT (throwIf (bt_status b \<noteq> BlockchainTransactionStatus.confirmed) latestNotConfirmed) (\<lambda>_.
     returnT b))"

text \<open>The intent is settled and has its journal: its proof must exist too.\<close>

definition settledAlready :: "ledger_journal option \<Rightarrow> transaction_intent \<Rightarrow> bool" where
  "settledAlready journal intent \<longleftrightarrow>
     ti_status intent = TransactionIntentStatus.settled \<and> journal \<noteq> None"

definition requireProof :: "transaction_intent \<Rightarrow> unit dbtx" where
  "requireProof intent =
     bindT (readT (\<lambda>s. proof_of s (ti_id intent))) (\<lambda>p. throwIf (p = None) proofAnchorMissing)"

definition settleConfirmedDepositIntent_transaction ::
  "string \<Rightarrow> TransitionActor \<Rightarrow> intent_record dbtx" where
  "settleConfirmedDepositIntent_transaction intentId actor =
     bindT (reloadIntent depositNotFound intentId) (\<lambda>current.
     let intent = ir_intent current in
     bindT (findLedgerJournalByIntentAndType (ti_id intent) deposit_settlement) (\<lambda>journal.
     if settledAlready journal intent
     then bindT (requireProof intent) (\<lambda>_. returnT current)
     else
       bindT (requireConfirmed current) (\<lambda>b.
       bindT (ensureDepositIntentIsConfirmed intent) (\<lambda>_.
       case evaluateDepositChainProof current of
         Some verdict \<Rightarrow>
           bindT (placeDepositIntentUnderReview current actor verdict) (\<lambda>_.
           reloadIntent depositNotFound (ti_id intent))
       | None \<Rightarrow>
           bindT (assertNoConflictingDepositSettlementProof intent b) (\<lambda>_.
           bindT (account_of current) (\<lambda>account.
           bindT (settleConfirmedDeposit (ledgerParams (ca_id account) intent)) (\<lambda>ledgerResult.
           bindT new_Date (\<lambda>now.
           bindT (depositSettlementProof_create (\<lambda>i.
             \<lparr>dp_id = i, dp_transactionIntentId = ti_id intent, dp_blockchainTransactionId = bt_id b,
              dp_ledgerJournalId = sd_ledgerJournalId ledgerResult, dp_assetId = ti_assetId intent,
              dp_chainId = ti_chainId intent, dp_txHash = the (bt_txHash b),
              dp_fromAddress = the (bt_fromAddress b), dp_toAddress = the (bt_toAddress b),
              dp_settledAmount = ti_requestedAmount intent,
              dp_confirmedAt = (case bt_confirmedAt b of None \<Rightarrow> now | Some at \<Rightarrow> at)\<rparr>)) (\<lambda>_.
           bindT (transactionIntent_update (ti_id intent) (\<lambda>r. r\<lparr>
             ti_status := TransactionIntentStatus.settled,
             ti_settledAmount := Some (ti_requestedAmount intent)\<rparr>)) (\<lambda>_.
           bindT (auditTransition account actor ''transaction_intent.deposit.settled'' intent
             TransactionIntentStatus.settled) (\<lambda>_.
           reloadIntent depositNotFound (ti_id intent))))))))))))"

definition settleConfirmedDepositIntentWithActor ::
  "service_config \<Rightarrow> string \<Rightarrow> TransitionActor \<Rightarrow> intent_result dbtx" where
  "settleConfirmedDepositIntentWithActor cfg intentId actor =
     bindT (findDepositIntentForReview cfg intentId) (\<lambda>found.
     bindT (requireT found depositNotFound) (\<lambda>existing.
     bindT (findLedgerJournalByIntentAndType intentId deposit_settlement) (\<lambda>journal.
     if settledAlready journal (ir_intent existing)
     then bindT (requireProof (ir_intent existing)) (\<lambda>_. reusedResult existing)
     else
       bindT (requireConfirmed existing) (\<lambda>_.
       bindT (ensureDepositIntentIsConfirmed (ir_intent existing)) (\<lambda>_.
       bindT (settleConfirmedDepositIntent_transaction (ti_id (ir_intent existing)) actor) freshResult)))))"

definition settleConfirmedDepositIntent ::
  "service_config \<Rightarrow> string \<Rightarrow> string \<Rightarrow> intent_result dbtx" where
  "settleConfirmedDepositIntent cfg intentId workerId =
     settleConfirmedDepositIntentWithActor cfg intentId (workerActor workerId)"

definition settleConfirmedDepositIntentByOperator ::
  "service_config \<Rightarrow> string \<Rightarrow> string \<Rightarrow> string option \<Rightarrow> intent_result dbtx" where
  "settleConfirmedDepositIntentByOperator cfg intentId operatorId operatorRole =
     bindT (assertCanOperateCustody cfg operatorRole) (\<lambda>role.
       settleConfirmedDepositIntentWithActor cfg intentId (operatorActor operatorId role))"

definition replaySettleConfirmedDepositIntent ::
  "service_config \<Rightarrow> string \<Rightarrow> string \<Rightarrow> string option \<Rightarrow> ReplayApprovalContext option \<Rightarrow> intent_result dbtx" where
  "replaySettleConfirmedDepositIntent cfg intentId operatorId operatorRole ctx =
     bindT (assertCanOperateCustody cfg operatorRole) (\<lambda>role.
       settleConfirmedDepositIntentWithActor cfg intentId
         (replayActor ''deposit_settlement_reconciliation'' operatorId role ctx))"

section \<open>Listings\<close>

text \<open>The worker's and the operators' work lists, oldest first, at most \<open>limit ?? 20\<close> long.\<close>

definition page_limit :: "nat option \<Rightarrow> nat" where
  "page_limit limit = (case limit of None \<Rightarrow> 20 | Some n \<Rightarrow> n)"

definition deposit_on_chain :: "service_config \<Rightarrow> transaction_intent \<Rightarrow> bool" where
  "deposit_on_chain cfg i \<longleftrightarrow>
     ti_intentType i = TransactionIntentType.deposit \<and> ti_chainId i = productChainId cfg"

definition listMyTransactionIntents ::
  "string \<Rightarrow> nat option \<Rightarrow> intent_record list dbtx" where
  "listMyTransactionIntents supabaseUserId limit =
     bindT (readT (\<lambda>s. find (\<lambda>c. ca_supabaseUserId c = supabaseUserId) (customerAccounts s))) (\<lambda>found.
     bindT (requireT found (NotFoundException ''Customer account projection not found.'')) (\<lambda>account.
     readT (\<lambda>s. map (with_relations s) (take (page_limit limit)
       (rev (filter (\<lambda>i. ti_customerAccountId i = Some (ca_id account)) (transactionIntents s)))))))"

definition listPendingDepositIntents :: "service_config \<Rightarrow> nat option \<Rightarrow> intent_record list dbtx" where
  "listPendingDepositIntents cfg limit =
     transactionIntent_findMany (\<lambda>_ i. deposit_on_chain cfg i \<and>
       ti_status i \<in> {TransactionIntentStatus.requested, TransactionIntentStatus.review_required} \<and>
       ti_policyDecision i \<in> {PolicyDecision.pending, PolicyDecision.review_required}) (page_limit limit)"

definition listApprovedDepositIntents :: "service_config \<Rightarrow> nat option \<Rightarrow> intent_record list dbtx" where
  "listApprovedDepositIntents cfg limit =
     transactionIntent_findMany (\<lambda>_ i. deposit_on_chain cfg i \<and>
       in_state TransactionIntentStatus.approved i) (page_limit limit)"

definition listQueuedDepositIntents :: "service_config \<Rightarrow> nat option \<Rightarrow> intent_record list dbtx" where
  "listQueuedDepositIntents cfg limit =
     transactionIntent_findMany (\<lambda>_ i. deposit_on_chain cfg i \<and>
       in_state TransactionIntentStatus.queued i) (page_limit limit)"

definition listBroadcastDepositIntents :: "service_config \<Rightarrow> nat option \<Rightarrow> intent_record list dbtx" where
  "listBroadcastDepositIntents cfg limit =
     transactionIntent_findMany (\<lambda>_ i. deposit_on_chain cfg i \<and>
       in_state TransactionIntentStatus.broadcast i) (page_limit limit)"

text \<open>The proof check filters the page after it is taken.\<close>

definition listConfirmedDepositIntentsReadyToSettle ::
  "service_config \<Rightarrow> nat option \<Rightarrow> intent_record list dbtx" where
  "listConfirmedDepositIntentsReadyToSettle cfg limit =
     bindT (transactionIntent_findMany (\<lambda>s i. deposit_on_chain cfg i \<and>
       in_state TransactionIntentStatus.confirmed i \<and>
       \<not> (\<exists>j\<in>set (ledgerJournals s). lj_transactionIntentId j = Some (ti_id i) \<and>
            lj_journalType j = deposit_settlement) \<and>
       (\<exists>b\<in>set (blockchainTransactions s). bt_transactionIntentId b = ti_id i \<and>
            bt_status b = BlockchainTransactionStatus.confirmed)) (page_limit limit)) (\<lambda>intents.
     returnT (filter (\<lambda>i. evaluateDepositChainProof i = None) intents))"

end
