(* ===== verification/Solvency_Policy.thy ===== *)
theory Solvency_Policy
  imports Service_Tables
begin

text \<open>
  The gates of \<open>solvency/solvency.service.ts\<close> that other services call before they move
  money: each reads the policy row of the environment, creating it unpaused when there is none,
  and refuses while its switch is on.
\<close>

definition getOrCreatePolicyState :: "solvency_policy_state dbtx" where
  "getOrCreatePolicyState =
     bindT (readT solvencyPolicyState) (\<lambda>existing.
       case existing of
         Some p \<Rightarrow> returnT p
       | None \<Rightarrow>
           bindT new_Date (\<lambda>now.
           let p = \<lparr>sp_status = normal, sp_pauseWithdrawalApprovals = False,
                     sp_pauseManagedWithdrawalExecution = False, sp_pauseLoanFunding = False,
                     sp_pauseStakingWrites = False, sp_requireManualOperatorReview = False,
                     sp_latestSnapshotId = None, sp_triggeredAt = None, sp_clearedAt = None,
                     sp_reasonCode = None, sp_reasonSummary = None, sp_manualResumeRequired = False,
                     sp_manualResumeRequestedAt = None, sp_manualResumeApprovedAt = None,
                     sp_manualResumeApprovedByOperatorId = None,
                     sp_manualResumeApprovedByOperatorRole = None, sp_updatedAt = now\<rparr>
           in bindT (writeT (\<lambda>s. s\<lparr>solvencyPolicyState := Some p\<rparr>)) (\<lambda>_. returnT p)))"

definition policyConflict :: "solvency_policy_state \<Rightarrow> string \<Rightarrow> error" where
  "policyConflict p msg =
     ConflictException (case sp_reasonSummary p of None \<Rightarrow> msg | Some r \<Rightarrow> r)"

definition assertWithdrawalApprovalAllowed :: "unit dbtx" where
  "assertWithdrawalApprovalAllowed =
     bindT getOrCreatePolicyState (\<lambda>p.
     throwIf (sp_pauseWithdrawalApprovals p) (policyConflict p
       ''Withdrawal approvals are paused by the current solvency policy state.''))"

definition assertManagedWithdrawalExecutionAllowed :: "unit dbtx" where
  "assertManagedWithdrawalExecutionAllowed =
     bindT getOrCreatePolicyState (\<lambda>p.
     throwIf (sp_pauseManagedWithdrawalExecution p) (policyConflict p
       ''Managed withdrawal execution is paused by the current solvency policy state.''))"

definition assertLoanFundingAllowed :: "unit dbtx" where
  "assertLoanFundingAllowed =
     bindT getOrCreatePolicyState (\<lambda>p.
     throwIf (sp_pauseLoanFunding p) (policyConflict p
       ''Loan funding is paused by the current solvency policy state.''))"

definition assertStakingWritesAllowed :: "unit dbtx" where
  "assertStakingWritesAllowed =
     bindT getOrCreatePolicyState (\<lambda>p.
     throwIf (sp_pauseStakingWrites p) (policyConflict p
       ''Staking write actions are paused by the current solvency policy state.''))"

end
