(* ===== verification/Withdrawal_Intents.thy ===== *)
theory Withdrawal_Intents
  imports Deposit_Intents Solvency_Policy
begin

text \<open>
  \<open>transaction-intents/withdrawal-intents.service.ts\<close>: the life of a withdrawal. The
  request reserves the amount, the operator's decision, the queue, a worker's claim, the signed
  and the broadcast transaction, failures by category, confirmation and settlement follow. As for
  deposits, the body of each operation's database transaction is a definition of its own.
  Address parsing is the ethers library's (\<open>isAddress\<close>, \<open>getAddress\<close>) and a
  parameter, as is the verdict of the governed-execution gate on the source wallet.
\<close>

section \<open>Outside the service\<close>

record evm_library =
  isAddress :: "string \<Rightarrow> bool"
  getAddress :: "string \<Rightarrow> string"
  governedExecutionVerdict :: "wallet option \<Rightarrow> error option"

definition normalizeBlockchainAddress :: "evm_library \<Rightarrow> string \<Rightarrow> string \<Rightarrow> ('s, string) tx" where
  "normalizeBlockchainAddress evm value fieldName =
     (let n = trim value in
      if n = [] then throwT (BadRequestException (fieldName @ '' is required.''))
      else if \<not> isAddress evm n
      then throwT (BadRequestException (fieldName @ '' must be a valid EVM address.''))
      else returnT (getAddress evm n))"

section \<open>Guards\<close>

definition withdrawalNotFound :: error where
  "withdrawalNotFound = NotFoundException ''Withdrawal transaction intent not found.''"

definition findWithdrawalIntentForReview :: "service_config \<Rightarrow> string \<Rightarrow> intent_record option dbtx" where
  "findWithdrawalIntentForReview cfg intentId =
     transactionIntent_findFirst intentId (\<lambda>i. ti_intentType i = TransactionIntentType.withdrawal \<and>
       ti_chainId i = productChainId cfg)"

definition ensureWithdrawalIntentIsPendingOperatorDecision :: "transaction_intent \<Rightarrow> ('s, unit) tx" where
  "ensureWithdrawalIntentIsPendingOperatorDecision intent =
     throwIf (ti_status intent \<noteq> TransactionIntentStatus.requested \<or>
         ti_policyDecision intent \<noteq> PolicyDecision.pending)
       (ConflictException ''Withdrawal transaction intent is not pending operator decision.'')"

definition ensureWithdrawalIntentIsApproved :: "transaction_intent \<Rightarrow> ('s, unit) tx" where
  "ensureWithdrawalIntentIsApproved intent = throwIf (\<not> in_state TransactionIntentStatus.approved intent)
     (ConflictException ''Withdrawal transaction intent is not approved and ready for queueing.'')"

definition ensureWithdrawalIntentIsQueued :: "transaction_intent \<Rightarrow> ('s, unit) tx" where
  "ensureWithdrawalIntentIsQueued intent = throwIf (\<not> in_state TransactionIntentStatus.queued intent)
     (ConflictException ''Withdrawal transaction intent is not queued for worker execution.'')"

definition ensureWithdrawalIntentIsBroadcast :: "transaction_intent \<Rightarrow> ('s, unit) tx" where
  "ensureWithdrawalIntentIsBroadcast intent = throwIf (\<not> in_state TransactionIntentStatus.broadcast intent)
     (ConflictException ''Withdrawal transaction intent is not broadcast and ready for confirmation.'')"

definition ensureWithdrawalIntentIsConfirmed :: "transaction_intent \<Rightarrow> ('s, unit) tx" where
  "ensureWithdrawalIntentIsConfirmed intent = throwIf (\<not> in_state TransactionIntentStatus.confirmed intent)
     (ConflictException ''Withdrawal transaction intent is not confirmed and ready for settlement.'')"

definition assertWithdrawalIntentCanFailExecution :: "transaction_intent \<Rightarrow> ('s, unit) tx" where
  "assertWithdrawalIntentCanFailExecution intent =
     throwIf (ti_policyDecision intent \<noteq> PolicyDecision.approved \<or>
         (ti_status intent \<noteq> TransactionIntentStatus.queued \<and>
          ti_status intent \<noteq> TransactionIntentStatus.broadcast))
       (ConflictException ''Withdrawal transaction intent is not in an execution state that can fail.'')"

definition isWithdrawalExecutionClaimReusable :: "transaction_intent \<Rightarrow> string \<Rightarrow> int \<Rightarrow> bool" where
  "isWithdrawalExecutionClaimReusable intent workerId staleBefore \<longleftrightarrow>
     (case ti_executionClaimedAt intent of
        None \<Rightarrow> True
      | Some claimedAt \<Rightarrow>
          \<not> truthy (ti_executionClaimedByWorkerId intent) \<or>
          ti_executionClaimedByWorkerId intent = Some workerId \<or> claimedAt \<le> staleBefore)"

definition isWithdrawalExecutionInProgress :: "intent_record \<Rightarrow> bool" where
  "isWithdrawalExecutionInProgress intent \<longleftrightarrow>
     in_state TransactionIntentStatus.queued (ir_intent intent) \<and>
     (latest_status intent = Some BlockchainTransactionStatus.created \<or>
      latest_status intent = Some BlockchainTransactionStatus.signed)"

definition resolveWithdrawalBroadcastAddresses ::
  "evm_library \<Rightarrow> intent_record \<Rightarrow> string option \<Rightarrow> string option \<Rightarrow> (string \<times> string) dbtx" where
  "resolveWithdrawalBroadcastAddresses evm intent fromAddress toAddress =
     bindT (throwIf (\<not> truthy (map_option wa_address (ir_sourceWallet intent)))
       (ConflictException ''Withdrawal transaction intent source wallet is missing.'')) (\<lambda>_.
     bindT (throwIf (\<not> truthy (ti_externalAddress (ir_intent intent)))
       (ConflictException ''Withdrawal transaction intent destination address is missing.'')) (\<lambda>_.
     bindT (normalizeBlockchainAddress evm (wa_address (the (ir_sourceWallet intent)))
       ''sourceWalletAddress'') (\<lambda>expectedFrom.
     bindT (normalizeBlockchainAddress evm (the (ti_externalAddress (ir_intent intent)))
       ''externalAddress'') (\<lambda>expectedTo.
     bindT (if truthy fromAddress
       then normalizeBlockchainAddress evm (the fromAddress) ''fromAddress'' else returnT expectedFrom) (\<lambda>from.
     bindT (if truthy toAddress
       then normalizeBlockchainAddress evm (the toAddress) ''toAddress'' else returnT expectedTo) (\<lambda>to.
     bindT (throwIf (from \<noteq> expectedFrom)
       (ConflictException ''Provided fromAddress does not match the withdrawal source wallet.'')) (\<lambda>_.
     bindT (throwIf (to \<noteq> expectedTo)
       (ConflictException ''Provided toAddress does not match the withdrawal destination address.'')) (\<lambda>_.
     returnT (from, to)))))))))"

record WithdrawalExecutionFailureResolution =
  fr_failureCategory :: WithdrawalExecutionFailureCategory
  fr_nextIntentStatus :: TransactionIntentStatus
  fr_nextBlockchainStatus :: "BlockchainTransactionStatus option"
  fr_releaseReservation :: bool
  fr_openManualInterventionReviewCase :: bool
  fr_auditAction :: string

definition normalizeWithdrawalFailureCategory ::
  "WithdrawalExecutionFailureCategory option \<Rightarrow> WithdrawalExecutionFailureCategory" where
  "normalizeWithdrawalFailureCategory value =
     (case value of None \<Rightarrow> WithdrawalExecutionFailureCategory.permanent | Some c \<Rightarrow> c)"

definition resolveWithdrawalExecutionFailureResolution ::
  "TransactionIntentStatus \<Rightarrow> BlockchainTransactionStatus option \<Rightarrow> WithdrawalExecutionFailureCategory
     \<Rightarrow> ('s, WithdrawalExecutionFailureResolution) tx" where
  "resolveWithdrawalExecutionFailureResolution currentStatus currentBlockchainStatus failureCategory =
     (case failureCategory of
        WithdrawalExecutionFailureCategory.retryable \<Rightarrow>
          bindT (throwIf (currentStatus \<noteq> TransactionIntentStatus.queued)
            (ConflictException ''Retryable withdrawal failures are only allowed before broadcast.'')) (\<lambda>_.
          returnT \<lparr>fr_failureCategory = failureCategory,
            fr_nextIntentStatus = TransactionIntentStatus.queued,
            fr_nextBlockchainStatus = currentBlockchainStatus, fr_releaseReservation = False,
            fr_openManualInterventionReviewCase = False,
            fr_auditAction = ''transaction_intent.withdrawal.execution_retryable_failure''\<rparr>)
      | WithdrawalExecutionFailureCategory.manual_intervention_required \<Rightarrow>
          returnT \<lparr>fr_failureCategory = failureCategory,
            fr_nextIntentStatus = currentStatus,
            fr_nextBlockchainStatus = currentBlockchainStatus, fr_releaseReservation = False,
            fr_openManualInterventionReviewCase = True,
            fr_auditAction = ''transaction_intent.withdrawal.manual_intervention_required''\<rparr>
      | WithdrawalExecutionFailureCategory.permanent \<Rightarrow>
          returnT \<lparr>fr_failureCategory = failureCategory,
            fr_nextIntentStatus = TransactionIntentStatus.failed,
            fr_nextBlockchainStatus = Some BlockchainTransactionStatus.failed,
            fr_releaseReservation = True, fr_openManualInterventionReviewCase = False,
            fr_auditAction = ''transaction_intent.withdrawal.execution_failed''\<rparr>)"

lemmas withdrawal_guards = ensureWithdrawalIntentIsPendingOperatorDecision_def in_state_def
  ensureWithdrawalIntentIsApproved_def ensureWithdrawalIntentIsQueued_def
  ensureWithdrawalIntentIsBroadcast_def ensureWithdrawalIntentIsConfirmed_def
  assertWithdrawalIntentCanFailExecution_def

section \<open>Requesting a withdrawal\<close>

record CreateWithdrawalIntentDto =
  cw_idempotencyKey :: string
  cw_assetSymbol :: string
  cw_amount :: decimal
  cw_destinationAddress :: string

record WithdrawalIntentContext =
  wx_customerId :: string
  wx_customerAccountId :: string
  wx_sourceWalletId :: string
  wx_sourceWalletAddress :: string
  wx_externalAddress :: string
  wx_assetId :: string
  wx_assetSymbol :: string

definition resolveWithdrawalIntentContext ::
  "service_config \<Rightarrow> evm_library \<Rightarrow> string \<Rightarrow> string \<Rightarrow> string \<Rightarrow> WithdrawalIntentContext dbtx" where
  "resolveWithdrawalIntentContext cfg evm supabaseUserId assetSymbol externalAddress =
     bindT (normalizeBlockchainAddress evm externalAddress ''destinationAddress'') (\<lambda>destination.
     bindT (readT (\<lambda>s. find (\<lambda>c. ca_supabaseUserId c = supabaseUserId) (customerAccounts s))) (\<lambda>found.
     bindT (requireT found (NotFoundException ''Customer account projection not found.'')) (\<lambda>account.
     bindT (assertSensitiveIntentRequestAllowed (ca_status account)) (\<lambda>_.
     bindT (readT (activeWallets cfg (ca_id account))) (\<lambda>ws.
     bindT (throwIf (ws = []) (NotFoundException ''Active product-chain wallet projection not found.'')) (\<lambda>_.
     bindT (throwIf (length ws > 1)
       (ConflictException ''Multiple active product-chain wallets found for customer account.'')) (\<lambda>_.
     bindT (normalizeBlockchainAddress evm (wa_address (hd ws)) ''sourceWalletAddress'') (\<lambda>source.
     bindT (throwIf (source = destination) (BadRequestException
       ''Withdrawal destination address must differ from the product wallet address.'')) (\<lambda>_.
     bindT (activeAsset cfg assetSymbol) (\<lambda>asset.
     returnT
       \<lparr>wx_customerId = ca_customerId account, wx_customerAccountId = ca_id account,
        wx_sourceWalletId = wa_id (hd ws), wx_sourceWalletAddress = source,
        wx_externalAddress = destination, wx_assetId = as_id asset,
        wx_assetSymbol = as_symbol asset\<rparr>))))))))))"

definition reusableWithdrawalIntent ::
  "service_config \<Rightarrow> WithdrawalIntentContext \<Rightarrow> decimal \<Rightarrow> intent_record \<Rightarrow> bool" where
  "reusableWithdrawalIntent cfg context requestedAmount existing \<longleftrightarrow>
     ti_customerAccountId (ir_intent existing) = Some (wx_customerAccountId context) \<and>
     ti_intentType (ir_intent existing) = TransactionIntentType.withdrawal \<and>
     ti_chainId (ir_intent existing) = productChainId cfg \<and>
     map_option as_symbol (ir_asset existing) = Some (wx_assetSymbol context) \<and>
     ti_sourceWalletId (ir_intent existing) = Some (wx_sourceWalletId context) \<and>
     map_option wa_address (ir_sourceWallet existing) = Some (wx_sourceWalletAddress context) \<and>
     ti_externalAddress (ir_intent existing) = Some (wx_externalAddress context) \<and>
     ti_requestedAmount (ir_intent existing) = requestedAmount"

definition reuseWithdrawalIntent ::
  "service_config \<Rightarrow> WithdrawalIntentContext \<Rightarrow> decimal \<Rightarrow> intent_record \<Rightarrow> intent_result dbtx" where
  "reuseWithdrawalIntent cfg context requestedAmount existing =
     bindT (throwIf (\<not> reusableWithdrawalIntent cfg context requestedAmount existing)
       (ConflictException ''Idempotency key already exists for a different withdrawal request.'')) (\<lambda>_.
     returnT \<lparr>res_intent = existing, res_reused = True\<rparr>)"

definition newWithdrawalIntent ::
  "service_config \<Rightarrow> CreateWithdrawalIntentDto \<Rightarrow> WithdrawalIntentContext \<Rightarrow> string \<Rightarrow> transaction_intent" where
  "newWithdrawalIntent cfg dto context i =
     \<lparr>ti_id = i, ti_customerAccountId = Some (wx_customerAccountId context),
      ti_recipientCustomerAccountId = None, ti_assetId = wx_assetId context,
      ti_sourceWalletId = Some (wx_sourceWalletId context), ti_destinationWalletId = None,
      ti_externalAddress = Some (wx_externalAddress context), ti_recipientMaskedEmail = None,
      ti_recipientMaskedDisplay = None, ti_chainId = productChainId cfg,
      ti_intentType = TransactionIntentType.withdrawal,
      ti_status = TransactionIntentStatus.requested, ti_policyDecision = PolicyDecision.pending,
      ti_requestedAmount = cw_amount dto, ti_settledAmount = None,
      ti_idempotencyKey = cw_idempotencyKey dto, ti_failureCode = None, ti_failureReason = None,
      ti_executionFailureCategory = None, ti_executionFailureObservedAt = None,
      ti_executionClaimedAt = None, ti_executionClaimedByWorkerId = None,
      ti_manualInterventionRequiredAt = None, ti_manualInterventionReviewCaseId = None\<rparr>"

definition createWithdrawalIntent_transaction ::
  "service_config \<Rightarrow> string \<Rightarrow> CreateWithdrawalIntentDto \<Rightarrow> WithdrawalIntentContext \<Rightarrow> intent_record dbtx" where
  "createWithdrawalIntent_transaction cfg supabaseUserId dto context =
     bindT (transactionIntent_create (newWithdrawalIntent cfg dto context)) (\<lambda>intent.
     bindT (reserveWithdrawalBalance (ledgerParams (wx_customerAccountId context) intent)) (\<lambda>_.
     bindT (auditEvent_create (Some (wx_customerId context)) ''customer'' (Some supabaseUserId)
       ''transaction_intent.withdrawal.requested'' ''TransactionIntent'' (ti_id intent) None None) (\<lambda>_.
     readT (\<lambda>s. with_relations s intent))))"

definition createWithdrawalIntent ::
  "service_config \<Rightarrow> evm_library \<Rightarrow> string \<Rightarrow> CreateWithdrawalIntentDto \<Rightarrow> intent_result dbtx" where
  "createWithdrawalIntent cfg evm supabaseUserId dto =
     bindT (normalizeAssetSymbol (cw_assetSymbol dto)) (\<lambda>normalizedAssetSymbol.
     bindT (parseRequestedAmount (cw_amount dto)) (\<lambda>requestedAmount.
     bindT (resolveWithdrawalIntentContext cfg evm supabaseUserId normalizedAssetSymbol
       (cw_destinationAddress dto)) (\<lambda>context.
     bindT (transactionIntent_findByIdempotencyKey (cw_idempotencyKey dto)) (\<lambda>existing.
       case existing of
         Some e \<Rightarrow> reuseWithdrawalIntent cfg context requestedAmount e
       | None \<Rightarrow>
           catchUnique
             (bindT (createWithdrawalIntent_transaction cfg supabaseUserId dto context) (\<lambda>created.
              returnT \<lparr>res_intent = created, res_reused = False\<rparr>))
             (bindT (transactionIntent_findByIdempotencyKey (cw_idempotencyKey dto)) (\<lambda>reused.
              bindT (requireT reused UniqueConstraintViolation) (\<lambda>r.
              reuseWithdrawalIntent cfg context requestedAmount r)))))))"

section \<open>The operator's decision and the queue\<close>

definition decideWithdrawalIntent_transaction ::
  "string \<Rightarrow> DecideIntentDto \<Rightarrow> string \<Rightarrow> intent_record \<Rightarrow> intent_record dbtx" where
  "decideWithdrawalIntent_transaction operatorId dto role existing =
     (let intent = ir_intent existing;
          approve = (de_decision dto = OperatorDecision.approved);
          newStatus = (if approve then TransactionIntentStatus.approved
                       else TransactionIntentStatus.failed) in
      bindT (if approve then returnT ()
        else bindT (account_of existing) (\<lambda>account.
             bindT (releaseWithdrawalReservation (ledgerParams (ca_id account) intent)) (\<lambda>_.
             returnT ()))) (\<lambda>_.
      bindT (transactionIntent_update (ti_id intent) (\<lambda>r. r\<lparr>
        ti_status := newStatus,
        ti_policyDecision := (if approve then PolicyDecision.approved else PolicyDecision.denied),
        ti_failureCode := (if approve then None else Some ''policy_denied''),
        ti_failureReason := (if approve then None else trim_opt (de_denialReason dto))\<rparr>)) (\<lambda>_.
      bindT (account_of existing) (\<lambda>account.
      bindT (auditTransition account (operatorActor operatorId role)
        (if approve then ''transaction_intent.withdrawal.approved''
         else ''transaction_intent.withdrawal.denied'') intent newStatus) (\<lambda>_.
      reloadIntent withdrawalNotFound (ti_id intent))))))"

definition decideWithdrawalIntent ::
  "service_config \<Rightarrow> string \<Rightarrow> string \<Rightarrow> DecideIntentDto \<Rightarrow> string option \<Rightarrow> intent_result dbtx" where
  "decideWithdrawalIntent cfg intentId operatorId dto operatorRole =
     bindT (if de_decision dto = OperatorDecision.approved then assertWithdrawalApprovalAllowed
            else returnT ()) (\<lambda>_.
     bindT (assertCanDecideTransactionIntent cfg operatorRole) (\<lambda>role.
     bindT (throwIf (de_decision dto = OperatorDecision.denied \<and> \<not> truthy (trim_opt (de_denialReason dto)))
       (BadRequestException ''Denial reason is required for denied decisions.'')) (\<lambda>_.
     bindT (findWithdrawalIntentForReview cfg intentId) (\<lambda>found.
     bindT (requireT found withdrawalNotFound) (\<lambda>existing.
     bindT (ensureWithdrawalIntentIsPendingOperatorDecision (ir_intent existing)) (\<lambda>_.
     bindT (decideWithdrawalIntent_transaction operatorId dto role existing) freshResult))))))"

definition queueApprovedWithdrawalIntent_transaction ::
  "string \<Rightarrow> string \<Rightarrow> intent_record \<Rightarrow> intent_record dbtx" where
  "queueApprovedWithdrawalIntent_transaction operatorId role existing =
     (let intent = ir_intent existing in
      bindT (transactionIntent_update (ti_id intent) (\<lambda>r. r\<lparr>
        ti_status := TransactionIntentStatus.queued,
        ti_failureCode := None,
        ti_failureReason := None,
        ti_executionFailureCategory := None,
        ti_executionFailureObservedAt := None,
        ti_manualInterventionRequiredAt := None,
        ti_manualInterventionReviewCaseId := None,
        ti_executionClaimedAt := None,
        ti_executionClaimedByWorkerId := None\<rparr>)) (\<lambda>_.
      bindT (account_of existing) (\<lambda>account.
      bindT (auditTransition account (operatorActor operatorId role)
        ''transaction_intent.withdrawal.queued'' intent TransactionIntentStatus.queued) (\<lambda>_.
      reloadIntent withdrawalNotFound (ti_id intent)))))"

definition queueApprovedWithdrawalIntent ::
  "service_config \<Rightarrow> string \<Rightarrow> string \<Rightarrow> string option \<Rightarrow> intent_result dbtx" where
  "queueApprovedWithdrawalIntent cfg intentId operatorId operatorRole =
     bindT assertWithdrawalApprovalAllowed (\<lambda>_.
     bindT (assertCanOperateCustody cfg operatorRole) (\<lambda>role.
     bindT (findWithdrawalIntentForReview cfg intentId) (\<lambda>found.
     bindT (requireT found withdrawalNotFound) (\<lambda>existing.
     if in_state TransactionIntentStatus.queued (ir_intent existing)
     then reusedResult existing
     else
       bindT (ensureWithdrawalIntentIsApproved (ir_intent existing)) (\<lambda>_.
       bindT (queueApprovedWithdrawalIntent_transaction operatorId role existing) freshResult)))))"

section \<open>A worker's claim\<close>

record execution_result =
  ex_intent :: intent_record
  ex_executionClaimed :: bool
  ex_executionReused :: bool

definition unclaimed :: "intent_record \<Rightarrow> execution_result" where
  "unclaimed r = \<lparr>ex_intent = r, ex_executionClaimed = False, ex_executionReused = True\<rparr>"

definition claimable :: "string \<Rightarrow> int \<Rightarrow> transaction_intent \<Rightarrow> bool" where
  "claimable workerId staleBefore i \<longleftrightarrow> in_state TransactionIntentStatus.queued i \<and>
     (case ti_executionClaimedAt i of None \<Rightarrow> True | Some at \<Rightarrow>
        at \<le> staleBefore \<or> ti_executionClaimedByWorkerId i = Some workerId)"

definition newWithdrawalTransaction ::
  "transaction_intent \<Rightarrow> string option \<Rightarrow> BlockchainTransactionStatus \<Rightarrow> string \<Rightarrow> string \<Rightarrow> int option
     \<Rightarrow> string \<Rightarrow> blockchain_transaction" where
  "newWithdrawalTransaction intent txHash st fromAddress toAddress broadcastAt i =
     \<lparr>bt_id = i, bt_transactionIntentId = ti_id intent, bt_chainId = ti_chainId intent,
      bt_txHash = txHash, bt_nonce = None, bt_serializedTransaction = None, bt_status = st,
      bt_fromAddress = Some fromAddress, bt_toAddress = Some toAddress,
      bt_broadcastAt = broadcastAt, bt_confirmedAt = None\<rparr>"

definition startManagedWithdrawalExecution_transaction ::
  "evm_library \<Rightarrow> string \<Rightarrow> string \<Rightarrow> int \<Rightarrow> int \<Rightarrow> execution_result dbtx" where
  "startManagedWithdrawalExecution_transaction evm intentId workerId claimedAt staleBefore =
     bindT (reloadIntent withdrawalNotFound intentId) (\<lambda>current.
     let intent = ir_intent current in
     if \<not> in_state TransactionIntentStatus.queued intent then returnT (unclaimed current)
     else if \<not> isWithdrawalExecutionClaimReusable intent workerId staleBefore
     then returnT (unclaimed current)
     else
       bindT (transactionIntent_updateMany (ti_id intent) (claimable workerId staleBefore) (\<lambda>r. r\<lparr>
         ti_executionClaimedAt := Some claimedAt,
         ti_executionClaimedByWorkerId := Some workerId\<rparr>)) (\<lambda>count.
       if count = 0
       then bindT (reloadIntent withdrawalNotFound (ti_id intent)) (\<lambda>r. returnT (unclaimed r))
       else
         bindT (resolveWithdrawalBroadcastAddresses evm current None None) (\<lambda>(from, to).
         bindT (if ir_latest current = None
           then blockchainTransaction_create (newWithdrawalTransaction intent None
             BlockchainTransactionStatus.created from to None)
           else returnT ()) (\<lambda>_.
         bindT (account_of current) (\<lambda>account.
         bindT (auditEvent_create (Some (ca_customerId account)) ''worker'' (Some workerId)
           ''transaction_intent.withdrawal.execution_started'' ''TransactionIntent'' (ti_id intent)
           None None) (\<lambda>_.
         bindT (reloadIntent withdrawalNotFound (ti_id intent)) (\<lambda>r.
         returnT \<lparr>ex_intent = r, ex_executionClaimed = True,
           ex_executionReused = isWithdrawalExecutionInProgress current\<rparr>)))))))"

definition throwOpt :: "error option \<Rightarrow> ('s, unit) tx" where
  "throwOpt e = (case e of None \<Rightarrow> returnT () | Some err \<Rightarrow> throwT err)"

definition startManagedWithdrawalExecution ::
  "service_config \<Rightarrow> evm_library \<Rightarrow> string \<Rightarrow> string \<Rightarrow> int \<Rightarrow> execution_result dbtx" where
  "startManagedWithdrawalExecution cfg evm intentId workerId reclaimStaleAfterMs =
     bindT (findWithdrawalIntentForReview cfg intentId) (\<lambda>found.
     bindT (requireT found withdrawalNotFound) (\<lambda>existing.
     bindT assertManagedWithdrawalExecutionAllowed (\<lambda>_.
     bindT (throwOpt (governedExecutionVerdict evm (ir_sourceWallet existing))) (\<lambda>_.
     if \<not> in_state TransactionIntentStatus.queued (ir_intent existing)
     then bindT (mapIntentReviewProjection existing) (\<lambda>r. returnT (unclaimed r))
     else
       bindT new_Date (\<lambda>claimedAt.
       bindT (startManagedWithdrawalExecution_transaction evm (ti_id (ir_intent existing)) workerId
         claimedAt (claimedAt - reclaimStaleAfterMs)) (\<lambda>result.
       bindT (mapIntentReviewProjection (ex_intent result)) (\<lambda>_.
       returnT result)))))))"

section \<open>The signed transaction\<close>

record RecordSignedWithdrawalExecutionDto =
  rs_txHash :: string
  rs_nonce :: int
  rs_serializedTransaction :: string
  rs_fromAddress :: "string option"
  rs_toAddress :: "string option"

definition canReuseSignedWithdrawalExecution ::
  "blockchain_transaction option \<Rightarrow> RecordSignedWithdrawalExecutionDto \<Rightarrow> bool" where
  "canReuseSignedWithdrawalExecution latest dto \<longleftrightarrow>
     (case latest of
        None \<Rightarrow> False
      | Some b \<Rightarrow> bt_status b = BlockchainTransactionStatus.signed \<and>
          bt_txHash b = Some (rs_txHash dto) \<and> bt_nonce b = Some (rs_nonce dto) \<and>
          bt_serializedTransaction b = Some (rs_serializedTransaction dto))"

definition claimedByOther :: error where
  "claimedByOther = ConflictException ''Withdrawal transaction intent is claimed by a different worker.''"

definition withdrawalOtherTransaction :: error where
  "withdrawalOtherTransaction = ConflictException
     ''A different blockchain transaction is already recorded for this withdrawal intent.''"

definition recordSignedWithdrawalExecution_transaction ::
  "evm_library \<Rightarrow> string \<Rightarrow> string \<Rightarrow> RecordSignedWithdrawalExecutionDto \<Rightarrow> intent_record dbtx" where
  "recordSignedWithdrawalExecution_transaction evm intentId workerId dto =
     bindT (reloadIntent withdrawalNotFound intentId) (\<lambda>current.
     let intent = ir_intent current in
     bindT (ensureWithdrawalIntentIsQueued intent) (\<lambda>_.
     bindT (throwIf (ti_executionClaimedByWorkerId intent \<noteq> Some workerId) claimedByOther) (\<lambda>_.
     if canReuseSignedWithdrawalExecution (ir_latest current) dto then returnT current
     else
       bindT (requireT (ir_latest current) (ConflictException
         ''No blockchain execution record exists for this withdrawal intent.'')) (\<lambda>b.
       bindT (throwIf (bt_status b \<noteq> BlockchainTransactionStatus.created \<and>
           bt_status b \<noteq> BlockchainTransactionStatus.signed)
         (ConflictException
         ''Withdrawal transaction intent is not ready for signed execution persistence.'')) (\<lambda>_.
       bindT (resolveWithdrawalBroadcastAddresses evm current
         (coalesce (trim_opt (rs_fromAddress dto)) (bt_fromAddress b))
         (coalesce (trim_opt (rs_toAddress dto)) (bt_toAddress b))) (\<lambda>(from, to).
       bindT (throwIf (truthy (bt_txHash b) \<and> bt_txHash b \<noteq> Some (rs_txHash dto))
         withdrawalOtherTransaction) (\<lambda>_.
       bindT (blockchainTransaction_update (bt_id b) (\<lambda>r. r\<lparr>
         bt_txHash := Some (rs_txHash dto),
         bt_nonce := Some (rs_nonce dto),
         bt_serializedTransaction := Some (rs_serializedTransaction dto),
         bt_status := BlockchainTransactionStatus.signed,
         bt_fromAddress := Some from,
         bt_toAddress := Some to\<rparr>)) (\<lambda>_.
       bindT (account_of current) (\<lambda>account.
       bindT (auditEvent_create (Some (ca_customerId account)) ''worker'' (Some workerId)
         ''transaction_intent.withdrawal.broadcast_persisted'' ''TransactionIntent'' (ti_id intent)
         None None) (\<lambda>_.
       reloadIntent withdrawalNotFound (ti_id intent)))))))))))"

definition recordSignedWithdrawalExecution ::
  "service_config \<Rightarrow> evm_library \<Rightarrow> string \<Rightarrow> string \<Rightarrow> RecordSignedWithdrawalExecutionDto
     \<Rightarrow> intent_result dbtx" where
  "recordSignedWithdrawalExecution cfg evm intentId workerId dto =
     bindT (findWithdrawalIntentForReview cfg intentId) (\<lambda>found.
     bindT (requireT found withdrawalNotFound) (\<lambda>existing.
     if canReuseSignedWithdrawalExecution (ir_latest existing) dto then reusedResult existing
     else
       bindT (ensureWithdrawalIntentIsQueued (ir_intent existing)) (\<lambda>_.
       bindT (recordSignedWithdrawalExecution_transaction evm (ti_id (ir_intent existing)) workerId dto)
         freshResult)))"

section \<open>Broadcast\<close>

definition recordWithdrawalBroadcast_transaction ::
  "evm_library \<Rightarrow> string \<Rightarrow> RecordBroadcastDto \<Rightarrow> TransitionActor \<Rightarrow> intent_record dbtx" where
  "recordWithdrawalBroadcast_transaction evm intentId dto actor =
     bindT (reloadIntent withdrawalNotFound intentId) (\<lambda>current.
     let intent = ir_intent current in
     if already_broadcast (rb_txHash dto) current then returnT current
     else
       bindT (ensureWithdrawalIntentIsQueued intent) (\<lambda>_.
       bindT (throwIf (actorType actor = ''worker'' \<and> truthy (ti_executionClaimedByWorkerId intent) \<and>
           ti_executionClaimedByWorkerId intent \<noteq> Some (actorId actor)) claimedByOther) (\<lambda>_.
       bindT (throwIf (other_hash_recorded (Some (rb_txHash dto)) current) withdrawalOtherTransaction) (\<lambda>_.
       bindT (resolveWithdrawalBroadcastAddresses evm current (trim_opt (rb_fromAddress dto))
         (trim_opt (rb_toAddress dto))) (\<lambda>(from, to).
       bindT new_Date (\<lambda>now.
       bindT (case ir_latest current of
           Some b \<Rightarrow> blockchainTransaction_update (bt_id b) (\<lambda>r. r\<lparr>
             bt_txHash := Some (rb_txHash dto),
             bt_status := BlockchainTransactionStatus.broadcast,
             bt_broadcastAt := Some now,
             bt_fromAddress := Some from,
             bt_toAddress := Some to\<rparr>)
         | None \<Rightarrow> blockchainTransaction_create (newWithdrawalTransaction intent (Some (rb_txHash dto))
             BlockchainTransactionStatus.broadcast from to (Some now))) (\<lambda>_.
       bindT (transactionIntent_update (ti_id intent) (\<lambda>r. r\<lparr>
         ti_status := TransactionIntentStatus.broadcast,
         ti_failureCode := None,
         ti_failureReason := None,
         ti_executionFailureCategory := None,
         ti_executionFailureObservedAt := None,
         ti_executionClaimedAt := None,
         ti_executionClaimedByWorkerId := None,
         ti_manualInterventionRequiredAt := None,
         ti_manualInterventionReviewCaseId := None\<rparr>)) (\<lambda>_.
       bindT (account_of current) (\<lambda>account.
       bindT (auditTransition account actor ''transaction_intent.withdrawal.broadcast'' intent
         TransactionIntentStatus.broadcast) (\<lambda>_.
       reloadIntent withdrawalNotFound (ti_id intent)))))))))))"

definition recordWithdrawalBroadcastWithActor ::
  "service_config \<Rightarrow> evm_library \<Rightarrow> string \<Rightarrow> RecordBroadcastDto \<Rightarrow> TransitionActor \<Rightarrow> intent_result dbtx" where
  "recordWithdrawalBroadcastWithActor cfg evm intentId dto actor =
     bindT (findWithdrawalIntentForReview cfg intentId) (\<lambda>found.
     bindT (requireT found withdrawalNotFound) (\<lambda>existing.
     if already_broadcast (rb_txHash dto) existing then reusedResult existing
     else
       bindT (ensureWithdrawalIntentIsQueued (ir_intent existing)) (\<lambda>_.
       bindT (recordWithdrawalBroadcast_transaction evm (ti_id (ir_intent existing)) dto actor)
         freshResult)))"

definition recordWithdrawalBroadcast ::
  "service_config \<Rightarrow> evm_library \<Rightarrow> string \<Rightarrow> string \<Rightarrow> RecordBroadcastDto \<Rightarrow> intent_result dbtx" where
  "recordWithdrawalBroadcast cfg evm intentId workerId dto =
     recordWithdrawalBroadcastWithActor cfg evm intentId dto (workerActor workerId)"

definition recordWithdrawalBroadcastByOperator ::
  "service_config \<Rightarrow> evm_library \<Rightarrow> string \<Rightarrow> string \<Rightarrow> RecordBroadcastDto \<Rightarrow> string option
     \<Rightarrow> intent_result dbtx" where
  "recordWithdrawalBroadcastByOperator cfg evm intentId operatorId dto operatorRole =
     bindT (assertCanOperateCustody cfg operatorRole) (\<lambda>role.
       recordWithdrawalBroadcastWithActor cfg evm intentId dto (operatorActor operatorId role))"

section \<open>Failed execution\<close>

text \<open>
  A failure report that repeats the recorded one changes nothing. The category compared is the
  report's own, and before the transaction opens a report without a category repeats any.
\<close>

definition repeated_failure ::
  "FailExecutionDto \<Rightarrow> WithdrawalExecutionFailureCategory option \<Rightarrow> intent_record \<Rightarrow> bool" where
  "repeated_failure dto category r \<longleftrightarrow>
     ti_failureCode (ir_intent r) = Some (trim (fe_failureCode dto)) \<and>
     ti_failureReason (ir_intent r) = Some (trim (fe_failureReason dto)) \<and>
     ti_executionFailureCategory (ir_intent r) = category \<and>
     ti_status (ir_intent r) \<in> {TransactionIntentStatus.failed, TransactionIntentStatus.queued,
       TransactionIntentStatus.broadcast} \<and>
     hash_agrees (fe_txHash dto) r"

text \<open>Opens the manual-intervention case of a failed execution, when the resolution asks for one.\<close>

definition openFailureReviewCase ::
  "WithdrawalExecutionFailureResolution \<Rightarrow> FailExecutionDto \<Rightarrow> TransitionActor \<Rightarrow> intent_record
     \<Rightarrow> string option dbtx" where
  "openFailureReviewCase resolution dto actor current =
     (if fr_openManualInterventionReviewCase resolution
      then bindT (account_of current) (\<lambda>account.
           bindT (openOrReuseReviewCase
             \<lparr>op_customerId = Some (ca_customerId account), op_customerAccountId = Some (ca_id account),
              op_transactionIntentId = Some (ti_id (ir_intent current)),
              op_type = ReviewCaseType.manual_intervention,
              op_reasonCode = Some (''withdrawal_execution:'' @ trim (fe_failureCode dto)),
              op_notes = Some (trim (fe_failureReason dto)), op_actorType = actorType actor,
              op_actorId = Some (actorId actor),
              op_auditAction = ''review_case.manual_intervention.opened''\<rparr>) (\<lambda>(c, _).
           returnT (Some (rc_id c))))
      else returnT None)"

definition failWithdrawalIntentExecution_transaction ::
  "evm_library \<Rightarrow> string \<Rightarrow> FailExecutionDto \<Rightarrow> TransitionActor \<Rightarrow> intent_record dbtx" where
  "failWithdrawalIntentExecution_transaction evm intentId dto actor =
     bindT new_Date (\<lambda>observedAt.
     bindT (reloadIntent withdrawalNotFound intentId) (\<lambda>current.
     let intent = ir_intent current;
         failureCategory = normalizeWithdrawalFailureCategory (fe_failureCategory dto) in
     if repeated_failure dto (Some failureCategory) current then returnT current
     else
       bindT (assertWithdrawalIntentCanFailExecution intent) (\<lambda>_.
       bindT (resolveWithdrawalExecutionFailureResolution (ti_status intent) (latest_status current)
         failureCategory) (\<lambda>resolution.
       bindT (throwIf (truthy (fe_txHash dto) \<and> other_hash_recorded (fe_txHash dto) current)
         withdrawalOtherTransaction) (\<lambda>_.
       bindT (resolveWithdrawalBroadcastAddresses evm current
         (coalesce (trim_opt (fe_fromAddress dto)) (Option.bind (ir_latest current) bt_fromAddress))
         (coalesce (trim_opt (fe_toAddress dto)) (Option.bind (ir_latest current) bt_toAddress))) (\<lambda>(from, to).
       bindT (case ir_latest current of
           Some b \<Rightarrow> blockchainTransaction_update (bt_id b) (\<lambda>r. r\<lparr>
             bt_txHash := coalesce (fe_txHash dto) (bt_txHash b),
             bt_status := (case fr_nextBlockchainStatus resolution of None \<Rightarrow> bt_status b | Some st \<Rightarrow> st),
             bt_fromAddress := Some from,
             bt_toAddress := Some to\<rparr>)
         | None \<Rightarrow> blockchainTransaction_create (newWithdrawalTransaction intent (fe_txHash dto)
             (case fr_nextBlockchainStatus resolution of
                None \<Rightarrow> BlockchainTransactionStatus.created | Some st \<Rightarrow> st) from to None)) (\<lambda>_.
       bindT (openFailureReviewCase resolution dto actor current) (\<lambda>caseId.
       bindT (account_of current) (\<lambda>account.
       bindT (if fr_releaseReservation resolution
         then bindT (releaseWithdrawalReservation (ledgerParams (ca_id account) intent)) (\<lambda>_. returnT ())
         else returnT ()) (\<lambda>_.
       bindT (transactionIntent_update (ti_id intent) (\<lambda>r. r\<lparr>
         ti_status := fr_nextIntentStatus resolution,
         ti_failureCode := Some (trim (fe_failureCode dto)),
         ti_failureReason := Some (trim (fe_failureReason dto)),
         ti_executionFailureCategory := Some failureCategory,
         ti_executionFailureObservedAt := Some observedAt,
         ti_executionClaimedAt := None,
         ti_executionClaimedByWorkerId := None,
         ti_manualInterventionRequiredAt :=
           (if fr_openManualInterventionReviewCase resolution then Some observedAt else None),
         ti_manualInterventionReviewCaseId := caseId\<rparr>)) (\<lambda>_.
       bindT (auditTransition account actor (fr_auditAction resolution) intent
         (fr_nextIntentStatus resolution)) (\<lambda>_.
       reloadIntent withdrawalNotFound (ti_id intent)))))))))))))"

definition failWithdrawalIntentExecutionWithActor ::
  "service_config \<Rightarrow> evm_library \<Rightarrow> string \<Rightarrow> FailExecutionDto \<Rightarrow> TransitionActor \<Rightarrow> intent_result dbtx" where
  "failWithdrawalIntentExecutionWithActor cfg evm intentId dto actor =
     bindT (findWithdrawalIntentForReview cfg intentId) (\<lambda>found.
     bindT (requireT found withdrawalNotFound) (\<lambda>existing.
     if repeated_failure dto
          (coalesce (fe_failureCategory dto) (ti_executionFailureCategory (ir_intent existing))) existing
     then reusedResult existing
     else
       bindT (assertWithdrawalIntentCanFailExecution (ir_intent existing)) (\<lambda>_.
       bindT (failWithdrawalIntentExecution_transaction evm (ti_id (ir_intent existing)) dto actor)
         freshResult)))"

definition failWithdrawalIntentExecution ::
  "service_config \<Rightarrow> evm_library \<Rightarrow> string \<Rightarrow> string \<Rightarrow> FailExecutionDto \<Rightarrow> intent_result dbtx" where
  "failWithdrawalIntentExecution cfg evm intentId workerId dto =
     failWithdrawalIntentExecutionWithActor cfg evm intentId dto (workerActor workerId)"

definition failWithdrawalIntentExecutionByOperator ::
  "service_config \<Rightarrow> evm_library \<Rightarrow> string \<Rightarrow> string \<Rightarrow> FailExecutionDto \<Rightarrow> string option
     \<Rightarrow> intent_result dbtx" where
  "failWithdrawalIntentExecutionByOperator cfg evm intentId operatorId dto operatorRole =
     bindT (assertCanOperateCustody cfg operatorRole) (\<lambda>role.
       failWithdrawalIntentExecutionWithActor cfg evm intentId dto (operatorActor operatorId role))"

section \<open>Confirmation and settlement\<close>

definition withdrawalTransactionMissing :: error where
  "withdrawalTransactionMissing =
     ConflictException ''No blockchain transaction exists for this withdrawal intent.''"

definition confirmWithdrawalIntent_transaction ::
  "string \<Rightarrow> string option \<Rightarrow> TransitionActor \<Rightarrow> intent_record dbtx" where
  "confirmWithdrawalIntent_transaction intentId txHash actor =
     bindT (reloadIntent withdrawalNotFound intentId) (\<lambda>current.
     let intent = ir_intent current in
     bindT (requireT (ir_latest current) withdrawalTransactionMissing) (\<lambda>b.
     bindT (throwIf (contradicts_hash txHash b) hashMismatch) (\<lambda>_.
     if already_confirmed intent b then returnT current
     else
       bindT (ensureWithdrawalIntentIsBroadcast intent) (\<lambda>_.
       bindT new_Date (\<lambda>now.
       bindT (blockchainTransaction_update (bt_id b) (\<lambda>r. r\<lparr>
         bt_status := BlockchainTransactionStatus.confirmed,
         bt_confirmedAt := Some now\<rparr>)) (\<lambda>_.
       bindT (transactionIntent_update (ti_id intent) (\<lambda>r. r\<lparr>
         ti_status := TransactionIntentStatus.confirmed\<rparr>)) (\<lambda>_.
       bindT (account_of current) (\<lambda>account.
       bindT (auditTransition account actor ''transaction_intent.withdrawal.confirmed'' intent
         TransactionIntentStatus.confirmed) (\<lambda>_.
       reloadIntent withdrawalNotFound (ti_id intent))))))))))"

definition confirmWithdrawalIntentWithActor ::
  "service_config \<Rightarrow> string \<Rightarrow> string option \<Rightarrow> TransitionActor \<Rightarrow> intent_result dbtx" where
  "confirmWithdrawalIntentWithActor cfg intentId txHash actor =
     bindT (findWithdrawalIntentForReview cfg intentId) (\<lambda>found.
     bindT (requireT found withdrawalNotFound) (\<lambda>existing.
     bindT (requireT (ir_latest existing) withdrawalTransactionMissing) (\<lambda>b.
     bindT (throwIf (contradicts_hash txHash b) hashMismatch) (\<lambda>_.
     if already_confirmed (ir_intent existing) b then reusedResult existing
     else
       bindT (ensureWithdrawalIntentIsBroadcast (ir_intent existing)) (\<lambda>_.
       bindT (confirmWithdrawalIntent_transaction (ti_id (ir_intent existing)) txHash actor)
         freshResult)))))"

definition confirmWithdrawalIntent ::
  "service_config \<Rightarrow> string \<Rightarrow> string \<Rightarrow> string option \<Rightarrow> intent_result dbtx" where
  "confirmWithdrawalIntent cfg intentId workerId txHash =
     confirmWithdrawalIntentWithActor cfg intentId (trim_opt txHash) (workerActor workerId)"

definition confirmWithdrawalIntentByOperator ::
  "service_config \<Rightarrow> string \<Rightarrow> string \<Rightarrow> string option \<Rightarrow> string option \<Rightarrow> intent_result dbtx" where
  "confirmWithdrawalIntentByOperator cfg intentId operatorId txHash operatorRole =
     bindT (assertCanOperateCustody cfg operatorRole) (\<lambda>role.
       confirmWithdrawalIntentWithActor cfg intentId (trim_opt txHash) (operatorActor operatorId role))"

definition replayConfirmWithdrawalIntent ::
  "service_config \<Rightarrow> string \<Rightarrow> string \<Rightarrow> string option \<Rightarrow> ReplayApprovalContext option \<Rightarrow> intent_result dbtx" where
  "replayConfirmWithdrawalIntent cfg intentId operatorId operatorRole ctx =
     bindT (assertCanOperateCustody cfg operatorRole) (\<lambda>role.
       confirmWithdrawalIntentWithActor cfg intentId None
         (replayActor ''withdrawal_settlement_reconciliation'' operatorId role ctx))"

definition settleConfirmedWithdrawalIntent_transaction ::
  "string \<Rightarrow> TransitionActor \<Rightarrow> intent_record dbtx" where
  "settleConfirmedWithdrawalIntent_transaction intentId actor =
     bindT (reloadIntent withdrawalNotFound intentId) (\<lambda>current.
     let intent = ir_intent current in
     bindT (requireConfirmed current) (\<lambda>b.
     bindT (ensureWithdrawalIntentIsConfirmed intent) (\<lambda>_.
     bindT (account_of current) (\<lambda>account.
     bindT (settleConfirmedWithdrawal (ledgerParams (ca_id account) intent)) (\<lambda>_.
     bindT (transactionIntent_update (ti_id intent) (\<lambda>r. r\<lparr>
       ti_status := TransactionIntentStatus.settled,
       ti_settledAmount := Some (ti_requestedAmount intent),
       ti_executionFailureCategory := None,
       ti_executionFailureObservedAt := None,
       ti_manualInterventionRequiredAt := None\<rparr>)) (\<lambda>_.
     bindT (auditTransition account actor ''transaction_intent.withdrawal.settled'' intent
       TransactionIntentStatus.settled) (\<lambda>_.
     reloadIntent withdrawalNotFound (ti_id intent))))))))"

definition settleConfirmedWithdrawalIntentWithActor ::
  "service_config \<Rightarrow> string \<Rightarrow> TransitionActor \<Rightarrow> intent_result dbtx" where
  "settleConfirmedWithdrawalIntentWithActor cfg intentId actor =
     bindT (findWithdrawalIntentForReview cfg intentId) (\<lambda>found.
     bindT (requireT found withdrawalNotFound) (\<lambda>existing.
     bindT (findLedgerJournalByIntentAndType intentId withdrawal_settlement) (\<lambda>journal.
     if settledAlready journal (ir_intent existing) then reusedResult existing
     else
       bindT (requireConfirmed existing) (\<lambda>_.
       bindT (ensureWithdrawalIntentIsConfirmed (ir_intent existing)) (\<lambda>_.
       bindT (settleConfirmedWithdrawalIntent_transaction (ti_id (ir_intent existing)) actor)
         freshResult)))))"

definition settleConfirmedWithdrawalIntent ::
  "service_config \<Rightarrow> string \<Rightarrow> string \<Rightarrow> intent_result dbtx" where
  "settleConfirmedWithdrawalIntent cfg intentId workerId =
     settleConfirmedWithdrawalIntentWithActor cfg intentId (workerActor workerId)"

definition settleConfirmedWithdrawalIntentByOperator ::
  "service_config \<Rightarrow> string \<Rightarrow> string \<Rightarrow> string option \<Rightarrow> intent_result dbtx" where
  "settleConfirmedWithdrawalIntentByOperator cfg intentId operatorId operatorRole =
     bindT (assertCanOperateCustody cfg operatorRole) (\<lambda>role.
       settleConfirmedWithdrawalIntentWithActor cfg intentId (operatorActor operatorId role))"

definition replaySettleConfirmedWithdrawalIntent ::
  "service_config \<Rightarrow> string \<Rightarrow> string \<Rightarrow> string option \<Rightarrow> ReplayApprovalContext option \<Rightarrow> intent_result dbtx" where
  "replaySettleConfirmedWithdrawalIntent cfg intentId operatorId operatorRole ctx =
     bindT (assertCanOperateCustody cfg operatorRole) (\<lambda>role.
       settleConfirmedWithdrawalIntentWithActor cfg intentId
         (replayActor ''withdrawal_settlement_reconciliation'' operatorId role ctx))"

section \<open>Listings\<close>

definition withdrawal_on_chain :: "service_config \<Rightarrow> transaction_intent \<Rightarrow> bool" where
  "withdrawal_on_chain cfg i \<longleftrightarrow>
     ti_intentType i = TransactionIntentType.withdrawal \<and> ti_chainId i = productChainId cfg"

definition listPendingWithdrawalIntents :: "service_config \<Rightarrow> nat option \<Rightarrow> intent_record list dbtx" where
  "listPendingWithdrawalIntents cfg limit =
     transactionIntent_findMany (\<lambda>_ i. withdrawal_on_chain cfg i \<and>
       ti_status i = TransactionIntentStatus.requested \<and>
       ti_policyDecision i = PolicyDecision.pending) (page_limit limit)"

definition listApprovedWithdrawalIntents :: "service_config \<Rightarrow> nat option \<Rightarrow> intent_record list dbtx" where
  "listApprovedWithdrawalIntents cfg limit =
     transactionIntent_findMany (\<lambda>_ i. withdrawal_on_chain cfg i \<and>
       in_state TransactionIntentStatus.approved i) (page_limit limit)"

definition listQueuedWithdrawalIntents :: "service_config \<Rightarrow> nat option \<Rightarrow> intent_record list dbtx" where
  "listQueuedWithdrawalIntents cfg limit =
     transactionIntent_findMany (\<lambda>_ i. withdrawal_on_chain cfg i \<and>
       in_state TransactionIntentStatus.queued i) (page_limit limit)"

definition listBroadcastWithdrawalIntents :: "service_config \<Rightarrow> nat option \<Rightarrow> intent_record list dbtx" where
  "listBroadcastWithdrawalIntents cfg limit =
     transactionIntent_findMany (\<lambda>_ i. withdrawal_on_chain cfg i \<and>
       in_state TransactionIntentStatus.broadcast i) (page_limit limit)"

definition listConfirmedWithdrawalIntentsReadyToSettle ::
  "service_config \<Rightarrow> nat option \<Rightarrow> intent_record list dbtx" where
  "listConfirmedWithdrawalIntentsReadyToSettle cfg limit =
     transactionIntent_findMany (\<lambda>s i. withdrawal_on_chain cfg i \<and>
       in_state TransactionIntentStatus.confirmed i \<and>
       \<not> (\<exists>j\<in>set (ledgerJournals s). lj_transactionIntentId j = Some (ti_id i) \<and>
            lj_journalType j = withdrawal_settlement) \<and>
       (\<exists>b\<in>set (blockchainTransactions s). bt_transactionIntentId b = ti_id i \<and>
            bt_status b = BlockchainTransactionStatus.confirmed)) (page_limit limit)"

end
