(* ===== verification/Balance_Transfers.thy ===== *)
theory Balance_Transfers
  imports Withdrawal_Intents
begin

text \<open>
  \<open>balance-transfers/balance-transfers.service.ts\<close>: transfers between customers of the
  bank. An amount within the asset's threshold settles at once; a larger one, or one in an asset
  without a threshold, is reserved and waits for an operator. The e-mails sent after a commit are
  not modelled; the masked names they and the rows show are.
\<close>

section \<open>Masks\<close>

fun split_on :: "char \<Rightarrow> string \<Rightarrow> string list" where
  "split_on c [] = [[]]"
| "split_on c (x # xs) =
     (if x = c then [] # split_on c xs
      else case split_on c xs of [] \<Rightarrow> [[x]] | y # ys \<Rightarrow> (x # y) # ys)"

definition maskLocal :: "string \<Rightarrow> string" where
  "maskLocal localPart =
     (if length localPart \<le> 2 then take 1 localPart @ ''*''
      else take 1 localPart @ replicate (min (length localPart - 2) 4) (CHR ''*'') @ [last localPart])"

definition maskEmail :: "string \<Rightarrow> string" where
  "maskEmail email =
     (let parts = split_on (CHR ''@'') (toLowerCase (trim email));
          domain = split_on (CHR ''.'') (if length parts > 1 then parts ! 1 else []);
          domainName = hd domain;
          maskedDomain = (if domainName = [] then []
            else take 1 domainName @ replicate (max (min (length domainName - 1) 4) 1) (CHR ''*''));
          domainSuffix = (if tl domain = [] then [] else ''.'' @ join ''.'' (tl domain)) in
      maskLocal (hd parts) @ ''@'' @ maskedDomain @ domainSuffix)"

definition maskDisplayName :: "string option \<Rightarrow> string option \<Rightarrow> string \<Rightarrow> string" where
  "maskDisplayName firstName lastName fallbackEmail =
     (let tokens = filter (\<lambda>t. t \<noteq> [])
            (map (\<lambda>v. case v of None \<Rightarrow> [] | Some x \<Rightarrow> trim x) [firstName, lastName]) in
      if tokens = [] then toUpperCase (take 1 (hd (split_on (CHR ''@'') fallbackEmail))) @ ''***''
      else join '' '' (map (\<lambda>t. toUpperCase (take 1 t) @ ''***'') tokens))"

section \<open>Requests\<close>

datatype BalanceTransferThresholdOutcome = settled_immediately | review_required

definition determineThresholdOutcome ::
  "service_config \<Rightarrow> string \<Rightarrow> decimal \<Rightarrow> BalanceTransferThresholdOutcome" where
  "determineThresholdOutcome cfg assetSymbol amount =
     (case find (\<lambda>entry. fst entry = assetSymbol) (reviewThresholds cfg) of
        None \<Rightarrow> BalanceTransferThresholdOutcome.review_required
      | Some entry \<Rightarrow>
          if amount \<le> snd entry then BalanceTransferThresholdOutcome.settled_immediately
          else BalanceTransferThresholdOutcome.review_required)"

definition normalizeTransferSymbol :: "string \<Rightarrow> ('s, string) tx" where
  "normalizeTransferSymbol v =
     (let n = toUpperCase (trim v) in
      if n = [] then throwT (BadRequestException ''assetSymbol is required.'') else returnT n)"

definition normalizeEmail :: "string \<Rightarrow> ('s, string) tx" where
  "normalizeEmail v =
     (let n = toLowerCase (trim v) in
      if n = [] then throwT (BadRequestException ''recipientEmail is required.'') else returnT n)"

definition parseTransferAmount :: "decimal \<Rightarrow> ('s, decimal) tx" where
  "parseTransferAmount amount =
     (if amount \<le> 0 then throwT (BadRequestException ''amount must be greater than zero.'')
      else returnT amount)"

record ResolvedSenderContext =
  sx_account :: customer_account
  sx_assetId :: string
  sx_assetSymbol :: string

definition resolveSenderContext :: "service_config \<Rightarrow> string \<Rightarrow> string \<Rightarrow> ResolvedSenderContext dbtx" where
  "resolveSenderContext cfg supabaseUserId assetSymbol =
     bindT (readT (\<lambda>s. find (\<lambda>c. ca_supabaseUserId c = supabaseUserId) (customerAccounts s))) (\<lambda>found.
     bindT (requireT found (NotFoundException ''Customer account projection not found.'')) (\<lambda>account.
     bindT (throwIf (ca_status account \<noteq> AccountLifecycleStatus.active) (ConflictException
       ''Sender account must be active before internal transfers are allowed.'')) (\<lambda>_.
     bindT (activeAsset cfg assetSymbol) (\<lambda>asset.
     returnT \<lparr>sx_account = account, sx_assetId = as_id asset, sx_assetSymbol = as_symbol asset\<rparr>))))"

record ResolvedRecipientContext =
  rx_account :: customer_account
  rx_maskedEmail :: string
  rx_maskedDisplay :: string

definition findEligibleRecipientByEmail :: "string \<Rightarrow> ResolvedRecipientContext option dbtx" where
  "findEligibleRecipientByEmail normalizedEmail =
     readT (\<lambda>s. map_option (\<lambda>c. \<lparr>rx_account = c, rx_maskedEmail = maskEmail (ca_email c),
         rx_maskedDisplay = maskDisplayName (ca_firstName c) (ca_lastName c) (ca_email c)\<rparr>)
       (find (\<lambda>c. ca_status c = AccountLifecycleStatus.active \<and>
          toLowerCase (ca_email c) = toLowerCase normalizedEmail) (customerAccounts s)))"

definition reusableTransfer ::
  "ResolvedSenderContext \<Rightarrow> ResolvedRecipientContext \<Rightarrow> decimal \<Rightarrow> intent_record \<Rightarrow> bool" where
  "reusableTransfer sender recipient requestedAmount existing \<longleftrightarrow>
     ti_intentType (ir_intent existing) = TransactionIntentType.internal_balance_transfer \<and>
     ti_customerAccountId (ir_intent existing) = Some (ca_id (sx_account sender)) \<and>
     ti_recipientCustomerAccountId (ir_intent existing) = Some (ca_id (rx_account recipient)) \<and>
     ti_assetId (ir_intent existing) = sx_assetId sender \<and>
     ti_requestedAmount (ir_intent existing) = requestedAmount"

record transfer_result =
  tr_intent :: intent_record
  tr_reused :: bool
  tr_thresholdOutcome :: BalanceTransferThresholdOutcome

definition reuseTransfer ::
  "ResolvedSenderContext \<Rightarrow> ResolvedRecipientContext \<Rightarrow> decimal \<Rightarrow> intent_record \<Rightarrow> transfer_result dbtx" where
  "reuseTransfer sender recipient requestedAmount existing =
     bindT (throwIf (\<not> reusableTransfer sender recipient requestedAmount existing) (ConflictException
       ''Provided idempotency key is already associated with a different internal balance transfer.'')) (\<lambda>_.
     returnT \<lparr>tr_intent = existing, tr_reused = True, tr_thresholdOutcome =
       (if ti_status (ir_intent existing) = TransactionIntentStatus.review_required
        then BalanceTransferThresholdOutcome.review_required
        else BalanceTransferThresholdOutcome.settled_immediately)\<rparr>)"

record CreateBalanceTransferDto =
  cb_idempotencyKey :: string
  cb_assetSymbol :: string
  cb_amount :: decimal
  cb_recipientEmail :: string

definition newTransferIntent ::
  "service_config \<Rightarrow> CreateBalanceTransferDto \<Rightarrow> BalanceTransferThresholdOutcome
     \<Rightarrow> ResolvedSenderContext \<Rightarrow> ResolvedRecipientContext \<Rightarrow> string \<Rightarrow> transaction_intent" where
  "newTransferIntent cfg dto outcome sender recipient i =
     (let review = (outcome = BalanceTransferThresholdOutcome.review_required) in
     \<lparr>ti_id = i, ti_customerAccountId = Some (ca_id (sx_account sender)),
      ti_recipientCustomerAccountId = Some (ca_id (rx_account recipient)),
      ti_assetId = sx_assetId sender, ti_sourceWalletId = None, ti_destinationWalletId = None,
      ti_externalAddress = None, ti_recipientMaskedEmail = Some (rx_maskedEmail recipient),
      ti_recipientMaskedDisplay = Some (rx_maskedDisplay recipient),
      ti_chainId = productChainId cfg,
      ti_intentType = TransactionIntentType.internal_balance_transfer,
      ti_status = (if review then TransactionIntentStatus.review_required
                   else TransactionIntentStatus.settled),
      ti_policyDecision = (if review then PolicyDecision.review_required else PolicyDecision.approved),
      ti_requestedAmount = cb_amount dto,
      ti_settledAmount = (if review then None else Some (cb_amount dto)),
      ti_idempotencyKey = cb_idempotencyKey dto, ti_failureCode = None, ti_failureReason = None,
      ti_executionFailureCategory = None, ti_executionFailureObservedAt = None,
      ti_executionClaimedAt = None, ti_executionClaimedByWorkerId = None,
      ti_manualInterventionRequiredAt = None, ti_manualInterventionReviewCaseId = None\<rparr>)"

definition recordReviewCaseOpened ::
  "service_config \<Rightarrow> ResolvedSenderContext \<Rightarrow> string \<Rightarrow> decimal \<Rightarrow> unit dbtx" where
  "recordReviewCaseOpened cfg sender intentId amount =
     bindT (reviewCase_create (\<lambda>i.
       \<lparr>rc_id = i, rc_customerId = Some (ca_customerId (sx_account sender)),
        rc_customerAccountId = Some (ca_id (sx_account sender)), rc_transactionIntentId = Some intentId,
        rc_type = ReviewCaseType.internal_balance_transfer_review, rc_status = ReviewCaseStatus.open,
        rc_reasonCode = Some ''transfer_threshold_review_required'',
        rc_notes = Some (''Threshold review required before settling '' @ decimalToString cfg amount @ '' '' @
          sx_assetSymbol sender @ ''.''),
        rc_assignedOperatorId = None, rc_resolvedAt = None\<rparr>)) (\<lambda>c.
     bindT (reviewCaseEvent_create (rc_id c) ''system'' None ReviewCaseEventType.opened
       (Some ''Internal balance transfer queued for operator review.'')) (\<lambda>_.
     auditEvent_create (Some (ca_customerId (sx_account sender))) ''system'' None
       ''review_case.internal_balance_transfer_review.opened'' ''ReviewCase'' (rc_id c) None None))"

text \<open>The ledger parameters of a transfer's settlement.\<close>

definition settleParams :: "string \<Rightarrow> string \<Rightarrow> bool \<Rightarrow> transaction_intent \<Rightarrow> SettleInternalBalanceTransferParams" where
  "settleParams sender recipient fromPending intent =
     \<lparr>si_transactionIntentId = ti_id intent, si_senderCustomerAccountId = sender,
      si_recipientCustomerAccountId = recipient, si_assetId = ti_assetId intent,
      si_chainId = ti_chainId intent, si_amount = ti_requestedAmount intent,
      si_settleFromPending = fromPending\<rparr>"

definition reloadOrThrow :: "string \<Rightarrow> intent_record dbtx" where
  "reloadOrThrow = reloadIntent RecordNotFound"

definition createBalanceTransfer_transaction ::
  "service_config \<Rightarrow> string \<Rightarrow> CreateBalanceTransferDto \<Rightarrow> BalanceTransferThresholdOutcome
     \<Rightarrow> ResolvedSenderContext \<Rightarrow> ResolvedRecipientContext \<Rightarrow> intent_record dbtx" where
  "createBalanceTransfer_transaction cfg supabaseUserId dto outcome sender recipient =
     (let customer = Some (ca_customerId (sx_account sender)) in
     bindT (transactionIntent_create (newTransferIntent cfg dto outcome sender recipient)) (\<lambda>intent.
     bindT (if outcome = BalanceTransferThresholdOutcome.review_required
       then bindT (reserveInternalBalanceTransferBalance
                (ledgerParams (ca_id (sx_account sender)) intent)) (\<lambda>_.
            bindT (recordReviewCaseOpened cfg sender (ti_id intent) (ti_requestedAmount intent)) (\<lambda>_.
            auditEvent_create customer ''customer'' (Some supabaseUserId)
              ''transaction_intent.internal_balance_transfer.review_required'' ''TransactionIntent''
              (ti_id intent) None None))
       else bindT (settleInternalBalanceTransfer
                (settleParams (ca_id (sx_account sender)) (ca_id (rx_account recipient)) False intent)) (\<lambda>_.
            auditEvent_create customer ''customer'' (Some supabaseUserId)
              ''transaction_intent.internal_balance_transfer.settled'' ''TransactionIntent''
              (ti_id intent) None None)) (\<lambda>_.
     reloadOrThrow (ti_id intent))))"

definition createBalanceTransfer ::
  "service_config \<Rightarrow> string \<Rightarrow> CreateBalanceTransferDto \<Rightarrow> transfer_result dbtx" where
  "createBalanceTransfer cfg supabaseUserId dto =
     bindT (normalizeTransferSymbol (cb_assetSymbol dto)) (\<lambda>normalizedAssetSymbol.
     bindT (normalizeEmail (cb_recipientEmail dto)) (\<lambda>normalizedRecipientEmail.
     bindT (parseTransferAmount (cb_amount dto)) (\<lambda>requestedAmount.
     bindT (resolveSenderContext cfg supabaseUserId normalizedAssetSymbol) (\<lambda>sender.
     bindT (throwIf (normalizedRecipientEmail = toLowerCase (trim (ca_email (sx_account sender))))
       (ConflictException ''Internal transfers to your own email address are not allowed.'')) (\<lambda>_.
     bindT (findEligibleRecipientByEmail normalizedRecipientEmail) (\<lambda>found.
     bindT (requireT found
       (ConflictException ''Recipient is not available for internal balance transfers.'')) (\<lambda>recipient.
     bindT (throwIf (ca_id (rx_account recipient) = ca_id (sx_account sender))
       (ConflictException ''Internal transfers to your own account are not allowed.'')) (\<lambda>_.
     bindT (transactionIntent_findByIdempotencyKey (cb_idempotencyKey dto)) (\<lambda>existing.
       case existing of
         Some e \<Rightarrow> reuseTransfer sender recipient requestedAmount e
       | None \<Rightarrow>
           (let outcome = determineThresholdOutcome cfg (sx_assetSymbol sender) requestedAmount in
           catchUnique
             (bindT (createBalanceTransfer_transaction cfg supabaseUserId dto outcome sender recipient) (\<lambda>created.
              returnT \<lparr>tr_intent = created, tr_reused = False, tr_thresholdOutcome = outcome\<rparr>))
             (bindT (transactionIntent_findByIdempotencyKey (cb_idempotencyKey dto)) (\<lambda>reused.
              bindT (requireT reused UniqueConstraintViolation) (\<lambda>r.
              reuseTransfer sender recipient requestedAmount r)))))))))))))"

section \<open>The operator's decision\<close>

definition loadBalanceTransferIntent :: "service_config \<Rightarrow> string \<Rightarrow> intent_record option dbtx" where
  "loadBalanceTransferIntent cfg intentId =
     transactionIntent_findFirst intentId (\<lambda>i. ti_chainId i = productChainId cfg \<and>
       ti_intentType i = TransactionIntentType.internal_balance_transfer)"

definition assertCanDecideBalanceTransfer :: "service_config \<Rightarrow> string option \<Rightarrow> ('s, string) tx" where
  "assertCanDecideBalanceTransfer cfg operatorRole =
     assertOperatorRoleAuthorized operatorRole (transactionIntentDecisionAllowedOperatorRoles cfg)
       ''Operator role is not authorized to decide internal balance transfers.''"

definition resolveLinkedReviewCase :: "intent_record \<Rightarrow> string \<Rightarrow> string option \<Rightarrow> unit dbtx" where
  "resolveLinkedReviewCase intent operatorId note =
     (case find (\<lambda>c. rc_type c = ReviewCaseType.internal_balance_transfer_review \<and> is_active_case c)
        (ir_reviewCases intent) of
        None \<Rightarrow> returnT ()
      | Some c \<Rightarrow>
          bindT new_Date (\<lambda>now.
          bindT (reviewCase_update (rc_id c) (\<lambda>row. row\<lparr>
            rc_status := ReviewCaseStatus.resolved, rc_resolvedAt := Some now\<rparr>)) (\<lambda>_.
          bindT (reviewCaseEvent_create (rc_id c) ''operator'' (Some operatorId)
            ReviewCaseEventType.resolved note) (\<lambda>_.
          auditEvent_create (map_option ca_customerId (ir_customerAccount intent)) ''operator''
            (Some operatorId) ''review_case.internal_balance_transfer_review.resolved'' ''ReviewCase''
            (rc_id c) None None))))"

definition approveTransfer_transaction ::
  "string \<Rightarrow> DecideIntentDto \<Rightarrow> customer_account \<Rightarrow> customer_account \<Rightarrow> intent_record \<Rightarrow> intent_record dbtx" where
  "approveTransfer_transaction operatorId dto sender recipient existing =
     (let intent = ir_intent existing in
      bindT (settleInternalBalanceTransfer (settleParams (ca_id sender) (ca_id recipient) True intent)) (\<lambda>_.
      bindT (transactionIntent_update (ti_id intent) (\<lambda>r. r\<lparr>
        ti_status := TransactionIntentStatus.settled,
        ti_policyDecision := PolicyDecision.approved,
        ti_settledAmount := Some (ti_requestedAmount intent),
        ti_failureCode := None,
        ti_failureReason := None\<rparr>)) (\<lambda>_.
      bindT (resolveLinkedReviewCase existing operatorId (trim_opt (de_note dto))) (\<lambda>_.
      bindT (auditEvent_create (Some (ca_customerId sender)) ''operator'' (Some operatorId)
        ''transaction_intent.internal_balance_transfer.approved'' ''TransactionIntent'' (ti_id intent)
        None None) (\<lambda>_.
      reloadOrThrow (ti_id intent))))))"

definition denyTransfer_transaction ::
  "string \<Rightarrow> DecideIntentDto \<Rightarrow> customer_account \<Rightarrow> intent_record \<Rightarrow> intent_record dbtx" where
  "denyTransfer_transaction operatorId dto sender existing =
     (let intent = ir_intent existing in
      bindT (releaseInternalBalanceTransferReservation (ledgerParams (ca_id sender) intent)) (\<lambda>_.
      bindT (transactionIntent_update (ti_id intent) (\<lambda>r. r\<lparr>
        ti_status := TransactionIntentStatus.cancelled,
        ti_policyDecision := PolicyDecision.denied,
        ti_settledAmount := None,
        ti_failureCode := Some ''policy_denied'',
        ti_failureReason := trim_opt (de_denialReason dto)\<rparr>)) (\<lambda>_.
      bindT (resolveLinkedReviewCase existing operatorId
        (coalesce (trim_opt (de_note dto)) (trim_opt (de_denialReason dto)))) (\<lambda>_.
      bindT (auditEvent_create (Some (ca_customerId sender)) ''operator'' (Some operatorId)
        ''transaction_intent.internal_balance_transfer.denied'' ''TransactionIntent'' (ti_id intent)
        None None) (\<lambda>_.
      reloadOrThrow (ti_id intent))))))"

definition decided_as ::
  "TransactionIntentStatus \<Rightarrow> PolicyDecision \<Rightarrow> transaction_intent \<Rightarrow> bool" where
  "decided_as st policy i \<longleftrightarrow> ti_status i = st \<and> ti_policyDecision i = policy"

definition decideBalanceTransfer ::
  "service_config \<Rightarrow> string \<Rightarrow> string \<Rightarrow> DecideIntentDto \<Rightarrow> string option \<Rightarrow> intent_result dbtx" where
  "decideBalanceTransfer cfg intentId operatorId dto operatorRole =
     bindT (assertCanDecideBalanceTransfer cfg operatorRole) (\<lambda>_.
     bindT (throwIf (de_decision dto = OperatorDecision.denied \<and> \<not> truthy (trim_opt (de_denialReason dto)))
       (BadRequestException ''Denial reason is required for denied balance transfer decisions.'')) (\<lambda>_.
     bindT (loadBalanceTransferIntent cfg intentId) (\<lambda>found.
     bindT (requireT found (NotFoundException ''Internal balance transfer not found.'')) (\<lambda>existing.
     bindT (requireT (ir_customerAccount existing)
       (NotFoundException ''Internal balance transfer not found.'')) (\<lambda>sender.
     bindT (requireT (ir_recipientCustomerAccount existing)
       (NotFoundException ''Internal balance transfer not found.'')) (\<lambda>recipient.
     if (de_decision dto = OperatorDecision.approved \<and>
         decided_as TransactionIntentStatus.settled PolicyDecision.approved (ir_intent existing)) \<or>
        (de_decision dto = OperatorDecision.denied \<and>
         decided_as TransactionIntentStatus.cancelled PolicyDecision.denied (ir_intent existing))
     then returnT \<lparr>res_intent = existing, res_reused = True\<rparr>
     else
       bindT (throwIf (\<not> decided_as TransactionIntentStatus.review_required
           PolicyDecision.review_required (ir_intent existing))
         (ConflictException ''Internal balance transfer is not pending an operator decision.'')) (\<lambda>_.
       bindT (if de_decision dto = OperatorDecision.approved
         then approveTransfer_transaction operatorId dto sender recipient existing
         else denyTransfer_transaction operatorId dto sender existing) (\<lambda>updated.
       returnT \<lparr>res_intent = updated, res_reused = False\<rparr>))))))))"

section \<open>Previews and listings\<close>

record PreviewRecipientResult =
  pv_normalizedEmail :: string
  pv_available :: bool
  pv_maskedEmail :: "string option"
  pv_maskedDisplay :: "string option"
  pv_thresholdOutcome :: "BalanceTransferThresholdOutcome option"

definition previewRecipient ::
  "service_config \<Rightarrow> string \<Rightarrow> string \<Rightarrow> string option \<Rightarrow> decimal option \<Rightarrow> PreviewRecipientResult dbtx" where
  "previewRecipient cfg supabaseUserId email assetSymbol amount =
     bindT (readT (\<lambda>s. find (\<lambda>c. ca_supabaseUserId c = supabaseUserId) (customerAccounts s))) (\<lambda>found.
     bindT (requireT found (NotFoundException ''Customer account projection not found.'')) (\<lambda>sender.
     bindT (normalizeEmail email) (\<lambda>normalized.
     bindT (throwIf (normalized = toLowerCase (trim (ca_email sender)))
       (ConflictException ''Internal transfers to your own email address are not allowed.'')) (\<lambda>_.
     bindT (findEligibleRecipientByEmail normalized) (\<lambda>recipient.
     bindT (if recipient \<noteq> None \<and> truthy (trim_opt assetSymbol) \<and> amount \<noteq> None
       then bindT (normalizeTransferSymbol (the assetSymbol)) (\<lambda>sym.
            bindT (parseTransferAmount (the amount)) (\<lambda>x.
            returnT (Some (determineThresholdOutcome cfg sym x))))
       else returnT None) (\<lambda>outcome.
     returnT \<lparr>pv_normalizedEmail = normalized, pv_available = (recipient \<noteq> None),
       pv_maskedEmail = map_option rx_maskedEmail recipient,
       pv_maskedDisplay = map_option rx_maskedDisplay recipient,
       pv_thresholdOutcome = outcome\<rparr>))))))"

definition listPendingBalanceTransfers :: "service_config \<Rightarrow> nat option \<Rightarrow> intent_record list dbtx" where
  "listPendingBalanceTransfers cfg limit =
     bindT (transactionIntent_findMany (\<lambda>_ i. ti_chainId i = productChainId cfg \<and>
       ti_intentType i = TransactionIntentType.internal_balance_transfer \<and>
       decided_as TransactionIntentStatus.review_required PolicyDecision.review_required i)
       (page_limit limit)) (\<lambda>intents.
     bindT (throwIf (\<exists>i\<in>set intents. ir_customerAccount i = None)
       (NotFoundException ''Sender account projection not found.'')) (\<lambda>_.
     returnT intents))"

end
