(* ===== verification/Service_Frames.thy ===== *)
theory Service_Frames
  imports Ledger_Properties Balance_Transfers
begin

text \<open>
  What each call changes. Successful calls on the service tables are unpacked by
  \<open>tx_iff\<close> rules into the new state; a ledger operation leaves the service tables alone, so
  steps of the two kinds compose.
\<close>

section \<open>Successful calls on the service tables\<close>

lemma transactionIntent_findFirst_Some [tx_iff]:
  "transactionIntent_findFirst i cond s = Inr (r, t) \<longleftrightarrow> t = s \<and>
     r = (case intent_row s i of None \<Rightarrow> None
          | Some x \<Rightarrow> if cond x then Some (with_relations s x) else None)"
  by (auto simp: transactionIntent_findFirst_def tx_iff)

lemma found_Some:
  "(case intent_row s i of None \<Rightarrow> None | Some x \<Rightarrow> if cond x then Some (with_relations s x) else None) = Some r
     \<longleftrightarrow> (\<exists>x. intent_row s i = Some x \<and> cond x \<and> r = with_relations s x)"
  by (auto split: option.splits if_splits)

lemma reloadIntent_Inr [tx_iff]:
  "reloadIntent e i s = Inr (r, t) \<longleftrightarrow>
     t = s \<and> (\<exists>x. intent_row s i = Some x \<and> r = with_relations s x)"
  by (auto simp: reloadIntent_def tx_iff split: option.splits)

lemma transactionIntent_create_Inr [tx_iff]:
  "transactionIntent_create build s = Inr (r, t) \<longleftrightarrow>
     ti_idempotencyKey r \<notin> ti_idempotencyKey ` set (transactionIntents s) \<and>
     fits_decimal (ti_requestedAmount r) \<and> r = build (cuid_of s (cuid_count s)) \<and>
     t = s\<lparr>cuid_count := Suc (cuid_count s), transactionIntents := transactionIntents s @ [r]\<rparr>"
  by (auto simp: transactionIntent_create_def tx_iff cuid_Inr)

lemma transactionIntent_update_Inr [tx_iff]:
  "transactionIntent_update i f s = Inr (u, t) \<longleftrightarrow> intent_row s i \<noteq> None \<and>
     t = s\<lparr>transactionIntents := update_rows ti_id i f (transactionIntents s)\<rparr>"
  by (auto simp: transactionIntent_update_def tx_iff)

lemma transactionIntent_updateMany_Inr [tx_iff]:
  "transactionIntent_updateMany i cond f s = Inr (n, t) \<longleftrightarrow>
     (if \<exists>r. intent_row s i = Some r \<and> cond r
      then n = 1 \<and> t = s\<lparr>transactionIntents := update_rows ti_id i f (transactionIntents s)\<rparr>
      else n = 0 \<and> t = s)"
  by (auto simp: transactionIntent_updateMany_def tx_iff split: option.splits)

lemma blockchainTransaction_create_Inr [tx_iff]:
  "blockchainTransaction_create build s = Inr (u, t) \<longleftrightarrow>
     \<not> hash_taken (bt_txHash (build (cuid_of s (cuid_count s)))) (cuid_of s (cuid_count s))
        (blockchainTransactions s) \<and>
     t = s\<lparr>cuid_count := Suc (cuid_count s),
           blockchainTransactions := blockchainTransactions s @ [build (cuid_of s (cuid_count s))]\<rparr>"
  by (auto simp: blockchainTransaction_create_def tx_iff cuid_Inr)

lemma blockchainTransaction_update_Inr [tx_iff]:
  "blockchainTransaction_update i f s = Inr (u, t) \<longleftrightarrow>
     (\<exists>b. find (\<lambda>b. bt_id b = i) (blockchainTransactions s) = Some b \<and>
        \<not> hash_taken (bt_txHash (f b)) i (blockchainTransactions s)) \<and>
     t = s\<lparr>blockchainTransactions := update_rows bt_id i f (blockchainTransactions s)\<rparr>"
  by (auto simp: blockchainTransaction_update_def tx_iff)

lemma depositSettlementProof_create_Inr [tx_iff]:
  "depositSettlementProof_create build s = Inr (u, t) \<longleftrightarrow>
     (let p = build (cuid_of s (cuid_count s)) in
      (\<forall>d\<in>set (depositSettlementProofs s). dp_transactionIntentId d \<noteq> dp_transactionIntentId p \<and>
         dp_blockchainTransactionId d \<noteq> dp_blockchainTransactionId p \<and>
         dp_ledgerJournalId d \<noteq> dp_ledgerJournalId p \<and>
         \<not> (dp_chainId d = dp_chainId p \<and> dp_txHash d = dp_txHash p)) \<and>
      t = s\<lparr>cuid_count := Suc (cuid_count s),
            depositSettlementProofs := depositSettlementProofs s @ [p]\<rparr>)"
  by (auto simp: depositSettlementProof_create_def tx_iff cuid_Inr Let_def)

lemma account_of_Inr [tx_iff]:
  "account_of r s = Inr (a, t) \<longleftrightarrow> ir_customerAccount r = Some a \<and> t = s"
  by (auto simp: account_of_def tx_iff)

lemma with_relations_sel [simp]:
  "ir_intent (with_relations s x) = x"
  "ir_latest (with_relations s x) = latest_of s (ti_id x)"
  "ir_customerAccount (with_relations s x) = follow ca_id (customerAccounts s) (ti_customerAccountId x)"
  "ir_recipientCustomerAccount (with_relations s x) =
     follow ca_id (customerAccounts s) (ti_recipientCustomerAccountId x)"
  "ir_destinationWallet (with_relations s x) = follow wa_id (wallets s) (ti_destinationWalletId x)"
  "ir_sourceWallet (with_relations s x) = follow wa_id (wallets s) (ti_sourceWalletId x)"
  by (simp_all add: with_relations_def)

lemma follow_SomeD: "follow key rows i = Some r \<Longrightarrow> i = Some (key r) \<and> r \<in> set rows"
  by (cases i) (auto simp: follow_def dest: find_key_Some)

section \<open>Calls that only open cases, record events or read\<close>

text \<open>
  \<open>bookkeeping m\<close>: \<open>m\<close> writes at most review cases, their events, audit events and the
  solvency policy row, and allocates identifiers.
\<close>

definition same_core :: "db \<Rightarrow> db \<Rightarrow> bool" where
  "same_core s t \<longleftrightarrow> off_ledger s t \<and> now_ms t = now_ms s \<and>
     customerAccounts t = customerAccounts s \<and> wallets t = wallets s \<and> assets t = assets s \<and>
     transactionIntents t = transactionIntents s \<and>
     blockchainTransactions t = blockchainTransactions s \<and>
     depositSettlementProofs t = depositSettlementProofs s"

definition bookkeeping :: "'a dbtx \<Rightarrow> bool" where
  "bookkeeping m \<longleftrightarrow> (\<forall>s x t. m s = Inr (x, t) \<longrightarrow> same_core s t)"

lemma same_core_refl [simp]: "same_core s s"
  by (simp add: same_core_def)

lemma same_core_trans: "same_core s t \<Longrightarrow> same_core t u \<Longrightarrow> same_core s u"
  by (auto simp: same_core_def intro: off_ledger_trans)

lemma bookkeepingD: "bookkeeping m \<Longrightarrow> m s = Inr (x, t) \<Longrightarrow> same_core s t"
  by (auto simp: bookkeeping_def)

named_theorems bookkeeping_intro

lemma bookkeeping_basic [bookkeeping_intro]:
  "bookkeeping (returnT x)" "bookkeeping (throwT e)" "bookkeeping (readT f)"
  "bookkeeping (throwIf b e)" "bookkeeping (requireT v e)" "bookkeeping new_Date" "bookkeeping cuid"
  "bookkeeping (account_of r)" "bookkeeping (reloadIntent e i)"
  "bookkeeping (transactionIntent_findFirst i cond)"
  by (auto simp: bookkeeping_def tx_iff cuid_Inr same_core_def off_ledger_def same_money_def)

lemma bookkeeping_bind [bookkeeping_intro]:
  assumes "bookkeeping m" "\<And>x. bookkeeping (f x)"
  shows "bookkeeping (bindT m f)"
  using assms unfolding bookkeeping_def tx_iff by (blast intro: same_core_trans)

lemma bookkeeping_if [bookkeeping_intro]:
  "bookkeeping m \<Longrightarrow> bookkeeping m' \<Longrightarrow> bookkeeping (if b then m else m')"
  by simp

lemma bookkeeping_option [bookkeeping_intro]:
  "bookkeeping m \<Longrightarrow> (\<And>x. bookkeeping (f x)) \<Longrightarrow> bookkeeping (case v of None \<Rightarrow> m | Some x \<Rightarrow> f x)"
  by (cases v) auto

lemma bookkeeping_prod [bookkeeping_intro]:
  "(\<And>x y. bookkeeping (f x y)) \<Longrightarrow> bookkeeping (case p of (x, y) \<Rightarrow> f x y)"
  by (cases p) auto

lemma bookkeeping_write_case [bookkeeping_intro]:
  "bookkeeping (reviewCase_create build)" "bookkeeping (reviewCase_update i f)"
  "bookkeeping (reviewCaseEvent_create c a b ty n)"
  "bookkeeping (auditEvent_create cu aty aid act tty tid p nw)"
  "bookkeeping (writeT (\<lambda>s. s\<lparr>solvencyPolicyState := v\<rparr>))"
  by (auto simp: bookkeeping_def tx_iff cuid_Inr same_core_def off_ledger_def same_money_def
      reviewCase_create_def reviewCase_update_def reviewCaseEvent_create_def auditEvent_create_def)

lemma bookkeeping_cases [bookkeeping_intro]:
  "bookkeeping (openOrReuseReviewCase params)"
  "bookkeeping (resolveLinkedDepositReviewCase c op note)"
  "bookkeeping (resolveLinkedReviewCase r op note)"
  "bookkeeping (recordReviewCaseOpened cfg sender i x)"
  "bookkeeping (auditTransition account actor action intent st)"
  "bookkeeping (openFailureReviewCase resolution dto actor r)"
  unfolding openOrReuseReviewCase_def resolveLinkedDepositReviewCase_def resolveLinkedReviewCase_def
    recordReviewCaseOpened_def auditTransition_def openFailureReviewCase_def
  by (intro bookkeeping_intro)+

lemma bookkeeping_gates [bookkeeping_intro]:
  "bookkeeping assertWithdrawalApprovalAllowed" "bookkeeping assertManagedWithdrawalExecutionAllowed"
  unfolding assertWithdrawalApprovalAllowed_def assertManagedWithdrawalExecutionAllowed_def
    getOrCreatePolicyState_def Let_def
  by (intro bookkeeping_intro)+

lemma bookkeeping_addresses [bookkeeping_intro]:
  "bookkeeping (normalizeBlockchainAddress evm v n)"
  "bookkeeping (resolveWithdrawalBroadcastAddresses evm r a b)"
  unfolding normalizeBlockchainAddress_def resolveWithdrawalBroadcastAddresses_def Let_def
  by (intro bookkeeping_intro)+

section \<open>The ledger leaves the service tables alone\<close>

definition same_services :: "db \<Rightarrow> db \<Rightarrow> bool" where
  "same_services s t \<longleftrightarrow> cuid_of t = cuid_of s \<and> cuid_count s \<le> cuid_count t \<and>
     now_ms t = now_ms s \<and> customerAccounts t = customerAccounts s \<and> wallets t = wallets s \<and>
     assets t = assets s \<and> transactionIntents t = transactionIntents s \<and>
     blockchainTransactions t = blockchainTransactions s \<and>
     depositSettlementProofs t = depositSettlementProofs s \<and> reviewCases t = reviewCases s \<and>
     reviewCaseEvents t = reviewCaseEvents s \<and> auditEvents t = auditEvents s \<and>
     solvencyPolicyState t = solvencyPolicyState s"

definition ledger_only :: "'a dbtx \<Rightarrow> bool" where
  "ledger_only m \<longleftrightarrow> (\<forall>s x t. m s = Inr (x, t) \<longrightarrow> same_services s t)"

lemma ledger_onlyD: "ledger_only m \<Longrightarrow> m s = Inr (x, t) \<Longrightarrow> same_services s t"
  by (auto simp: ledger_only_def)

named_theorems ledger_only_intro

lemma ledger_only_basic [ledger_only_intro]:
  "ledger_only (returnT x)" "ledger_only (throwT e)" "ledger_only (readT f)"
  "ledger_only (throwIf b e)" "ledger_only (requireT v e)" "ledger_only new_Date" "ledger_only cuid"
  by (auto simp: ledger_only_def tx_iff cuid_Inr same_services_def)

lemma ledger_only_bind [ledger_only_intro]:
  assumes "ledger_only m" "\<And>x. ledger_only (f x)"
  shows "ledger_only (bindT m f)"
  using assms unfolding ledger_only_def tx_iff same_services_def by (fastforce intro: order_trans)

lemma ledger_only_if [ledger_only_intro]:
  "ledger_only m \<Longrightarrow> ledger_only m' \<Longrightarrow> ledger_only (if b then m else m')"
  by simp

lemma ledger_only_option [ledger_only_intro]:
  "ledger_only m \<Longrightarrow> (\<And>x. ledger_only (f x)) \<Longrightarrow> ledger_only (case v of None \<Rightarrow> m | Some x \<Rightarrow> f x)"
  by (cases v) auto

lemma ledger_only_tables [ledger_only_intro]:
  "ledger_only (writeT (\<lambda>s. s\<lparr>ledgerAccounts := a s\<rparr>))" "ledger_only (writeT (\<lambda>s. s\<lparr>ledgerJournals := j s\<rparr>))"
  "ledger_only (writeT (\<lambda>s. s\<lparr>ledgerPostings := p s\<rparr>))"
  "ledger_only (writeT (\<lambda>s. s\<lparr>customerAssetBalances := c s\<rparr>))"
  by (auto simp: ledger_only_def tx_iff same_services_def)

lemma ledger_only_upsert [ledger_only_intro]: "ledger_only (ledgerAccount_upsert k ty ch a c)"
  by (auto simp: ledger_only_def same_services_def dest!: ledgerAccount_upsert_cases)

lemma ledger_only_calls [ledger_only_intro]:
  "ledger_only (ledgerJournal_create i g e ty ch a)" "ledger_only (ledgerPosting_createMany ps)"
  "ledger_only (customerAssetBalance_findUnique c a)" "ledger_only (customerAssetBalance_credit c a x)"
  "ledger_only (customerAssetBalance_updateMany c a guard upd)"
  "ledger_only (findLedgerJournalByIntentAndType k ty)"
  unfolding ledgerJournal_create_def ledgerPosting_createMany_def customerAssetBalance_findUnique_def
    customerAssetBalance_credit_def customerAssetBalance_updateMany_def customerAssetBalance_put_def
    findLedgerJournalByIntentAndType_def Let_def
  by (intro ledger_only_intro)+

lemma ledger_only_operations [ledger_only_intro]:
  "ledger_only (settleConfirmedDeposit p)" "ledger_only (reserveWithdrawalBalance p)"
  "ledger_only (releaseWithdrawalReservation p)" "ledger_only (settleConfirmedWithdrawal p)"
  "ledger_only (reserveInternalBalanceTransferBalance p)"
  "ledger_only (releaseInternalBalanceTransferReservation p)"
  "ledger_only (settleInternalBalanceTransfer q)"
  unfolding settleConfirmedDeposit_def reserveWithdrawalBalance_def releaseWithdrawalReservation_def
    settleConfirmedWithdrawal_def reserveInternalBalanceTransferBalance_def
    releaseInternalBalanceTransferReservation_def settleInternalBalanceTransfer_def
    senderDebitAccount_def debitSenderBalance_def ledger_account_defs
  by (intro ledger_only_intro)+

end
