(* ===== verification/Service_Invariants.thy ===== *)
theory Service_Invariants
  imports Service_Frames
begin

text \<open>
  What holds between the intents, the chain records, the settlement proofs and the books in
  every state the intent services reach: the tables are well formed, each intent's status agrees
  with its journals, its proof and its latest blockchain transaction, and the net of every ledger
  account is the sum of what the intents contribute to it.
\<close>

section \<open>Intents and books\<close>

definition booked :: "db \<Rightarrow> string \<Rightarrow> ledger_journal_type \<Rightarrow> bool" where
  "booked s i ty = recorded lj_transactionIntentId i ty s"

text \<open>
  What an intent has moved between ledger accounts once it is in its present status: a settled
  deposit from inbound clearing to the customer; an open withdrawal from the customer's available
  to the pending account, a settled one on to outbound clearing; a transfer under review to the
  sender's pending account, a settled one to the recipient. A refused or failed intent has moved
  nothing.
\<close>

fun contribution :: "transaction_intent \<Rightarrow> string \<Rightarrow> decimal" where
  "contribution r k =
     (case ti_customerAccountId r of None \<Rightarrow> 0 | Some c \<Rightarrow>
      (let a = ti_assetId r; chain = ti_chainId r; x = ti_requestedAmount r;
           liability = buildCustomerLiabilityLedgerKey c a in
       case ti_intentType r of
         TransactionIntentType.deposit \<Rightarrow>
           (if ti_status r = TransactionIntentStatus.settled
            then moves (buildInboundClearingLedgerKey chain a) liability x k else 0)
       | TransactionIntentType.withdrawal \<Rightarrow>
           (if ti_status r = TransactionIntentStatus.failed then 0
            else if ti_status r = TransactionIntentStatus.settled
            then moves liability (buildOutboundClearingLedgerKey chain a) x k
            else moves liability (buildPendingWithdrawalLiabilityLedgerKey c a) x k)
       | TransactionIntentType.internal_balance_transfer \<Rightarrow>
           (if ti_status r = TransactionIntentStatus.settled
            then moves liability (buildCustomerLiabilityLedgerKey (the (ti_recipientCustomerAccountId r)) a) x k
            else if ti_status r = TransactionIntentStatus.review_required
            then moves liability (buildPendingInternalTransferLiabilityLedgerKey c a) x k
            else 0)
       | _ \<Rightarrow> 0))"

declare contribution.simps [simp del]

definition books_match :: "db \<Rightarrow> bool" where
  "books_match s \<longleftrightarrow> (\<forall>k. key_net s k = sum_list (map (\<lambda>r. contribution r k) (transactionIntents s)))"

section \<open>Status, chain and journals\<close>

definition chain_is :: "BlockchainTransactionStatus \<Rightarrow> blockchain_transaction option \<Rightarrow> bool" where
  "chain_is st l \<longleftrightarrow> map_option bt_status l = Some st"

definition settled_amount_ok :: "transaction_intent \<Rightarrow> bool" where
  "settled_amount_ok r \<longleftrightarrow> ti_settledAmount r =
     (if ti_status r = TransactionIntentStatus.settled then Some (ti_requestedAmount r) else None)"

text \<open>The settlement proof names the confirmed transaction it rests on.\<close>

definition proof_matches :: "transaction_intent \<Rightarrow> blockchain_transaction \<Rightarrow> deposit_settlement_proof \<Rightarrow> bool" where
  "proof_matches r b d \<longleftrightarrow> dp_blockchainTransactionId d = bt_id b \<and>
     bt_txHash b = Some (dp_txHash d) \<and> dp_chainId d = ti_chainId r \<and>
     dp_settledAmount d = ti_requestedAmount r"

fun deposit_state ::
  "TransactionIntentStatus \<Rightarrow> PolicyDecision \<Rightarrow> blockchain_transaction option \<Rightarrow> bool" where
  "deposit_state TransactionIntentStatus.approved p l = (p = PolicyDecision.approved \<and> l = None)"
| "deposit_state TransactionIntentStatus.queued p l = (p = PolicyDecision.approved \<and> l = None)"
| "deposit_state TransactionIntentStatus.review_required p l = (p = PolicyDecision.review_required \<and>
     (l = None \<or> chain_is BlockchainTransactionStatus.broadcast l \<or> chain_is BlockchainTransactionStatus.confirmed l))"
| "deposit_state TransactionIntentStatus.broadcast p l =
     (p = PolicyDecision.approved \<and> chain_is BlockchainTransactionStatus.broadcast l)"
| "deposit_state TransactionIntentStatus.confirmed p l =
     (p = PolicyDecision.approved \<and> chain_is BlockchainTransactionStatus.confirmed l)"
| "deposit_state TransactionIntentStatus.settled p l =
     (p = PolicyDecision.approved \<and> chain_is BlockchainTransactionStatus.confirmed l)"
| "deposit_state TransactionIntentStatus.failed p l = (p = PolicyDecision.approved \<or> p = PolicyDecision.denied)"
| "deposit_state _ p l = False"

definition deposit_ok ::
  "transaction_intent \<Rightarrow> blockchain_transaction option \<Rightarrow> deposit_settlement_proof option
     \<Rightarrow> (ledger_journal_type \<Rightarrow> bool) \<Rightarrow> bool" where
  "deposit_ok r l p J \<longleftrightarrow> deposit_state (ti_status r) (ti_policyDecision r) l \<and>
     (J deposit_settlement \<longleftrightarrow> ti_status r = TransactionIntentStatus.settled) \<and>
     (if ti_status r = TransactionIntentStatus.settled
      then (\<exists>b d. l = Some b \<and> p = Some d \<and> proof_matches r b d) else p = None)"

fun withdrawal_state ::
  "TransactionIntentStatus \<Rightarrow> PolicyDecision \<Rightarrow> blockchain_transaction option \<Rightarrow> bool" where
  "withdrawal_state TransactionIntentStatus.requested p l = (p = PolicyDecision.pending \<and> l = None)"
| "withdrawal_state TransactionIntentStatus.approved p l = (p = PolicyDecision.approved \<and> l = None)"
| "withdrawal_state TransactionIntentStatus.queued p l = (p = PolicyDecision.approved \<and>
     (l = None \<or> chain_is BlockchainTransactionStatus.created l \<or> chain_is BlockchainTransactionStatus.signed l))"
| "withdrawal_state TransactionIntentStatus.broadcast p l =
     (p = PolicyDecision.approved \<and> chain_is BlockchainTransactionStatus.broadcast l)"
| "withdrawal_state TransactionIntentStatus.confirmed p l =
     (p = PolicyDecision.approved \<and> chain_is BlockchainTransactionStatus.confirmed l)"
| "withdrawal_state TransactionIntentStatus.settled p l =
     (p = PolicyDecision.approved \<and> chain_is BlockchainTransactionStatus.confirmed l)"
| "withdrawal_state TransactionIntentStatus.failed p l = (p = PolicyDecision.approved \<or> p = PolicyDecision.denied)"
| "withdrawal_state _ p l = False"

definition withdrawal_ok ::
  "transaction_intent \<Rightarrow> blockchain_transaction option \<Rightarrow> (ledger_journal_type \<Rightarrow> bool) \<Rightarrow> bool" where
  "withdrawal_ok r l J \<longleftrightarrow> withdrawal_state (ti_status r) (ti_policyDecision r) l \<and>
     J withdrawal_reservation \<and>
     (J withdrawal_reservation_release \<longleftrightarrow> ti_status r = TransactionIntentStatus.failed) \<and>
     (J withdrawal_settlement \<longleftrightarrow> ti_status r = TransactionIntentStatus.settled)"

definition transfer_ok :: "transaction_intent \<Rightarrow> (ledger_journal_type \<Rightarrow> bool) \<Rightarrow> bool" where
  "transfer_ok r J \<longleftrightarrow>
     (ti_status r, ti_policyDecision r) \<in>
       {(TransactionIntentStatus.review_required, PolicyDecision.review_required),
        (TransactionIntentStatus.settled, PolicyDecision.approved),
        (TransactionIntentStatus.cancelled, PolicyDecision.denied)} \<and>
     (ti_status r \<noteq> TransactionIntentStatus.settled \<longrightarrow> J internal_balance_transfer_reservation) \<and>
     (J internal_balance_transfer_reservation_release \<longleftrightarrow> ti_status r = TransactionIntentStatus.cancelled) \<and>
     (J internal_balance_transfer_settlement \<longleftrightarrow> ti_status r = TransactionIntentStatus.settled)"

definition intent_ok ::
  "transaction_intent \<Rightarrow> blockchain_transaction option \<Rightarrow> deposit_settlement_proof option
     \<Rightarrow> (ledger_journal_type \<Rightarrow> bool) \<Rightarrow> bool" where
  "intent_ok r l p J \<longleftrightarrow> 0 < ti_requestedAmount r \<and> settled_amount_ok r \<and>
     (case ti_intentType r of
        TransactionIntentType.deposit \<Rightarrow> deposit_ok r l p J
      | TransactionIntentType.withdrawal \<Rightarrow> withdrawal_ok r l J
      | TransactionIntentType.internal_balance_transfer \<Rightarrow> transfer_ok r J
      | _ \<Rightarrow> False)"

definition parties_ok :: "db \<Rightarrow> transaction_intent \<Rightarrow> bool" where
  "parties_ok s r \<longleftrightarrow> (\<exists>c\<in>set (customerAccounts s). ti_customerAccountId r = Some (ca_id c)) \<and>
     (ti_intentType r = TransactionIntentType.internal_balance_transfer \<longrightarrow>
      (\<exists>c\<in>set (customerAccounts s). ti_recipientCustomerAccountId r = Some (ca_id c)))"

definition row_ok :: "db \<Rightarrow> transaction_intent \<Rightarrow> bool" where
  "row_ok s r \<longleftrightarrow> parties_ok s r \<and>
     intent_ok r (latest_of s (ti_id r)) (proof_of s (ti_id r)) (booked s (ti_id r))"

section \<open>Well-formed tables\<close>

definition intents_wf :: "db \<Rightarrow> bool" where
  "intents_wf s \<longleftrightarrow> distinct (map ti_id (transactionIntents s)) \<and>
     distinct (map ti_idempotencyKey (transactionIntents s)) \<and>
     (\<forall>i\<in>ti_id ` set (transactionIntents s). allocated s i) \<and>
     (\<forall>k ty. booked s k ty \<longrightarrow> k \<in> ti_id ` set (transactionIntents s))"

definition chain_wf :: "db \<Rightarrow> bool" where
  "chain_wf s \<longleftrightarrow> distinct (map bt_id (blockchainTransactions s)) \<and>
     (\<forall>i\<in>bt_id ` set (blockchainTransactions s). allocated s i) \<and>
     bt_transactionIntentId ` set (blockchainTransactions s) \<subseteq> ti_id ` set (transactionIntents s)"

definition proofs_wf :: "db \<Rightarrow> bool" where
  "proofs_wf s \<longleftrightarrow>
     dp_transactionIntentId ` set (depositSettlementProofs s) \<subseteq> ti_id ` set (transactionIntents s) \<and>
     distinct (map dp_transactionIntentId (depositSettlementProofs s)) \<and>
     distinct (map (\<lambda>d. (dp_chainId d, dp_txHash d)) (depositSettlementProofs s))"

definition accounts_wf :: "db \<Rightarrow> bool" where
  "accounts_wf s \<longleftrightarrow> distinct (map ca_id (customerAccounts s)) \<and>
     (\<forall>c\<in>set (customerAccounts s). no_colon (ca_id c))"

definition service_inv :: "db \<Rightarrow> bool" where
  "service_inv s \<longleftrightarrow> ledger_invariant s \<and> intents_wf s \<and> chain_wf s \<and> proofs_wf s \<and> accounts_wf s \<and>
     books_match s \<and> (\<forall>r\<in>set (transactionIntents s). row_ok s r)"

lemma service_inv_parts:
  assumes "service_inv s"
  shows "ledger_invariant s" "intents_wf s" "chain_wf s" "proofs_wf s" "accounts_wf s" "books_match s"
    and "ledger_wf s" "inj (cuid_of s)"
  using assms by (auto simp: service_inv_def ledger_invariant_def ledger_wf_def)

lemma intent_row_in: "intent_row s i = Some r \<Longrightarrow> r \<in> set (transactionIntents s) \<and> ti_id r = i"
  unfolding intent_row_def by (rule find_key_Some)

lemma intent_row_of: "intents_wf s \<Longrightarrow> r \<in> set (transactionIntents s) \<Longrightarrow> intent_row s (ti_id r) = Some r"
  unfolding intent_row_def intents_wf_def by (simp add: find_key_unique)

lemma service_inv_row:
  assumes "service_inv s" "intent_row s i = Some r"
  shows "parties_ok s r" "intent_ok r (latest_of s i) (proof_of s i) (booked s i)" "ti_id r = i"
  using assms intent_row_in [OF assms(2)] by (auto simp: service_inv_def row_ok_def)

text \<open>An identifier never handed out belongs to no row.\<close>

lemma fresh_intent:
  assumes "service_inv s" and new: "\<not> allocated s i"
  shows "i \<notin> ti_id ` set (transactionIntents s)" "latest_of s i = None" "proof_of s i = None"
    "\<not> booked s i ty"
proof -
  show fresh: "i \<notin> ti_id ` set (transactionIntents s)"
    using assms by (auto simp: service_inv_def intents_wf_def)
  then show "\<not> booked s i ty" using assms by (auto simp: service_inv_def intents_wf_def)
  from fresh show "latest_of s i = None"
    using assms by (auto simp: service_inv_def chain_wf_def latest_of_def find_None_iff)
  from fresh show "proof_of s i = None"
    using assms by (auto simp: service_inv_def proofs_wf_def proof_of_def find_None_iff)
qed

lemma next_id_fresh: "service_inv s \<Longrightarrow> \<not> allocated s (cuid_of s (cuid_count s))"
  by (rule cuid_fresh) (rule service_inv_parts)

end
