(* ===== verification/Service_Steps.thy ===== *)
theory Service_Steps
  imports Service_Invariants
begin

text \<open>
  How the invariant is kept: one lemma for a step that changes one intent, one for a step that
  adds an intent, the effect of each ledger operation as the services call it, and the effect of
  the writes to the chain records and the proofs.
\<close>

section \<open>Changing one intent\<close>

definition same_request :: "(transaction_intent \<Rightarrow> transaction_intent) \<Rightarrow> bool" where
  "same_request f \<longleftrightarrow> (\<forall>r. ti_id (f r) = ti_id r \<and> ti_idempotencyKey (f r) = ti_idempotencyKey r \<and>
     ti_intentType (f r) = ti_intentType r \<and> ti_customerAccountId (f r) = ti_customerAccountId r \<and>
     ti_recipientCustomerAccountId (f r) = ti_recipientCustomerAccountId r \<and>
     ti_assetId (f r) = ti_assetId r \<and> ti_chainId (f r) = ti_chainId r \<and>
     ti_requestedAmount (f r) = ti_requestedAmount r)"

lemma same_request_id: "same_request f \<Longrightarrow> ti_id (f r) = ti_id r"
  by (simp add: same_request_def)

lemma ids_update:
  "same_request f \<Longrightarrow> map ti_id (update_rows ti_id i f rows) = map ti_id rows"
  "same_request f \<Longrightarrow> map ti_idempotencyKey (update_rows ti_id i f rows) = map ti_idempotencyKey rows"
  by (simp_all add: same_request_def update_rows_def)

lemma ids_update_set:
  "same_request f \<Longrightarrow> ti_id ` set (update_rows ti_id i f rows) = ti_id ` set rows"
  by (metis ids_update(1) list.set_map)

lemma intent_row_update:
  assumes "same_request f" "transactionIntents t = update_rows ti_id i f (transactionIntents s)"
  shows "intent_row t k = (if k = i then map_option f (intent_row s k) else intent_row s k)"
  using assms by (simp add: intent_row_def find_update_rows same_request_def)

lemma set_update_rows:
  assumes "r' \<in> set (update_rows key i f rows)"
  shows "(\<exists>r\<in>set rows. key r = i \<and> r' = f r) \<or> (r' \<in> set rows \<and> key r' \<noteq> i)"
  using assms by (auto simp: update_rows_def)

lemma parties_ok_update:
  assumes "parties_ok s r" "same_request f" "customerAccounts t = customerAccounts s"
  shows "parties_ok t (f r)" "parties_ok t r"
  using assms by (auto simp: parties_ok_def same_request_def)

lemma chain_wf_cong:
  assumes "chain_wf s" "ti_id ` set (transactionIntents s) \<subseteq> ti_id ` set (transactionIntents t)"
    "blockchainTransactions t = blockchainTransactions s" "\<And>i. allocated s i \<Longrightarrow> allocated t i"
  shows "chain_wf t"
  using assms(1,2,4) unfolding chain_wf_def assms(3) by blast

lemma allocated_mono:
  "cuid_of t = cuid_of s \<Longrightarrow> cuid_count s \<le> cuid_count t \<Longrightarrow> allocated s i \<Longrightarrow> allocated t i"
  unfolding allocated_def by (metis order.strict_trans2)

lemma service_inv_update:
  assumes inv: "service_inv s" and old: "intent_row s i = Some old"
    and led: "ledger_invariant t" and gen: "cuid_of t = cuid_of s" "cuid_count s \<le> cuid_count t"
    and acc: "customerAccounts t = customerAccounts s"
    and rows: "transactionIntents t = update_rows ti_id i f (transactionIntents s)" and req: "same_request f"
    and nets: "\<And>k. key_net t k = key_net s k + contribution (f old) k - contribution old k"
    and others: "\<And>k ty. k \<noteq> i \<Longrightarrow> booked t k ty = booked s k ty"
      "\<And>k. k \<noteq> i \<Longrightarrow> latest_of t k = latest_of s k" "\<And>k. k \<noteq> i \<Longrightarrow> proof_of t k = proof_of s k"
    and wf: "chain_wf t" "proofs_wf t"
    and new: "intent_ok (f old) (latest_of t i) (proof_of t i) (booked t i)"
  shows "service_inv t"
proof -
  have ids: "ti_id ` set (transactionIntents t) = ti_id ` set (transactionIntents s)"
    unfolding rows by (rule ids_update_set [OF req])
  have alloc: "allocated t k" if "allocated s k" for k using gen that by (rule allocated_mono)
  have i: "i \<in> ti_id ` set (transactionIntents s)" and oi: "ti_id old = i"
    using intent_row_in [OF old] by auto
  have "intents_wf t"
    unfolding intents_wf_def
  proof (intro conjI ballI allI impI)
    from service_inv_parts(2) [OF inv]
    show "distinct (map ti_id (transactionIntents t))"
      and "distinct (map ti_idempotencyKey (transactionIntents t))"
      by (simp_all add: rows ids_update [OF req] intents_wf_def)
    fix k
    show "allocated t k" if "k \<in> ti_id ` set (transactionIntents t)"
      using that service_inv_parts(2) [OF inv] alloc unfolding ids intents_wf_def by blast
    fix ty assume "booked t k ty"
    then show "k \<in> ti_id ` set (transactionIntents t)"
      using i others(1) [of k ty] service_inv_parts(2) [OF inv] unfolding ids intents_wf_def
      by (cases "k = i") auto
  qed
  moreover have "books_match t"
    unfolding books_match_def
  proof
    fix k
    have "sum_list (map (\<lambda>r. contribution r k) (transactionIntents t)) =
      sum_list (map (\<lambda>r. contribution r k) (transactionIntents s)) - contribution old k + contribution (f old) k"
      unfolding rows using service_inv_parts(2) [OF inv] old
      by (intro sum_update_rows) (simp_all add: intents_wf_def intent_row_def)
    with nets service_inv_parts(6) [OF inv]
    show "key_net t k = sum_list (map (\<lambda>r. contribution r k) (transactionIntents t))"
      by (simp add: books_match_def)
  qed
  moreover have "row_ok t r'" if r': "r' \<in> set (transactionIntents t)" for r'
  proof -
    consider r where "r \<in> set (transactionIntents s)" "ti_id r = i" "r' = f r"
      | "r' \<in> set (transactionIntents s)" "ti_id r' \<noteq> i"
      using set_update_rows [OF r' [unfolded rows]] by blast
    then show ?thesis
    proof cases
      case 1
      with intent_row_of [OF service_inv_parts(2) [OF inv]] old have "r = old" by fastforce
      with 1 new oi service_inv_row(1) [OF inv old] show ?thesis
        by (simp add: row_ok_def same_request_id [OF req] parties_ok_update [OF _ req acc])
    next
      case 2
      with inv have "row_ok s r'" by (simp add: service_inv_def)
      moreover have "booked t (ti_id r') = booked s (ti_id r')" by (rule ext) (simp add: others 2)
      ultimately show ?thesis
        using 2 by (simp add: row_ok_def others parties_ok_update [OF _ req acc])
    qed
  qed
  moreover have "accounts_wf t" using service_inv_parts(5) [OF inv] by (simp add: accounts_wf_def acc)
  ultimately show ?thesis using led wf by (simp add: service_inv_def)
qed

section \<open>Adding an intent\<close>

lemma service_inv_insert:
  assumes inv: "service_inv s" and i: "i = cuid_of s (cuid_count s)"
    and led: "ledger_invariant t" and gen: "cuid_of t = cuid_of s" "cuid_count s < cuid_count t"
    and acc: "customerAccounts t = customerAccounts s"
    and rows: "transactionIntents t = transactionIntents s @ [r]" and id: "ti_id r = i"
    and key: "ti_idempotencyKey r \<notin> ti_idempotencyKey ` set (transactionIntents s)"
    and nets: "\<And>k. key_net t k = key_net s k + contribution r k"
    and others: "\<And>k ty. k \<noteq> i \<Longrightarrow> booked t k ty = booked s k ty"
      "blockchainTransactions t = blockchainTransactions s"
      "depositSettlementProofs t = depositSettlementProofs s"
    and new: "parties_ok t r" "intent_ok r None None (booked t i)"
  shows "service_inv t"
proof -
  have fresh: "\<not> allocated s i" unfolding i by (rule next_id_fresh [OF inv])
  note new_id = fresh_intent [OF inv fresh]
  have le: "cuid_count s \<le> cuid_count t" using gen by simp
  have alloc: "allocated t k" if "allocated s k" for k using gen(1) le that by (rule allocated_mono)
  have ti: "allocated t i" unfolding allocated_def i using gen by auto
  have same: "latest_of t k = latest_of s k" "proof_of t k = proof_of s k" for k
    by (simp_all add: latest_of_def proof_of_def others)
  have "intents_wf t"
    using service_inv_parts(2) [OF inv] new_id(1) key alloc ti
    unfolding intents_wf_def rows by (auto simp: id) (use others(1) in blast)
  moreover have "chain_wf t"
    by (rule chain_wf_cong [OF service_inv_parts(3) [OF inv]]) (auto simp: rows others alloc)
  moreover have "proofs_wf t"
    using service_inv_parts(4) [OF inv] by (auto simp: proofs_wf_def rows others)
  moreover have "books_match t"
    using service_inv_parts(6) [OF inv] nets by (simp add: books_match_def rows)
  moreover have "row_ok t r'" if r': "r' \<in> set (transactionIntents t)" for r'
  proof (cases "r' = r")
    case True
    then show ?thesis using new new_id by (simp add: row_ok_def same id)
  next
    case False
    with r' have "r' \<in> set (transactionIntents s)" by (simp add: rows)
    moreover from this new_id(1) have "ti_id r' \<noteq> i" by auto
    moreover from this have "booked t (ti_id r') = booked s (ti_id r')" by (intro ext) (simp add: others)
    ultimately show ?thesis
      using inv by (simp add: service_inv_def row_ok_def same parties_ok_def acc)
  qed
  moreover have "accounts_wf t" using service_inv_parts(5) [OF inv] by (simp add: accounts_wf_def acc)
  ultimately show ?thesis using led by (simp add: service_inv_def)
qed

text \<open>A step that touches neither intents, chain records, proofs nor the ledger.\<close>

lemma service_inv_bookkeeping:
  assumes inv: "service_inv s" and same: "same_core s t"
  shows "service_inv t"
proof -
  have ol: "off_ledger s t" using same by (simp add: same_core_def)
  have rows: "intent_row t k = intent_row s k" "latest_of t k = latest_of s k" "proof_of t k = proof_of s k"
    "booked t k ty = booked s k ty" for k ty
    using same ol by (simp_all add: same_core_def intent_row_def latest_of_def proof_of_def booked_def
        recorded_def off_ledger_def)
  have alloc: "allocated s k \<Longrightarrow> allocated t k" for k by (rule off_ledger_allocated [OF ol])
  have "booked t k = booked s k" for k by (rule ext) (rule rows)
  then have "row_ok t r = row_ok s r" for r
    using same by (simp add: row_ok_def parties_ok_def rows same_core_def)
  moreover have "ledger_invariant t"
    using ledger_invariant_step [OF ledger_step.elsewhere [OF ol]] inv by (simp add: service_inv_def)
  ultimately show ?thesis
    using inv same alloc
    by (auto simp: service_inv_def intents_wf_def chain_wf_def proofs_wf_def accounts_wf_def
        books_match_def same_core_def rows off_ledger_key_net [OF ol])
qed

section \<open>Ledger operations as the services call them\<close>

text \<open>
  \<open>booking i ty f s t\<close>: from \<open>s\<close> to \<open>t\<close> one journal of type \<open>ty\<close> was written for
  the intent \<open>i\<close>, which had none; the accounts' nets move by \<open>f\<close> and the service tables
  stay as they are.
\<close>

definition booking ::
  "string \<Rightarrow> ledger_journal_type \<Rightarrow> (string \<Rightarrow> decimal) \<Rightarrow> db \<Rightarrow> db \<Rightarrow> bool" where
  "booking i ty f s t \<longleftrightarrow> ledger_invariant t \<and> same_services s t \<and>
     (\<forall>k. key_net t k = key_net s k + f k) \<and> \<not> booked s i ty \<and>
     (\<forall>k ty'. booked t k ty' \<longleftrightarrow> booked s k ty' \<or> k = i \<and> ty' = ty)"

lemma bookingI:
  assumes "ledger_effect lj_transactionIntentId i ty f s t" "ledger_invariant t" "same_services s t"
  shows "booking i ty f s t"
  using assms by (auto simp: booking_def ledger_effect_def shifts_def booked_def recorded_def)

lemma ledger_call_invariant:
  assumes "run_ledger_op op s = Inr (u, t)" "valid_op s op" "ledger_invariant s"
  shows "ledger_invariant t"
  using assms by (blast intro: ledger_invariant_step ledger_step.operation)

lemma ledger_invariant_wf: "ledger_invariant s \<Longrightarrow> ledger_wf s"
  by (simp add: ledger_invariant_def)

lemma ledgerParams_sel [simp]:
  "p_transactionIntentId (ledgerParams c r) = ti_id r" "p_customerAccountId (ledgerParams c r) = c"
  "p_assetId (ledgerParams c r) = ti_assetId r" "p_chainId (ledgerParams c r) = ti_chainId r"
  "p_amount (ledgerParams c r) = ti_requestedAmount r"
  by (simp_all add: ledgerParams_def)

lemma settleConfirmedDeposit_booking:
  assumes "settleConfirmedDeposit (ledgerParams c r) s = Inr (x, t)" "ledger_invariant s"
    "0 < ti_requestedAmount r" "no_colon c"
  shows "booking (ti_id r) deposit_settlement (moves (buildInboundClearingLedgerKey (ti_chainId r) (ti_assetId r))
    (buildCustomerLiabilityLedgerKey c (ti_assetId r)) (ti_requestedAmount r)) s t"
  using assms ledger_call_invariant [of "SettleDeposit (ledgerParams c r)" s "()" t]
    settleConfirmedDeposit_law(1) [OF assms(1)]
    ledger_onlyD [OF ledger_only_operations(1) assms(1)]
  by (auto simp: tx_iff ledger_invariant_wf intro!: bookingI)

lemma reserveWithdrawalBalance_booking:
  assumes "reserveWithdrawalBalance (ledgerParams c r) s = Inr (x, t)" "ledger_invariant s"
    "0 < ti_requestedAmount r" "no_colon c"
  shows "booking (ti_id r) withdrawal_reservation (moves (buildCustomerLiabilityLedgerKey c (ti_assetId r))
    (buildPendingWithdrawalLiabilityLedgerKey c (ti_assetId r)) (ti_requestedAmount r)) s t"
  using assms ledger_call_invariant [of "ReserveWithdrawal (ledgerParams c r)" s "()" t]
    reserveWithdrawalBalance_law(1) [OF assms(1)]
    ledger_onlyD [OF ledger_only_operations(2) assms(1)]
  by (auto simp: tx_iff ledger_invariant_wf intro!: bookingI)

lemma releaseWithdrawalReservation_booking:
  assumes "releaseWithdrawalReservation (ledgerParams c r) s = Inr (x, t)" "ledger_invariant s"
    "0 < ti_requestedAmount r" "no_colon c"
  shows "booking (ti_id r) withdrawal_reservation_release
    (moves (buildPendingWithdrawalLiabilityLedgerKey c (ti_assetId r))
      (buildCustomerLiabilityLedgerKey c (ti_assetId r)) (ti_requestedAmount r)) s t"
  using assms ledger_call_invariant [of "ReleaseWithdrawal (ledgerParams c r)" s "()" t]
    releaseWithdrawalReservation_law(1) [OF assms(1)]
    ledger_onlyD [OF ledger_only_operations(3) assms(1)]
  by (auto simp: tx_iff ledger_invariant_wf intro!: bookingI)

lemma settleConfirmedWithdrawal_booking:
  assumes "settleConfirmedWithdrawal (ledgerParams c r) s = Inr (x, t)" "ledger_invariant s"
    "0 < ti_requestedAmount r" "no_colon c"
  shows "booking (ti_id r) withdrawal_settlement
    (moves (buildPendingWithdrawalLiabilityLedgerKey c (ti_assetId r))
      (buildOutboundClearingLedgerKey (ti_chainId r) (ti_assetId r)) (ti_requestedAmount r)) s t"
  using assms ledger_call_invariant [of "SettleWithdrawal (ledgerParams c r)" s "()" t]
    settleConfirmedWithdrawal_law(1) [OF assms(1)]
    ledger_onlyD [OF ledger_only_operations(4) assms(1)]
  by (auto simp: tx_iff ledger_invariant_wf intro!: bookingI)

lemma reserveInternalBalanceTransferBalance_booking:
  assumes "reserveInternalBalanceTransferBalance (ledgerParams c r) s = Inr (x, t)" "ledger_invariant s"
    "0 < ti_requestedAmount r" "no_colon c"
  shows "booking (ti_id r) internal_balance_transfer_reservation
    (moves (buildCustomerLiabilityLedgerKey c (ti_assetId r))
      (buildPendingInternalTransferLiabilityLedgerKey c (ti_assetId r)) (ti_requestedAmount r)) s t"
  using assms ledger_call_invariant [of "ReserveTransfer (ledgerParams c r)" s "()" t]
    reserveInternalBalanceTransferBalance_law(1) [OF assms(1)]
    ledger_onlyD [OF ledger_only_operations(5) assms(1)]
  by (auto simp: tx_iff ledger_invariant_wf intro!: bookingI)

lemma releaseInternalBalanceTransferReservation_booking:
  assumes "releaseInternalBalanceTransferReservation (ledgerParams c r) s = Inr (x, t)" "ledger_invariant s"
    "0 < ti_requestedAmount r" "no_colon c"
  shows "booking (ti_id r) internal_balance_transfer_reservation_release
    (moves (buildPendingInternalTransferLiabilityLedgerKey c (ti_assetId r))
      (buildCustomerLiabilityLedgerKey c (ti_assetId r)) (ti_requestedAmount r)) s t"
  using assms ledger_call_invariant [of "ReleaseTransfer (ledgerParams c r)" s "()" t]
    releaseInternalBalanceTransferReservation_law(1) [OF assms(1)]
    ledger_onlyD [OF ledger_only_operations(6) assms(1)]
  by (auto simp: tx_iff ledger_invariant_wf intro!: bookingI)

lemma settleInternalBalanceTransfer_booking:
  assumes "settleInternalBalanceTransfer (settleParams c d b r) s = Inr (x, t)" "ledger_invariant s"
    "0 < ti_requestedAmount r" "no_colon c" "no_colon d"
  shows "booking (ti_id r) internal_balance_transfer_settlement
    (moves (if b then buildPendingInternalTransferLiabilityLedgerKey c (ti_assetId r)
            else buildCustomerLiabilityLedgerKey c (ti_assetId r))
      (buildCustomerLiabilityLedgerKey d (ti_assetId r)) (ti_requestedAmount r)) s t"
  using assms ledger_call_invariant [of "SettleTransfer (settleParams c d b r)" s "()" t]
    settleInternalBalanceTransfer_law(1) [OF assms(1)]
    ledger_onlyD [OF ledger_only_operations(7) assms(1)]
  by (auto simp: tx_iff ledger_invariant_wf settleParams_def senderKey_def
      intro!: bookingI)

section \<open>Changing one intent, with and without the ledger\<close>

lemma off_ledger_booked: "off_ledger s t \<Longrightarrow> booked t k ty = booked s k ty"
  by (simp add: off_ledger_def booked_def recorded_def)

lemma off_ledger_invariant: "off_ledger s t \<Longrightarrow> ledger_invariant s \<Longrightarrow> ledger_invariant t"
  by (blast intro: ledger_invariant_step ledger_step.elsewhere)

lemma service_inv_quiet:
  assumes inv: "service_inv s" and old: "intent_row s i = Some old" and off: "off_ledger s t"
    and acc: "customerAccounts t = customerAccounts s"
    and rows: "transactionIntents t = update_rows ti_id i f (transactionIntents s)" and req: "same_request f"
    and same: "\<And>k. contribution (f old) k = contribution old k"
    and others: "\<And>k. k \<noteq> i \<Longrightarrow> latest_of t k = latest_of s k"
    and proofs: "depositSettlementProofs t = depositSettlementProofs s"
    and wf: "chain_wf t" and new: "intent_ok (f old) (latest_of t i) (proof_of s i) (booked s i)"
  shows "service_inv t"
proof (rule service_inv_update [OF inv old _ _ _ acc rows req])
  show "ledger_invariant t" by (rule off_ledger_invariant [OF off service_inv_parts(1) [OF inv]])
  show "cuid_of t = cuid_of s" "cuid_count s \<le> cuid_count t" using off by (simp_all add: off_ledger_def)
  show "key_net t k = key_net s k + contribution (f old) k - contribution old k" for k
    by (simp add: off_ledger_key_net [OF off] same)
  show "booked t k ty = booked s k ty" for k ty by (rule off_ledger_booked [OF off])
  show "latest_of t k = latest_of s k" if "k \<noteq> i" for k using that by (rule others)
  show "proof_of t k = proof_of s k" for k by (simp add: proof_of_def proofs)
  show "chain_wf t" by (rule wf)
  have "ti_id ` set (transactionIntents t) = ti_id ` set (transactionIntents s)"
    by (simp add: rows ids_update_set [OF req])
  then show "proofs_wf t" using service_inv_parts(4) [OF inv] by (simp add: proofs_wf_def proofs)
  have "booked t i = booked s i" by (rule ext) (rule off_ledger_booked [OF off])
  with new show "intent_ok (f old) (latest_of t i) (proof_of t i) (booked t i)"
    by (simp add: proof_of_def proofs)
qed

lemma service_inv_booked:
  assumes inv: "service_inv s" and old: "intent_row s i = Some old"
    and off: "off_ledger s u" and book: "booking i ty sh u v" and off': "off_ledger v t"
    and acc: "customerAccounts t = customerAccounts s"
    and rows: "transactionIntents t = update_rows ti_id i f (transactionIntents s)" and req: "same_request f"
    and shift: "\<And>k. contribution (f old) k = contribution old k + sh k"
    and others: "\<And>k. k \<noteq> i \<Longrightarrow> latest_of t k = latest_of s k" "\<And>k. k \<noteq> i \<Longrightarrow> proof_of t k = proof_of s k"
    and wf: "chain_wf t" "proofs_wf t"
    and new: "intent_ok (f old) (latest_of t i) (proof_of t i) (\<lambda>ty'. booked s i ty' \<or> ty' = ty)"
  shows "service_inv t"
proof (rule service_inv_update [OF inv old _ _ _ acc rows req])
  show "ledger_invariant t" using book by (auto simp: booking_def intro: off_ledger_invariant [OF off'])
  show "cuid_of t = cuid_of s" "cuid_count s \<le> cuid_count t"
    using off off' book by (auto simp: off_ledger_def booking_def same_services_def)
  show "key_net t k = key_net s k + contribution (f old) k - contribution old k" for k
    using book by (simp add: off_ledger_key_net [OF off'] booking_def off_ledger_key_net [OF off] shift)
  have bk: "booked t k ty' \<longleftrightarrow> booked s k ty' \<or> k = i \<and> ty' = ty" for k ty'
    using book by (simp add: off_ledger_booked [OF off'] booking_def off_ledger_booked [OF off])
  show "booked t k ty' = booked s k ty'" if "k \<noteq> i" for k ty' using that by (simp add: bk)
  show "latest_of t k = latest_of s k" if "k \<noteq> i" for k using that by (rule others)
  show "proof_of t k = proof_of s k" if "k \<noteq> i" for k using that by (rule others)
  show "chain_wf t" "proofs_wf t" by (rule wf)+
  have "booked t i = (\<lambda>ty'. booked s i ty' \<or> ty' = ty)" by (rule ext) (simp add: bk)
  with new show "intent_ok (f old) (latest_of t i) (proof_of t i) (booked t i)" by simp
qed

section \<open>Chain records\<close>

lemma chain_unchanged:
  assumes "chain_wf s" "ti_id ` set (transactionIntents t) = ti_id ` set (transactionIntents s)"
    "blockchainTransactions t = blockchainTransactions s" "cuid_of t = cuid_of s" "cuid_count s \<le> cuid_count t"
  shows "chain_wf t" "latest_of t k = latest_of s k"
proof -
  show "chain_wf t"
    by (rule chain_wf_cong [OF assms(1)]) (simp_all add: assms(2,3) allocated_mono [OF assms(4,5)])
  show "latest_of t k = latest_of s k" by (simp add: latest_of_def assms(3))
qed

lemma latest_of_in: "latest_of s i = Some b \<Longrightarrow> b \<in> set (blockchainTransactions s) \<and> bt_transactionIntentId b = i"
  unfolding latest_of_def by (drule find_key_Some) simp

lemma chain_updated:
  assumes wf: "chain_wf s" and ids: "ti_id ` set (transactionIntents t) = ti_id ` set (transactionIntents s)"
    and l: "latest_of s i = Some b"
    and up: "blockchainTransactions t = update_rows bt_id (bt_id b) g (blockchainTransactions s)"
    and g: "\<And>r. bt_id (g r) = bt_id r" "\<And>r. bt_transactionIntentId (g r) = bt_transactionIntentId r"
    and gen: "cuid_of t = cuid_of s" "cuid_count s \<le> cuid_count t"
  shows "chain_wf t" "latest_of t k = (if k = i then Some (g b) else latest_of s k)"
proof -
  let ?u = "\<lambda>r. if bt_id r = bt_id b then g r else r"
  have keys: "map bt_id (blockchainTransactions t) = map bt_id (blockchainTransactions s)"
    "map bt_transactionIntentId (blockchainTransactions t) =
      map bt_transactionIntentId (blockchainTransactions s)"
    by (simp_all add: up update_rows_def g)
  have sets: "bt_id ` set (blockchainTransactions t) = bt_id ` set (blockchainTransactions s)"
    "bt_transactionIntentId ` set (blockchainTransactions t) =
      bt_transactionIntentId ` set (blockchainTransactions s)"
    using keys by (metis list.set_map)+
  show "chain_wf t"
    using wf ids allocated_mono [OF gen] unfolding chain_wf_def keys sets by simp
  have find: "find (\<lambda>r. bt_transactionIntentId r = k) (map ?u rows) =
      map_option ?u (find (\<lambda>r. bt_transactionIntentId r = k) rows)" for rows
    by (induction rows) (auto simp: g)
  have latest: "latest_of t k = map_option ?u (latest_of s k)"
    by (simp add: latest_of_def up update_rows_def rev_map find)
  show "latest_of t k = (if k = i then Some (g b) else latest_of s k)"
  proof (cases "k = i")
    case True
    then show ?thesis using latest l by simp
  next
    case False
    have "bt_id r \<noteq> bt_id b" if "latest_of s k = Some r" for r
    proof
      assume "bt_id r = bt_id b"
      moreover have "inj_on bt_id (set (blockchainTransactions s))"
        using wf by (simp add: chain_wf_def distinct_map)
      ultimately have "r = b"
        using latest_of_in [OF that] latest_of_in [OF l] by (meson inj_onD)
      then show False using latest_of_in [OF that] latest_of_in [OF l] False by simp
    qed
    with False show ?thesis by (cases "latest_of s k") (simp_all add: latest)
  qed
qed

lemma chain_appended:
  assumes wf: "chain_wf s" and inj: "inj (cuid_of s)"
    and ids: "ti_id ` set (transactionIntents t) = ti_id ` set (transactionIntents s)"
    and up: "blockchainTransactions t = blockchainTransactions s @ [b]"
    and b: "bt_id b = cuid_of s (cuid_count s)" "bt_transactionIntentId b = i"
      "i \<in> ti_id ` set (transactionIntents s)"
    and gen: "cuid_of t = cuid_of s" "cuid_count s < cuid_count t"
  shows "chain_wf t" "latest_of t k = (if k = i then Some b else latest_of s k)"
proof -
  have fresh: "\<not> allocated s (bt_id b)" unfolding b by (rule cuid_fresh [OF inj])
  have "allocated t (bt_id b)" unfolding allocated_def b using gen by auto
  moreover have "allocated s j \<Longrightarrow> allocated t j" for j
    using allocated_mono [OF gen(1)] gen(2) by simp
  ultimately show "chain_wf t"
    using wf fresh b(2,3) unfolding chain_wf_def up ids by auto
  show "latest_of t k = (if k = i then Some b else latest_of s k)"
    by (simp add: latest_of_def up b)
qed

section \<open>The shapes of a step without the ledger\<close>

text \<open>
  An intent changes alone, with its latest chain record, or with a new chain record; cases and
  audit events may follow. What remains to show is that its contribution to the books is the
  same and that its new row is in order.
\<close>

lemma service_inv_intent:
  assumes inv: "service_inv s" and old: "intent_row s i = Some old" and req: "same_request f"
    and same: "\<And>k. contribution (f old) k = contribution old k"
    and new: "intent_ok (f old) (latest_of s i) (proof_of s i) (booked s i)"
    and core: "same_core (s\<lparr>transactionIntents := update_rows ti_id i f (transactionIntents s)\<rparr>) t"
  shows "service_inv t"
proof (rule service_inv_bookkeeping [OF _ core], rule service_inv_quiet [OF inv old _ _ _ req same])
  let ?u = "s\<lparr>transactionIntents := update_rows ti_id i f (transactionIntents s)\<rparr>"
  have ids: "ti_id ` set (transactionIntents ?u) = ti_id ` set (transactionIntents s)"
    by (simp add: ids_update_set [OF req])
  note chain = chain_unchanged [OF service_inv_parts(3) [OF inv] ids]
  show "chain_wf ?u" by (rule chain) simp_all
  show "latest_of ?u k = latest_of s k" for k by (rule chain) simp_all
  then show "intent_ok (f old) (latest_of ?u i) (proof_of s i) (booked s i)" using new by simp
qed (simp_all add: off_ledger_def same_money_def)

lemma service_inv_chain_update:
  assumes inv: "service_inv s" and old: "intent_row s i = Some old" and req: "same_request f"
    and l: "latest_of s i = Some b"
    and g: "\<And>r. bt_id (g r) = bt_id r" "\<And>r. bt_transactionIntentId (g r) = bt_transactionIntentId r"
    and same: "\<And>k. contribution (f old) k = contribution old k"
    and new: "intent_ok (f old) (Some (g b)) (proof_of s i) (booked s i)"
    and core: "same_core (s\<lparr>blockchainTransactions := update_rows bt_id (bt_id b) g (blockchainTransactions s),
      transactionIntents := update_rows ti_id i f (transactionIntents s)\<rparr>) t"
  shows "service_inv t"
proof (rule service_inv_bookkeeping [OF _ core], rule service_inv_quiet [OF inv old _ _ _ req same])
  let ?u = "s\<lparr>blockchainTransactions := update_rows bt_id (bt_id b) g (blockchainTransactions s),
      transactionIntents := update_rows ti_id i f (transactionIntents s)\<rparr>"
  have ids: "ti_id ` set (transactionIntents ?u) = ti_id ` set (transactionIntents s)"
    by (simp add: ids_update_set [OF req])
  note chain = chain_updated [OF service_inv_parts(3) [OF inv] ids l _ g]
  show "chain_wf ?u" by (rule chain) simp_all
  have latest: "latest_of ?u k = (if k = i then Some (g b) else latest_of s k)" for k by (rule chain) simp_all
  then show "latest_of ?u k = latest_of s k" if "k \<noteq> i" for k using that by simp
  show "intent_ok (f old) (latest_of ?u i) (proof_of s i) (booked s i)" using new by (simp add: latest)
qed (simp_all add: off_ledger_def same_money_def)

lemma service_inv_chain_append:
  assumes inv: "service_inv s" and old: "intent_row s i = Some old" and req: "same_request f"
    and b: "bt_id b = cuid_of s (cuid_count s)" "bt_transactionIntentId b = i"
    and same: "\<And>k. contribution (f old) k = contribution old k"
    and new: "intent_ok (f old) (Some b) (proof_of s i) (booked s i)"
    and core: "same_core (s\<lparr>cuid_count := Suc (cuid_count s),
      blockchainTransactions := blockchainTransactions s @ [b],
      transactionIntents := update_rows ti_id i f (transactionIntents s)\<rparr>) t"
  shows "service_inv t"
proof (rule service_inv_bookkeeping [OF _ core], rule service_inv_quiet [OF inv old _ _ _ req same])
  let ?u = "s\<lparr>cuid_count := Suc (cuid_count s), blockchainTransactions := blockchainTransactions s @ [b],
      transactionIntents := update_rows ti_id i f (transactionIntents s)\<rparr>"
  have ids: "ti_id ` set (transactionIntents ?u) = ti_id ` set (transactionIntents s)"
    by (simp add: ids_update_set [OF req])
  have i: "i \<in> ti_id ` set (transactionIntents s)" using intent_row_in [OF old] by auto
  note chain = chain_appended [OF service_inv_parts(3) [OF inv] service_inv_parts(8) [OF inv] ids _ b i]
  show "chain_wf ?u" by (rule chain) simp_all
  have latest: "latest_of ?u k = (if k = i then Some b else latest_of s k)" for k by (rule chain) simp_all
  then show "latest_of ?u k = latest_of s k" if "k \<noteq> i" for k using that by simp
  show "intent_ok (f old) (latest_of ?u i) (proof_of s i) (booked s i)" using new by (simp add: latest)
qed (simp_all add: off_ledger_def same_money_def)

end
