(* ===== verification/Deposit_Lifecycle.thy ===== *)
theory Deposit_Lifecycle
  imports Service_Steps
begin

text \<open>
  Every deposit operation preserves the service invariant: nothing is booked before the settlement,
  which credits the customer once, against the confirmed chain transaction its proof records.
\<close>

lemma freshResult_Inr [tx_iff]:
  "freshResult r s = Inr (x, t) \<longleftrightarrow> ir_customerAccount r \<noteq> None \<and>
     x = \<lparr>res_intent = r, res_reused = False\<rparr> \<and> t = s"
  by (auto simp: freshResult_def mapIntentReviewProjection_def tx_iff)

lemma reusedResult_Inr [tx_iff]:
  "reusedResult r s = Inr (x, t) \<longleftrightarrow> ir_customerAccount r \<noteq> None \<and>
     x = \<lparr>res_intent = r, res_reused = True\<rparr> \<and> t = s"
  by (auto simp: reusedResult_def mapIntentReviewProjection_def tx_iff)

lemmas deposit_run = tx_iff found_Some deposit_guards findDepositIntentForReview_def
  ensureDepositCanFail_def

lemma deposit_contribution_open:
  assumes "ti_intentType r = TransactionIntentType.deposit" "ti_status r \<noteq> TransactionIntentStatus.settled"
  shows "contribution r k = 0"
  using assms by (simp add: contribution.simps Let_def split: option.splits)

lemmas deposit_inv = intent_ok_def deposit_ok_def in_state_def settled_amount_ok_def chain_is_def
  deposit_contribution_open same_request_def newDepositTransaction_def

lemmas audit_core = bookkeepingD [OF bookkeeping_cases(5)]

section \<open>Broadcast and failure\<close>

lemma recordDepositBroadcast_keeps:
  assumes run: "recordDepositBroadcast_transaction i dto actor s = Inr (r, t)" and inv: "service_inv s"
    and old: "intent_row s i = Some old" and dep: "ti_intentType old = TransactionIntentType.deposit"
  shows "service_inv t"
proof (cases "t = s")
  case False
  note id = service_inv_row(3) [OF inv old] and ok = service_inv_row(2) [OF inv old]
  have q: "in_state TransactionIntentStatus.queued old"
    using run old id False by (auto simp: recordDepositBroadcast_transaction_def deposit_run Let_def split: if_splits)
  with ok dep have l: "latest_of s i = None" by (auto simp: deposit_inv)
  show ?thesis
  proof (rule service_inv_chain_append [OF inv old])
    show "same_core (s\<lparr>cuid_count := Suc (cuid_count s), blockchainTransactions := blockchainTransactions s @
        [newDepositTransaction old (Some (rb_txHash dto)) BlockchainTransactionStatus.broadcast
          (rb_fromAddress dto) (rb_toAddress dto) (cuid_of s (cuid_count s))],
      transactionIntents := update_rows ti_id i (\<lambda>r. r\<lparr>ti_status := TransactionIntentStatus.broadcast,
         ti_failureCode := None, ti_failureReason := None\<rparr>) (transactionIntents s)\<rparr>) t"
      using run old id l False
      by (auto simp: recordDepositBroadcast_transaction_def deposit_run Let_def dest!: audit_core
          split: if_splits option.splits)
  qed (use ok q dep id in \<open>simp_all add: deposit_inv\<close>)
qed (simp add: inv)

lemma failDepositIntentExecution_keeps:
  assumes run: "failDepositIntentExecution_transaction i dto actor s = Inr (r, t)" and inv: "service_inv s"
    and old: "intent_row s i = Some old" and dep: "ti_intentType old = TransactionIntentType.deposit"
  shows "service_inv t"
proof (cases "t = s")
  case False
  note id = service_inv_row(3) [OF inv old] and ok = service_inv_row(2) [OF inv old]
  have q: "ti_policyDecision old = PolicyDecision.approved"
    "ti_status old = TransactionIntentStatus.queued \<or> ti_status old = TransactionIntentStatus.broadcast"
    using run old id False
    by (auto simp: failDepositIntentExecution_transaction_def deposit_run Let_def split: if_splits)
  let ?f = "\<lambda>r. r\<lparr>ti_status := TransactionIntentStatus.failed,
         ti_failureCode := Some (trim (fe_failureCode dto)),
         ti_failureReason := Some (trim (fe_failureReason dto))\<rparr>"
  show ?thesis
  proof (cases "latest_of s i")
    case None
    show ?thesis
    proof (rule service_inv_chain_append [OF inv old])
      show "same_core (s\<lparr>cuid_count := Suc (cuid_count s), blockchainTransactions := blockchainTransactions s @
          [newDepositTransaction old (fe_txHash dto) BlockchainTransactionStatus.failed
            (fe_fromAddress dto) (fe_toAddress dto) (cuid_of s (cuid_count s))],
        transactionIntents := update_rows ti_id i ?f (transactionIntents s)\<rparr>) t"
        using run old id None False
        by (auto simp: failDepositIntentExecution_transaction_def deposit_run Let_def dest!: audit_core
            split: if_splits option.splits)
    qed (use ok q dep id in \<open>auto simp: deposit_inv\<close>)
  next
    case (Some b)
    show ?thesis
    proof (rule service_inv_chain_update [OF inv old _ Some])
      show "same_core (s\<lparr>blockchainTransactions := update_rows bt_id (bt_id b) (\<lambda>r. r\<lparr>
             bt_txHash := coalesce (fe_txHash dto) (bt_txHash b),
             bt_status := BlockchainTransactionStatus.failed,
             bt_fromAddress := coalesce (fe_fromAddress dto) (bt_fromAddress b),
             bt_toAddress := coalesce (fe_toAddress dto) (bt_toAddress b)\<rparr>) (blockchainTransactions s),
        transactionIntents := update_rows ti_id i ?f (transactionIntents s)\<rparr>) t"
        using run old id Some False
        by (auto simp: failDepositIntentExecution_transaction_def deposit_run Let_def dest!: audit_core
            split: if_splits option.splits)
    qed (use ok q dep id in \<open>auto simp: deposit_inv\<close>)
  qed
qed (simp add: inv)

section \<open>Decision and queue\<close>

lemma decideDepositIntent_transaction_keeps:
  assumes run: "decideDepositIntent_transaction operator dto role (with_relations s old) s = Inr (r, t)"
    and inv: "service_inv s" and old: "intent_row s i = Some old"
    and dep: "ti_intentType old = TransactionIntentType.deposit"
    and q: "ti_policyDecision old = PolicyDecision.review_required" "ti_status old = TransactionIntentStatus.review_required"
  shows "service_inv t"
proof -
  note id = service_inv_row(3) [OF inv old] and ok = service_inv_row(2) [OF inv old]
  let ?yes = "de_decision dto = OperatorDecision.approved"
  show ?thesis
  proof (rule service_inv_intent [OF inv old])
    show "same_core (s\<lparr>transactionIntents := update_rows ti_id i (\<lambda>r. r\<lparr>
        ti_status := (if ?yes then resolveApprovedDepositStatus (with_relations s old)
                      else TransactionIntentStatus.failed),
        ti_policyDecision := (if ?yes then PolicyDecision.approved else PolicyDecision.denied),
        ti_failureCode := (if ?yes then None else Some ''policy_denied''),
        ti_failureReason := (if ?yes then None else trim_opt (de_denialReason dto)),
        ti_manualInterventionRequiredAt := None,
        ti_manualInterventionReviewCaseId := None\<rparr>) (transactionIntents s)\<rparr>) t"
      using run old id
      by (auto simp: decideDepositIntent_transaction_def deposit_run Let_def
          dest!: audit_core bookkeepingD [OF bookkeeping_cases(2)] intro: same_core_trans)
  qed (use ok q dep id in \<open>auto simp: deposit_inv resolveApprovedDepositStatus_def split: option.splits\<close>)
qed

text \<open>A deposit no policy has decided is never pending: its creation decides.\<close>

lemma deposit_pending_review:
  "ti_status r = TransactionIntentStatus.requested \<and> ti_policyDecision r = PolicyDecision.pending \<or>
     ti_status r = TransactionIntentStatus.review_required \<and> ti_policyDecision r = PolicyDecision.review_required \<Longrightarrow>
   intent_ok r l p b \<Longrightarrow> ti_intentType r = TransactionIntentType.deposit \<Longrightarrow>
     ti_policyDecision r = PolicyDecision.review_required \<and> ti_status r = TransactionIntentStatus.review_required"
  by (auto simp: intent_ok_def deposit_ok_def)

lemma decideDepositIntent_keeps:
  assumes run: "decideDepositIntent cfg i operator dto role s = Inr (r, t)" and inv: "service_inv s"
  shows "service_inv t"
proof -
  from run obtain old role' x where old: "intent_row s i = Some old"
    and dep: "ti_intentType old = TransactionIntentType.deposit"
    and ready: "ti_status old = TransactionIntentStatus.requested \<and> ti_policyDecision old = PolicyDecision.pending \<or>
      ti_status old = TransactionIntentStatus.review_required \<and> ti_policyDecision old = PolicyDecision.review_required"
    and step: "decideDepositIntent_transaction operator dto role' (with_relations s old) s = Inr (x, t)"
    by (auto simp: decideDepositIntent_def assertCanDecideTransactionIntent_def deposit_run)
  from deposit_pending_review [OF ready service_inv_row(2) [OF inv old] dep] show ?thesis
    using decideDepositIntent_transaction_keeps [OF step inv old dep] by blast
qed

lemma queueApprovedDepositIntent_transaction_keeps:
  assumes run: "queueApprovedDepositIntent_transaction operator role (with_relations s old) s = Inr (r, t)"
    and inv: "service_inv s" and old: "intent_row s i = Some old"
    and dep: "ti_intentType old = TransactionIntentType.deposit" and q: "in_state TransactionIntentStatus.approved old"
  shows "service_inv t"
proof -
  note id = service_inv_row(3) [OF inv old] and ok = service_inv_row(2) [OF inv old]
  show ?thesis
  proof (rule service_inv_intent [OF inv old])
    show "same_core (s\<lparr>transactionIntents := update_rows ti_id i (\<lambda>r. r\<lparr>
        ti_status := TransactionIntentStatus.queued, ti_failureCode := None, ti_failureReason := None\<rparr>)
        (transactionIntents s)\<rparr>) t"
      using run old id
      by (auto simp: queueApprovedDepositIntent_transaction_def deposit_run Let_def dest!: audit_core)
  qed (use ok q dep id in \<open>auto simp: deposit_inv\<close>)
qed

lemma queueApprovedDepositIntent_keeps:
  assumes run: "queueApprovedDepositIntent cfg i operator role s = Inr (r, t)" and inv: "service_inv s"
  shows "service_inv t"
proof -
  from run obtain old role' x where old: "intent_row s i = Some old"
    and dep: "ti_intentType old = TransactionIntentType.deposit"
    and rest: "t = s \<or> in_state TransactionIntentStatus.approved old \<and>
      queueApprovedDepositIntent_transaction operator role' (with_relations s old) s = Inr (x, t)"
    by (auto simp: queueApprovedDepositIntent_def assertCanOperateCustody_def deposit_run split: if_splits) blast
  from rest show ?thesis using inv queueApprovedDepositIntent_transaction_keeps [OF _ inv old dep] by blast
qed

section \<open>Confirmation\<close>

lemma placeDepositIntentUnderReview_keeps:
  assumes run: "placeDepositIntentUnderReview (with_relations s old) actor v s = Inr (w, t)"
    and inv: "service_inv s" and old: "intent_row s i = Some old"
    and dep: "ti_intentType old = TransactionIntentType.deposit"
    and st: "ti_status old = TransactionIntentStatus.broadcast \<or> ti_status old = TransactionIntentStatus.confirmed"
  shows "service_inv t"
proof -
  note id = service_inv_row(3) [OF inv old] and ok = service_inv_row(2) [OF inv old]
  from run obtain c :: review_case and u where case_run: "same_core s u"
    and upd: "same_core (u\<lparr>transactionIntents := update_rows ti_id i (\<lambda>r. r\<lparr>
        ti_status := TransactionIntentStatus.review_required,
        ti_policyDecision := PolicyDecision.review_required,
        ti_failureCode := Some (fst v), ti_failureReason := Some (snd v),
        ti_manualInterventionRequiredAt := Some (now_ms s),
        ti_manualInterventionReviewCaseId := Some (rc_id c)\<rparr>) (transactionIntents u)\<rparr>) t"
    by (auto simp: placeDepositIntentUnderReview_def Let_def deposit_run id
        dest!: audit_core bookkeepingD [OF bookkeeping_cases(1)])
  have invu: "service_inv u" by (rule service_inv_bookkeeping [OF inv case_run])
  have oldu: "intent_row u i = Some old" using case_run old by (simp add: same_core_def intent_row_def)
  note oku = service_inv_row(2) [OF invu oldu]
  show ?thesis
    by (rule service_inv_intent [OF invu oldu _ _ _ upd]) (use oku dep st in \<open>auto simp: deposit_inv\<close>)
qed

lemma confirmDepositIntent_keeps:
  assumes run: "confirmDepositIntent_transaction i h actor s = Inr (r, t)" and inv: "service_inv s"
    and old: "intent_row s i = Some old" and dep: "ti_intentType old = TransactionIntentType.deposit"
  shows "service_inv t"
proof (cases "t = s")
  case False
  note id = service_inv_row(3) [OF inv old] and ok = service_inv_row(2) [OF inv old]
  from run old id False obtain b where l: "latest_of s i = Some b"
    and q: "in_state TransactionIntentStatus.broadcast old"
    by (auto simp: confirmDepositIntent_transaction_def deposit_run Let_def split: if_splits)
  show ?thesis
  proof (cases "evaluateDepositChainProof (with_relations s old)")
    case None
    show ?thesis
    proof (rule service_inv_chain_update [OF inv old _ l])
      show "same_core (s\<lparr>blockchainTransactions := update_rows bt_id (bt_id b) (\<lambda>r. r\<lparr>
          bt_status := BlockchainTransactionStatus.confirmed,
          bt_confirmedAt := Some (now_ms s)\<rparr>) (blockchainTransactions s),
        transactionIntents := update_rows ti_id i (\<lambda>r. r\<lparr>
          ti_status := TransactionIntentStatus.confirmed\<rparr>) (transactionIntents s)\<rparr>) t"
        using run old id l False None
        by (auto simp: confirmDepositIntent_transaction_def deposit_run Let_def dest!: audit_core split: if_splits)
    qed (use ok q dep id in \<open>auto simp: deposit_inv\<close>)
  next
    case (Some v)
    have "\<exists>w. placeDepositIntentUnderReview (with_relations s old) actor v s = Inr (w, t)"
      using run old id l False Some
      by (auto simp: confirmDepositIntent_transaction_def deposit_run Let_def split: if_splits)
    then show ?thesis
      using placeDepositIntentUnderReview_keeps [OF _ inv old dep] q by (auto simp: in_state_def)
  qed
qed (simp add: inv)

section \<open>Settlement\<close>

lemma customer_no_colon:
  assumes "service_inv s" "follow ca_id (customerAccounts s) k = Some a"
  shows "k = Some (ca_id a)" "no_colon (ca_id a)"
  using follow_SomeD [OF assms(2)] service_inv_parts(5) [OF assms(1)] by (auto simp: accounts_wf_def)

definition newProof :: "transaction_intent \<Rightarrow> blockchain_transaction \<Rightarrow> SettledDepositLedgerResult \<Rightarrow> int
    \<Rightarrow> string \<Rightarrow> deposit_settlement_proof" where
  "newProof intent b ledgerResult now i =
     \<lparr>dp_id = i, dp_transactionIntentId = ti_id intent, dp_blockchainTransactionId = bt_id b,
      dp_ledgerJournalId = sd_ledgerJournalId ledgerResult, dp_assetId = ti_assetId intent,
      dp_chainId = ti_chainId intent, dp_txHash = the (bt_txHash b),
      dp_fromAddress = the (bt_fromAddress b), dp_toAddress = the (bt_toAddress b),
      dp_settledAmount = ti_requestedAmount intent,
      dp_confirmedAt = (case bt_confirmedAt b of None \<Rightarrow> now | Some at \<Rightarrow> at)\<rparr>"

lemma settleConfirmedDepositIntent_run:
  assumes run: "settleConfirmedDepositIntent_transaction i actor s = Inr (r, t)"
    and old: "intent_row s i = Some old" and id: "ti_id old = i" and "t \<noteq> s"
    and proof_ok: "evaluateDepositChainProof (with_relations s old) = None"
  shows "\<exists>a b x u d. follow ca_id (customerAccounts s) (ti_customerAccountId old) = Some a \<and>
    in_state TransactionIntentStatus.confirmed old \<and> latest_of s i = Some b \<and>
    bt_status b = BlockchainTransactionStatus.confirmed \<and> truthy (bt_txHash b) \<and>
    settleConfirmedDeposit (ledgerParams (ca_id a) old) s = Inr (x, u) \<and>
    d = newProof old b x (now_ms u) (cuid_of u (cuid_count u)) \<and>
    (\<forall>d'\<in>set (depositSettlementProofs u). dp_transactionIntentId d' \<noteq> dp_transactionIntentId d \<and>
       \<not> (dp_chainId d' = dp_chainId d \<and> dp_txHash d' = dp_txHash d)) \<and>
    same_core (u\<lparr>cuid_count := Suc (cuid_count u),
      depositSettlementProofs := depositSettlementProofs u @ [d],
      transactionIntents := update_rows ti_id i (\<lambda>r. r\<lparr>ti_status := TransactionIntentStatus.settled,
        ti_settledAmount := Some (ti_requestedAmount old)\<rparr>) (transactionIntents u)\<rparr>) t"
  using assms
  by (auto simp: settleConfirmedDepositIntent_transaction_def requireProof_def requireConfirmed_def
      assertNoConflictingDepositSettlementProof_def newProof_def deposit_run Let_def
      dest!: audit_core split: if_splits)


lemma settleConfirmedDepositIntent_keeps:
  assumes run: "settleConfirmedDepositIntent_transaction i actor s = Inr (r, t)" and inv: "service_inv s"
    and old: "intent_row s i = Some old" and dep: "ti_intentType old = TransactionIntentType.deposit"
  shows "service_inv t"
proof (cases "t = s")
  case False
  note id = service_inv_row(3) [OF inv old] and ok = service_inv_row(2) [OF inv old]
  show ?thesis
  proof (cases "evaluateDepositChainProof (with_relations s old)")
    case None
    from settleConfirmedDepositIntent_run [OF run old id False None] obtain a b x u d where
      a: "follow ca_id (customerAccounts s) (ti_customerAccountId old) = Some a"
      and q: "in_state TransactionIntentStatus.confirmed old" and l: "latest_of s i = Some b"
      and b: "bt_status b = BlockchainTransactionStatus.confirmed" "truthy (bt_txHash b)"
      and led: "settleConfirmedDeposit (ledgerParams (ca_id a) old) s = Inr (x, u)"
      and d: "d = newProof old b x (now_ms u) (cuid_of u (cuid_count u))"
      and fresh: "\<forall>d'\<in>set (depositSettlementProofs u). dp_transactionIntentId d' \<noteq> dp_transactionIntentId d \<and>
         \<not> (dp_chainId d' = dp_chainId d \<and> dp_txHash d' = dp_txHash d)"
      and core: "same_core (u\<lparr>cuid_count := Suc (cuid_count u),
        depositSettlementProofs := depositSettlementProofs u @ [d],
        transactionIntents := update_rows ti_id i (\<lambda>r. r\<lparr>ti_status := TransactionIntentStatus.settled,
          ti_settledAmount := Some (ti_requestedAmount old)\<rparr>) (transactionIntents u)\<rparr>) t"
      by blast
    let ?f = "\<lambda>r. r\<lparr>ti_status := TransactionIntentStatus.settled,
          ti_settledAmount := Some (ti_requestedAmount old)\<rparr>"
    let ?v = "u\<lparr>cuid_count := Suc (cuid_count u), depositSettlementProofs := depositSettlementProofs u @ [d],
        transactionIntents := update_rows ti_id i ?f (transactionIntents u)\<rparr>"
    have req: "same_request ?f" by (simp add: same_request_def)
    have pos: "0 < ti_requestedAmount old" using ok by (simp add: intent_ok_def)
    note cust = customer_no_colon [OF inv a]
    have book: "booking i deposit_settlement
        (moves (buildInboundClearingLedgerKey (ti_chainId old) (ti_assetId old))
          (buildCustomerLiabilityLedgerKey (ca_id a) (ti_assetId old)) (ti_requestedAmount old)) s u"
      using settleConfirmedDeposit_booking [OF led service_inv_parts(1) [OF inv] pos cust(2)] by (simp add: id)
    then have sv: "same_services s u" by (simp add: booking_def)
    have ids: "ti_id ` set (transactionIntents ?v) = ti_id ` set (transactionIntents s)"
      using sv by (simp add: same_services_def ids_update_set [OF req])
    have chain: "chain_wf ?v" "latest_of ?v k = latest_of s k" for k
      by (rule chain_unchanged [OF service_inv_parts(3) [OF inv] ids]; use sv in \<open>simp add: same_services_def\<close>)+
    have di: "dp_transactionIntentId d = i" by (simp add: d newProof_def id)
    have old_proofs: "find (\<lambda>d'. dp_transactionIntentId d' = i) (depositSettlementProofs s) = None"
      using sv fresh di by (auto simp: find_None_iff same_services_def)
    have proofs: "proof_of ?v k = (if k = i then Some d else proof_of s k)" for k
      using sv di old_proofs
      by (cases "k = i") (auto simp: proof_of_def same_services_def find_append split: option.splits)
    have "service_inv ?v"
    proof (rule service_inv_booked [OF inv old off_ledger_refl book _ _ _ req])
      show "contribution (?f old) k = contribution old k +
        moves (buildInboundClearingLedgerKey (ti_chainId old) (ti_assetId old))
          (buildCustomerLiabilityLedgerKey (ca_id a) (ti_assetId old)) (ti_requestedAmount old) k" for k
        using q dep cust(1) by (simp add: contribution.simps in_state_def Let_def)
      show "proofs_wf ?v"
        using service_inv_parts(4) [OF inv] sv fresh di intent_row_in [OF old]
        unfolding proofs_wf_def ids by (simp add: same_services_def image_iff) metis
      obtain h where "bt_txHash b = Some h" using b(2) by (auto simp: truthy_iff)
      then have "proof_matches old b d" by (simp add: proof_matches_def d newProof_def)
      then show "intent_ok (?f old) (latest_of ?v i) (proof_of ?v i) (\<lambda>ty'. booked s i ty' \<or> ty' = deposit_settlement)"
        using ok q dep b(1) l by (auto simp: deposit_inv chain proofs proof_matches_def)
    qed (simp_all add: chain proofs, use sv in \<open>simp_all add: off_ledger_def same_money_def same_services_def\<close>)
    then show ?thesis using core by (rule service_inv_bookkeeping)
  next
    case (Some v)
    have "in_state TransactionIntentStatus.confirmed old \<and>
      (\<exists>w. placeDepositIntentUnderReview (with_relations s old) actor v s = Inr (w, t))"
      using run old id False Some
      by (auto simp: settleConfirmedDepositIntent_transaction_def requireProof_def requireConfirmed_def
          deposit_run Let_def split: if_splits)
    then show ?thesis
      using placeDepositIntentUnderReview_keeps [OF _ inv old dep, where v = v] by (auto simp: in_state_def)
  qed
qed (simp add: inv)

section \<open>Request\<close>

lemma newDepositIntent_sel [simp]:
  "ti_id (newDepositIntent cfg dto dec ctx n i) = i"
  "ti_idempotencyKey (newDepositIntent cfg dto dec ctx n i) = cd_idempotencyKey dto"
  "ti_intentType (newDepositIntent cfg dto dec ctx n i) = TransactionIntentType.deposit"
  "ti_status (newDepositIntent cfg dto dec ctx n i) = rd_nextStatus dec"
  "ti_policyDecision (newDepositIntent cfg dto dec ctx n i) = rd_nextPolicyDecision dec"
  "ti_requestedAmount (newDepositIntent cfg dto dec ctx n i) = cd_amount dto"
  "ti_settledAmount (newDepositIntent cfg dto dec ctx n i) = None"
  "ti_customerAccountId (newDepositIntent cfg dto dec ctx n i) = Some (ctx_customerAccountId ctx)"
  by (simp_all add: newDepositIntent_def)

lemma decision_cases:
  "(rd_nextStatus (resolveDepositRequestDecision cfg sy x),
    rd_nextPolicyDecision (resolveDepositRequestDecision cfg sy x)) \<in>
   {(TransactionIntentStatus.approved, PolicyDecision.approved),
    (TransactionIntentStatus.review_required, PolicyDecision.review_required)}"
  by (auto simp: resolveDepositRequestDecision_def Let_def)

lemma createDepositIntent_transaction_keeps:
  assumes run: "createDepositIntent_transaction cfg user dto dec ctx s = Inr (r, t)" and inv: "service_inv s"
    and dec: "dec = resolveDepositRequestDecision cfg sy (cd_amount dto)" and pos: "0 < cd_amount dto"
    and ctx: "ctx_customerAccountId ctx \<in> ca_id ` set (customerAccounts s)"
  shows "service_inv t"
proof -
  let ?i = "cuid_of s (cuid_count s)"
  let ?r = "newDepositIntent cfg dto dec ctx (if rd_requiresReview dec then Some (now_ms s) else None) ?i"
  let ?s1 = "s\<lparr>cuid_count := Suc (cuid_count s), transactionIntents := transactionIntents s @ [?r]\<rparr>"
  have new: "intent_ok ?r None None (booked ?s1 ?i)"
    using decision_cases [of cfg sy "cd_amount dto"] pos fresh_intent(4) [OF inv next_id_fresh [OF inv]]
    by (auto simp: deposit_inv dec booked_def recorded_def)
  have inv1: "service_inv ?s1"
  proof (rule service_inv_insert [OF inv refl])
    show "ledger_invariant ?s1"
      by (rule off_ledger_invariant [OF _ service_inv_parts(1) [OF inv]])
        (simp add: off_ledger_def same_money_def)
    show "ti_idempotencyKey ?r \<notin> ti_idempotencyKey ` set (transactionIntents s)"
      using run by (auto simp: createDepositIntent_transaction_def deposit_run)
    show "key_net ?s1 k = key_net s k + contribution ?r k" for k
    proof -
      have "contribution ?r k = 0"
        using decision_cases [of cfg sy "cd_amount dto"] by (intro deposit_contribution_open) (auto simp: dec)
      then show ?thesis using off_ledger_key_net [of s ?s1 k] by (simp add: off_ledger_def same_money_def)
    qed
    show "parties_ok ?s1 ?r" using ctx by (auto simp: parties_ok_def)
  qed (simp_all add: new booked_def recorded_def)
  have row: "intent_row ?s1 ?i = Some ?r"
    by (rule intent_row_of [OF service_inv_parts(2) [OF inv1], of ?r, simplified])
  show ?thesis
  proof (cases "rd_requiresReview dec")
    case False
    then have "same_core ?s1 t"
      using run by (auto simp: createDepositIntent_transaction_def deposit_run
          dest!: bookkeepingD [OF bookkeeping_write_case(4)])
    then show ?thesis by (rule service_inv_bookkeeping [OF inv1])
  next
    case True
    from run obtain c :: review_case and u where case_run: "same_core ?s1 u"
      and upd: "same_core (u\<lparr>transactionIntents := update_rows ti_id ?i
        (\<lambda>r. r\<lparr>ti_manualInterventionReviewCaseId := Some (rc_id c)\<rparr>) (transactionIntents u)\<rparr>) t"
      by (auto simp: createDepositIntent_transaction_def deposit_run True split: prod.splits
          dest!: bookkeepingD [OF bookkeeping_write_case(4)] bookkeepingD [OF bookkeeping_cases(1)])
    have invu: "service_inv u" by (rule service_inv_bookkeeping [OF inv1 case_run])
    have rowu: "intent_row u ?i = Some ?r" using case_run row by (simp add: same_core_def intent_row_def)
    show ?thesis
      by (rule service_inv_intent [OF invu rowu _ _ _ upd])
        (use service_inv_row(2) [OF invu rowu] in \<open>auto simp: same_request_def intent_ok_def
          settled_amount_ok_def deposit_ok_def contribution.simps proof_matches_def split: if_splits\<close>)
  qed
qed

end
