(* ===== verification/Withdrawal_Lifecycle.thy ===== *)
theory Withdrawal_Lifecycle
  imports Deposit_Lifecycle
begin

text \<open>
  Every withdrawal operation preserves the service invariant: the reservation is booked with the
  request, released exactly when the intent fails, settled exactly when it settles.
\<close>

lemma service_inv_ledger_update:
  assumes inv: "service_inv s" and old: "intent_row s i = Some old" and req: "same_request f"
    and off: "off_ledger s u" and tabs: "transactionIntents u = transactionIntents s"
      "depositSettlementProofs u = depositSettlementProofs s" "customerAccounts u = customerAccounts s"
    and chain: "chain_wf u" "\<And>k. latest_of u k = (if k = i then l else latest_of s k)"
    and book: "booking i ty sh u v"
    and shift: "\<And>k. contribution (f old) k = contribution old k + sh k"
    and new: "intent_ok (f old) l (proof_of s i) (\<lambda>ty'. booked s i ty' \<or> ty' = ty)"
    and core: "same_core (v\<lparr>transactionIntents := update_rows ti_id i f (transactionIntents v)\<rparr>) t"
  shows "service_inv t"
proof (rule service_inv_bookkeeping [OF _ core])
  let ?w = "v\<lparr>transactionIntents := update_rows ti_id i f (transactionIntents v)\<rparr>"
  have sv: "same_services u v" using book by (simp add: booking_def)
  have ids: "ti_id ` set (transactionIntents ?w) = ti_id ` set (transactionIntents u)"
    using sv by (simp add: same_services_def ids_update_set [OF req])
  have ch: "chain_wf ?w" "latest_of ?w k = latest_of u k" for k
    by (rule chain_unchanged [OF chain(1) ids]; use sv in \<open>simp add: same_services_def\<close>)+
  have pr: "depositSettlementProofs ?w = depositSettlementProofs s"
    using sv tabs by (simp add: same_services_def)
  then have po: "proof_of ?w k = proof_of s k" for k by (simp add: proof_of_def)
  show "service_inv ?w"
  proof (rule service_inv_booked [OF inv old off book _ _ _ req shift])
    show "proofs_wf ?w"
      using service_inv_parts(4) [OF inv] ids tabs(1) unfolding proofs_wf_def pr by simp
  qed (simp_all add: ch po chain new, use sv tabs in \<open>simp_all add: off_ledger_def same_money_def same_services_def\<close>)
qed

lemmas withdrawal_run = tx_iff found_Some withdrawal_guards findWithdrawalIntentForReview_def

lemmas withdrawal_inv = intent_ok_def withdrawal_ok_def in_state_def settled_amount_ok_def chain_is_def
  same_request_def newWithdrawalTransaction_def

lemma withdrawal_contribution:
  assumes "ti_intentType r = TransactionIntentType.withdrawal" "ti_customerAccountId r = Some c"
  shows "contribution r k =
    (if ti_status r = TransactionIntentStatus.failed then 0
     else moves (buildCustomerLiabilityLedgerKey c (ti_assetId r))
       (if ti_status r = TransactionIntentStatus.settled
        then buildOutboundClearingLedgerKey (ti_chainId r) (ti_assetId r)
        else buildPendingWithdrawalLiabilityLedgerKey c (ti_assetId r)) (ti_requestedAmount r) k)"
  using assms by (simp add: contribution.simps Let_def)

text \<open>A withdrawal that stays open keeps its funds on the pending account.\<close>

lemma withdrawal_stays_open:
  assumes "ti_intentType r = TransactionIntentType.withdrawal" "same_request f"
    "ti_status r \<notin> {TransactionIntentStatus.failed, TransactionIntentStatus.settled}"
    "ti_status (f r) \<notin> {TransactionIntentStatus.failed, TransactionIntentStatus.settled}"
  shows "contribution (f r) k = contribution r k"
  using assms by (simp add: contribution.simps same_request_def Let_def split: option.splits)

section \<open>Decision and queue\<close>

lemma decideWithdrawalIntent_run:
  assumes "decideWithdrawalIntent cfg i operator dto role s = Inr (r, t)"
  shows "\<exists>u old role'. same_core s u \<and> intent_row u i = Some old \<and>
    ti_intentType old = TransactionIntentType.withdrawal \<and>
    ti_status old = TransactionIntentStatus.requested \<and> ti_policyDecision old = PolicyDecision.pending \<and>
    decideWithdrawalIntent_transaction operator dto role' (with_relations u old) u = Inr (res_intent r, t)"
  using assms
  by (auto simp: decideWithdrawalIntent_def assertCanDecideTransactionIntent_def withdrawal_run
      dest!: bookkeepingD [OF bookkeeping_gates(1)] split: if_splits) (metis same_core_refl)+

lemma decideWithdrawalIntent_transaction_keeps:
  assumes run: "decideWithdrawalIntent_transaction operator dto role (with_relations s old) s = Inr (r, t)"
    and inv: "service_inv s" and old: "intent_row s i = Some old"
    and wd: "ti_intentType old = TransactionIntentType.withdrawal"
    and q: "ti_status old = TransactionIntentStatus.requested" "ti_policyDecision old = PolicyDecision.pending"
  shows "service_inv t"
proof -
  note id = service_inv_row(3) [OF inv old] and ok = service_inv_row(2) [OF inv old]
  show ?thesis
  proof (cases "de_decision dto = OperatorDecision.approved")
    case True
    show ?thesis
    proof (rule service_inv_intent [OF inv old])
      show "same_core (s\<lparr>transactionIntents := update_rows ti_id i (\<lambda>r. r\<lparr>
          ti_status := TransactionIntentStatus.approved, ti_policyDecision := PolicyDecision.approved,
          ti_failureCode := None, ti_failureReason := None\<rparr>) (transactionIntents s)\<rparr>) t"
        using run old id True
        by (auto simp: decideWithdrawalIntent_transaction_def withdrawal_run Let_def dest!: audit_core)
    qed (use ok q wd id in \<open>auto simp: withdrawal_inv intro!: withdrawal_stays_open\<close>)
  next
    case False
    let ?f = "\<lambda>r. r\<lparr>ti_status := TransactionIntentStatus.failed, ti_policyDecision := PolicyDecision.denied,
          ti_failureCode := Some ''policy_denied'', ti_failureReason := trim_opt (de_denialReason dto)\<rparr>"
    from run old id False obtain a x v where
      a: "follow ca_id (customerAccounts s) (ti_customerAccountId old) = Some a"
      and led: "releaseWithdrawalReservation (ledgerParams (ca_id a) old) s = Inr (x, v)"
      and core: "same_core (v\<lparr>transactionIntents := update_rows ti_id i ?f (transactionIntents v)\<rparr>) t"
      by (auto simp: decideWithdrawalIntent_transaction_def withdrawal_run Let_def dest!: audit_core)
    have pos: "0 < ti_requestedAmount old" using ok by (simp add: intent_ok_def)
    note cust = customer_no_colon [OF inv a]
    note book = releaseWithdrawalReservation_booking [OF led service_inv_parts(1) [OF inv] pos cust(2), unfolded id]
    show ?thesis
      by (rule service_inv_ledger_update [OF inv old _ off_ledger_refl refl refl refl
            service_inv_parts(3) [OF inv] _ book _ _ core])
        (use ok q wd id cust(1) in \<open>auto simp: withdrawal_inv withdrawal_contribution moves_def\<close>)
  qed
qed

lemma decideWithdrawalIntent_keeps:
  assumes run: "decideWithdrawalIntent cfg i operator dto role s = Inr (r, t)" and inv: "service_inv s"
  shows "service_inv t"
  using decideWithdrawalIntent_run [OF run] service_inv_bookkeeping [OF inv]
    decideWithdrawalIntent_transaction_keeps by metis

lemma queueApprovedWithdrawalIntent_transaction_keeps:
  assumes run: "queueApprovedWithdrawalIntent_transaction operator role (with_relations s old) s = Inr (r, t)"
    and inv: "service_inv s" and old: "intent_row s i = Some old"
    and wd: "ti_intentType old = TransactionIntentType.withdrawal" and q: "in_state TransactionIntentStatus.approved old"
  shows "service_inv t"
proof -
  note id = service_inv_row(3) [OF inv old] and ok = service_inv_row(2) [OF inv old]
  show ?thesis
  proof (rule service_inv_intent [OF inv old])
    show "same_core (s\<lparr>transactionIntents := update_rows ti_id i (\<lambda>r. r\<lparr>
        ti_status := TransactionIntentStatus.queued, ti_failureCode := None, ti_failureReason := None,
        ti_executionFailureCategory := None, ti_executionFailureObservedAt := None,
        ti_manualInterventionRequiredAt := None, ti_manualInterventionReviewCaseId := None,
        ti_executionClaimedAt := None, ti_executionClaimedByWorkerId := None\<rparr>) (transactionIntents s)\<rparr>) t"
      using run old id
      by (auto simp: queueApprovedWithdrawalIntent_transaction_def withdrawal_run Let_def dest!: audit_core)
  qed (use ok q wd id in \<open>auto simp: withdrawal_inv intro!: withdrawal_stays_open\<close>)
qed

lemma queueApprovedWithdrawalIntent_keeps:
  assumes run: "queueApprovedWithdrawalIntent cfg i operator role s = Inr (r, t)" and inv: "service_inv s"
  shows "service_inv t"
proof -
  from run obtain u old role' x where gate: "same_core s u" and old: "intent_row u i = Some old"
    and wd: "ti_intentType old = TransactionIntentType.withdrawal"
    and rest: "t = u \<or> in_state TransactionIntentStatus.approved old \<and>
      queueApprovedWithdrawalIntent_transaction operator role' (with_relations u old) u = Inr (x, t)"
    by (auto simp: queueApprovedWithdrawalIntent_def assertCanOperateCustody_def withdrawal_run
        dest!: bookkeepingD [OF bookkeeping_gates(1)] split: if_splits) blast
  note invu = service_inv_bookkeeping [OF inv gate]
  from rest show ?thesis using invu queueApprovedWithdrawalIntent_transaction_keeps [OF _ invu old wd] by blast
qed

section \<open>Execution by a worker\<close>

lemma normalize_pure: "normalizeBlockchainAddress evm v n s = Inr (x, t) \<Longrightarrow> t = s"
  by (auto simp: normalizeBlockchainAddress_def tx_iff Let_def split: if_splits)

lemma broadcast_addresses_pure: "resolveWithdrawalBroadcastAddresses evm r a b s = Inr (x, t) \<Longrightarrow> t = s"
  by (auto simp: resolveWithdrawalBroadcastAddresses_def tx_iff dest!: normalize_pure split: if_splits)

lemmas withdrawal_core = audit_core broadcast_addresses_pure bookkeepingD [OF bookkeeping_write_case(4)]

lemma startManagedWithdrawalExecution_keeps:
  assumes run: "startManagedWithdrawalExecution_transaction evm i w at stale s = Inr (r, t)" and inv: "service_inv s"
    and old: "intent_row s i = Some old" and wd: "ti_intentType old = TransactionIntentType.withdrawal"
  shows "service_inv t"
proof (cases "t = s")
  case False
  note id = service_inv_row(3) [OF inv old] and ok = service_inv_row(2) [OF inv old]
  have q: "in_state TransactionIntentStatus.queued old"
    using run old False by (auto simp: startManagedWithdrawalExecution_transaction_def withdrawal_run Let_def
        split: if_splits)
  let ?f = "\<lambda>r. r\<lparr>ti_executionClaimedAt := Some at, ti_executionClaimedByWorkerId := Some w\<rparr>"
  show ?thesis
  proof (cases "latest_of s i")
    case None
    from run old id False obtain "from" "to" where
      core: "same_core (s\<lparr>transactionIntents := update_rows ti_id i ?f (transactionIntents s),
        cuid_count := Suc (cuid_count s), blockchainTransactions := blockchainTransactions s @
          [newWithdrawalTransaction old None BlockchainTransactionStatus.created from to None (cuid_of s (cuid_count s))]\<rparr>) t"
      using None
      by (auto simp: startManagedWithdrawalExecution_transaction_def withdrawal_run Let_def
        dest!: withdrawal_core split: if_splits prod.splits)
    have core': "same_core (s\<lparr>cuid_count := Suc (cuid_count s), blockchainTransactions := blockchainTransactions s @
          [newWithdrawalTransaction old None BlockchainTransactionStatus.created from to None (cuid_of s (cuid_count s))],
        transactionIntents := update_rows ti_id i ?f (transactionIntents s)\<rparr>) t"
      by (rule back_subst [of "\<lambda>u. same_core u t", OF core]) simp
    show ?thesis
      by (rule service_inv_chain_append [OF inv old _ _ _ _ _ core'])
       (use ok q wd id in \<open>auto simp: withdrawal_inv intro!: withdrawal_stays_open\<close>)
  next
    case (Some b)
    show ?thesis
    proof (rule service_inv_intent [OF inv old])
      show "same_core (s\<lparr>transactionIntents := update_rows ti_id i ?f (transactionIntents s)\<rparr>) t"
        using run old id Some False
        by (auto simp: startManagedWithdrawalExecution_transaction_def withdrawal_run Let_def
          dest!: withdrawal_core split: if_splits prod.splits)
    qed (use ok q wd id in \<open>auto simp: withdrawal_inv intro!: withdrawal_stays_open\<close>)
  qed
qed (simp add: inv)

lemma recordSignedWithdrawalExecution_keeps:
  assumes run: "recordSignedWithdrawalExecution_transaction evm i w dto s = Inr (r, t)" and inv: "service_inv s"
    and old: "intent_row s i = Some old" and wd: "ti_intentType old = TransactionIntentType.withdrawal"
  shows "service_inv t"
proof (cases "t = s")
  case False
  note id = service_inv_row(3) [OF inv old] and ok = service_inv_row(2) [OF inv old]
  from run old id False obtain b "from" "to" where l: "latest_of s i = Some b"
    and q: "in_state TransactionIntentStatus.queued old"
    and core: "same_core (s\<lparr>blockchainTransactions := update_rows bt_id (bt_id b) (\<lambda>r. r\<lparr>
         bt_txHash := Some (rs_txHash dto), bt_nonce := Some (rs_nonce dto),
         bt_serializedTransaction := Some (rs_serializedTransaction dto),
         bt_status := BlockchainTransactionStatus.signed,
         bt_fromAddress := Some from, bt_toAddress := Some to\<rparr>) (blockchainTransactions s),
         transactionIntents := update_rows ti_id i (\<lambda>r. r) (transactionIntents s)\<rparr>) t"
    by (auto simp: recordSignedWithdrawalExecution_transaction_def withdrawal_run Let_def update_rows_def
       dest!: withdrawal_core split: if_splits)
  show ?thesis
    by (rule service_inv_chain_update [OF inv old _ l _ _ _ _ core])
      (use ok q wd id in \<open>auto simp: withdrawal_inv\<close>)
qed (simp add: inv)

lemma recordWithdrawalBroadcast_keeps:
  assumes run: "recordWithdrawalBroadcast_transaction evm i dto actor s = Inr (r, t)" and inv: "service_inv s"
    and old: "intent_row s i = Some old" and wd: "ti_intentType old = TransactionIntentType.withdrawal"
  shows "service_inv t"
proof (cases "t = s")
  case False
  note id = service_inv_row(3) [OF inv old] and ok = service_inv_row(2) [OF inv old]
  have q: "in_state TransactionIntentStatus.queued old"
    using run old False by (auto simp: recordWithdrawalBroadcast_transaction_def withdrawal_run Let_def
        split: if_splits)
  let ?f = "\<lambda>r. r\<lparr>ti_status := TransactionIntentStatus.broadcast,
         ti_failureCode := None, ti_failureReason := None,
         ti_executionFailureCategory := None, ti_executionFailureObservedAt := None,
         ti_executionClaimedAt := None, ti_executionClaimedByWorkerId := None,
         ti_manualInterventionRequiredAt := None, ti_manualInterventionReviewCaseId := None\<rparr>"
  show ?thesis
  proof (cases "latest_of s i")
    case None
    from run old id False obtain "from" "to" where
      core: "same_core (s\<lparr>cuid_count := Suc (cuid_count s), blockchainTransactions := blockchainTransactions s @
          [newWithdrawalTransaction old (Some (rb_txHash dto)) BlockchainTransactionStatus.broadcast from to
             (Some (now_ms s)) (cuid_of s (cuid_count s))],
        transactionIntents := update_rows ti_id i ?f (transactionIntents s)\<rparr>) t"
      using None
      by (auto simp: recordWithdrawalBroadcast_transaction_def withdrawal_run Let_def
        dest!: withdrawal_core split: if_splits prod.splits)
    show ?thesis
      by (rule service_inv_chain_append [OF inv old _ _ _ _ _ core])
       (use ok q wd id in \<open>auto simp: withdrawal_inv intro!: withdrawal_stays_open\<close>)
  next
    case (Some b)
    from run old id False obtain "from" "to" where
      core: "same_core (s\<lparr>blockchainTransactions := update_rows bt_id (bt_id b) (\<lambda>r. r\<lparr>
             bt_txHash := Some (rb_txHash dto), bt_status := BlockchainTransactionStatus.broadcast,
             bt_broadcastAt := Some (now_ms s),
             bt_fromAddress := Some from, bt_toAddress := Some to\<rparr>) (blockchainTransactions s),
        transactionIntents := update_rows ti_id i ?f (transactionIntents s)\<rparr>) t"
      using Some
      by (auto simp: recordWithdrawalBroadcast_transaction_def withdrawal_run Let_def
        dest!: withdrawal_core split: if_splits prod.splits)
    show ?thesis
      by (rule service_inv_chain_update [OF inv old _ Some _ _ _ _ core])
       (use ok q wd id in \<open>auto simp: withdrawal_inv intro!: withdrawal_stays_open\<close>)
  qed
qed (simp add: inv)

section \<open>Failed execution\<close>

lemma same_core_intents:
  "same_core u v \<Longrightarrow> same_core (u\<lparr>transactionIntents := g (transactionIntents u)\<rparr>)
     (v\<lparr>transactionIntents := g (transactionIntents v)\<rparr>)"
  by (auto simp: same_core_def off_ledger_def same_money_def)

lemma resolve_pure: "resolveWithdrawalExecutionFailureResolution a b c s = Inr (x, t) \<Longrightarrow> t = s"
  by (cases c) (auto simp: resolveWithdrawalExecutionFailureResolution_def tx_iff)

text \<open>The chain record a failure report leaves, the ledger step it takes and the intent's new row.\<close>

definition failed_chain_row ::
  "FailExecutionDto \<Rightarrow> WithdrawalExecutionFailureResolution \<Rightarrow> string \<Rightarrow> string
     \<Rightarrow> blockchain_transaction \<Rightarrow> blockchain_transaction \<Rightarrow> blockchain_transaction" where
  "failed_chain_row dto res from to b r = r\<lparr>bt_txHash := coalesce (fe_txHash dto) (bt_txHash b),
     bt_status := (case fr_nextBlockchainStatus res of None \<Rightarrow> bt_status b | Some st \<Rightarrow> st),
     bt_fromAddress := Some from, bt_toAddress := Some to\<rparr>"

definition failed_chain ::
  "FailExecutionDto \<Rightarrow> WithdrawalExecutionFailureResolution \<Rightarrow> string \<Rightarrow> string \<Rightarrow> transaction_intent \<Rightarrow> db \<Rightarrow> db" where
  "failed_chain dto res from to old s = (case latest_of s (ti_id old) of
     None \<Rightarrow> s\<lparr>cuid_count := Suc (cuid_count s), blockchainTransactions := blockchainTransactions s @
       [newWithdrawalTransaction old (fe_txHash dto) (case fr_nextBlockchainStatus res of
          None \<Rightarrow> BlockchainTransactionStatus.created | Some st \<Rightarrow> st) from to None (cuid_of s (cuid_count s))]\<rparr>
   | Some b \<Rightarrow> s\<lparr>blockchainTransactions := update_rows bt_id (bt_id b) (failed_chain_row dto res from to b)
       (blockchainTransactions s)\<rparr>)"

definition failed_intent ::
  "FailExecutionDto \<Rightarrow> WithdrawalExecutionFailureResolution \<Rightarrow> int \<Rightarrow> string option
     \<Rightarrow> transaction_intent \<Rightarrow> transaction_intent" where
  "failed_intent dto res at c r = r\<lparr>ti_status := fr_nextIntentStatus res,
     ti_failureCode := Some (trim (fe_failureCode dto)),
     ti_failureReason := Some (trim (fe_failureReason dto)),
     ti_executionFailureCategory := Some (normalizeWithdrawalFailureCategory (fe_failureCategory dto)),
     ti_executionFailureObservedAt := Some at,
     ti_executionClaimedAt := None, ti_executionClaimedByWorkerId := None,
     ti_manualInterventionRequiredAt := (if fr_openManualInterventionReviewCase res then Some at else None),
     ti_manualInterventionReviewCaseId := c\<rparr>"

lemma failed_chain_write:
  assumes "intent_row s (ti_id old) = Some old"
    and "(case latest_of s (ti_id old) of
           Some b \<Rightarrow> blockchainTransaction_update (bt_id b) (\<lambda>r. r\<lparr>
             bt_txHash := coalesce (fe_txHash dto) (bt_txHash b),
             bt_status := (case fr_nextBlockchainStatus res of None \<Rightarrow> bt_status b | Some st \<Rightarrow> st),
             bt_fromAddress := Some from,
             bt_toAddress := Some to\<rparr>)
         | None \<Rightarrow> blockchainTransaction_create (newWithdrawalTransaction (ir_intent (with_relations s old)) (fe_txHash dto)
             (case fr_nextBlockchainStatus res of
                None \<Rightarrow> BlockchainTransactionStatus.created | Some st \<Rightarrow> st) from to None)) s = Inr (x, u)"
  shows "u = failed_chain dto res from to old s"
  using assms by (auto simp: failed_chain_def failed_chain_row_def [abs_def] tx_iff split: option.splits)

lemma failWithdrawalIntentExecution_run:
  assumes "failWithdrawalIntentExecution_transaction evm i dto actor s = Inr (r, t)"
    and "intent_row s i = Some old" "ti_id old = i" "t \<noteq> s"
  obtains res "from" "to" u c a v where "ti_policyDecision old = PolicyDecision.approved"
    "ti_status old = TransactionIntentStatus.queued \<or> ti_status old = TransactionIntentStatus.broadcast"
    "resolveWithdrawalExecutionFailureResolution (ti_status old) (latest_status (with_relations s old))
      (normalizeWithdrawalFailureCategory (fe_failureCategory dto)) s = Inr (res, s)"
    "same_core (failed_chain dto res from to old s) u"
    "follow ca_id (customerAccounts s) (ti_customerAccountId old) = Some a"
    "same_core (v\<lparr>transactionIntents := update_rows ti_id i (failed_intent dto res (now_ms s) c)
      (transactionIntents v)\<rparr>) t"
    "if fr_releaseReservation res
     then \<exists>x. releaseWithdrawalReservation (ledgerParams (ca_id a) old) u = Inr (x, v) else v = u"
proof -
  have id: "ti_id old = i" and old: "intent_row s (ti_id old) = Some old" using assms(2,3) by auto
  show thesis
    using assms(1,2,4) id
    apply (clarsimp simp: failWithdrawalIntentExecution_transaction_def Let_def withdrawal_run
        split del: if_split option.split cong: if_cong)
    apply (frule resolve_pure, drule broadcast_addresses_pure, clarify)
    apply (drule failed_chain_write [rotated], assumption)
    apply (drule bookkeepingD [OF bookkeeping_cases(6)], drule audit_core, hypsubst)
    apply (rule that [unfolded failed_intent_def [abs_def] if_bool_eq_disj]; (assumption | simp; fail)?)
    done
qed

lemma failWithdrawalIntentExecution_keeps:
  assumes run: "failWithdrawalIntentExecution_transaction evm i dto actor s = Inr (r, t)" and inv: "service_inv s"
    and old: "intent_row s i = Some old" and wd: "ti_intentType old = TransactionIntentType.withdrawal"
  shows "service_inv t"
proof (cases "t = s")
  case False
  note id = service_inv_row(3) [OF inv old] and ok = service_inv_row(2) [OF inv old]
  obtain res "from" "to" u c a v where q: "ti_policyDecision old = PolicyDecision.approved"
    "ti_status old = TransactionIntentStatus.queued \<or> ti_status old = TransactionIntentStatus.broadcast"
    and res: "resolveWithdrawalExecutionFailureResolution (ti_status old) (latest_status (with_relations s old))
      (normalizeWithdrawalFailureCategory (fe_failureCategory dto)) s = Inr (res, s)"
    and chain: "same_core (failed_chain dto res from to old s) u"
    and a: "follow ca_id (customerAccounts s) (ti_customerAccountId old) = Some a"
    and core: "same_core (v\<lparr>transactionIntents := update_rows ti_id i (failed_intent dto res (now_ms s) c)
      (transactionIntents v)\<rparr>) t"
    and led: "if fr_releaseReservation res
     then \<exists>x. releaseWithdrawalReservation (ledgerParams (ca_id a) old) u = Inr (x, v) else v = u"
    by (rule failWithdrawalIntentExecution_run [OF run old id False])
  have req: "same_request (failed_intent dto res (now_ms s) c)" by (simp add: same_request_def failed_intent_def)
  have rel: "if fr_releaseReservation res
    then fr_nextIntentStatus res = TransactionIntentStatus.failed
    else fr_nextIntentStatus res = ti_status old \<and> fr_nextBlockchainStatus res = latest_status (with_relations s old)"
    using res by (cases "normalizeWithdrawalFailureCategory (fe_failureCategory dto)")
      (auto simp: tx_iff resolveWithdrawalExecutionFailureResolution_def)
  let ?l = "case latest_of s i of
      None \<Rightarrow> newWithdrawalTransaction old (fe_txHash dto) (case fr_nextBlockchainStatus res of
          None \<Rightarrow> BlockchainTransactionStatus.created | Some st \<Rightarrow> st) from to None (cuid_of s (cuid_count s))
    | Some b \<Rightarrow> failed_chain_row dto res from to b b"
  let ?u = "failed_chain dto res from to old s"
  have chain_u: "chain_wf ?u \<and> (\<forall>k. latest_of ?u k = (if k = i then Some ?l else latest_of s k))"
  proof (cases "latest_of s i")
    case None
    then have bts: "blockchainTransactions ?u = blockchainTransactions s @ [?l]"
      by (simp add: failed_chain_def id)
    show ?thesis
      using chain_appended [OF service_inv_parts(3,8) [OF inv] _ bts, of i] None intent_row_in [OF old] id
      by (auto simp: failed_chain_def newWithdrawalTransaction_def)
  next
    case (Some b)
    have ids: "ti_id ` set (transactionIntents ?u) = ti_id ` set (transactionIntents s)"
      by (simp add: failed_chain_def split: option.splits)
    show ?thesis
      using chain_updated [OF service_inv_parts(3) [OF inv] ids Some, of "failed_chain_row dto res from to b"] Some id
      by (simp add: failed_chain_def failed_chain_row_def [abs_def])
  qed
  have off_u: "off_ledger s ?u" "transactionIntents ?u = transactionIntents s"
    "depositSettlementProofs ?u = depositSettlementProofs s" "customerAccounts ?u = customerAccounts s"
    by (simp_all add: failed_chain_def off_ledger_def same_money_def split: option.splits)
  have off: "off_ledger s u" "transactionIntents u = transactionIntents s"
    "depositSettlementProofs u = depositSettlementProofs s" "customerAccounts u = customerAccounts s"
    using chain off_u by (auto simp: same_core_def intro: off_ledger_trans)
  let ?f = "failed_intent dto res (now_ms s) c"
  have st: "ti_status (?f old) = fr_nextIntentStatus res" by (simp add: failed_intent_def)
  show ?thesis
  proof (cases "fr_releaseReservation res")
    case True
    then obtain x where led': "releaseWithdrawalReservation (ledgerParams (ca_id a) old) u = Inr (x, v)"
      using led by auto
    have pos: "0 < ti_requestedAmount old" using ok by (simp add: intent_ok_def)
    note cust = customer_no_colon [OF inv a]
    note book = releaseWithdrawalReservation_booking [OF led'
        off_ledger_invariant [OF off(1) service_inv_parts(1) [OF inv]] pos cust(2), unfolded id]
    have chain': "chain_wf u \<and> (\<forall>k. latest_of u k = (if k = i then Some ?l else latest_of s k))"
      using chain_u chain_unchanged [of ?u u] chain by (simp add: same_core_def off_ledger_def)
    show ?thesis
    proof (rule service_inv_ledger_update [OF inv old req off _ _ book _ _ core])
      show "intent_ok (?f old) (Some ?l) (proof_of s i)
          (\<lambda>ty. booked s i ty \<or> ty = withdrawal_reservation_release)"
        using ok q wd rel True by (auto simp: withdrawal_inv failed_intent_def)
    qed (use chain' q wd cust(1) rel True in
        \<open>auto simp: failed_intent_def withdrawal_contribution moves_def\<close>)
  next
    case False
    have core': "same_core (?u\<lparr>transactionIntents := update_rows ti_id i ?f (transactionIntents ?u)\<rparr>) t"
      using same_core_intents [OF chain, of "update_rows ti_id i ?f"] core led False by (auto intro: same_core_trans)
    let ?w = "?u\<lparr>transactionIntents := update_rows ti_id i ?f (transactionIntents ?u)\<rparr>"
    have ids: "ti_id ` set (transactionIntents ?w) = ti_id ` set (transactionIntents ?u)"
      by (simp add: ids_update_set [OF req])
    have chain': "chain_wf ?w" "latest_of ?w k = latest_of ?u k" for k
      by (rule chain_unchanged [OF _ ids]; use chain_u in simp)+
    show ?thesis
    proof (rule service_inv_bookkeeping [OF service_inv_quiet [OF inv old, where f = ?f] core'])
      show "intent_ok (?f old) (latest_of ?w i) (proof_of s i) (booked s i)"
        unfolding chain'(2) using ok q wd rel False chain_u
        by (auto simp: withdrawal_inv failed_intent_def failed_chain_row_def latest_status_def id split: option.splits)
    qed (use chain' chain_u off_u req q wd rel False in
        \<open>auto simp: off_ledger_def same_money_def st intro!: withdrawal_stays_open\<close>)
  qed
qed (simp add: inv)

section \<open>Confirmation and settlement\<close>

lemma confirmWithdrawalIntent_keeps:
  assumes run: "confirmWithdrawalIntent_transaction i h actor s = Inr (r, t)" and inv: "service_inv s"
    and old: "intent_row s i = Some old" and wd: "ti_intentType old = TransactionIntentType.withdrawal"
  shows "service_inv t"
proof (cases "t = s")
  case False
  note id = service_inv_row(3) [OF inv old] and ok = service_inv_row(2) [OF inv old]
  from run old id False obtain b where l: "latest_of s i = Some b"
    and q: "in_state TransactionIntentStatus.broadcast old"
    by (auto simp: confirmWithdrawalIntent_transaction_def withdrawal_run Let_def split: if_splits)
  show ?thesis
  proof (rule service_inv_chain_update [OF inv old _ l])
    show "same_core (s\<lparr>blockchainTransactions := update_rows bt_id (bt_id b) (\<lambda>r. r\<lparr>
        bt_status := BlockchainTransactionStatus.confirmed,
        bt_confirmedAt := Some (now_ms s)\<rparr>) (blockchainTransactions s),
      transactionIntents := update_rows ti_id i (\<lambda>r. r\<lparr>
        ti_status := TransactionIntentStatus.confirmed\<rparr>) (transactionIntents s)\<rparr>) t"
      using run old id l False
      by (auto simp: confirmWithdrawalIntent_transaction_def withdrawal_run Let_def dest!: audit_core split: if_splits)
  qed (use ok q wd id in \<open>auto simp: withdrawal_inv intro!: withdrawal_stays_open\<close>)
qed (simp add: inv)

lemma settleConfirmedWithdrawalIntent_keeps:
  assumes run: "settleConfirmedWithdrawalIntent_transaction i actor s = Inr (r, t)" and inv: "service_inv s"
    and old: "intent_row s i = Some old" and wd: "ti_intentType old = TransactionIntentType.withdrawal"
  shows "service_inv t"
proof -
  note id = service_inv_row(3) [OF inv old] and ok = service_inv_row(2) [OF inv old]
  let ?f = "\<lambda>r. r\<lparr>ti_status := TransactionIntentStatus.settled,
       ti_settledAmount := Some (ti_requestedAmount old),
       ti_executionFailureCategory := None, ti_executionFailureObservedAt := None,
       ti_manualInterventionRequiredAt := None\<rparr>"
  from run old id obtain a b x v where q: "in_state TransactionIntentStatus.confirmed old"
    and a: "follow ca_id (customerAccounts s) (ti_customerAccountId old) = Some a"
    and led: "settleConfirmedWithdrawal (ledgerParams (ca_id a) old) s = Inr (x, v)"
    and core: "same_core (v\<lparr>transactionIntents := update_rows ti_id i ?f (transactionIntents v)\<rparr>) t"
    by (auto simp: settleConfirmedWithdrawalIntent_transaction_def requireConfirmed_def withdrawal_run Let_def
        dest!: audit_core)
  have pos: "0 < ti_requestedAmount old" using ok by (simp add: intent_ok_def)
  note cust = customer_no_colon [OF inv a]
  note book = settleConfirmedWithdrawal_booking [OF led service_inv_parts(1) [OF inv] pos cust(2), unfolded id]
  show ?thesis
    by (rule service_inv_ledger_update [OF inv old _ off_ledger_refl refl refl refl
          service_inv_parts(3) [OF inv] _ book _ _ core])
      (use ok q wd id cust(1) in \<open>auto simp: withdrawal_inv withdrawal_contribution moves_def\<close>)
qed

section \<open>Request\<close>

text \<open>A request that books its reservation with its own row.\<close>

lemma service_inv_request_booked:
  assumes inv: "service_inv s" and i: "i = cuid_of s (cuid_count s)" "ti_id r = i"
    and key: "ti_idempotencyKey r \<notin> ti_idempotencyKey ` set (transactionIntents s)"
    and book: "booking i ty sh (s\<lparr>cuid_count := Suc (cuid_count s),
      transactionIntents := transactionIntents s @ [r]\<rparr>) v"
    and shift: "\<And>k. contribution r k = sh k"
    and new: "parties_ok s r" "intent_ok r None None (\<lambda>ty'. ty' = ty)"
  shows "service_inv v"
proof -
  let ?s1 = "s\<lparr>cuid_count := Suc (cuid_count s), transactionIntents := transactionIntents s @ [r]\<rparr>"
  have off: "off_ledger s ?s1" by (simp add: off_ledger_def same_money_def)
  have sv: "same_services ?s1 v" using book by (simp add: booking_def)
  have b1: "booked ?s1 k ty' = booked s k ty'" for k ty' by (rule off_ledger_booked [OF off])
  have fresh: "\<not> booked s i ty'" for ty'
    unfolding i(1) by (rule fresh_intent(4) [OF inv next_id_fresh [OF inv]])
  show ?thesis
  proof (rule service_inv_insert [OF inv i(1) _ _ _ _ _ i(2) key])
    have "booked v i = (\<lambda>ty'. ty' = ty)" using book fresh b1 by (intro ext) (simp add: booking_def)
    then show "intent_ok r None None (booked v i)" using new(2) by simp
    show "key_net v k = key_net s k + contribution r k" for k
      using book off_ledger_key_net [OF off, of k] by (simp add: booking_def shift)
    show "booked v k ty' = booked s k ty'" if "k \<noteq> i" for k ty'
      using book that b1 by (simp add: booking_def)
    show "ledger_invariant v" using book by (simp add: booking_def)
    show "parties_ok v r" using new(1) sv by (simp add: parties_ok_def same_services_def)
  qed (use sv in \<open>simp_all add: same_services_def\<close>)
qed

lemma newWithdrawalIntent_sel [simp]:
  "ti_id (newWithdrawalIntent cfg dto ctx i) = i"
  "ti_idempotencyKey (newWithdrawalIntent cfg dto ctx i) = cw_idempotencyKey dto"
  "ti_intentType (newWithdrawalIntent cfg dto ctx i) = TransactionIntentType.withdrawal"
  "ti_status (newWithdrawalIntent cfg dto ctx i) = TransactionIntentStatus.requested"
  "ti_policyDecision (newWithdrawalIntent cfg dto ctx i) = PolicyDecision.pending"
  "ti_requestedAmount (newWithdrawalIntent cfg dto ctx i) = cw_amount dto"
  "ti_settledAmount (newWithdrawalIntent cfg dto ctx i) = None"
  "ti_customerAccountId (newWithdrawalIntent cfg dto ctx i) = Some (wx_customerAccountId ctx)"
  by (simp_all add: newWithdrawalIntent_def)

lemma createWithdrawalIntent_transaction_keeps:
  assumes run: "createWithdrawalIntent_transaction cfg user dto ctx s = Inr (r, t)" and inv: "service_inv s"
    and pos: "0 < cw_amount dto" and ctx: "wx_customerAccountId ctx \<in> ca_id ` set (customerAccounts s)"
  shows "service_inv t"
proof -
  let ?i = "cuid_of s (cuid_count s)"
  let ?r = "newWithdrawalIntent cfg dto ctx ?i"
  let ?s1 = "s\<lparr>cuid_count := Suc (cuid_count s), transactionIntents := transactionIntents s @ [?r]\<rparr>"
  from run obtain x v where key: "ti_idempotencyKey ?r \<notin> ti_idempotencyKey ` set (transactionIntents s)"
    and led: "reserveWithdrawalBalance (ledgerParams (wx_customerAccountId ctx) ?r) ?s1 = Inr (x, v)"
    and core: "same_core v t"
    by (auto simp: createWithdrawalIntent_transaction_def withdrawal_run
        dest!: bookkeepingD [OF bookkeeping_write_case(4)])
  have off: "off_ledger s ?s1" by (simp add: off_ledger_def same_money_def)
  have colon: "no_colon (wx_customerAccountId ctx)"
    using ctx service_inv_parts(5) [OF inv] by (auto simp: accounts_wf_def)
  note book = reserveWithdrawalBalance_booking [OF led off_ledger_invariant [OF off service_inv_parts(1) [OF inv]] _ colon]
  have inv_v: "service_inv v"
  proof (rule service_inv_request_booked [OF inv refl _ key])
    show "booking ?i withdrawal_reservation (moves (buildCustomerLiabilityLedgerKey (wx_customerAccountId ctx) (ti_assetId ?r))
      (buildPendingWithdrawalLiabilityLedgerKey (wx_customerAccountId ctx) (ti_assetId ?r)) (ti_requestedAmount ?r)) ?s1 v"
      using book pos by simp
    show "parties_ok s ?r" using ctx by (auto simp: parties_ok_def)
  qed (simp_all add: withdrawal_contribution withdrawal_inv pos)
  then show ?thesis using core by (rule service_inv_bookkeeping)
qed

end
