(* ===== verification/Transfer_Lifecycle.thy ===== *)
theory Transfer_Lifecycle
  imports Withdrawal_Lifecycle
begin

text \<open>
  An internal balance transfer, requested below or above its review threshold and then decided,
  preserves the service invariant.
\<close>

lemma transfer_contribution:
  assumes "ti_intentType r = TransactionIntentType.internal_balance_transfer" "ti_customerAccountId r = Some c"
    "ti_recipientCustomerAccountId r = Some d"
  shows "contribution r k =
    (if ti_status r = TransactionIntentStatus.settled
     then moves (buildCustomerLiabilityLedgerKey c (ti_assetId r)) (buildCustomerLiabilityLedgerKey d (ti_assetId r))
       (ti_requestedAmount r) k
     else if ti_status r = TransactionIntentStatus.review_required
     then moves (buildCustomerLiabilityLedgerKey c (ti_assetId r))
       (buildPendingInternalTransferLiabilityLedgerKey c (ti_assetId r)) (ti_requestedAmount r) k
     else 0)"
  using assms by (simp add: contribution.simps Let_def)

lemmas transfer_run = tx_iff found_Some loadBalanceTransferIntent_def reloadOrThrow_def decided_as_def

lemmas transfer_inv = intent_ok_def transfer_ok_def settled_amount_ok_def same_request_def

lemmas transfer_core = bookkeepingD [OF bookkeeping_write_case(4)] bookkeepingD [OF bookkeeping_cases(3)]
  bookkeepingD [OF bookkeeping_cases(4)]

section \<open>Request\<close>

lemma newTransferIntent_sel [simp]:
  "ti_id (newTransferIntent cfg dto out sdr rcv i) = i"
  "ti_idempotencyKey (newTransferIntent cfg dto out sdr rcv i) = cb_idempotencyKey dto"
  "ti_intentType (newTransferIntent cfg dto out sdr rcv i) = TransactionIntentType.internal_balance_transfer"
  "ti_status (newTransferIntent cfg dto out sdr rcv i) =
     (if out = BalanceTransferThresholdOutcome.review_required
      then TransactionIntentStatus.review_required else TransactionIntentStatus.settled)"
  "ti_policyDecision (newTransferIntent cfg dto out sdr rcv i) =
     (if out = BalanceTransferThresholdOutcome.review_required
      then PolicyDecision.review_required else PolicyDecision.approved)"
  "ti_requestedAmount (newTransferIntent cfg dto out sdr rcv i) = cb_amount dto"
  "ti_settledAmount (newTransferIntent cfg dto out sdr rcv i) =
     (if out = BalanceTransferThresholdOutcome.review_required then None else Some (cb_amount dto))"
  "ti_customerAccountId (newTransferIntent cfg dto out sdr rcv i) = Some (ca_id (sx_account sdr))"
  "ti_recipientCustomerAccountId (newTransferIntent cfg dto out sdr rcv i) = Some (ca_id (rx_account rcv))"
  by (simp_all add: newTransferIntent_def Let_def)

lemma known_no_colon: "service_inv s \<Longrightarrow> c \<in> ca_id ` set (customerAccounts s) \<Longrightarrow> no_colon c"
  using service_inv_parts(5) [of s] by (auto simp: accounts_wf_def)

lemma createBalanceTransfer_transaction_keeps:
  assumes run: "createBalanceTransfer_transaction cfg user dto out sdr rcv s = Inr (r, t)" and inv: "service_inv s"
    and pos: "0 < cb_amount dto"
    and parties: "ca_id (sx_account sdr) \<in> ca_id ` set (customerAccounts s)"
      "ca_id (rx_account rcv) \<in> ca_id ` set (customerAccounts s)"
  shows "service_inv t"
proof -
  let ?i = "cuid_of s (cuid_count s)"
  let ?r = "newTransferIntent cfg dto out sdr rcv ?i"
  let ?s1 = "s\<lparr>cuid_count := Suc (cuid_count s), transactionIntents := transactionIntents s @ [?r]\<rparr>"
  note colon = parties [THEN known_no_colon [OF inv]]
  have inv1: "ledger_invariant ?s1"
    by (rule off_ledger_invariant [OF _ service_inv_parts(1) [OF inv]]) (simp add: off_ledger_def same_money_def)
  have key: "ti_idempotencyKey ?r \<notin> ti_idempotencyKey ` set (transactionIntents s)"
    using run by (auto simp: createBalanceTransfer_transaction_def transfer_run Let_def)
  have who: "parties_ok s ?r" using parties by (auto simp: parties_ok_def)
  show ?thesis
  proof (cases "out = BalanceTransferThresholdOutcome.review_required")
    case True
    with run obtain x v where
      led: "reserveInternalBalanceTransferBalance (ledgerParams (ca_id (sx_account sdr)) ?r) ?s1 = Inr (x, v)"
      and core: "same_core v t"
      by (auto simp: createBalanceTransfer_transaction_def transfer_run Let_def dest!: transfer_core
          intro: same_core_trans)
    have "service_inv v"
      by (rule service_inv_request_booked [OF inv refl _ key
            reserveInternalBalanceTransferBalance_booking [OF led inv1 _ colon(1), simplified] _ who])
        (use True pos in \<open>simp_all add: transfer_contribution transfer_inv\<close>)
    then show ?thesis using core by (rule service_inv_bookkeeping)
  next
    case False
    with run obtain x v where
      led: "settleInternalBalanceTransfer (settleParams (ca_id (sx_account sdr)) (ca_id (rx_account rcv)) False ?r) ?s1 = Inr (x, v)"
      and core: "same_core v t"
      by (auto simp: createBalanceTransfer_transaction_def transfer_run Let_def dest!: transfer_core)
    have "service_inv v"
      by (rule service_inv_request_booked [OF inv refl _ key
            settleInternalBalanceTransfer_booking [OF led inv1 _ colon, simplified] _ who])
        (use False pos in \<open>simp_all add: transfer_contribution transfer_inv\<close>)
    then show ?thesis using core by (rule service_inv_bookkeeping)
  qed
qed

section \<open>Decision\<close>

definition decideTransfer_transaction ::
  "string \<Rightarrow> DecideIntentDto \<Rightarrow> customer_account \<Rightarrow> customer_account \<Rightarrow> intent_record \<Rightarrow> intent_record dbtx" where
  "decideTransfer_transaction operatorId dto sender recipient existing =
     (if de_decision dto = OperatorDecision.approved
      then approveTransfer_transaction operatorId dto sender recipient existing
      else denyTransfer_transaction operatorId dto sender existing)"

lemma decideTransfer_transaction_keeps:
  assumes step: "decideTransfer_transaction operator dto a d (with_relations s old) s = Inr (r, t)"
    and inv: "service_inv s" and old: "intent_row s i = Some old"
    and ty: "ti_intentType old = TransactionIntentType.internal_balance_transfer"
    and a: "follow ca_id (customerAccounts s) (ti_customerAccountId old) = Some a"
    and d: "follow ca_id (customerAccounts s) (ti_recipientCustomerAccountId old) = Some d"
    and q: "decided_as TransactionIntentStatus.review_required PolicyDecision.review_required old"
  shows "service_inv t"
proof -
  note id = service_inv_row(3) [OF inv old] and ok = service_inv_row(2) [OF inv old]
  have pos: "0 < ti_requestedAmount old" using ok by (simp add: intent_ok_def)
  note ca = customer_no_colon [OF inv a] and cd = customer_no_colon [OF inv d]
  show ?thesis
  proof (cases "de_decision dto = OperatorDecision.approved")
    case True
    let ?f = "\<lambda>r. r\<lparr>ti_status := TransactionIntentStatus.settled, ti_policyDecision := PolicyDecision.approved,
        ti_settledAmount := Some (ti_requestedAmount old), ti_failureCode := None, ti_failureReason := None\<rparr>"
    from step True id obtain x v where
      led: "settleInternalBalanceTransfer (settleParams (ca_id a) (ca_id d) True old) s = Inr (x, v)"
      and core: "same_core (v\<lparr>transactionIntents := update_rows ti_id i ?f (transactionIntents v)\<rparr>) t"
      by (auto simp: decideTransfer_transaction_def approveTransfer_transaction_def transfer_run Let_def dest!: transfer_core
          intro: same_core_trans)
    note book = settleInternalBalanceTransfer_booking [OF led service_inv_parts(1) [OF inv] pos ca(2) cd(2), unfolded id]
    show ?thesis
      by (rule service_inv_ledger_update [OF inv old _ off_ledger_refl refl refl refl
            service_inv_parts(3) [OF inv] _ book _ _ core])
        (use ok q [unfolded decided_as_def] ty id ca(1) cd(1) in \<open>auto simp: transfer_inv transfer_contribution moves_def\<close>)
  next
    case False
    let ?f = "\<lambda>r. r\<lparr>ti_status := TransactionIntentStatus.cancelled, ti_policyDecision := PolicyDecision.denied,
        ti_settledAmount := None, ti_failureCode := Some ''policy_denied'',
        ti_failureReason := trim_opt (de_denialReason dto)\<rparr>"
    from step False id obtain x v where
      led: "releaseInternalBalanceTransferReservation (ledgerParams (ca_id a) old) s = Inr (x, v)"
      and core: "same_core (v\<lparr>transactionIntents := update_rows ti_id i ?f (transactionIntents v)\<rparr>) t"
      by (auto simp: decideTransfer_transaction_def denyTransfer_transaction_def transfer_run Let_def dest!: transfer_core
          intro: same_core_trans)
    note book = releaseInternalBalanceTransferReservation_booking [OF led service_inv_parts(1) [OF inv] pos ca(2), unfolded id]
    show ?thesis
      by (rule service_inv_ledger_update [OF inv old _ off_ledger_refl refl refl refl
            service_inv_parts(3) [OF inv] _ book _ _ core])
        (use ok q [unfolded decided_as_def] ty id ca(1) cd(1) in \<open>auto simp: transfer_inv transfer_contribution moves_def\<close>)
  qed
qed

lemma decideBalanceTransfer_keeps:
  assumes run: "decideBalanceTransfer cfg i operator dto role s = Inr (r, t)" and inv: "service_inv s"
  shows "service_inv t"
proof (cases "t = s")
  case False
  from run obtain old a d where old: "intent_row s i = Some old"
    and ty: "ti_intentType old = TransactionIntentType.internal_balance_transfer"
    and a: "follow ca_id (customerAccounts s) (ti_customerAccountId old) = Some a"
    and d: "follow ca_id (customerAccounts s) (ti_recipientCustomerAccountId old) = Some d"
    and q: "decided_as TransactionIntentStatus.review_required PolicyDecision.review_required old"
    and step: "decideTransfer_transaction operator dto a d (with_relations s old) s = Inr (res_intent r, t)"
    using False by (auto simp: decideBalanceTransfer_def assertCanDecideBalanceTransfer_def transfer_run
        decideTransfer_transaction_def decided_as_def split: if_splits)
  show ?thesis by (rule decideTransfer_transaction_keeps [OF step inv old ty a d q])
qed (simp add: inv)

end
