(* ===== verification/Service_Persistence.thy ===== *)
theory Service_Persistence
  imports Transfer_Lifecycle
begin

text \<open>
  What no service call undoes: a booked journal stays booked, and an intent keeps its identifier,
  key, type, parties, asset, chain and amount.
\<close>

definition request_of where
  "request_of r = (ti_id r, ti_idempotencyKey r, ti_intentType r, ti_customerAccountId r,
     ti_recipientCustomerAccountId r, ti_assetId r, ti_chainId r, ti_requestedAmount r)"

lemma same_request_of: "same_request f \<longleftrightarrow> (\<forall>r. request_of (f r) = request_of r)"
  by (auto simp: same_request_def request_of_def)

definition extends :: "db \<Rightarrow> db \<Rightarrow> bool" where
  "extends s t \<longleftrightarrow> (\<forall>k ty. booked s k ty \<longrightarrow> booked t k ty) \<and>
     (\<forall>i r. intent_row s i = Some r \<longrightarrow> (\<exists>r'. intent_row t i = Some r' \<and> request_of r' = request_of r))"

lemma extends_refl [simp]: "extends s s"
  by (simp add: extends_def)

lemma extends_trans:
  assumes "extends s t" "extends t u" shows "extends s u"
  unfolding extends_def
proof (intro conjI allI impI)
  fix i r assume "intent_row s i = Some r"
  then obtain r' where "intent_row t i = Some r'" and eq: "request_of r' = request_of r"
    using assms(1) unfolding extends_def by blast
  then obtain r'' where "intent_row u i = Some r''" "request_of r'' = request_of r'"
    using assms(2) unfolding extends_def by blast
  with eq show "\<exists>r'. intent_row u i = Some r' \<and> request_of r' = request_of r" by simp
qed (use assms in \<open>auto simp: extends_def\<close>)

lemma extends_frame:
  assumes "ledgerJournals t = ledgerJournals s" "transactionIntents t = transactionIntents s"
  shows "extends s t"
  using assms by (simp add: extends_def booked_def recorded_def intent_row_def)

definition extending :: "'a dbtx \<Rightarrow> bool" where
  "extending m \<longleftrightarrow> (\<forall>s x t. m s = Inr (x, t) \<longrightarrow> extends s t)"

lemma extendingD: "extending m \<Longrightarrow> m s = Inr (x, t) \<Longrightarrow> extends s t"
  by (auto simp: extending_def)

named_theorems extending_intro

lemma extending_bind [extending_intro]:
  assumes "extending m" "\<And>x. extending (f x)"
  shows "extending (bindT m f)"
  using assms unfolding extending_def tx_iff by (blast intro: extends_trans)

lemma extending_if [extending_intro]:
  "extending m \<Longrightarrow> extending m' \<Longrightarrow> extending (if b then m else m')"
  by simp

lemma extending_option [extending_intro]:
  "extending m \<Longrightarrow> (\<And>x. extending (f x)) \<Longrightarrow> extending (case v of None \<Rightarrow> m | Some x \<Rightarrow> f x)"
  by (cases v) auto

lemma extending_prod [extending_intro]:
  "(\<And>x y. extending (f x y)) \<Longrightarrow> extending (case p of (x, y) \<Rightarrow> f x y)"
  by (cases p) auto

lemma extending_catch [extending_intro]: "extending m \<Longrightarrow> extending h \<Longrightarrow> extending (catchUnique m h)"
  by (auto simp: extending_def tx_iff)

lemma bookkeeping_extending: "bookkeeping m \<Longrightarrow> extending m"
  by (auto simp: bookkeeping_def extending_def same_core_def off_ledger_def intro: extends_frame)

lemmas extending_bookkeeping [extending_intro] =
  bookkeeping_basic [THEN bookkeeping_extending] bookkeeping_write_case [THEN bookkeeping_extending]
  bookkeeping_cases [THEN bookkeeping_extending] bookkeeping_gates [THEN bookkeeping_extending]
  bookkeeping_addresses [THEN bookkeeping_extending]

lemma extending_writes [extending_intro]:
  "extending (writeT (\<lambda>s. s\<lparr>ledgerAccounts := a s\<rparr>))" "extending (writeT (\<lambda>s. s\<lparr>ledgerPostings := p s\<rparr>))"
  "extending (writeT (\<lambda>s. s\<lparr>customerAssetBalances := c s\<rparr>))"
  "extending (blockchainTransaction_create build)" "extending (blockchainTransaction_update i g)"
  "extending (depositSettlementProof_create d)"
  by (auto simp: extending_def tx_iff Let_def intro: extends_frame)

lemma extending_upsert [extending_intro]: "extending (ledgerAccount_upsert k ty ch a c)"
  by (auto simp: extending_def intro: extends_frame dest!: ledgerAccount_upsert_cases)

lemma extending_journal [extending_intro]: "extending (ledgerJournal_create i g e ty ch a)"
  by (auto simp: extending_def tx_iff cuid_Inr ledgerJournal_create_def Let_def extends_def booked_def
      recorded_def intent_row_def)

lemma extending_intent_create [extending_intro]: "extending (transactionIntent_create build)"
  by (auto simp: extending_def tx_iff extends_def booked_def recorded_def intent_row_def find_append
      split: option.splits)

lemma extending_intent_update [extending_intro]:
  assumes "same_request f" shows "extending (transactionIntent_update i f)"
    "extending (transactionIntent_updateMany i cond f)"
  using assms by (auto simp: extending_def tx_iff extends_def booked_def recorded_def
      intent_row_update [OF assms] same_request_of)

lemma extending_ledger [extending_intro]:
  "extending (settleConfirmedDeposit p)" "extending (reserveWithdrawalBalance p)"
  "extending (releaseWithdrawalReservation p)" "extending (settleConfirmedWithdrawal p)"
  "extending (reserveInternalBalanceTransferBalance p)"
  "extending (releaseInternalBalanceTransferReservation p)"
  "extending (settleInternalBalanceTransfer q)"
  unfolding settleConfirmedDeposit_def reserveWithdrawalBalance_def releaseWithdrawalReservation_def
    settleConfirmedWithdrawal_def reserveInternalBalanceTransferBalance_def
    releaseInternalBalanceTransferReservation_def settleInternalBalanceTransfer_def
    senderDebitAccount_def debitSenderBalance_def ledger_account_defs ledgerPosting_createMany_def
    customerAssetBalance_findUnique_def customerAssetBalance_credit_def customerAssetBalance_updateMany_def
    customerAssetBalance_put_def findLedgerJournalByIntentAndType_def Let_def
  by (intro extending_intro)+

lemma extending_reads [extending_intro]:
  "extending (findLedgerJournalByIntentAndType k ty)" "extending (transactionIntent_findByIdempotencyKey key)"
  unfolding findLedgerJournalByIntentAndType_def transactionIntent_findByIdempotencyKey_def
  by (intro extending_intro)+

lemma extending_deposits:
  "extending (createDepositIntent_transaction cfg user cd dec ctx)"
  "extending (decideDepositIntent_transaction op de role r)"
  "extending (queueApprovedDepositIntent_transaction op role r)"
  "extending (recordDepositBroadcast_transaction i rb actor)"
  "extending (failDepositIntentExecution_transaction i fe actor)"
  "extending (confirmDepositIntent_transaction i h actor)"
  "extending (settleConfirmedDepositIntent_transaction i actor)"
  unfolding createDepositIntent_transaction_def decideDepositIntent_transaction_def
    queueApprovedDepositIntent_transaction_def recordDepositBroadcast_transaction_def
    failDepositIntentExecution_transaction_def confirmDepositIntent_transaction_def
    settleConfirmedDepositIntent_transaction_def placeDepositIntentUnderReview_def
    assertNoConflictingDepositSettlementProof_def requireProof_def requireConfirmed_def
    deposit_guards ensureDepositCanFail_def Let_def
  by (intro extending_intro | (simp add: same_request_def; fail))+

lemma extending_resolution [extending_intro]:
  "extending (resolveWithdrawalExecutionFailureResolution a b c)"
  by (auto simp: extending_def dest: resolve_pure)

lemma extending_withdrawals:
  "extending (createWithdrawalIntent_transaction cfg user cw wx)"
  "extending (decideWithdrawalIntent_transaction op de role r)"
  "extending (queueApprovedWithdrawalIntent_transaction op role r)"
  "extending (startManagedWithdrawalExecution_transaction evm i w at stale)"
  "extending (recordSignedWithdrawalExecution_transaction evm i w rs)"
  "extending (recordWithdrawalBroadcast_transaction evm i rb actor)"
  "extending (failWithdrawalIntentExecution_transaction evm i fe actor)"
  "extending (confirmWithdrawalIntent_transaction i h actor)"
  "extending (settleConfirmedWithdrawalIntent_transaction i actor)"
  unfolding createWithdrawalIntent_transaction_def decideWithdrawalIntent_transaction_def
    queueApprovedWithdrawalIntent_transaction_def startManagedWithdrawalExecution_transaction_def
    recordSignedWithdrawalExecution_transaction_def recordWithdrawalBroadcast_transaction_def
    failWithdrawalIntentExecution_transaction_def confirmWithdrawalIntent_transaction_def
    settleConfirmedWithdrawalIntent_transaction_def requireConfirmed_def
    withdrawal_guards Let_def
  by (intro extending_intro | (simp add: same_request_def; fail))+

lemma extending_transfers:
  "extending (createBalanceTransfer_transaction cfg user cb out sx rx)"
  "extending (approveTransfer_transaction op de a d r)"
  "extending (denyTransfer_transaction op de a r)"
  unfolding createBalanceTransfer_transaction_def approveTransfer_transaction_def
    denyTransfer_transaction_def reloadOrThrow_def Let_def
  by (intro extending_intro | (simp add: same_request_def; fail))+

end
