(* ===== verification/Intent_System.thy ===== *)
theory Intent_System
  imports Service_Persistence
begin

text \<open>
  The three intent services as one system: the calls their controllers and workers make, the
  steps that run them (alone, or with their transaction reached only after the checks were made
  on an older state), the states they reach and the invariant that holds there.
\<close>

section \<open>Calls\<close>

datatype service_call =
    CreateDepositIntent string CreateDepositIntentDto
  | DecideDepositIntent string string DecideIntentDto "string option"
  | QueueApprovedDepositIntent string string "string option"
  | RecordDepositBroadcast string RecordBroadcastDto TransitionActor
  | FailDepositIntentExecution string FailExecutionDto TransitionActor
  | ConfirmDepositIntent string "string option" TransitionActor
  | SettleConfirmedDepositIntent string TransitionActor
  | CreateWithdrawalIntent string CreateWithdrawalIntentDto
  | DecideWithdrawalIntent string string DecideIntentDto "string option"
  | QueueApprovedWithdrawalIntent string string "string option"
  | StartManagedWithdrawalExecution string string int
  | RecordSignedWithdrawalExecution string string RecordSignedWithdrawalExecutionDto
  | RecordWithdrawalBroadcast string RecordBroadcastDto TransitionActor
  | FailWithdrawalIntentExecution string FailExecutionDto TransitionActor
  | ConfirmWithdrawalIntent string "string option" TransitionActor
  | SettleConfirmedWithdrawalIntent string TransitionActor
  | CreateBalanceTransfer string CreateBalanceTransferDto
  | DecideBalanceTransfer string string DecideIntentDto "string option"

definition discard :: "'a dbtx \<Rightarrow> unit dbtx" where
  "discard m = bindT m (\<lambda>_. returnT ())"

lemma discard_Inr [tx_iff]: "discard m s = Inr (u, t) \<longleftrightarrow> (\<exists>x. m s = Inr (x, t))"
  by (auto simp: discard_def tx_iff)

fun run_call :: "service_config \<Rightarrow> evm_library \<Rightarrow> service_call \<Rightarrow> unit dbtx" where
  "run_call cfg evm (CreateDepositIntent u dto) = discard (createDepositIntent cfg u dto)"
| "run_call cfg evm (DecideDepositIntent i op dto role) = discard (decideDepositIntent cfg i op dto role)"
| "run_call cfg evm (QueueApprovedDepositIntent i op role) = discard (queueApprovedDepositIntent cfg i op role)"
| "run_call cfg evm (RecordDepositBroadcast i dto a) = discard (recordDepositBroadcastWithActor cfg i dto a)"
| "run_call cfg evm (FailDepositIntentExecution i dto a) = discard (failDepositIntentExecutionWithActor cfg i dto a)"
| "run_call cfg evm (ConfirmDepositIntent i h a) = discard (confirmDepositIntentWithActor cfg i h a)"
| "run_call cfg evm (SettleConfirmedDepositIntent i a) = discard (settleConfirmedDepositIntentWithActor cfg i a)"
| "run_call cfg evm (CreateWithdrawalIntent u dto) = discard (createWithdrawalIntent cfg evm u dto)"
| "run_call cfg evm (DecideWithdrawalIntent i op dto role) = discard (decideWithdrawalIntent cfg i op dto role)"
| "run_call cfg evm (QueueApprovedWithdrawalIntent i op role) = discard (queueApprovedWithdrawalIntent cfg i op role)"
| "run_call cfg evm (StartManagedWithdrawalExecution i w ms) = discard (startManagedWithdrawalExecution cfg evm i w ms)"
| "run_call cfg evm (RecordSignedWithdrawalExecution i w dto) =
     discard (recordSignedWithdrawalExecution cfg evm i w dto)"
| "run_call cfg evm (RecordWithdrawalBroadcast i dto a) = discard (recordWithdrawalBroadcastWithActor cfg evm i dto a)"
| "run_call cfg evm (FailWithdrawalIntentExecution i dto a) =
     discard (failWithdrawalIntentExecutionWithActor cfg evm i dto a)"
| "run_call cfg evm (ConfirmWithdrawalIntent i h a) = discard (confirmWithdrawalIntentWithActor cfg i h a)"
| "run_call cfg evm (SettleConfirmedWithdrawalIntent i a) = discard (settleConfirmedWithdrawalIntentWithActor cfg i a)"
| "run_call cfg evm (CreateBalanceTransfer u dto) = discard (createBalanceTransfer cfg u dto)"
| "run_call cfg evm (DecideBalanceTransfer i op dto role) = discard (decideBalanceTransfer cfg i op dto role)"

text \<open>
  What a handler runs after its checks, which may have been made on an older state: the intent's
  identifier and type and the transaction's body. Most transactions read the intent again and repeat
  the checks on it; the claim of a withdrawal carries the two instants computed before its
  transaction. Decisions and queueing do not repeat them: \<open>as_checked\<close> runs such a transaction only
  while the intent is still in the status its check asked for.
\<close>

definition as_checked :: "string \<Rightarrow> (transaction_intent \<Rightarrow> bool) \<Rightarrow> (intent_record \<Rightarrow> 'a dbtx) \<Rightarrow> unit dbtx" where
  "as_checked i ready m =
     bindT (readT (\<lambda>s. case intent_row s i of
         None \<Rightarrow> None
       | Some r \<Rightarrow> if ready r then Some (with_relations s r) else None)) (\<lambda>found.
     bindT (requireT found (ConflictException ''The intent is no longer as it was checked.'')) (\<lambda>existing.
     discard (m existing)))"

definition depositPending :: "transaction_intent \<Rightarrow> bool" where
  "depositPending r \<longleftrightarrow> ti_status r = TransactionIntentStatus.requested \<and> ti_policyDecision r = PolicyDecision.pending \<or>
     ti_status r = TransactionIntentStatus.review_required \<and> ti_policyDecision r = PolicyDecision.review_required"

definition withdrawalPending :: "transaction_intent \<Rightarrow> bool" where
  "withdrawalPending r \<longleftrightarrow> ti_status r = TransactionIntentStatus.requested \<and> ti_policyDecision r = PolicyDecision.pending"

definition decideTransfer_part :: "string \<Rightarrow> DecideIntentDto \<Rightarrow> intent_record \<Rightarrow> intent_record dbtx" where
  "decideTransfer_part operatorId dto existing =
     bindT (requireT (ir_customerAccount existing)
       (NotFoundException ''Internal balance transfer not found.'')) (\<lambda>sender.
     bindT (requireT (ir_recipientCustomerAccount existing)
       (NotFoundException ''Internal balance transfer not found.'')) (\<lambda>recipient.
     decideTransfer_transaction operatorId dto sender recipient existing))"

abbreviation (input) role_text :: "string option \<Rightarrow> string" where
  "role_text role \<equiv> (case normalizeOperatorRole role of None \<Rightarrow> [] | Some r \<Rightarrow> r)"

fun late_part :: "evm_library \<Rightarrow> int \<Rightarrow> service_call \<Rightarrow> (string \<times> TransactionIntentType \<times> unit dbtx) option" where
  "late_part evm at (RecordDepositBroadcast i dto a) =
     Some (i, TransactionIntentType.deposit, discard (recordDepositBroadcast_transaction i dto a))"
| "late_part evm at (FailDepositIntentExecution i dto a) =
     Some (i, TransactionIntentType.deposit, discard (failDepositIntentExecution_transaction i dto a))"
| "late_part evm at (ConfirmDepositIntent i h a) =
     Some (i, TransactionIntentType.deposit, discard (confirmDepositIntent_transaction i h a))"
| "late_part evm at (SettleConfirmedDepositIntent i a) =
     Some (i, TransactionIntentType.deposit, discard (settleConfirmedDepositIntent_transaction i a))"
| "late_part evm at (StartManagedWithdrawalExecution i w ms) =
     Some (i, TransactionIntentType.withdrawal,
       discard (startManagedWithdrawalExecution_transaction evm i w at (at - ms)))"
| "late_part evm at (RecordSignedWithdrawalExecution i w dto) =
     Some (i, TransactionIntentType.withdrawal, discard (recordSignedWithdrawalExecution_transaction evm i w dto))"
| "late_part evm at (RecordWithdrawalBroadcast i dto a) =
     Some (i, TransactionIntentType.withdrawal, discard (recordWithdrawalBroadcast_transaction evm i dto a))"
| "late_part evm at (FailWithdrawalIntentExecution i dto a) =
     Some (i, TransactionIntentType.withdrawal, discard (failWithdrawalIntentExecution_transaction evm i dto a))"
| "late_part evm at (ConfirmWithdrawalIntent i h a) =
     Some (i, TransactionIntentType.withdrawal, discard (confirmWithdrawalIntent_transaction i h a))"
| "late_part evm at (SettleConfirmedWithdrawalIntent i a) =
     Some (i, TransactionIntentType.withdrawal, discard (settleConfirmedWithdrawalIntent_transaction i a))"
| "late_part evm at (DecideDepositIntent i op dto role) =
     Some (i, TransactionIntentType.deposit,
       as_checked i depositPending (decideDepositIntent_transaction op dto (role_text role)))"
| "late_part evm at (QueueApprovedDepositIntent i op role) =
     Some (i, TransactionIntentType.deposit, as_checked i (in_state TransactionIntentStatus.approved)
       (queueApprovedDepositIntent_transaction op (role_text role)))"
| "late_part evm at (DecideWithdrawalIntent i op dto role) =
     Some (i, TransactionIntentType.withdrawal,
       as_checked i withdrawalPending (decideWithdrawalIntent_transaction op dto (role_text role)))"
| "late_part evm at (QueueApprovedWithdrawalIntent i op role) =
     Some (i, TransactionIntentType.withdrawal, as_checked i (in_state TransactionIntentStatus.approved)
       (queueApprovedWithdrawalIntent_transaction op (role_text role)))"
| "late_part evm at (DecideBalanceTransfer i op dto role) =
     Some (i, TransactionIntentType.internal_balance_transfer,
       as_checked i (decided_as TransactionIntentStatus.review_required PolicyDecision.review_required)
         (decideTransfer_part op dto))"
| "late_part evm at _ = None"

section \<open>Steps\<close>

text \<open>
  What the rest of the platform does meanwhile: time passes, accounts are opened and change
  status, wallets, assets, review cases, audit events and the solvency policy change. It moves no
  money and writes no intent, chain record or settlement proof.
\<close>

definition elsewhere_step :: "db \<Rightarrow> db \<Rightarrow> bool" where
  "elsewhere_step s t \<longleftrightarrow> off_ledger s t \<and> transactionIntents t = transactionIntents s \<and>
     blockchainTransactions t = blockchainTransactions s \<and>
     depositSettlementProofs t = depositSettlementProofs s \<and> accounts_wf t \<and>
     ca_id ` set (customerAccounts s) \<subseteq> ca_id ` set (customerAccounts t)"

inductive service_step :: "service_config \<Rightarrow> evm_library \<Rightarrow> db \<Rightarrow> db \<Rightarrow> bool" for cfg evm where
  call: "run_call cfg evm c s = Inr (u, t) \<Longrightarrow> service_step cfg evm s t"
| late: "late_part evm at c = Some (i, ty, m) \<Longrightarrow> intent_row s i = Some r \<Longrightarrow> ti_intentType r = ty \<Longrightarrow>
    m s = Inr (u, t) \<Longrightarrow> service_step cfg evm s t"
| meanwhile: "elsewhere_step s t \<Longrightarrow> service_step cfg evm s t"

inductive service_reachable :: "service_config \<Rightarrow> evm_library \<Rightarrow> db \<Rightarrow> bool" for cfg evm where
  start: "inj gen \<Longrightarrow> service_reachable cfg evm (empty_db gen now)"
| step: "service_reachable cfg evm s \<Longrightarrow> service_step cfg evm s t \<Longrightarrow> service_reachable cfg evm t"

section \<open>Every step keeps the invariant\<close>

lemma parties_ok_ids:
  "parties_ok s r \<longleftrightarrow> (\<exists>c\<in>ca_id ` set (customerAccounts s). ti_customerAccountId r = Some c) \<and>
     (ti_intentType r = TransactionIntentType.internal_balance_transfer \<longrightarrow>
      (\<exists>c\<in>ca_id ` set (customerAccounts s). ti_recipientCustomerAccountId r = Some c))"
  by (simp add: parties_ok_def)

lemma elsewhere_keeps:
  assumes inv: "service_inv s" and out: "elsewhere_step s t"
  shows "service_inv t"
proof -
  have ol: "off_ledger s t" using out by (simp add: elsewhere_step_def)
  have rows: "intent_row t k = intent_row s k" "latest_of t k = latest_of s k" "proof_of t k = proof_of s k"
    for k using out by (simp_all add: elsewhere_step_def intent_row_def latest_of_def proof_of_def)
  have books: "booked t = booked s" by (intro ext) (rule off_ledger_booked [OF ol])
  have alloc: "allocated s k \<Longrightarrow> allocated t k" for k by (rule off_ledger_allocated [OF ol])
  have "parties_ok t r" if "parties_ok s r" for r
    using that out unfolding parties_ok_ids elsewhere_step_def by blast
  then have "row_ok t r" if "r \<in> set (transactionIntents t)" for r
    using inv that out by (auto simp: service_inv_def row_ok_def rows books elsewhere_step_def)
  moreover have "intents_wf t" "chain_wf t" "proofs_wf t"
    using service_inv_parts(2-4) [OF inv] out alloc
    by (auto simp: intents_wf_def chain_wf_def proofs_wf_def books elsewhere_step_def)
  moreover have "books_match t"
    using service_inv_parts(6) [OF inv] out off_ledger_key_net [OF ol] by (simp add: books_match_def elsewhere_step_def)
  moreover have "ledger_invariant t" by (rule off_ledger_invariant [OF ol service_inv_parts(1) [OF inv]])
  ultimately show ?thesis using out by (simp add: service_inv_def elsewhere_step_def)
qed

lemma as_checked_Inr [tx_iff]:
  "as_checked i ready m s = Inr (u, t) \<longleftrightarrow> (\<exists>r x. intent_row s i = Some r \<and> ready r \<and> m (with_relations s r) s = Inr (x, t))"
  by (auto simp: as_checked_def tx_iff split: option.splits if_splits)

lemma decideTransfer_part_Inr [tx_iff]:
  "decideTransfer_part op dto (with_relations s r) s = Inr (x, t) \<longleftrightarrow> (\<exists>a d.
     follow ca_id (customerAccounts s) (ti_customerAccountId r) = Some a \<and>
     follow ca_id (customerAccounts s) (ti_recipientCustomerAccountId r) = Some d \<and>
     decideTransfer_transaction op dto a d (with_relations s r) s = Inr (x, t))"
  by (auto simp: decideTransfer_part_def tx_iff)

lemma decideDeposit_part_keeps:
  assumes "decideDepositIntent_transaction op dto role (with_relations s r) s = Inr (x, t)" "service_inv s"
    "intent_row s i = Some r" "ti_intentType r = TransactionIntentType.deposit" "depositPending r"
  shows "service_inv t"
  using decideDepositIntent_transaction_keeps [OF assms(1-4)]
    deposit_pending_review [OF assms(5) [unfolded depositPending_def] service_inv_row(2) [OF assms(2,3)] assms(4)] by blast

lemma decideWithdrawal_part_keeps:
  assumes "decideWithdrawalIntent_transaction op dto role (with_relations s r) s = Inr (x, t)" "service_inv s"
    "intent_row s i = Some r" "ti_intentType r = TransactionIntentType.withdrawal" "withdrawalPending r"
  shows "service_inv t"
  using decideWithdrawalIntent_transaction_keeps [OF assms(1-4)] assms(5) by (simp add: withdrawalPending_def)

lemma late_part_keeps:
  assumes "late_part evm at c = Some (i, ty, m)" "intent_row s i = Some r" "ti_intentType r = ty"
    "m s = Inr (u, t)" "service_inv s"
  shows "service_inv t"
  using assms
  by (cases c) (auto simp: tx_iff intro: recordDepositBroadcast_keeps failDepositIntentExecution_keeps
      confirmDepositIntent_keeps settleConfirmedDepositIntent_keeps startManagedWithdrawalExecution_keeps
      recordSignedWithdrawalExecution_keeps recordWithdrawalBroadcast_keeps failWithdrawalIntentExecution_keeps
      confirmWithdrawalIntent_keeps settleConfirmedWithdrawalIntent_keeps decideDeposit_part_keeps
      queueApprovedDepositIntent_transaction_keeps decideWithdrawal_part_keeps
      queueApprovedWithdrawalIntent_transaction_keeps decideTransfer_transaction_keeps)

text \<open>
  A call that re-checks either returns what it found, or runs its transaction on a state that
  differs from the one it was called on at most by the solvency policy row.
\<close>

lemma throwOpt_Inr [tx_iff]: "throwOpt e s = Inr (u, t) \<longleftrightarrow> e = None \<and> t = s"
  by (auto simp: throwOpt_def tx_iff split: option.splits)

definition reruns :: "db \<Rightarrow> string \<Rightarrow> TransactionIntentType \<Rightarrow> 'a dbtx \<Rightarrow> db \<Rightarrow> bool" where
  "reruns s i ty m t \<longleftrightarrow> same_core s t \<or> (\<exists>s1 old x. same_core s s1 \<and> intent_row s1 i = Some old \<and>
     ti_intentType old = ty \<and> m s1 = Inr (x, t))"

lemma rerunsI: "intent_row s i = Some old \<Longrightarrow> ti_intentType old = ty \<Longrightarrow> m s = Inr (x, t) \<Longrightarrow> reruns s i ty m t"
  unfolding reruns_def using same_core_refl by blast

lemma reruns_same [simp]: "reruns s i ty m s"
  by (simp add: reruns_def)

lemma deposit_calls:
  assumes "service_inv s"
  shows "recordDepositBroadcastWithActor cfg i rb a s = Inr (x, t) \<Longrightarrow>
      reruns s i TransactionIntentType.deposit (recordDepositBroadcast_transaction i rb a) t"
    "failDepositIntentExecutionWithActor cfg i fe a s = Inr (x, t) \<Longrightarrow>
      reruns s i TransactionIntentType.deposit (failDepositIntentExecution_transaction i fe a) t"
    "confirmDepositIntentWithActor cfg i h a s = Inr (x, t) \<Longrightarrow>
      reruns s i TransactionIntentType.deposit (confirmDepositIntent_transaction i h a) t"
    "settleConfirmedDepositIntentWithActor cfg i a s = Inr (x, t) \<Longrightarrow>
      reruns s i TransactionIntentType.deposit (settleConfirmedDepositIntent_transaction i a) t"
  using service_inv_row(3) [OF assms]
  by (auto simp: recordDepositBroadcastWithActor_def failDepositIntentExecutionWithActor_def
      confirmDepositIntentWithActor_def settleConfirmedDepositIntentWithActor_def requireProof_def
      requireConfirmed_def deposit_run intro: rerunsI split: if_splits)

lemma withdrawal_calls:
  assumes "service_inv s"
  shows "recordSignedWithdrawalExecution cfg evm i w rs s = Inr (x, t) \<Longrightarrow>
      reruns s i TransactionIntentType.withdrawal (recordSignedWithdrawalExecution_transaction evm i w rs) t"
    "recordWithdrawalBroadcastWithActor cfg evm i rb a s = Inr (x, t) \<Longrightarrow>
      reruns s i TransactionIntentType.withdrawal (recordWithdrawalBroadcast_transaction evm i rb a) t"
    "failWithdrawalIntentExecutionWithActor cfg evm i fe a s = Inr (x, t) \<Longrightarrow>
      reruns s i TransactionIntentType.withdrawal (failWithdrawalIntentExecution_transaction evm i fe a) t"
    "confirmWithdrawalIntentWithActor cfg i h a s = Inr (x, t) \<Longrightarrow>
      reruns s i TransactionIntentType.withdrawal (confirmWithdrawalIntent_transaction i h a) t"
    "settleConfirmedWithdrawalIntentWithActor cfg i a s = Inr (x, t) \<Longrightarrow>
      reruns s i TransactionIntentType.withdrawal (settleConfirmedWithdrawalIntent_transaction i a) t"
  using service_inv_row(3) [OF assms]
  by (auto simp: recordSignedWithdrawalExecution_def recordWithdrawalBroadcastWithActor_def
      failWithdrawalIntentExecutionWithActor_def confirmWithdrawalIntentWithActor_def
      settleConfirmedWithdrawalIntentWithActor_def requireConfirmed_def withdrawal_run
      intro: rerunsI split: if_splits)

lemma same_core_now: "same_core s t \<Longrightarrow> now_ms t = now_ms s"
  by (simp add: same_core_def)

lemma startManagedWithdrawalExecution_call:
  assumes inv: "service_inv s" and run: "startManagedWithdrawalExecution cfg evm i w ms s = Inr (x, t)"
  shows "reruns s i TransactionIntentType.withdrawal
    (startManagedWithdrawalExecution_transaction evm i w (now_ms s) (now_ms s - ms)) t"
proof -
  from run obtain old s1 y where old: "intent_row s i = Some old"
    and wd: "ti_intentType old = TransactionIntentType.withdrawal" and gate: "same_core s s1"
    and rest: "t = s1 \<or> startManagedWithdrawalExecution_transaction evm (ti_id old) w (now_ms s) (now_ms s - ms) s1
      = Inr (y, t)"
    using same_core_now
    by (auto simp: startManagedWithdrawalExecution_def mapIntentReviewProjection_def throwOpt_Inr withdrawal_run
        dest!: bookkeepingD [OF bookkeeping_gates(2)] split: if_splits) blast
  have "intent_row s1 i = Some old" using gate old by (simp add: same_core_def intent_row_def)
  then show ?thesis
    using wd gate rest service_inv_row(3) [OF inv old] unfolding reruns_def by auto
qed

section \<open>Requests\<close>

lemma find_account: "find P (customerAccounts s) = Some c \<Longrightarrow> ca_id c \<in> ca_id ` set (customerAccounts s)"
  by (auto simp: find_Some_iff)

lemma request_guards:
  "normalizeAssetSymbol x s = Inr (y, t) \<Longrightarrow> t = s"
  "parseRequestedAmount a s = Inr (b, t) \<longleftrightarrow> 0 < a \<and> b = a \<and> t = s"
  "assertSensitiveIntentRequestAllowed st s = Inr (u, t) \<Longrightarrow> t = s"
  "activeAsset cfg sy s = Inr (z, t) \<Longrightarrow> t = s"
  by (auto simp: normalizeAssetSymbol_def parseRequestedAmount_def assertSensitiveIntentRequestAllowed_def
      activeAsset_def tx_iff Let_def split: if_splits)

lemma resolveDepositIntentContext_Inr:
  "resolveDepositIntentContext cfg user sy s = Inr (ctx, t) \<Longrightarrow>
     t = s \<and> ctx_customerAccountId ctx \<in> ca_id ` set (customerAccounts s)"
  by (auto simp: resolveDepositIntentContext_def tx_iff dest!: request_guards(1,3,4) find_account)

lemma createDepositIntent_call:
  assumes "createDepositIntent cfg user dto s = Inr (r, t)"
  shows "t = s \<or> (\<exists>sy ctx x. 0 < cd_amount dto \<and> ctx_customerAccountId ctx \<in> ca_id ` set (customerAccounts s) \<and>
    createDepositIntent_transaction cfg user dto (resolveDepositRequestDecision cfg sy (cd_amount dto)) ctx s = Inr (x, t))"
  using assms
  by (auto simp: createDepositIntent_def tx_iff request_guards(2) Let_def reuseDepositIntent_def
      transactionIntent_findByIdempotencyKey_def
      dest!: request_guards(1) resolveDepositIntentContext_Inr split: option.splits)

lemma resolveWithdrawalIntentContext_Inr:
  "resolveWithdrawalIntentContext cfg evm user sy ext s = Inr (ctx, t) \<Longrightarrow>
     t = s \<and> wx_customerAccountId ctx \<in> ca_id ` set (customerAccounts s)"
  by (auto simp: resolveWithdrawalIntentContext_def tx_iff
      dest!: request_guards(1,3,4) find_account normalize_pure)

lemma createWithdrawalIntent_call:
  assumes "createWithdrawalIntent cfg evm user dto s = Inr (r, t)"
  shows "t = s \<or> (\<exists>ctx x. 0 < cw_amount dto \<and> wx_customerAccountId ctx \<in> ca_id ` set (customerAccounts s) \<and>
    createWithdrawalIntent_transaction cfg user dto ctx s = Inr (x, t))"
  using assms
  by (auto simp: createWithdrawalIntent_def tx_iff request_guards(2) Let_def reuseWithdrawalIntent_def
      transactionIntent_findByIdempotencyKey_def
      dest!: request_guards(1) resolveWithdrawalIntentContext_Inr split: option.splits)

lemma transfer_guards:
  "normalizeTransferSymbol x s = Inr (y, t) \<Longrightarrow> t = s" "normalizeEmail x s = Inr (y, t) \<Longrightarrow> t = s"
  "parseTransferAmount a s = Inr (b, t) \<longleftrightarrow> 0 < a \<and> b = a \<and> t = s"
  "resolveSenderContext cfg user sy s = Inr (sx, t) \<Longrightarrow>
     t = s \<and> ca_id (sx_account sx) \<in> ca_id ` set (customerAccounts s)"
  "findEligibleRecipientByEmail m s = Inr (Some rx, t) \<Longrightarrow>
     t = s \<and> ca_id (rx_account rx) \<in> ca_id ` set (customerAccounts s)"
  by (auto simp: normalizeTransferSymbol_def normalizeEmail_def parseTransferAmount_def resolveSenderContext_def
      findEligibleRecipientByEmail_def tx_iff Let_def eq_commute [of "Some _"]
      dest!: request_guards(4) find_account split: if_splits)

lemma createBalanceTransfer_call:
  assumes "createBalanceTransfer cfg user dto s = Inr (r, t)"
  shows "t = s \<or> (\<exists>out sx rx x. 0 < cb_amount dto \<and> ca_id (sx_account sx) \<in> ca_id ` set (customerAccounts s) \<and>
    ca_id (rx_account rx) \<in> ca_id ` set (customerAccounts s) \<and>
    createBalanceTransfer_transaction cfg user dto out sx rx s = Inr (x, t))"
  using assms
  by (auto simp: createBalanceTransfer_def tx_iff transfer_guards(3) Let_def reuseTransfer_def
      transactionIntent_findByIdempotencyKey_def
      dest!: transfer_guards(1,2,4,5) split: option.splits)

section \<open>The invariant of the system\<close>

lemma reruns_keeps:
  assumes "reruns s i ty m t" "service_inv s"
    and "\<And>s1 old x. intent_row s1 i = Some old \<Longrightarrow> ti_intentType old = ty \<Longrightarrow> m s1 = Inr (x, t) \<Longrightarrow>
      service_inv s1 \<Longrightarrow> service_inv t"
  shows "service_inv t"
  using assms unfolding reruns_def by (blast intro: service_inv_bookkeeping)

lemma run_call_keeps:
  assumes "run_call cfg evm c s = Inr (u, t)" and inv: "service_inv s"
  shows "service_inv t"
  using assms(1)
proof (cases c)
  case (CreateDepositIntent x1 x2)
  with assms(1) obtain r where "createDepositIntent cfg x1 x2 s = Inr (r, t)" by (auto simp: tx_iff)
  from createDepositIntent_call [OF this] show ?thesis
    by (auto intro: inv createDepositIntent_transaction_keeps [OF _ inv refl])
next
  case (CreateWithdrawalIntent x1 x2)
  with assms(1) obtain r where "createWithdrawalIntent cfg evm x1 x2 s = Inr (r, t)" by (auto simp: tx_iff)
  from createWithdrawalIntent_call [OF this] show ?thesis
    by (auto intro: inv createWithdrawalIntent_transaction_keeps [OF _ inv])
next
  case (CreateBalanceTransfer x1 x2)
  with assms(1) obtain r where "createBalanceTransfer cfg x1 x2 s = Inr (r, t)" by (auto simp: tx_iff)
  from createBalanceTransfer_call [OF this] show ?thesis
    by (auto intro: inv createBalanceTransfer_transaction_keeps [OF _ inv])
qed (auto simp: tx_iff
    intro: decideDepositIntent_keeps [OF _ inv] queueApprovedDepositIntent_keeps [OF _ inv]
      decideWithdrawalIntent_keeps [OF _ inv] queueApprovedWithdrawalIntent_keeps [OF _ inv]
      decideBalanceTransfer_keeps [OF _ inv]
    dest!: deposit_calls [OF inv] withdrawal_calls [OF inv] startManagedWithdrawalExecution_call [OF inv]
    elim!: reruns_keeps [OF _ inv]
    intro: recordDepositBroadcast_keeps failDepositIntentExecution_keeps
      confirmDepositIntent_keeps settleConfirmedDepositIntent_keeps startManagedWithdrawalExecution_keeps
      recordSignedWithdrawalExecution_keeps recordWithdrawalBroadcast_keeps failWithdrawalIntentExecution_keeps
      confirmWithdrawalIntent_keeps settleConfirmedWithdrawalIntent_keeps)

lemma service_inv_start: "inj gen \<Longrightarrow> service_inv (empty_db gen now)"
  using ledger_invariant_start [of gen now]
  by (simp add: service_inv_def intents_wf_def chain_wf_def proofs_wf_def accounts_wf_def books_match_def
      empty_db_def key_net_def booked_def recorded_def)

lemma service_inv_step: "service_step cfg evm s t \<Longrightarrow> service_inv s \<Longrightarrow> service_inv t"
  by (induction rule: service_step.induct) (blast intro: run_call_keeps late_part_keeps elsewhere_keeps)+

lemma service_reachable_inv: "service_reachable cfg evm s \<Longrightarrow> service_inv s"
  by (induction rule: service_reachable.induct) (blast intro: service_inv_start service_inv_step)+

section \<open>What steps preserve\<close>

lemma extending_guards [extending_intro]:
  "extending (normalizeAssetSymbol x)" "extending (parseRequestedAmount a)"
  "extending (resolveDepositIntentContext cfg user sy)" "extending (resolveWithdrawalIntentContext cfg evm user sy ext)"
  "extending (normalizeTransferSymbol x)" "extending (normalizeEmail x)" "extending (parseTransferAmount a)"
  "extending (resolveSenderContext cfg user sy)" "extending (throwOpt e)"
  "extending (freshResult q)" "extending (reusedResult q)" "extending (mapIntentReviewProjection q)"
  "extending (findDepositIntentForReview cfg i)" "extending (findWithdrawalIntentForReview cfg i)"
  "extending (loadBalanceTransferIntent cfg i)" "extending (findEligibleRecipientByEmail m)"
  "extending (assertOperatorRoleAuthorized role roles msg)"
  using request_guards(1) resolveDepositIntentContext_Inr resolveWithdrawalIntentContext_Inr
    transfer_guards(1,2,4)
  by (auto simp: extending_def request_guards(2) transfer_guards(3) mapIntentReviewProjection_def
      findDepositIntentForReview_def findWithdrawalIntentForReview_def loadBalanceTransferIntent_def
      findEligibleRecipientByEmail_def assertOperatorRoleAuthorized_def tx_iff throwOpt_Inr extends_refl
      split: option.splits if_splits) (metis extends_refl)+

lemma extending_run_call: "extending (run_call cfg evm c)"
proof -
  note intros = extending_deposits extending_withdrawals extending_transfers
  show ?thesis
    unfolding discard_def 
    by (cases c; simp only: run_call.simps discard_def createDepositIntent_def decideDepositIntent_def
        queueApprovedDepositIntent_def recordDepositBroadcastWithActor_def failDepositIntentExecutionWithActor_def
        confirmDepositIntentWithActor_def settleConfirmedDepositIntentWithActor_def createWithdrawalIntent_def
        decideWithdrawalIntent_def queueApprovedWithdrawalIntent_def startManagedWithdrawalExecution_def
        recordSignedWithdrawalExecution_def recordWithdrawalBroadcastWithActor_def
        failWithdrawalIntentExecutionWithActor_def confirmWithdrawalIntentWithActor_def
        settleConfirmedWithdrawalIntentWithActor_def createBalanceTransfer_def decideBalanceTransfer_def
        reuseDepositIntent_def reuseWithdrawalIntent_def reuseTransfer_def requireProof_def requireConfirmed_def
        assertCanDecideTransactionIntent_def assertCanOperateCustody_def assertCanDecideBalanceTransfer_def
        deposit_guards withdrawal_guards ensureDepositCanFail_def Let_def;
      intro extending_intro intros)
qed

end
