(* ===== verification/Intent_Effects.thy ===== *)
theory Intent_Effects
  imports Intent_System
begin

text \<open>
  What the intents say about the books: the effect of an intent on the balances its parties see,
  the statuses an intent does not leave, and the requests by idempotency key, with the lemmas
  that relate them to the invariant and to the steps of the services.
\<close>

section \<open>Balances from intents\<close>

text \<open>
  What an intent adds to the available and to the pending balance of an account in an asset, in
  its present status.
\<close>

definition available_effect :: "string \<Rightarrow> string \<Rightarrow> transaction_intent \<Rightarrow> decimal" where
  "available_effect c a r =
     (if ti_assetId r \<noteq> a then 0 else
      let x = ti_requestedAmount r; mine = (ti_customerAccountId r = Some c);
          received = (ti_recipientCustomerAccountId r = Some c) in
      case ti_intentType r of
        TransactionIntentType.deposit \<Rightarrow>
          (if mine \<and> ti_status r = TransactionIntentStatus.settled then x else 0)
      | TransactionIntentType.withdrawal \<Rightarrow>
          (if mine \<and> ti_status r \<noteq> TransactionIntentStatus.failed then - x else 0)
      | TransactionIntentType.internal_balance_transfer \<Rightarrow>
          (if mine \<and> ti_status r \<in> {TransactionIntentStatus.settled, TransactionIntentStatus.review_required}
           then - x else 0) +
          (if received \<and> ti_status r = TransactionIntentStatus.settled then x else 0)
      | _ \<Rightarrow> 0)"

definition pending_effect :: "string \<Rightarrow> string \<Rightarrow> transaction_intent \<Rightarrow> decimal" where
  "pending_effect c a r =
     (if ti_assetId r = a \<and> ti_customerAccountId r = Some c \<and>
         ((ti_intentType r = TransactionIntentType.withdrawal \<and>
           ti_status r \<notin> {TransactionIntentStatus.failed, TransactionIntentStatus.settled}) \<or>
          (ti_intentType r = TransactionIntentType.internal_balance_transfer \<and>
           ti_status r = TransactionIntentStatus.review_required))
      then ti_requestedAmount r else 0)"

lemma intent_type_cases:
  assumes "intent_ok r l p J"
  shows "ti_intentType r \<in> {TransactionIntentType.deposit, TransactionIntentType.withdrawal,
    TransactionIntentType.internal_balance_transfer}"
  using assms by (auto simp: intent_ok_def split: TransactionIntentType.splits)

lemma contribution_effects:
  assumes "service_inv s" "r \<in> set (transactionIntents s)" "no_colon c"
  shows "contribution r (buildCustomerLiabilityLedgerKey c a) = available_effect c a r"
    and "contribution r (buildPendingWithdrawalLiabilityLedgerKey c a) +
      contribution r (buildPendingInternalTransferLiabilityLedgerKey c a) = pending_effect c a r"
proof -
  from assms(1,2) have row: "row_ok s r" by (simp add: service_inv_def)
  then obtain d where d: "ti_customerAccountId r = Some d" "no_colon d"
    using service_inv_parts(5) [OF assms(1)] by (auto simp: row_ok_def parties_ok_def accounts_wf_def)
  note ty = intent_type_cases [OF row [unfolded row_ok_def, THEN conjunct2]]
  have e: "\<exists>e. ti_recipientCustomerAccountId r = Some e \<and> no_colon e"
    if "ti_intentType r = TransactionIntentType.internal_balance_transfer"
    using row service_inv_parts(5) [OF assms(1)] that by (auto simp: row_ok_def parties_ok_def accounts_wf_def)
  show "contribution r (buildCustomerLiabilityLedgerKey c a) = available_effect c a r"
    using ty d e assms(3)
    by (auto simp: contribution.simps available_effect_def Let_def key_simps)
  show "contribution r (buildPendingWithdrawalLiabilityLedgerKey c a) +
      contribution r (buildPendingInternalTransferLiabilityLedgerKey c a) = pending_effect c a r"
    using ty d e assms(3)
    by (auto simp: contribution.simps pending_effect_def Let_def key_simps)
qed

lemma effects_sum:
  assumes inv: "service_inv s" and c: "no_colon c"
  shows "available s c a = sum_list (map (available_effect c a) (transactionIntents s))"
    and "pending s c a = sum_list (map (pending_effect c a) (transactionIntents s))"
proof -
  let ?I = "transactionIntents s"
  have net: "key_net s k = sum_list (map (\<lambda>r. contribution r k) ?I)" for k
    using service_inv_parts(6) [OF inv] by (simp add: books_match_def)
  have rec: "available s c a = key_net s (buildCustomerLiabilityLedgerKey c a)"
    "pending s c a = key_net s (buildPendingWithdrawalLiabilityLedgerKey c a) +
      key_net s (buildPendingInternalTransferLiabilityLedgerKey c a)"
    using service_inv_parts(1) [OF inv] c by (auto simp: ledger_invariant_def reconciled_def)
  show "available s c a = sum_list (map (available_effect c a) ?I)"
    unfolding rec net by (rule arg_cong [of _ _ sum_list], rule map_cong [OF refl], rule contribution_effects(1) [OF inv _ c])
  show "pending s c a = sum_list (map (pending_effect c a) ?I)"
    unfolding rec net sum_list_addf [symmetric]
    by (rule arg_cong [of _ _ sum_list], rule map_cong [OF refl], rule contribution_effects(2) [OF inv _ c])
qed

section \<open>Final statuses\<close>

lemma extending_discard: "extending m \<Longrightarrow> extending (discard m)"
  by (auto simp: extending_def tx_iff)

lemma extending_part:
  "(\<And>x. extending (m x)) \<Longrightarrow> extending (as_checked i ready m)" "extending (decideTransfer_part op dto r)"
  unfolding as_checked_def decideTransfer_part_def decideTransfer_transaction_def discard_def
  by (intro extending_intro extending_transfers | assumption)+

lemma extends_step:
  assumes "service_step cfg evm s t" shows "extends s t"
  using assms
proof cases
  case (call c u)
  then show ?thesis by (rule extendingD [OF extending_run_call])
next
  case (late at c i ty m r u)
  have "extending m"
    using late(1) by (cases c) (auto intro: extending_discard extending_deposits extending_withdrawals extending_part)
  then show ?thesis using late(4) by (rule extendingD)
next
  case meanwhile
  then show ?thesis by (auto simp: elsewhere_step_def off_ledger_def intro: extends_frame)
qed

lemma extends_steps: "(service_step cfg evm)\<^sup>*\<^sup>* s t \<Longrightarrow> extends s t"
  by (induction rule: rtranclp_induct) (auto intro: extends_trans extends_step)

lemma reachable_steps:
  "(service_step cfg evm)\<^sup>*\<^sup>* s t \<Longrightarrow> service_reachable cfg evm s \<Longrightarrow> service_reachable cfg evm t"
  by (induction rule: rtranclp_induct) (auto intro: service_reachable.step)

text \<open>The states an intent does not leave: those that a journal records.\<close>

definition final_journal :: "transaction_intent \<Rightarrow> ledger_journal_type option" where
  "final_journal r =
     (case ti_intentType r of
        TransactionIntentType.deposit \<Rightarrow>
          (if ti_status r = TransactionIntentStatus.settled then Some deposit_settlement else None)
      | TransactionIntentType.withdrawal \<Rightarrow>
          (if ti_status r = TransactionIntentStatus.settled then Some withdrawal_settlement
           else if ti_status r = TransactionIntentStatus.failed then Some withdrawal_reservation_release else None)
      | TransactionIntentType.internal_balance_transfer \<Rightarrow>
          (if ti_status r = TransactionIntentStatus.settled then Some internal_balance_transfer_settlement
           else if ti_status r = TransactionIntentStatus.cancelled
           then Some internal_balance_transfer_reservation_release else None)
      | _ \<Rightarrow> None)"

lemma final_journal_booked:
  assumes ok: "intent_ok r l p J" and f: "final_journal r = Some ty"
  shows "J ty"
  using ok intent_type_cases [OF ok] f
  by (auto simp: final_journal_def intent_ok_def deposit_ok_def withdrawal_ok_def transfer_ok_def split: if_splits)

lemma booked_final_status:
  assumes ok: "intent_ok r' l p J" "J ty" and f: "final_journal r = Some ty" "ti_intentType r' = ti_intentType r"
  shows "ti_status r' = ti_status r"
  using ok intent_type_cases [OF ok(1)] f
  by (auto simp: final_journal_def intent_ok_def deposit_ok_def withdrawal_ok_def transfer_ok_def split: if_splits)

section \<open>Requests by key\<close>

fun request_key :: "service_call \<Rightarrow> string option" where
  "request_key (CreateDepositIntent u dto) = Some (cd_idempotencyKey dto)"
| "request_key (CreateWithdrawalIntent u dto) = Some (cw_idempotencyKey dto)"
| "request_key (CreateBalanceTransfer u dto) = Some (cb_idempotencyKey dto)"
| "request_key _ = None"

definition key_used :: "db \<Rightarrow> string \<Rightarrow> bool" where
  "key_used s k \<longleftrightarrow> k \<in> ti_idempotencyKey ` set (transactionIntents s)"

lemma key_used_extends:
  assumes "service_inv s" "extends s t" "key_used s k" shows "key_used t k"
proof -
  from assms(3) obtain r where r: "r \<in> set (transactionIntents s)" "ti_idempotencyKey r = k"
    by (auto simp: key_used_def)
  from intent_row_of [OF service_inv_parts(2) [OF assms(1)] r(1)] assms(2) obtain r' where
    r': "intent_row t (ti_id r) = Some r'" "request_of r' = request_of r"
    unfolding extends_def by blast
  then have "ti_idempotencyKey r' = k" using r(2) by (simp add: request_of_def)
  with intent_row_in [OF r'(1)] show ?thesis unfolding key_used_def by blast
qed

lemma key_used_find: "key_used s k \<longleftrightarrow> find (\<lambda>r. ti_idempotencyKey r = k) (transactionIntents s) \<noteq> None"
  by (auto simp: key_used_def find_None_iff)

text \<open>The row a request writes is there at its end: what follows the insertion only extends it.\<close>

lemma created_key:
  assumes run: "bindT (transactionIntent_create build) rest s = Inr (x, t)" and rest: "\<And>r. extending (rest r)"
    and key: "\<And>i. ti_idempotencyKey (build i) = k" and id: "\<And>i. ti_id (build i) = i" and inv: "service_inv s"
  shows "key_used t k"
proof -
  let ?i = "cuid_of s (cuid_count s)"
  let ?u = "s\<lparr>cuid_count := Suc (cuid_count s), transactionIntents := transactionIntents s @ [build ?i]\<rparr>"
  from run have "rest (build ?i) ?u = Inr (x, t)" by (auto simp: tx_iff)
  with rest have ext: "extends ?u t" by (blast intro: extendingD)
  have "?i \<notin> ti_id ` set (transactionIntents s)" by (rule fresh_intent(1) [OF inv next_id_fresh [OF inv]])
  then have "find (\<lambda>r. ti_id r = ?i) (transactionIntents s) = None"
    unfolding find_None_iff by (metis imageI)
  then have "intent_row ?u ?i = Some (build ?i)" by (simp add: intent_row_def find_append id)
  with ext obtain r' where r': "intent_row t ?i = Some r'" "request_of r' = request_of (build ?i)"
    unfolding extends_def by blast
  then have "ti_idempotencyKey r' = k" using key by (simp add: request_of_def)
  with intent_row_in [OF r'(1)] show ?thesis unfolding key_used_def by blast
qed

lemma bindT_new_Date: "bindT new_Date f s = f (now_ms s) s"
  by (simp add: bindT_def new_Date_def readT_def)

lemma created_request_key:
  assumes inv: "service_inv s"
  shows "createDepositIntent_transaction cfg user cd dec ctx s = Inr (x, t) \<Longrightarrow> key_used t (cd_idempotencyKey cd)"
    and "createWithdrawalIntent_transaction cfg user cw wx s = Inr (y, t) \<Longrightarrow> key_used t (cw_idempotencyKey cw)"
    and "createBalanceTransfer_transaction cfg user cb out sx rx s = Inr (z, t) \<Longrightarrow> key_used t (cb_idempotencyKey cb)"
  subgoal
    unfolding createDepositIntent_transaction_def
    by (subst (asm) bindT_new_Date, erule created_key [OF _ _ _ _ inv])
      ((intro extending_intro | (simp add: same_request_def; fail))+)
  subgoal
    unfolding createWithdrawalIntent_transaction_def
    by (erule created_key [OF _ _ _ _ inv]) ((intro extending_intro | (simp add: same_request_def; fail))+)
  subgoal
    unfolding createBalanceTransfer_transaction_def reloadOrThrow_def Let_def
    by (erule created_key [OF _ _ _ _ inv])
      ((intro extending_intro | (simp add: same_request_def; fail))+)
  done

lemma used_key_changes_nothing:
  assumes run: "run_call cfg evm c s = Inr (u, t)" and key: "request_key c = Some k" and used: "key_used s k"
  shows "t = s"
proof -
  from used obtain e where e: "find (\<lambda>r. ti_idempotencyKey r = k) (transactionIntents s) = Some e"
    by (auto simp: key_used_find)
  show ?thesis
    using run key e
    by (cases c) (auto simp: tx_iff createDepositIntent_def createWithdrawalIntent_def createBalanceTransfer_def
        reuseDepositIntent_def reuseWithdrawalIntent_def reuseTransfer_def Let_def
        transactionIntent_findByIdempotencyKey_def request_guards(2) transfer_guards(3)
        dest!: request_guards(1) resolveDepositIntentContext_Inr resolveWithdrawalIntentContext_Inr
          transfer_guards(1,2,4,5))
qed

lemma unused_key_creates:
  assumes run: "run_call cfg evm c s = Inr (u, t)" and key: "request_key c = Some k" and new: "\<not> key_used s k"
    and inv: "service_inv s"
  shows "key_used t k"
proof -
  from new have none: "find (\<lambda>r. ti_idempotencyKey r = k) (transactionIntents s) = None"
    by (simp add: key_used_find)
  show ?thesis
    using run key none
    by (cases c) (auto simp: tx_iff createDepositIntent_def createWithdrawalIntent_def createBalanceTransfer_def
        Let_def transactionIntent_findByIdempotencyKey_def request_guards(2) transfer_guards(3)
        dest!: request_guards(1) resolveDepositIntentContext_Inr resolveWithdrawalIntentContext_Inr
          transfer_guards(1,2,4,5) created_request_key [OF inv])
qed

end
