(* ===== verification/Call_Frames.thy ===== *)
theory Call_Frames
  imports Intent_System
begin

text \<open>
  What every call of the intent services keeps: a predicate on the database that the single writes
  of the tables keep is kept by the ledger operations and by each call made of them. The locale
  names the writes; its users are the bounds of the columns and the solvency policy row.
\<close>

lemma keeps_option [keeps_intro]:
  "keeps P m \<Longrightarrow> (\<And>x. keeps P (f x)) \<Longrightarrow> keeps P (case v of None \<Rightarrow> m | Some x \<Rightarrow> f x)"
  by (cases v) auto

lemma keeps_prod [keeps_intro]: "(\<And>x y. keeps P (f x y)) \<Longrightarrow> keeps P (case p of (x, y) \<Rightarrow> f x y)"
  by (cases p) auto

lemma keeps_catch [keeps_intro]: "keeps P m \<Longrightarrow> keeps P h \<Longrightarrow> keeps P (catchUnique m h)"
  unfolding keeps_def catchUnique_Inr by blast


locale call_frame =
  fixes P :: "db \<Rightarrow> bool"
  assumes keeps_cuid [keeps_intro]: "keeps P cuid"
    and keeps_upsert [keeps_intro]: "\<And>k ty ch a cu. keeps P (ledgerAccount_upsert k ty ch a cu)"
    and keeps_journal [keeps_intro]: "\<And>i g e ty ch a. keeps P (ledgerJournal_create i g e ty ch a)"
    and keeps_postings [keeps_intro]: "\<And>ps. keeps P (ledgerPosting_createMany ps)"
    and keeps_balance [keeps_intro]: "\<And>c a b. keeps P (customerAssetBalance_put c a b)"
    and keeps_vault [keeps_intro]: "\<And>v r. keeps P (retirementVault_put v r)"
    and keeps_create_chain [keeps_intro]: "\<And>b. keeps P (blockchainTransaction_create b)"
    and keeps_update_chain [keeps_intro]: "\<And>i f. keeps P (blockchainTransaction_update i f)"
    and keeps_proof [keeps_intro]: "\<And>d. keeps P (depositSettlementProof_create d)"
    and keeps_intent [keeps_intro]: "\<And>n. keeps P (transactionIntent_create n)"
    and keeps_update [keeps_intro]: "\<And>i f. same_request f \<Longrightarrow> keeps P (transactionIntent_update i f)"
    and keeps_updateMany [keeps_intro]: "\<And>i cond f. same_request f \<Longrightarrow> keeps P (transactionIntent_updateMany i cond f)"
    and keeps_open_case [keeps_intro]: "\<And>c. keeps P (reviewCase_create c)"
    and keeps_change_case [keeps_intro]: "\<And>i f. keeps P (reviewCase_update i f)"
    and keeps_case_event [keeps_intro]: "\<And>i aty aid ety n. keeps P (reviewCaseEvent_create i aty aid ety n)"
    and keeps_audit [keeps_intro]: "\<And>cust aty aid act tty tid p nw. keeps P (auditEvent_create cust aty aid act tty tid p nw)"
    and keeps_gate [keeps_intro]: "keeps P getOrCreatePolicyState"
begin

section \<open>Reads and review cases\<close>

lemma reads_kept [keeps_intro]:
  "keeps P new_Date" "keeps P (account_of q)" "keeps P (reloadIntent e i)" "keeps P (transactionIntent_findFirst i cond)"
  "keeps P (customerAssetBalance_findUnique c a)" "keeps P (retirementVault_findUnique v)"
  by (auto simp: keeps_def tx_iff customerAssetBalance_findUnique_def retirementVault_findUnique_def)

lemma cases_kept [keeps_intro]:
  "keeps P (openOrReuseReviewCase params)" "keeps P (resolveLinkedDepositReviewCase rc op note)"
  "keeps P (resolveLinkedReviewCase ir op note)" "keeps P (recordReviewCaseOpened cfg sender i x)"
  "keeps P (auditTransition account actor action intent st)" "keeps P (openFailureReviewCase resolution dto actor ir)"
  unfolding openOrReuseReviewCase_def resolveLinkedDepositReviewCase_def resolveLinkedReviewCase_def
    recordReviewCaseOpened_def auditTransition_def openFailureReviewCase_def
  by (intro keeps_intro)+

lemma gates_kept [keeps_intro]:
  "keeps P assertWithdrawalApprovalAllowed" "keeps P assertManagedWithdrawalExecutionAllowed"
  "keeps P (normalizeBlockchainAddress evm ad n)" "keeps P (resolveWithdrawalBroadcastAddresses evm ir fa ta)"
  unfolding assertWithdrawalApprovalAllowed_def assertManagedWithdrawalExecutionAllowed_def
    normalizeBlockchainAddress_def resolveWithdrawalBroadcastAddresses_def Let_def
  by (intro keeps_intro)+

section \<open>The ledger\<close>

lemma rows_kept [keeps_intro]:
  "keeps P (customerAssetBalance_credit c a x)" "keeps P (customerAssetBalance_updateMany c a guard upd)"
  "keeps P (retirementVault_update v vf)" "keeps P (retirementVault_updateMany v vg vf)"
  "keeps P (findLedgerJournalByIntentAndType k ty)" "keeps P (findLedgerJournalByLoanAgreementAndType k ty)"
  "keeps P (findLedgerJournalByLoanRepaymentEventAndType k ty)"
  "keeps P (transactionIntent_findByIdempotencyKey k)"
  unfolding customerAssetBalance_credit_def customerAssetBalance_updateMany_def retirementVault_update_def
    retirementVault_updateMany_def findLedgerJournalByIntentAndType_def Let_def
    findLedgerJournalByLoanAgreementAndType_def findLedgerJournalByLoanRepaymentEventAndType_def
    transactionIntent_findByIdempotencyKey_def
  by (intro keeps_intro)+

lemma ledger_kept [keeps_intro]:
  "keeps P (settleConfirmedDeposit p)" "keeps P (reserveWithdrawalBalance p)"
  "keeps P (releaseWithdrawalReservation p)" "keeps P (settleConfirmedWithdrawal p)"
  "keeps P (reserveInternalBalanceTransferBalance p)"
  "keeps P (releaseInternalBalanceTransferReservation p)" "keeps P (settleInternalBalanceTransfer q)"
  "keeps P (fundRetirementVaultBalance w)" "keeps P (releaseRetirementVaultBalance w)"
  "keeps P (recordLoanDisbursement ld)" "keeps P (recordLoanRepayment lr)"
  unfolding settleConfirmedDeposit_def reserveWithdrawalBalance_def releaseWithdrawalReservation_def
    settleConfirmedWithdrawal_def reserveInternalBalanceTransferBalance_def
    releaseInternalBalanceTransferReservation_def settleInternalBalanceTransfer_def
    fundRetirementVaultBalance_def releaseRetirementVaultBalance_def recordLoanDisbursement_def
    recordLoanRepayment_def whenFee_def senderDebitAccount_def debitSenderBalance_def ledger_account_defs
  by (intro keeps_intro)+

section \<open>The services\<close>

lemma resolution_kept [keeps_intro]: "keeps P (resolveWithdrawalExecutionFailureResolution a b c)"
  by (auto simp: keeps_def dest: resolve_pure)

lemma deposits_kept [keeps_intro]:
  "keeps P (createDepositIntent_transaction cfg user cd dec ctx)"
  "keeps P (decideDepositIntent_transaction op de role r)"
  "keeps P (queueApprovedDepositIntent_transaction op role r)"
  "keeps P (recordDepositBroadcast_transaction i rb actor)"
  "keeps P (failDepositIntentExecution_transaction i fe actor)"
  "keeps P (confirmDepositIntent_transaction i h actor)"
  "keeps P (settleConfirmedDepositIntent_transaction i actor)"
  unfolding createDepositIntent_transaction_def decideDepositIntent_transaction_def
    queueApprovedDepositIntent_transaction_def recordDepositBroadcast_transaction_def
    failDepositIntentExecution_transaction_def confirmDepositIntent_transaction_def
    settleConfirmedDepositIntent_transaction_def placeDepositIntentUnderReview_def
    assertNoConflictingDepositSettlementProof_def requireProof_def requireConfirmed_def
    deposit_guards ensureDepositCanFail_def Let_def
  by (intro keeps_intro | (simp add: same_request_def; fail))+

lemma withdrawals_kept [keeps_intro]:
  "keeps P (createWithdrawalIntent_transaction cfg user cw wx)"
  "keeps P (decideWithdrawalIntent_transaction op de role r)"
  "keeps P (queueApprovedWithdrawalIntent_transaction op role r)"
  "keeps P (startManagedWithdrawalExecution_transaction evm i w at stale)"
  "keeps P (recordSignedWithdrawalExecution_transaction evm i w rs)"
  "keeps P (recordWithdrawalBroadcast_transaction evm i rb actor)"
  "keeps P (failWithdrawalIntentExecution_transaction evm i fe actor)"
  "keeps P (confirmWithdrawalIntent_transaction i h actor)"
  "keeps P (settleConfirmedWithdrawalIntent_transaction i actor)"
  unfolding createWithdrawalIntent_transaction_def decideWithdrawalIntent_transaction_def
    queueApprovedWithdrawalIntent_transaction_def startManagedWithdrawalExecution_transaction_def
    recordSignedWithdrawalExecution_transaction_def recordWithdrawalBroadcast_transaction_def
    failWithdrawalIntentExecution_transaction_def confirmWithdrawalIntent_transaction_def
    settleConfirmedWithdrawalIntent_transaction_def requireConfirmed_def
    withdrawal_guards Let_def
  by (intro keeps_intro | (simp add: same_request_def; fail))+

lemma transfers_kept [keeps_intro]:
  "keeps P (createBalanceTransfer_transaction cfg user cb out sx rx)"
  "keeps P (approveTransfer_transaction op de a d r)"
  "keeps P (denyTransfer_transaction op de a r)"
  unfolding createBalanceTransfer_transaction_def approveTransfer_transaction_def
    denyTransfer_transaction_def reloadOrThrow_def Let_def
  by (intro keeps_intro | (simp add: same_request_def; fail))+

lemma guards_kept [keeps_intro]:
  "keeps P (normalizeAssetSymbol x)" "keeps P (parseRequestedAmount a)"
  "keeps P (resolveDepositIntentContext cfg user sy)" "keeps P (resolveWithdrawalIntentContext cfg evm user sy ext)"
  "keeps P (normalizeTransferSymbol x)" "keeps P (normalizeEmail x)" "keeps P (parseTransferAmount a)"
  "keeps P (resolveSenderContext cfg user sy)" "keeps P (throwOpt e)"
  "keeps P (freshResult q)" "keeps P (reusedResult q)" "keeps P (mapIntentReviewProjection q)"
  "keeps P (findDepositIntentForReview cfg i)" "keeps P (findWithdrawalIntentForReview cfg i)"
  "keeps P (loadBalanceTransferIntent cfg i)" "keeps P (findEligibleRecipientByEmail m)"
  "keeps P (assertOperatorRoleAuthorized role roles msg)"
  by (auto simp: keeps_def request_guards(2) transfer_guards(3) mapIntentReviewProjection_def
      findDepositIntentForReview_def findWithdrawalIntentForReview_def loadBalanceTransferIntent_def
      findEligibleRecipientByEmail_def assertOperatorRoleAuthorized_def tx_iff throwOpt_Inr freshResult_def
      reusedResult_def dest!: request_guards(1) resolveDepositIntentContext_Inr
      resolveWithdrawalIntentContext_Inr transfer_guards(1,2,4) split: option.splits if_splits)

lemma run_call_kept: "keeps P (run_call cfg evm c)"
  by (cases c; simp only: run_call.simps discard_def createDepositIntent_def decideDepositIntent_def
      queueApprovedDepositIntent_def recordDepositBroadcastWithActor_def failDepositIntentExecutionWithActor_def
      confirmDepositIntentWithActor_def settleConfirmedDepositIntentWithActor_def createWithdrawalIntent_def
      decideWithdrawalIntent_def queueApprovedWithdrawalIntent_def startManagedWithdrawalExecution_def
      recordSignedWithdrawalExecution_def recordWithdrawalBroadcastWithActor_def
      failWithdrawalIntentExecutionWithActor_def confirmWithdrawalIntentWithActor_def
      settleConfirmedWithdrawalIntentWithActor_def createBalanceTransfer_def decideBalanceTransfer_def
      reuseDepositIntent_def reuseWithdrawalIntent_def reuseTransfer_def requireProof_def requireConfirmed_def
      assertCanDecideTransactionIntent_def assertCanOperateCustody_def assertCanDecideBalanceTransfer_def
      deposit_guards withdrawal_guards ensureDepositCanFail_def Let_def;
    intro keeps_intro)

lemma late_parts_kept [keeps_intro]:
  "(\<And>x. keeps P (m x)) \<Longrightarrow> keeps P (as_checked i ready m)" "keeps P (decideTransfer_part op dto r)"
  unfolding as_checked_def decideTransfer_part_def decideTransfer_transaction_def discard_def
  by (intro keeps_intro | assumption)+

lemma late_part_kept: "late_part evm at c = Some (i, ty, m) \<Longrightarrow> keeps P m"
  by (cases c) (auto simp: discard_def intro!: keeps_intro)

end

end
