(* ===== verification/Column_Bounds.thy ===== *)
theory Column_Bounds
  imports Call_Frames
begin

text \<open>
  Every amount the platform stores fits its \<open>Decimal(36, 18)\<close> column: the database refuses a
  write that does not, so every operation that returns keeps the columns in range. Together with
  the ledger's solvency the balances of a reachable state lie between 0 and the column's limit.
\<close>

definition columns_fit :: "db \<Rightarrow> bool" where
  "columns_fit s \<longleftrightarrow> (\<forall>k b. customerAssetBalances s k = Some b \<longrightarrow> fits_balance b) \<and>
     (\<forall>v r. retirementVaults s v = Some r \<longrightarrow> fits_decimal (rv_lockedBalance r)) \<and>
     (\<forall>p\<in>set (ledgerPostings s). fits_decimal (lp_amount p)) \<and>
     (\<forall>r\<in>set (transactionIntents s). fits_decimal (ti_requestedAmount r))"

lemma columns_fit_upd [simp]:
  "columns_fit (s\<lparr>cuid_count := n\<rparr>) = columns_fit s" "columns_fit (s\<lparr>ledgerAccounts := A\<rparr>) = columns_fit s"
  "columns_fit (s\<lparr>ledgerJournals := J\<rparr>) = columns_fit s" "columns_fit (s\<lparr>blockchainTransactions := B\<rparr>) = columns_fit s"
  "columns_fit (s\<lparr>depositSettlementProofs := D\<rparr>) = columns_fit s"
  by (simp_all add: columns_fit_def)

lemma fits_off_ledger:
  "off_ledger s t \<Longrightarrow> transactionIntents t = transactionIntents s \<Longrightarrow> columns_fit s \<Longrightarrow> columns_fit t"
  by (simp add: off_ledger_def same_money_def columns_fit_def)

section \<open>The calls\<close>

abbreviation "fitting \<equiv> keeps columns_fit"

lemma bookkeeping_fitting: "bookkeeping m \<Longrightarrow> fitting m"
  unfolding bookkeeping_def keeps_def same_core_def by (metis fits_off_ledger)

lemmas fitting_bookkeeping =
  bookkeeping_basic [THEN bookkeeping_fitting] bookkeeping_write_case [THEN bookkeeping_fitting]
  bookkeeping_cases [THEN bookkeeping_fitting] bookkeeping_gates [THEN bookkeeping_fitting]
  bookkeeping_addresses [THEN bookkeeping_fitting]

lemma fitting_gate: "fitting getOrCreatePolicyState"
  unfolding getOrCreatePolicyState_def Let_def by (intro bookkeeping_fitting bookkeeping_intro)

lemma fitting_upsert: "fitting (ledgerAccount_upsert k ty ch a cu)"
  by (auto simp: keeps_def dest!: ledgerAccount_upsert_cases)

lemma fitting_journal: "fitting (ledgerJournal_create i g e ty ch a)"
  by (auto simp: keeps_def tx_iff cuid_Inr ledgerJournal_create_def Let_def)

lemma fitting_postings: "fitting (ledgerPosting_createMany ps)"
  by (auto simp: keeps_def tx_iff ledgerPosting_createMany_def columns_fit_def)

lemma fitting_balance:
  "fitting (customerAssetBalance_findUnique c a)" "fitting (customerAssetBalance_put c a b)"
  by (auto simp: keeps_def tx_iff customerAssetBalance_put_def customerAssetBalance_findUnique_def columns_fit_def)

lemma fitting_vault:
  "fitting (retirementVault_findUnique v)" "fitting (retirementVault_put v r)"
  by (auto simp: keeps_def tx_iff retirementVault_put_def retirementVault_findUnique_def columns_fit_def)

lemma fitting_chain:
  "fitting (blockchainTransaction_create build)" "fitting (blockchainTransaction_update i g)"
  "fitting (depositSettlementProof_create d)"
  by (auto simp: keeps_def tx_iff Let_def)

lemma fitting_intent_create: "fitting (transactionIntent_create new)"
  by (auto simp: keeps_def tx_iff columns_fit_def)

lemma fitting_update:
  assumes "same_request f"
  shows "fitting (transactionIntent_update i f)" "fitting (transactionIntent_updateMany i cond f)"
  using assms by (auto simp: keeps_def tx_iff columns_fit_def same_request_def update_rows_def)

section \<open>Every call\<close>

interpretation bounds: call_frame columns_fit
  by unfold_locales (rule fitting_bookkeeping fitting_gate fitting_upsert fitting_journal fitting_postings fitting_balance
      fitting_vault fitting_chain fitting_intent_create fitting_update | assumption)+

lemmas fitting_ledger = bounds.ledger_kept
lemmas fitting_run_call = bounds.run_call_kept

lemma fitting_step: "service_step cfg evm s t \<Longrightarrow> columns_fit s \<Longrightarrow> columns_fit t"
proof (induction rule: service_step.induct)
  case (call c s u t)
  then show ?case by (blast intro: keepsD [OF fitting_run_call])
next
  case (late at c i ty m s r u t)
  have "fitting m" using late(1) by (rule bounds.late_part_kept)
  then show ?case using late(4,5) by (blast intro: keepsD)
qed (metis elsewhere_step_def fits_off_ledger)

lemma service_reachable_fits: "service_reachable cfg evm s \<Longrightarrow> columns_fit s"
  by (induction rule: service_reachable.induct) (auto simp: columns_fit_def empty_db_def dest: fitting_step [unfolded columns_fit_def])

lemma ledger_op_fits: "run_ledger_op op s = Inr (u, t) \<Longrightarrow> columns_fit s \<Longrightarrow> columns_fit t"
  by (cases op) (auto simp: tx_iff dest!: keepsD [OF fitting_ledger(1)] keepsD [OF fitting_ledger(2)]
      keepsD [OF fitting_ledger(3)] keepsD [OF fitting_ledger(4)] keepsD [OF fitting_ledger(5)]
      keepsD [OF fitting_ledger(6)] keepsD [OF fitting_ledger(7)] keepsD [OF fitting_ledger(8)]
      keepsD [OF fitting_ledger(9)] keepsD [OF fitting_ledger(10)] keepsD [OF fitting_ledger(11)])

end
