(* ===== verification/Ledger_Progress.thy ===== *)
theory Ledger_Progress
  imports Ledger_Invariants
begin

text \<open>
  When an operation succeeds. \<open>yields m s Q\<close> says that the transaction \<open>m\<close>, started in
  \<open>s\<close>, does return, and with a value and a state satisfying \<open>Q\<close>: a total-correctness
  reading of transactions with one rule per table call. From it, under the guards of the source
  and with the columns in range, the ledger operations the intent services call go through.
\<close>

section \<open>Total correctness\<close>

definition yields :: "('s, 'a) tx \<Rightarrow> 's \<Rightarrow> ('a \<Rightarrow> 's \<Rightarrow> bool) \<Rightarrow> bool" where
  "yields m s Q \<longleftrightarrow> (\<exists>x t. m s = Inr (x, t) \<and> Q x t)"

named_theorems yields_simps

lemma yields_returnT [yields_simps]: "yields (returnT x) s Q = Q x s"
  by (simp add: yields_def tx_iff)

lemma yields_throwT [yields_simps]: "yields (throwT e) s Q = False"
  by (simp add: yields_def tx_iff)

lemma yields_bindT [yields_simps]: "yields (bindT m f) s Q = yields m s (\<lambda>x t. yields (f x) t Q)"
  by (auto simp: yields_def tx_iff)

lemma yields_readT [yields_simps]: "yields (readT g) s Q = Q (g s) s"
  by (simp add: yields_def tx_iff)

lemma yields_writeT [yields_simps]: "yields (writeT h) s Q = Q () (h s)"
  by (simp add: yields_def tx_iff)

lemma yields_throwIf [yields_simps]: "yields (throwIf b e) s Q = (\<not> b \<and> Q () s)"
  by (simp add: yields_def tx_iff)

lemma yields_if [yields_simps]:
  "yields (if b then m else m') s Q = (if b then yields m s Q else yields m' s Q)"
  by simp

lemma yields_requireT [yields_simps]:
  "yields (requireT v e) s Q = (case v of None \<Rightarrow> False | Some x \<Rightarrow> Q x s)"
  by (auto simp: yields_def tx_iff split: option.splits)

lemma yields_option [yields_simps]:
  "yields (case v of None \<Rightarrow> m | Some x \<Rightarrow> f x) s Q =
     (case v of None \<Rightarrow> yields m s Q | Some x \<Rightarrow> yields (f x) s Q)"
  by (cases v) auto

lemma yields_prod [yields_simps]:
  "yields (case p of (x, y) \<Rightarrow> f x y) s Q = (case p of (x, y) \<Rightarrow> yields (f x y) s Q)"
  by (cases p) auto

lemma yieldsD: "yields m s Q \<Longrightarrow> \<exists>x t. m s = Inr (x, t)"
  by (auto simp: yields_def)

lemma yields_weaken: "yields m s Q \<Longrightarrow> (\<And>x t. m s = Inr (x, t) \<Longrightarrow> Q x t \<Longrightarrow> R x t) \<Longrightarrow> yields m s R"
  by (auto simp: yields_def)

lemma yields_catchUnique: "yields m s Q \<Longrightarrow> yields (catchUnique m h) s Q"
  by (auto simp: yields_def catchUnique_def)

section \<open>The table calls\<close>

lemma yields_clock [yields_simps]:
  "yields new_Date s Q = Q (now_ms s) s"
  "yields cuid s R = R (cuid_of s (cuid_count s)) (s\<lparr>cuid_count := Suc (cuid_count s)\<rparr>)"
  by (simp_all add: yields_def new_Date_def cuid_def readT_def)

text \<open>Opening an account succeeds and changes no more than the accounts and the identifier count.\<close>

lemma yields_upsert:
  assumes "\<And>a n A. Q a (s\<lparr>cuid_count := n, ledgerAccounts := A\<rparr>)"
  shows "yields (ledgerAccount_upsert k ty ch as cu) s Q"
proof (cases "ledgerAccounts s k")
  case None
  then show ?thesis
    using assms by (simp add: yields_def ledgerAccount_upsert_def tx_defs cuid_def Let_def)
next
  case (Some a)
  with assms [where a = a and n = "cuid_count s" and A = "ledgerAccounts s"] show ?thesis
    by (simp add: yields_def ledgerAccount_upsert_def)
qed

lemma yields_journal_lookup [yields_simps]:
  "yields (findLedgerJournalByIntentAndType i ty) s Q =
     Q (find (\<lambda>j. lj_transactionIntentId j = Some i \<and> lj_journalType j = ty) (ledgerJournals s)) s"
  by (simp add: findLedgerJournalByIntentAndType_def yields_simps)

lemma yields_journal:
  assumes "\<not> recorded lj_transactionIntentId i ty s" and "\<And>j n J. Q j (s\<lparr>cuid_count := n, ledgerJournals := J\<rparr>)"
  shows "yields (ledgerJournal_create (Some i) None None ty ch as) s Q"
proof -
  have "\<not> (\<exists>j\<in>set (ledgerJournals s). journal_conflict (Some i) None None ty j)"
    using assms(1) by (auto simp: recorded_def journal_conflict_def same_key_def)
  with assms(2) show ?thesis by (simp add: ledgerJournal_create_def yields_simps Let_def)
qed

lemma yields_balance [yields_simps]:
  "yields (customerAssetBalance_findUnique c a) s Q = Q (customerAssetBalances s (c, a)) s"
  "yields (customerAssetBalance_put c a b) s R = (fits_balance b \<and>
     R () (s\<lparr>customerAssetBalances := (customerAssetBalances s)((c, a) \<mapsto> b)\<rparr>))"
  by (simp_all add: customerAssetBalance_findUnique_def customerAssetBalance_put_def yields_simps)

lemma yields_balance_updateMany:
  assumes "customerAssetBalances s (c, a) = Some b" "guard b" "fits_balance (upd b)"
    and "Q 1 (s\<lparr>customerAssetBalances := (customerAssetBalances s)((c, a) \<mapsto> upd b)\<rparr>)"
  shows "yields (customerAssetBalance_updateMany c a guard upd) s Q"
  using assms by (simp add: customerAssetBalance_updateMany_def yields_simps)

lemma yields_postings [yields_simps]:
  "yields (ledgerPosting_createMany ps) s Q = ((\<forall>p\<in>set ps. fits_decimal (lp_amount p)) \<and>
     Q () (s\<lparr>ledgerPostings := ledgerPostings s @ ps\<rparr>))"
  by (auto simp: ledgerPosting_createMany_def yields_simps)

section \<open>The operations\<close>

lemma recorded_frame [simp]:
  "recorded sel i ty (s\<lparr>cuid_count := n\<rparr>) = recorded sel i ty s"
  "recorded sel i ty (s\<lparr>ledgerAccounts := A\<rparr>) = recorded sel i ty s"
  "recorded sel i ty (s\<lparr>customerAssetBalances := B\<rparr>) = recorded sel i ty s"
  by (simp_all add: recorded_def)

text \<open>
  Every two-sided movement of a customer's balance has this shape: open two accounts, update the
  guarded row, read it back, book the journal.
\<close>

lemma movement_runs:
  assumes new: "\<not> recorded lj_transactionIntentId i ty s"
    and row: "customerAssetBalances s (c, as) = Some b" and guard: "guard b" and upd: "fits_balance (upd b)"
    and fits: "\<And>j a1 a2. \<forall>p\<in>set (ps j a1 a2). fits_decimal (lp_amount p)"
  shows "\<exists>r t. bindT (findLedgerJournalByIntentAndType i ty) (\<lambda>existing.
      bindT (throwIf (existing \<noteq> None) e) (\<lambda>_.
      bindT (ledgerAccount_upsert k1 t1 ch1 as1 cu1) (\<lambda>a1.
      bindT (ledgerAccount_upsert k2 t2 ch2 as2 cu2) (\<lambda>a2.
      bindT (customerAssetBalance_updateMany c as guard upd) (\<lambda>count.
      bindT (throwIf (count \<noteq> 1) e') (\<lambda>_.
      bindT (customerAssetBalance_findUnique c as) (\<lambda>row.
      bindT (requireT row e'') (\<lambda>balance.
      bindT (ledgerJournal_create (Some i) None None ty ch as) (\<lambda>journal.
      bindT (ledgerPosting_createMany (ps journal a1 a2)) (\<lambda>_.
      returnT (res a1 a2 balance journal))))))))))) s = Inr (r, t)"
  apply (rule yieldsD [where Q = "\<lambda>_ _. True"])
  apply (simp add: yields_bindT yields_throwIf yields_journal_lookup find_recorded [THEN iffD2, OF new])
  apply (rule yields_upsert)
  apply (rule yields_upsert)
  apply (rule yields_balance_updateMany [of _ _ _ b])
     apply (simp_all add: row guard upd yields_simps)
  apply (rule yields_journal)
   apply (simp_all add: new fits)
  done

lemma reserveWithdrawalBalance_runs:
  assumes "\<not> recorded lj_transactionIntentId (p_transactionIntentId p) withdrawal_reservation s"
    and "customerAssetBalances s (p_customerAccountId p, p_assetId p) = Some b"
    and "p_amount p \<le> cab_availableBalance b" and "fits_decimal (p_amount p)"
    and "fits_decimal (cab_availableBalance b - p_amount p)" "fits_decimal (cab_pendingBalance b + p_amount p)"
  shows "\<exists>r t. reserveWithdrawalBalance p s = Inr (r, t)"
  unfolding reserveWithdrawalBalance_def ledger_account_defs
  by (rule movement_runs [where b = b]) (use assms in \<open>simp_all add: fits_balance_def\<close>)

lemma releaseWithdrawalReservation_runs:
  assumes "\<not> recorded lj_transactionIntentId (p_transactionIntentId p) withdrawal_reservation_release s"
    and "customerAssetBalances s (p_customerAccountId p, p_assetId p) = Some b"
    and "p_amount p \<le> cab_pendingBalance b" and "fits_decimal (p_amount p)"
    and "fits_decimal (cab_availableBalance b + p_amount p)" "fits_decimal (cab_pendingBalance b - p_amount p)"
  shows "\<exists>r t. releaseWithdrawalReservation p s = Inr (r, t)"
  unfolding releaseWithdrawalReservation_def ledger_account_defs
  by (rule movement_runs [where b = b]) (use assms in \<open>simp_all add: fits_balance_def\<close>)

lemma settleConfirmedWithdrawal_runs:
  assumes "\<not> recorded lj_transactionIntentId (p_transactionIntentId p) withdrawal_settlement s"
    and "customerAssetBalances s (p_customerAccountId p, p_assetId p) = Some b"
    and "p_amount p \<le> cab_pendingBalance b" and "fits_decimal (p_amount p)"
    and "fits_decimal (cab_availableBalance b)" "fits_decimal (cab_pendingBalance b - p_amount p)"
  shows "\<exists>r t. settleConfirmedWithdrawal p s = Inr (r, t)"
  unfolding settleConfirmedWithdrawal_def ledger_account_defs
  by (rule movement_runs [where b = b]) (use assms in \<open>simp_all add: fits_balance_def\<close>)

lemma reserveInternalBalanceTransferBalance_runs:
  assumes "\<not> recorded lj_transactionIntentId (p_transactionIntentId p) internal_balance_transfer_reservation s"
    and "customerAssetBalances s (p_customerAccountId p, p_assetId p) = Some b"
    and "p_amount p \<le> cab_availableBalance b" and "fits_decimal (p_amount p)"
    and "fits_decimal (cab_availableBalance b - p_amount p)" "fits_decimal (cab_pendingBalance b + p_amount p)"
  shows "\<exists>r t. reserveInternalBalanceTransferBalance p s = Inr (r, t)"
  unfolding reserveInternalBalanceTransferBalance_def ledger_account_defs
  by (rule movement_runs [where b = b]) (use assms in \<open>simp_all add: fits_balance_def\<close>)

lemma releaseInternalBalanceTransferReservation_runs:
  assumes "\<not> recorded lj_transactionIntentId (p_transactionIntentId p) internal_balance_transfer_reservation_release s"
    and "customerAssetBalances s (p_customerAccountId p, p_assetId p) = Some b"
    and "p_amount p \<le> cab_pendingBalance b" and "fits_decimal (p_amount p)"
    and "fits_decimal (cab_availableBalance b + p_amount p)" "fits_decimal (cab_pendingBalance b - p_amount p)"
  shows "\<exists>r t. releaseInternalBalanceTransferReservation p s = Inr (r, t)"
  unfolding releaseInternalBalanceTransferReservation_def ledger_account_defs
  by (rule movement_runs [where b = b]) (use assms in \<open>simp_all add: fits_balance_def\<close>)

lemma settleConfirmedDeposit_runs:
  assumes new: "\<not> recorded lj_transactionIntentId (p_transactionIntentId p) deposit_settlement s"
    and fits: "fits_decimal (p_amount p)"
      "fits_decimal (available s (p_customerAccountId p) (p_assetId p) + p_amount p)"
      "fits_decimal (pending s (p_customerAccountId p) (p_assetId p))"
  shows "\<exists>r t. settleConfirmedDeposit p s = Inr (r, t)"
  unfolding settleConfirmedDeposit_def ledger_account_defs
  apply (rule yieldsD [where Q = "\<lambda>_ _. True"])
  apply (simp add: yields_bindT yields_throwIf yields_journal_lookup find_recorded [THEN iffD2, OF new])
  apply (rule yields_upsert)
  apply (rule yields_upsert)
  apply (rule yields_journal)
   apply (simp add: new)
  apply (cases "customerAssetBalances s (p_customerAccountId p, p_assetId p)")
   apply (use fits in \<open>simp_all add: yields_simps customerAssetBalance_credit_def Let_def fits_balance_def
     available_def pending_def\<close>)
  done

end
