(* ===== verification/Service_Liveness.thy ===== *)
theory Service_Liveness
  imports Intent_Effects Column_Bounds Ledger_Progress
begin

text \<open>
  When a service call goes through: the total-correctness rules of the service tables, and from
  them and the invariant the calls that can always be completed: a covered withdrawal is accepted,
  a pending one can be denied, a confirmed one can be settled, a proven deposit is credited.
\<close>

section \<open>Service tables\<close>

lemma yields_findFirst [yields_simps]:
  "yields (transactionIntent_findFirst i cond) s Q =
     Q (case intent_row s i of None \<Rightarrow> None | Some r \<Rightarrow> if cond r then Some (with_relations s r) else None) s"
  by (simp add: transactionIntent_findFirst_def yields_simps)

lemma yields_reload [yields_simps]:
  "yields (reloadIntent e i) s Q =
     (case intent_row s i of None \<Rightarrow> False | Some r \<Rightarrow> Q (with_relations s r) s)"
  by (simp add: reloadIntent_def yields_simps split: option.splits)

lemma yields_account_of [yields_simps]:
  "yields (account_of r) s Q = (case ir_customerAccount r of None \<Rightarrow> False | Some c \<Rightarrow> Q c s)"
  by (simp add: account_of_def yields_simps)

lemma yields_intent_update [yields_simps]:
  "yields (transactionIntent_update i f) s Q = (intent_row s i \<noteq> None \<and>
     Q () (s\<lparr>transactionIntents := update_rows ti_id i f (transactionIntents s)\<rparr>))"
  by (auto simp: transactionIntent_update_def yields_simps split: option.splits)

lemma yields_audit [yields_simps]:
  "yields (auditEvent_create cu aty aid act tty tid p nw) s Q =
     Q () (s\<lparr>cuid_count := Suc (cuid_count s), auditEvents := auditEvents s @
       [\<lparr>ae_id = cuid_of s (cuid_count s), ae_customerId = cu, ae_actorType = aty, ae_actorId = aid,
         ae_action = act, ae_targetType = tty, ae_targetId = Some tid,
         ae_previousStatus = p, ae_newStatus = nw\<rparr>]\<rparr>)"
  by (simp add: auditEvent_create_def yields_simps)

lemma yields_result [yields_simps]:
  "yields (freshResult r) s Q = (ir_customerAccount r \<noteq> None \<and> Q \<lparr>res_intent = r, res_reused = False\<rparr> s)"
  by (auto simp: freshResult_def mapIntentReviewProjection_def yields_simps split: option.splits)

lemma yields_authorized [yields_simps]:
  "yields (assertOperatorRoleAuthorized role roles msg) s Q =
     (authorized role roles \<and> Q (the (normalizeOperatorRole role)) s)"
  by (auto simp: yields_def assertOperatorRoleAuthorized_Inr authorized_def normalizeOperatorRole_def)

lemma yields_key_lookup [yields_simps]:
  "yields (transactionIntent_findByIdempotencyKey k) s Q =
     Q (map_option (with_relations s) (find (\<lambda>r. ti_idempotencyKey r = k) (transactionIntents s))) s"
  by (simp add: transactionIntent_findByIdempotencyKey_def yields_simps)

lemma yields_intent_create [yields_simps]:
  "yields (transactionIntent_create build) s Q =
     (let i = cuid_of s (cuid_count s) in
      ti_idempotencyKey (build i) \<notin> ti_idempotencyKey ` set (transactionIntents s) \<and>
      fits_decimal (ti_requestedAmount (build i)) \<and>
      Q (build i) (s\<lparr>cuid_count := Suc (cuid_count s), transactionIntents := transactionIntents s @ [build i]\<rparr>))"
  by (auto simp: transactionIntent_create_def yields_simps Let_def)

text \<open>A ledger call in a service's transaction: it runs, leaves the service tables alone and keeps its law.\<close>

lemma yields_ledger:
  assumes "\<exists>x t. m s = Inr (x, t)" "ledger_only m"
    and "\<And>x t. m s = Inr (x, t) \<Longrightarrow> same_services s t \<Longrightarrow> Q x t"
  shows "yields m s Q"
  using assms unfolding yields_def by (blast dest: ledger_onlyD)

section \<open>What the invariant provides\<close>

lemma sum_list_member_le:
  fixes f :: "'a \<Rightarrow> int"
  assumes "x \<in> set xs" "\<forall>y\<in>set xs. 0 \<le> f y"
  shows "f x \<le> sum_list (map f xs)"
  using assms
proof (induction xs)
  case (Cons y ys)
  then have "0 \<le> sum_list (map f ys)" by (intro sum_list_nonneg) auto
  with Cons show ?case by fastforce
qed simp

lemma known_account:
  assumes "service_inv s" "intent_row s i = Some r"
  obtains c where "ti_customerAccountId r = Some (ca_id c)" "c \<in> set (customerAccounts s)"
    "follow ca_id (customerAccounts s) (ti_customerAccountId r) = Some c" "no_colon (ca_id c)"
proof -
  from service_inv_row(1) [OF assms] obtain c where
    c: "c \<in> set (customerAccounts s)" "ti_customerAccountId r = Some (ca_id c)"
    by (auto simp: parties_ok_def)
  with service_inv_parts(5) [OF assms(1)] have "find (\<lambda>d. ca_id d = ca_id c) (customerAccounts s) = Some c"
    "no_colon (ca_id c)"
    by (auto simp: accounts_wf_def find_key_unique)
  with c that show ?thesis by (simp add: follow_def)
qed

text \<open>An open reservation is covered by the pending balance, and the columns are in range.\<close>

lemma held_amount_covered:
  assumes inv: "service_inv s" and fit: "columns_fit s" and row: "intent_row s i = Some r"
    and c: "ti_customerAccountId r = Some c" and held: "pending_effect c (ti_assetId r) r = ti_requestedAmount r"
  obtains b where "customerAssetBalances s (c, ti_assetId r) = Some b"
    "ti_requestedAmount r \<le> cab_pendingBalance b" "fits_decimal (ti_requestedAmount r)"
    "fits_decimal (cab_availableBalance b)" "fits_decimal (cab_pendingBalance b - ti_requestedAmount r)"
    "0 \<le> cab_availableBalance b"
proof -
  let ?a = "ti_assetId r" and ?x = "ti_requestedAmount r"
  have r: "r \<in> set (transactionIntents s)" using intent_row_in [OF row] by simp
  have pos: "0 < ti_requestedAmount q" if "q \<in> set (transactionIntents s)" for q
    using inv that by (auto simp: service_inv_def row_ok_def intent_ok_def)
  have "no_colon c" using known_account [OF inv row] c by auto
  then have "pending s c ?a = sum_list (map (pending_effect c ?a) (transactionIntents s))"
    by (rule effects_sum(2) [OF inv])
  moreover have "0 \<le> pending_effect c ?a q" if "q \<in> set (transactionIntents s)" for q
    using pos [OF that] by (simp add: pending_effect_def)
  ultimately have le: "?x \<le> pending s c ?a"
    using sum_list_member_le [OF r, of "pending_effect c ?a"] held by simp
  with pos [OF r] obtain b where b: "customerAssetBalances s (c, ?a) = Some b" "?x \<le> cab_pendingBalance b"
    by (cases "customerAssetBalances s (c, ?a)") (auto simp: pending_def)
  have fits: "fits_decimal ?x" "fits_balance b"
    using fit r b(1) by (auto simp: columns_fit_def)
  have "0 \<le> available s c ?a"
    using service_inv_parts(1) [OF inv] by (simp add: ledger_invariant_def solvent_def)
  then have "0 \<le> cab_availableBalance b" using b(1) by (simp add: available_def)
  with b fits pos [OF r] show ?thesis by (intro that) (auto simp: fits_balance_def fits_decimal_def)
qed

lemma balance_frame [simp]:
  "available (s\<lparr>transactionIntents := T\<rparr>) c a = available s c a" "available (s\<lparr>auditEvents := E\<rparr>) c a = available s c a"
  "available (s\<lparr>cuid_count := n\<rparr>) c a = available s c a"
  "pending (s\<lparr>transactionIntents := T\<rparr>) c a = pending s c a" "pending (s\<lparr>auditEvents := E\<rparr>) c a = pending s c a"
  "pending (s\<lparr>cuid_count := n\<rparr>) c a = pending s c a"
  "available (s\<lparr>depositSettlementProofs := D\<rparr>) c a = available s c a"
  "pending (s\<lparr>depositSettlementProofs := D\<rparr>) c a = pending s c a"
  by (simp_all add: available_def pending_def)

lemma row_frame [simp]:
  "intent_row (s\<lparr>auditEvents := E\<rparr>) k = intent_row s k" "intent_row (s\<lparr>cuid_count := n\<rparr>) k = intent_row s k"
  "intent_row (s\<lparr>depositSettlementProofs := D\<rparr>) k = intent_row s k"
  by (simp_all add: intent_row_def)

text \<open>An updated row, whatever other tables were written since it was read.\<close>

lemma updated_row:
  "(\<And>r. ti_id (f r) = ti_id r) \<Longrightarrow>
     intent_row (s\<lparr>transactionIntents := update_rows ti_id i f rows\<rparr>) k =
       (if k = i then map_option f (find (\<lambda>r. ti_id r = k) rows) else find (\<lambda>r. ti_id r = k) rows)"
  by (simp add: intent_row_def find_update_rows)

lemma find_intent: "find (\<lambda>r. ti_id r = k) (transactionIntents s) = intent_row s k"
  by (simp add: intent_row_def)

lemmas row_updates = updated_row find_intent

lemma same_services_row: "same_services s t \<Longrightarrow> intent_row t i = intent_row s i"
  by (simp add: same_services_def intent_row_def)

section \<open>Settling a confirmed withdrawal\<close>

lemma booked_params: "recorded lj_transactionIntentId (p_transactionIntentId (ledgerParams c r)) ty s = booked s (ti_id r) ty"
  by (simp add: booked_def ledgerParams_def)

lemma settle_withdrawal_runs:
  assumes inv: "service_inv s" and fit: "columns_fit s" and row: "intent_row s i = Some r"
    and ty: "ti_intentType r = TransactionIntentType.withdrawal" and chain: "ti_chainId r = productChainId cfg"
    and st: "ti_status r = TransactionIntentStatus.confirmed" and c: "ti_customerAccountId r = Some c"
  shows "yields (settleConfirmedWithdrawalIntentWithActor cfg i actor) s (\<lambda>x t.
    map_option ti_status (intent_row t i) = Some TransactionIntentStatus.settled \<and>
    available t c (ti_assetId r) = available s c (ti_assetId r) \<and>
    pending t c (ti_assetId r) = pending s c (ti_assetId r) - ti_requestedAmount r)"
proof -
  from known_account [OF inv row] c obtain acc where acc: "ca_id acc = c"
    "follow ca_id (customerAccounts s) (Some c) = Some acc" by auto
  have ok: "ti_policyDecision r = PolicyDecision.approved" "\<not> booked s i withdrawal_settlement" "ti_id r = i"
    and "chain_is BlockchainTransactionStatus.confirmed (latest_of s i)"
    using service_inv_row(2,3) [OF inv row] ty st by (auto simp: intent_ok_def withdrawal_ok_def)
  then obtain b where b: "latest_of s i = Some b" "bt_status b = BlockchainTransactionStatus.confirmed"
    by (auto simp: chain_is_def)
  have "pending_effect c (ti_assetId r) r = ti_requestedAmount r"
    using ty st c by (simp add: pending_effect_def)
  from held_amount_covered [OF inv fit row c this] obtain bal where
    bal: "customerAssetBalances s (c, ti_assetId r) = Some bal" "ti_requestedAmount r \<le> cab_pendingBalance bal"
      "fits_decimal (ti_requestedAmount r)" "fits_decimal (cab_availableBalance bal)"
      "fits_decimal (cab_pendingBalance bal - ti_requestedAmount r)" by blast
  have runs: "\<exists>x t. settleConfirmedWithdrawal (ledgerParams c r) s = Inr (x, t)"
    by (rule settleConfirmedWithdrawal_runs [where b = bal])
      (use bal ok in \<open>simp_all add: booked_def\<close>)
  note wf = service_inv_parts(7) [OF inv]
  show ?thesis
    unfolding settleConfirmedWithdrawalIntentWithActor_def settleConfirmedWithdrawalIntent_transaction_def
    apply (simp add: findWithdrawalIntentForReview_def requireConfirmed_def withdrawal_guards settledAlready_def
        Let_def yields_simps row ty chain st ok acc b c)
    apply (rule yields_ledger, rule runs, rule ledger_only_intro)
    apply (simp add: yields_simps same_services_row row auditTransition_def row_updates)
    subgoal premises law for x t
    proof -
      from withdrawal.settle_law [OF law(1) wf] show ?thesis
        using law(2) acc c by (simp add: same_services_def)
    qed
    done
qed

section \<open>Denying a pending withdrawal\<close>

lemma deny_withdrawal_runs:
  assumes inv: "service_inv s" and fit: "columns_fit s" and row: "intent_row s i = Some r"
    and ty: "ti_intentType r = TransactionIntentType.withdrawal" and chain: "ti_chainId r = productChainId cfg"
    and st: "ti_status r = TransactionIntentStatus.requested" and c: "ti_customerAccountId r = Some c"
    and deny: "de_decision dto = OperatorDecision.denied" "truthy (trim_opt (de_denialReason dto))"
    and auth: "authorized role (transactionIntentDecisionAllowedOperatorRoles cfg)"
    and room: "fits_decimal (available s c (ti_assetId r) + ti_requestedAmount r)"
  shows "yields (decideWithdrawalIntent cfg i op dto role) s (\<lambda>x t.
    map_option ti_status (intent_row t i) = Some TransactionIntentStatus.failed \<and>
    available t c (ti_assetId r) = available s c (ti_assetId r) + ti_requestedAmount r \<and>
    pending t c (ti_assetId r) = pending s c (ti_assetId r) - ti_requestedAmount r)"
proof -
  from known_account [OF inv row] c obtain acc where acc: "ca_id acc = c"
    "follow ca_id (customerAccounts s) (Some c) = Some acc" by auto
  have ok: "ti_policyDecision r = PolicyDecision.pending" "\<not> booked s i withdrawal_reservation_release" "ti_id r = i"
    using service_inv_row(2,3) [OF inv row] ty st by (auto simp: intent_ok_def withdrawal_ok_def)
  have "pending_effect c (ti_assetId r) r = ti_requestedAmount r"
    using ty st c by (simp add: pending_effect_def)
  from held_amount_covered [OF inv fit row c this] obtain bal where
    bal: "customerAssetBalances s (c, ti_assetId r) = Some bal" "ti_requestedAmount r \<le> cab_pendingBalance bal"
      "fits_decimal (ti_requestedAmount r)" "fits_decimal (cab_pendingBalance bal - ti_requestedAmount r)" by blast
  have runs: "\<exists>x t. releaseWithdrawalReservation (ledgerParams c r) s = Inr (x, t)"
    by (rule releaseWithdrawalReservation_runs [where b = bal])
      (use bal ok room in \<open>simp_all add: booked_def available_def\<close>)
  note wf = service_inv_parts(7) [OF inv]
  show ?thesis
    unfolding decideWithdrawalIntent_def decideWithdrawalIntent_transaction_def
    apply (simp add: findWithdrawalIntentForReview_def assertCanDecideTransactionIntent_def withdrawal_guards
        Let_def yields_simps row ty chain st ok acc c deny auth)
    apply (rule yields_ledger, rule runs, rule ledger_only_intro)
    apply (simp add: yields_simps same_services_row row auditTransition_def row_updates)
    subgoal premises law for x t
    proof -
      from withdrawal.release_law [OF law(1) wf] show ?thesis
        using law(2) acc c by (simp add: same_services_def money_shift_def)
    qed
    done
qed

section \<open>Accepting a covered withdrawal\<close>

lemma withdrawal_request_runs:
  assumes inv: "service_inv s" and fit: "columns_fit s"
    and symbol: "normalizeAssetSymbol (cw_assetSymbol dto) s = Inr (sy, s)"
    and ctx: "resolveWithdrawalIntentContext cfg evm user sy (cw_destinationAddress dto) s = Inr (ctx, s)"
    and pos: "0 < cw_amount dto" and new: "\<not> key_used s (cw_idempotencyKey dto)"
    and cover: "cw_amount dto \<le> available s (wx_customerAccountId ctx) (wx_assetId ctx)"
    and room: "fits_decimal (pending s (wx_customerAccountId ctx) (wx_assetId ctx) + cw_amount dto)"
  shows "yields (createWithdrawalIntent cfg evm user dto) s (\<lambda>x t.
    (let r = ir_intent (res_intent x); c = wx_customerAccountId ctx; a = wx_assetId ctx in
     \<not> res_reused x \<and> intent_row t (ti_id r) = Some r \<and> r = newWithdrawalIntent cfg dto ctx (ti_id r) \<and>
     customerAccounts t = customerAccounts s \<and> wallets t = wallets s \<and>
     blockchainTransactions t = blockchainTransactions s \<and> solvencyPolicyState t = solvencyPolicyState s \<and>
     available t c a = available s c a - cw_amount dto \<and> pending t c a = pending s c a + cw_amount dto))"
proof -
  let ?c = "wx_customerAccountId ctx" and ?a = "wx_assetId ctx" and ?x = "cw_amount dto"
  let ?i = "cuid_of s (cuid_count s)"
  let ?r = "newWithdrawalIntent cfg dto ctx ?i"
  let ?u = "s\<lparr>cuid_count := Suc (cuid_count s), transactionIntents := transactionIntents s @ [?r]\<rparr>"
  have none: "find (\<lambda>r. ti_idempotencyKey r = cw_idempotencyKey dto) (transactionIntents s) = None"
    using new by (simp add: key_used_find)
  have key: "cw_idempotencyKey dto \<notin> ti_idempotencyKey ` set (transactionIntents s)"
    using new by (simp add: key_used_def)
  from pos cover obtain b where b: "customerAssetBalances s (?c, ?a) = Some b"
    by (cases "customerAssetBalances s (?c, ?a)") (auto simp: available_def)
  have "fits_balance b" using fit b by (auto simp: columns_fit_def)
  then have fits: "fits_decimal ?x" "fits_decimal (cab_availableBalance b - ?x)"
    using b cover pos by (auto simp: fits_balance_def fits_decimal_def available_def)
  note fresh = fresh_intent [OF inv next_id_fresh [OF inv]]
  have sel: "ti_id ?r = ?i" "ti_assetId ?r = ?a" "ti_requestedAmount ?r = ?x" "ti_idempotencyKey ?r = cw_idempotencyKey dto"
    "ti_status ?r = TransactionIntentStatus.requested" "ti_customerAccountId ?r = Some ?c"
    by (simp_all add: newWithdrawalIntent_def)
  have runs: "\<exists>x t. reserveWithdrawalBalance (ledgerParams ?c ?r) ?u = Inr (x, t)"
    by (rule reserveWithdrawalBalance_runs [where b = b])
      (use b fits cover room fresh(4) in \<open>simp_all add: sel booked_def recorded_def available_def pending_def\<close>)
  have wf: "ledger_wf ?u"
    by (rule off_ledger_wf [OF _ service_inv_parts(7) [OF inv]]) (simp add: off_ledger_def same_money_def)
  have row: "intent_row ?u ?i = Some ?r"
    using fresh(1) by (simp add: intent_row_def find_append find_key_None [THEN iffD2] sel)
  have checks: "yields (normalizeAssetSymbol (cw_assetSymbol dto)) s Q = Q sy s"
    "yields (resolveWithdrawalIntentContext cfg evm user sy (cw_destinationAddress dto)) s R = R ctx s" for Q R
    by (simp_all add: yields_def symbol ctx)
  show ?thesis
    unfolding createWithdrawalIntent_def createWithdrawalIntent_transaction_def parseRequestedAmount_def
    apply (simp add: yields_bindT checks yields_simps none pos not_le)
    apply (rule yields_catchUnique)
    apply (simp add: yields_simps Let_def sel key fits(1))
    apply (rule yields_ledger, rule runs, rule ledger_only_intro)
    apply (simp add: yields_simps same_services_row row)
    subgoal premises law for x t
    proof -
      from withdrawal.reserve_law [OF law(1) wf] show ?thesis
        using row law(2) by (simp add: money_shift_def sel same_services_row [OF law(2)], simp add: same_services_def)
    qed
    done
qed

end
