(* ===== verification/Withdrawal_Completion.thy ===== *)
theory Withdrawal_Completion
  imports Service_Liveness
begin

text \<open>
  A pending withdrawal can always be carried to its payout: approved, queued, broadcast, confirmed
  and settled, each call succeeding in the state the previous one left.
\<close>

text \<open>What the calls before the settlement leave alone.\<close>

definition same_world :: "db \<Rightarrow> db \<Rightarrow> bool" where
  "same_world s t \<longleftrightarrow> same_money s t \<and> customerAccounts t = customerAccounts s \<and>
     wallets t = wallets s \<and> assets t = assets s"

lemma same_world_refl [simp]: "same_world s s"
  by (simp add: same_world_def same_money_def)

lemma same_world_trans: "same_world s t \<Longrightarrow> same_world t u \<Longrightarrow> same_world s u"
  by (simp add: same_world_def same_money_def)

definition approvals_open :: "db \<Rightarrow> bool" where
  "approvals_open s \<longleftrightarrow>
     (case solvencyPolicyState s of None \<Rightarrow> True | Some p \<Rightarrow> \<not> sp_pauseWithdrawalApprovals p)"

lemma yields_approval_gate:
  assumes "approvals_open s"
    and "\<And>P. approvals_open (s\<lparr>solvencyPolicyState := P\<rparr>) \<Longrightarrow> Q () (s\<lparr>solvencyPolicyState := P\<rparr>)"
  shows "yields assertWithdrawalApprovalAllowed s Q"
proof (cases "solvencyPolicyState s")
  case None
  with assms(2) show ?thesis
    by (simp add: assertWithdrawalApprovalAllowed_def getOrCreatePolicyState_def yields_simps Let_def
        approvals_open_def)
next
  case (Some p)
  have "Q () s" using assms(1) assms(2) [of "solvencyPolicyState s"] by simp
  with assms(1) show ?thesis
    using Some by (simp add: assertWithdrawalApprovalAllowed_def getOrCreatePolicyState_def yields_simps approvals_open_def)
qed

lemma row_frame2 [simp]:
  "intent_row (s\<lparr>solvencyPolicyState := P\<rparr>) k = intent_row s k"
  "intent_row (s\<lparr>blockchainTransactions := B\<rparr>) k = intent_row s k"
  by (simp_all add: intent_row_def)

lemma approve_withdrawal_runs:
  assumes row: "intent_row s i = Some r" and id: "ti_id r = i"
    and ty: "ti_intentType r = TransactionIntentType.withdrawal" and chain: "ti_chainId r = productChainId cfg"
    and st: "ti_status r = TransactionIntentStatus.requested" "ti_policyDecision r = PolicyDecision.pending"
    and acc: "follow ca_id (customerAccounts s) (ti_customerAccountId r) = Some acc"
    and ap: "de_decision dto = OperatorDecision.approved"
    and auth: "authorized role (transactionIntentDecisionAllowedOperatorRoles cfg)" and gate: "approvals_open s"
  shows "yields (decideWithdrawalIntent cfg i op dto role) s (\<lambda>x t. same_world s t \<and> approvals_open t \<and>
    blockchainTransactions t = blockchainTransactions s \<and>
    intent_row t i = Some (r\<lparr>ti_status := TransactionIntentStatus.approved,
      ti_policyDecision := PolicyDecision.approved, ti_failureCode := None, ti_failureReason := None\<rparr>))"
  unfolding decideWithdrawalIntent_def decideWithdrawalIntent_transaction_def yields_bindT ap if_P [OF refl]
  apply (rule yields_approval_gate [OF gate])
  apply (simp add: findWithdrawalIntentForReview_def assertCanDecideTransactionIntent_def withdrawal_guards
      Let_def yields_simps row ty chain st id acc ap auth auditTransition_def row_updates)
  apply (simp add: same_world_def same_money_def approvals_open_def)
  done

text \<open>The approval's transaction alone, on a state where the intent has moved on.\<close>

lemma stale_approval_runs:
  assumes row: "intent_row t i = Some r'" and id: "ti_id r' = i" "ti_id (ir_intent e) = i"
    and acc: "ir_customerAccount e = Some acc" and ap: "de_decision dto = OperatorDecision.approved"
  shows "yields (decideWithdrawalIntent_transaction op dto role e) t (\<lambda>x u. same_world t u \<and> ledgerJournals u = ledgerJournals t \<and>
    intent_row u i = Some (r'\<lparr>ti_status := TransactionIntentStatus.approved,
      ti_policyDecision := PolicyDecision.approved, ti_failureCode := None, ti_failureReason := None\<rparr>))"
  unfolding decideWithdrawalIntent_transaction_def Let_def yields_bindT ap
  by (simp add: yields_simps row id acc auditTransition_def row_updates same_world_def same_money_def)

lemma queue_withdrawal_runs:
  assumes row: "intent_row s i = Some r" and id: "ti_id r = i"
    and ty: "ti_intentType r = TransactionIntentType.withdrawal" and chain: "ti_chainId r = productChainId cfg"
    and st: "ti_status r = TransactionIntentStatus.approved" "ti_policyDecision r = PolicyDecision.approved"
    and acc: "follow ca_id (customerAccounts s) (ti_customerAccountId r) = Some acc"
    and auth: "authorized role (custodyOperationAllowedOperatorRoles cfg)" and gate: "approvals_open s"
  shows "yields (queueApprovedWithdrawalIntent cfg i op role) s (\<lambda>x t. same_world s t \<and>
    blockchainTransactions t = blockchainTransactions s \<and>
    intent_row t i = Some (r\<lparr>ti_status := TransactionIntentStatus.queued, ti_failureCode := None,
      ti_failureReason := None, ti_executionFailureCategory := None, ti_executionFailureObservedAt := None,
      ti_manualInterventionRequiredAt := None, ti_manualInterventionReviewCaseId := None,
      ti_executionClaimedAt := None, ti_executionClaimedByWorkerId := None\<rparr>))"
  unfolding queueApprovedWithdrawalIntent_def queueApprovedWithdrawalIntent_transaction_def yields_bindT
  apply (rule yields_approval_gate [OF gate])
  apply (simp add: findWithdrawalIntentForReview_def assertCanOperateCustody_def withdrawal_guards
      Let_def yields_simps row ty chain st id acc auth auditTransition_def row_updates)
  apply (simp add: same_world_def same_money_def approvals_open_def)
  done

text \<open>The addresses a withdrawal is sent between depend on its wallet and destination only.\<close>

definition sendable :: "evm_library \<Rightarrow> db \<Rightarrow> transaction_intent \<Rightarrow> bool" where
  "sendable evm s r \<longleftrightarrow> (\<exists>w e. follow wa_id (wallets s) (ti_sourceWalletId r) = Some w \<and>
     ti_externalAddress r = Some e \<and> wa_address w \<noteq> [] \<and> e \<noteq> [] \<and>
     trim (wa_address w) \<noteq> [] \<and> isAddress evm (trim (wa_address w)) \<and>
     trim e \<noteq> [] \<and> isAddress evm (trim e))"

lemma sendable_resolves:
  assumes "sendable evm s r" "wallets t = wallets s" "ti_sourceWalletId r' = ti_sourceWalletId r"
    "ti_externalAddress r' = ti_externalAddress r"
  shows "\<exists>p. resolveWithdrawalBroadcastAddresses evm (with_relations t r') None None u = Inr (p, u)"
  using assms
  by (auto simp: sendable_def resolveWithdrawalBroadcastAddresses_def normalizeBlockchainAddress_def
      tx_defs truthy_iff Let_def)

lemma yields_chain_create [yields_simps]:
  "yields (blockchainTransaction_create build) s Q =
     (let i = cuid_of s (cuid_count s) in \<not> hash_taken (bt_txHash (build i)) i (blockchainTransactions s) \<and>
      Q () (s\<lparr>cuid_count := Suc (cuid_count s), blockchainTransactions := blockchainTransactions s @ [build i]\<rparr>))"
  by (auto simp: blockchainTransaction_create_def yields_simps Let_def)

lemma yields_chain_update [yields_simps]:
  "yields (blockchainTransaction_update k f) s Q =
     (case find (\<lambda>b. bt_id b = k) (blockchainTransactions s) of None \<Rightarrow> False
      | Some b \<Rightarrow> \<not> hash_taken (bt_txHash (f b)) k (blockchainTransactions s) \<and>
         Q () (s\<lparr>blockchainTransactions := update_rows bt_id k f (blockchainTransactions s)\<rparr>))"
  by (auto simp: blockchainTransaction_update_def yields_simps split: option.splits)

lemma broadcast_withdrawal_runs:
  assumes row: "intent_row s i = Some r" and id: "ti_id r = i"
    and ty: "ti_intentType r = TransactionIntentType.withdrawal" and chain: "ti_chainId r = productChainId cfg"
    and st: "ti_status r = TransactionIntentStatus.queued" "ti_policyDecision r = PolicyDecision.approved"
    and free: "ti_executionClaimedByWorkerId r = None"
    and acc: "follow ca_id (customerAccounts s) (ti_customerAccountId r) = Some acc"
    and none: "latest_of s i = None" and send: "sendable evm s r"
    and hash: "Some h \<notin> bt_txHash ` set (blockchainTransactions s)"
  shows "yields (recordWithdrawalBroadcast cfg evm i w \<lparr>rb_txHash = h, rb_fromAddress = None, rb_toAddress = None\<rparr>) s
    (\<lambda>x t. same_world s t \<and> (\<exists>b. latest_of t i = Some b \<and> bt_status b = BlockchainTransactionStatus.broadcast \<and>
        bt_txHash b = Some h \<and> b \<in> set (blockchainTransactions t) \<and>
        (\<forall>b'\<in>set (blockchainTransactions t). bt_txHash b' = Some h \<longrightarrow> b' = b)) \<and>
      intent_row t i = Some (r\<lparr>ti_status := TransactionIntentStatus.broadcast, ti_failureCode := None,
        ti_failureReason := None, ti_executionFailureCategory := None, ti_executionFailureObservedAt := None,
        ti_executionClaimedAt := None, ti_executionClaimedByWorkerId := None,
        ti_manualInterventionRequiredAt := None, ti_manualInterventionReviewCaseId := None\<rparr>))"
proof -
  from sendable_resolves [OF send refl refl refl, of s] obtain f d where
    res: "resolveWithdrawalBroadcastAddresses evm (with_relations s r) None None s = Inr ((f, d), s)" by auto
  then have addresses: "yields (resolveWithdrawalBroadcastAddresses evm (with_relations s r) None None) s Q = Q (f, d) s" for Q
    by (simp add: yields_def)
  have fresh: "\<not> hash_taken (Some h) k (blockchainTransactions s)" for k
    using hash by (auto simp: hash_taken_def same_key_def image_iff)
  show ?thesis
    unfolding recordWithdrawalBroadcast_def recordWithdrawalBroadcastWithActor_def
      recordWithdrawalBroadcast_transaction_def
    apply (simp add: findWithdrawalIntentForReview_def already_broadcast_def other_hash_recorded_def latest_hash_def
        withdrawal_guards Let_def yields_simps row ty chain st id acc none free auditTransition_def addresses
        truthy_iff fresh newWithdrawalTransaction_def row_updates trim_opt_def)
    using hash apply (auto simp: same_world_def same_money_def latest_of_def image_iff)
    done
qed

lemma confirm_withdrawal_runs:
  assumes row: "intent_row s i = Some r" and id: "ti_id r = i"
    and ty: "ti_intentType r = TransactionIntentType.withdrawal" and chain: "ti_chainId r = productChainId cfg"
    and st: "ti_status r = TransactionIntentStatus.broadcast" "ti_policyDecision r = PolicyDecision.approved"
    and acc: "follow ca_id (customerAccounts s) (ti_customerAccountId r) = Some acc"
    and b: "latest_of s i = Some b" "bt_status b = BlockchainTransactionStatus.broadcast" "bt_txHash b = Some h"
    and only: "\<forall>b'\<in>set (blockchainTransactions s). bt_txHash b' = Some h \<longrightarrow> b' = b"
    and ids: "distinct (map bt_id (blockchainTransactions s))"
  shows "yields (confirmWithdrawalIntent cfg i w None) s (\<lambda>x t. same_world s t \<and>
      intent_row t i = Some (r\<lparr>ti_status := TransactionIntentStatus.confirmed\<rparr>))"
proof -
  have found: "find (\<lambda>x. bt_id x = bt_id b) (blockchainTransactions s) = Some b"
    using find_key_unique [OF ids] latest_of_in [OF b(1)] by blast
  have fresh: "\<not> hash_taken (Some h) (bt_id b) (blockchainTransactions s)"
    using only by (auto simp: hash_taken_def same_key_def)
  show ?thesis
    unfolding confirmWithdrawalIntent_def confirmWithdrawalIntentWithActor_def confirmWithdrawalIntent_transaction_def
    apply (simp add: findWithdrawalIntentForReview_def contradicts_hash_def already_confirmed_def
        withdrawal_guards Let_def yields_simps row ty chain st id acc b auditTransition_def
        truthy_iff fresh found row_updates trim_opt_def)
    apply (simp add: same_world_def same_money_def)
    done
qed

section \<open>All the way\<close>

lemma yields_discard [yields_simps]: "yields (discard m) s Q = yields m s (\<lambda>_. Q ())"
  by (simp add: discard_def yields_simps)

fun run_all :: "service_config \<Rightarrow> evm_library \<Rightarrow> service_call list \<Rightarrow> unit dbtx" where
  "run_all cfg evm [] = returnT ()"
| "run_all cfg evm (c # cs) = bindT (run_call cfg evm c) (\<lambda>_. run_all cfg evm cs)"

lemma run_all_step:
  "run_call cfg evm k s = Inr ((), t) \<Longrightarrow> yields (run_all cfg evm (k # ks)) s Q = yields (run_all cfg evm ks) t Q"
  by (simp add: yields_def bindT_def)

lemma yields_run_all [yields_simps]:
  "yields (run_all cfg evm []) s Q = Q () s"
  "yields (run_all cfg evm [k]) s Q = yields (run_call cfg evm k) s (\<lambda>_. Q ())"
  "yields (run_all cfg evm (ks @ ks')) s Q = yields (run_all cfg evm ks) s (\<lambda>_ t. yields (run_all cfg evm ks') t Q)"
  by (induction ks arbitrary: s) (simp_all add: yields_simps)

definition approval :: DecideIntentDto where
  "approval = \<lparr>de_decision = OperatorDecision.approved, de_note = None, de_denialReason = None\<rparr>"

definition confirm_calls :: "string \<Rightarrow> string \<Rightarrow> string option \<Rightarrow> string \<Rightarrow> string \<Rightarrow> service_call list" where
  "confirm_calls i op role w h =
    [DecideWithdrawalIntent i op approval role,
     QueueApprovedWithdrawalIntent i op role,
     RecordWithdrawalBroadcast i \<lparr>rb_txHash = h, rb_fromAddress = None, rb_toAddress = None\<rparr> (workerActor w),
     ConfirmWithdrawalIntent i None (workerActor w)]"

definition payout_calls :: "string \<Rightarrow> string \<Rightarrow> string option \<Rightarrow> string \<Rightarrow> string \<Rightarrow> service_call list" where
  "payout_calls i op role w h = confirm_calls i op role w h @ [SettleConfirmedWithdrawalIntent i (workerActor w)]"

lemma call_succeeds:
  assumes m: "yields m s (\<lambda>_. P)" "run_call cfg evm c = discard m" and inv: "service_inv s" "columns_fit s"
  obtains t where "run_call cfg evm c s = Inr ((), t)" "P t" "service_inv t" "columns_fit t"
proof -
  from m obtain t where t: "run_call cfg evm c s = Inr ((), t)" "P t"
    by (auto simp: yields_def discard_def bindT_def returnT_def)
  with run_call_keeps [OF t(1) inv(1)] keepsD [OF fitting_run_call t(1) inv(2)] that show ?thesis by blast
qed

lemma world_balances:
  "same_world s t \<Longrightarrow> available t c a = available s c a \<and> pending t c a = pending s c a"
  unfolding same_world_def using same_money_balances by blast

lemma sendable_frame:
  "sendable evm s r \<Longrightarrow> same_world s t \<Longrightarrow> ti_sourceWalletId r' = ti_sourceWalletId r \<Longrightarrow>
     ti_externalAddress r' = ti_externalAddress r \<Longrightarrow> sendable evm t r'"
  unfolding sendable_def same_world_def by metis

lemma withdrawal_confirms:
  assumes inv: "service_inv s" and fit: "columns_fit s" and row: "intent_row s i = Some r"
    and ty: "ti_intentType r = TransactionIntentType.withdrawal" and chain: "ti_chainId r = productChainId cfg"
    and st: "ti_status r = TransactionIntentStatus.requested" and c: "ti_customerAccountId r = Some c"
    and gate: "approvals_open s" and send: "sendable evm s r"
    and auth: "authorized role (transactionIntentDecisionAllowedOperatorRoles cfg)"
      "authorized role (custodyOperationAllowedOperatorRoles cfg)"
    and hash: "Some h \<notin> bt_txHash ` set (blockchainTransactions s)"
  shows "yields (run_all cfg evm (confirm_calls i op role w h)) s (\<lambda>_ t. service_inv t \<and> columns_fit t \<and>
    same_world s t \<and> (\<exists>r'. intent_row t i = Some r' \<and> ti_status r' = TransactionIntentStatus.confirmed \<and>
      request_of r' = request_of r))"
proof -
  obtain acc where acc: "follow ca_id (customerAccounts s) (ti_customerAccountId r) = Some acc"
    by (rule known_account [OF inv row])
  have ok: "ti_policyDecision r = PolicyDecision.pending" "latest_of s i = None" "ti_id r = i"
    using service_inv_row(2,3) [OF inv row] ty st by (auto simp: intent_ok_def withdrawal_ok_def)
  have ap: "de_decision approval = OperatorDecision.approved" by (simp add: approval_def)
  obtain s1 where s1: "run_call cfg evm (DecideWithdrawalIntent i op approval role) s = Inr ((), s1)"
      "service_inv s1" "columns_fit s1"
    and w1: "same_world s s1" "approvals_open s1" "blockchainTransactions s1 = blockchainTransactions s"
    and r1: "intent_row s1 i = Some (r\<lparr>ti_status := TransactionIntentStatus.approved,
      ti_policyDecision := PolicyDecision.approved, ti_failureCode := None, ti_failureReason := None\<rparr>)"
    by (rule call_succeeds [OF approve_withdrawal_runs [where op = op, OF row ok(3) ty chain st ok(1) acc ap auth(1) gate]
        run_call.simps(9) inv fit]) blast
  let ?r2 = "r\<lparr>ti_status := TransactionIntentStatus.queued,
      ti_policyDecision := PolicyDecision.approved, ti_failureCode := None, ti_failureReason := None,
      ti_executionFailureCategory := None, ti_executionFailureObservedAt := None,
      ti_manualInterventionRequiredAt := None, ti_manualInterventionReviewCaseId := None,
      ti_executionClaimedAt := None, ti_executionClaimedByWorkerId := None\<rparr>"
  have q1: "yields (queueApprovedWithdrawalIntent cfg i op role) s1 (\<lambda>_ t. same_world s1 t \<and>
      blockchainTransactions t = blockchainTransactions s1 \<and> intent_row t i = Some ?r2)"
    by (rule yields_weaken [OF queue_withdrawal_runs [OF r1 _ _ _ _ _ _ auth(2) w1(2)]])
      (use acc w1 ty chain ok(3) in \<open>auto simp: same_world_def\<close>)
  obtain s2 where s2: "run_call cfg evm (QueueApprovedWithdrawalIntent i op role) s1 = Inr ((), s2)"
      "service_inv s2" "columns_fit s2"
    and w2: "same_world s1 s2" "blockchainTransactions s2 = blockchainTransactions s1" and r2: "intent_row s2 i = Some ?r2"
    by (rule call_succeeds [OF q1 run_call.simps(10) s1(2,3)]) blast
  have w: "same_world s s2" using w1(1) w2(1) by (rule same_world_trans)
  let ?r3 = "?r2\<lparr>ti_status := TransactionIntentStatus.broadcast\<rparr>"
  have q2: "yields (recordWithdrawalBroadcast cfg evm i w
      \<lparr>rb_txHash = h, rb_fromAddress = None, rb_toAddress = None\<rparr>) s2 (\<lambda>_ t. same_world s2 t \<and>
      (\<exists>b. latest_of t i = Some b \<and> bt_status b = BlockchainTransactionStatus.broadcast \<and> bt_txHash b = Some h \<and>
        (\<forall>b'\<in>set (blockchainTransactions t). bt_txHash b' = Some h \<longrightarrow> b' = b)) \<and> intent_row t i = Some ?r3)"
    by (rule yields_weaken [OF broadcast_withdrawal_runs [OF r2 _ _ _ _ _ _ _ _ sendable_frame [OF send w]]])
      (use acc w w1 w2 hash ty chain ok in \<open>auto simp: same_world_def latest_of_def\<close>)
  obtain s3 b where s3: "run_call cfg evm (RecordWithdrawalBroadcast i \<lparr>rb_txHash = h, rb_fromAddress = None,
        rb_toAddress = None\<rparr> (workerActor w)) s2 = Inr ((), s3)" "service_inv s3" "columns_fit s3"
    and w3: "same_world s2 s3" and r3: "intent_row s3 i = Some ?r3"
    and b: "latest_of s3 i = Some b" "bt_status b = BlockchainTransactionStatus.broadcast" "bt_txHash b = Some h"
      "\<forall>b'\<in>set (blockchainTransactions s3). bt_txHash b' = Some h \<longrightarrow> b' = b"
    by (rule call_succeeds [OF q2 [unfolded recordWithdrawalBroadcast_def] run_call.simps(13) s2(2,3)]) blast
  have w: "same_world s s3" using w w3 by (rule same_world_trans)
  let ?r4 = "?r2\<lparr>ti_status := TransactionIntentStatus.confirmed\<rparr>"
  have ids: "distinct (map bt_id (blockchainTransactions s3))"
    using service_inv_parts(3) [OF s3(2)] by (simp add: chain_wf_def)
  have q3: "yields (confirmWithdrawalIntent cfg i w None) s3 (\<lambda>_ t. same_world s3 t \<and> intent_row t i = Some ?r4)"
    by (rule yields_weaken [OF confirm_withdrawal_runs [OF r3 _ _ _ _ _ _ b ids]])
      (use acc w ty chain ok in \<open>auto simp: same_world_def\<close>)
  obtain s4 where s4: "run_call cfg evm (ConfirmWithdrawalIntent i None (workerActor w)) s3 = Inr ((), s4)"
      "service_inv s4" "columns_fit s4"
    and w4: "same_world s3 s4" and r4: "intent_row s4 i = Some ?r4"
    by (rule call_succeeds [OF q3 [unfolded confirmWithdrawalIntent_def trim_opt_def option.map] run_call.simps(15) s3(2,3)])
      blast
  have w: "same_world s s4" using w w4 by (rule same_world_trans)
  have "request_of ?r4 = request_of r" by (simp add: request_of_def)
  then show ?thesis
    using w s4(2,3) r4
    by (simp only: confirm_calls_def run_all_step [OF s1(1)] run_all_step [OF s2(1)] run_all_step [OF s3(1)]
        run_all_step [OF s4(1)] yields_run_all(1)) simp
qed

lemma withdrawal_completes:
  assumes inv: "service_inv s" and fit: "columns_fit s" and row: "intent_row s i = Some r"
    and ty: "ti_intentType r = TransactionIntentType.withdrawal" and chain: "ti_chainId r = productChainId cfg"
    and st: "ti_status r = TransactionIntentStatus.requested" and c: "ti_customerAccountId r = Some c"
    and gate: "approvals_open s" and send: "sendable evm s r"
    and auth: "authorized role (transactionIntentDecisionAllowedOperatorRoles cfg)"
      "authorized role (custodyOperationAllowedOperatorRoles cfg)"
    and hash: "Some h \<notin> bt_txHash ` set (blockchainTransactions s)"
  shows "yields (run_all cfg evm (payout_calls i op role w h)) s (\<lambda>_ t.
    map_option ti_status (intent_row t i) = Some TransactionIntentStatus.settled \<and>
    available t c (ti_assetId r) = available s c (ti_assetId r) \<and>
    pending t c (ti_assetId r) = pending s c (ti_assetId r) - ti_requestedAmount r)"
proof -
  have last: "yields (settleConfirmedWithdrawalIntentWithActor cfg i (workerActor w)) t (\<lambda>_ t'.
      map_option ti_status (intent_row t' i) = Some TransactionIntentStatus.settled \<and>
      available t' c (ti_assetId r) = available s c (ti_assetId r) \<and>
      pending t' c (ti_assetId r) = pending s c (ti_assetId r) - ti_requestedAmount r)"
    if t: "service_inv t" "columns_fit t" "same_world s t" "intent_row t i = Some r'"
      "ti_status r' = TransactionIntentStatus.confirmed" "request_of r' = request_of r" for t r'
    by (rule yields_weaken [OF settle_withdrawal_runs [OF t(1,2,4), where c = c]])
      (use t(5,6) c ty chain world_balances [OF t(3)] in \<open>auto simp: request_of_def\<close>)
  show ?thesis
    unfolding payout_calls_def yields_run_all run_call.simps yields_discard
    by (rule yields_weaken [OF withdrawal_confirms [OF assms]]) (use last in blast)
qed

end
