(* ===== verification/Service_Demo.thy ===== *)
theory Service_Demo
  imports Withdrawal_Completion
begin

text \<open>A small platform on which the properties' witnesses run: two customers, one asset, one chain.\<close>

definition demo_cfg :: service_config where
  "demo_cfg = \<lparr>productChainId = 1, transactionIntentDecisionAllowedOperatorRoles = [''operations_admin''],
     custodyOperationAllowedOperatorRoles = [''operations_admin''],
     depositAutoApproveThresholdByAssetSymbol = [''ETH'' \<mapsto> 1000],
     reviewThresholds = [(''ETH'', 10)], decimalToString = (\<lambda>_. ''amount'')\<rparr>"

definition demo_evm :: evm_library where
  "demo_evm = \<lparr>isAddress = (\<lambda>a. take 2 a = ''0x''), getAddress = (\<lambda>a. a), governedExecutionVerdict = (\<lambda>_. None)\<rparr>"

definition demo_id :: "nat \<Rightarrow> string" where
  "demo_id n = CHR ''i'' # replicate n CHR ''d''"

lemma inj_demo_id: "inj demo_id"
  by (rule injI) (metis demo_id_def length_replicate list.inject)

definition demo_account :: "string \<Rightarrow> customer_account" where
  "demo_account n = \<lparr>ca_id = n, ca_status = AccountLifecycleStatus.active, ca_customerId = ''c-'' @ n,
     ca_supabaseUserId = ''u-'' @ n, ca_email = n @ ''@bank.example'', ca_firstName = Some n, ca_lastName = None\<rparr>"

definition demo_wallet :: "string \<Rightarrow> wallet" where
  "demo_wallet n = \<lparr>wa_id = ''w-'' @ n, wa_customerAccountId = Some n, wa_chainId = 1,
     wa_address = ''0x'' @ n, wa_status = WalletStatus.active\<rparr>"

definition platform0 :: db where
  "platform0 = (empty_db demo_id 0)\<lparr>customerAccounts := [demo_account ''alice'', demo_account ''bob''],
     wallets := [demo_wallet ''alice'', demo_wallet ''bob''],
     assets := [\<lparr>as_id = ''eth'', as_chainId = 1, as_symbol = ''ETH'', as_status = AssetStatus.active\<rparr>]\<rparr>"

fun run_calls :: "service_call list \<Rightarrow> db \<Rightarrow> db" where
  "run_calls [] s = s"
| "run_calls (c # cs) s = run_calls cs (commit (run_call demo_cfg demo_evm c) s)"

definition demo_worker :: TransitionActor where "demo_worker = workerActor ''worker-1''"

definition demo_role :: "string option" where "demo_role = Some ''operations_admin''"

definition approve :: DecideIntentDto where
  "approve = \<lparr>de_decision = OperatorDecision.approved, de_note = None, de_denialReason = None\<rparr>"

definition deposit_request :: service_call where
  "deposit_request = CreateDepositIntent ''u-alice''
     \<lparr>cd_idempotencyKey = ''k1'', cd_assetSymbol = '' eth'', cd_amount = 100\<rparr>"

definition deposit_run_calls :: "service_call list" where
  "deposit_run_calls =
    [deposit_request,
     QueueApprovedDepositIntent (demo_id 0) ''op'' demo_role,
     RecordDepositBroadcast (demo_id 0) \<lparr>rb_txHash = ''0xh1'', rb_fromAddress = Some ''0xcarol'',
       rb_toAddress = Some ''0xalice''\<rparr> demo_worker,
     ConfirmDepositIntent (demo_id 0) (Some ''0xh1'') demo_worker]"

section \<open>The states of the run\<close>

definition deposit_confirmed :: db where "deposit_confirmed = run_calls deposit_run_calls platform0"

definition settle_deposit :: service_call where
  "settle_deposit = SettleConfirmedDepositIntent (demo_id 0) demo_worker"

definition deposit_settled :: db where
  "deposit_settled = commit (run_call demo_cfg demo_evm settle_deposit) deposit_confirmed"

definition status_in :: "db \<Rightarrow> string \<Rightarrow> (TransactionIntentType \<times> TransactionIntentStatus) option" where
  "status_in s i = map_option (\<lambda>r. (ti_intentType r, ti_status r)) (intent_row s i)"

fun settled_facts :: "db \<Rightarrow> bool" where
  "settled_facts s \<longleftrightarrow>
     status_in s (demo_id 0) = Some (TransactionIntentType.deposit, TransactionIntentStatus.settled) \<and>
     customerAssetBalances s (''alice'', ''eth'') = Some \<lparr>cab_availableBalance = 100, cab_pendingBalance = 0\<rparr> \<and>
     map ti_idempotencyKey (transactionIntents s) = [''k1''] \<and>
     customerAccounts s = [demo_account ''alice'', demo_account ''bob''] \<and>
     wallets s = [demo_wallet ''alice'', demo_wallet ''bob''] \<and>
     assets s = [\<lparr>as_id = ''eth'', as_chainId = 1, as_symbol = ''ETH'', as_status = AssetStatus.active\<rparr>] \<and>
     Option.is_none (solvencyPolicyState s) \<and> map bt_txHash (blockchainTransactions s) = [Some ''0xh1'']"

lemma deposit_settled_evaluated: "settled_facts deposit_settled"
  by code_simp

section \<open>The states are reachable\<close>

lemma commit_reachable:
  "service_reachable demo_cfg demo_evm s \<Longrightarrow> service_reachable demo_cfg demo_evm (commit (run_call demo_cfg demo_evm c) s)"
  by (auto simp: commit_def split: sum.splits intro: service_reachable.step service_step.call)

lemma run_calls_reachable:
  "service_reachable demo_cfg demo_evm s \<Longrightarrow> service_reachable demo_cfg demo_evm (run_calls cs s)"
  by (induction cs arbitrary: s) (simp_all add: commit_reachable)

lemma platform0_reachable: "service_reachable demo_cfg demo_evm platform0"
proof (rule service_reachable.step [OF service_reachable.start [OF inj_demo_id]], rule service_step.meanwhile)
  show "elsewhere_step (empty_db demo_id 0) platform0"
    by (simp add: elsewhere_step_def platform0_def off_ledger_def same_money_def accounts_wf_def demo_account_def
        no_colon_def empty_db_def)
qed

lemma deposit_settled_reachable: "service_reachable demo_cfg demo_evm deposit_settled"
  unfolding deposit_settled_def deposit_confirmed_def
  by (intro commit_reachable run_calls_reachable platform0_reachable)

lemmas deposit_settled_inv = service_reachable_inv [OF deposit_settled_reachable]
lemmas deposit_settled_fits = service_reachable_fits [OF deposit_settled_reachable]

lemma deposit_settled_facts:
  "available deposit_settled ''alice'' ''eth'' = 100" "pending deposit_settled ''alice'' ''eth'' = 0"
  "customerAccounts deposit_settled = [demo_account ''alice'', demo_account ''bob'']"
  "wallets deposit_settled = [demo_wallet ''alice'', demo_wallet ''bob'']"
  "assets deposit_settled = [\<lparr>as_id = ''eth'', as_chainId = 1, as_symbol = ''ETH'', as_status = AssetStatus.active\<rparr>]"
  "\<not> key_used deposit_settled ''k2''" "solvencyPolicyState deposit_settled = None"
  "bt_txHash ` set (blockchainTransactions deposit_settled) = {Some ''0xh1''}"
  "\<exists>r. intent_row deposit_settled (demo_id 0) = Some r \<and> ti_intentType r = TransactionIntentType.deposit \<and>
     ti_status r = TransactionIntentStatus.settled"
proof -
  note facts = deposit_settled_evaluated [unfolded settled_facts.simps]
  show "available deposit_settled ''alice'' ''eth'' = 100" "pending deposit_settled ''alice'' ''eth'' = 0"
    using facts by (simp_all add: available_def pending_def)
  have "set (map ti_idempotencyKey (transactionIntents deposit_settled)) = {''k1''}" using facts by simp
  then show "\<not> key_used deposit_settled ''k2''" by (simp add: key_used_def)
  show "\<exists>r. intent_row deposit_settled (demo_id 0) = Some r \<and> ti_intentType r = TransactionIntentType.deposit \<and>
     ti_status r = TransactionIntentStatus.settled"
    using facts by (auto simp: status_in_def)
  have "set (map bt_txHash (blockchainTransactions deposit_settled)) = {Some ''0xh1''}" using facts by simp
  then show "bt_txHash ` set (blockchainTransactions deposit_settled) = {Some ''0xh1''}" by simp
  show "solvencyPolicyState deposit_settled = None" using facts by (simp add: Option.is_none_def)
qed (use deposit_settled_evaluated in simp_all)

section \<open>A withdrawal on top\<close>

definition withdrawal_dto :: CreateWithdrawalIntentDto where
  "withdrawal_dto = \<lparr>cw_idempotencyKey = ''k2'', cw_assetSymbol = ''ETH'', cw_amount = 30, cw_destinationAddress = ''0xdest''\<rparr>"

definition withdrawal_context :: WithdrawalIntentContext where
  "withdrawal_context = \<lparr>wx_customerId = ''c-alice'', wx_customerAccountId = ''alice'', wx_sourceWalletId = ''w-alice'',
     wx_sourceWalletAddress = ''0xalice'', wx_externalAddress = ''0xdest'', wx_assetId = ''eth'', wx_assetSymbol = ''ETH''\<rparr>"

lemma demo_symbol: "normalizeAssetSymbol (cw_assetSymbol withdrawal_dto) s = Inr (''ETH'', s)"
proof -
  have "toUpperCase (trim ''ETH'') = ''ETH''" by code_simp
  then show ?thesis by (simp add: withdrawal_dto_def normalizeAssetSymbol_def returnT_def)
qed

lemma demo_context:
  "resolveWithdrawalIntentContext demo_cfg demo_evm ''u-alice'' ''ETH'' (cw_destinationAddress withdrawal_dto)
     deposit_settled = Inr (withdrawal_context, deposit_settled)"
proof -
  have trims: "trim ''0xdest'' = ''0xdest''" "trim ''0xalice'' = ''0xalice''" by code_simp+
  show ?thesis
    by (simp add: resolveWithdrawalIntentContext_def deposit_settled_facts tx_defs normalizeBlockchainAddress_def
        Let_def withdrawal_dto_def withdrawal_context_def demo_evm_def demo_cfg_def trims demo_account_def
        demo_wallet_def assertSensitiveIntentRequestAllowed_def activeWallets_def activeAsset_def)
qed

definition withdrawal_request :: service_call where
  "withdrawal_request = CreateWithdrawalIntent ''u-alice'' withdrawal_dto"

definition withdrawal_requested :: db where
  "withdrawal_requested = commit (run_call demo_cfg demo_evm withdrawal_request) deposit_settled"

text \<open>The intent of the request, in any state that has its row.\<close>

definition pending_row :: "db \<Rightarrow> transaction_intent \<Rightarrow> bool" where
  "pending_row s r \<longleftrightarrow> intent_row s (ti_id r) = Some r \<and> ti_intentType r = TransactionIntentType.withdrawal \<and>
     ti_status r = TransactionIntentStatus.requested \<and> ti_chainId r = 1 \<and> ti_customerAccountId r = Some ''alice'' \<and>
     ti_assetId r = ''eth'' \<and> ti_requestedAmount r = 30 \<and> ti_sourceWalletId r = Some ''w-alice'' \<and>
     ti_externalAddress r = Some ''0xdest'' \<and> ti_idempotencyKey r = ''k2''"

lemma withdrawal_requested_facts:
  "run_call demo_cfg demo_evm withdrawal_request deposit_settled = Inr ((), withdrawal_requested) \<and>
   (\<exists>r. pending_row withdrawal_requested r) \<and>
   available withdrawal_requested ''alice'' ''eth'' = 70 \<and> pending withdrawal_requested ''alice'' ''eth'' = 30 \<and>
   wallets withdrawal_requested = [demo_wallet ''alice'', demo_wallet ''bob''] \<and>
   solvencyPolicyState withdrawal_requested = None \<and>
   bt_txHash ` set (blockchainTransactions withdrawal_requested) = {Some ''0xh1''}"
proof -
  note sel = withdrawal_context_def withdrawal_dto_def
  have "yields (createWithdrawalIntent demo_cfg demo_evm ''u-alice'' withdrawal_dto) deposit_settled (\<lambda>x t.
    (let r = ir_intent (res_intent x); c = wx_customerAccountId withdrawal_context; a = wx_assetId withdrawal_context in
     \<not> res_reused x \<and> intent_row t (ti_id r) = Some r \<and>
     r = newWithdrawalIntent demo_cfg withdrawal_dto withdrawal_context (ti_id r) \<and>
     customerAccounts t = customerAccounts deposit_settled \<and> wallets t = wallets deposit_settled \<and>
     blockchainTransactions t = blockchainTransactions deposit_settled \<and>
     solvencyPolicyState t = solvencyPolicyState deposit_settled \<and>
     available t c a = available deposit_settled c a - cw_amount withdrawal_dto \<and>
     pending t c a = pending deposit_settled c a + cw_amount withdrawal_dto))"
    by (rule withdrawal_request_runs [OF deposit_settled_inv deposit_settled_fits demo_symbol demo_context])
      (simp_all add: deposit_settled_facts sel fits_decimal_def decimal_limit_def)
  then obtain x t where run: "createWithdrawalIntent demo_cfg demo_evm ''u-alice'' withdrawal_dto deposit_settled = Inr (x, t)"
    and t: "intent_row t (ti_id (ir_intent (res_intent x))) = Some (ir_intent (res_intent x))"
      "ir_intent (res_intent x) = newWithdrawalIntent demo_cfg withdrawal_dto withdrawal_context (ti_id (ir_intent (res_intent x)))"
      "wallets t = wallets deposit_settled" "blockchainTransactions t = blockchainTransactions deposit_settled"
      "solvencyPolicyState t = solvencyPolicyState deposit_settled"
      "available t ''alice'' ''eth'' = 70" "pending t ''alice'' ''eth'' = 30"
    by (auto simp: yields_def Let_def deposit_settled_facts sel)
  have "run_call demo_cfg demo_evm withdrawal_request deposit_settled = Inr ((), t)"
    using run by (simp add: withdrawal_request_def discard_def bindT_def returnT_def)
  then have w: "withdrawal_requested = t" and call: "run_call demo_cfg demo_evm withdrawal_request deposit_settled = Inr ((), t)"
    by (simp_all add: withdrawal_requested_def commit_def)
  have "pending_row t (ir_intent (res_intent x))"
    unfolding pending_row_def using t(1)
    by (subst (2 3 4 5 6 7 8 9 10) t(2), subst t(2)) (simp add: newWithdrawalIntent_def sel demo_cfg_def)
  then show ?thesis unfolding w using call t deposit_settled_facts by auto
qed

lemma withdrawal_requested_reachable: "service_reachable demo_cfg demo_evm withdrawal_requested"
  unfolding withdrawal_requested_def by (rule commit_reachable [OF deposit_settled_reachable])

end
