(* ===== verification/Service_Properties.thy ===== *)
theory Service_Properties
  imports Service_Demo
begin

text \<open>
  What the reachable states of the intent services guarantee: the balances customers see are
  accounted for by their intents, settled deposits are backed by distinct chain transfers, and a
  withdrawal has exactly one outcome.
\<close>

section \<open>Balances\<close>

text \<open>
  C13. Every unit on the books comes from an intent: the net of every ledger account is the sum over
  the intents of what each, in its present status, has moved on it. It holds in every state the
  services reach when handlers run whole, when their transactions run long after their checks with
  any other step in between, and when decisions and queueings do, provided these find their own
  intent in the status they checked; the last claim here shows what one that does not can do.
\<close>

theorem books_follow_intents:
  assumes "service_reachable cfg evm s"
  shows "key_net s k = sum_list (map (\<lambda>r. contribution r k) (transactionIntents s))"
  using service_inv_parts(6) [OF service_reachable_inv [OF assms]] by (simp add: books_match_def)

theorem books_follow_intents_witness:
  "sum_list (map (\<lambda>r. contribution r (buildCustomerLiabilityLedgerKey ''alice'' ''eth''))
     (transactionIntents withdrawal_requested)) = 70"
proof -
  have "key_net withdrawal_requested (buildCustomerLiabilityLedgerKey ''alice'' ''eth'') = 70"
    using withdrawal_requested_facts service_inv_parts(1) [OF service_reachable_inv [OF withdrawal_requested_reachable]]
    by (simp add: ledger_invariant_def reconciled_def no_colon_def)
  with books_follow_intents [OF withdrawal_requested_reachable] show ?thesis by simp
qed



section \<open>Outcomes\<close>

text \<open>
  C15. A settled deposit is backed: its latest chain transaction is confirmed, the settlement proof
  records that transaction, the chain and the credited amount, the credit was booked, and no other
  settled deposit rests on the same transaction hash of the same chain. A deposit that is not
  settled has neither proof nor credit.
\<close>

theorem settled_deposit_backed:
  assumes "service_reachable cfg evm s" and "intent_row s i = Some r"
    and "ti_intentType r = TransactionIntentType.deposit"
  shows "if ti_status r = TransactionIntentStatus.settled
    then ti_policyDecision r = PolicyDecision.approved \<and> ti_settledAmount r = Some (ti_requestedAmount r) \<and>
      booked s i deposit_settlement \<and>
      (\<exists>b d. latest_of s i = Some b \<and> bt_status b = BlockchainTransactionStatus.confirmed \<and>
        proof_of s i = Some d \<and> proof_matches r b d \<and>
        (\<forall>j d'. proof_of s j = Some d' \<and> dp_chainId d' = dp_chainId d \<and> dp_txHash d' = dp_txHash d \<longrightarrow> j = i))
    else \<not> booked s i deposit_settlement \<and> proof_of s i = None \<and> ti_settledAmount r = None"
proof -
  note inv = service_reachable_inv [OF assms(1)]
  note ok = service_inv_row(2) [OF inv assms(2)]
  have unique: "j = i" if "proof_of s i = Some d" "proof_of s j = Some d'"
    "dp_chainId d' = dp_chainId d" "dp_txHash d' = dp_txHash d" for j d d'
  proof -
    have d: "d \<in> set (depositSettlementProofs s)" "dp_transactionIntentId d = i"
      "d' \<in> set (depositSettlementProofs s)" "dp_transactionIntentId d' = j"
      using that(1,2) unfolding proof_of_def by (auto dest: find_key_Some)
    have "d' = d"
      using service_inv_parts(4) [OF inv] d(1,3) that(3,4)
      unfolding proofs_wf_def distinct_map by (auto dest: inj_onD)
    with d show ?thesis by simp
  qed
  show ?thesis
  proof (cases "ti_status r = TransactionIntentStatus.settled")
    case True
    with ok assms(3) obtain b d where l: "latest_of s i = Some b" and p: "proof_of s i = Some d"
      and m: "proof_matches r b d"
      by (auto simp: intent_ok_def deposit_ok_def)
    have "ti_policyDecision r = PolicyDecision.approved \<and> ti_settledAmount r = Some (ti_requestedAmount r) \<and>
        booked s i deposit_settlement" "bt_status b = BlockchainTransactionStatus.confirmed"
      using True ok assms(3) l by (simp_all add: intent_ok_def deposit_ok_def settled_amount_ok_def chain_is_def)
    then show ?thesis unfolding if_P [OF True] using l p m unique [OF p] by blast
  next
    case False
    with ok assms(3) show ?thesis by (simp add: intent_ok_def deposit_ok_def settled_amount_ok_def)
  qed
qed

theorem settled_deposit_backed_witness:
  "\<exists>r b d. intent_row deposit_settled (demo_id 0) = Some r \<and> ti_settledAmount r = Some (ti_requestedAmount r) \<and>
     booked deposit_settled (demo_id 0) deposit_settlement \<and>
     latest_of deposit_settled (demo_id 0) = Some b \<and> bt_status b = BlockchainTransactionStatus.confirmed \<and>
     proof_of deposit_settled (demo_id 0) = Some d \<and> proof_matches r b d"
proof -
  from deposit_settled_facts(9) obtain r where r: "intent_row deposit_settled (demo_id 0) = Some r"
    "ti_intentType r = TransactionIntentType.deposit" "ti_status r = TransactionIntentStatus.settled" by blast
  from settled_deposit_backed [OF deposit_settled_reachable r(1,2)] r(1,3) show ?thesis by auto
qed

text \<open>
  C16. A withdrawal has one outcome. Its amount is reserved once; it is released if and only if the
  intent failed (denied or failed in execution) and paid out if and only if it settled, so never
  both, and a settled withdrawal paid exactly what was requested.
\<close>

theorem withdrawal_single_outcome:
  assumes "service_reachable cfg evm s" and "intent_row s i = Some r"
    and "ti_intentType r = TransactionIntentType.withdrawal"
  shows "booked s i withdrawal_reservation \<and>
    (booked s i withdrawal_reservation_release \<longleftrightarrow> ti_status r = TransactionIntentStatus.failed) \<and>
    (booked s i withdrawal_settlement \<longleftrightarrow> ti_status r = TransactionIntentStatus.settled) \<and>
    \<not> (booked s i withdrawal_reservation_release \<and> booked s i withdrawal_settlement) \<and>
    (ti_status r = TransactionIntentStatus.settled \<longrightarrow> ti_policyDecision r = PolicyDecision.approved \<and>
      map_option bt_status (latest_of s i) = Some BlockchainTransactionStatus.confirmed \<and>
      ti_settledAmount r = Some (ti_requestedAmount r))"
  using service_inv_row(2) [OF service_reachable_inv [OF assms(1)] assms(2)] assms(3)
  by (auto simp: intent_ok_def withdrawal_ok_def settled_amount_ok_def chain_is_def)

theorem withdrawal_single_outcome_witness:
  "\<exists>r. pending_row withdrawal_requested r \<and>
     booked withdrawal_requested (ti_id r) withdrawal_reservation \<and>
     \<not> booked withdrawal_requested (ti_id r) withdrawal_reservation_release \<and>
     \<not> booked withdrawal_requested (ti_id r) withdrawal_settlement"
proof -
  from withdrawal_requested_facts obtain r where r: "pending_row withdrawal_requested r" by blast
  then have "intent_row withdrawal_requested (ti_id r) = Some r" "ti_intentType r = TransactionIntentType.withdrawal"
    "ti_status r = TransactionIntentStatus.requested" by (simp_all add: pending_row_def)
  from withdrawal_single_outcome [OF withdrawal_requested_reachable this(1,2)] this(3) r show ?thesis by auto
qed



section \<open>Idempotent requests\<close>

text \<open>
  C18. Requests are idempotent across services and time: once a deposit, withdrawal or transfer
  request with some key has succeeded, any later request with that key, of any of the three
  services and whatever happened in between, changes nothing at all (it is answered with the
  existing intent or refused).
\<close>

theorem request_key_used_once:
  assumes "service_reachable cfg evm s" and "run_call cfg evm c s = Inr (u, s1)"
    and "(service_step cfg evm)\<^sup>*\<^sup>* s1 s2" and "run_call cfg evm c' s2 = Inr (u', t)"
    and "request_key c = Some k" and "request_key c' = Some k"
  shows "t = s2"
proof -
  note inv = service_reachable_inv [OF assms(1)]
  note inv1 = run_call_keeps [OF assms(2) inv]
  have "key_used s1 k"
  proof (cases "key_used s k")
    case True
    with used_key_changes_nothing [OF assms(2,5)] show ?thesis by blast
  next
    case False
    show ?thesis by (rule unused_key_creates [OF assms(2,5) False inv])
  qed
  then have "key_used s2 k" by (rule key_used_extends [OF inv1 extends_steps [OF assms(3)]])
  then show ?thesis by (rule used_key_changes_nothing [OF assms(4,6)])
qed

definition deposit_requested :: db where
  "deposit_requested = commit (run_call demo_cfg demo_evm deposit_request) platform0"

lemma deposit_requested_runs:
  "\<not> isl (run_call demo_cfg demo_evm deposit_request platform0)"
  "\<not> isl (run_call demo_cfg demo_evm deposit_request deposit_requested)"
  by code_simp+

theorem request_key_used_once_witness:
  "run_call demo_cfg demo_evm deposit_request deposit_requested = Inr ((), deposit_requested)"
proof -
  have first: "run_call demo_cfg demo_evm deposit_request platform0 = Inr ((), deposit_requested)"
    using deposit_requested_runs(1) by (auto simp: deposit_requested_def commit_def split: sum.splits)
  obtain t where again: "run_call demo_cfg demo_evm deposit_request deposit_requested = Inr ((), t)"
    using deposit_requested_runs(2) by (cases "run_call demo_cfg demo_evm deposit_request deposit_requested") auto
  have "t = deposit_requested"
    by (rule request_key_used_once [OF platform0_reachable first rtranclp.rtrancl_refl again])
      (simp_all add: deposit_request_def)
  with again show ?thesis by simp
qed

section \<open>Progress\<close>

text \<open>
  C19. A covered withdrawal is accepted: with the request's checks passed, a key not used before
  and an amount within the available balance, the request creates the intent, in status requested,
  and moves its amount from available to pending.
\<close>

theorem covered_withdrawal_accepted:
  assumes "service_reachable cfg evm s"
    and "normalizeAssetSymbol (cw_assetSymbol dto) s = Inr (sy, s)"
    and "resolveWithdrawalIntentContext cfg evm user sy (cw_destinationAddress dto) s = Inr (ctx, s)"
    and "0 < cw_amount dto" and "\<not> key_used s (cw_idempotencyKey dto)"
    and "cw_amount dto \<le> available s (wx_customerAccountId ctx) (wx_assetId ctx)"
    and "fits_decimal (pending s (wx_customerAccountId ctx) (wx_assetId ctx) + cw_amount dto)"
  shows "\<exists>x t. createWithdrawalIntent cfg evm user dto s = Inr (x, t) \<and> \<not> res_reused x \<and>
    ti_status (ir_intent (res_intent x)) = TransactionIntentStatus.requested \<and>
    intent_row t (ti_id (ir_intent (res_intent x))) = Some (ir_intent (res_intent x)) \<and>
    available t (wx_customerAccountId ctx) (wx_assetId ctx) =
      available s (wx_customerAccountId ctx) (wx_assetId ctx) - cw_amount dto \<and>
    pending t (wx_customerAccountId ctx) (wx_assetId ctx) =
      pending s (wx_customerAccountId ctx) (wx_assetId ctx) + cw_amount dto"
proof -
  have status: "ti_status (newWithdrawalIntent cfg dto ctx i) = TransactionIntentStatus.requested" for i
    by (simp add: newWithdrawalIntent_def)
  from withdrawal_request_runs [OF service_reachable_inv [OF assms(1)] service_reachable_fits [OF assms(1)] assms(2-7)]
  show ?thesis unfolding yields_def Let_def by (metis status)
qed

theorem covered_withdrawal_accepted_witness:
  "\<exists>x t. createWithdrawalIntent demo_cfg demo_evm ''u-alice'' withdrawal_dto deposit_settled = Inr (x, t) \<and>
     available t ''alice'' ''eth'' = 70 \<and> pending t ''alice'' ''eth'' = 30"
  using covered_withdrawal_accepted [OF deposit_settled_reachable demo_symbol demo_context] deposit_settled_facts
  by (auto simp: withdrawal_context_def withdrawal_dto_def fits_decimal_def decimal_limit_def)

text \<open>
  C20. A pending withdrawal can be denied: an authorized operator giving a reason always succeeds,
  the intent fails and its amount is available again (as long as the column has room for it).
\<close>

theorem pending_withdrawal_deniable:
  assumes "service_reachable cfg evm s" and "intent_row s i = Some r"
    and "ti_intentType r = TransactionIntentType.withdrawal" and "ti_chainId r = productChainId cfg"
    and "ti_status r = TransactionIntentStatus.requested" and "ti_customerAccountId r = Some c"
    and "de_decision dto = OperatorDecision.denied" and "truthy (trim_opt (de_denialReason dto))"
    and "authorized role (transactionIntentDecisionAllowedOperatorRoles cfg)"
    and "fits_decimal (available s c (ti_assetId r) + ti_requestedAmount r)"
  shows "\<exists>x t. decideWithdrawalIntent cfg i op dto role s = Inr (x, t) \<and>
    map_option ti_status (intent_row t i) = Some TransactionIntentStatus.failed \<and>
    available t c (ti_assetId r) = available s c (ti_assetId r) + ti_requestedAmount r \<and>
    pending t c (ti_assetId r) = pending s c (ti_assetId r) - ti_requestedAmount r"
  using deny_withdrawal_runs [OF service_reachable_inv [OF assms(1)] service_reachable_fits [OF assms(1)] assms(2-10)]
  unfolding yields_def .

definition denial :: DecideIntentDto where
  "denial = \<lparr>de_decision = OperatorDecision.denied, de_note = None, de_denialReason = Some ''limit''\<rparr>"

lemma demo_authorized:
  "authorized demo_role (transactionIntentDecisionAllowedOperatorRoles demo_cfg)"
  "authorized demo_role (custodyOperationAllowedOperatorRoles demo_cfg)"
proof -
  have "toLowerCase (trim ''operations_admin'') = ''operations_admin''" by code_simp
  then show "authorized demo_role (transactionIntentDecisionAllowedOperatorRoles demo_cfg)"
    "authorized demo_role (custodyOperationAllowedOperatorRoles demo_cfg)"
    by (simp_all add: authorized_def demo_role_def demo_cfg_def)
qed

theorem pending_withdrawal_deniable_witness:
  "\<exists>i x t. decideWithdrawalIntent demo_cfg i ''op'' denial demo_role withdrawal_requested = Inr (x, t) \<and>
     available t ''alice'' ''eth'' = 100 \<and> pending t ''alice'' ''eth'' = 0"
proof -
  from withdrawal_requested_facts obtain r where r: "pending_row withdrawal_requested r" by blast
  have reason: "truthy (trim_opt (de_denialReason denial))" "de_decision denial = OperatorDecision.denied"
    by code_simp+
  from r have "\<exists>x t. decideWithdrawalIntent demo_cfg (ti_id r) ''op'' denial demo_role withdrawal_requested = Inr (x, t) \<and>
      map_option ti_status (intent_row t (ti_id r)) = Some TransactionIntentStatus.failed \<and>
      available t ''alice'' (ti_assetId r) = available withdrawal_requested ''alice'' (ti_assetId r) + ti_requestedAmount r \<and>
      pending t ''alice'' (ti_assetId r) = pending withdrawal_requested ''alice'' (ti_assetId r) - ti_requestedAmount r"
    by (intro pending_withdrawal_deniable [OF withdrawal_requested_reachable _ _ _ _ _ reason(2,1) demo_authorized(1)])
      (use withdrawal_requested_facts in \<open>simp_all add: pending_row_def demo_cfg_def fits_decimal_def decimal_limit_def\<close>)
  with r withdrawal_requested_facts show ?thesis by (force simp: pending_row_def)
qed

text \<open>
  C21. A pending withdrawal can be paid out: when approvals are not paused, its addresses are valid
  and its transaction hash is new, an authorized approval, the queue, the broadcast, the
  confirmation and the settlement all succeed one after the other, and at the end the intent is
  settled and its amount has left the pending balance.
\<close>

theorem pending_withdrawal_completes:
  assumes "service_reachable cfg evm s" and "intent_row s i = Some r"
    and "ti_intentType r = TransactionIntentType.withdrawal" and "ti_chainId r = productChainId cfg"
    and "ti_status r = TransactionIntentStatus.requested" and "ti_customerAccountId r = Some c"
    and "approvals_open s" and "sendable evm s r"
    and "authorized role (transactionIntentDecisionAllowedOperatorRoles cfg)"
    and "authorized role (custodyOperationAllowedOperatorRoles cfg)"
    and "Some h \<notin> bt_txHash ` set (blockchainTransactions s)"
  shows "\<exists>t. run_all cfg evm (payout_calls i op role w h) s = Inr ((), t) \<and>
    map_option ti_status (intent_row t i) = Some TransactionIntentStatus.settled \<and>
    available t c (ti_assetId r) = available s c (ti_assetId r) \<and>
    pending t c (ti_assetId r) = pending s c (ti_assetId r) - ti_requestedAmount r"
  using withdrawal_completes [OF service_reachable_inv [OF assms(1)] service_reachable_fits [OF assms(1)] assms(2-11)]
  by (auto simp: yields_def)

theorem pending_withdrawal_completes_witness:
  "\<exists>i t. run_all demo_cfg demo_evm (payout_calls i ''op'' demo_role ''worker-1'' ''0xh2'') withdrawal_requested = Inr ((), t) \<and>
     available t ''alice'' ''eth'' = 70 \<and> pending t ''alice'' ''eth'' = 0"
proof -
  from withdrawal_requested_facts obtain r where r: "pending_row withdrawal_requested r" by blast
  have "trim ''0xdest'' = ''0xdest''" "trim ''0xalice'' = ''0xalice''" by code_simp+
  then have "sendable demo_evm withdrawal_requested r" "approvals_open withdrawal_requested"
    using r withdrawal_requested_facts
    by (simp_all add: sendable_def pending_row_def demo_wallet_def follow_def demo_evm_def approvals_open_def)
  then have "\<exists>t. run_all demo_cfg demo_evm (payout_calls (ti_id r) ''op'' demo_role ''worker-1'' ''0xh2'') withdrawal_requested =
      Inr ((), t) \<and> map_option ti_status (intent_row t (ti_id r)) = Some TransactionIntentStatus.settled \<and>
      available t ''alice'' (ti_assetId r) = available withdrawal_requested ''alice'' (ti_assetId r) \<and>
      pending t ''alice'' (ti_assetId r) = pending withdrawal_requested ''alice'' (ti_assetId r) - ti_requestedAmount r"
    using r withdrawal_requested_facts
    by (intro pending_withdrawal_completes [OF withdrawal_requested_reachable _ _ _ _ _ _ _ demo_authorized])
      (simp_all add: pending_row_def demo_cfg_def)
  with r withdrawal_requested_facts show ?thesis by (force simp: pending_row_def)
qed

text \<open>
  C22. What the final statuses rest on: the transaction of an approval does not look at the
  intent again. An operator's approval that read a pending withdrawal succeeds after the withdrawal
  has failed, by another operator's denial or otherwise, whatever else happened in between: the
  intent is approved again although its reservation was returned to the customer, and no money moves.
\<close>

theorem stale_approval_revives_withdrawal:
  assumes "service_reachable cfg evm s" and "intent_row s i = Some r"
    and "ti_intentType r = TransactionIntentType.withdrawal" and "ti_status r = TransactionIntentStatus.requested"
    and "(service_step cfg evm)\<^sup>*\<^sup>* s t"
    and "intent_row t i = Some r'" and "ti_status r' = TransactionIntentStatus.failed"
    and "de_decision dto = OperatorDecision.approved"
  shows "\<exists>x u. decideWithdrawalIntent_transaction op dto role (with_relations s r) t = Inr (x, u) \<and>
    map_option ti_status (intent_row u i) = Some TransactionIntentStatus.approved \<and>
    booked u i withdrawal_reservation_release \<and> available u = available t \<and> pending u = pending t"
proof -
  note inv = service_reachable_inv [OF assms(1)] and inv' = service_reachable_inv [OF reachable_steps [OF assms(5,1)]]
  have ids: "ti_id r' = i" "ti_id (ir_intent (with_relations s r)) = i"
    using service_inv_row(3) [OF inv' assms(6)] service_inv_row(3) [OF inv assms(2)] by simp_all
  obtain acc where "follow ca_id (customerAccounts s) (ti_customerAccountId r) = Some acc"
    by (rule known_account [OF inv assms(2)])
  then have acc: "ir_customerAccount (with_relations s r) = Some acc" by simp
  from extends_steps [OF assms(5)] assms(2) obtain q where "intent_row t i = Some q" "request_of q = request_of r"
    unfolding extends_def by blast
  with assms(3,6) have "ti_intentType r' = TransactionIntentType.withdrawal" by (simp add: request_of_def)
  then have booked_t: "booked t i withdrawal_reservation_release"
    using service_inv_row(2) [OF inv' assms(6)] assms(7) by (simp add: intent_ok_def withdrawal_ok_def)
  from stale_approval_runs [OF assms(6) ids acc assms(8), of op role] obtain x u where
    run: "decideWithdrawalIntent_transaction op dto role (with_relations s r) t = Inr (x, u)" and u: "same_world t u"
      "ledgerJournals u = ledgerJournals t" "map_option ti_status (intent_row u i) = Some TransactionIntentStatus.approved"
    unfolding yields_def by auto
  from u(1) have "available u = available t" "pending u = pending t"
    by (intro ext, simp add: same_world_def same_money_def available_def pending_def)+
  with booked_t run u(2,3) show ?thesis by (auto simp: booked_def recorded_def)
qed

theorem stale_approval_revives_withdrawal_witness:
  "\<exists>i r t x u. run_call demo_cfg demo_evm (DecideWithdrawalIntent i ''op1'' denial demo_role) withdrawal_requested = Inr ((), t) \<and>
     intent_row withdrawal_requested i = Some r \<and>
     decideWithdrawalIntent_transaction ''op2'' approval ''operations_admin'' (with_relations withdrawal_requested r) t = Inr (x, u) \<and>
     map_option ti_status (intent_row u i) = Some TransactionIntentStatus.approved \<and> available u ''alice'' ''eth'' = 100"
proof -
  from withdrawal_requested_facts obtain r where r: "pending_row withdrawal_requested r" by blast
  then have row: "intent_row withdrawal_requested (ti_id r) = Some r" "ti_intentType r = TransactionIntentType.withdrawal"
    "ti_status r = TransactionIntentStatus.requested" by (simp_all add: pending_row_def)
  have reason: "truthy (trim_opt (de_denialReason denial))" "de_decision denial = OperatorDecision.denied"
    by code_simp+
  have "yields (decideWithdrawalIntent demo_cfg (ti_id r) ''op1'' denial demo_role) withdrawal_requested (\<lambda>x t.
      map_option ti_status (intent_row t (ti_id r)) = Some TransactionIntentStatus.failed \<and>
      available t ''alice'' (ti_assetId r) = available withdrawal_requested ''alice'' (ti_assetId r) + ti_requestedAmount r \<and>
      pending t ''alice'' (ti_assetId r) = pending withdrawal_requested ''alice'' (ti_assetId r) - ti_requestedAmount r)"
    by (rule deny_withdrawal_runs [OF service_reachable_inv [OF withdrawal_requested_reachable]
        service_reachable_fits [OF withdrawal_requested_reachable] row(1,2) _ row(3) _ reason(2,1) demo_authorized(1)])
      (use r withdrawal_requested_facts in \<open>simp_all add: pending_row_def demo_cfg_def fits_decimal_def decimal_limit_def\<close>)
  then obtain y t where t: "decideWithdrawalIntent demo_cfg (ti_id r) ''op1'' denial demo_role withdrawal_requested = Inr (y, t)"
    "map_option ti_status (intent_row t (ti_id r)) = Some TransactionIntentStatus.failed" "available t ''alice'' ''eth'' = 100"
    using r withdrawal_requested_facts by (auto simp: yields_def pending_row_def)
  then have call: "run_call demo_cfg demo_evm (DecideWithdrawalIntent (ti_id r) ''op1'' denial demo_role) withdrawal_requested = Inr ((), t)"
    by (simp add: discard_Inr)
  from t(2) obtain r' where r': "intent_row t (ti_id r) = Some r'" "ti_status r' = TransactionIntentStatus.failed" by auto
  have "de_decision approval = OperatorDecision.approved" by (simp add: approval_def)
  from stale_approval_revives_withdrawal [OF withdrawal_requested_reachable row
      r_into_rtranclp [where r = "service_step demo_cfg demo_evm", OF service_step.call [OF call]] r' this, of "''op2''" "''operations_admin''"]
    call row(1) t(3) show ?thesis by metis
qed

end
