(* ===== verification/Settlement_Reconciliation.thy ===== *)
theory Settlement_Reconciliation
  imports Intent_System
begin

text \<open>
  The settlement reconciliation of deposits and withdrawals: the classifiers of
  \<open>transaction-intents/domain/*-settlement-reconciliation.ts\<close>, which say of an intent whether its
  status, its chain transaction, its journal and (for a deposit) its proof agree and which replay
  would repair it, and the listings of \<open>*-settlement-reconciliation.service.ts\<close> built on them.
\<close>

section \<open>Decisions\<close>

datatype SettlementReconciliationState =
    waiting_for_confirmation
  | ready_for_confirm_replay
  | ready_for_settle_replay
  | healthy_settled
  | manual_review_required

datatype SettlementReplayAction = confirm | settle | none

record SettlementReconciliationDecision =
  rd_state :: SettlementReconciliationState
  rd_replayAction :: SettlementReplayAction
  rd_reasonCode :: string
  rd_reason :: string
  rd_actionable :: bool

record DepositSettlementReconciliationInput =
  in_status :: TransactionIntentStatus
  in_policyDecision :: PolicyDecision
  in_requestedAmount :: string
  in_settledAmount :: "string option"
  in_latestBlockchainStatus :: "BlockchainTransactionStatus option"
  in_hasLedgerJournal :: bool
  in_hasSettlementProof :: bool

record WithdrawalSettlementReconciliationInput =
  win_status :: TransactionIntentStatus
  win_policyDecision :: PolicyDecision
  win_requestedAmount :: string
  win_settledAmount :: "string option"
  win_latestBlockchainStatus :: "BlockchainTransactionStatus option"
  win_hasLedgerJournal :: bool

definition reconciled_as ::
  "SettlementReconciliationState \<Rightarrow> SettlementReplayAction \<Rightarrow> string \<Rightarrow> string \<Rightarrow> SettlementReconciliationDecision" where
  "reconciled_as st action code reason =
     \<lparr>rd_state = st, rd_replayAction = action, rd_reasonCode = code, rd_reason = reason,
      rd_actionable = (action \<noteq> none)\<rparr>"

definition manual_review :: "string \<Rightarrow> string \<Rightarrow> SettlementReconciliationDecision" where
  "manual_review code reason = reconciled_as manual_review_required none code reason"

definition classifyDepositSettlementReconciliation ::
  "DepositSettlementReconciliationInput \<Rightarrow> SettlementReconciliationDecision" where
  "classifyDepositSettlementReconciliation input =
     (if in_policyDecision input \<noteq> PolicyDecision.approved
      then manual_review ''unexpected_policy_decision'' ''Policy decision is not approved.''
      else if in_latestBlockchainStatus input = None
      then manual_review ''missing_blockchain_transaction''
        ''No blockchain transaction exists for this deposit intent.''
      else if in_status input = TransactionIntentStatus.broadcast then
        (if in_latestBlockchainStatus input = Some BlockchainTransactionStatus.broadcast
         then reconciled_as waiting_for_confirmation none ''waiting_for_chain_confirmation''
           ''Deposit broadcast is still waiting for chain confirmation.''
         else if in_latestBlockchainStatus input = Some BlockchainTransactionStatus.confirmed then
           (if in_hasLedgerJournal input
            then manual_review ''ledger_exists_before_confirm_state''
              ''Ledger journal exists before the deposit intent reached confirmed state.''
            else reconciled_as ready_for_confirm_replay confirm ''broadcast_tx_already_confirmed''
              ''Blockchain transaction is already confirmed but the deposit intent is still broadcast.'')
         else manual_review ''unexpected_blockchain_status_for_broadcast''
           ''Broadcast deposit has an unexpected blockchain transaction status.'')
      else if in_status input = TransactionIntentStatus.confirmed then
        (if in_latestBlockchainStatus input \<noteq> Some BlockchainTransactionStatus.confirmed
         then manual_review ''confirmed_without_confirmed_tx''
           ''Deposit intent is confirmed but the latest blockchain transaction is not confirmed.''
         else if in_hasLedgerJournal input
         then manual_review ''ledger_exists_before_settled_state''
           ''Ledger journal exists but the deposit intent did not reach settled state.''
         else if in_hasSettlementProof input
         then manual_review ''settlement_proof_exists_before_settled_state''
           ''Deposit settlement proof exists but the deposit intent did not reach settled state.''
         else if in_settledAmount input \<noteq> None
         then manual_review ''settled_amount_exists_before_settled_state''
           ''Settled amount exists but the deposit intent did not reach settled state.''
         else reconciled_as ready_for_settle_replay settle ''confirmed_without_ledger_settlement''
           ''Deposit intent is confirmed and safe to replay settlement because no ledger journal exists.'')
      else if in_status input = TransactionIntentStatus.settled then
        (if in_latestBlockchainStatus input \<noteq> Some BlockchainTransactionStatus.confirmed
         then manual_review ''settled_without_confirmed_tx''
           ''Deposit intent is settled but the latest blockchain transaction is not confirmed.''
         else if \<not> in_hasLedgerJournal input
         then manual_review ''missing_ledger_journal'' ''Deposit intent is settled but the ledger journal is missing.''
         else if \<not> in_hasSettlementProof input
         then manual_review ''missing_settlement_proof''
           ''Deposit intent is settled but the immutable settlement proof is missing.''
         else if \<not> truthy (in_settledAmount input)
         then manual_review ''missing_settled_amount'' ''Deposit intent is settled but settledAmount is missing.''
         else if in_settledAmount input \<noteq> Some (in_requestedAmount input)
         then manual_review ''settled_amount_mismatch'' ''Deposit intent settledAmount does not match requestedAmount.''
         else reconciled_as healthy_settled none ''deposit_settlement_healthy''
           ''Deposit intent, blockchain transaction, and ledger settlement are aligned.'')
      else manual_review ''unsupported_intent_status''
        ''Deposit intent is in a status outside the reconciliation scope.'')"

definition classifyWithdrawalSettlementReconciliation ::
  "WithdrawalSettlementReconciliationInput \<Rightarrow> SettlementReconciliationDecision" where
  "classifyWithdrawalSettlementReconciliation input =
     (if win_policyDecision input \<noteq> PolicyDecision.approved
      then manual_review ''unexpected_policy_decision'' ''Policy decision is not approved.''
      else if win_latestBlockchainStatus input = None
      then manual_review ''missing_blockchain_transaction''
        ''No blockchain transaction exists for this withdrawal intent.''
      else if win_status input = TransactionIntentStatus.broadcast then
        (if win_latestBlockchainStatus input = Some BlockchainTransactionStatus.broadcast
         then reconciled_as waiting_for_confirmation none ''waiting_for_chain_confirmation''
           ''Withdrawal broadcast is still waiting for chain confirmation.''
         else if win_latestBlockchainStatus input = Some BlockchainTransactionStatus.confirmed then
           (if win_hasLedgerJournal input
            then manual_review ''ledger_exists_before_confirm_state''
              ''Ledger journal exists before the withdrawal intent reached confirmed state.''
            else reconciled_as ready_for_confirm_replay confirm ''broadcast_tx_already_confirmed''
              ''Blockchain transaction is already confirmed but the withdrawal intent is still broadcast.'')
         else manual_review ''unexpected_blockchain_status_for_broadcast''
           ''Broadcast withdrawal has an unexpected blockchain transaction status.'')
      else if win_status input = TransactionIntentStatus.confirmed then
        (if win_latestBlockchainStatus input \<noteq> Some BlockchainTransactionStatus.confirmed
         then manual_review ''confirmed_without_confirmed_tx''
           ''Withdrawal intent is confirmed but the latest blockchain transaction is not confirmed.''
         else if win_hasLedgerJournal input
         then manual_review ''ledger_exists_before_settled_state''
           ''Ledger journal exists but the withdrawal intent did not reach settled state.''
         else if win_settledAmount input \<noteq> None
         then manual_review ''settled_amount_exists_before_settled_state''
           ''Settled amount exists but the withdrawal intent did not reach settled state.''
         else reconciled_as ready_for_settle_replay settle ''confirmed_without_ledger_settlement''
           ''Withdrawal intent is confirmed and safe to replay settlement because no ledger journal exists.'')
      else if win_status input = TransactionIntentStatus.settled then
        (if win_latestBlockchainStatus input \<noteq> Some BlockchainTransactionStatus.confirmed
         then manual_review ''settled_without_confirmed_tx''
           ''Withdrawal intent is settled but the latest blockchain transaction is not confirmed.''
         else if \<not> win_hasLedgerJournal input
         then manual_review ''missing_ledger_journal''
           ''Withdrawal intent is settled but the ledger journal is missing.''
         else if \<not> truthy (win_settledAmount input)
         then manual_review ''missing_settled_amount'' ''Withdrawal intent is settled but settledAmount is missing.''
         else if win_settledAmount input \<noteq> Some (win_requestedAmount input)
         then manual_review ''settled_amount_mismatch''
           ''Withdrawal intent settledAmount does not match requestedAmount.''
         else reconciled_as healthy_settled none ''withdrawal_settlement_healthy''
           ''Withdrawal intent, blockchain transaction, and ledger settlement are aligned.'')
      else manual_review ''unsupported_intent_status''
        ''Withdrawal intent is in a status outside the reconciliation scope.'')"

lemmas classify_eval = classifyDepositSettlementReconciliation_def classifyWithdrawalSettlementReconciliation_def
  manual_review_def reconciled_as_def

section \<open>Items\<close>

text \<open>An intent with the relations the listing includes, and what the classifier says of it.\<close>

record reconciliation_item =
  it_intent :: intent_record
  it_reconciliation :: SettlementReconciliationDecision

definition has_journal :: "db \<Rightarrow> string \<Rightarrow> ledger_journal_type \<Rightarrow> bool" where
  "has_journal s i ty \<longleftrightarrow>
     (\<exists>j\<in>set (ledgerJournals s). lj_transactionIntentId j = Some i \<and> lj_journalType j = ty)"

definition depositInput :: "service_config \<Rightarrow> db \<Rightarrow> transaction_intent \<Rightarrow> DepositSettlementReconciliationInput" where
  "depositInput cfg s r =
     \<lparr>in_status = ti_status r, in_policyDecision = ti_policyDecision r,
      in_requestedAmount = decimalToString cfg (ti_requestedAmount r),
      in_settledAmount = map_option (decimalToString cfg) (ti_settledAmount r),
      in_latestBlockchainStatus = map_option bt_status (latest_of s (ti_id r)),
      in_hasLedgerJournal = has_journal s (ti_id r) deposit_settlement,
      in_hasSettlementProof = (proof_of s (ti_id r) \<noteq> None)\<rparr>"

definition withdrawalInput :: "service_config \<Rightarrow> db \<Rightarrow> transaction_intent \<Rightarrow> WithdrawalSettlementReconciliationInput" where
  "withdrawalInput cfg s r =
     \<lparr>win_status = ti_status r, win_policyDecision = ti_policyDecision r,
      win_requestedAmount = decimalToString cfg (ti_requestedAmount r),
      win_settledAmount = map_option (decimalToString cfg) (ti_settledAmount r),
      win_latestBlockchainStatus = map_option bt_status (latest_of s (ti_id r)),
      win_hasLedgerJournal = has_journal s (ti_id r) withdrawal_settlement\<rparr>"

definition mapDepositItem :: "service_config \<Rightarrow> intent_record \<Rightarrow> reconciliation_item dbtx" where
  "mapDepositItem cfg r =
     bindT (throwIf (ir_customerAccount r = None)
       (NotFoundException ''Customer account projection not found.'')) (\<lambda>_.
     readT (\<lambda>s. \<lparr>it_intent = r,
       it_reconciliation = classifyDepositSettlementReconciliation (depositInput cfg s (ir_intent r))\<rparr>))"

definition mapWithdrawalItem :: "service_config \<Rightarrow> intent_record \<Rightarrow> reconciliation_item dbtx" where
  "mapWithdrawalItem cfg r =
     bindT (throwIf (ir_customerAccount r = None)
       (NotFoundException ''Customer account projection not found.'')) (\<lambda>_.
     readT (\<lambda>s. \<lparr>it_intent = r,
       it_reconciliation = classifyWithdrawalSettlementReconciliation (withdrawalInput cfg s (ir_intent r))\<rparr>))"

section \<open>Listings\<close>

record reconciliation_listing =
  rl_summary :: "SettlementReconciliationState \<Rightarrow> nat"
  rl_actionableCount :: nat
  rl_items :: "reconciliation_item list"
  rl_limit :: nat

definition summarizeItems ::
  "SettlementReconciliationState option \<Rightarrow> nat \<Rightarrow> reconciliation_item list \<Rightarrow> reconciliation_listing" where
  "summarizeItems wanted limit items =
     (let filtered = (case wanted of None \<Rightarrow> items
        | Some st \<Rightarrow> filter (\<lambda>item. rd_state (it_reconciliation item) = st) items) in
      \<lparr>rl_summary = (\<lambda>st. length (filter (\<lambda>item. rd_state (it_reconciliation item) = st) filtered)),
       rl_actionableCount = length (filter (\<lambda>item. rd_actionable (it_reconciliation item)) filtered),
       rl_items = filtered, rl_limit = limit\<rparr>)"

definition in_reconciliation_scope :: "transaction_intent \<Rightarrow> bool" where
  "in_reconciliation_scope i \<longleftrightarrow> ti_status i \<in> {TransactionIntentStatus.broadcast,
     TransactionIntentStatus.confirmed, TransactionIntentStatus.settled}"

definition listDepositSettlementReconciliation ::
  "service_config \<Rightarrow> SettlementReconciliationState option \<Rightarrow> nat option \<Rightarrow> reconciliation_listing dbtx" where
  "listDepositSettlementReconciliation cfg wanted limit =
     bindT (transactionIntent_findMany (\<lambda>_ i. deposit_on_chain cfg i \<and> in_reconciliation_scope i)
       (page_limit limit)) (\<lambda>records.
     bindT (mapT (mapDepositItem cfg) records) (\<lambda>items.
     returnT (summarizeItems wanted (page_limit limit) items)))"

definition listWithdrawalSettlementReconciliation ::
  "service_config \<Rightarrow> SettlementReconciliationState option \<Rightarrow> nat option \<Rightarrow> reconciliation_listing dbtx" where
  "listWithdrawalSettlementReconciliation cfg wanted limit =
     bindT (transactionIntent_findMany (\<lambda>_ i. withdrawal_on_chain cfg i \<and> in_reconciliation_scope i)
       (page_limit limit)) (\<lambda>records.
     bindT (mapT (mapWithdrawalItem cfg) records) (\<lambda>items.
     returnT (summarizeItems wanted (page_limit limit) items)))"

section \<open>What the classifiers say of a consistent platform\<close>

text \<open>The classification of an intent whose tables agree.\<close>

fun consistent_state :: "TransactionIntentStatus \<Rightarrow> SettlementReconciliationState" where
  "consistent_state TransactionIntentStatus.broadcast = waiting_for_confirmation"
| "consistent_state TransactionIntentStatus.confirmed = ready_for_settle_replay"
| "consistent_state TransactionIntentStatus.settled = healthy_settled"
| "consistent_state _ = manual_review_required"

lemma has_journal_booked: "has_journal s i ty = booked s i ty"
  by (simp add: has_journal_def booked_def recorded_def)

lemma deposit_classified:
  assumes inv: "service_inv s" and row: "intent_row s i = Some r" and render: "\<And>x. decimalToString cfg x \<noteq> []"
    and ty: "ti_intentType r = TransactionIntentType.deposit" and scope: "in_reconciliation_scope r"
  shows "rd_state (classifyDepositSettlementReconciliation (depositInput cfg s r)) = consistent_state (ti_status r)"
  using service_inv_row(2,3) [OF inv row] ty scope render
  by (auto simp: depositInput_def classify_eval in_reconciliation_scope_def intent_ok_def deposit_ok_def
      settled_amount_ok_def chain_is_def has_journal_booked)

lemma withdrawal_classified:
  assumes inv: "service_inv s" and row: "intent_row s i = Some r" and render: "\<And>x. decimalToString cfg x \<noteq> []"
    and ty: "ti_intentType r = TransactionIntentType.withdrawal" and scope: "in_reconciliation_scope r"
  shows "rd_state (classifyWithdrawalSettlementReconciliation (withdrawalInput cfg s r)) = consistent_state (ti_status r)"
  using service_inv_row(2,3) [OF inv row] ty scope render
  by (auto simp: withdrawalInput_def classify_eval in_reconciliation_scope_def intent_ok_def withdrawal_ok_def
      settled_amount_ok_def chain_is_def has_journal_booked)

end
