(* ===== verification/Replay_Approvals.thy ===== *)
theory Replay_Approvals
  imports Settlement_Reconciliation
begin

text \<open>
  Governed settlement replays (\<open>deposit-settlement-reconciliation.service.ts\<close> and
  \<open>withdrawal-settlement-reconciliation.service.ts\<close>): an operator asks for a replay, another
  approves or rejects it, and an operator other than the requester executes it. The two services
  are the same program over different tables, messages and replays; the model has it once, over a
  record of what differs, and one instance per service. A handler is several database transactions
  in a row; those before the last do not depend on it succeeding, and the last, an update by
  identifier of a row read before, finds its row. The bodies of the final transactions have
  definitions of their own.
\<close>

section \<open>Requests\<close>

datatype ReplayApprovalRequestStatus = pending_approval | approved | executed | rejected

record replay_request =
  rq_id :: string
  rq_transactionIntentId :: string
  rq_chainId :: nat
  rq_replayAction :: SettlementReplayAction
  rq_status :: ReplayApprovalRequestStatus
  rq_requestedByOperatorId :: string
  rq_requestedByOperatorRole :: string
  rq_requestNote :: "string option"
  rq_requestedAt :: int
  rq_approvedByOperatorId :: "string option"
  rq_approvedByOperatorRole :: "string option"
  rq_approvalNote :: "string option"
  rq_approvedAt :: "int option"
  rq_rejectedByOperatorId :: "string option"
  rq_rejectedByOperatorRole :: "string option"
  rq_rejectionNote :: "string option"
  rq_rejectedAt :: "int option"
  rq_executedByOperatorId :: "string option"
  rq_executedByOperatorRole :: "string option"
  rq_executedAt :: "int option"

record replay_state =
  rs_db :: db
  depositSettlementReplayApprovalRequests :: "replay_request list"
  withdrawalSettlementReplayApprovalRequests :: "replay_request list"

type_synonym 'a replaytx = "(replay_state, 'a) tx"

definition onDb :: "'a dbtx \<Rightarrow> 'a replaytx" where
  "onDb m = (\<lambda>s. case m (rs_db s) of Inl e \<Rightarrow> Inl e | Inr (x, d) \<Rightarrow> Inr (x, s\<lparr>rs_db := d\<rparr>))"

lemma onDb_Inr [tx_iff]: "onDb m s = Inr (x, t) \<longleftrightarrow> (\<exists>d. m (rs_db s) = Inr (x, d) \<and> t = s\<lparr>rs_db := d\<rparr>)"
  by (auto simp: onDb_def split: sum.splits)

text \<open>What a service brings: its tables, its lookups, its replays and the words of its messages.\<close>

record replay_service =
  sv_Kind :: string
  sv_kind :: string
  sv_rows :: "replay_state \<Rightarrow> replay_request list"
  sv_put :: "replay_request list \<Rightarrow> replay_state \<Rightarrow> replay_state"
  sv_find :: "service_config \<Rightarrow> string \<Rightarrow> intent_record option dbtx"
  sv_mapItem :: "service_config \<Rightarrow> intent_record \<Rightarrow> reconciliation_item dbtx"
  sv_replayConfirm :: "service_config \<Rightarrow> string \<Rightarrow> string \<Rightarrow> string option \<Rightarrow> ReplayApprovalContext option \<Rightarrow> intent_result dbtx"
  sv_replaySettle :: "service_config \<Rightarrow> string \<Rightarrow> string \<Rightarrow> string option \<Rightarrow> ReplayApprovalContext option \<Rightarrow> intent_result dbtx"

definition depositReplays :: replay_service where
  "depositReplays =
     \<lparr>sv_Kind = ''Deposit'', sv_kind = ''deposit'',
      sv_rows = depositSettlementReplayApprovalRequests,
      sv_put = (\<lambda>rows s. s\<lparr>depositSettlementReplayApprovalRequests := rows\<rparr>),
      sv_find = findDepositIntentForReview, sv_mapItem = mapDepositItem,
      sv_replayConfirm = replayConfirmDepositIntent, sv_replaySettle = replaySettleConfirmedDepositIntent\<rparr>"

definition withdrawalReplays :: replay_service where
  "withdrawalReplays =
     \<lparr>sv_Kind = ''Withdrawal'', sv_kind = ''withdrawal'',
      sv_rows = withdrawalSettlementReplayApprovalRequests,
      sv_put = (\<lambda>rows s. s\<lparr>withdrawalSettlementReplayApprovalRequests := rows\<rparr>),
      sv_find = findWithdrawalIntentForReview, sv_mapItem = mapWithdrawalItem,
      sv_replayConfirm = replayConfirmWithdrawalIntent, sv_replaySettle = replaySettleConfirmedWithdrawalIntent\<rparr>"

section \<open>Shared steps\<close>

definition assertCanOperateReplays :: "replay_service \<Rightarrow> service_config \<Rightarrow> string option \<Rightarrow> ('s, string) tx" where
  "assertCanOperateReplays sv cfg operatorRole =
     assertOperatorRoleAuthorized operatorRole (custodyOperationAllowedOperatorRoles cfg)
       (''Operator role is not authorized to execute governed '' @ sv_kind sv @ '' replay actions.'')"

definition requestNotFound :: "replay_service \<Rightarrow> error" where
  "requestNotFound sv = NotFoundException (sv_Kind sv @ '' replay approval request was not found.'')"

definition findReplayApprovalRequestById :: "replay_service \<Rightarrow> string \<Rightarrow> replay_request option replaytx" where
  "findReplayApprovalRequestById sv requestId = readT (\<lambda>s. find (\<lambda>r. rq_id r = requestId) (sv_rows sv s))"

definition replayRequest_update ::
  "replay_service \<Rightarrow> string \<Rightarrow> (replay_request \<Rightarrow> replay_request) \<Rightarrow> replay_request replaytx" where
  "replayRequest_update sv requestId f =
     bindT (findReplayApprovalRequestById sv requestId) (\<lambda>found.
     bindT (requireT found RecordNotFound) (\<lambda>row.
     bindT (writeT (\<lambda>s. sv_put sv (update_rows rq_id requestId f (sv_rows sv s)) s)) (\<lambda>_.
     returnT (f row))))"

definition auditReplay :: "replay_service \<Rightarrow> string option \<Rightarrow> string \<Rightarrow> string \<Rightarrow> string \<Rightarrow> unit replaytx" where
  "auditReplay sv customer operatorId action requestId =
     onDb (auditEvent_create customer ''operator'' (Some operatorId)
       (''transaction_intent.'' @ sv_kind sv @ ''.'' @ action)
       (sv_Kind sv @ ''SettlementReplayApprovalRequest'') requestId None None)"

text \<open>\<open>x?.trim() || null\<close>\<close>

definition trimmed_or_null :: "string option \<Rightarrow> string option" where
  "trimmed_or_null x = (if truthy (trim_opt x) then trim_opt x else None)"

definition assertReplayActionMatches ::
  "replay_service \<Rightarrow> reconciliation_item \<Rightarrow> SettlementReplayAction \<Rightarrow> ('s, unit) tx" where
  "assertReplayActionMatches sv item action =
     throwIf (rd_replayAction (it_reconciliation item) \<noteq> action)
       (ConflictException (sv_Kind sv @ (if action = confirm
          then '' transaction intent is not in a state that supports confirm replay.''
          else '' transaction intent is not in a state that supports settle replay.'')))"

definition loadReconciliationItem :: "replay_service \<Rightarrow> service_config \<Rightarrow> string \<Rightarrow> reconciliation_item replaytx" where
  "loadReconciliationItem sv cfg intentId =
     bindT (onDb (sv_find sv cfg intentId)) (\<lambda>found.
     bindT (requireT found (NotFoundException (sv_Kind sv @ '' transaction intent not found.''))) (\<lambda>r.
     onDb (sv_mapItem sv cfg r)))"

record replay_mutation =
  rm_request :: replay_request
  rm_stateReused :: bool

definition reusedRequest :: "replay_request \<Rightarrow> replay_mutation replaytx" where
  "reusedRequest r = returnT \<lparr>rm_request = r, rm_stateReused = True\<rparr>"

section \<open>Asking\<close>

definition requestReplayApproval_transaction ::
  "replay_service \<Rightarrow> string \<Rightarrow> string \<Rightarrow> SettlementReplayAction \<Rightarrow> string option \<Rightarrow> reconciliation_item
     \<Rightarrow> replay_request replaytx" where
  "requestReplayApproval_transaction sv operatorId role action note item =
     bindT (onDb cuid) (\<lambda>i.
     bindT (onDb new_Date) (\<lambda>now.
     bindT (readT (sv_rows sv)) (\<lambda>rows.
     bindT (throwIf (i \<in> rq_id ` set rows) UniqueConstraintViolation) (\<lambda>_.
     let r = \<lparr>rq_id = i, rq_transactionIntentId = ti_id (ir_intent (it_intent item)),
              rq_chainId = ti_chainId (ir_intent (it_intent item)), rq_replayAction = action,
              rq_status = pending_approval, rq_requestedByOperatorId = operatorId,
              rq_requestedByOperatorRole = role, rq_requestNote = trimmed_or_null note,
              rq_requestedAt = now, rq_approvedByOperatorId = None, rq_approvedByOperatorRole = None,
              rq_approvalNote = None, rq_approvedAt = None, rq_rejectedByOperatorId = None,
              rq_rejectedByOperatorRole = None, rq_rejectionNote = None, rq_rejectedAt = None,
              rq_executedByOperatorId = None, rq_executedByOperatorRole = None, rq_executedAt = None\<rparr> in
     bindT (writeT (sv_put sv (rows @ [r]))) (\<lambda>_.
     bindT (auditReplay sv (map_option ca_customerId (ir_customerAccount (it_intent item))) operatorId
       ''replay_approval_requested'' i) (\<lambda>_.
     returnT r))))))"

definition requestReplayApproval ::
  "replay_service \<Rightarrow> service_config \<Rightarrow> string \<Rightarrow> string \<Rightarrow> string option \<Rightarrow> SettlementReplayAction
     \<Rightarrow> string option \<Rightarrow> replay_mutation replaytx" where
  "requestReplayApproval sv cfg intentId operatorId operatorRole action note =
     bindT (assertCanOperateReplays sv cfg operatorRole) (\<lambda>role.
     bindT (loadReconciliationItem sv cfg intentId) (\<lambda>item.
     bindT (assertReplayActionMatches sv item action) (\<lambda>_.
     bindT (readT (\<lambda>s. find (\<lambda>r. rq_transactionIntentId r = intentId \<and> rq_replayAction r = action \<and>
       rq_status r \<in> {pending_approval, approved}) (rev (sv_rows sv s)))) (\<lambda>existing.
       case existing of
         Some r \<Rightarrow>
           bindT (throwIf (rq_requestedByOperatorId r \<noteq> operatorId) (ConflictException
             (''A governed replay approval already exists for this '' @ sv_kind sv @ '' intent and replay action.''))) (\<lambda>_.
           reusedRequest r)
       | None \<Rightarrow>
           bindT (requestReplayApproval_transaction sv operatorId role action note item) (\<lambda>r.
           returnT \<lparr>rm_request = r, rm_stateReused = False\<rparr>)))))"

section \<open>Approving and rejecting\<close>

definition approveReplayApprovalRequest_transaction ::
  "replay_service \<Rightarrow> string \<Rightarrow> string \<Rightarrow> string option \<Rightarrow> replay_request \<Rightarrow> replay_request replaytx" where
  "approveReplayApprovalRequest_transaction sv operatorId role note request =
     bindT (onDb new_Date) (\<lambda>now.
     bindT (replayRequest_update sv (rq_id request) (\<lambda>r. r\<lparr>
       rq_status := approved,
       rq_approvedByOperatorId := Some operatorId,
       rq_approvedByOperatorRole := Some role,
       rq_approvalNote := coalesce (trimmed_or_null note) (rq_approvalNote r),
       rq_approvedAt := Some now,
       rq_rejectedByOperatorId := None,
       rq_rejectedByOperatorRole := None,
       rq_rejectionNote := None,
       rq_rejectedAt := None\<rparr>)) (\<lambda>updated.
     bindT (auditReplay sv None operatorId ''replay_approval_approved'' (rq_id updated)) (\<lambda>_.
     returnT updated)))"

definition approveReplayApprovalRequest ::
  "replay_service \<Rightarrow> service_config \<Rightarrow> string \<Rightarrow> string \<Rightarrow> string option \<Rightarrow> string option
     \<Rightarrow> replay_mutation replaytx" where
  "approveReplayApprovalRequest sv cfg requestId operatorId operatorRole note =
     bindT (assertCanOperateReplays sv cfg operatorRole) (\<lambda>role.
     bindT (findReplayApprovalRequestById sv requestId) (\<lambda>found.
     bindT (requireT found (requestNotFound sv)) (\<lambda>request.
     if rq_status request = approved then reusedRequest request
     else
       bindT (throwIf (rq_status request \<noteq> pending_approval) (ConflictException
         (''Only pending '' @ sv_kind sv @ '' replay approval requests can be approved.''))) (\<lambda>_.
       bindT (throwIf (rq_requestedByOperatorId request = operatorId) (ForbiddenException
         (sv_Kind sv @ '' replay approval requires a different approver than the requester.''))) (\<lambda>_.
       bindT (approveReplayApprovalRequest_transaction sv operatorId role note request) (\<lambda>updated.
       returnT \<lparr>rm_request = updated, rm_stateReused = False\<rparr>))))))"

definition rejectReplayApprovalRequest_transaction ::
  "replay_service \<Rightarrow> string \<Rightarrow> string \<Rightarrow> string \<Rightarrow> replay_request \<Rightarrow> replay_request replaytx" where
  "rejectReplayApprovalRequest_transaction sv operatorId role note request =
     bindT (onDb new_Date) (\<lambda>now.
     bindT (replayRequest_update sv (rq_id request) (\<lambda>r. r\<lparr>
       rq_status := rejected,
       rq_rejectedByOperatorId := Some operatorId,
       rq_rejectedByOperatorRole := Some role,
       rq_rejectionNote := Some (trim note),
       rq_rejectedAt := Some now\<rparr>)) (\<lambda>updated.
     bindT (auditReplay sv None operatorId ''replay_approval_rejected'' (rq_id updated)) (\<lambda>_.
     returnT updated)))"

definition rejectReplayApprovalRequest ::
  "replay_service \<Rightarrow> service_config \<Rightarrow> string \<Rightarrow> string \<Rightarrow> string option \<Rightarrow> string
     \<Rightarrow> replay_mutation replaytx" where
  "rejectReplayApprovalRequest sv cfg requestId operatorId operatorRole note =
     bindT (assertCanOperateReplays sv cfg operatorRole) (\<lambda>role.
     bindT (findReplayApprovalRequestById sv requestId) (\<lambda>found.
     bindT (requireT found (requestNotFound sv)) (\<lambda>request.
     if rq_status request = rejected then reusedRequest request
     else
       bindT (throwIf (rq_status request \<noteq> pending_approval) (ConflictException
         (''Only pending '' @ sv_kind sv @ '' replay approval requests can be rejected.''))) (\<lambda>_.
       bindT (throwIf (rq_requestedByOperatorId request = operatorId) (ForbiddenException
         (sv_Kind sv @ '' replay approval requires a different reviewer than the requester.''))) (\<lambda>_.
       bindT (throwIf (trim note = []) (ConflictException
         (''A rejection note is required to reject a '' @ sv_kind sv @ '' replay approval request.''))) (\<lambda>_.
       bindT (rejectReplayApprovalRequest_transaction sv operatorId role note request) (\<lambda>updated.
       returnT \<lparr>rm_request = updated, rm_stateReused = False\<rparr>)))))))"

section \<open>Executing\<close>

definition action_word :: "SettlementReplayAction \<Rightarrow> string" where
  "action_word action = (if action = confirm then ''confirm'' else ''settle'')"

definition executed_transaction ::
  "replay_service \<Rightarrow> string \<Rightarrow> string \<Rightarrow> reconciliation_item \<Rightarrow> replay_request \<Rightarrow> replay_request replaytx" where
  "executed_transaction sv operatorId role item request =
     bindT (onDb new_Date) (\<lambda>now.
     bindT (replayRequest_update sv (rq_id request) (\<lambda>r. r\<lparr>
       rq_status := executed,
       rq_approvedByOperatorId := coalesce (rq_approvedByOperatorId request) (Some operatorId),
       rq_approvedByOperatorRole := coalesce (rq_approvedByOperatorRole request) (Some role),
       rq_approvalNote := coalesce (rq_approvalNote request) (rq_approvalNote r),
       rq_approvedAt := coalesce (rq_approvedAt request) (Some now),
       rq_executedByOperatorId := Some operatorId,
       rq_executedByOperatorRole := Some role,
       rq_executedAt := Some now\<rparr>)) (\<lambda>updated.
     bindT (auditReplay sv (map_option ca_customerId (ir_customerAccount (it_intent item))) operatorId
       ''replay_executed'' (rq_id updated)) (\<lambda>_.
     returnT updated)))"

definition replayStep ::
  "replay_service \<Rightarrow> service_config \<Rightarrow> SettlementReplayAction \<Rightarrow> string \<Rightarrow> string \<Rightarrow> string option \<Rightarrow> string
     \<Rightarrow> (intent_result \<times> replay_request) replaytx" where
  "replayStep sv cfg action intentId operatorId operatorRole requestId =
     bindT (assertCanOperateReplays sv cfg operatorRole) (\<lambda>role.
     bindT (loadReconciliationItem sv cfg intentId) (\<lambda>item.
     bindT (assertReplayActionMatches sv item action) (\<lambda>_.
     bindT (findReplayApprovalRequestById sv requestId) (\<lambda>found.
     bindT (requireT found (requestNotFound sv)) (\<lambda>request.
     bindT (throwIf (rq_transactionIntentId request \<noteq> intentId) (requestNotFound sv)) (\<lambda>_.
     bindT (throwIf (rq_status request \<noteq> approved) (ConflictException
       (sv_Kind sv @ '' replay approval request must be approved before '' @ action_word action @
        '' replay can execute.''))) (\<lambda>_.
     bindT (throwIf (rq_replayAction request \<noteq> action) (ConflictException
       (sv_Kind sv @ '' replay approval request does not authorize '' @ action_word action @ '' replay.''))) (\<lambda>_.
     bindT (throwIf (rq_requestedByOperatorId request = operatorId) (ForbiddenException
       (sv_Kind sv @ '' replay approval requires a different operator than the requester.''))) (\<lambda>_.
     bindT (onDb ((if action = confirm then sv_replayConfirm sv else sv_replaySettle sv)
       cfg intentId operatorId (Some role)
       (Some \<lparr>approvalRequestId = rq_id request,
              requestedByOperatorId = Some (rq_requestedByOperatorId request),
              requestedByOperatorRole = Some (rq_requestedByOperatorRole request)\<rparr>))) (\<lambda>result.
     bindT (executed_transaction sv operatorId role item request) (\<lambda>updated.
     returnT (result, updated))))))))))))"

definition replayConfirm where
  "replayConfirm sv cfg intentId operatorId operatorRole requestId =
     replayStep sv cfg confirm intentId operatorId operatorRole requestId"

definition replaySettle where
  "replaySettle sv cfg intentId operatorId operatorRole requestId =
     replayStep sv cfg settle intentId operatorId operatorRole requestId"

definition executeReplayApprovalRequest ::
  "replay_service \<Rightarrow> service_config \<Rightarrow> string \<Rightarrow> string \<Rightarrow> string option \<Rightarrow> (intent_result \<times> replay_request) replaytx" where
  "executeReplayApprovalRequest sv cfg requestId operatorId operatorRole =
     bindT (findReplayApprovalRequestById sv requestId) (\<lambda>found.
     bindT (requireT found (requestNotFound sv)) (\<lambda>request.
     if rq_replayAction request = confirm
     then replayConfirm sv cfg (rq_transactionIntentId request) operatorId operatorRole (rq_id request)
     else replaySettle sv cfg (rq_transactionIntentId request) operatorId operatorRole (rq_id request)))"

section \<open>Manual review\<close>

definition openManualReviewCase ::
  "replay_service \<Rightarrow> service_config \<Rightarrow> string \<Rightarrow> string \<Rightarrow> string option \<Rightarrow> (review_case \<times> bool) replaytx" where
  "openManualReviewCase sv cfg intentId operatorId note =
     bindT (loadReconciliationItem sv cfg intentId) (\<lambda>item.
     bindT (throwIf (rd_state (it_reconciliation item) \<noteq> manual_review_required) (ConflictException
       (sv_Kind sv @ '' transaction intent is not in a manual-review-required reconciliation state.''))) (\<lambda>_.
     bindT (onDb (account_of (it_intent item))) (\<lambda>account.
     onDb (openOrReuseReviewCase
       \<lparr>op_customerId = Some (ca_customerId account), op_customerAccountId = Some (ca_id account),
        op_transactionIntentId = Some (ti_id (ir_intent (it_intent item))),
        op_type = ReviewCaseType.reconciliation_review,
        op_reasonCode = Some (rd_reasonCode (it_reconciliation item)),
        op_notes = coalesce (trim_opt note) (Some (rd_reason (it_reconciliation item))),
        op_actorType = ''operator'', op_actorId = Some operatorId,
        op_auditAction = ''review_case.reconciliation_review.opened''\<rparr>))))"

end
