(* ===== verification/Replay_System.thy ===== *)
theory Replay_System
  imports Replay_Approvals Withdrawal_Completion
begin

text \<open>
  The two replay services as one system over the intents: their contract as a locale with both
  services as instances, the calls and the steps, and the four-eyes invariant of their tables.
\<close>

section \<open>Four eyes\<close>

definition four_eyes :: "replay_request \<Rightarrow> bool" where
  "four_eyes r \<longleftrightarrow>
     (rq_status r = pending_approval \<longrightarrow> rq_approvedByOperatorId r = None \<and> rq_rejectedByOperatorId r = None) \<and>
     (rq_status r \<in> {approved, executed} \<longrightarrow> (\<exists>a. rq_approvedByOperatorId r = Some a \<and> a \<noteq> rq_requestedByOperatorId r)) \<and>
     (rq_executedByOperatorId r \<noteq> None \<longleftrightarrow> rq_status r = executed) \<and>
     (\<forall>e. rq_executedByOperatorId r = Some e \<longrightarrow> e \<noteq> rq_requestedByOperatorId r) \<and>
     (rq_status r = rejected \<longrightarrow> rq_approvedByOperatorId r = None \<and>
       (\<exists>x. rq_rejectedByOperatorId r = Some x \<and> x \<noteq> rq_requestedByOperatorId r))"

definition table_ok :: "replay_request list \<Rightarrow> bool" where
  "table_ok rows \<longleftrightarrow> distinct (map rq_id rows) \<and> (\<forall>r\<in>set rows. four_eyes r)"

lemma table_ok_append: "table_ok rows \<Longrightarrow> rq_id r \<notin> rq_id ` set rows \<Longrightarrow> four_eyes r \<Longrightarrow> table_ok (rows @ [r])"
  by (auto simp: table_ok_def)

lemma table_ok_update:
  assumes "table_ok rows" "find (\<lambda>r. rq_id r = i) rows = Some row" "\<And>r. rq_id (f r) = rq_id r"
    "four_eyes row \<Longrightarrow> four_eyes (f row)"
  shows "table_ok (update_rows rq_id i f rows)"
proof -
  have row: "row \<in> set rows" "rq_id row = i" using find_key_Some [OF assms(2)] by simp_all
  have "four_eyes r" if "r \<in> set (update_rows rq_id i f rows)" for r
    using set_update_rows [OF that]
  proof
    assume "\<exists>q\<in>set rows. rq_id q = i \<and> r = f q"
    then obtain q where q: "q \<in> set rows" "rq_id q = i" "r = f q" by blast
    with row assms(1) have "q = row" by (auto simp: table_ok_def distinct_map dest: inj_onD)
    with q row(1) assms(1,4) show ?thesis by (simp add: table_ok_def)
  qed (use assms(1) in \<open>simp add: table_ok_def\<close>)
  then show ?thesis using assms(1,3) by (simp add: table_ok_def map_update_rows)
qed

section \<open>The contract of a replay service\<close>

definition sound :: "db \<Rightarrow> bool" where
  "sound d \<longleftrightarrow> service_inv d \<and> columns_fit d"

lemma sound_bookkeeping: "bookkeeping m \<Longrightarrow> m d = Inr (x, d') \<Longrightarrow> sound d \<Longrightarrow> sound d'"
  unfolding sound_def by (metis bookkeepingD service_inv_bookkeeping bookkeeping_fitting keepsD)

text \<open>
  \<open>tame\<close>: neither table of requests changed. \<open>safe\<close>: the service's own table stays in order, the
  other one is as it was. Both keep the intents sound.
\<close>

definition tame :: "replay_state \<Rightarrow> replay_state \<Rightarrow> bool" where
  "tame s t \<longleftrightarrow> (\<exists>d. t = s\<lparr>rs_db := d\<rparr> \<and> (sound (rs_db s) \<longrightarrow> sound d))"

definition safe :: "replay_service \<Rightarrow> replay_service \<Rightarrow> replay_state \<Rightarrow> replay_state \<Rightarrow> bool" where
  "safe sv other s t \<longleftrightarrow> (table_ok (sv_rows sv s) \<longrightarrow> table_ok (sv_rows sv t)) \<and> sv_rows other t = sv_rows other s \<and>
     (sound (rs_db s) \<longrightarrow> sound (rs_db t))"

lemma tame_refl [simp]: "tame s s"
  unfolding tame_def by (rule exI [of _ "rs_db s"]) simp

lemma tame_trans: "tame s t \<Longrightarrow> tame t u \<Longrightarrow> tame s u"
  unfolding tame_def by force

lemma safe_refl [simp]: "safe sv other s s"
  by (simp add: safe_def)

lemma safe_trans: "safe sv other s t \<Longrightarrow> safe sv other t u \<Longrightarrow> safe sv other s u"
  by (simp add: safe_def)

lemma tame_bookkeeping: "bookkeeping m \<Longrightarrow> onDb m s = Inr (x, t) \<Longrightarrow> tame s t"
  unfolding onDb_Inr tame_def by (metis sound_bookkeeping)

lemmas tame_new_Date = tame_bookkeeping [OF bookkeeping_basic(6)]
lemmas tame_cuid = tame_bookkeeping [OF bookkeeping_basic(7)]

lemma tame_audit: "auditReplay sv cu oper act i s = Inr (u, t) \<Longrightarrow> tame s t"
  unfolding auditReplay_def by (rule tame_bookkeeping [OF bookkeeping_write_case(4)])

lemma update_run:
  "replayRequest_update sv i f s = Inr (r, t) \<longleftrightarrow> (\<exists>row. find (\<lambda>r. rq_id r = i) (sv_rows sv s) = Some row \<and>
     r = f row \<and> t = sv_put sv (update_rows rq_id i f (sv_rows sv s)) s)"
  by (auto simp: replayRequest_update_def findReplayApprovalRequestById_def tx_iff)

lemmas step_iff = bindT_Inr returnT_Inr readT_Inr writeT_Inr throwIf_Inr requireT_Inr

lemma role_guard: "assertCanOperateReplays sv cfg role s = Inr (x, t) \<Longrightarrow> t = s"
  by (simp add: assertCanOperateReplays_def assertOperatorRoleAuthorized_Inr)

locale replays =
  fixes sv other :: replay_service
  assumes put_rows [simp]: "sv_rows sv (sv_put sv rows s) = rows"
    and put_other [simp]: "sv_rows other (sv_put sv rows s) = sv_rows other s"
    and put_db [simp]: "rs_db (sv_put sv rows s) = rs_db s"
    and db_rows [simp]: "sv_rows sv (s\<lparr>rs_db := d\<rparr>) = sv_rows sv s" "sv_rows other (s\<lparr>rs_db := d\<rparr>) = sv_rows other s"
    and find_reads: "sv_find sv cfg i d = Inr (x, d') \<Longrightarrow> d' = d"
    and map_reads: "sv_mapItem sv cfg q d = Inr (y, d') \<Longrightarrow> d' = d"
    and confirm_keeps: "sv_replayConfirm sv cfg i oper role ctx d = Inr (z, d') \<Longrightarrow> sound d \<Longrightarrow> sound d'"
    and settle_keeps: "sv_replaySettle sv cfg i oper role ctx d = Inr (z, d') \<Longrightarrow> sound d \<Longrightarrow> sound d'"
begin

lemma tame_safe: "tame s t \<Longrightarrow> safe sv other s t"
  by (auto simp: tame_def safe_def)

lemma tame_rows: "tame s t \<Longrightarrow> sv_rows sv t = sv_rows sv s"
  by (auto simp: tame_def)

lemma load_run:
  "loadReconciliationItem sv cfg i s = Inr (item, t) \<Longrightarrow> t = s"
  by (auto simp: loadReconciliationItem_def tx_iff dest!: find_reads map_reads)

text \<open>Writing the service's own table, then an audit event.\<close>

lemma put_safe:
  assumes "tame s s1" "table_ok (sv_rows sv s) \<Longrightarrow> table_ok rows" "tame (sv_put sv rows s1) t"
  shows "safe sv other s t"
  using assms by (auto simp: tame_def safe_def)

lemma update_safe:
  assumes "tame s s1" "replayRequest_update sv i f s1 = Inr (r, s2)" "tame s2 t"
    "\<And>r. rq_id (f r) = rq_id r" "\<And>row. row \<in> set (sv_rows sv s) \<Longrightarrow> rq_id row = i \<Longrightarrow> four_eyes row \<Longrightarrow> four_eyes (f row)"
  shows "safe sv other s t"
proof -
  obtain row where row: "find (\<lambda>r. rq_id r = i) (sv_rows sv s) = Some row"
    and s2: "s2 = sv_put sv (update_rows rq_id i f (sv_rows sv s)) s1"
    using assms(2) by (auto simp: update_run tame_rows [OF assms(1)])
  show ?thesis
    using assms(1) table_ok_update [OF _ row assms(4)] assms(5) find_key_Some [OF row] assms(3)
    unfolding s2 by (intro put_safe) auto
qed

lemma append_request_safe:
  assumes "onDb cuid s = Inr (i, s1)" "onDb new_Date s1 = Inr (now, s2)" "i \<notin> rq_id ` set (sv_rows sv s2)"
    "rq_id q = i" "four_eyes q" "auditReplay sv u oper act i (sv_put sv (sv_rows sv s2 @ [q]) s2) = Inr (v, t)"
  shows "safe sv other s t"
proof -
  have "tame s s2" using assms(1,2) by (metis tame_trans tame_cuid tame_new_Date)
  with assms(3-5) tame_audit [OF assms(6)] show ?thesis
    by (intro put_safe) (auto simp: tame_rows intro: table_ok_append)
qed

lemma request_transaction_safe:
  assumes "requestReplayApproval_transaction sv oper role action note item s = Inr (r, t)"
  shows "safe sv other s t"
  using assms unfolding requestReplayApproval_transaction_def Let_def step_iff
  by (elim exE conjE, hypsubst, elim append_request_safe) (simp_all add: four_eyes_def)

lemma request_safe:
  assumes "requestReplayApproval sv cfg i oper role action note s = Inr (m, t)" shows "safe sv other s t"
proof -
  from assms consider "t = s" | role' item r where
    "requestReplayApproval_transaction sv oper role' action note item s = Inr (r, t)"
    by (auto simp: requestReplayApproval_def assertReplayActionMatches_def
        reusedRequest_def tx_iff dest!: load_run role_guard split: option.splits)
  then show ?thesis by cases (auto intro: request_transaction_safe)
qed

text \<open>The last transaction of an approval, a rejection or an execution.\<close>

lemma update_request_safe:
  assumes run: "bindT (onDb new_Date) (\<lambda>now. bindT (replayRequest_update sv (rq_id q) (f now)) (\<lambda>upd.
      bindT (auditReplay sv u oper act (rq_id upd)) (\<lambda>_. returnT upd))) s = Inr (r, t)"
    and found: "find (\<lambda>r. rq_id r = k) (sv_rows sv s) = Some q"
    and keeps: "\<And>now. table_ok (sv_rows sv s) \<Longrightarrow> four_eyes (f now q)" "\<And>now r. rq_id (f now r) = rq_id r"
  shows "safe sv other s t"
proof -
  from run obtain now s1 s2 v where new: "onDb new_Date s = Inr (now, s1)"
    and upd: "replayRequest_update sv (rq_id q) (f now) s1 = Inr (r, s2)"
    and aud: "auditReplay sv u oper act (rq_id r) s2 = Inr (v, t)"
    unfolding step_iff by blast
  have s1: "tame s s1" by (rule tame_new_Date [OF new])
  have q: "rq_id q = k" using find_key_Some [OF found] by simp
  from upd q have s2: "s2 = sv_put sv (update_rows rq_id k (f now) (sv_rows sv s)) s1"
    by (auto simp: update_run tame_rows [OF s1])
  have "table_ok (sv_rows sv s) \<Longrightarrow> table_ok (update_rows rq_id k (f now) (sv_rows sv s))"
    by (rule table_ok_update [OF _ found keeps(2)]) (simp_all add: keeps(1))
  then show ?thesis using s1 tame_audit [OF aud] unfolding s2 by (intro put_safe) auto
qed

lemma table_ok_found: "table_ok rows \<Longrightarrow> find (\<lambda>r. rq_id r = k) rows = Some q \<Longrightarrow> four_eyes q"
  using find_key_Some by (fastforce simp: table_ok_def)

lemma approve_safe:
  assumes "approveReplayApprovalRequest sv cfg i oper role note s = Inr (m, t)" shows "safe sv other s t"
proof -
  from assms consider "t = s" | role' q r where "find (\<lambda>r. rq_id r = i) (sv_rows sv s) = Some q"
    "rq_status q = pending_approval" "rq_requestedByOperatorId q \<noteq> oper"
    "approveReplayApprovalRequest_transaction sv oper role' note q s = Inr (r, t)"
    by (auto simp: approveReplayApprovalRequest_def findReplayApprovalRequestById_def
        reusedRequest_def tx_iff dest!: role_guard split: if_splits)
  then show ?thesis
  proof cases
    case 2
    show ?thesis
      by (rule update_request_safe [OF 2(4) [unfolded approveReplayApprovalRequest_transaction_def] 2(1)])
        (use 2 in \<open>auto simp: four_eyes_def dest: table_ok_found\<close>)
  qed simp
qed

lemma reject_safe:
  assumes "rejectReplayApprovalRequest sv cfg i oper role note s = Inr (m, t)" shows "safe sv other s t"
proof -
  from assms consider "t = s" | role' q r where "find (\<lambda>r. rq_id r = i) (sv_rows sv s) = Some q"
    "rq_status q = pending_approval" "rq_requestedByOperatorId q \<noteq> oper"
    "rejectReplayApprovalRequest_transaction sv oper role' note q s = Inr (r, t)"
    by (auto simp: rejectReplayApprovalRequest_def findReplayApprovalRequestById_def
        reusedRequest_def tx_iff dest!: role_guard split: if_splits)
  then show ?thesis
  proof cases
    case 2
    show ?thesis
      by (rule update_request_safe [OF 2(4) [unfolded rejectReplayApprovalRequest_transaction_def] 2(1)])
        (use 2 in \<open>auto simp: four_eyes_def dest: table_ok_found\<close>)
  qed simp
qed

lemma replayStep_safe:
  assumes "replayStep sv cfg action i oper role k s = Inr (z, t)" shows "safe sv other s t"
proof -
  from assms obtain role' q d item x w r where q: "find (\<lambda>r. rq_id r = k) (sv_rows sv s) = Some q"
    "rq_status q = approved" "rq_requestedByOperatorId q \<noteq> oper"
    and run: "(if action = confirm then sv_replayConfirm sv else sv_replaySettle sv) cfg i oper (Some role') x
      (rs_db s) = Inr (w, d)"
    and ex: "executed_transaction sv oper role' item q (s\<lparr>rs_db := d\<rparr>) = Inr (r, t)"
    unfolding replayStep_def findReplayApprovalRequestById_def assertReplayActionMatches_def tx_iff
    by (auto dest!: role_guard load_run)
  have "tame s (s\<lparr>rs_db := d\<rparr>)"
    using run confirm_keeps settle_keeps by (auto simp: tame_def split: if_splits)
  moreover have "safe sv other (s\<lparr>rs_db := d\<rparr>) t"
    by (rule update_request_safe [OF ex [unfolded executed_transaction_def], where k = k])
      (use q table_ok_found [OF _ q(1)] in \<open>auto simp: four_eyes_def\<close>)
  ultimately show ?thesis using safe_trans tame_safe by blast
qed

lemma execute_safe:
  assumes "executeReplayApprovalRequest sv cfg k oper role s = Inr (z, t)" shows "safe sv other s t"
  using assms by (auto simp: executeReplayApprovalRequest_def replayConfirm_def replaySettle_def
      findReplayApprovalRequestById_def tx_iff intro: replayStep_safe split: if_splits)

lemma manual_review_safe:
  assumes "openManualReviewCase sv cfg i oper note s = Inr (z, t)" shows "safe sv other s t"
proof -
  from assms obtain item account s1 s2 s3 params where "loadReconciliationItem sv cfg i s = Inr (item, s1)" "s2 = s1"
    "onDb (account_of (it_intent item)) s2 = Inr (account, s3)" "onDb (openOrReuseReviewCase params) s3 = Inr (z, t)"
    unfolding openManualReviewCase_def step_iff by metis
  then have "tame s t"
    by (metis load_run tame_trans tame_bookkeeping bookkeeping_cases(1) bookkeeping_basic(8))
  then show ?thesis by (rule tame_safe)
qed

end

section \<open>Both services keep the contract\<close>

lemma map_item_reads:
  "mapDepositItem cfg q d = Inr (y, d') \<Longrightarrow> d' = d" "mapWithdrawalItem cfg q d = Inr (y, d') \<Longrightarrow> d' = d"
  by (simp_all add: mapDepositItem_def mapWithdrawalItem_def step_iff)

lemma replays_keep:
  assumes "sound d"
  shows "replayConfirmDepositIntent cfg i oper role ctx d = Inr (z, d') \<Longrightarrow> sound d'"
    "replaySettleConfirmedDepositIntent cfg i oper role ctx d = Inr (z, d') \<Longrightarrow> sound d'"
    "replayConfirmWithdrawalIntent cfg i oper role ctx d = Inr (z, d') \<Longrightarrow> sound d'"
    "replaySettleConfirmedWithdrawalIntent cfg i oper role ctx d = Inr (z, d') \<Longrightarrow> sound d'"
proof -
  have calls: "sound d'" if "run_call cfg undefined c d = Inr ((), d')" for c
    using assms run_call_keeps [OF that] keepsD [OF fitting_run_call that] by (simp add: sound_def)
  have confirms: "confirmDepositIntentWithActor cfg i None a d = Inr (z, d') \<Longrightarrow> sound d'"
    "confirmWithdrawalIntentWithActor cfg i None a d = Inr (z, d') \<Longrightarrow> sound d'" for a
    using calls [of "ConfirmDepositIntent i None a"] calls [of "ConfirmWithdrawalIntent i None a"]
    by (auto simp: discard_Inr)
  have settles: "settleConfirmedDepositIntentWithActor cfg i a d = Inr (z, d') \<Longrightarrow> sound d'"
    "settleConfirmedWithdrawalIntentWithActor cfg i a d = Inr (z, d') \<Longrightarrow> sound d'" for a
    using calls [of "SettleConfirmedDepositIntent i a"] calls [of "SettleConfirmedWithdrawalIntent i a"]
    by (auto simp: discard_Inr)
  show "replayConfirmDepositIntent cfg i oper role ctx d = Inr (z, d') \<Longrightarrow> sound d'"
    "replaySettleConfirmedDepositIntent cfg i oper role ctx d = Inr (z, d') \<Longrightarrow> sound d'"
    "replayConfirmWithdrawalIntent cfg i oper role ctx d = Inr (z, d') \<Longrightarrow> sound d'"
    "replaySettleConfirmedWithdrawalIntent cfg i oper role ctx d = Inr (z, d') \<Longrightarrow> sound d'"
    by (auto simp: replayConfirmDepositIntent_def replaySettleConfirmedDepositIntent_def
        replayConfirmWithdrawalIntent_def replaySettleConfirmedWithdrawalIntent_def step_iff
        assertCanOperateCustody_def assertOperatorRoleAuthorized_Inr dest: confirms settles)
qed

interpretation deposits: replays depositReplays withdrawalReplays
  by unfold_locales (auto simp: depositReplays_def withdrawalReplays_def findDepositIntentForReview_def
      transactionIntent_findFirst_def step_iff intro: map_item_reads replays_keep)

interpretation withdrawals: replays withdrawalReplays depositReplays
  by unfold_locales (auto simp: depositReplays_def withdrawalReplays_def findWithdrawalIntentForReview_def
      transactionIntent_findFirst_def step_iff intro: map_item_reads replays_keep)

section \<open>The system\<close>

datatype replayed = deposits_replayed | withdrawals_replayed

fun service_of :: "replayed \<Rightarrow> replay_service" where
  "service_of deposits_replayed = depositReplays"
| "service_of withdrawals_replayed = withdrawalReplays"

datatype replay_call =
    RequestReplayApproval string string "string option" SettlementReplayAction "string option"
  | ApproveReplayApprovalRequest string string "string option" "string option"
  | RejectReplayApprovalRequest string string "string option" string
  | ExecuteReplayApprovalRequest string string "string option"
  | OpenManualReviewCase string string "string option"

fun run_replay :: "service_config \<Rightarrow> replay_service \<Rightarrow> replay_call \<Rightarrow> unit replaytx" where
  "run_replay cfg sv (RequestReplayApproval i oper role action note) =
     bindT (requestReplayApproval sv cfg i oper role action note) (\<lambda>_. returnT ())"
| "run_replay cfg sv (ApproveReplayApprovalRequest k oper role note) =
     bindT (approveReplayApprovalRequest sv cfg k oper role note) (\<lambda>_. returnT ())"
| "run_replay cfg sv (RejectReplayApprovalRequest k oper role note) =
     bindT (rejectReplayApprovalRequest sv cfg k oper role note) (\<lambda>_. returnT ())"
| "run_replay cfg sv (ExecuteReplayApprovalRequest k oper role) =
     bindT (executeReplayApprovalRequest sv cfg k oper role) (\<lambda>_. returnT ())"
| "run_replay cfg sv (OpenManualReviewCase i oper note) =
     bindT (openManualReviewCase sv cfg i oper note) (\<lambda>_. returnT ())"

inductive replay_step :: "service_config \<Rightarrow> evm_library \<Rightarrow> replay_state \<Rightarrow> replay_state \<Rightarrow> bool" for cfg evm where
  replay: "run_replay cfg (service_of k) c s = Inr ((), t) \<Longrightarrow> replay_step cfg evm s t"
| intents: "service_step cfg evm (rs_db s) d \<Longrightarrow> replay_step cfg evm s (s\<lparr>rs_db := d\<rparr>)"

inductive replay_reachable :: "service_config \<Rightarrow> evm_library \<Rightarrow> replay_state \<Rightarrow> bool" for cfg evm where
  start: "service_reachable cfg evm d \<Longrightarrow> replay_reachable cfg evm
    \<lparr>rs_db = d, depositSettlementReplayApprovalRequests = [], withdrawalSettlementReplayApprovalRequests = []\<rparr>"
| step: "replay_reachable cfg evm s \<Longrightarrow> replay_step cfg evm s t \<Longrightarrow> replay_reachable cfg evm t"

definition replay_inv :: "replay_state \<Rightarrow> bool" where
  "replay_inv s \<longleftrightarrow> sound (rs_db s) \<and> table_ok (sv_rows depositReplays s) \<and> table_ok (sv_rows withdrawalReplays s)"

lemma run_replay_safe:
  "run_replay cfg depositReplays c s = Inr ((), t) \<Longrightarrow> safe depositReplays withdrawalReplays s t"
  "run_replay cfg withdrawalReplays c s = Inr ((), t) \<Longrightarrow> safe withdrawalReplays depositReplays s t"
  by (cases c; auto simp: step_iff intro: deposits.request_safe deposits.approve_safe deposits.reject_safe
      deposits.execute_safe deposits.manual_review_safe)
    (cases c; auto simp: step_iff intro: withdrawals.request_safe withdrawals.approve_safe withdrawals.reject_safe
      withdrawals.execute_safe withdrawals.manual_review_safe)

lemma replay_inv_step: "replay_step cfg evm s t \<Longrightarrow> replay_inv s \<Longrightarrow> replay_inv t"
proof (induction rule: replay_step.induct)
  case (replay k c s t)
  then show ?case by (cases k) (auto simp: replay_inv_def safe_def dest!: run_replay_safe)
next
  case (intents s d)
  then show ?case by (auto simp: replay_inv_def depositReplays_def withdrawalReplays_def sound_def
      intro: service_inv_step fitting_step)
qed

lemma replay_reachable_inv: "replay_reachable cfg evm s \<Longrightarrow> replay_inv s"
proof (induction rule: replay_reachable.induct)
  case (start d)
  then show ?case
    by (simp add: replay_inv_def table_ok_def depositReplays_def withdrawalReplays_def sound_def
        service_reachable_inv service_reachable_fits)
qed (rule replay_inv_step)

end
