(* ===== verification/Replay_Properties.thy ===== *)
theory Replay_Properties
  imports Replay_System Service_Demo
begin

text \<open>
  The properties of the settlement reconciliation and of the governed replays, each followed by a
  witness at a concrete state.
\<close>

lemma is_js_space_lower [simp]: "is_js_space (lower_char c) = is_js_space c"
proof (cases "65 \<le> (of_char c :: nat) \<and> (of_char c :: nat) \<le> 90")
  case True
  then have "(of_char (char_of (of_char c + 32 :: nat)) :: nat) = of_char c + 32" by simp
  with True show ?thesis by (auto simp: is_js_space_def lower_char_def Let_def)
qed (auto simp: lower_char_def Let_def)

lemma trim_lower: "trim (toLowerCase x) = toLowerCase (trim x)"
  by (simp add: trim_def toLowerCase_def dropWhile_map rev_map comp_def)

section \<open>Listings\<close>

lemma mapT_deposits:
  "mapT (mapDepositItem cfg) rs s = Inr (items, t) \<Longrightarrow> item \<in> set items \<Longrightarrow>
     it_intent item \<in> set rs \<and>
     it_reconciliation item = classifyDepositSettlementReconciliation (depositInput cfg s (ir_intent (it_intent item)))"
  by (induction rs arbitrary: items) (auto simp: step_iff mapDepositItem_def)

lemma mapT_withdrawals:
  "mapT (mapWithdrawalItem cfg) rs s = Inr (items, t) \<Longrightarrow> item \<in> set items \<Longrightarrow>
     it_intent item \<in> set rs \<and>
     it_reconciliation item = classifyWithdrawalSettlementReconciliation (withdrawalInput cfg s (ir_intent (it_intent item)))"
  by (induction rs arbitrary: items) (auto simp: step_iff mapWithdrawalItem_def)

lemma listed_row:
  assumes "q \<in> set (map (with_relations s) (take n (filter P (transactionIntents s))))" "service_inv s"
  shows "P (ir_intent q) \<and> intent_row s (ti_id (ir_intent q)) = Some (ir_intent q)"
proof -
  from assms(1) obtain r where r: "r \<in> set (transactionIntents s)" "P r" "q = with_relations s r"
    by (auto dest!: in_set_takeD)
  then have "intent_row s (ti_id r) = Some r"
    using service_inv_parts(2) [OF assms(2)] find_key_unique [of ti_id "transactionIntents s" r]
    by (simp add: intents_wf_def intent_row_def)
  with r show ?thesis by simp
qed

lemma summarized: "item \<in> set (rl_items (summarizeItems wanted n items)) \<Longrightarrow> item \<in> set items"
  by (auto simp: summarizeItems_def Let_def split: option.splits if_splits)

lemma listed_deposit:
  assumes "listDepositSettlementReconciliation cfg wanted limit s = Inr (l, t)" "item \<in> set (rl_items l)"
    "service_inv s" "\<And>x. decimalToString cfg x \<noteq> []"
  shows "rd_state (it_reconciliation item) = consistent_state (ti_status (ir_intent (it_intent item))) \<and>
    in_reconciliation_scope (ir_intent (it_intent item))"
proof -
  from assms(1) obtain items where items: "mapT (mapDepositItem cfg) (map (with_relations s) (take (page_limit limit)
      (filter (\<lambda>i. deposit_on_chain cfg i \<and> in_reconciliation_scope i) (transactionIntents s)))) s = Inr (items, t)"
    "l = summarizeItems wanted (page_limit limit) items"
    by (auto simp: listDepositSettlementReconciliation_def transactionIntent_findMany_def step_iff)
  from mapT_deposits [OF items(1)] summarized assms(2) items(2)
  have item: "it_reconciliation item = classifyDepositSettlementReconciliation (depositInput cfg s (ir_intent (it_intent item)))"
    and "it_intent item \<in> set (map (with_relations s) (take (page_limit limit)
      (filter (\<lambda>i. deposit_on_chain cfg i \<and> in_reconciliation_scope i) (transactionIntents s))))" by blast+
  from listed_row [OF this(2) assms(3)] show ?thesis
    using deposit_classified [OF assms(3) _ assms(4)] unfolding item deposit_on_chain_def by blast
qed

lemma listed_withdrawal:
  assumes "listWithdrawalSettlementReconciliation cfg wanted limit s = Inr (l, t)" "item \<in> set (rl_items l)"
    "service_inv s" "\<And>x. decimalToString cfg x \<noteq> []"
  shows "rd_state (it_reconciliation item) = consistent_state (ti_status (ir_intent (it_intent item))) \<and>
    in_reconciliation_scope (ir_intent (it_intent item))"
proof -
  from assms(1) obtain items where items: "mapT (mapWithdrawalItem cfg) (map (with_relations s) (take (page_limit limit)
      (filter (\<lambda>i. withdrawal_on_chain cfg i \<and> in_reconciliation_scope i) (transactionIntents s)))) s = Inr (items, t)"
    "l = summarizeItems wanted (page_limit limit) items"
    by (auto simp: listWithdrawalSettlementReconciliation_def transactionIntent_findMany_def step_iff)
  from mapT_withdrawals [OF items(1)] summarized assms(2) items(2)
  have item: "it_reconciliation item = classifyWithdrawalSettlementReconciliation (withdrawalInput cfg s (ir_intent (it_intent item)))"
    and "it_intent item \<in> set (map (with_relations s) (take (page_limit limit)
      (filter (\<lambda>i. withdrawal_on_chain cfg i \<and> in_reconciliation_scope i) (transactionIntents s))))" by blast+
  from listed_row [OF this(2) assms(3)] show ?thesis
    using withdrawal_classified [OF assms(3) _ assms(4)] unfolding item withdrawal_on_chain_def by blast
qed

section \<open>Executing an approved replay\<close>

lemma yields_onDb [yields_simps]: "yields (onDb m) s Q = yields m (rs_db s) (\<lambda>x d. Q x (s\<lparr>rs_db := d\<rparr>))"
  by (auto simp: yields_def onDb_Inr)

lemma yields_replay_audit [yields_simps]:
  "yields (auditReplay sv u oper act i) s Q =
     Q () (s\<lparr>rs_db := snd (sum.projr (auditEvent_create u ''operator'' (Some oper)
       (''transaction_intent.'' @ sv_kind sv @ ''.'' @ act) (sv_Kind sv @ ''SettlementReplayApprovalRequest'') i None None
       (rs_db s)))\<rparr>)"
  by (simp add: auditReplay_def yields_onDb) (auto simp: yields_def auditEvent_create_def tx_defs cuid_def Let_def)

lemma audit_state:
  "\<exists>n E. snd (sum.projr (auditEvent_create u aty aid act tty tid p nw d)) = d\<lparr>cuid_count := n, auditEvents := E\<rparr>"
  by (auto simp: auditEvent_create_def tx_defs cuid_def Let_def)

lemma reauthorized: "authorized role al \<Longrightarrow> authorized (normalizeOperatorRole role) al"
  by (auto simp: authorized_def normalizeOperatorRole_def trim_lower)

lemma settle_ready:
  "rd_state (classifyWithdrawalSettlementReconciliation x) = ready_for_settle_replay \<Longrightarrow>
     rd_replayAction (classifyWithdrawalSettlementReconciliation x) = settle"
  by (auto simp: classify_eval split: if_splits)

lemma load_settleable:
  assumes inv: "service_inv (rs_db s)" and row: "intent_row (rs_db s) i = Some r"
    and r: "ti_intentType r = TransactionIntentType.withdrawal" "ti_chainId r = productChainId cfg"
      "ti_status r = TransactionIntentStatus.confirmed"
    and render: "\<And>x. decimalToString cfg x \<noteq> []"
    and Q: "\<And>item. rd_replayAction (it_reconciliation item) = settle \<Longrightarrow> Q item s"
  shows "yields (loadReconciliationItem withdrawalReplays cfg i) s Q"
proof -
  obtain acc where acc: "follow ca_id (customerAccounts (rs_db s)) (ti_customerAccountId r) = Some acc"
    by (rule known_account [OF inv row])
  have "rd_state (classifyWithdrawalSettlementReconciliation (withdrawalInput cfg (rs_db s) r)) = ready_for_settle_replay"
    using withdrawal_classified [OF inv row render r(1)] r(3) by (simp add: in_reconciliation_scope_def)
  then have "rd_replayAction (classifyWithdrawalSettlementReconciliation (withdrawalInput cfg (rs_db s) r)) = settle"
    by (rule settle_ready)
  with Q show ?thesis
    by (simp add: loadReconciliationItem_def withdrawalReplays_def findWithdrawalIntentForReview_def mapWithdrawalItem_def
        yields_simps row r acc)
qed

lemma settle_replay_runs:
  assumes inv: "replay_inv s" and req: "find (\<lambda>q. rq_id q = k) (withdrawalSettlementReplayApprovalRequests s) = Some q"
    and q: "rq_status q = ReplayApprovalRequestStatus.approved" "rq_replayAction q = settle" "rq_requestedByOperatorId q \<noteq> oper"
    and row: "intent_row (rs_db s) (rq_transactionIntentId q) = Some r" and c: "ti_customerAccountId r = Some c"
    and r: "ti_intentType r = TransactionIntentType.withdrawal" "ti_chainId r = productChainId cfg"
      "ti_status r = TransactionIntentStatus.confirmed"
    and auth: "authorized role (custodyOperationAllowedOperatorRoles cfg)" and render: "\<And>x. decimalToString cfg x \<noteq> []"
  shows "yields (executeReplayApprovalRequest withdrawalReplays cfg k oper role) s (\<lambda>_ t.
    map_option ti_status (intent_row (rs_db t) (rq_transactionIntentId q)) = Some TransactionIntentStatus.settled \<and>
    pending (rs_db t) c (ti_assetId r) = pending (rs_db s) c (ti_assetId r) - ti_requestedAmount r \<and>
    available (rs_db t) c (ti_assetId r) = available (rs_db s) c (ti_assetId r) \<and>
    (\<exists>q'. find (\<lambda>q. rq_id q = k) (withdrawalSettlementReplayApprovalRequests t) = Some q' \<and>
      rq_status q' = executed \<and> rq_requestedByOperatorId q' = rq_requestedByOperatorId q \<and>
      rq_executedByOperatorId q' = Some oper))"
proof -
  have sound: "service_inv (rs_db s)" "columns_fit (rs_db s)"
    using inv by (simp_all add: replay_inv_def sound_def)
  have k: "rq_id q = k" using find_key_Some [OF req] by simp
  have pay: "yields (replaySettleConfirmedWithdrawalIntent cfg (rq_transactionIntentId q) oper (normalizeOperatorRole role) ctx) (rs_db s)
    (\<lambda>x d. map_option ti_status (intent_row d (rq_transactionIntentId q)) = Some TransactionIntentStatus.settled \<and>
      available d c (ti_assetId r) = available (rs_db s) c (ti_assetId r) \<and>
      pending d c (ti_assetId r) = pending (rs_db s) c (ti_assetId r) - ti_requestedAmount r)" for ctx
    using settle_withdrawal_runs [OF sound row r c] reauthorized [OF auth]
    by (simp add: replaySettleConfirmedWithdrawalIntent_def assertCanOperateCustody_def yields_simps)
  have role: "Some (the (normalizeOperatorRole role)) = normalizeOperatorRole role"
    using auth by (auto simp: authorized_def normalizeOperatorRole_def)
  have rows: "sv_rows withdrawalReplays = withdrawalSettlementReplayApprovalRequests"
    "sv_put withdrawalReplays = (\<lambda>rows s. s\<lparr>withdrawalSettlementReplayApprovalRequests := rows\<rparr>)"
    "sv_replaySettle withdrawalReplays = replaySettleConfirmedWithdrawalIntent"
    by (simp_all add: withdrawalReplays_def)
  have ends: "yields (executed_transaction withdrawalReplays oper u item q) (s\<lparr>rs_db := d\<rparr>) (\<lambda>_ t.
      (\<exists>n E. rs_db t = d\<lparr>cuid_count := n, auditEvents := E\<rparr>) \<and>
      (\<exists>q'. find (\<lambda>q. rq_id q = k) (withdrawalSettlementReplayApprovalRequests t) = Some q' \<and>
        rq_status q' = executed \<and> rq_requestedByOperatorId q' = rq_requestedByOperatorId q \<and>
        rq_executedByOperatorId q' = Some oper))" for u item d
    using audit_state
    by (simp add: executed_transaction_def replayRequest_update_def findReplayApprovalRequestById_def yields_simps
        rows req k find_update_rows)
  show ?thesis
    unfolding executeReplayApprovalRequest_def findReplayApprovalRequestById_def
    apply (simp only: yields_bindT yields_readT yields_requireT rows req option.case q yields_if if_False
        SettlementReplayAction.distinct replaySettle_def)
    unfolding replayStep_def findReplayApprovalRequestById_def assertCanOperateReplays_def yields_bindT yields_authorized
    apply (rule conjI [OF auth], rule load_settleable [OF sound(1) row r render])
    apply (simp add: yields_simps assertReplayActionMatches_def rows req q k role)
    apply (rule yields_weaken [OF pay])
    apply (rule yields_weaken [OF ends])
    by auto
qed

section \<open>Asking for a replay and approving it\<close>

lemma withdrawal_replays:
  "sv_rows withdrawalReplays = withdrawalSettlementReplayApprovalRequests"
  "sv_put withdrawalReplays = (\<lambda>rows s. s\<lparr>withdrawalSettlementReplayApprovalRequests := rows\<rparr>)"
  by (simp_all add: withdrawalReplays_def)

text \<open>A request for a settle replay of a withdrawal, waiting for its approver.\<close>

definition waiting_request :: "replay_state \<Rightarrow> string \<Rightarrow> string \<Rightarrow> replay_request \<Rightarrow> bool" where
  "waiting_request s i a q \<longleftrightarrow> q \<in> set (withdrawalSettlementReplayApprovalRequests s) \<and>
     rq_status q = pending_approval \<and> rq_transactionIntentId q = i \<and> rq_requestedByOperatorId q = a \<and>
     rq_replayAction q = settle"

lemma request_replay_runs:
  assumes inv: "service_inv (rs_db s)" and row: "intent_row (rs_db s) i = Some r"
    and r: "ti_intentType r = TransactionIntentType.withdrawal" "ti_chainId r = productChainId cfg"
      "ti_status r = TransactionIntentStatus.confirmed"
    and auth: "authorized role (custodyOperationAllowedOperatorRoles cfg)" and render: "\<And>x. decimalToString cfg x \<noteq> []"
    and unasked: "\<forall>q\<in>set (withdrawalSettlementReplayApprovalRequests s). rq_transactionIntentId q \<noteq> i"
    and fresh: "cuid_of (rs_db s) (cuid_count (rs_db s)) \<notin> rq_id ` set (withdrawalSettlementReplayApprovalRequests s)"
  shows "yields (requestReplayApproval withdrawalReplays cfg i a role settle note) s (\<lambda>m t.
    (\<exists>n E. rs_db t = (rs_db s)\<lparr>cuid_count := n, auditEvents := E\<rparr>) \<and> waiting_request t i a (rm_request m))"
proof -
  obtain acc where acc: "follow ca_id (customerAccounts (rs_db s)) (ti_customerAccountId r) = Some acc"
    by (rule known_account [OF inv row])
  have "rd_state (classifyWithdrawalSettlementReconciliation (withdrawalInput cfg (rs_db s) r)) = ready_for_settle_replay"
    using withdrawal_classified [OF inv row render r(1)] r(3) by (simp add: in_reconciliation_scope_def)
  then have action: "rd_replayAction (classifyWithdrawalSettlementReconciliation (withdrawalInput cfg (rs_db s) r)) = settle"
    by (rule settle_ready)
  have load: "yields (loadReconciliationItem withdrawalReplays cfg i) s Q =
      Q \<lparr>it_intent = with_relations (rs_db s) r, it_reconciliation =
        classifyWithdrawalSettlementReconciliation (withdrawalInput cfg (rs_db s) r)\<rparr> s" for Q
    by (simp add: loadReconciliationItem_def withdrawalReplays_def findWithdrawalIntentForReview_def mapWithdrawalItem_def
        yields_simps row r acc)
  have none: "find (\<lambda>q. rq_transactionIntentId q = i \<and> rq_replayAction q = settle \<and>
      (rq_status q = pending_approval \<or> rq_status q = ReplayApprovalRequestStatus.approved))
    (rev (withdrawalSettlementReplayApprovalRequests s)) = None"
    using unasked by (auto simp: find_None_iff)
  have audit: "\<exists>n E. snd (sum.projr (auditEvent_create u aty aid act tty tid p nw d)) = (rs_db s)\<lparr>cuid_count := n, auditEvents := E\<rparr>"
    if "d = (rs_db s)\<lparr>cuid_count := m\<rparr>" for u aty aid act tty tid p nw d m
    using audit_state [of u aty aid act tty tid p nw d] that by auto
  show ?thesis
    unfolding requestReplayApproval_def assertCanOperateReplays_def yields_bindT yields_authorized
    apply (rule conjI [OF auth])
    apply (simp add: load assertReplayActionMatches_def action yields_simps withdrawal_replays none
        requestReplayApproval_transaction_def Let_def fresh)
    apply (rule conjI, rule audit, rule refl)
    apply (simp add: waiting_request_def row service_inv_row(3) [OF inv row])
    done
qed

lemma approve_replay_runs:
  assumes tab: "table_ok (withdrawalSettlementReplayApprovalRequests s)" and q: "waiting_request s i a q" and ab: "a \<noteq> b"
    and auth: "authorized role (custodyOperationAllowedOperatorRoles cfg)"
  shows "yields (approveReplayApprovalRequest withdrawalReplays cfg (rq_id q) b role note) s (\<lambda>m t.
    (\<exists>n E. rs_db t = (rs_db s)\<lparr>cuid_count := n, auditEvents := E\<rparr>) \<and>
    (\<exists>q'. find (\<lambda>r. rq_id r = rq_id q) (withdrawalSettlementReplayApprovalRequests t) = Some q' \<and>
      rq_status q' = ReplayApprovalRequestStatus.approved \<and> rq_transactionIntentId q' = i \<and>
      rq_requestedByOperatorId q' = a \<and> rq_replayAction q' = settle))"
proof -
  have found: "find (\<lambda>r. rq_id r = rq_id q) (withdrawalSettlementReplayApprovalRequests s) = Some q"
    using tab q find_key_unique [of rq_id _ q] by (simp add: table_ok_def waiting_request_def)
  show ?thesis
    unfolding approveReplayApprovalRequest_def assertCanOperateReplays_def yields_bindT yields_authorized
    apply (rule conjI [OF auth])
    using q ab audit_state
    apply (simp add: yields_simps findReplayApprovalRequestById_def withdrawal_replays found waiting_request_def
        approveReplayApprovalRequest_transaction_def replayRequest_update_def find_update_rows)
    done
qed

definition governed_settle_replay ::
  "service_config \<Rightarrow> string \<Rightarrow> string \<Rightarrow> string \<Rightarrow> string option \<Rightarrow> string option \<Rightarrow> (intent_result \<times> replay_request) replaytx" where
  "governed_settle_replay cfg i a b role note =
     bindT (requestReplayApproval withdrawalReplays cfg i a role settle note) (\<lambda>m.
     bindT (approveReplayApprovalRequest withdrawalReplays cfg (rq_id (rm_request m)) b role note) (\<lambda>_.
     executeReplayApprovalRequest withdrawalReplays cfg (rq_id (rm_request m)) b role))"

lemma governed_settle_replay_runs:
  assumes inv: "replay_inv s" and row: "intent_row (rs_db s) i = Some r" and c: "ti_customerAccountId r = Some c"
    and r: "ti_intentType r = TransactionIntentType.withdrawal" "ti_chainId r = productChainId cfg"
      "ti_status r = TransactionIntentStatus.confirmed"
    and ab: "a \<noteq> b" and auth: "authorized role (custodyOperationAllowedOperatorRoles cfg)"
    and render: "\<And>x. decimalToString cfg x \<noteq> []"
    and unasked: "\<forall>q\<in>set (withdrawalSettlementReplayApprovalRequests s). rq_transactionIntentId q \<noteq> i"
    and fresh: "cuid_of (rs_db s) (cuid_count (rs_db s)) \<notin> rq_id ` set (withdrawalSettlementReplayApprovalRequests s)"
  shows "yields (governed_settle_replay cfg i a b role note) s (\<lambda>_ t.
    map_option ti_status (intent_row (rs_db t) i) = Some TransactionIntentStatus.settled \<and>
    pending (rs_db t) c (ti_assetId r) = pending (rs_db s) c (ti_assetId r) - ti_requestedAmount r \<and>
    available (rs_db t) c (ti_assetId r) = available (rs_db s) c (ti_assetId r) \<and>
    (\<exists>q. q \<in> set (withdrawalSettlementReplayApprovalRequests t) \<and> rq_status q = executed \<and>
      rq_requestedByOperatorId q = a \<and> rq_executedByOperatorId q = Some b))"
proof -
  have inv0: "service_inv (rs_db s)" using inv by (simp add: replay_inv_def sound_def)
  have kept: "replay_inv t" if "safe withdrawalReplays depositReplays u t" "replay_inv u" for u t
    using that by (simp add: safe_def replay_inv_def)
  show ?thesis
    unfolding governed_settle_replay_def yields_bindT
  proof (rule yields_weaken [OF request_replay_runs [OF inv0 row r auth render unasked fresh]], elim conjE exE)
    fix m s1 n E
    assume run1: "requestReplayApproval withdrawalReplays cfg i a role settle note s = Inr (m, s1)"
      and s1: "rs_db s1 = (rs_db s)\<lparr>cuid_count := n, auditEvents := E\<rparr>" "waiting_request s1 i a (rm_request m)"
    have inv1: "replay_inv s1" by (rule kept [OF withdrawals.request_safe [OF run1] inv])
    then have tab: "table_ok (withdrawalSettlementReplayApprovalRequests s1)" by (simp add: replay_inv_def withdrawal_replays)
    show "yields (approveReplayApprovalRequest withdrawalReplays cfg (rq_id (rm_request m)) b role note) s1
      (\<lambda>_ s2. yields (executeReplayApprovalRequest withdrawalReplays cfg (rq_id (rm_request m)) b role) s2
      (\<lambda>_ t. map_option ti_status (intent_row (rs_db t) i) = Some TransactionIntentStatus.settled \<and>
        pending (rs_db t) c (ti_assetId r) = pending (rs_db s) c (ti_assetId r) - ti_requestedAmount r \<and>
        available (rs_db t) c (ti_assetId r) = available (rs_db s) c (ti_assetId r) \<and>
    (\<exists>q. q \<in> set (withdrawalSettlementReplayApprovalRequests t) \<and> rq_status q = executed \<and>
      rq_requestedByOperatorId q = a \<and> rq_executedByOperatorId q = Some b)))"
    proof (rule yields_weaken [OF approve_replay_runs [OF tab s1(2) ab auth]], elim conjE exE)
      fix m2 s2 n2 E2 q'
      assume run2: "approveReplayApprovalRequest withdrawalReplays cfg (rq_id (rm_request m)) b role note s1 = Inr (m2, s2)"
        and s2: "rs_db s2 = (rs_db s1)\<lparr>cuid_count := n2, auditEvents := E2\<rparr>"
        and q': "find (\<lambda>r. rq_id r = rq_id (rm_request m)) (withdrawalSettlementReplayApprovalRequests s2) = Some q'"
          "rq_status q' = ReplayApprovalRequestStatus.approved" "rq_transactionIntentId q' = i"
          "rq_requestedByOperatorId q' = a" "rq_replayAction q' = settle"
      have inv2: "replay_inv s2" by (rule kept [OF withdrawals.approve_safe [OF run2] inv1])
      have row2: "intent_row (rs_db s2) (rq_transactionIntentId q') = Some r"
        using row q'(3) by (simp add: s1(1) s2 intent_row_def)
      show "yields (executeReplayApprovalRequest withdrawalReplays cfg (rq_id (rm_request m)) b role) s2
        (\<lambda>_ t. map_option ti_status (intent_row (rs_db t) i) = Some TransactionIntentStatus.settled \<and>
          pending (rs_db t) c (ti_assetId r) = pending (rs_db s) c (ti_assetId r) - ti_requestedAmount r \<and>
          available (rs_db t) c (ti_assetId r) = available (rs_db s) c (ti_assetId r) \<and>
    (\<exists>q. q \<in> set (withdrawalSettlementReplayApprovalRequests t) \<and> rq_status q = executed \<and>
      rq_requestedByOperatorId q = a \<and> rq_executedByOperatorId q = Some b))"
        by (rule yields_weaken [OF settle_replay_runs [OF inv2 q'(1,2,5) _ row2 c r auth render]])
          (use q'(3,4) ab s1(1) s2 in \<open>auto simp: available_def pending_def dest!: find_key_Some\<close>)
    qed
  qed
qed

section \<open>Listings always work\<close>

lemma mapT_runs: "\<forall>x\<in>set xs. \<exists>y. f x s = Inr (y, s) \<Longrightarrow> \<exists>ys. mapT f xs s = Inr (ys, s)"
  by (induction xs) (auto simp: step_iff)

lemma listings_run:
  assumes inv: "service_inv s"
  shows "\<exists>l. listDepositSettlementReconciliation cfg wanted limit s = Inr (l, s)"
    "\<exists>l. listWithdrawalSettlementReconciliation cfg wanted limit s = Inr (l, s)"
proof -
  have acc: "ir_customerAccount q \<noteq> None" if "q \<in> set (map (with_relations s) (take n (filter P (transactionIntents s))))"
    for q n P
  proof -
    from listed_row [OF that inv] have row: "intent_row s (ti_id (ir_intent q)) = Some (ir_intent q)" by blast
    from that obtain x where x: "q = with_relations s x" by auto
    obtain c where "follow ca_id (customerAccounts s) (ti_customerAccountId (ir_intent q)) = Some c"
      by (rule known_account [OF inv row])
    with x show ?thesis by simp
  qed
  have d: "\<exists>y. mapDepositItem cfg q s = Inr (y, s)" and w: "\<exists>y. mapWithdrawalItem cfg q s = Inr (y, s)"
    if "ir_customerAccount q \<noteq> None" for q
    using that by (auto simp: mapDepositItem_def mapWithdrawalItem_def step_iff)
  show "\<exists>l. listDepositSettlementReconciliation cfg wanted limit s = Inr (l, s)"
  proof -
    have "\<exists>ys. mapT (mapDepositItem cfg) (map (with_relations s) (take n (filter P (transactionIntents s)))) s = Inr (ys, s)" for n P
      by (rule mapT_runs, rule ballI, rule d, rule acc)
    then show ?thesis by (simp add: listDepositSettlementReconciliation_def transactionIntent_findMany_def step_iff)
  qed
  show "\<exists>l. listWithdrawalSettlementReconciliation cfg wanted limit s = Inr (l, s)"
  proof -
    have "\<exists>ys. mapT (mapWithdrawalItem cfg) (map (with_relations s) (take n (filter P (transactionIntents s)))) s = Inr (ys, s)" for n P
      by (rule mapT_runs, rule ballI, rule w, rule acc)
    then show ?thesis by (simp add: listWithdrawalSettlementReconciliation_def transactionIntent_findMany_def step_iff)
  qed
qed

section \<open>Confirm replays are never due\<close>

lemma confirm_due:
  "rd_replayAction (classifyDepositSettlementReconciliation x) = confirm \<Longrightarrow>
     in_status x = TransactionIntentStatus.broadcast \<and> rd_state (classifyDepositSettlementReconciliation x) = ready_for_confirm_replay"
  "rd_replayAction (classifyWithdrawalSettlementReconciliation y) = confirm \<Longrightarrow>
     win_status y = TransactionIntentStatus.broadcast \<and> rd_state (classifyWithdrawalSettlementReconciliation y) = ready_for_confirm_replay"
  by (auto simp: classify_eval split: if_splits)

lemma loaded_not_confirm:
  assumes inv: "replay_inv s" and render: "\<And>x. decimalToString cfg x \<noteq> []"
    and load: "loadReconciliationItem (service_of k) cfg i s = Inr (item, t)"
  shows "rd_replayAction (it_reconciliation item) \<noteq> confirm"
proof
  assume due: "rd_replayAction (it_reconciliation item) = confirm"
  have inv0: "service_inv (rs_db s)" using inv by (simp add: replay_inv_def sound_def)
  show False
  proof (cases k)
    case deposits_replayed
    with load obtain r where r: "intent_row (rs_db s) i = Some r" "ti_intentType r = TransactionIntentType.deposit"
      "it_reconciliation item = classifyDepositSettlementReconciliation (depositInput cfg (rs_db s) r)"
      by (auto simp: loadReconciliationItem_def depositReplays_def findDepositIntentForReview_def mapDepositItem_def tx_iff
          split: option.splits if_splits)
    from confirm_due(1) due r(3) deposit_classified [OF inv0 r(1) render r(2)] show False
      by (fastforce simp: depositInput_def in_reconciliation_scope_def)
  next
    case withdrawals_replayed
    with load obtain r where r: "intent_row (rs_db s) i = Some r" "ti_intentType r = TransactionIntentType.withdrawal"
      "it_reconciliation item = classifyWithdrawalSettlementReconciliation (withdrawalInput cfg (rs_db s) r)"
      by (auto simp: loadReconciliationItem_def withdrawalReplays_def findWithdrawalIntentForReview_def mapWithdrawalItem_def tx_iff
          split: option.splits if_splits)
    from confirm_due(2) due r(3) withdrawal_classified [OF inv0 r(1) render r(2)] show False
      by (fastforce simp: withdrawalInput_def in_reconciliation_scope_def)
  qed
qed

section \<open>A confirmed withdrawal\<close>

lemma run_all_reachable:
  "service_reachable cfg evm s \<Longrightarrow> run_all cfg evm cs s = Inr ((), t) \<Longrightarrow> service_reachable cfg evm t"
  by (induction cs arbitrary: s) (auto simp: step_iff, blast intro: service_reachable.step service_step.call)

lemma demo_allowed:
  "authorized demo_role (transactionIntentDecisionAllowedOperatorRoles demo_cfg)"
  "authorized demo_role (custodyOperationAllowedOperatorRoles demo_cfg)"
proof -
  have "toLowerCase (trim ''operations_admin'') = ''operations_admin''" by code_simp
  then show "authorized demo_role (transactionIntentDecisionAllowedOperatorRoles demo_cfg)"
    "authorized demo_role (custodyOperationAllowedOperatorRoles demo_cfg)"
    by (simp_all add: authorized_def demo_role_def demo_cfg_def)
qed

lemma demo_confirmed:
  "\<exists>d i r. service_reachable demo_cfg demo_evm d \<and> intent_row d i = Some r \<and>
     ti_status r = TransactionIntentStatus.confirmed \<and> ti_intentType r = TransactionIntentType.withdrawal \<and>
     ti_customerAccountId r = Some ''alice'' \<and> ti_assetId r = ''eth'' \<and> ti_requestedAmount r = 30 \<and>
     ti_chainId r = 1 \<and> pending d ''alice'' ''eth'' = 30"
proof -
  from withdrawal_requested_facts obtain r where r: "pending_row withdrawal_requested r" by blast
  have "trim ''0xdest'' = ''0xdest''" "trim ''0xalice'' = ''0xalice''" by code_simp+
  then have "sendable demo_evm withdrawal_requested r" "approvals_open withdrawal_requested"
    using r withdrawal_requested_facts
    by (simp_all add: sendable_def pending_row_def demo_wallet_def follow_def demo_evm_def approvals_open_def)
  then have "yields (run_all demo_cfg demo_evm (confirm_calls (ti_id r) ''op'' demo_role ''worker-1'' ''0xh2'')) withdrawal_requested
    (\<lambda>_ t. service_inv t \<and> columns_fit t \<and> same_world withdrawal_requested t \<and>
      (\<exists>r'. intent_row t (ti_id r) = Some r' \<and> ti_status r' = TransactionIntentStatus.confirmed \<and>
        request_of r' = request_of r))"
    using r withdrawal_requested_facts
    by (intro withdrawal_confirms [OF service_reachable_inv [OF withdrawal_requested_reachable]
        service_reachable_fits [OF withdrawal_requested_reachable] _ _ _ _ _ _ _ demo_allowed])
      (simp_all add: pending_row_def demo_cfg_def)
  then obtain t r' where t: "run_all demo_cfg demo_evm (confirm_calls (ti_id r) ''op'' demo_role ''worker-1'' ''0xh2'')
      withdrawal_requested = Inr ((), t)" "same_world withdrawal_requested t" "intent_row t (ti_id r) = Some r'"
    "ti_status r' = TransactionIntentStatus.confirmed" "request_of r' = request_of r"
    by (auto simp: yields_def)
  have "pending t ''alice'' ''eth'' = 30" using world_balances [OF t(2)] withdrawal_requested_facts by simp
  with t r run_all_reachable [OF withdrawal_requested_reachable t(1)] show ?thesis
    by (intro exI [of _ t] exI [of _ "ti_id r"] exI [of _ r']) (simp add: pending_row_def request_of_def)
qed

definition no_replays :: "db \<Rightarrow> replay_state" where
  "no_replays d = \<lparr>rs_db = d, depositSettlementReplayApprovalRequests = [], withdrawalSettlementReplayApprovalRequests = []\<rparr>"

lemma no_replays_reachable: "service_reachable cfg evm d \<Longrightarrow> replay_reachable cfg evm (no_replays d)"
  unfolding no_replays_def by (rule replay_reachable.start)

lemma no_replays_sel [simp]:
  "rs_db (no_replays d) = d" "withdrawalSettlementReplayApprovalRequests (no_replays d) = []"
  by (simp_all add: no_replays_def)

lemma governed_reachable:
  assumes "replay_reachable cfg evm s" "governed_settle_replay cfg i a b role note s = Inr (x, t)"
  shows "replay_reachable cfg evm t"
proof -
  obtain m m2 s1 s2 where runs: "requestReplayApproval withdrawalReplays cfg i a role settle note s = Inr (m, s1)"
    "approveReplayApprovalRequest withdrawalReplays cfg (rq_id (rm_request m)) b role note s1 = Inr (m2, s2)"
    "executeReplayApprovalRequest withdrawalReplays cfg (rq_id (rm_request m)) b role s2 = Inr (x, t)"
    using assms(2) by (auto simp: governed_settle_replay_def step_iff)
  have "replay_step cfg evm s s1" "replay_step cfg evm s1 s2" "replay_step cfg evm s2 t"
    by (rule replay_step.replay [where k = withdrawals_replayed and c = "RequestReplayApproval i a role settle note"],
        simp add: step_iff runs(1))
      (rule replay_step.replay [where k = withdrawals_replayed
          and c = "ApproveReplayApprovalRequest (rq_id (rm_request m)) b role note"], simp add: step_iff runs(2),
       rule replay_step.replay [where k = withdrawals_replayed
          and c = "ExecuteReplayApprovalRequest (rq_id (rm_request m)) b role"],
       use runs(3) in \<open>force simp: step_iff\<close>)
  with assms(1) show ?thesis by (blast intro: replay_reachable.step)
qed

lemma demo_replayed:
  "\<exists>t q. replay_reachable demo_cfg demo_evm t \<and> q \<in> set (withdrawalSettlementReplayApprovalRequests t) \<and>
     rq_status q = executed \<and> rq_requestedByOperatorId q = ''ann''"
proof -
  obtain d i r where d: "service_reachable demo_cfg demo_evm d" "intent_row d i = Some r"
    "ti_status r = TransactionIntentStatus.confirmed" "ti_intentType r = TransactionIntentType.withdrawal"
    "ti_customerAccountId r = Some ''alice''" "ti_chainId r = 1"
    using demo_confirmed by blast
  have "yields (governed_settle_replay demo_cfg i ''ann'' ''ben'' demo_role None) (no_replays d) (\<lambda>_ t.
      \<exists>q. q \<in> set (withdrawalSettlementReplayApprovalRequests t) \<and> rq_status q = executed \<and>
        rq_requestedByOperatorId q = ''ann'')"
    by (rule yields_weaken [OF governed_settle_replay_runs [OF replay_reachable_inv [OF no_replays_reachable [OF d(1)]],
        where i = i and r = r and c = "''alice''"]])
      (use d in \<open>auto simp: demo_allowed, simp_all add: demo_cfg_def\<close>)
  then obtain t x q where t: "governed_settle_replay demo_cfg i ''ann'' ''ben'' demo_role None (no_replays d) = Inr (x, t)"
    "q \<in> set (withdrawalSettlementReplayApprovalRequests t)" "rq_status q = executed" "rq_requestedByOperatorId q = ''ann''"
    by (auto simp: yields_def)
  have "replay_reachable demo_cfg demo_evm t"
    by (rule governed_reachable [OF no_replays_reachable [OF d(1)] t(1)])
  with t show ?thesis by blast
qed

section \<open>The properties\<close>

text \<open>
  C23. The tables of a reachable state always agree: both reconciliation listings succeed, whatever
  the filter and the page, and every intent they list is classified by its status alone, waiting
  when broadcast, ready for its settlement replay when confirmed and healthy when settled; none
  needs a manual review or a confirm replay.
\<close>

theorem reconciliation_finds_agreement:
  assumes "replay_reachable cfg evm s" and "\<And>x. decimalToString cfg x \<noteq> []"
  shows "\<exists>l w. listDepositSettlementReconciliation cfg wanted limit (rs_db s) = Inr (l, rs_db s) \<and>
    listWithdrawalSettlementReconciliation cfg wanted limit (rs_db s) = Inr (w, rs_db s) \<and>
    (\<forall>item\<in>set (rl_items l) \<union> set (rl_items w).
       rd_state (it_reconciliation item) = consistent_state (ti_status (ir_intent (it_intent item))) \<and>
       rd_state (it_reconciliation item) \<in> {waiting_for_confirmation, ready_for_settle_replay, healthy_settled})"
proof -
  have inv: "service_inv (rs_db s)" using replay_reachable_inv [OF assms(1)] by (simp add: replay_inv_def sound_def)
  have good: "in_reconciliation_scope r \<Longrightarrow>
      consistent_state (ti_status r) \<in> {waiting_for_confirmation, ready_for_settle_replay, healthy_settled}" for r
    by (auto simp: in_reconciliation_scope_def)
  from listings_run [OF inv] obtain l w where lw:
    "listDepositSettlementReconciliation cfg wanted limit (rs_db s) = Inr (l, rs_db s)"
    "listWithdrawalSettlementReconciliation cfg wanted limit (rs_db s) = Inr (w, rs_db s)" by blast
  have "rd_state (it_reconciliation item) = consistent_state (ti_status (ir_intent (it_intent item))) \<and>
      in_reconciliation_scope (ir_intent (it_intent item))" if "item \<in> set (rl_items l) \<union> set (rl_items w)" for item
    using that listed_deposit [OF lw(1) _ inv assms(2)] listed_withdrawal [OF lw(2) _ inv assms(2)] by (elim UnE)
  with lw good show ?thesis by (intro exI [of _ l] exI [of _ w]) simp
qed

theorem reconciliation_finds_agreement_witness:
  "\<exists>l w. listDepositSettlementReconciliation demo_cfg None (Some 5) withdrawal_requested = Inr (l, withdrawal_requested) \<and>
     listWithdrawalSettlementReconciliation demo_cfg None (Some 5) withdrawal_requested = Inr (w, withdrawal_requested) \<and>
     (\<forall>item\<in>set (rl_items l) \<union> set (rl_items w).
        rd_state (it_reconciliation item) = consistent_state (ti_status (ir_intent (it_intent item))))"
  using reconciliation_finds_agreement [OF replay_reachable.start [OF withdrawal_requested_reachable], of None "Some 5"]
  by (auto simp: demo_cfg_def)

text \<open>
  C24. No replay without a second pair of eyes: in every reachable state of the replay tables, who
  approved, rejected or executed a request is never the operator who asked for it, and a request
  counts as executed only with an approval on record.
\<close>

theorem replays_take_two_operators:
  assumes "replay_reachable cfg evm s" and "q \<in> set (sv_rows (service_of k) s)"
  shows "(rq_status q \<in> {ReplayApprovalRequestStatus.approved, executed} \<longrightarrow>
      (\<exists>a. rq_approvedByOperatorId q = Some a \<and> a \<noteq> rq_requestedByOperatorId q)) \<and>
    (rq_status q = executed \<longleftrightarrow> rq_executedByOperatorId q \<noteq> None) \<and>
    rq_executedByOperatorId q \<noteq> Some (rq_requestedByOperatorId q) \<and>
    (rq_status q = rejected \<longrightarrow> (\<exists>x. rq_rejectedByOperatorId q = Some x \<and> x \<noteq> rq_requestedByOperatorId q))"
proof -
  have "table_ok (sv_rows (service_of k) s)"
    using replay_reachable_inv [OF assms(1)] by (cases k) (simp_all add: replay_inv_def)
  with assms(2) show ?thesis by (auto simp: table_ok_def four_eyes_def)
qed

text \<open>
  C25. A confirmed withdrawal whose settlement never ran is not stuck: one authorized operator asks
  for the settle replay, another approves and executes it, the three calls succeed, and the intent
  is settled with its amount gone from the pending balance and the request on record as executed.
\<close>

theorem governed_replay_settles:
  assumes "replay_reachable cfg evm s" and "intent_row (rs_db s) i = Some r" and "ti_customerAccountId r = Some c"
    and "ti_intentType r = TransactionIntentType.withdrawal" and "ti_chainId r = productChainId cfg"
    and "ti_status r = TransactionIntentStatus.confirmed"
    and "a \<noteq> b" and "authorized role (custodyOperationAllowedOperatorRoles cfg)"
    and "\<And>x. decimalToString cfg x \<noteq> []"
    and "\<forall>q\<in>set (withdrawalSettlementReplayApprovalRequests s). rq_transactionIntentId q \<noteq> i"
    and "cuid_of (rs_db s) (cuid_count (rs_db s)) \<notin> rq_id ` set (withdrawalSettlementReplayApprovalRequests s)"
  shows "\<exists>x t. governed_settle_replay cfg i a b role note s = Inr (x, t) \<and>
    map_option ti_status (intent_row (rs_db t) i) = Some TransactionIntentStatus.settled \<and>
    pending (rs_db t) c (ti_assetId r) = pending (rs_db s) c (ti_assetId r) - ti_requestedAmount r \<and>
    available (rs_db t) c (ti_assetId r) = available (rs_db s) c (ti_assetId r) \<and>
    (\<exists>q. q \<in> set (withdrawalSettlementReplayApprovalRequests t) \<and> rq_status q = executed \<and>
      rq_requestedByOperatorId q = a \<and> rq_executedByOperatorId q = Some b)"
  using governed_settle_replay_runs [OF replay_reachable_inv [OF assms(1)] assms(2-11)] unfolding yields_def .


theorem governed_replay_settles_witness:
  "\<exists>i d x t. pending d ''alice'' ''eth'' = 30 \<and>
     governed_settle_replay demo_cfg i ''ann'' ''ben'' demo_role None (no_replays d) = Inr (x, t) \<and>
     pending (rs_db t) ''alice'' ''eth'' = 0 \<and>
     (\<exists>q. q \<in> set (withdrawalSettlementReplayApprovalRequests t) \<and> rq_status q = executed \<and>
        rq_requestedByOperatorId q = ''ann'' \<and> rq_executedByOperatorId q = Some ''ben'')"
proof -
  obtain d i r where d: "service_reachable demo_cfg demo_evm d" "intent_row d i = Some r"
    "ti_status r = TransactionIntentStatus.confirmed" "ti_intentType r = TransactionIntentType.withdrawal"
    "ti_customerAccountId r = Some ''alice''" "ti_assetId r = ''eth''" "ti_requestedAmount r = 30"
    "ti_chainId r = 1" "pending d ''alice'' ''eth'' = 30"
    using demo_confirmed by blast
  have words: "ti_chainId r = productChainId demo_cfg" "\<And>x. decimalToString demo_cfg x \<noteq> []"
    using d(8) by (simp_all add: demo_cfg_def)
  have "intent_row (rs_db (no_replays d)) i = Some r" using d(2) by simp
  from governed_replay_settles [OF no_replays_reachable [OF d(1)] this d(5,4) words(1) d(3) _ demo_allowed(2) words(2),
      of "''ann''" "''ben''" None]
  show ?thesis using d(6,7,9) by (intro exI [of _ i] exI [of _ d]) auto
qed

theorem replays_take_two_operators_witness:
  "\<exists>(t :: replay_state) (q :: replay_request). q \<in> set (withdrawalSettlementReplayApprovalRequests t) \<and> rq_status q = executed \<and>
     rq_requestedByOperatorId q = ''ann'' \<and> rq_executedByOperatorId q \<noteq> Some ''ann''"
proof -
  obtain t q where t: "replay_reachable demo_cfg demo_evm t" "q \<in> set (withdrawalSettlementReplayApprovalRequests t)"
    "rq_status q = executed" "rq_requestedByOperatorId q = ''ann''"
    using demo_replayed by blast
  from t(2) have "q \<in> set (sv_rows (service_of withdrawals_replayed) t)" by (simp add: withdrawalReplays_def)
  from replays_take_two_operators [OF t(1) this] t show ?thesis by (intro exI [of _ t] exI [of _ q]) simp
qed

text \<open>
  C26. A confirm replay is never granted: the database never holds a confirmed chain transaction
  for an intent still marked as broadcast, so in every reachable state asking for a confirm replay
  and executing one are refused, for deposits and withdrawals alike.
\<close>

theorem confirm_replay_refused:
  assumes "replay_reachable cfg evm s" and "\<And>x. decimalToString cfg x \<noteq> []"
  shows "(\<exists>e. requestReplayApproval (service_of k) cfg i oper role confirm note s = Inl e) \<and>
    (\<exists>e. replayConfirm (service_of k) cfg i oper role requestId s = Inl e)"
proof -
  have no: "loadReconciliationItem (service_of k) cfg i u = Inr (item, v) \<Longrightarrow> u = s \<Longrightarrow>
      rd_replayAction (it_reconciliation item) \<noteq> confirm" for item u v
    using loaded_not_confirm [OF replay_reachable_inv [OF assms(1)] assms(2)] by blast
  have "requestReplayApproval (service_of k) cfg i oper role confirm note s \<noteq> Inr (m, t)" for m t
    using no by (auto simp: requestReplayApproval_def assertReplayActionMatches_def step_iff dest!: role_guard)
  moreover have "replayConfirm (service_of k) cfg i oper role requestId s \<noteq> Inr (m, t)" for m t
    using no by (auto simp: replayConfirm_def replayStep_def assertReplayActionMatches_def step_iff dest!: role_guard)
  ultimately show ?thesis by (metis old.sum.exhaust surj_pair)
qed

theorem confirm_replay_refused_witness:
  "\<exists>e. requestReplayApproval depositReplays demo_cfg ''i'' ''ann'' demo_role confirm None (no_replays withdrawal_requested) = Inl e"
  using confirm_replay_refused [OF no_replays_reachable [OF withdrawal_requested_reachable], of deposits_replayed]
  by (simp add: demo_cfg_def)

end
