(* ===== verification/Canonical_Json.thy ===== *)
theory Canonical_Json
  imports JS_Strings "HOL-Library.List_Lexorder" "HOL-Library.Char_ord" "HOL-Library.Multiset"
begin

text \<open>
  The canonical text that reports, leaves and packages are hashed and signed over
  (\<open>stableStringify\<close> of \<open>solvency/solvency-proof.ts\<close>, repeated in the web client's
  \<open>lib/solvency-proof.ts\<close>): JSON with the keys of every object in code-unit order. It does not
  depend on the order in which the fields were written, and it determines the value.
\<close>

section \<open>Values\<close>

text \<open>
  An object is its fields in insertion order, each key once. The payloads hold integers, strings,
  booleans and nulls; strings are of single-byte characters.
\<close>

datatype json =
    JNull
  | JBool bool
  | JNumber int
  | JString string
  | JArray "json list"
  | JObject "(string \<times> json) list"

section \<open>\<open>JSON.stringify\<close> of the values that are not containers\<close>

definition hex_digit :: "nat \<Rightarrow> char" where
  "hex_digit n = (if n < 10 then char_of (48 + n) else char_of (87 + n))"

definition escape_char :: "char \<Rightarrow> string" where
  "escape_char c = (let n = of_char c :: nat in
     if n = 34 then [CHR 0x5C, CHR 0x22]
     else if n = 92 then [CHR 0x5C, CHR 0x5C]
     else if n = 8 then [CHR 0x5C, CHR ''b'']
     else if n = 9 then [CHR 0x5C, CHR ''t'']
     else if n = 10 then [CHR 0x5C, CHR ''n'']
     else if n = 12 then [CHR 0x5C, CHR ''f'']
     else if n = 13 then [CHR 0x5C, CHR ''r'']
     else if n < 32 then CHR 0x5C # ''u00'' @ [hex_digit (n div 16), hex_digit (n mod 16)]
     else [c])"

definition stringify_string :: "string \<Rightarrow> string" where
  "stringify_string x = CHR 0x22 # concat (map escape_char x) @ [CHR 0x22]"

definition digit :: "nat \<Rightarrow> char" where
  "digit n = char_of (48 + n)"

fun stringify_nat :: "nat \<Rightarrow> string" where
  "stringify_nat n = (if n < 10 then [digit n] else stringify_nat (n div 10) @ [digit (n mod 10)])"

definition stringify_int :: "int \<Rightarrow> string" where
  "stringify_int i = (if i < 0 then CHR ''-'' # stringify_nat (nat (- i)) else stringify_nat (nat i))"

section \<open>The canonical text\<close>

fun stableStringify :: "json \<Rightarrow> string" where
  "stableStringify JNull = ''null''"
| "stableStringify (JBool b) = (if b then ''true'' else ''false'')"
| "stableStringify (JNumber i) = stringify_int i"
| "stableStringify (JString x) = stringify_string x"
| "stableStringify (JArray xs) = ''['' @ join '','' (map stableStringify xs) @ '']''"
| "stableStringify (JObject fields) =
     ''{'' @ join '',''
       (map (\<lambda>(key, text). stringify_string key @ '':'' @ text)
         (sort_key fst (map (\<lambda>(key, v). (key, stableStringify v)) fields))) @ ''}''"

section \<open>Normal forms\<close>

text \<open>The same value with its fields in key order, and its text without any sorting.\<close>

fun canon :: "json \<Rightarrow> json" where
  "canon (JArray xs) = JArray (map canon xs)"
| "canon (JObject fields) = JObject (sort_key fst (map (\<lambda>(key, v). (key, canon v)) fields))"
| "canon v = v"

fun print_json :: "json \<Rightarrow> string" where
  "print_json JNull = ''null''"
| "print_json (JBool b) = (if b then ''true'' else ''false'')"
| "print_json (JNumber i) = stringify_int i"
| "print_json (JString x) = stringify_string x"
| "print_json (JArray xs) = ''['' @ join '','' (map print_json xs) @ '']''"
| "print_json (JObject fields) =
     ''{'' @ join '','' (map (\<lambda>(key, v). stringify_string key @ '':'' @ print_json v) fields) @ ''}''"

lemma insort_map: "(\<And>x. fst (f x) = fst x) \<Longrightarrow> insort_key fst (f a) (map f xs) = map f (insort_key fst a xs)"
  by (induction xs) auto

lemma sort_map: "(\<And>x. fst (f x) = fst x) \<Longrightarrow> sort_key fst (map f xs) = map f (sort_key fst xs)"
  by (induction xs) (auto simp: insort_map)

lemma stableStringify_print: "stableStringify v = print_json (canon v)"
proof (induction v)
  case (JObject fields)
  have "sort_key fst (map (\<lambda>(key, v). (key, stableStringify v)) fields) =
      map (\<lambda>(key, v). (key, print_json v)) (sort_key fst (map (\<lambda>(key, v). (key, canon v)) fields))"
    by (subst sort_map [symmetric]) (use JObject in \<open>auto intro!: arg_cong [where f = "sort_key fst"]\<close>)
  then show ?case by (simp add: comp_def case_prod_beta split_def)
qed (simp_all cong: map_cong)

section \<open>The text does not depend on the order of the fields\<close>

text \<open>Equal up to the order of fields, at every depth.\<close>

inductive same_json :: "json \<Rightarrow> json \<Rightarrow> bool" where
  same: "same_json v v"
| arrays: "list_all2 same_json xs ys \<Longrightarrow> same_json (JArray xs) (JArray ys)"
| objects: "map fst fields = map fst gs \<Longrightarrow> list_all2 (\<lambda>p q. same_json (snd p) (snd q)) fields gs \<Longrightarrow>
    mset gs = mset hs \<Longrightarrow>
    distinct (map fst fields) \<Longrightarrow> same_json (JObject fields) (JObject hs)"

lemma sort_unique_keys:
  assumes "mset gs = mset hs" "distinct (map fst gs)"
  shows "sort_key fst gs = sort_key fst hs"
  using assms by (intro sort_key_eq_sort_key) (auto simp: distinct_map)

lemma map_fields:
  assumes "list_all2 (\<lambda>p q. canon (snd p) = canon (snd q)) fields gs" "map fst fields = map fst gs"
  shows "map (\<lambda>(k, v). (k, canon v)) fields = map (\<lambda>(k, v). (k, canon v)) gs"
  using assms by (induction rule: list_all2_induct) auto

lemma same_json_canon: "same_json v w \<Longrightarrow> canon v = canon w"
proof (induction rule: same_json.induct)
  case (arrays xs ys)
  then show ?case by (auto simp: list_all2_conv_all_nth intro: nth_equalityI)
next
  case (objects fields gs hs)
  from objects.IH have "list_all2 (\<lambda>p q. canon (snd p) = canon (snd q)) fields gs"
    by (rule list_all2_mono) simp
  with objects.hyps(1) have gs: "map (\<lambda>(k, v). (k, canon v)) fields = map (\<lambda>(k, v). (k, canon v)) gs"
    by (intro map_fields)
  have "sort_key fst (map (\<lambda>(k, v). (k, canon v)) gs) = sort_key fst (map (\<lambda>(k, v). (k, canon v)) hs)"
    by (rule sort_unique_keys) (use objects.hyps in \<open>auto simp: comp_def case_prod_beta\<close>)
  with gs show ?case by simp
qed simp

section \<open>The text determines the value\<close>

text \<open>What may follow a value inside a larger text: nothing, a comma or a closing bracket.\<close>

definition ends_value :: "string \<Rightarrow> bool" where
  "ends_value r \<longleftrightarrow> (case r of [] \<Rightarrow> True | c # _ \<Rightarrow> c \<in> {CHR '','', CHR '']'', CHR ''}''})"

text \<open>Reading one escaped character back.\<close>

definition hex_value :: "char \<Rightarrow> nat" where
  "hex_value c = (let n = of_char c in if n < 58 then n - 48 else n - 87)"

fun read_escape :: "string \<Rightarrow> (char \<times> string) option" where
  "read_escape [] = None"
| "read_escape (a # r) =
     (if a \<noteq> CHR 0x5C then Some (a, r) else case r of
        [] \<Rightarrow> None
      | b # q \<Rightarrow>
          if b = CHR ''b'' then Some (char_of (8 :: nat), q)
          else if b = CHR ''t'' then Some (char_of (9 :: nat), q)
          else if b = CHR ''n'' then Some (char_of (10 :: nat), q)
          else if b = CHR ''f'' then Some (char_of (12 :: nat), q)
          else if b = CHR ''r'' then Some (char_of (13 :: nat), q)
          else if b = CHR ''u'' then
            Some (char_of (16 * hex_value (q ! 2) + hex_value (q ! 3)), drop 4 q)
          else Some (b, q))"

lemma hex_value_digit: "k < 16 \<Longrightarrow> hex_value (hex_digit k) = k"
  by (auto simp: hex_value_def hex_digit_def Let_def)

lemma char_code: "of_char c = n \<Longrightarrow> n < 256 \<Longrightarrow> c = char_of (n :: nat)"
  by auto

lemma read_escape_char: "read_escape (escape_char c @ x) = Some (c, x)"
proof -
  define n where "n = (of_char c :: nat)"
  have c: "c = char_of n" by (simp add: n_def)
  have q: "CHR 0x22 = char_of (34 :: nat)" "CHR 0x5C = char_of (92 :: nat)" by (code_simp, code_simp)
  consider "n \<in> {34, 92, 8, 9, 10, 12, 13}" | "n \<notin> {34, 92, 8, 9, 10, 12, 13}" "n < 32"
    | "n \<notin> {34, 92, 8, 9, 10, 12, 13}" "\<not> n < 32" by blast
  then show ?thesis
  proof cases
    case 1
    then show ?thesis by (elim insertE emptyE) (simp_all add: escape_char_def Let_def flip: n_def, simp_all add: c q)
  next
    case 2
    then have "16 * hex_value (hex_digit (n div 16)) + hex_value (hex_digit (n mod 16)) = n"
      by (simp add: hex_value_digit)
    with 2 show ?thesis by (simp add: escape_char_def Let_def flip: n_def) (simp add: c)
  next
    case 3
    then have "c \<noteq> CHR 0x5C" by (auto simp: n_def)
    with 3 show ?thesis by (simp add: escape_char_def Let_def flip: n_def)
  qed
qed

lemma escape_cancel: "escape_char c @ x = escape_char d @ y \<Longrightarrow> c = d \<and> x = y"
  by (metis read_escape_char option.inject prod.inject)

lemma escape_no_quote: "escape_char c @ x \<noteq> CHR 0x22 # y"
proof
  assume eq: "escape_char c @ x = CHR 0x22 # y"
  then have "read_escape (CHR 0x22 # y) = Some (c, x)" by (metis read_escape_char)
  then have "c = CHR 0x22" by simp
  moreover have "escape_char (CHR 0x22) = [CHR 0x5C, CHR 0x22]" by (simp add: escape_char_def)
  ultimately show False using eq by simp
qed

lemma escaped_cancel:
  "concat (map escape_char x) @ CHR 0x22 # r = concat (map escape_char y) @ CHR 0x22 # q \<Longrightarrow> x = y \<and> r = q"
proof (induction x arbitrary: y)
  case Nil
  then show ?case by (cases y) (auto simp: escape_no_quote [symmetric] dest: sym [THEN escape_no_quote [THEN notE]])
next
  case (Cons c x)
  show ?case
  proof (cases y)
    case Nil
    with Cons.prems show ?thesis by (simp add: escape_no_quote)
  next
    case (Cons d y')
    with Cons.prems have "escape_char c @ (concat (map escape_char x) @ CHR 0x22 # r) =
        escape_char d @ (concat (map escape_char y') @ CHR 0x22 # q)" by simp
    from escape_cancel [OF this] Cons.IH Cons show ?thesis by simp
  qed
qed

lemma string_cancel: "stringify_string x @ r = stringify_string y @ q \<Longrightarrow> x = y \<and> r = q"
  using escaped_cancel [of x r y q] by (simp add: stringify_string_def)

lemma ends_value_simps [simp]:
  "ends_value []" "ends_value (CHR '','' # r)" "ends_value (CHR '']'' # r)" "ends_value (CHR ''}'' # r)"
  by (simp_all add: ends_value_def)

text \<open>Digits: a number's text is read up to the first character that is none.\<close>

definition is_digit :: "char \<Rightarrow> bool" where
  "is_digit c \<longleftrightarrow> 48 \<le> (of_char c :: nat) \<and> (of_char c :: nat) \<le> 57"

definition digits_value :: "string \<Rightarrow> nat" where
  "digits_value x = foldl (\<lambda>n c. 10 * n + (of_char c - 48)) 0 x"

declare stringify_nat.simps [simp del]

lemma stringify_nat_digits: "(\<forall>c\<in>set (stringify_nat n). is_digit c) \<and> digits_value (stringify_nat n) = n \<and> stringify_nat n \<noteq> []"
proof (induction n rule: stringify_nat.induct)
  case (1 n)
  have code: "k < 10 \<Longrightarrow> of_char (digit k) = 48 + k" for k :: nat by (simp add: digit_def)
  show ?case
  proof (cases "n < 10")
    case True
    then show ?thesis using code [of n] by (simp add: stringify_nat.simps [of n] is_digit_def digits_value_def)
  next
    case False
    with 1 have IH: "\<forall>c\<in>set (stringify_nat (n div 10)). is_digit c" "digits_value (stringify_nat (n div 10)) = n div 10"
      by simp_all
    then show ?thesis using False code [of "n mod 10"]
      by (auto simp: stringify_nat.simps [of n] is_digit_def digits_value_def)
  qed
qed

lemma digits_cancel:
  assumes "stringify_nat m @ r = stringify_nat n @ q" "ends_value r" "ends_value q"
  shows "m = n \<and> r = q"
proof -
  have stop: "takeWhile is_digit (stringify_nat k @ t) = stringify_nat k" if "ends_value t" for k t
    using that stringify_nat_digits [of k]
    by (cases t) (auto simp: takeWhile_append2 ends_value_def is_digit_def)
  from stop [OF assms(2), of m] stop [OF assms(3), of n] assms(1)
  have "stringify_nat m = stringify_nat n" by simp
  with assms(1) show ?thesis by (metis stringify_nat_digits same_append_eq)
qed

lemma int_cancel:
  assumes eq: "stringify_int i @ r = stringify_int j @ q" and ends: "ends_value r" "ends_value q"
  shows "i = j \<and> r = q"
proof -
  have sign: "stringify_nat k @ t \<noteq> CHR ''-'' # u" for k t u
    using stringify_nat_digits [of k] by (cases "stringify_nat k") (auto simp: is_digit_def)
  consider "i < 0" "j < 0" | "i < 0" "\<not> j < 0" | "\<not> i < 0" "j < 0" | "\<not> i < 0" "\<not> j < 0" by blast
  then show ?thesis
  proof cases
    case 1
    with eq have "stringify_nat (nat (- i)) @ r = stringify_nat (nat (- j)) @ q" by (simp add: stringify_int_def)
    from digits_cancel [OF this ends] 1 show ?thesis by (simp add: eq_nat_nat_iff)
  next
    case 2
    with eq sign show ?thesis by (simp add: stringify_int_def) metis
  next
    case 3
    with eq sign show ?thesis by (simp add: stringify_int_def)
  next
    case 4
    with eq have "stringify_nat (nat i) @ r = stringify_nat (nat j) @ q" by (simp add: stringify_int_def)
    from digits_cancel [OF this ends] 4 show ?thesis by (simp add: eq_nat_nat_iff)
  qed
qed

text \<open>Where a value's text starts tells which kind of value it is.\<close>

definition cancels :: "('a \<Rightarrow> string) \<Rightarrow> 'a \<Rightarrow> bool" where
  "cancels f x \<longleftrightarrow> (\<forall>y r q. ends_value r \<longrightarrow> ends_value q \<longrightarrow> f x @ r = f y @ q \<longrightarrow> x = y \<and> r = q)"

lemma cancelsD:
  "cancels f x \<Longrightarrow> f x @ r = f y @ q \<Longrightarrow> ends_value r \<Longrightarrow> ends_value q \<Longrightarrow> x = y \<and> r = q"
  by (simp add: cancels_def)

definition rest :: "('a \<Rightarrow> string) \<Rightarrow> 'a list \<Rightarrow> string" where
  "rest f xs = concat (map (\<lambda>x. CHR '','' # f x) xs)"

lemma join_rest: "join '','' (map f (x # xs)) = f x @ rest f xs"
  by (induction xs arbitrary: x) (simp_all add: rest_def)

lemma rest_cancel:
  assumes "\<And>x. x \<in> set xs \<Longrightarrow> cancels f x" "c \<in> {CHR '']'', CHR ''}''}"
  shows "rest f xs @ c # r = rest f ys @ c # q \<Longrightarrow> xs = ys \<and> r = q"
  using assms(1)
proof (induction xs arbitrary: ys)
  case Nil
  then show ?case using assms(2) by (cases ys) (auto simp: rest_def)
next
  case (Cons x xs)
  show ?case
  proof (cases ys)
    case Nil
    with Cons.prems(1) assms(2) show ?thesis by (auto simp: rest_def)
  next
    case (Cons y ys')
    with Cons.prems(1) have eq: "f x @ (rest f xs @ c # r) = f y @ (rest f ys' @ c # q)"
      by (simp add: rest_def)
    have ends: "ends_value (rest f zs @ c # t)" for zs t
      using assms(2) by (cases zs) (auto simp: rest_def)
    from Cons.prems(2) have "cancels f x" by simp
    from cancelsD [OF this eq ends ends] have "x = y" "rest f xs @ c # r = rest f ys' @ c # q" by simp_all
    with Cons.IH Cons.prems(2) Cons show ?thesis by simp
  qed
qed

lemma list_cancel:
  assumes "\<And>x. x \<in> set xs \<Longrightarrow> cancels f x" "c \<in> {CHR '']'', CHR ''}''}" "\<And>x t. f x \<noteq> c # t \<and> f x \<noteq> []"
    "join '','' (map f xs) @ c # r = join '','' (map f ys) @ c # q"
  shows "xs = ys \<and> r = q"
proof (cases xs; cases ys)
  fix x xs' y ys'
  assume lists: "xs = x # xs'" "ys = y # ys'"
  with assms(4) have eq: "f x @ (rest f xs' @ c # r) = f y @ (rest f ys' @ c # q)"
    by (simp only: join_rest append_assoc)
  have ends: "ends_value (rest f zs @ c # t)" for zs t
    using assms(2) by (cases zs) (auto simp: rest_def)
  have "cancels f x" using assms(1) lists by simp
  from cancelsD [OF this eq ends ends] have "x = y" "rest f xs' @ c # r = rest f ys' @ c # q" by simp_all
  with rest_cancel [OF _ assms(2)] assms(1) lists show ?thesis by (metis list.set_intros(2))
next
  fix y ys' assume "xs = []" "ys = y # ys'"
  with assms(4) have "c # r = f y @ (rest f ys' @ c # q)" by (simp only: join_rest append_assoc list.simps(8) join.simps append_Nil)
  then show ?thesis using assms(3) [of y] by (cases "f y") auto
next
  fix x xs' assume "xs = x # xs'" "ys = []"
  with assms(4) have "c # q = f x @ (rest f xs' @ c # r)" by (simp only: join_rest append_assoc list.simps(8) join.simps append_Nil)
  then show ?thesis using assms(3) [of x] by (cases "f x") auto
next
  assume "xs = []" "ys = []"
  then show ?thesis using assms(4) by simp
qed

lemma int_head: "\<exists>a t. stringify_int i = a # t \<and> (is_digit a \<or> a = CHR ''-'')"
proof -
  have "\<exists>a t. stringify_nat n = a # t \<and> is_digit a" for n
    using stringify_nat_digits [of n] by (cases "stringify_nat n") auto
  from this [of "nat i"] show ?thesis by (auto simp: stringify_int_def)
qed

lemma print_head: "\<exists>a t. print_json v = a # t \<and> a \<notin> {CHR '']'', CHR ''}''}"
proof (cases v)
  case (JNumber i)
  then show ?thesis using int_head [of i] by (auto simp: is_digit_def)
qed (auto simp: stringify_string_def)

definition print_field :: "string \<times> json \<Rightarrow> string" where
  "print_field p = stringify_string (fst p) @ '':'' @ print_json (snd p)"

lemma print_object: "print_json (JObject fields) = ''{'' @ join '','' (map print_field fields) @ ''}''"
  by (simp add: print_field_def [abs_def] case_prod_unfold)

lemma field_cancels: "cancels print_json (snd p) \<Longrightarrow> cancels print_field p"
  unfolding cancels_def print_field_def using string_cancel
  by (metis (no_types, lifting) append_assoc append_Cons list.inject prod.collapse append_Nil)

lemma print_cancels: "cancels print_json v"
proof (induction v)
  case (JNumber i)
  show ?case unfolding cancels_def
  proof (intro allI impI)
    fix y r q assume ends: "ends_value r" "ends_value q" and eq: "print_json (JNumber i) @ r = print_json y @ q"
    show "JNumber i = y \<and> r = q"
    proof (cases y)
      case (JNumber j)
      with eq int_cancel [OF _ ends] show ?thesis by simp
    qed (use eq int_head [of i] in \<open>auto simp: is_digit_def stringify_string_def split: if_splits\<close>)
  qed
next
  case (JString x)
  show ?case unfolding cancels_def
  proof (intro allI impI)
    fix y r q assume eq: "print_json (JString x) @ r = print_json y @ q"
    show "JString x = y \<and> r = q"
    proof (cases y)
      case (JNumber j)
      with eq int_head [of j] show ?thesis by (auto simp: is_digit_def stringify_string_def)
    qed (use eq string_cancel [of x r _ q] in \<open>auto simp: stringify_string_def split: if_splits\<close>)
  qed
next
  case (JArray xs)
  show ?case unfolding cancels_def
  proof (intro allI impI)
    fix y r q assume eq: "print_json (JArray xs) @ r = print_json y @ q"
    show "JArray xs = y \<and> r = q"
    proof (cases y)
      case (JArray ys)
      have head: "print_json z \<noteq> CHR '']'' # t \<and> print_json z \<noteq> []" for z t using print_head [of z] by auto
      from eq JArray list_cancel [OF JArray.IH _ head] show ?thesis by simp
    next
      case (JNumber j)
      with eq int_head [of j] show ?thesis by (auto simp: is_digit_def)
    qed (use eq in \<open>auto simp: stringify_string_def split: if_splits\<close>)
  qed
next
  case (JObject fields)
  show ?case unfolding cancels_def
  proof (intro allI impI)
    fix y r q assume eq: "print_json (JObject fields) @ r = print_json y @ q"
    show "JObject fields = y \<and> r = q"
    proof (cases y)
      case (JObject gs)
      have head: "print_field z \<noteq> CHR ''}'' # t \<and> print_field z \<noteq> []" for z t
        by (simp add: print_field_def stringify_string_def)
      have "cancels print_field p" if "p \<in> set fields" for p
        using JObject.IH that by (intro field_cancels) (metis prod.collapse snds.intros)
      from eq JObject list_cancel [OF this _ head] show ?thesis by (simp only: print_object) simp
    next
      case (JNumber j)
      with eq int_head [of j] show ?thesis by (auto simp: is_digit_def)
    qed (use eq in \<open>auto simp: stringify_string_def split: if_splits\<close>)
  qed
next
  case JNull
  have "JNull = y \<and> r = q" if eq: "print_json JNull @ r = print_json y @ q" for y r q
  proof (cases y)
    case (JNumber j)
    with eq int_head [of j] show ?thesis by (auto simp: is_digit_def)
  qed (use eq in \<open>auto simp: stringify_string_def split: if_splits\<close>)
  then show ?case by (simp add: cancels_def)
next
  case (JBool b)
  have "JBool b = y \<and> r = q" if eq: "print_json (JBool b) @ r = print_json y @ q" for y r q
  proof (cases y)
    case (JNumber j)
    with eq int_head [of j] show ?thesis by (auto simp: is_digit_def split: if_splits)
  qed (use eq in \<open>auto simp: stringify_string_def split: if_splits\<close>)
  then show ?case by (simp only: cancels_def) blast
qed

lemma stableStringify_canon_inject: "stableStringify v = stableStringify w \<Longrightarrow> canon v = canon w"
  using cancelsD [OF print_cancels, of "canon v" "[]" "canon w" "[]"] by (simp add: stableStringify_print)

end
