(* ===== verification/Merkle_Proofs.thy ===== *)
theory Merkle_Proofs
  imports Canonical_Json
begin

text \<open>
  The Merkle tree over the liability leaves (\<open>solvency/solvency-proof.ts\<close>) and the check a customer's
  browser makes of a proof (\<open>apps/web/src/lib/solvency-proof.ts\<close>). The hash functions of ethers are
  parameters: what they promise is stated where it is used.
\<close>

section \<open>The hash functions\<close>

text \<open>
  \<open>keccak256(toUtf8Bytes(text))\<close>, \<open>keccak256(solidityPack(["bytes32", "bytes32"], [left, right]))\<close>
  and SHA-256 in hexadecimal.
\<close>

record hash_library =
  keccakText :: "string \<Rightarrow> string"
  keccakPair :: "string \<Rightarrow> string \<Rightarrow> string"
  sha256Hex :: "string \<Rightarrow> string"

definition hashMerklePair :: "hash_library \<Rightarrow> string \<Rightarrow> string \<Rightarrow> string" where
  "hashMerklePair lib left right = keccakPair lib left right"

section \<open>Leaves\<close>

record LiabilityLeafPayload =
  ll_version :: int
  ll_snapshotId :: string
  ll_assetId :: string
  ll_assetSymbol :: string
  ll_customerAccountId :: string
  ll_leafIndex :: nat
  ll_availableLiabilityAmount :: string
  ll_reservedLiabilityAmount :: string
  ll_vaultLiabilityAmount :: string
  ll_pendingVaultReleaseAmount :: string
  ll_pendingCreditAmount :: string
  ll_totalLiabilityAmount :: string

text \<open>The payload as the object it is in the code, its fields in the order they are written.\<close>

definition leaf_object :: "LiabilityLeafPayload \<Rightarrow> json" where
  "leaf_object p = JObject
     [(''version'', JNumber (ll_version p)),
      (''snapshotId'', JString (ll_snapshotId p)),
      (''assetId'', JString (ll_assetId p)),
      (''assetSymbol'', JString (ll_assetSymbol p)),
      (''customerAccountId'', JString (ll_customerAccountId p)),
      (''leafIndex'', JNumber (int (ll_leafIndex p))),
      (''availableLiabilityAmount'', JString (ll_availableLiabilityAmount p)),
      (''reservedLiabilityAmount'', JString (ll_reservedLiabilityAmount p)),
      (''vaultLiabilityAmount'', JString (ll_vaultLiabilityAmount p)),
      (''pendingVaultReleaseAmount'', JString (ll_pendingVaultReleaseAmount p)),
      (''pendingCreditAmount'', JString (ll_pendingCreditAmount p)),
      (''totalLiabilityAmount'', JString (ll_totalLiabilityAmount p))]"

definition buildSha256Checksum :: "hash_library \<Rightarrow> string \<Rightarrow> string" where
  "buildSha256Checksum lib text = sha256Hex lib text"

definition hashLiabilityLeaf :: "hash_library \<Rightarrow> LiabilityLeafPayload \<Rightarrow> string" where
  "hashLiabilityLeaf lib payload = keccakText lib (stableStringify (leaf_object payload))"

section \<open>Root and proofs\<close>

text \<open>One round: neighbours are paired, an odd last one with itself.\<close>

fun nextLevel :: "hash_library \<Rightarrow> string list \<Rightarrow> string list" where
  "nextLevel lib [] = []"
| "nextLevel lib [left] = [hashMerklePair lib left left]"
| "nextLevel lib (left # right # level) = hashMerklePair lib left right # nextLevel lib level"

lemma length_nextLevel: "length (nextLevel lib xs) = (length xs + 1) div 2"
  by (induction lib xs rule: nextLevel.induct) auto

function merkle_levels :: "hash_library \<Rightarrow> string list \<Rightarrow> string list" where
  "merkle_levels lib level = (if length level > 1 then merkle_levels lib (nextLevel lib level) else level)"
  by pat_completeness auto
termination
  by (relation "measure (\<lambda>(lib, level). length level)") (auto simp: length_nextLevel)

declare merkle_levels.simps [simp del]

definition buildMerkleRoot :: "hash_library \<Rightarrow> string list \<Rightarrow> string option" where
  "buildMerkleRoot lib leafHashes =
     (if leafHashes = [] then None
      else case merkle_levels lib leafHashes of [] \<Rightarrow> None | root # _ \<Rightarrow> Some root)"

text \<open>\<open>level[siblingIndex] ?? level[index]\<close>\<close>

definition sibling :: "string list \<Rightarrow> nat \<Rightarrow> string" where
  "sibling level index =
     (let siblingIndex = (if index mod 2 = 0 then index + 1 else index - 1) in
      if siblingIndex < length level then level ! siblingIndex else level ! index)"

function proof_path :: "hash_library \<Rightarrow> string list \<Rightarrow> nat \<Rightarrow> string list" where
  "proof_path lib level index =
     (if length level > 1 then sibling level index # proof_path lib (nextLevel lib level) (index div 2) else [])"
  by pat_completeness auto
termination
  by (relation "measure (\<lambda>(lib, level, index). length level)") (auto simp: length_nextLevel)

declare proof_path.simps [simp del]

lemma single_level [simp]: "merkle_levels lib [leaf] = [leaf]" "proof_path lib [leaf] index = []"
  by (simp_all add: merkle_levels.simps proof_path.simps)

definition buildMerkleProof :: "hash_library \<Rightarrow> string list \<Rightarrow> int \<Rightarrow> string list" where
  "buildMerkleProof lib leafHashes leafIndex =
     (if leafHashes = [] \<or> leafIndex < 0 \<or> leafIndex \<ge> int (length leafHashes) then []
      else proof_path lib leafHashes (nat leafIndex))"

section \<open>The browser's check\<close>

fun climb :: "hash_library \<Rightarrow> string \<Rightarrow> nat \<Rightarrow> string list \<Rightarrow> string" where
  "climb lib currentHash currentIndex [] = currentHash"
| "climb lib currentHash currentIndex (siblingHash # siblings) =
     climb lib (if currentIndex mod 2 = 0 then hashMerklePair lib currentHash siblingHash
                else hashMerklePair lib siblingHash currentHash) (currentIndex div 2) siblings"

record LiabilityProofInput =
  pi_payload :: LiabilityLeafPayload
  pi_leafHash :: string
  pi_rootHash :: string
  pi_proof :: "string list"
  pi_leafIndex :: nat

record LiabilityProofVerdict =
  computedLeafHash :: string
  computedRootHash :: string
  isLeafHashValid :: bool
  isRootValid :: bool

definition verifyLiabilityProof :: "hash_library \<Rightarrow> LiabilityProofInput \<Rightarrow> LiabilityProofVerdict" where
  "verifyLiabilityProof lib input =
     (let leaf = hashLiabilityLeaf lib (pi_payload input);
          root = climb lib leaf (pi_leafIndex input) (pi_proof input) in
      \<lparr>computedLeafHash = leaf, computedRootHash = root,
       isLeafHashValid = (toLowerCase leaf = toLowerCase (pi_leafHash input)),
       isRootValid = (toLowerCase root = toLowerCase (pi_rootHash input))\<rparr>)"

section \<open>Proofs lead to the root\<close>

lemma nextLevel_nth:
  "i < length xs \<Longrightarrow> nextLevel lib xs ! (i div 2) =
     (if i mod 2 = 0 then hashMerklePair lib (xs ! i) (sibling xs i) else hashMerklePair lib (sibling xs i) (xs ! i))"
proof (induction lib xs arbitrary: i rule: nextLevel.induct)
  case (3 lib left right level)
  show ?case
  proof (cases "i < 2")
    case True
    then have "i = 0 \<or> i = 1" by auto
    then show ?thesis by (auto simp: sibling_def)
  next
    case False
    then obtain k where k: "i = k + 2" by (metis add.commute le_Suc_ex not_less)
    then have "sibling (left # right # level) i = sibling level k"
      using "3.prems" by (cases k) (auto simp: sibling_def Let_def)
    with 3 k show ?thesis by simp
  qed
qed (auto simp: sibling_def)

lemma levels_climb: "i < length xs \<Longrightarrow> merkle_levels lib xs = [climb lib (xs ! i) i (proof_path lib xs i)]"
proof (induction lib xs i rule: proof_path.induct)
  case (1 lib level index)
  show ?case
  proof (cases "length level > 1")
    case True
    have "index div 2 < length (nextLevel lib level)" using "1.prems" by (simp add: length_nextLevel)
    from "1.IH" [OF True this] show ?thesis
      using True nextLevel_nth [OF "1.prems", of lib]
      by (simp add: merkle_levels.simps [of lib level] proof_path.simps [of lib level index])
  next
    case False
    with "1.prems" obtain a where one: "level = [a]" "index = 0" by (cases level) auto
    show ?thesis unfolding one by simp
  qed
qed

lemma proof_leads_to_root:
  "i < length leaves \<Longrightarrow>
     buildMerkleRoot lib leaves = Some (climb lib (leaves ! i) i (buildMerkleProof lib leaves (int i)))"
  using levels_climb [of i leaves lib] by (auto simp: buildMerkleRoot_def buildMerkleProof_def)

section \<open>The length of a proof\<close>

text \<open>The number of rounds: the least \<open>k\<close> with at most \<open>2 ^ k\<close> leaves.\<close>

lemma path_length:
  "xs \<noteq> [] \<Longrightarrow> length xs \<le> 2 ^ length (proof_path lib xs i) \<and>
     (proof_path lib xs i \<noteq> [] \<longrightarrow> 2 ^ (length (proof_path lib xs i) - 1) < length xs)"
proof (induction lib xs i rule: proof_path.induct)
  case (1 lib level index)
  show ?case
  proof (cases "length level > 1")
    case True
    let ?next = "nextLevel lib level"
    let ?rest = "proof_path lib ?next (index div 2)"
    have len: "length ?next = (length level + 1) div 2" by (rule length_nextLevel)
    with True have "?next \<noteq> []" by auto
    from "1.IH" [OF True this] have IH: "length ?next \<le> 2 ^ length ?rest"
      "?rest \<noteq> [] \<longrightarrow> 2 ^ (length ?rest - 1) < length ?next" by blast+
    have path: "proof_path lib level index = sibling level index # ?rest"
      using True by (simp add: proof_path.simps [of lib level index])
    have "length level \<le> 2 * 2 ^ length ?rest" using IH(1) len by linarith
    moreover have "2 ^ length ?rest < length level"
    proof (cases ?rest)
      case Nil
      then show ?thesis using True by simp
    next
      case (Cons a as)
      then have "2 ^ length as < (length level + 1) div 2" using IH(2) len by simp
      then have "2 * 2 ^ length as < length level" by linarith
      then show ?thesis using Cons by simp
    qed
    ultimately show ?thesis using path by simp
  next
    case False
    with "1.prems" have "length level = 1" by (cases level) auto
    then show ?thesis by (simp add: proof_path.simps [of lib level index])
  qed
qed

section \<open>The payload is determined by its canonical text\<close>

lemma leaf_object_inject: "canon (leaf_object p) = canon (leaf_object q) \<Longrightarrow> p = q"
proof -
  define fields where "fields r = (case leaf_object r of JObject fs \<Rightarrow> map (\<lambda>(k, v). (k, canon v)) fs)" for r
  assume "canon (leaf_object p) = canon (leaf_object q)"
  then have "sort_key fst (fields p) = sort_key fst (fields q)" by (simp add: fields_def leaf_object_def)
  then have "set (fields p) = set (fields q)" by (metis set_sort)
  then have "\<forall>x\<in>set (fields p). x \<in> set (fields q)" by blast
  then show "p = q" by (simp add: fields_def leaf_object_def)
qed

end
