(* ===== verification/Liability_Snapshot.thy ===== *)
theory Liability_Snapshot
  imports Merkle_Proofs Ledger_Tables "HOL-Library.AList"
begin

text \<open>
  The liability side of a solvency snapshot (\<open>solvency/solvency.service.ts\<close>): what the
  ledger says the bank owes per asset, what the customer projections say, and the leaf of every
  customer the Merkle tree is built over. The queries see the tables as lists in the order the
  database returns them. \<open>Prisma.Decimal\<close>'s rendering,
  ICU's collation and the words of the database client's errors are parameters.
\<close>

section \<open>The tables a snapshot reads\<close>

datatype RetirementVaultReleaseRequestStatus =
    requested
  | review_required
  | approved
  | cooldown_active
  | ready_for_release
  | executing
  | rejected
  | released
  | cancelled
  | failed

record retirement_vault_release_request =
  vr_retirementVaultId :: string
  vr_status :: RetirementVaultReleaseRequestStatus
  vr_requestedAmount :: decimal

datatype LedgerReconciliationMismatchSeverity = warning | critical

datatype LedgerReconciliationMismatchStatus = "open" | resolved | dismissed

record ledger_reconciliation_mismatch =
  lm_chainId :: nat
  lm_assetId :: "string option"
  lm_severity :: LedgerReconciliationMismatchSeverity
  lm_status :: LedgerReconciliationMismatchStatus

datatype AssetType = native | erc20

record AssetRecord = asset +
  as_displayName :: string
  as_decimals :: nat
  as_assetType :: AssetType
  as_contractAddress :: "string option"

record liability_tables =
  lt_ledgerAccounts :: "ledger_account list"
  lt_ledgerPostings :: "ledger_posting list"
  lt_customerAssetBalances :: "((string \<times> string) \<times> customer_asset_balance) list"
  lt_retirementVaults :: "(string \<times> retirement_vault) list"
  lt_releaseRequests :: "retirement_vault_release_request list"
  lt_mismatches :: "ledger_reconciliation_mismatch list"

record solvency_library =
  hashes :: hash_library
  decimalText :: "decimal \<Rightarrow> string"
  collationKey :: "string \<Rightarrow> string"
  databaseError :: "error \<Rightarrow> string \<times> string"

section \<open>Maps in insertion order\<close>

text \<open>
  A JavaScript \<open>Map\<close> is an association list whose order is that of first insertion, as
  \<^const>\<open>AList.update\<close> keeps it. \<open>enter\<close> is the idiom
  \<open>const e = m.get(k) ?? fresh; ...change e...; m.set(k, e)\<close>, \<open>amend\<close> is
  \<open>const e = m.get(k); if (!e) continue; ...change e...\<close>.
\<close>

definition enter :: "'k \<Rightarrow> 'v \<Rightarrow> ('v \<Rightarrow> 'v) \<Rightarrow> ('k \<times> 'v) list \<Rightarrow> ('k \<times> 'v) list" where
  "enter k fresh change m =
     AList.update k (change (case map_of m k of Some e \<Rightarrow> e | None \<Rightarrow> fresh)) m"

definition amend :: "'k \<Rightarrow> ('v \<Rightarrow> 'v) \<Rightarrow> ('k \<times> 'v) list \<Rightarrow> ('k \<times> 'v) list" where
  "amend k change m =
     (case map_of m k of None \<Rightarrow> m | Some e \<Rightarrow> AList.update k (change e) m)"

section \<open>Open mismatches\<close>

text \<open>\<open>groupBy\<close> by asset and severity, then summed per asset: the open and the critical ones.\<close>

definition listOpenReconciliationMismatchCounts ::
  "nat \<Rightarrow> liability_tables \<Rightarrow> string \<Rightarrow> nat \<times> nat" where
  "listOpenReconciliationMismatchCounts productChainId q assetId =
     (let found = filter (\<lambda>m. lm_chainId m = productChainId \<and> lm_status m = LedgerReconciliationMismatchStatus.open \<and>
            lm_assetId m = Some assetId) (lt_mismatches q) in
      (length found,
       length (filter (\<lambda>m. lm_severity m = LedgerReconciliationMismatchSeverity.critical) found)))"

section \<open>Liabilities by asset\<close>

definition activeVaultReleaseStatuses :: "RetirementVaultReleaseRequestStatus list" where
  "activeVaultReleaseStatuses =
     [RetirementVaultReleaseRequestStatus.requested, RetirementVaultReleaseRequestStatus.review_required,
      RetirementVaultReleaseRequestStatus.approved, cooldown_active, ready_for_release, executing]"

definition liabilityAccountTypes :: "ledger_account_type list" where
  "liabilityAccountTypes =
     [customer_asset_liability, customer_asset_pending_withdrawal_liability, customer_retirement_vault_liability]"

definition netAmount :: "ledger_posting list \<Rightarrow> ledger_account \<Rightarrow> decimal" where
  "netAmount postings account =
     foldl (\<lambda>current posting. if lp_direction posting = credit then current + lp_amount posting
                              else current - lp_amount posting)
       0 (filter (\<lambda>posting. lp_ledgerAccountId posting = la_id account) postings)"

record LiabilityAssetComputation =
  lac_asset :: AssetRecord
  lac_availableLiabilityAmount :: decimal
  lac_reservedLiabilityAmount :: decimal
  lac_vaultLiabilityAmount :: decimal
  lac_pendingVaultReleaseAmount :: decimal
  lac_pendingCreditAmount :: decimal
  lac_totalLiabilityAmount :: decimal
  lac_projectionAvailableAmount :: decimal
  lac_projectionPendingAmount :: decimal
  lac_projectionVaultLockedAmount :: decimal
  lac_projectionMatchesLedger :: bool
  lac_openReconciliationMismatchCount :: nat
  lac_criticalReconciliationMismatchCount :: nat

definition createZeroLiabilityComputation :: "AssetRecord \<Rightarrow> LiabilityAssetComputation" where
  "createZeroLiabilityComputation a =
     \<lparr>lac_asset = a, lac_availableLiabilityAmount = 0, lac_reservedLiabilityAmount = 0,
      lac_vaultLiabilityAmount = 0, lac_pendingVaultReleaseAmount = 0, lac_pendingCreditAmount = 0,
      lac_totalLiabilityAmount = 0, lac_projectionAvailableAmount = 0, lac_projectionPendingAmount = 0,
      lac_projectionVaultLockedAmount = 0, lac_projectionMatchesLedger = True,
      lac_openReconciliationMismatchCount = 0, lac_criticalReconciliationMismatchCount = 0\<rparr>"

definition addAccount :: "ledger_posting list \<Rightarrow> ledger_account \<Rightarrow> LiabilityAssetComputation \<Rightarrow> LiabilityAssetComputation" where
  "addAccount postings account entry =
     (let net = netAmount postings account in
      if la_accountType account = customer_asset_pending_withdrawal_liability
      then entry\<lparr>lac_reservedLiabilityAmount := lac_reservedLiabilityAmount entry + net\<rparr>
      else if la_accountType account = customer_retirement_vault_liability
      then entry\<lparr>lac_vaultLiabilityAmount := lac_vaultLiabilityAmount entry + net\<rparr>
      else entry\<lparr>lac_availableLiabilityAmount := lac_availableLiabilityAmount entry + net\<rparr>)"

definition addBalance :: "customer_asset_balance \<Rightarrow> LiabilityAssetComputation \<Rightarrow> LiabilityAssetComputation" where
  "addBalance balance entry =
     entry\<lparr>lac_projectionAvailableAmount := lac_projectionAvailableAmount entry + cab_availableBalance balance,
           lac_projectionPendingAmount := lac_projectionPendingAmount entry + cab_pendingBalance balance\<rparr>"

definition addVault :: "retirement_vault \<Rightarrow> LiabilityAssetComputation \<Rightarrow> LiabilityAssetComputation" where
  "addVault vault entry =
     entry\<lparr>lac_projectionVaultLockedAmount := lac_projectionVaultLockedAmount entry + rv_lockedBalance vault\<rparr>"

definition addReleaseRequest :: "retirement_vault_release_request \<Rightarrow> LiabilityAssetComputation \<Rightarrow> LiabilityAssetComputation" where
  "addReleaseRequest request entry =
     entry\<lparr>lac_pendingVaultReleaseAmount := lac_pendingVaultReleaseAmount entry + vr_requestedAmount request\<rparr>"

definition closeEntry :: "LiabilityAssetComputation \<Rightarrow> LiabilityAssetComputation" where
  "closeEntry entry =
     entry\<lparr>lac_totalLiabilityAmount := lac_availableLiabilityAmount entry + lac_reservedLiabilityAmount entry +
             lac_vaultLiabilityAmount entry,
           lac_projectionMatchesLedger :=
             lac_projectionAvailableAmount entry = lac_availableLiabilityAmount entry \<and>
             lac_projectionPendingAmount entry = lac_reservedLiabilityAmount entry \<and>
             lac_projectionVaultLockedAmount entry = lac_vaultLiabilityAmount entry\<rparr>"

text \<open>The four queries; a request of a vault that is not among the assets asked for is not returned.\<close>

definition liabilityAccounts :: "nat \<Rightarrow> liability_tables \<Rightarrow> ledger_account list" where
  "liabilityAccounts productChainId q =
     filter (\<lambda>account. la_chainId account = productChainId \<and>
       la_accountType account \<in> set liabilityAccountTypes) (lt_ledgerAccounts q)"

definition vaultsOf :: "AssetRecord list \<Rightarrow> liability_tables \<Rightarrow> (string \<times> retirement_vault) list" where
  "vaultsOf assetList q = filter (\<lambda>(v, vault). rv_assetId vault \<in> as_id ` set assetList) (lt_retirementVaults q)"

definition activeReleaseRequests ::
  "AssetRecord list \<Rightarrow> liability_tables \<Rightarrow> (retirement_vault_release_request \<times> retirement_vault) list" where
  "activeReleaseRequests assetList q =
     List.map_filter (\<lambda>request.
       case map_of (lt_retirementVaults q) (vr_retirementVaultId request) of
         None \<Rightarrow> None
       | Some vault \<Rightarrow>
           if vr_status request \<in> set activeVaultReleaseStatuses \<and> rv_assetId vault \<in> as_id ` set assetList
           then Some (request, vault) else None) (lt_releaseRequests q)"

definition computeLiabilitiesByAsset ::
  "nat \<Rightarrow> liability_tables \<Rightarrow> AssetRecord list \<Rightarrow> (string \<Rightarrow> nat \<times> nat)
     \<Rightarrow> (string \<times> LiabilityAssetComputation) list" where
  "computeLiabilitiesByAsset productChainId q assetList mismatchCounts =
     (let byAsset = foldl (\<lambda>m a. AList.update (as_id a)
            ((createZeroLiabilityComputation a)
               \<lparr>lac_openReconciliationMismatchCount := fst (mismatchCounts (as_id a)),
                lac_criticalReconciliationMismatchCount := snd (mismatchCounts (as_id a))\<rparr>) m) [] assetList;
          byAsset = foldl (\<lambda>m account. amend (la_assetId account) (addAccount (lt_ledgerPostings q) account) m)
            byAsset (liabilityAccounts productChainId q);
          byAsset = foldl (\<lambda>m ((c, a), balance). amend a (addBalance balance) m)
            byAsset (lt_customerAssetBalances q);
          byAsset = foldl (\<lambda>m (v, vault). amend (rv_assetId vault) (addVault vault) m)
            byAsset (vaultsOf assetList q);
          byAsset = foldl (\<lambda>m (request, vault). amend (rv_assetId vault) (addReleaseRequest request) m)
            byAsset (activeReleaseRequests assetList q) in
      map (\<lambda>(a, entry). (a, closeEntry entry)) byAsset)"

section \<open>Leaves by asset\<close>

record LiabilityLeafComputation =
  lf_assetId :: string
  lf_customerAccountId :: string
  lf_availableLiabilityAmount :: decimal
  lf_reservedLiabilityAmount :: decimal
  lf_vaultLiabilityAmount :: decimal
  lf_pendingVaultReleaseAmount :: decimal
  lf_pendingCreditAmount :: decimal
  lf_totalLiabilityAmount :: decimal

definition compositeKey :: "string \<Rightarrow> string \<Rightarrow> string" where
  "compositeKey assetId customerAccountId = assetId @ '':'' @ customerAccountId"

definition emptyLeaf :: "string \<Rightarrow> string \<Rightarrow> LiabilityLeafComputation" where
  "emptyLeaf assetId customerAccountId =
     \<lparr>lf_assetId = assetId, lf_customerAccountId = customerAccountId, lf_availableLiabilityAmount = 0,
      lf_reservedLiabilityAmount = 0, lf_vaultLiabilityAmount = 0, lf_pendingVaultReleaseAmount = 0,
      lf_pendingCreditAmount = 0, lf_totalLiabilityAmount = 0\<rparr>"

definition totalLeaf :: "LiabilityLeafComputation \<Rightarrow> LiabilityLeafComputation" where
  "totalLeaf l = l\<lparr>lf_totalLiabilityAmount := lf_availableLiabilityAmount l + lf_reservedLiabilityAmount l +
     lf_vaultLiabilityAmount l\<rparr>"

definition leafAccount :: "ledger_posting list \<Rightarrow> ledger_account \<Rightarrow> LiabilityLeafComputation \<Rightarrow> LiabilityLeafComputation" where
  "leafAccount postings account existing =
     (let net = netAmount postings account in totalLeaf
       (if la_accountType account = customer_asset_pending_withdrawal_liability
        then existing\<lparr>lf_reservedLiabilityAmount := lf_reservedLiabilityAmount existing + net\<rparr>
        else if la_accountType account = customer_retirement_vault_liability
        then existing\<lparr>lf_vaultLiabilityAmount := lf_vaultLiabilityAmount existing + net\<rparr>
        else existing\<lparr>lf_availableLiabilityAmount := lf_availableLiabilityAmount existing + net\<rparr>))"

definition leafBalance :: "customer_asset_balance \<Rightarrow> LiabilityLeafComputation \<Rightarrow> LiabilityLeafComputation" where
  "leafBalance balance existing = totalLeaf (existing
     \<lparr>lf_availableLiabilityAmount := cab_availableBalance balance,
      lf_reservedLiabilityAmount := cab_pendingBalance balance\<rparr>)"

definition leafVault :: "retirement_vault \<Rightarrow> LiabilityLeafComputation \<Rightarrow> LiabilityLeafComputation" where
  "leafVault vault existing = totalLeaf (existing\<lparr>lf_vaultLiabilityAmount := rv_lockedBalance vault\<rparr>)"

definition leafReleaseRequest ::
  "retirement_vault_release_request \<Rightarrow> LiabilityLeafComputation \<Rightarrow> LiabilityLeafComputation" where
  "leafReleaseRequest request existing =
     existing\<lparr>lf_pendingVaultReleaseAmount := lf_pendingVaultReleaseAmount existing + vr_requestedAmount request\<rparr>"

definition enterLeaf ::
  "string \<Rightarrow> string \<Rightarrow> (LiabilityLeafComputation \<Rightarrow> LiabilityLeafComputation)
     \<Rightarrow> (string \<times> LiabilityLeafComputation) list \<Rightarrow> (string \<times> LiabilityLeafComputation) list" where
  "enterLeaf assetId customerAccountId change m =
     enter (compositeKey assetId customerAccountId) (emptyLeaf assetId customerAccountId) change m"

definition leavesByCompositeKey ::
  "nat \<Rightarrow> liability_tables \<Rightarrow> AssetRecord list \<Rightarrow> (string \<times> LiabilityLeafComputation) list" where
  "leavesByCompositeKey productChainId q assetList =
     (let m = foldl (\<lambda>m account. case la_customerAccountId account of
              None \<Rightarrow> m
            | Some c \<Rightarrow> enterLeaf (la_assetId account) c (leafAccount (lt_ledgerPostings q) account) m)
            [] (filter (\<lambda>account. la_customerAccountId account \<noteq> None) (liabilityAccounts productChainId q));
          m = foldl (\<lambda>m ((c, a), balance). enterLeaf a c (leafBalance balance) m)
            m (filter (\<lambda>((c, a), balance). a \<in> as_id ` set assetList) (lt_customerAssetBalances q));
          m = foldl (\<lambda>m (v, vault). enterLeaf (rv_assetId vault) (rv_customerAccountId vault) (leafVault vault) m)
            m (vaultsOf assetList q) in
      foldl (\<lambda>m (request, vault). enterLeaf (rv_assetId vault) (rv_customerAccountId vault)
              (leafReleaseRequest request) m)
        m (activeReleaseRequests assetList q))"

record LiabilityLeaf =
  lv_customerAccountId :: string
  lv_leafIndex :: nat
  lv_leafHash :: string
  lv_payload :: LiabilityLeafPayload
  lv_amounts :: LiabilityLeafComputation

definition orderedLeaves ::
  "solvency_library \<Rightarrow> string \<Rightarrow> AssetRecord \<Rightarrow> LiabilityLeafComputation list \<Rightarrow> LiabilityLeaf list" where
  "orderedLeaves lib snapshotId a entries =
     map (\<lambda>(leafIndex, entry).
       let payload = \<lparr>ll_version = 2, ll_snapshotId = snapshotId, ll_assetId = as_id a,
             ll_assetSymbol = as_symbol a, ll_customerAccountId = lf_customerAccountId entry,
             ll_leafIndex = leafIndex,
             ll_availableLiabilityAmount = decimalText lib (lf_availableLiabilityAmount entry),
             ll_reservedLiabilityAmount = decimalText lib (lf_reservedLiabilityAmount entry),
             ll_vaultLiabilityAmount = decimalText lib (lf_vaultLiabilityAmount entry),
             ll_pendingVaultReleaseAmount = decimalText lib (lf_pendingVaultReleaseAmount entry),
             ll_pendingCreditAmount = decimalText lib (lf_pendingCreditAmount entry),
             ll_totalLiabilityAmount = decimalText lib (lf_totalLiabilityAmount entry)\<rparr>
       in \<lparr>lv_customerAccountId = lf_customerAccountId entry, lv_leafIndex = leafIndex,
           lv_leafHash = hashLiabilityLeaf (hashes lib) payload, lv_payload = payload, lv_amounts = entry\<rparr>)
       (enumerate 0 (sort_key (\<lambda>entry. collationKey lib (lf_customerAccountId entry)) entries))"

record LiabilityProofAssetComputation =
  lpa_assetId :: string
  lpa_liabilityMerkleRoot :: "string option"
  lpa_liabilityLeafCount :: nat
  lpa_liabilitySetChecksumSha256 :: "string option"
  lpa_leaves :: "LiabilityLeaf list"

definition rawLeaves :: "nat \<Rightarrow> liability_tables \<Rightarrow> AssetRecord list \<Rightarrow> string \<Rightarrow> LiabilityLeafComputation list" where
  "rawLeaves productChainId q assetList assetId =
     filter (\<lambda>entry. \<not> lf_totalLiabilityAmount entry \<le> 0 \<and> lf_assetId entry = assetId)
       (map snd (leavesByCompositeKey productChainId q assetList))"

definition computeLiabilityLeavesByAsset ::
  "nat \<Rightarrow> solvency_library \<Rightarrow> liability_tables \<Rightarrow> string \<Rightarrow> AssetRecord list
     \<Rightarrow> (string \<times> LiabilityProofAssetComputation) list" where
  "computeLiabilityLeavesByAsset productChainId lib q snapshotId assetList =
     foldl (\<lambda>m a.
       let leaves = orderedLeaves lib snapshotId a (rawLeaves productChainId q assetList (as_id a));
           leafHashes = map lv_leafHash leaves
       in AList.update (as_id a)
            \<lparr>lpa_assetId = as_id a,
             lpa_liabilityMerkleRoot = buildMerkleRoot (hashes lib) leafHashes,
             lpa_liabilityLeafCount = length leaves,
             lpa_liabilitySetChecksumSha256 =
               (if length leaves > 0 then Some (buildSha256Checksum (hashes lib) (join [CHR 0x0A] leafHashes)) else None),
             lpa_leaves = leaves\<rparr> m) [] assetList"

end
