(* ===== verification/Solvency_Assessment.thy ===== *)
theory Solvency_Assessment
  imports Liability_Snapshot Solvency_Policy
begin

text \<open>
  The judgement of a solvency snapshot (\<open>solvency/solvency.service.ts\<close>): the reserves read
  from the chain, the issues of each asset, the policy they call for, the totals and the signed
  report. Free-form metadata that repeats other columns is left out; the chain client, the signer
  and the rendering of dates are parameters.
\<close>

section \<open>Enums\<close>

datatype WalletKind = embedded | external | treasury | operational | contract

datatype WalletCustodyType = platform_managed | customer_external | multisig_controlled | contract_controlled

datatype SolvencySnapshotStatus = healthy | warning | critical | failed

datatype SolvencyEvidenceFreshness = fresh | stale | missing | unknown

datatype SolvencyIssueClassification =
    healthy
  | informational_drift
  | stale_evidence
  | reconciliation_mismatch
  | reserve_shortfall
  | unknown_reserve_state
  | liability_computation_failure
  | critical_solvency_risk

datatype SolvencyIssueSeverity = info | warning | critical

datatype SolvencyReserveSourceType = treasury_wallet | operational_wallet | contract_wallet

section \<open>Configuration and the outside world\<close>

text \<open>The runtime configuration the constructor keeps; \<open>infrastructureDisabledReason\<close> is set when it could not be read.\<close>

record solvency_config =
  sc_productChainId :: nat
  sc_environment :: string
  evidenceStaleAfterSeconds :: nat
  warningReserveRatioBps :: int
  resumeRequestAllowedOperatorRoles :: "string list"
  resumeApproverAllowedOperatorRoles :: "string list"
  resumeApprovalTimelockSeconds :: int
  infrastructureDisabledReason :: "string option"

text \<open>A thrown JavaScript error: its name and message.\<close>

type_synonym js_error = "string \<times> string"

text \<open>The JSON-RPC provider: a balance in the asset's smallest unit, or the error of the read.\<close>

record rpc_provider =
  getBalance :: "string \<Rightarrow> js_error + nat"
  balanceOf :: "string \<Rightarrow> string \<Rightarrow> js_error + nat"

text \<open>The signer: the address of the key and its signature of a digest; \<open>Date.toISOString\<close>.\<close>

record report_signer =
  signerAddress :: string
  signDigest :: "string \<Rightarrow> string"
  toISOString :: "int \<Rightarrow> string"

section \<open>Reserve evidence\<close>

record reserve_wallet = wallet +
  wa_kind :: WalletKind
  wa_custodyType :: WalletCustodyType

definition mapReserveSourceType :: "WalletKind \<Rightarrow> SolvencyReserveSourceType" where
  "mapReserveSourceType kind =
     (if kind = operational then operational_wallet
      else if kind = contract then contract_wallet
      else treasury_wallet)"

text \<open>
  \<open>formatUnits(balance, decimals)\<close> in units of the decimal columns; tokens have at most 18
  decimals.
\<close>

definition formatUnits :: "nat \<Rightarrow> nat \<Rightarrow> decimal" where
  "formatUnits balance decimals = int balance * 10 ^ (18 - decimals)"

definition readWalletAssetBalance ::
  "solvency_config \<Rightarrow> rpc_provider option \<Rightarrow> reserve_wallet \<Rightarrow> AssetRecord \<Rightarrow> js_error + decimal" where
  "readWalletAssetBalance cfg provider w a =
     (case provider of
        None \<Rightarrow> Inl (''ServiceUnavailableException'', ''Solvency blockchain reads are unavailable: '' @
          (case infrastructureDisabledReason cfg of None \<Rightarrow> ''RPC provider is not configured'' | Some r \<Rightarrow> r) @ ''.'')
      | Some p \<Rightarrow>
          let read = (if as_assetType a = native then getBalance p (wa_address w)
                      else if \<not> truthy (as_contractAddress a)
                      then Inl (''Error'', ''ERC20 asset is missing a contract address.'')
                      else balanceOf p (the (as_contractAddress a)) (wa_address w))
          in case read of Inl e \<Rightarrow> Inl e | Inr balance \<Rightarrow> Inr (formatUnits balance (as_decimals a)))"

record ReserveEvidenceComputation =
  ev_assetId :: string
  ev_walletId :: string
  ev_reserveSourceType :: SolvencyReserveSourceType
  ev_walletAddress :: string
  ev_walletKind :: WalletKind
  ev_custodyType :: WalletCustodyType
  ev_evidenceFreshness :: SolvencyEvidenceFreshness
  ev_observedBalanceAmount :: "decimal option"
  ev_usableBalanceAmount :: "decimal option"
  ev_encumberedBalanceAmount :: decimal
  ev_excludedBalanceAmount :: decimal
  ev_observedAt :: "int option"
  ev_staleAfterSeconds :: nat
  ev_readErrorCode :: "string option"
  ev_readErrorMessage :: "string option"

definition EXECUTION_ENCUMBERED_STATUSES :: "TransactionIntentStatus list" where
  "EXECUTION_ENCUMBERED_STATUSES =
     [TransactionIntentStatus.approved, TransactionIntentStatus.queued,
      TransactionIntentStatus.broadcast, TransactionIntentStatus.confirmed]"

definition listReserveEncumbrances ::
  "solvency_config \<Rightarrow> transaction_intent list \<Rightarrow> string list \<Rightarrow> (string \<times> decimal) list" where
  "listReserveEncumbrances cfg intents walletIds =
     foldl (\<lambda>byKey intent. case ti_sourceWalletId intent of
              None \<Rightarrow> byKey
            | Some w \<Rightarrow> enter (w @ '':'' @ ti_assetId intent) 0 (\<lambda>x. x + ti_requestedAmount intent) byKey)
       [] (filter (\<lambda>intent. ti_chainId intent = sc_productChainId cfg \<and>
              ti_sourceWalletId intent \<in> Some ` set walletIds \<and>
              ti_status intent \<in> set EXECUTION_ENCUMBERED_STATUSES) intents)"

text \<open>The newest fresh evidence of a wallet and asset; evidence rows are kept in the order of creation.\<close>

definition previousEvidence ::
  "ReserveEvidenceComputation list \<Rightarrow> reserve_wallet \<Rightarrow> AssetRecord \<Rightarrow> ReserveEvidenceComputation option" where
  "previousEvidence rows w a =
     find (\<lambda>e. ev_walletId e = wa_id w \<and> ev_assetId e = as_id a \<and> ev_evidenceFreshness e = fresh) (rev rows)"

definition reserveEvidenceRow ::
  "solvency_config \<Rightarrow> rpc_provider option \<Rightarrow> int \<Rightarrow> (string \<times> decimal) list
     \<Rightarrow> ReserveEvidenceComputation list \<Rightarrow> AssetRecord \<Rightarrow> reserve_wallet \<Rightarrow> ReserveEvidenceComputation" where
  "reserveEvidenceRow cfg provider now encumberedByKey rows a w =
     (let encumbered = (case map_of encumberedByKey (wa_id w @ '':'' @ as_id a) of None \<Rightarrow> 0 | Some x \<Rightarrow> x);
          previous = previousEvidence rows w a;
          row = \<lparr>ev_assetId = as_id a, ev_walletId = wa_id w,
            ev_reserveSourceType = mapReserveSourceType (wa_kind w), ev_walletAddress = wa_address w,
            ev_walletKind = wa_kind w, ev_custodyType = wa_custodyType w,
            ev_evidenceFreshness = fresh, ev_observedBalanceAmount = None, ev_usableBalanceAmount = None,
            ev_encumberedBalanceAmount = encumbered, ev_excludedBalanceAmount = 0, ev_observedAt = None,
            ev_staleAfterSeconds = evidenceStaleAfterSeconds cfg, ev_readErrorCode = None,
            ev_readErrorMessage = None\<rparr> in
      case readWalletAssetBalance cfg provider w a of
        Inr observed \<Rightarrow> row
          \<lparr>ev_observedBalanceAmount := Some observed,
           ev_usableBalanceAmount := Some (max (observed - encumbered) 0),
           ev_observedAt := Some now\<rparr>
      | Inl (code, message) \<Rightarrow> row
          \<lparr>ev_evidenceFreshness := (if previous \<noteq> None then stale else missing),
           ev_observedAt := (case previous of None \<Rightarrow> None | Some p \<Rightarrow> ev_observedAt p),
           ev_readErrorCode := Some (if code = [] then ''solvency_snapshot_failed'' else code),
           ev_readErrorMessage := Some message\<rparr>)"

definition computeReserveEvidenceByAsset ::
  "solvency_config \<Rightarrow> rpc_provider option \<Rightarrow> int \<Rightarrow> transaction_intent list
     \<Rightarrow> ReserveEvidenceComputation list \<Rightarrow> AssetRecord list \<Rightarrow> reserve_wallet list
     \<Rightarrow> (string \<times> ReserveEvidenceComputation list) list" where
  "computeReserveEvidenceByAsset cfg provider now intents rows assetList reserveWallets =
     (if reserveWallets = [] then []
      else
        let encumberedByKey = listReserveEncumbrances cfg intents (map wa_id reserveWallets) in
        foldl (\<lambda>byAsset a. AList.update (as_id a)
            (map (reserveEvidenceRow cfg provider now encumberedByKey rows a) reserveWallets) byAsset)
          [] assetList)"

section \<open>Issues\<close>

record PersistedIssueInput =
  iss_assetId :: "string option"
  iss_classification :: SolvencyIssueClassification
  iss_severity :: SolvencyIssueSeverity
  iss_reasonCode :: string
  iss_summary :: string
  iss_description :: string
  iss_recommendedAction :: string

text \<open>Half-way cases are rounded away from zero (\<open>ROUND_HALF_UP\<close>).\<close>

definition round_half_up :: "int \<Rightarrow> int \<Rightarrow> int" where
  "round_half_up n d = sgn n * sgn d * ((2 * \<bar>n\<bar> + \<bar>d\<bar>) div (2 * \<bar>d\<bar>))"

definition computeReserveRatioBps :: "decimal \<Rightarrow> decimal \<Rightarrow> int option" where
  "computeReserveRatioBps usableReserveAmount liabilityAmount =
     (if liabilityAmount = 0 then (if usableReserveAmount = 0 then None else Some 100000)
      else Some (round_half_up (usableReserveAmount * 10000) liabilityAmount))"

definition mergeEvidenceFreshness :: "SolvencyEvidenceFreshness list \<Rightarrow> SolvencyEvidenceFreshness" where
  "mergeEvidenceFreshness values =
     (if values = [] then unknown
      else if missing \<in> set values then missing
      else if stale \<in> set values then stale
      else if (\<forall>v\<in>set values. v = fresh) then fresh
      else unknown)"

definition resolveStatusFromIssues :: "PersistedIssueInput list \<Rightarrow> SolvencySnapshotStatus" where
  "resolveStatusFromIssues issues =
     (if (\<exists>i\<in>set issues. iss_severity i = SolvencyIssueSeverity.critical) then SolvencySnapshotStatus.critical
      else if (\<exists>i\<in>set issues. iss_severity i = SolvencyIssueSeverity.warning) then SolvencySnapshotStatus.warning
      else SolvencySnapshotStatus.healthy)"

text \<open>Sums of nullable amounts, \<open>null\<close> as zero.\<close>

definition sum_amounts :: "('a \<Rightarrow> decimal option) \<Rightarrow> 'a list \<Rightarrow> decimal" where
  "sum_amounts f items = foldl (\<lambda>current item. current + (case f item of None \<Rightarrow> 0 | Some x \<Rightarrow> x)) 0 items"

definition projectionIssues :: "AssetRecord \<Rightarrow> LiabilityAssetComputation \<Rightarrow> PersistedIssueInput list" where
  "projectionIssues a l =
     (if \<not> lac_projectionMatchesLedger l then
       [\<lparr>iss_assetId = Some (as_id a), iss_classification = reconciliation_mismatch,
         iss_severity = (if lac_criticalReconciliationMismatchCount l > 0
           then SolvencyIssueSeverity.critical else SolvencyIssueSeverity.warning),
         iss_reasonCode = ''customer_balance_projection_mismatch'',
         iss_summary = as_symbol a @ '' liability projection diverges from immutable ledger balances.'',
         iss_description = ''Customer balance projections do not match the asset liability ledger and require operator review.'',
         iss_recommendedAction = ''Confirm reconciliation state and block automated release paths until explained.''\<rparr>]
      else [])"

definition mismatchIssues :: "AssetRecord \<Rightarrow> LiabilityAssetComputation \<Rightarrow> PersistedIssueInput list" where
  "mismatchIssues a l =
     (if lac_openReconciliationMismatchCount l > 0 then
       [\<lparr>iss_assetId = Some (as_id a), iss_classification = reconciliation_mismatch,
         iss_severity = (if lac_criticalReconciliationMismatchCount l > 0
           then SolvencyIssueSeverity.critical else SolvencyIssueSeverity.warning),
         iss_reasonCode = ''open_reconciliation_mismatch_present'',
         iss_summary = as_symbol a @ '' has open reconciliation mismatches.'',
         iss_description = ''Open reconciliation mismatches exist for this asset and weaken confidence in the liability or settlement state.'',
         iss_recommendedAction = ''Review the linked mismatch workspaces before resuming sensitive flows.''\<rparr>]
      else [])"

definition evidenceIssues ::
  "AssetRecord \<Rightarrow> LiabilityAssetComputation \<Rightarrow> ReserveEvidenceComputation list \<Rightarrow> PersistedIssueInput list" where
  "evidenceIssues a l reserveEvidence =
     (let staleEvidenceCount = length (filter (\<lambda>e. ev_evidenceFreshness e = stale) reserveEvidence);
          missingEvidenceCount = length (filter (\<lambda>e. ev_evidenceFreshness e = missing) reserveEvidence) in
      if missingEvidenceCount > 0 then
        [\<lparr>iss_assetId = Some (as_id a), iss_classification = unknown_reserve_state,
          iss_severity = (if lac_totalLiabilityAmount l > 0
            then SolvencyIssueSeverity.critical else SolvencyIssueSeverity.warning),
          iss_reasonCode = ''reserve_evidence_missing'',
          iss_summary = as_symbol a @ '' reserve evidence is missing for one or more controlled wallets.'',
          iss_description = ''The bank could not read all reserve balances required to support a defensible solvency conclusion for this asset.'',
          iss_recommendedAction = ''Restore reserve reads or mark the affected wallet coverage before allowing new risk-sensitive actions.''\<rparr>]
      else if staleEvidenceCount > 0 then
        [\<lparr>iss_assetId = Some (as_id a), iss_classification = stale_evidence,
          iss_severity = (if lac_totalLiabilityAmount l > 0
            then SolvencyIssueSeverity.warning else SolvencyIssueSeverity.info),
          iss_reasonCode = ''reserve_evidence_stale'',
          iss_summary = as_symbol a @ '' reserve evidence is stale.'',
          iss_description = ''Fresh reserve reads were unavailable for one or more controlled wallets, so the asset reserve picture is degraded.'',
          iss_recommendedAction = ''Refresh reserve evidence and verify the affected wallets.''\<rparr>]
      else [])"

definition coverageIssues ::
  "solvency_config \<Rightarrow> AssetRecord \<Rightarrow> LiabilityAssetComputation \<Rightarrow> decimal \<Rightarrow> int option \<Rightarrow> PersistedIssueInput list" where
  "coverageIssues cfg a l reserveDeltaAmount reserveRatioBps =
     (if reserveDeltaAmount < 0 then
       [\<lparr>iss_assetId = Some (as_id a), iss_classification = reserve_shortfall,
         iss_severity = SolvencyIssueSeverity.critical,
         iss_reasonCode = ''usable_reserve_shortfall'',
         iss_summary = as_symbol a @ '' usable reserves are below customer liabilities.'',
         iss_description = ''Authoritative liabilities exceed usable reserve balances after encumbered execution amounts are removed.'',
         iss_recommendedAction = ''Pause sensitive outflows, raise manual review, and restore reserves before resuming activity.''\<rparr>]
      else case reserveRatioBps of
        None \<Rightarrow> []
      | Some ratio \<Rightarrow>
          if lac_totalLiabilityAmount l > 0 \<and> ratio < warningReserveRatioBps cfg then
            [\<lparr>iss_assetId = Some (as_id a), iss_classification = informational_drift,
              iss_severity = SolvencyIssueSeverity.warning,
              iss_reasonCode = ''low_reserve_buffer'',
              iss_summary = as_symbol a @ '' reserve coverage is above par but below the warning buffer.'',
              iss_description = ''The asset is solvent, but the reserve buffer is thinner than the configured warning threshold.'',
              iss_recommendedAction = ''Monitor treasury posture and replenish reserves before approving additional outflows.''\<rparr>]
          else [])"

definition compoundIssues :: "AssetRecord \<Rightarrow> PersistedIssueInput list \<Rightarrow> PersistedIssueInput list" where
  "compoundIssues a issues =
     (let hasCriticalShortfallLikeIssue = (\<exists>i\<in>set issues. iss_classification i = reserve_shortfall \<or>
            iss_classification i = unknown_reserve_state);
          hasCriticalReconciliationIssue = (\<exists>i\<in>set issues. iss_classification i = reconciliation_mismatch \<and>
            iss_severity i = SolvencyIssueSeverity.critical) in
      if hasCriticalShortfallLikeIssue \<and> hasCriticalReconciliationIssue then
        [\<lparr>iss_assetId = Some (as_id a), iss_classification = critical_solvency_risk,
          iss_severity = SolvencyIssueSeverity.critical,
          iss_reasonCode = ''compound_solvency_risk'',
          iss_summary = as_symbol a @ '' has both reserve integrity and reconciliation risk.'',
          iss_description = ''Multiple critical signals indicate the bank cannot safely rely on the current solvency posture for this asset.'',
          iss_recommendedAction = ''Keep safety controls active until reserve evidence and reconciliation both return to a healthy state.''\<rparr>]
      else [])"

section \<open>One asset\<close>

record AssetSnapshotComputation =
  asc_asset :: AssetRecord
  asc_status :: SolvencySnapshotStatus
  asc_evidenceFreshness :: SolvencyEvidenceFreshness
  asc_liabilities :: LiabilityAssetComputation
  asc_observedReserveAmount :: decimal
  asc_usableReserveAmount :: decimal
  asc_encumberedReserveAmount :: decimal
  asc_excludedReserveAmount :: decimal
  asc_reserveDeltaAmount :: decimal
  asc_reserveRatioBps :: "int option"
  asc_liabilityProof :: LiabilityProofAssetComputation
  asc_issues :: "PersistedIssueInput list"
  asc_reserveEvidence :: "ReserveEvidenceComputation list"

definition buildAssetSnapshotComputation ::
  "solvency_config \<Rightarrow> AssetRecord \<Rightarrow> LiabilityAssetComputation \<Rightarrow> ReserveEvidenceComputation list
     \<Rightarrow> LiabilityProofAssetComputation \<Rightarrow> AssetSnapshotComputation" where
  "buildAssetSnapshotComputation cfg a liabilities reserveEvidence liabilityProof =
     (let observed = sum_amounts ev_observedBalanceAmount reserveEvidence;
          usable = sum_amounts ev_usableBalanceAmount reserveEvidence;
          encumbered = sum_amounts (Some \<circ> ev_encumberedBalanceAmount) reserveEvidence;
          excluded = sum_amounts (Some \<circ> ev_excludedBalanceAmount) reserveEvidence;
          delta = usable - lac_totalLiabilityAmount liabilities;
          ratio = computeReserveRatioBps usable (lac_totalLiabilityAmount liabilities);
          issues = projectionIssues a liabilities @ mismatchIssues a liabilities @
            evidenceIssues a liabilities reserveEvidence @ coverageIssues cfg a liabilities delta ratio;
          issues = issues @ compoundIssues a issues in
      \<lparr>asc_asset = a, asc_status = resolveStatusFromIssues issues,
       asc_evidenceFreshness = mergeEvidenceFreshness (map ev_evidenceFreshness reserveEvidence),
       asc_liabilities = liabilities, asc_observedReserveAmount = observed,
       asc_usableReserveAmount = usable, asc_encumberedReserveAmount = encumbered,
       asc_excludedReserveAmount = excluded, asc_reserveDeltaAmount = delta,
       asc_reserveRatioBps = ratio, asc_liabilityProof = liabilityProof,
       asc_issues = issues, asc_reserveEvidence = reserveEvidence\<rparr>)"

section \<open>The policy\<close>

record DerivedPolicyState =
  der_status :: SolvencyPolicyStateStatus
  der_pauseWithdrawalApprovals :: bool
  der_pauseManagedWithdrawalExecution :: bool
  der_pauseLoanFunding :: bool
  der_pauseStakingWrites :: bool
  der_requireManualOperatorReview :: bool
  der_manualResumeRequired :: bool
  der_reasonCode :: "string option"
  der_reasonSummary :: "string option"

definition derivePolicyState :: "PersistedIssueInput list \<Rightarrow> DerivedPolicyState" where
  "derivePolicyState issues =
     (case find (\<lambda>i. iss_severity i = SolvencyIssueSeverity.critical) issues of
        Some i \<Rightarrow>
          \<lparr>der_status = paused, der_pauseWithdrawalApprovals = True,
           der_pauseManagedWithdrawalExecution = True, der_pauseLoanFunding = True,
           der_pauseStakingWrites = True, der_requireManualOperatorReview = True,
           der_manualResumeRequired = True, der_reasonCode = Some (iss_reasonCode i),
           der_reasonSummary = Some (iss_summary i)\<rparr>
      | None \<Rightarrow>
          (case find (\<lambda>i. iss_severity i = SolvencyIssueSeverity.warning) issues of
             Some i \<Rightarrow>
               \<lparr>der_status = guarded, der_pauseWithdrawalApprovals = False,
                der_pauseManagedWithdrawalExecution = False, der_pauseLoanFunding = False,
                der_pauseStakingWrites = False, der_requireManualOperatorReview = True,
                der_manualResumeRequired = False, der_reasonCode = Some (iss_reasonCode i),
                der_reasonSummary = Some (iss_summary i)\<rparr>
           | None \<Rightarrow>
               \<lparr>der_status = normal, der_pauseWithdrawalApprovals = False,
                der_pauseManagedWithdrawalExecution = False, der_pauseLoanFunding = False,
                der_pauseStakingWrites = False, der_requireManualOperatorReview = False,
                der_manualResumeRequired = False, der_reasonCode = None, der_reasonSummary = None\<rparr>))"

section \<open>Totals\<close>

record snapshot_summary =
  sm_status :: SolvencySnapshotStatus
  sm_evidenceFreshness :: SolvencyEvidenceFreshness
  sm_totalLiabilityAmount :: decimal
  sm_totalVaultLiabilityAmount :: decimal
  sm_totalPendingVaultReleaseAmount :: decimal
  sm_totalObservedReserveAmount :: decimal
  sm_totalUsableReserveAmount :: decimal
  sm_totalEncumberedReserveAmount :: decimal
  sm_totalReserveDeltaAmount :: decimal

definition buildSnapshotSummary ::
  "AssetSnapshotComputation list \<Rightarrow> PersistedIssueInput list \<Rightarrow> snapshot_summary" where
  "buildSnapshotSummary computations issues =
     (let total = (\<lambda>f. foldl (\<lambda>current item. current + f item) 0 computations);
          liability = total (lac_totalLiabilityAmount \<circ> asc_liabilities);
          usable = total asc_usableReserveAmount in
      \<lparr>sm_status = resolveStatusFromIssues issues,
       sm_evidenceFreshness = mergeEvidenceFreshness (map asc_evidenceFreshness computations),
       sm_totalLiabilityAmount = liability,
       sm_totalVaultLiabilityAmount = total (lac_vaultLiabilityAmount \<circ> asc_liabilities),
       sm_totalPendingVaultReleaseAmount = total (lac_pendingVaultReleaseAmount \<circ> asc_liabilities),
       sm_totalObservedReserveAmount = total asc_observedReserveAmount,
       sm_totalUsableReserveAmount = usable,
       sm_totalEncumberedReserveAmount = total asc_encumberedReserveAmount,
       sm_totalReserveDeltaAmount = usable - liability\<rparr>)"

end
