(* ===== verification/Solvency_Report.thy ===== *)
theory Solvency_Report
  imports Solvency_Assessment
begin

text \<open>
  The signed report of a snapshot (\<open>buildSignedReport\<close> of \<open>solvency/solvency.service.ts\<close>
  and \<open>buildSignedSolvencyReport\<close> of \<open>solvency/solvency-proof.ts\<close>): the payload, the
  canonical text it is hashed as, and the signature of the hash.
\<close>

section \<open>Enum values as the strings they are\<close>

fun snapshotStatusText :: "SolvencySnapshotStatus \<Rightarrow> string" where
  "snapshotStatusText SolvencySnapshotStatus.healthy = ''healthy''"
| "snapshotStatusText SolvencySnapshotStatus.warning = ''warning''"
| "snapshotStatusText SolvencySnapshotStatus.critical = ''critical''"
| "snapshotStatusText SolvencySnapshotStatus.failed = ''failed''"

fun freshnessText :: "SolvencyEvidenceFreshness \<Rightarrow> string" where
  "freshnessText fresh = ''fresh''"
| "freshnessText stale = ''stale''"
| "freshnessText missing = ''missing''"
| "freshnessText unknown = ''unknown''"

fun policyStatusText :: "SolvencyPolicyStateStatus \<Rightarrow> string" where
  "policyStatusText normal = ''normal''"
| "policyStatusText guarded = ''guarded''"
| "policyStatusText paused = ''paused''"

fun assetTypeText :: "AssetType \<Rightarrow> string" where
  "assetTypeText native = ''native''"
| "assetTypeText erc20 = ''erc20''"

definition nullable :: "('a \<Rightarrow> json) \<Rightarrow> 'a option \<Rightarrow> json" where
  "nullable f x = (case x of None \<Rightarrow> JNull | Some y \<Rightarrow> f y)"

section \<open>The payload\<close>

definition totals_object :: "solvency_library \<Rightarrow> snapshot_summary \<Rightarrow> json" where
  "totals_object lib summary =
     (let amount = (\<lambda>f. JString (decimalText lib (f summary))) in
      JObject
       [(''totalLiabilityAmount'', amount sm_totalLiabilityAmount),
        (''totalVaultLiabilityAmount'', amount sm_totalVaultLiabilityAmount),
        (''totalPendingVaultReleaseAmount'', amount sm_totalPendingVaultReleaseAmount),
        (''totalObservedReserveAmount'', amount sm_totalObservedReserveAmount),
        (''totalUsableReserveAmount'', amount sm_totalUsableReserveAmount),
        (''totalEncumberedReserveAmount'', amount sm_totalEncumberedReserveAmount),
        (''totalReserveDeltaAmount'', amount sm_totalReserveDeltaAmount)])"

definition policy_object :: "DerivedPolicyState \<Rightarrow> json" where
  "policy_object p = JObject
     [(''status'', JString (policyStatusText (der_status p))),
      (''pauseWithdrawalApprovals'', JBool (der_pauseWithdrawalApprovals p)),
      (''pauseManagedWithdrawalExecution'', JBool (der_pauseManagedWithdrawalExecution p)),
      (''pauseLoanFunding'', JBool (der_pauseLoanFunding p)),
      (''pauseStakingWrites'', JBool (der_pauseStakingWrites p)),
      (''requireManualOperatorReview'', JBool (der_requireManualOperatorReview p)),
      (''manualResumeRequired'', JBool (der_manualResumeRequired p)),
      (''reasonCode'', nullable JString (der_reasonCode p)),
      (''reasonSummary'', nullable JString (der_reasonSummary p))]"

definition asset_object :: "solvency_library \<Rightarrow> AssetSnapshotComputation \<Rightarrow> json" where
  "asset_object lib item =
     (let a = asc_asset item; l = asc_liabilities item; p = asc_liabilityProof item;
          amount = (\<lambda>x. JString (decimalText lib x)) in
      JObject
       [(''assetId'', JString (as_id a)),
        (''symbol'', JString (as_symbol a)),
        (''displayName'', JString (as_displayName a)),
        (''decimals'', JNumber (int (as_decimals a))),
        (''chainId'', JNumber (int (as_chainId a))),
        (''assetType'', JString (assetTypeText (as_assetType a))),
        (''snapshotStatus'', JString (snapshotStatusText (asc_status item))),
        (''evidenceFreshness'', JString (freshnessText (asc_evidenceFreshness item))),
        (''availableLiabilityAmount'', amount (lac_availableLiabilityAmount l)),
        (''reservedLiabilityAmount'', amount (lac_reservedLiabilityAmount l)),
        (''vaultLiabilityAmount'', amount (lac_vaultLiabilityAmount l)),
        (''pendingVaultReleaseAmount'', amount (lac_pendingVaultReleaseAmount l)),
        (''totalLiabilityAmount'', amount (lac_totalLiabilityAmount l)),
        (''usableReserveAmount'', amount (asc_usableReserveAmount item)),
        (''observedReserveAmount'', amount (asc_observedReserveAmount item)),
        (''encumberedReserveAmount'', amount (asc_encumberedReserveAmount item)),
        (''excludedReserveAmount'', amount (asc_excludedReserveAmount item)),
        (''reserveDeltaAmount'', amount (asc_reserveDeltaAmount item)),
        (''reserveRatioBps'', nullable JNumber (asc_reserveRatioBps item)),
        (''issueCount'', JNumber (int (length (asc_issues item)))),
        (''liabilityMerkleRoot'', nullable JString (lpa_liabilityMerkleRoot p)),
        (''liabilityLeafCount'', JNumber (int (lpa_liabilityLeafCount p))),
        (''liabilitySetChecksumSha256'', nullable JString (lpa_liabilitySetChecksumSha256 p))])"

definition report_object ::
  "solvency_config \<Rightarrow> solvency_library \<Rightarrow> string \<Rightarrow> string \<Rightarrow> string \<Rightarrow> snapshot_summary
     \<Rightarrow> AssetSnapshotComputation list \<Rightarrow> DerivedPolicyState \<Rightarrow> json" where
  "report_object cfg lib snapshotId generatedAt completedAt summary computations policyState = JObject
     [(''version'', JNumber 2),
      (''snapshotId'', JString snapshotId),
      (''environment'', JString (sc_environment cfg)),
      (''chainId'', JNumber (int (sc_productChainId cfg))),
      (''snapshotStatus'', JString (snapshotStatusText (sm_status summary))),
      (''evidenceFreshness'', JString (freshnessText (sm_evidenceFreshness summary))),
      (''generatedAt'', JString generatedAt),
      (''completedAt'', JString completedAt),
      (''totals'', totals_object lib summary),
      (''policyState'', policy_object policyState),
      (''assets'', JArray (map (asset_object lib) computations))]"

section \<open>Signing\<close>

record SignedReport =
  sr_payload :: json
  sr_canonicalPayloadText :: string
  sr_reportHash :: string
  sr_reportChecksumSha256 :: string
  sr_signature :: string
  sr_signatureAlgorithm :: string
  sr_signerAddress :: string

definition buildSignedSolvencyReport :: "solvency_library \<Rightarrow> report_signer \<Rightarrow> json \<Rightarrow> SignedReport" where
  "buildSignedSolvencyReport lib signer payload =
     (let canonicalPayloadText = stableStringify payload;
          reportHash = keccakText (hashes lib) canonicalPayloadText in
      \<lparr>sr_payload = payload, sr_canonicalPayloadText = canonicalPayloadText, sr_reportHash = reportHash,
       sr_reportChecksumSha256 = buildSha256Checksum (hashes lib) canonicalPayloadText,
       sr_signature = signDigest signer reportHash,
       sr_signatureAlgorithm = ''ethereum-secp256k1-keccak256-v1'',
       sr_signerAddress = signerAddress signer\<rparr>)"

definition buildSignedReport ::
  "solvency_config \<Rightarrow> solvency_library \<Rightarrow> report_signer \<Rightarrow> string \<Rightarrow> string \<Rightarrow> string \<Rightarrow> snapshot_summary
     \<Rightarrow> AssetSnapshotComputation list \<Rightarrow> DerivedPolicyState \<Rightarrow> error + SignedReport" where
  "buildSignedReport cfg lib signer snapshotId generatedAt completedAt summary computations policyState =
     (case infrastructureDisabledReason cfg of
        Some reason \<Rightarrow> Inl (ServiceUnavailableException (''Solvency reporting is unavailable: '' @ reason @ ''.''))
      | None \<Rightarrow> Inr (buildSignedSolvencyReport lib signer
          (report_object cfg lib snapshotId generatedAt completedAt summary computations policyState)))"

end
