(* ===== verification/Solvency_Governance.thy ===== *)
theory Solvency_Governance
  imports Solvency_Report Review_Cases Operator_Policy
begin

text \<open>
  The state behind the solvency controls and the operations on it
  (\<open>solvency/solvency.service.ts\<close>): a snapshot is generated and its policy persisted, an
  operator asks for a manual resume, another approves or rejects it. The policy row is that of the
  service's environment. Dates are milliseconds; two ISO strings are equal when the dates are.
\<close>

section \<open>Tables\<close>

record solvency_snapshot =
  sn_id :: string
  sn_environment :: string
  sn_chainId :: nat
  sn_status :: SolvencySnapshotStatus
  sn_evidenceFreshness :: SolvencyEvidenceFreshness
  sn_generatedAt :: int
  sn_completedAt :: "int option"
  sn_summary :: "snapshot_summary option"
  sn_assetCount :: nat
  sn_issueCount :: nat
  sn_policyActionsTriggered :: bool
  sn_failureCode :: "string option"
  sn_failureMessage :: "string option"

record solvency_report =
  spr_snapshotId :: string
  spr_environment :: string
  spr_chainId :: nat
  spr_reportVersion :: nat
  spr_signed :: SignedReport
  spr_publishedAt :: int

record solvency_liability_leaf =
  sl_snapshotId :: string
  sl_assetId :: string
  sl_customerAccountId :: string
  sl_leafIndex :: nat
  sl_leafHash :: string
  sl_canonicalPayload :: LiabilityLeafPayload
  sl_amounts :: LiabilityLeafComputation

datatype SolvencyPolicyResumeRequestStatus = pending_approval | approved | rejected

record solvency_policy_resume_request =
  pr_id :: string
  pr_environment :: string
  pr_snapshotId :: string
  pr_status :: SolvencyPolicyResumeRequestStatus
  pr_requestedByOperatorId :: string
  pr_requestedByOperatorRole :: string
  pr_requestNote :: "string option"
  pr_expectedPolicyUpdatedAt :: int
  pr_requestedAt :: int
  pr_approvedByOperatorId :: "string option"
  pr_approvedByOperatorRole :: "string option"
  pr_approvalNote :: "string option"
  pr_approvedAt :: "int option"
  pr_rejectedByOperatorId :: "string option"
  pr_rejectedByOperatorRole :: "string option"
  pr_rejectionNote :: "string option"
  pr_rejectedAt :: "int option"

record solvency_state =
  so_db :: db
  solvencySnapshots :: "solvency_snapshot list"
  solvencyAssetSnapshots :: "(string \<times> AssetSnapshotComputation) list"
  solvencyLiabilityLeaves :: "solvency_liability_leaf list"
  solvencyReserveEvidence :: "(string \<times> ReserveEvidenceComputation) list"
  solvencyIssues :: "(string \<times> PersistedIssueInput) list"
  solvencyReports :: "solvency_report list"
  solvencyPolicyResumeRequests :: "solvency_policy_resume_request list"

type_synonym 'a solvencytx = "(solvency_state, 'a) tx"

definition inDb :: "'a dbtx \<Rightarrow> 'a solvencytx" where
  "inDb m = (\<lambda>s. case m (so_db s) of Inl e \<Rightarrow> Inl e | Inr (x, d) \<Rightarrow> Inr (x, s\<lparr>so_db := d\<rparr>))"

lemma inDb_Inr [tx_iff]: "inDb m s = Inr (x, t) \<longleftrightarrow> (\<exists>d. m (so_db s) = Inr (x, d) \<and> t = s\<lparr>so_db := d\<rparr>)"
  by (auto simp: inDb_def split: sum.splits)

definition policy_of :: "solvency_state \<Rightarrow> solvency_policy_state option" where
  "policy_of s = solvencyPolicyState (so_db s)"

record SnapshotActor =
  sa_actorType :: string
  sa_actorId :: "string option"

definition auditSolvency :: "SnapshotActor \<Rightarrow> string \<Rightarrow> string \<Rightarrow> string \<Rightarrow> unit solvencytx" where
  "auditSolvency actor action targetType targetId =
     inDb (auditEvent_create None (sa_actorType actor) (sa_actorId actor) action targetType targetId None None)"

definition operatorContext :: "string \<Rightarrow> SnapshotActor" where
  "operatorContext operatorId = \<lparr>sa_actorType = ''operator'', sa_actorId = Some operatorId\<rparr>"

section \<open>Writing the policy row\<close>

text \<open>\<open>update\<close> of the row of the environment; the ORM sets \<open>updatedAt\<close> on every write.\<close>

definition solvencyPolicyState_put :: "solvency_policy_state \<Rightarrow> solvency_policy_state solvencytx" where
  "solvencyPolicyState_put p =
     inDb (bindT new_Date (\<lambda>now.
       let row = p\<lparr>sp_updatedAt := now\<rparr> in
       bindT (writeT (\<lambda>s. s\<lparr>solvencyPolicyState := Some row\<rparr>)) (\<lambda>_. returnT row)))"

definition holdPausedForManualResume :: "solvency_policy_state option \<Rightarrow> DerivedPolicyState \<Rightarrow> bool" where
  "holdPausedForManualResume currentState derivedState =
     (case currentState of
        None \<Rightarrow> False
      | Some p \<Rightarrow> sp_status p = paused \<and> sp_manualResumeRequired p \<and> der_status derivedState \<noteq> paused)"

definition effectivePolicyState :: "solvency_policy_state option \<Rightarrow> DerivedPolicyState \<Rightarrow> DerivedPolicyState" where
  "effectivePolicyState currentState derivedState =
     (if holdPausedForManualResume currentState derivedState then
        \<lparr>der_status = paused, der_pauseWithdrawalApprovals = True,
         der_pauseManagedWithdrawalExecution = True, der_pauseLoanFunding = True,
         der_pauseStakingWrites = True, der_requireManualOperatorReview = True,
         der_manualResumeRequired = True, der_reasonCode = Some ''manual_resume_required'',
         der_reasonSummary = Some ''Latest solvency evidence no longer shows a critical shortfall, but governed manual resume approval is required before sensitive flows resume.''\<rparr>
      else derivedState)"

definition nextPolicyState ::
  "solvency_policy_state option \<Rightarrow> DerivedPolicyState \<Rightarrow> bool \<Rightarrow> string \<Rightarrow> int \<Rightarrow> solvency_policy_state" where
  "nextPolicyState currentState e keepHistory snapshotId now =
     \<lparr>sp_status = der_status e,
      sp_pauseWithdrawalApprovals = der_pauseWithdrawalApprovals e,
      sp_pauseManagedWithdrawalExecution = der_pauseManagedWithdrawalExecution e,
      sp_pauseLoanFunding = der_pauseLoanFunding e,
      sp_pauseStakingWrites = der_pauseStakingWrites e,
      sp_requireManualOperatorReview = der_requireManualOperatorReview e,
      sp_latestSnapshotId = Some snapshotId,
      sp_triggeredAt = (if der_status e \<noteq> normal
        then Some (case Option.bind currentState sp_triggeredAt of None \<Rightarrow> now | Some t \<Rightarrow> t) else None),
      sp_clearedAt = (if der_status e = normal then Some now else None),
      sp_reasonCode = der_reasonCode e,
      sp_reasonSummary = der_reasonSummary e,
      sp_manualResumeRequired = der_manualResumeRequired e,
      sp_manualResumeRequestedAt = (if der_manualResumeRequired e \<and> keepHistory
        then Option.bind currentState sp_manualResumeRequestedAt else None),
      sp_manualResumeApprovedAt = None,
      sp_manualResumeApprovedByOperatorId = None,
      sp_manualResumeApprovedByOperatorRole = None,
      sp_updatedAt = now\<rparr>"

definition policyStateChanged :: "solvency_policy_state option \<Rightarrow> solvency_policy_state \<Rightarrow> bool" where
  "policyStateChanged currentState next =
     (case currentState of
        None \<Rightarrow> True
      | Some c \<Rightarrow>
          sp_status c \<noteq> sp_status next \<or>
          sp_pauseWithdrawalApprovals c \<noteq> sp_pauseWithdrawalApprovals next \<or>
          sp_pauseManagedWithdrawalExecution c \<noteq> sp_pauseManagedWithdrawalExecution next \<or>
          sp_pauseLoanFunding c \<noteq> sp_pauseLoanFunding next \<or>
          sp_pauseStakingWrites c \<noteq> sp_pauseStakingWrites next \<or>
          sp_requireManualOperatorReview c \<noteq> sp_requireManualOperatorReview next \<or>
          sp_manualResumeRequired c \<noteq> sp_manualResumeRequired next \<or>
          sp_reasonCode c \<noteq> sp_reasonCode next \<or>
          sp_reasonSummary c \<noteq> sp_reasonSummary next)"

definition supersede :: "int \<Rightarrow> solvency_policy_resume_request \<Rightarrow> solvency_policy_resume_request" where
  "supersede now r =
     (if pr_status r = pending_approval then r
        \<lparr>pr_status := rejected,
         pr_rejectionNote := Some ''Superseded by a newer paused solvency snapshot before approval.'',
         pr_rejectedAt := Some now\<rparr>
      else r)"

definition openSolvencyReviewCase :: "SnapshotActor \<Rightarrow> solvency_policy_state \<Rightarrow> unit solvencytx" where
  "openSolvencyReviewCase actor p =
     bindT (inDb (openOrReuseReviewCase
       \<lparr>op_customerId = None, op_customerAccountId = None, op_transactionIntentId = None,
        op_type = ReviewCaseType.manual_intervention,
        op_reasonCode = Some (''solvency_policy:'' @ (case sp_reasonCode p of None \<Rightarrow> ''guarded'' | Some r \<Rightarrow> r)),
        op_notes = Some (case sp_reasonSummary p of
          None \<Rightarrow> ''Critical solvency controls were triggered automatically.'' | Some r \<Rightarrow> r),
        op_actorType = sa_actorType actor, op_actorId = sa_actorId actor,
        op_auditAction = ''review_case.solvency_policy.opened''\<rparr>)) (\<lambda>(c, reused).
     auditSolvency actor ''solvency.review_case.opened'' ''ReviewCase'' (rc_id c))"

definition persistPolicyState ::
  "solvency_config \<Rightarrow> string \<Rightarrow> DerivedPolicyState \<Rightarrow> SnapshotActor \<Rightarrow> unit solvencytx" where
  "persistPolicyState cfg snapshotId derivedState actor =
     bindT (readT policy_of) (\<lambda>currentState.
     bindT (inDb new_Date) (\<lambda>now.
     let hold = holdPausedForManualResume currentState derivedState;
         effectiveState = effectivePolicyState currentState derivedState;
         invalidatePendingResumeRequests = (der_status effectiveState = paused \<and> \<not> hold);
         resetResumeHistory = (der_status effectiveState = paused \<and>
           (case currentState of None \<Rightarrow> True
            | Some p \<Rightarrow> sp_status p \<noteq> paused \<or> \<not> sp_manualResumeRequired p)) in
     bindT (solvencyPolicyState_put (nextPolicyState currentState effectiveState
       (\<not> (resetResumeHistory \<or> invalidatePendingResumeRequests)) snapshotId now)) (\<lambda>nextState.
     if \<not> policyStateChanged currentState nextState then returnT ()
     else
       bindT (if invalidatePendingResumeRequests
         then writeT (\<lambda>s. s\<lparr>solvencyPolicyResumeRequests := map (supersede now) (solvencyPolicyResumeRequests s)\<rparr>)
         else returnT ()) (\<lambda>_.
       bindT (auditSolvency actor
         (if sp_status nextState = normal then ''solvency.policy.cleared'' else ''solvency.policy.triggered'')
         ''SolvencyPolicyState'' (sc_environment cfg)) (\<lambda>_.
       if sp_status nextState = paused then openSolvencyReviewCase actor nextState else returnT ())))))"

section \<open>Generating a snapshot\<close>

text \<open>
  What the queries before the transaction return: assets and wallets in the order the query asks
  for, the tables behind the liabilities, the intents, the evidence of earlier snapshots.
\<close>

record snapshot_reads =
  rd_assets :: "AssetRecord list"
  rd_wallets :: "reserve_wallet list"
  rd_tables :: liability_tables
  rd_intents :: "transaction_intent list"
  rd_evidence :: "ReserveEvidenceComputation list"

definition listActiveAssets :: "solvency_config \<Rightarrow> snapshot_reads \<Rightarrow> AssetRecord list" where
  "listActiveAssets cfg rd =
     filter (\<lambda>a. as_chainId a = sc_productChainId cfg \<and> as_status a = AssetStatus.active) (rd_assets rd)"

definition RESERVE_WALLET_KINDS :: "WalletKind list" where
  "RESERVE_WALLET_KINDS = [treasury, operational, contract]"

definition listReserveWallets :: "solvency_config \<Rightarrow> snapshot_reads \<Rightarrow> reserve_wallet list" where
  "listReserveWallets cfg rd =
     filter (\<lambda>w. wa_chainId w = sc_productChainId cfg \<and> wa_customerAccountId w = None \<and>
       wa_status w = WalletStatus.active \<and> wa_kind w \<in> set RESERVE_WALLET_KINDS) (rd_wallets rd)"

definition lookup_or :: "'v \<Rightarrow> ('k \<times> 'v) list \<Rightarrow> 'k \<Rightarrow> 'v" where
  "lookup_or d m k = (case map_of m k of None \<Rightarrow> d | Some v \<Rightarrow> v)"

definition assetComputations ::
  "solvency_config \<Rightarrow> solvency_library \<Rightarrow> rpc_provider option \<Rightarrow> snapshot_reads \<Rightarrow> int \<Rightarrow> string
     \<Rightarrow> AssetSnapshotComputation list" where
  "assetComputations cfg lib provider rd now snapshotId =
     (let active = listActiveAssets cfg rd;
          liabilitiesByAsset = computeLiabilitiesByAsset (sc_productChainId cfg) (rd_tables rd) active
            (listOpenReconciliationMismatchCounts (sc_productChainId cfg) (rd_tables rd));
          reserveEvidenceByAsset = computeReserveEvidenceByAsset cfg provider now (rd_intents rd)
            (rd_evidence rd) active (listReserveWallets cfg rd);
          liabilityProofByAsset = computeLiabilityLeavesByAsset (sc_productChainId cfg) lib (rd_tables rd)
            snapshotId active in
      map (\<lambda>a. buildAssetSnapshotComputation cfg a
        (lookup_or (createZeroLiabilityComputation a) liabilitiesByAsset (as_id a))
        (lookup_or [] reserveEvidenceByAsset (as_id a))
        (lookup_or \<lparr>lpa_assetId = as_id a, lpa_liabilityMerkleRoot = None, lpa_liabilityLeafCount = 0,
           lpa_liabilitySetChecksumSha256 = None, lpa_leaves = []\<rparr> liabilityProofByAsset (as_id a))) active)"

definition solvencySnapshot_update ::
  "string \<Rightarrow> (solvency_snapshot \<Rightarrow> solvency_snapshot) \<Rightarrow> unit solvencytx" where
  "solvencySnapshot_update i f =
     bindT (readT (\<lambda>s. find (\<lambda>r. sn_id r = i) (solvencySnapshots s))) (\<lambda>row.
     bindT (requireT row RecordNotFound) (\<lambda>_.
     writeT (\<lambda>s. s\<lparr>solvencySnapshots := update_rows sn_id i f (solvencySnapshots s)\<rparr>)))"

text \<open>A 32-bit \<open>Int\<close> column.\<close>

definition fits_int :: "int \<Rightarrow> bool" where
  "fits_int x \<longleftrightarrow> - (2 ^ 31) \<le> x \<and> x < 2 ^ 31"

definition fits_summary :: "snapshot_summary \<Rightarrow> bool" where
  "fits_summary m \<longleftrightarrow> fits_decimal (sm_totalLiabilityAmount m) \<and> fits_decimal (sm_totalUsableReserveAmount m) \<and>
     fits_decimal (sm_totalObservedReserveAmount m) \<and> fits_decimal (sm_totalEncumberedReserveAmount m) \<and>
     fits_decimal (sm_totalReserveDeltaAmount m)"

definition fits_asset_row :: "AssetSnapshotComputation \<Rightarrow> bool" where
  "fits_asset_row c \<longleftrightarrow>
     (let l = asc_liabilities c in
      (\<forall>x\<in>{lac_availableLiabilityAmount l, lac_reservedLiabilityAmount l, lac_pendingCreditAmount l,
         lac_totalLiabilityAmount l, lac_projectionAvailableAmount l, lac_projectionPendingAmount l,
         asc_observedReserveAmount c, asc_usableReserveAmount c, asc_encumberedReserveAmount c,
         asc_excludedReserveAmount c, asc_reserveDeltaAmount c}. fits_decimal x) \<and>
      (case asc_reserveRatioBps c of None \<Rightarrow> True | Some r \<Rightarrow> fits_int r))"

definition fits_leaf_row :: "solvency_liability_leaf \<Rightarrow> bool" where
  "fits_leaf_row l \<longleftrightarrow> fits_decimal (lf_availableLiabilityAmount (sl_amounts l)) \<and>
     fits_decimal (lf_reservedLiabilityAmount (sl_amounts l)) \<and>
     fits_decimal (lf_totalLiabilityAmount (sl_amounts l))"

definition fits_evidence_row :: "ReserveEvidenceComputation \<Rightarrow> bool" where
  "fits_evidence_row e \<longleftrightarrow> fits_decimal (ev_encumberedBalanceAmount e) \<and>
     (\<forall>x\<in>set_option (ev_observedBalanceAmount e) \<union> set_option (ev_usableBalanceAmount e). fits_decimal x)"

definition liabilityLeafRows :: "string \<Rightarrow> AssetSnapshotComputation list \<Rightarrow> solvency_liability_leaf list" where
  "liabilityLeafRows snapshotId computations =
     concat (map (\<lambda>c. map (\<lambda>leaf.
       \<lparr>sl_snapshotId = snapshotId, sl_assetId = as_id (asc_asset c),
        sl_customerAccountId = lv_customerAccountId leaf, sl_leafIndex = lv_leafIndex leaf,
        sl_leafHash = lv_leafHash leaf, sl_canonicalPayload = lv_payload leaf,
        sl_amounts = lv_amounts leaf\<rparr>) (lpa_leaves (asc_liabilityProof c))) computations)"

definition createSnapshotRows :: "string \<Rightarrow> AssetSnapshotComputation list \<Rightarrow> PersistedIssueInput list \<Rightarrow> unit solvencytx" where
  "createSnapshotRows snapshotId computations issues =
     (let leaves = liabilityLeafRows snapshotId computations;
          evidence = concat (map asc_reserveEvidence computations) in
      bindT (throwIf (\<not> list_all fits_asset_row computations) NumericFieldOverflow) (\<lambda>_.
      bindT (throwIf (\<not> list_all fits_leaf_row leaves) NumericFieldOverflow) (\<lambda>_.
      bindT (throwIf (\<not> list_all fits_evidence_row evidence) NumericFieldOverflow) (\<lambda>_.
      writeT (\<lambda>s. s\<lparr>
        solvencyAssetSnapshots := solvencyAssetSnapshots s @ map (Pair snapshotId) computations,
        solvencyLiabilityLeaves := solvencyLiabilityLeaves s @ leaves,
        solvencyReserveEvidence := solvencyReserveEvidence s @ map (Pair snapshotId) evidence,
        solvencyIssues := solvencyIssues s @ map (Pair snapshotId) issues\<rparr>)))))"

definition solvencyReport_create :: "solvency_config \<Rightarrow> string \<Rightarrow> SignedReport \<Rightarrow> unit solvencytx" where
  "solvencyReport_create cfg snapshotId signedReport =
     bindT (readT solvencyReports) (\<lambda>rows.
     bindT (throwIf (\<exists>r\<in>set rows. spr_snapshotId r = snapshotId \<or>
       sr_reportHash (spr_signed r) = sr_reportHash signedReport) UniqueConstraintViolation) (\<lambda>_.
     bindT (inDb new_Date) (\<lambda>now.
     writeT (\<lambda>s. s\<lparr>solvencyReports := rows @
       [\<lparr>spr_snapshotId = snapshotId, spr_environment = sc_environment cfg,
         spr_chainId = sc_productChainId cfg, spr_reportVersion = 1, spr_signed = signedReport,
         spr_publishedAt = now\<rparr>]\<rparr>))))"

fun auditCriticalIssues :: "SnapshotActor \<Rightarrow> string \<Rightarrow> PersistedIssueInput list \<Rightarrow> unit solvencytx" where
  "auditCriticalIssues actor snapshotId [] = returnT ()"
| "auditCriticalIssues actor snapshotId (issue # issues) =
     bindT (if iss_severity issue = SolvencyIssueSeverity.critical
       then auditSolvency actor ''solvency.issue.detected'' ''SolvencySnapshot'' snapshotId
       else returnT ()) (\<lambda>_. auditCriticalIssues actor snapshotId issues)"

definition generateSnapshot_transaction ::
  "solvency_config \<Rightarrow> string \<Rightarrow> AssetSnapshotComputation list \<Rightarrow> PersistedIssueInput list
     \<Rightarrow> DerivedPolicyState \<Rightarrow> snapshot_summary \<Rightarrow> SignedReport \<Rightarrow> SnapshotActor \<Rightarrow> unit solvencytx" where
  "generateSnapshot_transaction cfg snapshotId computations issues policyState summary signedReport actor =
     bindT (throwIf (\<not> fits_summary summary) NumericFieldOverflow) (\<lambda>_.
     bindT (inDb new_Date) (\<lambda>now.
     bindT (solvencySnapshot_update snapshotId (\<lambda>r. r\<lparr>
       sn_status := sm_status summary,
       sn_evidenceFreshness := sm_evidenceFreshness summary,
       sn_completedAt := Some now,
       sn_summary := Some summary,
       sn_assetCount := length computations,
       sn_issueCount := length issues,
       sn_policyActionsTriggered := (der_status policyState \<noteq> normal),
       sn_failureCode := None,
       sn_failureMessage := None\<rparr>)) (\<lambda>_.
     bindT (createSnapshotRows snapshotId computations issues) (\<lambda>_.
     bindT (persistPolicyState cfg snapshotId policyState actor) (\<lambda>_.
     bindT (solvencyReport_create cfg snapshotId signedReport) (\<lambda>_.
     bindT (auditSolvency actor ''solvency.snapshot.created'' ''SolvencySnapshot'' snapshotId) (\<lambda>_.
     auditCriticalIssues actor snapshotId issues)))))))"

definition createPendingSnapshot :: "solvency_config \<Rightarrow> solvency_snapshot solvencytx" where
  "createPendingSnapshot cfg =
     bindT (inDb new_Date) (\<lambda>startedAt.
     bindT (inDb cuid) (\<lambda>i.
     bindT (readT solvencySnapshots) (\<lambda>rows.
     bindT (throwIf (i \<in> sn_id ` set rows) UniqueConstraintViolation) (\<lambda>_.
     let r = \<lparr>sn_id = i, sn_environment = sc_environment cfg, sn_chainId = sc_productChainId cfg,
              sn_status = SolvencySnapshotStatus.failed, sn_evidenceFreshness = unknown,
              sn_generatedAt = startedAt, sn_completedAt = None, sn_summary = None, sn_assetCount = 0,
              sn_issueCount = 0, sn_policyActionsTriggered = False, sn_failureCode = None,
              sn_failureMessage = None\<rparr> in
     bindT (writeT (\<lambda>s. s\<lparr>solvencySnapshots := rows @ [r]\<rparr>)) (\<lambda>_. returnT r)))))"

definition recordSnapshot ::
  "solvency_config \<Rightarrow> solvency_library \<Rightarrow> report_signer \<Rightarrow> rpc_provider option \<Rightarrow> snapshot_reads
     \<Rightarrow> SnapshotActor \<Rightarrow> solvency_snapshot \<Rightarrow> unit solvencytx" where
  "recordSnapshot cfg lib signer provider rd actor pendingRow =
     bindT (inDb new_Date) (\<lambda>now.
     let computations = assetComputations cfg lib provider rd now (sn_id pendingRow);
         issues = concat (map asc_issues computations);
         policyState = derivePolicyState issues;
         summary = buildSnapshotSummary computations issues in
     case buildSignedReport cfg lib signer (sn_id pendingRow) (toISOString signer (sn_generatedAt pendingRow))
         (toISOString signer now) summary computations policyState of
       Inl e \<Rightarrow> throwT e
     | Inr signedReport \<Rightarrow>
         generateSnapshot_transaction cfg (sn_id pendingRow) computations issues policyState summary signedReport actor)"

text \<open>\<open>normalizeError\<close>: the name of the error class and its message; of the database client's own errors they are parameters.\<close>

fun normalizeError :: "solvency_library \<Rightarrow> error \<Rightarrow> string \<times> string" where
  "normalizeError lib (ConflictException m) = (''ConflictException'', m)"
| "normalizeError lib (NotFoundException m) = (''NotFoundException'', m)"
| "normalizeError lib (BadRequestException m) = (''BadRequestException'', m)"
| "normalizeError lib (ForbiddenException m) = (''ForbiddenException'', m)"
| "normalizeError lib (ServiceUnavailableException m) = (''ServiceUnavailableException'', m)"
| "normalizeError lib e = databaseError lib e"

definition failSnapshot :: "solvency_library \<Rightarrow> SnapshotActor \<Rightarrow> string \<Rightarrow> error \<Rightarrow> unit solvencytx" where
  "failSnapshot lib actor snapshotId e =
     bindT (inDb new_Date) (\<lambda>now.
     bindT (solvencySnapshot_update snapshotId (\<lambda>r. r\<lparr>
       sn_completedAt := Some now, sn_status := SolvencySnapshotStatus.failed,
       sn_evidenceFreshness := unknown, sn_failureCode := Some (fst (normalizeError lib e)),
       sn_failureMessage := Some (snd (normalizeError lib e))\<rparr>)) (\<lambda>_.
     auditSolvency actor ''solvency.snapshot.failed'' ''SolvencySnapshot'' snapshotId))"

text \<open>
  The handler commits twice: the pending row first, then the snapshot or, when that fails, the
  failure; so it has a result and a state in every case.
\<close>

definition generateSnapshot ::
  "solvency_config \<Rightarrow> solvency_library \<Rightarrow> report_signer \<Rightarrow> rpc_provider option \<Rightarrow> snapshot_reads
     \<Rightarrow> SnapshotActor \<Rightarrow> solvency_state \<Rightarrow> (error + solvency_policy_state) \<times> solvency_state" where
  "generateSnapshot cfg lib signer provider rd actor s =
     (case createPendingSnapshot cfg s of
        Inl e \<Rightarrow> (Inl e, s)
      | Inr (pendingRow, s1) \<Rightarrow>
          (case bindT (recordSnapshot cfg lib signer provider rd actor pendingRow)
                  (\<lambda>_. inDb getOrCreatePolicyState) s1 of
             Inr (p, s2) \<Rightarrow> (Inr p, s2)
           | Inl e \<Rightarrow>
               (case failSnapshot lib actor (sn_id pendingRow) e s1 of
                  Inl e' \<Rightarrow> (Inl e', s1)
                | Inr (_, s2) \<Rightarrow> (Inl (ServiceUnavailableException
                    (''Solvency snapshot generation failed: '' @ snd (normalizeError lib e))), s2))))"

section \<open>Manual resume\<close>

definition assertCanRequestResume :: "solvency_config \<Rightarrow> string option \<Rightarrow> ('s, string) tx" where
  "assertCanRequestResume cfg operatorRole =
     assertOperatorRoleAuthorized operatorRole (resumeRequestAllowedOperatorRoles cfg)
       ''Operator role is not authorized to request solvency policy resume.''"

definition assertCanApproveResume :: "solvency_config \<Rightarrow> string option \<Rightarrow> ('s, string) tx" where
  "assertCanApproveResume cfg operatorRole =
     assertOperatorRoleAuthorized operatorRole (resumeApproverAllowedOperatorRoles cfg)
       ''Operator role is not authorized to approve or reject solvency policy resume.''"

text \<open>\<open>value?.trim() ?? null\<close>, and \<open>null\<close> when nothing is left.\<close>

definition normalizeOptionalString :: "string option \<Rightarrow> string option" where
  "normalizeOptionalString value = (if truthy (trim_opt value) then trim_opt value else None)"

definition buildResumeApprovalEligibleAt :: "solvency_config \<Rightarrow> int \<Rightarrow> int" where
  "buildResumeApprovalEligibleAt cfg requestedAt = requestedAt + resumeApprovalTimelockSeconds cfg * 1000"

definition find_snapshot :: "string \<Rightarrow> solvency_state \<Rightarrow> solvency_snapshot option" where
  "find_snapshot i s = find (\<lambda>r. sn_id r = i) (solvencySnapshots s)"

definition report_for :: "string \<Rightarrow> solvency_state \<Rightarrow> solvency_report option" where
  "report_for i s = find (\<lambda>r. spr_snapshotId r = i) (solvencyReports s)"

definition find_resume_request :: "string \<Rightarrow> solvency_state \<Rightarrow> solvency_policy_resume_request option" where
  "find_resume_request i s = find (\<lambda>r. pr_id r = i) (solvencyPolicyResumeRequests s)"

definition policyChanged :: error where
  "policyChanged = ConflictException ''Solvency policy changed after it was loaded. Refresh the workspace and retry.''"

definition requestPolicyResume_transaction ::
  "solvency_config \<Rightarrow> string \<Rightarrow> int \<Rightarrow> string option \<Rightarrow> string \<Rightarrow> string
     \<Rightarrow> solvency_policy_resume_request solvencytx" where
  "requestPolicyResume_transaction cfg snapshotId expectedPolicyUpdatedAt note operatorId role =
     bindT (readT policy_of) (\<lambda>row.
     bindT (requireT row (NotFoundException ''Solvency policy state not found.'')) (\<lambda>current.
     bindT (throwIf (sp_updatedAt current \<noteq> expectedPolicyUpdatedAt) policyChanged) (\<lambda>_.
     bindT (inDb cuid) (\<lambda>i.
     bindT (inDb new_Date) (\<lambda>now.
     bindT (readT solvencyPolicyResumeRequests) (\<lambda>rows.
     bindT (throwIf (i \<in> pr_id ` set rows) UniqueConstraintViolation) (\<lambda>_.
     let r = \<lparr>pr_id = i, pr_environment = sc_environment cfg, pr_snapshotId = snapshotId,
              pr_status = pending_approval, pr_requestedByOperatorId = operatorId,
              pr_requestedByOperatorRole = role, pr_requestNote = note,
              pr_expectedPolicyUpdatedAt = sp_updatedAt current, pr_requestedAt = now,
              pr_approvedByOperatorId = None, pr_approvedByOperatorRole = None, pr_approvalNote = None,
              pr_approvedAt = None, pr_rejectedByOperatorId = None, pr_rejectedByOperatorRole = None,
              pr_rejectionNote = None, pr_rejectedAt = None\<rparr> in
     bindT (writeT (\<lambda>s. s\<lparr>solvencyPolicyResumeRequests := rows @ [r]\<rparr>)) (\<lambda>_.
     bindT (solvencyPolicyState_put (current\<lparr>sp_manualResumeRequestedAt := Some now\<rparr>)) (\<lambda>_.
     bindT (auditSolvency (operatorContext operatorId) ''solvency.policy_resume.requested''
       ''SolvencyPolicyResumeRequest'' i) (\<lambda>_.
     returnT r))))))))))"

definition requestPolicyResume ::
  "solvency_config \<Rightarrow> string \<Rightarrow> int \<Rightarrow> string option \<Rightarrow> string \<Rightarrow> string option
     \<Rightarrow> solvency_policy_resume_request solvencytx" where
  "requestPolicyResume cfg snapshotId expectedPolicyUpdatedAt requestNote operatorId operatorRole =
     bindT (assertCanRequestResume cfg operatorRole) (\<lambda>role.
     bindT (inDb getOrCreatePolicyState) (\<lambda>policyState.
     bindT (throwIf (sp_status policyState \<noteq> paused) (ConflictException
       ''Manual resume requests are only available while solvency policy is paused.'')) (\<lambda>_.
     bindT (throwIf (\<not> sp_manualResumeRequired policyState) (ConflictException
       ''Current solvency policy does not require governed manual resume.'')) (\<lambda>_.
     bindT (throwIf (sp_updatedAt policyState \<noteq> expectedPolicyUpdatedAt) policyChanged) (\<lambda>_.
     bindT (readT (find_snapshot snapshotId)) (\<lambda>found.
     bindT (readT (\<lambda>s. find (\<lambda>r. pr_environment r = sc_environment cfg \<and> pr_status r = pending_approval)
       (rev (solvencyPolicyResumeRequests s)))) (\<lambda>existingPendingRequest.
     bindT (throwIf (existingPendingRequest \<noteq> None) (ConflictException
       ''A pending solvency resume request already exists for this environment.'')) (\<lambda>_.
     bindT (requireT found (NotFoundException ''Requested solvency snapshot was not found.'')) (\<lambda>snapshot.
     bindT (throwIf (sn_environment snapshot \<noteq> sc_environment cfg)
       (NotFoundException ''Requested solvency snapshot was not found.'')) (\<lambda>_.
     bindT (throwIf (sn_status snapshot \<noteq> SolvencySnapshotStatus.healthy) (ConflictException
       ''Manual resume requires a healthy solvency snapshot.'')) (\<lambda>_.
     bindT (readT (report_for (sn_id snapshot))) (\<lambda>report.
     bindT (throwIf (report = None) (ConflictException
       ''Manual resume requires a signed solvency report for the selected snapshot.'')) (\<lambda>_.
     requestPolicyResume_transaction cfg (sn_id snapshot) expectedPolicyUpdatedAt
       (normalizeOptionalString requestNote) operatorId role)))))))))))))"

definition resumeRequestNotFound :: error where
  "resumeRequestNotFound = NotFoundException ''Solvency resume request was not found.''"

definition resumeRequest_update ::
  "string \<Rightarrow> (solvency_policy_resume_request \<Rightarrow> solvency_policy_resume_request)
     \<Rightarrow> solvency_policy_resume_request solvencytx" where
  "resumeRequest_update i f =
     bindT (readT (find_resume_request i)) (\<lambda>found.
     bindT (requireT found RecordNotFound) (\<lambda>row.
     bindT (writeT (\<lambda>s. s\<lparr>solvencyPolicyResumeRequests :=
       update_rows pr_id i f (solvencyPolicyResumeRequests s)\<rparr>)) (\<lambda>_. returnT (f row))))"

definition resumedPolicy :: "string \<Rightarrow> string \<Rightarrow> string \<Rightarrow> int \<Rightarrow> solvency_policy_state \<Rightarrow> solvency_policy_state" where
  "resumedPolicy operatorId role snapshotId approvedAt p = p\<lparr>
     sp_status := normal,
     sp_pauseWithdrawalApprovals := False,
     sp_pauseManagedWithdrawalExecution := False,
     sp_pauseLoanFunding := False,
     sp_pauseStakingWrites := False,
     sp_requireManualOperatorReview := False,
     sp_reasonCode := Some ''manual_resume_approved'',
     sp_reasonSummary := Some ''Paused solvency controls were manually resumed after governed approval against a healthy signed snapshot.'',
     sp_manualResumeRequired := False,
     sp_manualResumeRequestedAt := None,
     sp_manualResumeApprovedAt := Some approvedAt,
     sp_manualResumeApprovedByOperatorId := Some operatorId,
     sp_manualResumeApprovedByOperatorRole := Some role,
     sp_latestSnapshotId := Some snapshotId,
     sp_clearedAt := Some approvedAt\<rparr>"

definition approvePolicyResume_transaction ::
  "solvency_config \<Rightarrow> report_signer \<Rightarrow> string \<Rightarrow> string \<Rightarrow> string option \<Rightarrow> string \<Rightarrow> string
     \<Rightarrow> solvency_policy_resume_request solvencytx" where
  "approvePolicyResume_transaction cfg signer requestId boundSnapshotId note operatorId role =
     bindT (readT (find_resume_request requestId)) (\<lambda>found.
     bindT (readT policy_of) (\<lambda>policyRow.
     bindT (readT (find_snapshot boundSnapshotId)) (\<lambda>snapshotRow.
     bindT (requireT found resumeRequestNotFound) (\<lambda>currentRequest.
     bindT (throwIf (pr_status currentRequest \<noteq> pending_approval) (ConflictException
       ''Only pending solvency resume requests can be approved.'')) (\<lambda>_.
     bindT (requireT policyRow (NotFoundException ''Solvency policy state not found.'')) (\<lambda>policyState.
     bindT (throwIf (sp_updatedAt policyState \<noteq> pr_expectedPolicyUpdatedAt currentRequest) (ConflictException
       ''Solvency policy changed after the resume request was created. Request a new governed resume.'')) (\<lambda>_.
     bindT (throwIf (sp_status policyState \<noteq> paused)
       (ConflictException ''Solvency policy is no longer paused.'')) (\<lambda>_.
     bindT (requireT snapshotRow (ConflictException
       ''Resume approval requires the bound snapshot to remain healthy.'')) (\<lambda>snapshot.
     bindT (throwIf (sn_status snapshot \<noteq> SolvencySnapshotStatus.healthy) (ConflictException
       ''Resume approval requires the bound snapshot to remain healthy.'')) (\<lambda>_.
     bindT (readT (report_for (sn_id snapshot))) (\<lambda>report.
     bindT (throwIf (report = None) (ConflictException
       ''Resume approval requires a signed solvency report.'')) (\<lambda>_.
     bindT (inDb new_Date) (\<lambda>approvedAt.
     bindT (throwIf (approvedAt < buildResumeApprovalEligibleAt cfg (pr_requestedAt currentRequest))
       (ConflictException (''Solvency resume approval is timelocked until '' @
          toISOString signer (buildResumeApprovalEligibleAt cfg (pr_requestedAt currentRequest)) @ ''.''))) (\<lambda>_.
     bindT (resumeRequest_update (pr_id currentRequest) (\<lambda>r. r\<lparr>
       pr_status := approved,
       pr_approvedByOperatorId := Some operatorId,
       pr_approvedByOperatorRole := Some role,
       pr_approvalNote := coalesce note (pr_approvalNote r),
       pr_approvedAt := Some approvedAt\<rparr>)) (\<lambda>nextRequest.
     bindT (solvencyPolicyState_put (resumedPolicy operatorId role (sn_id snapshot) approvedAt policyState)) (\<lambda>_.
     bindT (auditSolvency (operatorContext operatorId) ''solvency.policy_resume.approved''
       ''SolvencyPolicyResumeRequest'' (pr_id currentRequest)) (\<lambda>_.
     returnT nextRequest)))))))))))))))))"

definition approvePolicyResume ::
  "solvency_config \<Rightarrow> report_signer \<Rightarrow> string \<Rightarrow> string option \<Rightarrow> string \<Rightarrow> string option
     \<Rightarrow> solvency_policy_resume_request solvencytx" where
  "approvePolicyResume cfg signer requestId approvalNote operatorId operatorRole =
     bindT (assertCanApproveResume cfg operatorRole) (\<lambda>role.
     bindT (readT (find_resume_request requestId)) (\<lambda>found.
     bindT (requireT found resumeRequestNotFound) (\<lambda>request.
     bindT (throwIf (pr_status request \<noteq> pending_approval) (ConflictException
       ''Only pending solvency resume requests can be approved.'')) (\<lambda>_.
     bindT (throwIf (pr_requestedByOperatorId request = operatorId) (ForbiddenException
       ''Solvency resume approval requires a different approver than the requester.'')) (\<lambda>_.
     approvePolicyResume_transaction cfg signer requestId (pr_snapshotId request)
       (normalizeOptionalString approvalNote) operatorId role)))))"

definition rejectPolicyResume_transaction ::
  "string \<Rightarrow> string option \<Rightarrow> string \<Rightarrow> string \<Rightarrow> solvency_policy_resume_request solvencytx" where
  "rejectPolicyResume_transaction requestId rejectionNote operatorId role =
     bindT (inDb new_Date) (\<lambda>now.
     bindT (resumeRequest_update requestId (\<lambda>r. r\<lparr>
       pr_status := rejected,
       pr_rejectedByOperatorId := Some operatorId,
       pr_rejectedByOperatorRole := Some role,
       pr_rejectionNote := coalesce (normalizeOptionalString rejectionNote) (pr_rejectionNote r),
       pr_rejectedAt := Some now\<rparr>)) (\<lambda>updated.
     bindT (auditSolvency (operatorContext operatorId) ''solvency.policy_resume.rejected''
       ''SolvencyPolicyResumeRequest'' (pr_id updated)) (\<lambda>_.
     returnT updated)))"

definition rejectPolicyResume ::
  "solvency_config \<Rightarrow> string \<Rightarrow> string option \<Rightarrow> string \<Rightarrow> string option
     \<Rightarrow> solvency_policy_resume_request solvencytx" where
  "rejectPolicyResume cfg requestId rejectionNote operatorId operatorRole =
     bindT (assertCanApproveResume cfg operatorRole) (\<lambda>role.
     bindT (readT (find_resume_request requestId)) (\<lambda>found.
     bindT (requireT found resumeRequestNotFound) (\<lambda>request.
     bindT (throwIf (pr_status request \<noteq> pending_approval) (ConflictException
       ''Only pending solvency resume requests can be rejected.'')) (\<lambda>_.
     rejectPolicyResume_transaction requestId rejectionNote operatorId role))))"

end
