(* ===== verification/Solvency_System.thy ===== *)
theory Solvency_System
  imports Solvency_Governance Call_Frames
begin

text \<open>
  The solvency controls and the intent services as one system: the effect of each operation of the
  governance on its tables, the steps and the states they reach, and the invariant that holds there:
  the policy row is one of three postures, every recorded snapshot is signed, every approved resume
  took a second operator and a healthy signed snapshot.
\<close>

section \<open>The intent services leave the policy alone\<close>

definition initialPolicy :: "int \<Rightarrow> solvency_policy_state" where
  "initialPolicy now = \<lparr>sp_status = normal, sp_pauseWithdrawalApprovals = False,
     sp_pauseManagedWithdrawalExecution = False, sp_pauseLoanFunding = False,
     sp_pauseStakingWrites = False, sp_requireManualOperatorReview = False,
     sp_latestSnapshotId = None, sp_triggeredAt = None, sp_clearedAt = None,
     sp_reasonCode = None, sp_reasonSummary = None, sp_manualResumeRequired = False,
     sp_manualResumeRequestedAt = None, sp_manualResumeApprovedAt = None,
     sp_manualResumeApprovedByOperatorId = None, sp_manualResumeApprovedByOperatorRole = None,
     sp_updatedAt = now\<rparr>"

lemma getOrCreate_Inr:
  "getOrCreatePolicyState d = Inr (p, e) \<longleftrightarrow>
     (case solvencyPolicyState d of
        Some q \<Rightarrow> p = q \<and> e = d
      | None \<Rightarrow> p = initialPolicy (now_ms d) \<and> e = d\<lparr>solvencyPolicyState := Some p\<rparr>)"
  by (auto simp: getOrCreatePolicyState_def initialPolicy_def tx_iff Let_def split: option.splits)

definition gated :: "solvency_policy_state option \<Rightarrow> int \<Rightarrow> db \<Rightarrow> bool" where
  "gated q n s \<longleftrightarrow> now_ms s = n \<and>
     (solvencyPolicyState s = q \<or> q = None \<and> solvencyPolicyState s = Some (initialPolicy n))"

lemma gated_upd [simp]:
  "gated q n (s\<lparr>cuid_count := c\<rparr>) = gated q n s" "gated q n (s\<lparr>ledgerAccounts := la\<rparr>) = gated q n s"
  "gated q n (s\<lparr>ledgerJournals := lj\<rparr>) = gated q n s" "gated q n (s\<lparr>ledgerPostings := lp\<rparr>) = gated q n s"
  "gated q n (s\<lparr>customerAssetBalances := b\<rparr>) = gated q n s" "gated q n (s\<lparr>retirementVaults := v\<rparr>) = gated q n s"
  "gated q n (s\<lparr>transactionIntents := ti\<rparr>) = gated q n s" "gated q n (s\<lparr>blockchainTransactions := bt\<rparr>) = gated q n s"
  "gated q n (s\<lparr>depositSettlementProofs := dp\<rparr>) = gated q n s" "gated q n (s\<lparr>reviewCases := rc\<rparr>) = gated q n s"
  "gated q n (s\<lparr>reviewCaseEvents := re\<rparr>) = gated q n s" "gated q n (s\<lparr>auditEvents := ae\<rparr>) = gated q n s"
  by (simp_all add: gated_def)

interpretation gate: call_frame "gated q n" for q n
proof unfold_locales
  show "keeps (gated q n) getOrCreatePolicyState"
    by (auto simp: keeps_def getOrCreate_Inr gated_def split: option.splits)
qed (auto simp: keeps_def tx_iff cuid_Inr Let_def ledgerJournal_create_def ledgerPosting_createMany_def
    customerAssetBalance_put_def retirementVault_put_def reviewCase_create_def reviewCase_update_def
    reviewCaseEvent_create_def auditEvent_create_def dest!: ledgerAccount_upsert_cases split: if_splits)

lemma gated_start: "gated (solvencyPolicyState s) (now_ms s) s"
  by (simp add: gated_def)

lemma call_policy:
  "run_call svc evm c s = Inr (u, t) \<Longrightarrow> gated (solvencyPolicyState s) (now_ms s) t"
  "late_part evm at c = Some (i, ty, m) \<Longrightarrow> m s = Inr (u, t) \<Longrightarrow> gated (solvencyPolicyState s) (now_ms s) t"
  using keepsD [OF gate.run_call_kept _ gated_start] keepsD [OF gate.late_part_kept _ gated_start] by blast+

section \<open>What the operations change\<close>

text \<open>\<open>quiet s t\<close>: at most review cases, audit events and identifiers.\<close>

definition quiet :: "solvency_state \<Rightarrow> solvency_state \<Rightarrow> bool" where
  "quiet s t \<longleftrightarrow> (\<exists>d. t = s\<lparr>so_db := d\<rparr> \<and> same_core (so_db s) d \<and>
     solvencyPolicyState d = solvencyPolicyState (so_db s))"

lemma quiet_refl [simp]: "quiet s s"
  unfolding quiet_def by (rule exI [of _ "so_db s"]) simp

lemma quiet_trans: "quiet s t \<Longrightarrow> quiet t u \<Longrightarrow> quiet s u"
  unfolding quiet_def by (force intro: same_core_trans)

lemma quiet_audit: "auditSolvency actor act tty tid s = Inr (u, t) \<Longrightarrow> quiet s t"
  unfolding auditSolvency_def inDb_Inr quiet_def
  using bookkeeping_write_case(4) by (auto simp: auditEvent_create_def tx_iff cuid_Inr same_core_def off_ledger_def same_money_def)

lemma quiet_case: "inDb (openOrReuseReviewCase params) s = Inr (u, t) \<Longrightarrow> quiet s t"
proof -
  assume "inDb (openOrReuseReviewCase params) s = Inr (u, t)"
  then obtain d where run: "openOrReuseReviewCase params (so_db s) = Inr (u, d)" and t: "t = s\<lparr>so_db := d\<rparr>"
    by (auto simp: inDb_Inr)
  have "same_core (so_db s) d" by (rule bookkeepingD [OF bookkeeping_cases(1) run])
  moreover have "solvencyPolicyState d = solvencyPolicyState (so_db s)"
    using run by (auto simp: openOrReuseReviewCase_def reviewCase_create_def reviewCaseEvent_create_def
        auditEvent_create_def tx_iff cuid_Inr split: option.splits)
  ultimately show ?thesis using t by (auto simp: quiet_def)
qed

lemma quiet_audits: "auditCriticalIssues actor i issues s = Inr (u, t) \<Longrightarrow> quiet s t"
  by (induction actor i issues arbitrary: s rule: auditCriticalIssues.induct)
    (auto simp: tx_iff dest: quiet_audit intro: quiet_trans)

lemma quiet_review: "openSolvencyReviewCase actor p s = Inr (u, t) \<Longrightarrow> quiet s t"
  by (auto simp: openSolvencyReviewCase_def tx_iff simp del: inDb_Inr dest!: quiet_case quiet_audit intro: quiet_trans)

text \<open>Writing the policy row.\<close>

definition policy_write :: "solvency_policy_state \<Rightarrow> solvency_state \<Rightarrow> solvency_state" where
  "policy_write p s = s\<lparr>so_db := (so_db s)\<lparr>solvencyPolicyState := Some p\<rparr>\<rparr>"

lemma put_Inr: "solvencyPolicyState_put p s = Inr (q, t) \<longleftrightarrow>
    q = p\<lparr>sp_updatedAt := now_ms (so_db s)\<rparr> \<and> t = policy_write q s"
  by (auto simp: solvencyPolicyState_put_def policy_write_def tx_iff Let_def)

lemma policy_write_sel [simp]:
  "policy_of (policy_write p s) = Some p" "now_ms (so_db (policy_write p s)) = now_ms (so_db s)"
  "solvencySnapshots (policy_write p s) = solvencySnapshots s" "solvencyReports (policy_write p s) = solvencyReports s"
  "solvencyPolicyResumeRequests (policy_write p s) = solvencyPolicyResumeRequests s"
  "same_core d (so_db (policy_write p s)) = same_core d (so_db s)"
  by (simp_all add: policy_write_def policy_of_def same_core_def off_ledger_def same_money_def)

lemma quiet_sel:
  assumes "quiet s t"
  shows "policy_of t = policy_of s" "solvencySnapshots t = solvencySnapshots s" "solvencyReports t = solvencyReports s"
    "solvencyPolicyResumeRequests t = solvencyPolicyResumeRequests s" "same_core (so_db s) (so_db t)"
    "now_ms (so_db t) = now_ms (so_db s)"
  using assms by (auto simp: quiet_def policy_of_def same_core_def)

text \<open>\<open>posted s t q rs\<close>: from \<open>s\<close> to \<open>t\<close> the policy row became \<open>q\<close> and the requests \<open>rs\<close>.\<close>

definition posted ::
  "solvency_state \<Rightarrow> solvency_state \<Rightarrow> solvency_policy_state \<Rightarrow> solvency_policy_resume_request list \<Rightarrow> bool" where
  "posted s t q rs \<longleftrightarrow> policy_of t = Some q \<and> solvencyPolicyResumeRequests t = rs \<and>
     same_core (so_db s) (so_db t)"

lemma posted_quiet: "posted s t q rs \<Longrightarrow> quiet t u \<Longrightarrow> posted s u q rs"
  by (auto simp: posted_def quiet_sel intro: same_core_trans quiet_sel(5))

lemma persist_effect:
  assumes "persistPolicyState cfg i der actor s = Inr (u, t)"
  obtains b rs where "posted s t (nextPolicyState (policy_of s) (effectivePolicyState (policy_of s) der) b i (now_ms (so_db s))) rs"
    "rs = solvencyPolicyResumeRequests s \<or> rs = map (supersede (now_ms (so_db s))) (solvencyPolicyResumeRequests s)"
    "solvencySnapshots t = solvencySnapshots s" "solvencyReports t = solvencyReports s"
proof -
  let ?next = "\<lambda>b. nextPolicyState (policy_of s) (effectivePolicyState (policy_of s) der) b i (now_ms (so_db s))"
  let ?paused = "der_status (effectivePolicyState (policy_of s) der) = paused \<and> \<not> holdPausedForManualResume (policy_of s) der"
  obtain b q where q: "q = ?next b" and run: "(if \<not> policyStateChanged (policy_of s) q then returnT ()
     else bindT (if ?paused then writeT (\<lambda>w. w\<lparr>solvencyPolicyResumeRequests :=
         map (supersede (now_ms (so_db s))) (solvencyPolicyResumeRequests w)\<rparr>) else returnT ()) (\<lambda>_.
       bindT (auditSolvency actor
         (if sp_status q = normal then ''solvency.policy.cleared'' else ''solvency.policy.triggered'')
         ''SolvencyPolicyState'' (sc_environment cfg)) (\<lambda>_.
       if sp_status q = paused then openSolvencyReviewCase actor q else returnT ()))) (policy_write q s) = Inr (u, t)"
    using assms [unfolded persistPolicyState_def Let_def bindT_Inr readT_Inr inDb_Inr new_Date_Inr put_Inr]
    by (auto simp: nextPolicyState_def)
  have opened: "quiet s1 t" if "bindT (auditSolvency actor
         (if sp_status q = normal then ''solvency.policy.cleared'' else ''solvency.policy.triggered'')
         ''SolvencyPolicyState'' (sc_environment cfg)) (\<lambda>_.
       if sp_status q = paused then openSolvencyReviewCase actor q else returnT ()) s1 = Inr (u, t)" for s1
    using that unfolding bindT_Inr by (auto simp: returnT_def dest!: quiet_audit quiet_review intro: quiet_trans split: if_splits)
  obtain s1 rs where s1: "s1 = (policy_write (?next b) s)\<lparr>solvencyPolicyResumeRequests := rs\<rparr>"
    and rs: "rs = solvencyPolicyResumeRequests s \<or> rs = map (supersede (now_ms (so_db s))) (solvencyPolicyResumeRequests s)"
    and t: "quiet s1 t"
  proof (cases "policyStateChanged (policy_of s) q \<and> ?paused")
    case True
    then show ?thesis
      using that [of _ "map (supersede (now_ms (so_db s))) (solvencyPolicyResumeRequests s)"] run opened
      by (simp add: q bindT_Inr writeT_Inr)
  next
    case False
    have keep: "(policy_write q s)\<lparr>solvencyPolicyResumeRequests := solvencyPolicyResumeRequests s\<rparr> = policy_write q s"
      by (simp add: policy_write_def)
    from False have "quiet (policy_write q s) t"
      using run opened by (auto simp: returnT_def bindT_def split: if_splits)
    then have "quiet ((policy_write q s)\<lparr>solvencyPolicyResumeRequests := solvencyPolicyResumeRequests s\<rparr>) t"
      by (simp only: keep)
    then show ?thesis using that [OF refl disjI1 [OF refl]] q by blast
  qed
  have "posted s s1 (?next b) rs" by (simp add: s1 posted_def) (simp add: policy_write_def policy_of_def)
  from that [OF posted_quiet [OF this t] rs] t show thesis by (simp add: quiet_sel s1)
qed


text \<open>\<open>completed\<close>: what a recorded snapshot's row becomes.\<close>

definition completed :: "int \<Rightarrow> snapshot_summary \<Rightarrow> nat \<Rightarrow> nat \<Rightarrow> bool \<Rightarrow> solvency_snapshot \<Rightarrow> solvency_snapshot" where
  "completed now summary n m triggered r = r\<lparr>
     sn_status := sm_status summary, sn_evidenceFreshness := sm_evidenceFreshness summary,
     sn_completedAt := Some now, sn_summary := Some summary, sn_assetCount := n, sn_issueCount := m,
     sn_policyActionsTriggered := triggered, sn_failureCode := None, sn_failureMessage := None\<rparr>"

lemma completed_sel [simp]:
  "sn_id (completed now summary n m triggered r) = sn_id r"
  "sn_status (completed now summary n m triggered r) = sm_status summary"
  "sn_completedAt (completed now summary n m triggered r) = Some now"
  by (simp_all add: completed_def)

lemma update_snapshot_Inr:
  "solvencySnapshot_update i f s = Inr (u, t) \<longleftrightarrow> find_snapshot i s \<noteq> None \<and>
     t = s\<lparr>solvencySnapshots := update_rows sn_id i f (solvencySnapshots s)\<rparr>"
  by (auto simp: solvencySnapshot_update_def find_snapshot_def tx_iff)

lemma rows_Inr: "createSnapshotRows i cs issues s = Inr (u, t) \<Longrightarrow>
    \<exists>a l e n. t = s\<lparr>solvencyAssetSnapshots := a, solvencyLiabilityLeaves := l, solvencyReserveEvidence := e,
      solvencyIssues := n\<rparr> \<and> list_all fits_asset_row cs"
  by (auto simp: createSnapshotRows_def tx_iff Let_def)

lemma report_Inr: "solvencyReport_create cfg i sr s = Inr (u, t) \<Longrightarrow> i \<notin> spr_snapshotId ` set (solvencyReports s) \<and>
    (\<exists>rep. spr_snapshotId rep = i \<and> spr_signed rep = sr \<and> t = s\<lparr>solvencyReports := solvencyReports s @ [rep]\<rparr>)"
  by (auto simp: solvencyReport_create_def tx_iff)
    (rule exI [of _ "\<lparr>spr_snapshotId = i, spr_environment = sc_environment cfg, spr_chainId = sc_productChainId cfg,
      spr_reportVersion = 1, spr_signed = sr, spr_publishedAt = now_ms (so_db s)\<rparr>"], simp)

lemma transaction_unfold:
  "generateSnapshot_transaction cfg i cs issues der summary sr actor =
     bindT (throwIf (\<not> fits_summary summary) NumericFieldOverflow) (\<lambda>_.
     bindT (inDb new_Date) (\<lambda>now.
     bindT (solvencySnapshot_update i (completed now summary (length cs) (length issues) (der_status der \<noteq> normal))) (\<lambda>_.
     bindT (createSnapshotRows i cs issues) (\<lambda>_.
     bindT (persistPolicyState cfg i der actor) (\<lambda>_.
     bindT (solvencyReport_create cfg i sr) (\<lambda>_.
     bindT (auditSolvency actor ''solvency.snapshot.created'' ''SolvencySnapshot'' i) (\<lambda>_.
     auditCriticalIssues actor i issues)))))))"
  by (simp add: generateSnapshot_transaction_def completed_def [abs_def])

lemma transaction_effect:
  assumes "generateSnapshot_transaction cfg i cs issues der summary sr actor s = Inr (u, t)"
  obtains b rs rep where
    "posted s t (nextPolicyState (policy_of s) (effectivePolicyState (policy_of s) der) b i (now_ms (so_db s))) rs"
    "rs = solvencyPolicyResumeRequests s \<or> rs = map (supersede (now_ms (so_db s))) (solvencyPolicyResumeRequests s)"
    "solvencySnapshots t = update_rows sn_id i (completed (now_ms (so_db s)) summary (length cs) (length issues)
       (der_status der \<noteq> normal)) (solvencySnapshots s)"
    "find_snapshot i s \<noteq> None" "spr_snapshotId rep = i" "spr_signed rep = sr" "solvencyReports t = solvencyReports s @ [rep]"
    "list_all fits_asset_row cs"
proof -
  let ?f = "completed (now_ms (so_db s)) summary (length cs) (length issues) (der_status der \<noteq> normal)"
  from assms obtain s1 s2 s3 s4 s5 where
    s1: "solvencySnapshot_update i ?f s = Inr ((), s1)" and s2: "createSnapshotRows i cs issues s1 = Inr ((), s2)"
    and s3: "persistPolicyState cfg i der actor s2 = Inr ((), s3)"
    and s4: "solvencyReport_create cfg i sr s3 = Inr ((), s4)" and "quiet s4 s5" "quiet s5 t"
    unfolding transaction_unfold
    by (auto simp: bindT_Inr inDb_Inr new_Date_Inr throwIf_Inr dest!: quiet_audit quiet_audits)
  then have t: "quiet s4 t" by (blast intro: quiet_trans)
  from s1 have found: "find_snapshot i s \<noteq> None" and e1: "s1 = s\<lparr>solvencySnapshots := update_rows sn_id i ?f (solvencySnapshots s)\<rparr>"
    by (simp_all add: update_snapshot_Inr)
  from rows_Inr [OF s2] obtain a l e n where e2: "s2 = s1\<lparr>solvencyAssetSnapshots := a, solvencyLiabilityLeaves := l,
      solvencyReserveEvidence := e, solvencyIssues := n\<rparr>" and fits: "list_all fits_asset_row cs" by blast
  have same: "policy_of s2 = policy_of s" "so_db s2 = so_db s" "solvencyPolicyResumeRequests s2 = solvencyPolicyResumeRequests s"
    "solvencyReports s2 = solvencyReports s" "solvencySnapshots s2 = update_rows sn_id i ?f (solvencySnapshots s)"
    by (simp_all add: e2 e1 policy_of_def)
  from report_Inr [OF s4] obtain rep where rep: "spr_snapshotId rep = i" "spr_signed rep = sr"
    and e4: "s4 = s3\<lparr>solvencyReports := solvencyReports s3 @ [rep]\<rparr>" by blast
  obtain b rs where p: "posted s2 s3 (nextPolicyState (policy_of s) (effectivePolicyState (policy_of s) der) b i (now_ms (so_db s))) rs"
    "rs = solvencyPolicyResumeRequests s \<or> rs = map (supersede (now_ms (so_db s))) (solvencyPolicyResumeRequests s)"
    "solvencySnapshots s3 = solvencySnapshots s2" "solvencyReports s3 = solvencyReports s2"
    using persist_effect [OF s3] unfolding same by blast
  from p(1) have "posted s s4 (nextPolicyState (policy_of s) (effectivePolicyState (policy_of s) der) b i (now_ms (so_db s))) rs"
    by (simp add: posted_def e4 same policy_of_def)
  from that [OF posted_quiet [OF this t] p(2) _ found rep _ fits] show thesis
    using quiet_sel [OF t] p(3,4) by (simp add: e4 same)
qed

text \<open>What \<open>recordSnapshot\<close> computes before its transaction.\<close>

lemma record_transaction:
  assumes "recordSnapshot cfg lib signer provider rd actor row s = Inr (u, t)"
  obtains cs sr where "cs = assetComputations cfg lib provider rd (now_ms (so_db s)) (sn_id row)"
    "generateSnapshot_transaction cfg (sn_id row) cs (concat (map asc_issues cs)) (derivePolicyState (concat (map asc_issues cs)))
      (buildSnapshotSummary cs (concat (map asc_issues cs))) sr actor s = Inr (u, t)"
  using assms by (auto simp: recordSnapshot_def tx_iff Let_def split: sum.splits)

definition asked :: "solvency_config \<Rightarrow> int \<Rightarrow> int \<Rightarrow> string \<Rightarrow> solvency_policy_resume_request list
    \<Rightarrow> solvency_policy_resume_request \<Rightarrow> bool" where
  "asked cfg expected now oper rows r \<longleftrightarrow> pr_status r = pending_approval \<and> pr_environment r = sc_environment cfg \<and>
     pr_requestedAt r = now \<and> pr_expectedPolicyUpdatedAt r = expected \<and> pr_requestedByOperatorId r = oper \<and>
     pr_id r \<notin> pr_id ` set rows"

lemma request_transaction_effect:
  assumes "requestPolicyResume_transaction cfg i expected note oper role s = Inr (r, t)"
  obtains p where "policy_of s = Some p" "sp_updatedAt p = expected"
    "posted s t (p\<lparr>sp_manualResumeRequestedAt := Some (now_ms (so_db s)), sp_updatedAt := now_ms (so_db s)\<rparr>)
      (solvencyPolicyResumeRequests s @ [r])"
    "asked cfg expected (now_ms (so_db s)) oper (solvencyPolicyResumeRequests s) r"
    "solvencySnapshots t = solvencySnapshots s" "solvencyReports t = solvencyReports s"
proof -
  obtain p s1 where p: "policy_of s = Some p" "sp_updatedAt p = expected"
    and s1: "s1 = policy_write (p\<lparr>sp_manualResumeRequestedAt := Some (now_ms (so_db s)), sp_updatedAt := now_ms (so_db s)\<rparr>)
      (s\<lparr>so_db := (so_db s)\<lparr>cuid_count := Suc (cuid_count (so_db s))\<rparr>,
         solvencyPolicyResumeRequests := solvencyPolicyResumeRequests s @ [r]\<rparr>)"
    and r: "asked cfg expected (now_ms (so_db s)) oper (solvencyPolicyResumeRequests s) r" and t: "quiet s1 t"
    using assms unfolding requestPolicyResume_transaction_def Let_def
    by (auto simp: tx_iff put_Inr cuid_Inr asked_def dest!: quiet_audit)
  have "posted s s1 (p\<lparr>sp_manualResumeRequestedAt := Some (now_ms (so_db s)), sp_updatedAt := now_ms (so_db s)\<rparr>)
      (solvencyPolicyResumeRequests s @ [r])"
    by (simp add: posted_def s1) (simp add: same_core_def off_ledger_def same_money_def)
  from that [OF p posted_quiet [OF this t] r] show thesis using quiet_sel [OF t] by (simp add: s1)
qed

lemma request_effect:
  assumes "requestPolicyResume cfg i expected note oper role s = Inr (r, t)"
  obtains p d where "getOrCreatePolicyState (so_db s) = Inr (p, d)" "sp_status p = paused" "sp_updatedAt p = expected"
    "posted (s\<lparr>so_db := d\<rparr>) t (p\<lparr>sp_manualResumeRequestedAt := Some (now_ms (so_db s)), sp_updatedAt := now_ms (so_db s)\<rparr>)
      (solvencyPolicyResumeRequests s @ [r])"
    "asked cfg expected (now_ms (so_db s)) oper (solvencyPolicyResumeRequests s) r"
    "solvencySnapshots t = solvencySnapshots s" "solvencyReports t = solvencyReports s"
    "\<forall>q\<in>set (solvencyPolicyResumeRequests s). pr_environment q = sc_environment cfg \<longrightarrow> pr_status q \<noteq> pending_approval"
proof -
  obtain p d snap role' note' where g: "getOrCreatePolicyState (so_db s) = Inr (p, d)" "sp_status p = paused" "sp_updatedAt p = expected"
    and tx: "requestPolicyResume_transaction cfg snap expected note' oper role' (s\<lparr>so_db := d\<rparr>) = Inr (r, t)"
    and free: "\<forall>q\<in>set (solvencyPolicyResumeRequests s). pr_environment q = sc_environment cfg \<longrightarrow> pr_status q \<noteq> pending_approval"
    using assms by (auto simp: requestPolicyResume_def assertCanRequestResume_def tx_iff find_None_iff_all)
  have d: "now_ms d = now_ms (so_db s)" "solvencyPolicyState d = Some p"
    using g(1) by (auto simp: getOrCreate_Inr split: option.splits)
  from request_transaction_effect [OF tx] obtain q where q: "policy_of (s\<lparr>so_db := d\<rparr>) = Some q"
    "posted (s\<lparr>so_db := d\<rparr>) t (q\<lparr>sp_manualResumeRequestedAt := Some (now_ms d), sp_updatedAt := now_ms d\<rparr>)
      (solvencyPolicyResumeRequests s @ [r])"
    "asked cfg expected (now_ms d) oper (solvencyPolicyResumeRequests s) r"
    "solvencySnapshots t = solvencySnapshots s" "solvencyReports t = solvencyReports s" by auto
  from q(1) d(2) have "q = p" by (simp add: policy_of_def)
  from that [OF g q(2-5) [unfolded this d(1)] free] show thesis .
qed

definition resumable :: "solvency_config \<Rightarrow> solvency_state \<Rightarrow> string \<Rightarrow> int \<Rightarrow> int \<Rightarrow> bool" where
  "resumable cfg s i requestedAt at \<longleftrightarrow> requestedAt + resumeApprovalTimelockSeconds cfg * 1000 \<le> at \<and>
     (\<exists>sn. find_snapshot i s = Some sn \<and> sn_status sn = SolvencySnapshotStatus.healthy) \<and> report_for i s \<noteq> None"

definition granted :: "string \<Rightarrow> string \<Rightarrow> string option \<Rightarrow> int \<Rightarrow> solvency_policy_resume_request \<Rightarrow> solvency_policy_resume_request" where
  "granted oper role note now r = r\<lparr>pr_status := SolvencyPolicyResumeRequestStatus.approved, pr_approvedByOperatorId := Some oper,
     pr_approvedByOperatorRole := Some role, pr_approvalNote := coalesce note (pr_approvalNote r), pr_approvedAt := Some now\<rparr>"

lemma approve_transaction_effect:
  assumes "approvePolicyResume_transaction cfg signer k i note oper role s = Inr (r', t)"
  obtains r p where "find_resume_request k s = Some r" "pr_status r = pending_approval" "policy_of s = Some p"
    "sp_status p = paused" "sp_updatedAt p = pr_expectedPolicyUpdatedAt r" "resumable cfg s i (pr_requestedAt r) (now_ms (so_db s))"
    "posted s t ((resumedPolicy oper role i (now_ms (so_db s)) p)\<lparr>sp_updatedAt := now_ms (so_db s)\<rparr>)
      (update_rows pr_id k (granted oper role note (now_ms (so_db s))) (solvencyPolicyResumeRequests s))"
    "r' = granted oper role note (now_ms (so_db s)) r"
    "solvencySnapshots t = solvencySnapshots s" "solvencyReports t = solvencyReports s"
proof -
  let ?now = "now_ms (so_db s)"
  obtain r where r0: "find_resume_request k s = Some r"
  proof (cases "find_resume_request k s")
    case None
    then have "approvePolicyResume_transaction cfg signer k i note oper role s = Inl resumeRequestNotFound"
      unfolding approvePolicyResume_transaction_def by (simp add: bindT_def readT_def requireT_def throwT_def)
    with assms show ?thesis by simp
  qed
  then have k: "pr_id r = k" unfolding find_resume_request_def by (blast dest: find_key_Some)
  obtain p sn s1 where r: "pr_status r = pending_approval" "policy_of s = Some p"
    "sp_status p = paused" "sp_updatedAt p = pr_expectedPolicyUpdatedAt r"
    and sn: "find_snapshot i s = Some sn" "sn_status sn = SolvencySnapshotStatus.healthy" "report_for (sn_id sn) s \<noteq> None"
      "buildResumeApprovalEligibleAt cfg (pr_requestedAt r) \<le> ?now"
    and s1: "s1 = policy_write ((resumedPolicy oper role (sn_id sn) ?now p)\<lparr>sp_updatedAt := ?now\<rparr>)
      (s\<lparr>solvencyPolicyResumeRequests := update_rows pr_id k (granted oper role note ?now) (solvencyPolicyResumeRequests s)\<rparr>)"
    and r': "r' = granted oper role note ?now r" and t: "quiet s1 t"
    using assms unfolding approvePolicyResume_transaction_def
    by (auto simp: tx_iff put_Inr resumeRequest_update_def granted_def [abs_def] r0 k dest!: quiet_audit)
  from sn(1) have i: "sn_id sn = i" unfolding find_snapshot_def by (blast dest: find_key_Some)
  have "posted s s1 ((resumedPolicy oper role i ?now p)\<lparr>sp_updatedAt := ?now\<rparr>)
      (update_rows pr_id k (granted oper role note ?now) (solvencyPolicyResumeRequests s))"
    by (simp add: posted_def s1 i)
  from that [OF r0 r _ posted_quiet [OF this t] r'] show thesis using quiet_sel [OF t] sn i
    by (simp add: s1 resumable_def buildResumeApprovalEligibleAt_def)
qed

lemma reject_runs:
  assumes "rejectPolicyResume cfg k note oper role s = Inr (r', t)"
  obtains role' where "rejectPolicyResume_transaction k note oper role' s = Inr (r', t)"
  using assms by (auto simp: rejectPolicyResume_def assertCanApproveResume_def tx_iff)

lemma reject_effect:
  assumes "rejectPolicyResume_transaction k note oper role' s = Inr (r', t)"
  obtains f where "\<And>r. pr_id (f r) = pr_id r \<and> pr_status (f r) = rejected \<and> pr_requestedAt (f r) = pr_requestedAt r \<and>
      pr_expectedPolicyUpdatedAt (f r) = pr_expectedPolicyUpdatedAt r"
    "quiet (s\<lparr>solvencyPolicyResumeRequests := update_rows pr_id k f (solvencyPolicyResumeRequests s)\<rparr>) t"
proof -
  obtain s1 where t: "quiet s1 t" and s1: "s1 = s\<lparr>solvencyPolicyResumeRequests := update_rows pr_id k
      (\<lambda>r. r\<lparr>pr_status := rejected, pr_rejectedByOperatorId := Some oper, pr_rejectedByOperatorRole := Some role',
        pr_rejectionNote := coalesce (normalizeOptionalString note) (pr_rejectionNote r),
        pr_rejectedAt := Some (now_ms (so_db s))\<rparr>) (solvencyPolicyResumeRequests s)\<rparr>"
    using assms unfolding rejectPolicyResume_transaction_def resumeRequest_update_def
    by (auto simp: tx_iff dest!: quiet_audit)
  show thesis by (rule that [OF _ t [unfolded s1]]) simp
qed

lemma reject_policy: "rejectPolicyResume_transaction k note oper role' s = Inr (r', t) \<Longrightarrow> policy_of t = policy_of s"
  by (erule reject_effect) (drule quiet_sel(1), simp add: policy_of_def)

section \<open>Steps\<close>

text \<open>
  The calls of the intent services, alone or with their transaction reached late; the other callers
  of the policy gates; what the rest of the platform does meanwhile, which leaves the policy row
  alone; and the governance, a snapshot in its two commits, a request, an approval or a rejection
  also with its transaction reached late. The assets a snapshot is taken of have identifiers of their own, as rows
  of a table do.
\<close>

inductive solvency_step ::
  "solvency_config \<Rightarrow> service_config \<Rightarrow> evm_library \<Rightarrow> solvency_library \<Rightarrow> solvency_state \<Rightarrow> solvency_state \<Rightarrow> bool"
  for cfg svc evm lib where
  call: "run_call svc evm c (so_db s) = Inr (u, d) \<Longrightarrow> solvency_step cfg svc evm lib s (s\<lparr>so_db := d\<rparr>)"
| late: "late_part evm at c = Some (i, ty, m) \<Longrightarrow> intent_row (so_db s) i = Some r \<Longrightarrow> ti_intentType r = ty \<Longrightarrow>
    m (so_db s) = Inr (u, d) \<Longrightarrow> solvency_step cfg svc evm lib s (s\<lparr>so_db := d\<rparr>)"
| gate: "getOrCreatePolicyState (so_db s) = Inr (p, d) \<Longrightarrow> solvency_step cfg svc evm lib s (s\<lparr>so_db := d\<rparr>)"
| meanwhile: "elsewhere_step (so_db s) d \<Longrightarrow> solvencyPolicyState d = policy_of s \<Longrightarrow>
    now_ms (so_db s) \<le> now_ms d \<Longrightarrow> solvency_step cfg svc evm lib s (s\<lparr>so_db := d\<rparr>)"
| begin_snapshot: "createPendingSnapshot cfg s = Inr (row, t) \<Longrightarrow> solvency_step cfg svc evm lib s t"
| record_snapshot: "row \<in> set (solvencySnapshots s) \<Longrightarrow> sn_completedAt row = None \<Longrightarrow>
    distinct (map as_id (rd_assets rd)) \<Longrightarrow> recordSnapshot cfg lib signer provider rd actor row s = Inr (u, t) \<Longrightarrow> solvency_step cfg svc evm lib s t"
| fail_snapshot: "row \<in> set (solvencySnapshots s) \<Longrightarrow> sn_completedAt row = None \<Longrightarrow>
    failSnapshot lib actor (sn_id row) e s = Inr (u, t) \<Longrightarrow> solvency_step cfg svc evm lib s t"
| request_resume: "requestPolicyResume cfg i expected note oper role s = Inr (q, t) \<Longrightarrow> solvency_step cfg svc evm lib s t"
| request_late: "requestPolicyResume_transaction cfg i expected note oper role' s = Inr (q, t) \<Longrightarrow>
    solvency_step cfg svc evm lib s t"
| approve_resume: "approvePolicyResume cfg signer k note oper role s = Inr (q, t) \<Longrightarrow> solvency_step cfg svc evm lib s t"
| approve_late: "assertCanApproveResume cfg role s = Inr (role', s) \<Longrightarrow> find_resume_request k s = Some q \<Longrightarrow>
    pr_requestedByOperatorId q \<noteq> oper \<Longrightarrow>
    approvePolicyResume_transaction cfg signer k (pr_snapshotId q) note oper role' s = Inr (q', t) \<Longrightarrow>
    solvency_step cfg svc evm lib s t"
| reject_resume: "rejectPolicyResume cfg k note oper role s = Inr (q, t) \<Longrightarrow> solvency_step cfg svc evm lib s t"
| reject_late: "rejectPolicyResume_transaction k note oper role' s = Inr (q, t) \<Longrightarrow> solvency_step cfg svc evm lib s t"

definition empty_solvency :: "(nat \<Rightarrow> string) \<Rightarrow> int \<Rightarrow> solvency_state" where
  "empty_solvency gen now = \<lparr>so_db = empty_db gen now, solvencySnapshots = [], solvencyAssetSnapshots = [],
     solvencyLiabilityLeaves = [], solvencyReserveEvidence = [], solvencyIssues = [], solvencyReports = [],
     solvencyPolicyResumeRequests = []\<rparr>"

inductive solvency_reachable ::
  "solvency_config \<Rightarrow> service_config \<Rightarrow> evm_library \<Rightarrow> solvency_library \<Rightarrow> solvency_state \<Rightarrow> bool" for cfg svc evm lib where
  start: "inj gen \<Longrightarrow> solvency_reachable cfg svc evm lib (empty_solvency gen now)"
| step: "solvency_reachable cfg svc evm lib s \<Longrightarrow> solvency_step cfg svc evm lib s t \<Longrightarrow> solvency_reachable cfg svc evm lib t"

section \<open>The policy row has three postures\<close>

definition posture :: "SolvencyPolicyStateStatus \<Rightarrow> bool list \<Rightarrow> bool \<Rightarrow> bool \<Rightarrow> bool" where
  "posture st switches review resume \<longleftrightarrow> (\<forall>x\<in>set switches. x = (st = paused)) \<and>
     review = (st \<noteq> normal) \<and> resume = (st = paused)"

definition policy_ok :: "int \<Rightarrow> solvency_policy_state \<Rightarrow> bool" where
  "policy_ok now p \<longleftrightarrow> posture (sp_status p) [sp_pauseWithdrawalApprovals p, sp_pauseManagedWithdrawalExecution p,
       sp_pauseLoanFunding p, sp_pauseStakingWrites p] (sp_requireManualOperatorReview p) (sp_manualResumeRequired p) \<and>
     (sp_status p \<noteq> normal \<longrightarrow> sp_triggeredAt p \<noteq> None \<and> sp_clearedAt p = None \<and> sp_reasonCode p \<noteq> None) \<and>
     sp_updatedAt p \<le> now"

definition derived_ok :: "DerivedPolicyState \<Rightarrow> bool" where
  "derived_ok e \<longleftrightarrow> posture (der_status e) [der_pauseWithdrawalApprovals e, der_pauseManagedWithdrawalExecution e,
       der_pauseLoanFunding e, der_pauseStakingWrites e] (der_requireManualOperatorReview e) (der_manualResumeRequired e) \<and>
     (der_status e \<noteq> normal \<longrightarrow> der_reasonCode e \<noteq> None)"

lemma derived_postures:
  "derived_ok (derivePolicyState issues)" "derived_ok e \<Longrightarrow> derived_ok (effectivePolicyState p e)"
  by (auto simp: derived_ok_def derivePolicyState_def effectivePolicyState_def posture_def split: option.splits)

lemma policy_postures:
  "policy_ok now (initialPolicy now)"
  "derived_ok e \<Longrightarrow> policy_ok now (nextPolicyState cur e b i now)"
  "policy_ok now p \<Longrightarrow> policy_ok now (p\<lparr>sp_manualResumeRequestedAt := x, sp_updatedAt := now\<rparr>)"
  "policy_ok now p \<Longrightarrow> policy_ok now ((resumedPolicy oper role i at p)\<lparr>sp_updatedAt := now\<rparr>)"
  "policy_ok now p \<Longrightarrow> now \<le> later \<Longrightarrow> policy_ok later p"
  by (auto simp: policy_ok_def derived_ok_def posture_def initialPolicy_def nextPolicyState_def resumedPolicy_def)

section \<open>The invariant\<close>

definition snapshots_ok :: "solvency_state \<Rightarrow> bool" where
  "snapshots_ok s \<longleftrightarrow> distinct (map sn_id (solvencySnapshots s)) \<and>
     (\<forall>r\<in>set (solvencySnapshots s). (sn_completedAt r = None \<longrightarrow> sn_status r = SolvencySnapshotStatus.failed) \<and>
        (sn_status r \<noteq> SolvencySnapshotStatus.failed \<longrightarrow> report_for (sn_id r) s \<noteq> None))"

definition request_ok :: "solvency_config \<Rightarrow> solvency_state \<Rightarrow> solvency_policy_resume_request \<Rightarrow> bool" where
  "request_ok cfg s r \<longleftrightarrow> (\<exists>p. policy_of s = Some p \<and> pr_requestedAt r \<le> sp_updatedAt p) \<and>
     pr_expectedPolicyUpdatedAt r \<le> pr_requestedAt r \<and>
     (pr_status r = SolvencyPolicyResumeRequestStatus.approved \<longrightarrow> (\<exists>oper role at. pr_approvedByOperatorId r = Some oper \<and>
        oper \<noteq> pr_requestedByOperatorId r \<and> pr_approvedByOperatorRole r = Some role \<and>
        role \<in> set (resumeApproverAllowedOperatorRoles cfg) \<and> pr_approvedAt r = Some at \<and>
        resumable cfg s (pr_snapshotId r) (pr_requestedAt r) at))"

definition solvency_inv :: "solvency_config \<Rightarrow> solvency_state \<Rightarrow> bool" where
  "solvency_inv cfg s \<longleftrightarrow> service_inv (so_db s) \<and>
     (\<forall>p. policy_of s = Some p \<longrightarrow> policy_ok (now_ms (so_db s)) p) \<and> snapshots_ok s \<and>
     distinct (map pr_id (solvencyPolicyResumeRequests s)) \<and> (\<forall>r\<in>set (solvencyPolicyResumeRequests s). request_ok cfg s r)"

text \<open>What no step takes back.\<close>

definition grows :: "solvency_state \<Rightarrow> solvency_state \<Rightarrow> bool" where
  "grows s t \<longleftrightarrow> (\<forall>p. policy_of s = Some p \<longrightarrow> (\<exists>q. policy_of t = Some q \<and> sp_updatedAt p \<le> sp_updatedAt q)) \<and>
     (\<forall>i sn. find_snapshot i s = Some sn \<longrightarrow> sn_status sn = SolvencySnapshotStatus.healthy \<longrightarrow> find_snapshot i t = Some sn) \<and>
     (\<forall>i. report_for i s \<noteq> None \<longrightarrow> report_for i t \<noteq> None)"

lemma resumable_grows: "grows s t \<Longrightarrow> resumable cfg s i a b \<Longrightarrow> resumable cfg t i a b"
  unfolding grows_def resumable_def by blast

lemma request_ok_grows: "grows s t \<Longrightarrow> request_ok cfg s r \<Longrightarrow> request_ok cfg t r"
  unfolding request_ok_def by (meson grows_def order_trans resumable_grows)

lemma request_ok_rejected:
  "request_ok cfg s r \<Longrightarrow> pr_status q = rejected \<Longrightarrow> pr_requestedAt q = pr_requestedAt r \<Longrightarrow>
     pr_expectedPolicyUpdatedAt q = pr_expectedPolicyUpdatedAt r \<Longrightarrow> request_ok cfg s q"
  unfolding request_ok_def by (metis SolvencyPolicyResumeRequestStatus.distinct(5))

lemma supersede_ok: "request_ok cfg s r \<Longrightarrow> request_ok cfg s (supersede now r)"
  by (auto simp: supersede_def elim: request_ok_rejected)

lemma supersede_ids: "map pr_id (map (supersede now) rows) = map pr_id rows"
  by (simp add: supersede_def)

section \<open>Every step keeps it\<close>

lemma same_tables:
  assumes "solvencySnapshots t = solvencySnapshots s" "solvencyReports t = solvencyReports s"
  shows "find_snapshot i t = find_snapshot i s" "report_for i t = report_for i s" "snapshots_ok t = snapshots_ok s"
  using assms by (simp_all add: find_snapshot_def report_for_def snapshots_ok_def)

lemma grows_same:
  assumes "solvencySnapshots t = solvencySnapshots s" "solvencyReports t = solvencyReports s"
    "\<And>p. policy_of s = Some p \<Longrightarrow> \<exists>q. policy_of t = Some q \<and> sp_updatedAt p \<le> sp_updatedAt q"
  shows "grows s t"
  using assms(3) unfolding grows_def same_tables [OF assms(1,2)] by blast

lemma invI:
  assumes inv: "solvency_inv cfg s" and "service_inv (so_db t)" "\<And>p. policy_of t = Some p \<Longrightarrow> policy_ok (now_ms (so_db t)) p"
    "grows s t" "snapshots_ok t" "distinct (map pr_id (solvencyPolicyResumeRequests t))"
    "\<And>r. r \<in> set (solvencyPolicyResumeRequests t) \<Longrightarrow> request_ok cfg s r \<or> request_ok cfg t r"
  shows "solvency_inv cfg t"
  using assms request_ok_grows [OF assms(4)] unfolding solvency_inv_def by blast

lemma inv_parts:
  assumes "solvency_inv cfg s"
  shows "service_inv (so_db s)" "policy_of s = Some p \<Longrightarrow> policy_ok (now_ms (so_db s)) p" "snapshots_ok s"
    "distinct (map pr_id (solvencyPolicyResumeRequests s))" "r \<in> set (solvencyPolicyResumeRequests s) \<Longrightarrow> request_ok cfg s r"
  using assms by (auto simp: solvency_inv_def)

text \<open>A step that changes the database only, and the policy row at most by creating it.\<close>

lemma db_step:
  assumes inv: "solvency_inv cfg s" and d: "service_inv d" "now_ms (so_db s) \<le> now_ms d"
    and p: "solvencyPolicyState d = policy_of s \<or> policy_of s = None \<and> solvencyPolicyState d = Some (initialPolicy (now_ms d))"
  shows "solvency_inv cfg (s\<lparr>so_db := d\<rparr>)"
proof (rule invI [OF inv])
  show "service_inv (so_db (s\<lparr>so_db := d\<rparr>))" using d by simp
  show "policy_ok (now_ms (so_db (s\<lparr>so_db := d\<rparr>))) q" if "policy_of (s\<lparr>so_db := d\<rparr>) = Some q" for q
  proof -
    from that p have "policy_of s = Some q \<or> q = initialPolicy (now_ms d)" by (auto simp: policy_of_def)
    then show ?thesis using inv_parts(2) [OF inv, of q] d(2) policy_postures(1,5) by auto
  qed
  show "grows s (s\<lparr>so_db := d\<rparr>)" by (rule grows_same) (use p in \<open>auto simp: policy_of_def\<close>)
  show "snapshots_ok (s\<lparr>so_db := d\<rparr>)" using inv_parts(3) [OF inv] same_tables(3) [of "s\<lparr>so_db := d\<rparr>" s] by simp
  show "distinct (map pr_id (solvencyPolicyResumeRequests (s\<lparr>so_db := d\<rparr>)))" using inv_parts(4) [OF inv] by simp
  show "request_ok cfg s r \<or> request_ok cfg (s\<lparr>so_db := d\<rparr>) r"
    if "r \<in> set (solvencyPolicyResumeRequests (s\<lparr>so_db := d\<rparr>))" for r
    using that inv_parts(5) [OF inv] by simp
qed

lemma gated_step:
  "solvency_inv cfg s \<Longrightarrow> service_inv d \<Longrightarrow> gated (solvencyPolicyState (so_db s)) (now_ms (so_db s)) d \<Longrightarrow>
     solvency_inv cfg (s\<lparr>so_db := d\<rparr>)"
  by (rule db_step) (auto simp: gated_def policy_of_def)

text \<open>A quiet step, and one that writes the policy row.\<close>

lemma quiet_inv:
  assumes "solvency_inv cfg s" "quiet s t" shows "solvency_inv cfg t"
proof -
  from assms(2) obtain d where d: "t = s\<lparr>so_db := d\<rparr>" "same_core (so_db s) d" "solvencyPolicyState d = solvencyPolicyState (so_db s)"
    by (auto simp: quiet_def)
  show ?thesis unfolding d(1)
    by (rule db_step [OF assms(1)]) (use d inv_parts(1) [OF assms(1)] service_inv_bookkeeping same_core_now in
      \<open>auto simp: policy_of_def\<close>)
qed

lemma posted_inv:
  assumes inv: "solvency_inv cfg s" and t: "posted s t q rs" and q: "policy_ok (now_ms (so_db s)) q" "sp_updatedAt q = now_ms (so_db s)"
    and snaps: "snapshots_ok t" "\<And>i sn. find_snapshot i s = Some sn \<Longrightarrow> sn_status sn = SolvencySnapshotStatus.healthy \<Longrightarrow> find_snapshot i t = Some sn"
      "\<And>i. report_for i s \<noteq> None \<Longrightarrow> report_for i t \<noteq> None"
    and rs: "distinct (map pr_id rs)" "\<And>r. r \<in> set rs \<Longrightarrow> request_ok cfg s r \<or> request_ok cfg t r"
  shows "solvency_inv cfg t"
proof (rule invI [OF inv _ _ _ snaps(1)])
  have t': "policy_of t = Some q" "solvencyPolicyResumeRequests t = rs" and core: "same_core (so_db s) (so_db t)"
    using t by (simp_all add: posted_def)
  show "service_inv (so_db t)" by (rule service_inv_bookkeeping [OF inv_parts(1) [OF inv] core])
  show "policy_ok (now_ms (so_db t)) p" if "policy_of t = Some p" for p
    using that t' q same_core_now [OF core] by simp
  show "grows s t"
    unfolding grows_def using t' q(2) inv_parts(2) [OF inv] snaps by (auto simp: policy_ok_def)
  show "distinct (map pr_id (solvencyPolicyResumeRequests t))" using rs t' by simp
  show "request_ok cfg s r \<or> request_ok cfg t r" if "r \<in> set (solvencyPolicyResumeRequests t)" for r
    using that rs t' by simp
qed

text \<open>Completing a pending snapshot's row.\<close>

lemma complete_row:
  assumes ok: "snapshots_ok s" and row: "row \<in> set (solvencySnapshots s)" "sn_completedAt row = None"
    and f: "\<And>r. sn_id (f r) = sn_id r" "\<And>r. sn_completedAt (f r) \<noteq> None"
    and t: "solvencySnapshots t = update_rows sn_id (sn_id row) f (solvencySnapshots s)"
    and reports: "\<And>i. report_for i s \<noteq> None \<Longrightarrow> report_for i t \<noteq> None"
      "\<And>r. sn_status (f r) \<noteq> SolvencySnapshotStatus.failed \<Longrightarrow> report_for (sn_id row) t \<noteq> None"
  shows "snapshots_ok t"
    and "find_snapshot i s = Some sn \<Longrightarrow> sn_status sn = SolvencySnapshotStatus.healthy \<Longrightarrow> find_snapshot i t = Some sn"
proof -
  have dist: "distinct (map sn_id (solvencySnapshots s))" using ok by (simp add: snapshots_ok_def)
  show "snapshots_ok t"
    unfolding snapshots_ok_def t
  proof (intro conjI ballI)
    show "distinct (map sn_id (update_rows sn_id (sn_id row) f (solvencySnapshots s)))"
      using dist by (simp add: map_update_rows f(1))
    fix r assume "r \<in> set (update_rows sn_id (sn_id row) f (solvencySnapshots s))"
    from set_update_rows [OF this] consider r0 where "r = f r0" "sn_id r0 = sn_id row" | "r \<in> set (solvencySnapshots s)" by blast
    then show "sn_completedAt r = None \<longrightarrow> sn_status r = SolvencySnapshotStatus.failed"
      "sn_status r \<noteq> SolvencySnapshotStatus.failed \<longrightarrow> report_for (sn_id r) t \<noteq> None"
      using ok f reports by (cases; auto simp: snapshots_ok_def)+
  qed
  show "find_snapshot i t = Some sn" if sn: "find_snapshot i s = Some sn" "sn_status sn = SolvencySnapshotStatus.healthy"
  proof -
    have "i \<noteq> sn_id row"
    proof
      assume "i = sn_id row"
      with find_key_unique [OF dist row(1)] sn(1) have "sn = row" by (simp add: find_snapshot_def)
      with sn(2) row ok show False by (auto simp: snapshots_ok_def)
    qed
    with sn(1) show ?thesis by (simp add: find_snapshot_def t find_update_rows f(1))
  qed
qed

lemma begin_inv:
  assumes inv: "solvency_inv cfg s" and run: "createPendingSnapshot cfg s = Inr (row, t)"
  shows "solvency_inv cfg t"
proof -
  from run obtain d where row: "sn_id row \<notin> sn_id ` set (solvencySnapshots s)" "sn_completedAt row = None"
      "sn_status row = SolvencySnapshotStatus.failed"
    and t: "t = s\<lparr>so_db := d, solvencySnapshots := solvencySnapshots s @ [row]\<rparr>"
    and d: "same_core (so_db s) d" "solvencyPolicyState d = solvencyPolicyState (so_db s)"
    by (auto simp: createPendingSnapshot_def tx_iff cuid_Inr Let_def same_core_def off_ledger_def same_money_def)
  have "quiet s (s\<lparr>so_db := d\<rparr>)" using d by (auto simp: quiet_def)
  from quiet_inv [OF inv this] have mid: "solvency_inv cfg (s\<lparr>so_db := d\<rparr>)" .
  have rep: "report_for i t = report_for i s" for i by (simp add: report_for_def t)
  have "snapshots_ok t"
    using inv_parts(3) [OF inv] row unfolding snapshots_ok_def rep by (auto simp: t)
  moreover have "grows (s\<lparr>so_db := d\<rparr>) t"
    by (auto simp: grows_def t policy_of_def find_snapshot_def find_append report_for_def)
  ultimately show ?thesis
    using mid by (intro invI [OF mid]) (auto simp: t solvency_inv_def policy_of_def)
qed

lemma resolved_status: "resolveStatusFromIssues issues \<noteq> SolvencySnapshotStatus.failed"
  by (simp add: resolveStatusFromIssues_def)

lemma report_for_append:
  "solvencyReports t = solvencyReports s @ [rep] \<Longrightarrow> report_for i s \<noteq> None \<Longrightarrow> report_for i t \<noteq> None"
  "solvencyReports t = solvencyReports s @ [rep] \<Longrightarrow> spr_snapshotId rep = i \<Longrightarrow> report_for i t \<noteq> None"
  by (auto simp: report_for_def find_append split: option.splits)

lemma record_inv:
  assumes inv: "solvency_inv cfg s" and row: "row \<in> set (solvencySnapshots s)" "sn_completedAt row = None"
    and run: "recordSnapshot cfg lib signer provider rd actor row s = Inr (u, t)"
  shows "solvency_inv cfg t"
proof -
  obtain cs sr where "generateSnapshot_transaction cfg (sn_id row) cs (concat (map asc_issues cs))
      (derivePolicyState (concat (map asc_issues cs))) (buildSnapshotSummary cs (concat (map asc_issues cs))) sr actor s = Inr (u, t)"
    using record_transaction [OF run] by metis
  from transaction_effect [OF this] obtain b rs rep f where
    p: "posted s t (nextPolicyState (policy_of s) (effectivePolicyState (policy_of s)
        (derivePolicyState (concat (map asc_issues cs)))) b (sn_id row) (now_ms (so_db s))) rs"
    and rs: "rs = solvencyPolicyResumeRequests s \<or> rs = map (supersede (now_ms (so_db s))) (solvencyPolicyResumeRequests s)"
    and snaps: "solvencySnapshots t = update_rows sn_id (sn_id row) f (solvencySnapshots s)"
      "\<And>r. sn_id (f r) = sn_id r" "\<And>r. sn_completedAt (f r) \<noteq> None"
    and rep: "spr_snapshotId rep = sn_id row" "solvencyReports t = solvencyReports s @ [rep]"
    by (metis (no_types, lifting) completed_sel(1,3) option.distinct(1))
  note done_row = complete_row [OF inv_parts(3) [OF inv] row snaps(2,3,1) report_for_append(1) [OF rep(2)]
      report_for_append(2) [OF rep(2,1)]]
  show ?thesis
  proof (rule posted_inv [OF inv p _ _ done_row(1) done_row(2) report_for_append(1) [OF rep(2)]])
    show "policy_ok (now_ms (so_db s)) (nextPolicyState (policy_of s) (effectivePolicyState (policy_of s)
        (derivePolicyState (concat (map asc_issues cs)))) b (sn_id row) (now_ms (so_db s)))"
      by (intro policy_postures derived_postures)
    show "distinct (map pr_id rs)" using rs inv_parts(4) [OF inv] supersede_ids by metis
    show "request_ok cfg s r \<or> request_ok cfg t r" if "r \<in> set rs" for r
      using that rs inv_parts(5) [OF inv] supersede_ok by auto
  qed (simp_all add: nextPolicyState_def)
qed

lemma fail_inv:
  assumes inv: "solvency_inv cfg s" and row: "row \<in> set (solvencySnapshots s)" "sn_completedAt row = None"
    and run: "failSnapshot lib actor (sn_id row) e s = Inr (u, t)"
  shows "solvency_inv cfg t"
proof -
  define f where "f = (\<lambda>r :: solvency_snapshot. r\<lparr>sn_completedAt := Some (now_ms (so_db s)),
    sn_status := SolvencySnapshotStatus.failed, sn_evidenceFreshness := unknown,
    sn_failureCode := Some (fst (normalizeError lib e)), sn_failureMessage := Some (snd (normalizeError lib e))\<rparr>)"
  have f: "sn_id (f r) = sn_id r" "sn_completedAt (f r) \<noteq> None" "sn_status (f r) = SolvencySnapshotStatus.failed" for r
    by (simp_all add: f_def)
  define s1 where s1: "s1 = s\<lparr>solvencySnapshots := update_rows sn_id (sn_id row) f (solvencySnapshots s)\<rparr>"
  have t: "quiet s1 t"
    using run by (auto simp: failSnapshot_def tx_iff update_snapshot_Inr s1 f_def dest!: quiet_audit)
  have rep: "report_for i s1 = report_for i s" for i by (simp add: report_for_def s1)
  have snaps: "solvencySnapshots s1 = update_rows sn_id (sn_id row) f (solvencySnapshots s)" by (simp add: s1)
  have done_row: "snapshots_ok s1"
    "find_snapshot i s = Some sn \<Longrightarrow> sn_status sn = SolvencySnapshotStatus.healthy \<Longrightarrow> find_snapshot i s1 = Some sn" for i sn
    by (rule complete_row [OF inv_parts(3) [OF inv] row f(1,2) snaps]; simp add: rep f(3))+
  have "solvency_inv cfg s1"
    by (rule invI [OF inv]) (use inv done_row in \<open>auto simp: s1 solvency_inv_def policy_of_def grows_def report_for_def\<close>)
  then show ?thesis by (rule quiet_inv [OF _ t])
qed

lemma asked_ok:
  "asked cfg expected now oper rows r \<Longrightarrow> policy_of t = Some q \<Longrightarrow> sp_updatedAt q = now \<Longrightarrow> expected \<le> now \<Longrightarrow>
     request_ok cfg t r"
  by (simp add: asked_def request_ok_def)

lemma request_transaction_inv:
  assumes inv: "solvency_inv cfg s" and run: "requestPolicyResume_transaction cfg i expected note oper role s = Inr (q, t)"
  shows "solvency_inv cfg t"
proof -
  from request_transaction_effect [OF run] obtain p where p: "policy_of s = Some p" "sp_updatedAt p = expected"
    and posted: "posted s t (p\<lparr>sp_manualResumeRequestedAt := Some (now_ms (so_db s)), sp_updatedAt := now_ms (so_db s)\<rparr>)
      (solvencyPolicyResumeRequests s @ [q])"
    and q: "asked cfg expected (now_ms (so_db s)) oper (solvencyPolicyResumeRequests s) q"
    and same: "solvencySnapshots t = solvencySnapshots s" "solvencyReports t = solvencyReports s" by blast
  have ok: "policy_ok (now_ms (so_db s)) p" by (rule inv_parts(2) [OF inv p(1)])
  have "request_ok cfg t q"
    by (rule asked_ok [OF q, where q = "p\<lparr>sp_manualResumeRequestedAt := Some (now_ms (so_db s)), sp_updatedAt := now_ms (so_db s)\<rparr>"])
      (use posted ok p(2) in \<open>auto simp: posted_def policy_ok_def\<close>)
  then show ?thesis
    using inv_parts(3,4,5) [OF inv] q same_tables [OF same]
    by (intro posted_inv [OF inv posted policy_postures(3) [OF ok]]) (auto simp: asked_def)
qed

lemma gate_inv:
  assumes "solvency_inv cfg s" "getOrCreatePolicyState (so_db s) = Inr (p, d)"
  shows "solvency_inv cfg (s\<lparr>so_db := d\<rparr>)"
proof (rule gated_step [OF assms(1)])
  have "same_core (so_db s) d"
    using assms(2) by (auto simp: getOrCreate_Inr same_core_def off_ledger_def same_money_def split: option.splits)
  with inv_parts(1) [OF assms(1)] show "service_inv d" by (rule service_inv_bookkeeping)
  show "gated (solvencyPolicyState (so_db s)) (now_ms (so_db s)) d"
    by (rule keepsD [OF gate.keeps_gate assms(2) gated_start])
qed

lemma request_runs:
  assumes "requestPolicyResume cfg i expected note oper role s = Inr (q, t)"
  obtains p d i' note' role' where "getOrCreatePolicyState (so_db s) = Inr (p, d)" "sp_status p = paused"
    "requestPolicyResume_transaction cfg i' expected note' oper role' (s\<lparr>so_db := d\<rparr>) = Inr (q, t)"
  using assms by (auto simp: requestPolicyResume_def assertCanRequestResume_def tx_iff)

lemma approve_runs:
  assumes "approvePolicyResume cfg signer k note oper role s = Inr (q, t)"
  obtains r note' role' where "find_resume_request k s = Some r" "pr_requestedByOperatorId r \<noteq> oper"
    "assertCanApproveResume cfg role s = Inr (role', s)"
    "approvePolicyResume_transaction cfg signer k (pr_snapshotId r) note' oper role' s = Inr (q, t)"
  using assms by (auto simp: approvePolicyResume_def assertCanApproveResume_def tx_iff)

lemma approver_role: "assertCanApproveResume cfg role s = Inr (role', u) \<Longrightarrow> role' \<in> set (resumeApproverAllowedOperatorRoles cfg)"
  by (auto simp: assertCanApproveResume_def assertOperatorRoleAuthorized_Inr authorized_def normalizeOperatorRole_def)

lemma approve_transaction_inv:
  assumes inv: "solvency_inv cfg s" and k: "find_resume_request k s = Some r" "pr_requestedByOperatorId r \<noteq> oper"
    and role: "role \<in> set (resumeApproverAllowedOperatorRoles cfg)"
    and run: "approvePolicyResume_transaction cfg signer k (pr_snapshotId r) note oper role s = Inr (q, t)"
  shows "solvency_inv cfg t"
proof -
  let ?now = "now_ms (so_db s)"
  let ?g = "granted oper role note ?now"
  from approve_transaction_effect [OF run] k(1) obtain p where p: "policy_of s = Some p" and r: "pr_status r = pending_approval"
    and ready: "resumable cfg s (pr_snapshotId r) (pr_requestedAt r) ?now"
    and posted: "posted s t ((resumedPolicy oper role (pr_snapshotId r) ?now p)\<lparr>sp_updatedAt := ?now\<rparr>)
      (update_rows pr_id k ?g (solvencyPolicyResumeRequests s))"
    and same: "solvencySnapshots t = solvencySnapshots s" "solvencyReports t = solvencyReports s" by auto
  have ok: "policy_ok ?now p" by (rule inv_parts(2) [OF inv p])
  have row: "r \<in> set (solvencyPolicyResumeRequests s)" "pr_id r = k"
    using k(1) unfolding find_resume_request_def by (blast dest: find_key_Some)+
  have g: "pr_id (?g x) = pr_id x" for x by (simp add: granted_def)
  from inv_parts(5) [OF inv row(1)] p ok have "pr_requestedAt r \<le> ?now" "pr_expectedPolicyUpdatedAt r \<le> pr_requestedAt r"
    by (auto simp: request_ok_def policy_ok_def)
  moreover have "resumable cfg t (pr_snapshotId r) (pr_requestedAt r) ?now"
    using ready same_tables(1,2) [OF same] by (simp add: resumable_def)
  moreover have "policy_of t = Some ((resumedPolicy oper role (pr_snapshotId r) ?now p)\<lparr>sp_updatedAt := ?now\<rparr>)"
    using posted by (simp add: posted_def)
  ultimately have "request_ok cfg t (?g r)" using k(2) role by (simp add: request_ok_def granted_def)
  moreover have "x = r" if "x \<in> set (solvencyPolicyResumeRequests s)" "pr_id x = k" for x
    using that row inv_parts(4) [OF inv] by (auto simp: distinct_map inj_on_def)
  ultimately have "request_ok cfg s x \<or> request_ok cfg t x"
    if "x \<in> set (update_rows pr_id k ?g (solvencyPolicyResumeRequests s))" for x
    using set_update_rows [OF that] inv_parts(5) [OF inv] by blast
  then show ?thesis
    using inv_parts(3,4) [OF inv] same_tables [OF same]
    by (intro posted_inv [OF inv posted policy_postures(4) [OF ok]]) (auto simp: map_update_rows g)
qed

lemma reject_inv:
  assumes inv: "solvency_inv cfg s" and run: "rejectPolicyResume_transaction k note oper role' s = Inr (q, t)"
  shows "solvency_inv cfg t"
proof -
  from reject_effect [OF run] obtain f where f: "\<And>r. pr_id (f r) = pr_id r \<and> pr_status (f r) = rejected \<and>
      pr_requestedAt (f r) = pr_requestedAt r \<and> pr_expectedPolicyUpdatedAt (f r) = pr_expectedPolicyUpdatedAt r"
    and t: "quiet (s\<lparr>solvencyPolicyResumeRequests := update_rows pr_id k f (solvencyPolicyResumeRequests s)\<rparr>) t" by blast
  let ?u = "s\<lparr>solvencyPolicyResumeRequests := update_rows pr_id k f (solvencyPolicyResumeRequests s)\<rparr>"
  have "solvency_inv cfg ?u"
  proof (rule invI [OF inv])
    show "distinct (map pr_id (solvencyPolicyResumeRequests ?u))" using inv_parts(4) [OF inv] f by (simp add: map_update_rows)
    show "request_ok cfg s r \<or> request_ok cfg ?u r" if "r \<in> set (solvencyPolicyResumeRequests ?u)" for r
    proof -
      from that have "r \<in> set (update_rows pr_id k f (solvencyPolicyResumeRequests s))" by simp
      from set_update_rows [OF this] show ?thesis using inv_parts(5) [OF inv] f request_ok_rejected by metis
    qed
    show "grows s ?u" by (rule grows_same) (auto simp: policy_of_def)
  qed (use inv_parts [OF inv] same_tables(3) [of "?u" s] in \<open>auto simp: policy_of_def\<close>)
  then show ?thesis by (rule quiet_inv [OF _ t])
qed

lemma solvency_inv_step: "solvency_step cfg svc evm lib s t \<Longrightarrow> solvency_inv cfg s \<Longrightarrow> solvency_inv cfg t"
proof (induction rule: solvency_step.induct)
  case (call c s u d)
  then show ?case using gated_step service_inv_step [OF service_step.call] inv_parts(1) call_policy(1) by blast
next
  case (late at c i ty m s r u d)
  from service_inv_step [OF service_step.late [OF late(1-4)] inv_parts(1) [OF late(5)]] call_policy(2) [OF late(1,4)]
  show ?case by (rule gated_step [OF late(5)])
next
  case (meanwhile s d)
  then show ?case using db_step elsewhere_keeps inv_parts(1) by blast
next
  case (request_resume i expected nt oper role s q t)
  from request_runs [OF request_resume(1)] gate_inv [OF request_resume(2)] request_transaction_inv show ?case by metis
next
  case (approve_resume signer k nt oper role s q t)
  from approve_runs [OF approve_resume(1)] approve_transaction_inv [OF approve_resume(2)] approver_role
  show ?case by metis
next
  case (reject_resume k nt oper role s q t)
  then show ?case by (blast elim: reject_runs intro: reject_inv)
qed (blast intro: gate_inv begin_inv record_inv fail_inv request_transaction_inv approve_transaction_inv approver_role reject_inv)+

lemma solvency_reachable_inv: "solvency_reachable cfg svc evm lib s \<Longrightarrow> solvency_inv cfg s"
proof (induction rule: solvency_reachable.induct)
  case (start gen now)
  from service_reachable_inv [OF service_reachable.start [OF start]] show ?case
    by (simp add: solvency_inv_def empty_solvency_def policy_of_def snapshots_ok_def empty_db_def)
qed (rule solvency_inv_step)

text \<open>The handler of a snapshot is a sequence of such steps.\<close>

lemma generateSnapshot_steps:
  assumes "generateSnapshot cfg lib signer provider rd actor s = (res, t)" "distinct (map as_id (rd_assets rd))"
  shows "(solvency_step cfg svc evm lib)\<^sup>*\<^sup>* s t"
proof (cases "createPendingSnapshot cfg s")
  case (Inl e)
  with assms(1) show ?thesis by (simp add: generateSnapshot_def)
next
  case (Inr x)
  then obtain row s1 where pend: "createPendingSnapshot cfg s = Inr (row, s1)" by (cases x) auto
  have row: "row \<in> set (solvencySnapshots s1)" "sn_completedAt row = None"
    using pend by (auto simp: createPendingSnapshot_def tx_iff Let_def)
  have first: "solvency_step cfg svc evm lib s s1" by (rule begin_snapshot [OF pend])
  have "t = s1 \<or> (\<exists>s2 u p d. recordSnapshot cfg lib signer provider rd actor row s1 = Inr (u, s2) \<and>
      getOrCreatePolicyState (so_db s2) = Inr (p, d) \<and> t = s2\<lparr>so_db := d\<rparr>) \<or>
    (\<exists>e u. failSnapshot lib actor (sn_id row) e s1 = Inr (u, t))"
    using assms(1) by (auto simp: generateSnapshot_def pend tx_iff split: sum.splits)
  then show ?thesis
    using first record_snapshot [OF row assms(2)] fail_snapshot [OF row] gate
    by (metis (no_types, lifting) converse_rtranclp_into_rtranclp rtranclp.rtrancl_refl)
qed

lemma solvency_reachable_steps:
  "(solvency_step cfg svc evm lib)\<^sup>*\<^sup>* s t \<Longrightarrow> solvency_reachable cfg svc evm lib s \<Longrightarrow> solvency_reachable cfg svc evm lib t"
  by (induction rule: rtranclp_induct) (auto intro: solvency_reachable.step)

section \<open>What lifts a pause\<close>

lemma held_status: "sp_status p = paused \<Longrightarrow> sp_manualResumeRequired p \<Longrightarrow>
    sp_status (nextPolicyState (Some p) (effectivePolicyState (Some p) e) b i now) = paused"
  by (simp add: nextPolicyState_def effectivePolicyState_def holdPausedForManualResume_def)

definition approval_on_record :: "solvency_config \<Rightarrow> solvency_state \<Rightarrow> solvency_state \<Rightarrow> string \<Rightarrow> bool" where
  "approval_on_record cfg s t k \<longleftrightarrow> (\<exists>r r' oper role. find_resume_request k s = Some r \<and> pr_status r = pending_approval \<and>
     find_resume_request k t = Some r' \<and> pr_status r' = SolvencyPolicyResumeRequestStatus.approved \<and>
     pr_requestedByOperatorId r' = pr_requestedByOperatorId r \<and> pr_approvedByOperatorId r' = Some oper \<and>
     oper \<noteq> pr_requestedByOperatorId r \<and> pr_approvedByOperatorRole r' = Some role \<and>
     role \<in> set (resumeApproverAllowedOperatorRoles cfg) \<and>
     resumable cfg s (pr_snapshotId r) (pr_requestedAt r) (now_ms (so_db s)))"

lemma approval_recorded:
  assumes k: "find_resume_request k s = Some r" "pr_requestedByOperatorId r \<noteq> oper"
    and role: "role \<in> set (resumeApproverAllowedOperatorRoles cfg)"
    and run: "approvePolicyResume_transaction cfg signer k (pr_snapshotId r) note oper role s = Inr (q, t)"
  shows "approval_on_record cfg s t k"
proof -
  let ?g = "granted oper role note (now_ms (so_db s))"
  from approve_transaction_effect [OF run] k(1) have r: "pr_status r = pending_approval"
    and ready: "resumable cfg s (pr_snapshotId r) (pr_requestedAt r) (now_ms (so_db s))"
    and rows: "solvencyPolicyResumeRequests t = update_rows pr_id k ?g (solvencyPolicyResumeRequests s)"
    by (auto simp: posted_def)
  have "find_resume_request k t = Some (?g r)"
    using k(1) by (simp add: find_resume_request_def rows find_update_rows granted_def)
  with k r ready role show ?thesis by (simp add: approval_on_record_def granted_def)
qed

lemma pause_lifted:
  assumes "solvency_step cfg svc evm lib s t" "solvency_inv cfg s" "policy_of s = Some p" "sp_status p = paused"
    "policy_of t = Some q" "sp_status q \<noteq> paused"
  shows "\<exists>k. approval_on_record cfg s t k"
  using assms
proof (induction rule: solvency_step.induct)
  case (call c s u d)
  with call_policy(1) [OF call(1)] show ?case by (auto simp: gated_def policy_of_def)
next
  case (late at c i ty m s r u d)
  with call_policy(2) [OF late(1,4)] show ?case by (auto simp: gated_def policy_of_def)
next
  case (gate s p d)
  then show ?case by (auto simp: getOrCreate_Inr policy_of_def split: option.splits)
next
  case (meanwhile s d)
  then show ?case by (simp add: policy_of_def)
next
  case (begin_snapshot s row t)
  then have "policy_of t = policy_of s" by (auto simp: createPendingSnapshot_def tx_iff cuid_Inr Let_def policy_of_def)
  with begin_snapshot show ?case by simp
next
  case (record_snapshot row s rd signer provider actor u t)
  have "sp_manualResumeRequired p"
    using inv_parts(2) [OF record_snapshot(5,6)] record_snapshot(7) by (simp add: policy_ok_def posture_def)
  then have "sp_status q = paused"
    using record_transaction [OF record_snapshot(4)] transaction_effect held_status [OF record_snapshot(7)] record_snapshot(6,8)
    by (metis (no_types, lifting) option.inject posted_def)
  with record_snapshot(9) show ?case by simp
next
  case (fail_snapshot row s actor e u t)
  then have "policy_of t = policy_of s"
    by (auto simp: failSnapshot_def tx_iff update_snapshot_Inr policy_of_def dest!: quiet_audit quiet_sel(1))
  with fail_snapshot show ?case by simp
next
  case (request_resume i expected nt oper role s r t)
  from request_effect [OF request_resume(1)] obtain p' where "sp_status p' = paused"
    "policy_of t = Some (p'\<lparr>sp_manualResumeRequestedAt := Some (now_ms (so_db s)), sp_updatedAt := now_ms (so_db s)\<rparr>)"
    unfolding posted_def by metis
  with request_resume(5,6) show ?case by auto
next
  case (request_late i expected nt oper role' s r t)
  from request_transaction_effect [OF request_late(1)] obtain p' where "policy_of s = Some p'"
    "policy_of t = Some (p'\<lparr>sp_manualResumeRequestedAt := Some (now_ms (so_db s)), sp_updatedAt := now_ms (so_db s)\<rparr>)"
    unfolding posted_def by metis
  with request_late(3-6) have "sp_status q = paused" by auto
  with request_late(6) show ?case by simp
next
  case (approve_resume signer k nt oper role s r t)
  from approve_runs [OF approve_resume(1)] approval_recorded approver_role show ?case by metis
next
  case (approve_late role s role' k r oper signer nt r' t)
  from approval_recorded [OF approve_late(2,3) approver_role [OF approve_late(1)] approve_late(4)] show ?case by blast
next
  case (reject_resume k nt oper role s r t)
  from reject_runs [OF reject_resume(1)] reject_policy have "policy_of t = policy_of s" by metis
  with reject_resume show ?case by simp
next
  case (reject_late k nt oper role' s r t)
  from reject_policy [OF reject_late(1)] reject_late show ?case by simp
qed

end
