(* ===== verification/Solvency_Proofs.thy ===== *)
theory Solvency_Proofs
  imports Solvency_System
begin

text \<open>
  The inclusion proof a customer asks for (\<open>getCustomerLiabilityInclusionProof\<close> of
  \<open>solvency/solvency.service.ts\<close>) and why it verifies: the leaves stored with a snapshot are, asset
  by asset, the leaves its Merkle root was built over, and the root is in the signed report.
\<close>

section \<open>The request\<close>

record liability_inclusion_proof =
  ip_asset :: asset
  ip_leafIndex :: nat
  ip_leafHash :: string
  ip_rootHash :: string
  ip_proof :: "string list"
  ip_payload :: LiabilityLeafPayload

record CustomerLiabilityInclusionProofResult =
  ic_report :: solvency_report
  ic_snapshot :: solvency_snapshot
  ic_customerAccountId :: string
  ic_proofs :: "liability_inclusion_proof list"

text \<open>The snapshot asked for, or the newest with a report.\<close>

definition proof_snapshot :: "solvency_config \<Rightarrow> string option \<Rightarrow> solvency_state \<Rightarrow> solvency_snapshot option" where
  "proof_snapshot cfg snapshotId s =
     (if truthy snapshotId
      then find (\<lambda>r. sn_id r = the snapshotId \<and> sn_environment r = sc_environment cfg) (solvencySnapshots s)
      else find (\<lambda>r. sn_environment r = sc_environment cfg \<and> report_for (sn_id r) s \<noteq> None)
        (rev (sort_key sn_generatedAt (solvencySnapshots s))))"

definition leaf_rows :: "string \<Rightarrow> string \<Rightarrow> solvency_liability_leaf list \<Rightarrow> solvency_liability_leaf list" where
  "leaf_rows snapshotId assetId rows = filter (\<lambda>l. sl_snapshotId l = snapshotId \<and> sl_assetId l = assetId) rows"

text \<open>\<open>allLeafHashesByAsset.get(assetId)\<close>, the leaves read in the order of their index.\<close>

definition allLeafHashes :: "solvency_state \<Rightarrow> string \<Rightarrow> string \<Rightarrow> string list" where
  "allLeafHashes s snapshotId assetId =
     map sl_leafHash (sort_key sl_leafIndex (leaf_rows snapshotId assetId (solvencyLiabilityLeaves s)))"

definition customerLeaves :: "solvency_state \<Rightarrow> string \<Rightarrow> string \<Rightarrow> solvency_liability_leaf list" where
  "customerLeaves s snapshotId customerAccountId =
     sort_key sl_assetId (sort_key sl_leafIndex
       (filter (\<lambda>l. sl_snapshotId l = snapshotId \<and> sl_customerAccountId l = customerAccountId) (solvencyLiabilityLeaves s)))"

definition inclusionProof :: "solvency_library \<Rightarrow> solvency_liability_leaf \<Rightarrow> liability_inclusion_proof solvencytx" where
  "inclusionProof lib leaf =
     bindT (readT (\<lambda>s. find (\<lambda>a. as_id a = sl_assetId leaf) (assets (so_db s)))) (\<lambda>found.
     bindT (requireT found (NotFoundException
       (''Asset metadata missing for liability proof asset '' @ sl_assetId leaf @ ''.''))) (\<lambda>a.
     bindT (readT (\<lambda>s. allLeafHashes s (sl_snapshotId leaf) (sl_assetId leaf))) (\<lambda>leafHashes.
     let rootHash = buildMerkleRoot (hashes lib) leafHashes in
     bindT (throwIf (\<not> truthy rootHash) (NotFoundException ''Liability proof root is missing.'')) (\<lambda>_.
     returnT \<lparr>ip_asset = a, ip_leafIndex = sl_leafIndex leaf, ip_leafHash = sl_leafHash leaf,
       ip_rootHash = the rootHash, ip_proof = buildMerkleProof (hashes lib) leafHashes (int (sl_leafIndex leaf)),
       ip_payload = sl_canonicalPayload leaf\<rparr>))))"

definition getCustomerLiabilityInclusionProof ::
  "solvency_config \<Rightarrow> solvency_library \<Rightarrow> string \<Rightarrow> string option \<Rightarrow> CustomerLiabilityInclusionProofResult solvencytx" where
  "getCustomerLiabilityInclusionProof cfg lib supabaseUserId snapshotId =
     bindT (readT (\<lambda>s. find (\<lambda>c. ca_supabaseUserId c = supabaseUserId) (customerAccounts (so_db s)))) (\<lambda>found.
     bindT (requireT found (NotFoundException ''Customer account projection not found.'')) (\<lambda>account.
     bindT (readT (proof_snapshot cfg snapshotId)) (\<lambda>row.
     bindT (requireT row (NotFoundException ''Signed solvency report was not found.'')) (\<lambda>snapshot.
     bindT (readT (report_for (sn_id snapshot))) (\<lambda>rep.
     bindT (requireT rep (NotFoundException ''Signed solvency report was not found.'')) (\<lambda>report.
     bindT (readT (\<lambda>s. customerLeaves s (sn_id snapshot) (ca_id account))) (\<lambda>leaves.
     bindT (mapT (inclusionProof lib) leaves) (\<lambda>proofs.
     returnT \<lparr>ic_report = report, ic_snapshot = snapshot, ic_customerAccountId = ca_id account,
       ic_proofs = proofs\<rparr>))))))))"

section \<open>The stored leaves\<close>

text \<open>\<open>well_indexed\<close>: the leaves of one asset in order, each with the hash of its payload.\<close>

definition well_indexed :: "hash_library \<Rightarrow> solvency_liability_leaf list \<Rightarrow> bool" where
  "well_indexed h rows \<longleftrightarrow> (\<forall>k<length rows. sl_leafIndex (rows ! k) = k \<and>
     sl_leafHash (rows ! k) = hashLiabilityLeaf h (sl_canonicalPayload (rows ! k)) \<and>
     ll_customerAccountId (sl_canonicalPayload (rows ! k)) = sl_customerAccountId (rows ! k))"

lemma well_indexed_sorted: "well_indexed h rows \<Longrightarrow> sort_key sl_leafIndex rows = rows"
  by (rule sort_key_id_if_sorted) (auto simp: sorted_iff_nth_mono well_indexed_def)

lemma proof_verifies:
  assumes "well_indexed h rows" "k < length rows" "leaf = rows ! k"
    "buildMerkleRoot h (map sl_leafHash rows) = Some root"
  shows "verifyLiabilityProof h \<lparr>pi_payload = sl_canonicalPayload leaf, pi_leafHash = sl_leafHash leaf, pi_rootHash = root,
      pi_proof = buildMerkleProof h (map sl_leafHash rows) (int k), pi_leafIndex = k\<rparr> =
    \<lparr>computedLeafHash = sl_leafHash leaf, computedRootHash = root, isLeafHashValid = True, isRootValid = True\<rparr>"
  using assms proof_leads_to_root [of k "map sl_leafHash rows" h]
  by (auto simp: verifyLiabilityProof_def well_indexed_def Let_def)

section \<open>What a snapshot stores\<close>

definition built_proof :: "solvency_library \<Rightarrow> string \<Rightarrow> AssetRecord \<Rightarrow> LiabilityProofAssetComputation \<Rightarrow> bool" where
  "built_proof lib i a p \<longleftrightarrow> (\<exists>entries. lpa_leaves p = orderedLeaves lib i a entries) \<and>
     lpa_liabilityMerkleRoot p = buildMerkleRoot (hashes lib) (map lv_leafHash (lpa_leaves p))"

lemma computed_proof:
  assumes "map_of (computeLiabilityLeavesByAsset chain lib q i xs) k = Some p"
  shows "\<exists>x\<in>set xs. as_id x = k \<and> built_proof lib i x p"
proof -
  define entry where "entry a = (let leaves = orderedLeaves lib i a (rawLeaves chain q xs (as_id a));
           leafHashes = map lv_leafHash leaves
       in \<lparr>lpa_assetId = as_id a, lpa_liabilityMerkleRoot = buildMerkleRoot (hashes lib) leafHashes,
             lpa_liabilityLeafCount = length leaves,
             lpa_liabilitySetChecksumSha256 =
               (if length leaves > 0 then Some (buildSha256Checksum (hashes lib) (join [CHR 0x0A] leafHashes)) else None),
             lpa_leaves = leaves\<rparr>)" for a
  have good: "built_proof lib i a (entry a)" for a by (auto simp: built_proof_def entry_def Let_def)
  have "set ys \<subseteq> set xs \<Longrightarrow> (\<And>k p. map_of m k = Some p \<Longrightarrow> \<exists>x\<in>set xs. as_id x = k \<and> built_proof lib i x p) \<Longrightarrow>
     map_of (foldl (\<lambda>m a. AList.update (as_id a) (entry a) m) m ys) k = Some p \<Longrightarrow>
     \<exists>x\<in>set xs. as_id x = k \<and> built_proof lib i x p" for ys m k p
  proof (induction ys arbitrary: m)
    case (Cons y ys)
    show ?case
    proof (rule Cons.IH)
      show "set ys \<subseteq> set xs" using Cons.prems(1) by simp
      show "map_of (foldl (\<lambda>m a. AList.update (as_id a) (entry a) m) (AList.update (as_id y) (entry y) m) ys) k = Some p"
        using Cons.prems(3) by simp
      show "\<exists>x\<in>set xs. as_id x = k' \<and> built_proof lib i x p'"
        if "map_of (AList.update (as_id y) (entry y) m) k' = Some p'" for k' p'
        using that Cons.prems(1,2) good by (auto simp: update_conv' split: if_splits)
    qed
  qed simp
  from this [of xs "[]"] assms show ?thesis
    by (simp add: computeLiabilityLeavesByAsset_def entry_def [abs_def] Let_def)
qed

text \<open>The computations of a snapshot: assets of their own, each with the proof built over its leaves.\<close>

definition computed_for :: "solvency_library \<Rightarrow> string \<Rightarrow> AssetSnapshotComputation list \<Rightarrow> bool" where
  "computed_for lib i cs \<longleftrightarrow> distinct (map (as_id \<circ> asc_asset) cs) \<and>
     (\<forall>c\<in>set cs. built_proof lib i (asc_asset c) (asc_liabilityProof c))"

lemma built_asset:
  "asc_asset (buildAssetSnapshotComputation cfg a l e p) = a"
  "asc_liabilityProof (buildAssetSnapshotComputation cfg a l e p) = p"
  by (simp_all add: buildAssetSnapshotComputation_def Let_def)

lemma computations_computed:
  assumes "distinct (map as_id (rd_assets rd))"
  shows "computed_for lib i (assetComputations cfg lib provider rd now i)"
proof -
  let ?active = "listActiveAssets cfg rd"
  let ?m = "computeLiabilityLeavesByAsset (sc_productChainId cfg) lib (rd_tables rd) i ?active"
  have dist: "distinct (map as_id ?active)"
    using assms by (simp add: listActiveAssets_def distinct_map_filter)
  have "built_proof lib i a (lookup_or \<lparr>lpa_assetId = as_id a, lpa_liabilityMerkleRoot = None, lpa_liabilityLeafCount = 0,
           lpa_liabilitySetChecksumSha256 = None, lpa_leaves = []\<rparr> ?m (as_id a))" if a: "a \<in> set ?active" for a
  proof (cases "map_of ?m (as_id a)")
    case None
    have "[] = orderedLeaves lib i a []" by (simp add: orderedLeaves_def)
    with None show ?thesis unfolding built_proof_def by (auto simp: lookup_or_def buildMerkleRoot_def)
  next
    case (Some p)
    from computed_proof [OF this] obtain x where "x \<in> set ?active" "as_id x = as_id a" "built_proof lib i x p" by blast
    with dist a have "built_proof lib i a p" by (auto simp: distinct_map inj_on_def)
    with Some show ?thesis by (simp add: lookup_or_def)
  qed
  with dist show ?thesis
    by (simp add: computed_for_def assetComputations_def Let_def built_asset comp_def)
qed

lemma ordered_rows:
  "well_indexed (hashes lib) (map (\<lambda>leaf. \<lparr>sl_snapshotId = i, sl_assetId = a, sl_customerAccountId = lv_customerAccountId leaf,
     sl_leafIndex = lv_leafIndex leaf, sl_leafHash = lv_leafHash leaf, sl_canonicalPayload = lv_payload leaf,
     sl_amounts = lv_amounts leaf\<rparr>) (orderedLeaves lib i x entries))"
  by (auto simp: well_indexed_def orderedLeaves_def Let_def nth_enumerate_eq)

lemma leaf_rows_append: "leaf_rows i a (xs @ ys) = leaf_rows i a xs @ leaf_rows i a ys"
  by (simp add: leaf_rows_def)

lemma leaf_rows_other: "i \<noteq> j \<Longrightarrow> leaf_rows j a (liabilityLeafRows i cs) = []"
  by (auto simp: leaf_rows_def liabilityLeafRows_def filter_concat)

lemma leaf_rows_computed:
  assumes "c \<in> set cs" "distinct (map (as_id \<circ> asc_asset) cs)"
  shows "leaf_rows i (as_id (asc_asset c)) (liabilityLeafRows i cs) =
    map (\<lambda>leaf. \<lparr>sl_snapshotId = i, sl_assetId = as_id (asc_asset c), sl_customerAccountId = lv_customerAccountId leaf,
     sl_leafIndex = lv_leafIndex leaf, sl_leafHash = lv_leafHash leaf, sl_canonicalPayload = lv_payload leaf,
     sl_amounts = lv_amounts leaf\<rparr>) (lpa_leaves (asc_liabilityProof c))"
  using assms
proof (induction cs)
  case (Cons d ds)
  have other: "as_id (asc_asset e) \<noteq> as_id (asc_asset d)" if "e \<in> set ds" for e
    using Cons.prems(2) imageI [OF that, of "as_id \<circ> asc_asset"] by auto
  then have none: "leaf_rows i (as_id (asc_asset d)) (liabilityLeafRows i ds) = []"
    by (auto simp: leaf_rows_def liabilityLeafRows_def filter_empty_conv)
  have split: "liabilityLeafRows i (d # ds) = liabilityLeafRows i [d] @ liabilityLeafRows i ds"
    by (simp add: liabilityLeafRows_def)
  show ?case
  proof (cases "c = d")
    case True
    with none show ?thesis unfolding split leaf_rows_append by (simp add: leaf_rows_def liabilityLeafRows_def comp_def)
  next
    case False
    with Cons.prems other have "c \<in> set ds" "as_id (asc_asset c) \<noteq> as_id (asc_asset d)" by auto
    moreover from this have "leaf_rows i (as_id (asc_asset c)) (liabilityLeafRows i [d]) = []"
      by (auto simp: leaf_rows_def liabilityLeafRows_def)
    ultimately show ?thesis using Cons unfolding split leaf_rows_append by simp
  qed
qed simp

lemma leaf_rows_asset: "l \<in> set (liabilityLeafRows i cs) \<Longrightarrow> sl_snapshotId l = i \<and> (\<exists>c\<in>set cs. sl_assetId l = as_id (asc_asset c))"
  by (auto simp: liabilityLeafRows_def)

lemma computed_rows:
  assumes "computed_for lib i cs"
  shows "well_indexed (hashes lib) (leaf_rows i a (liabilityLeafRows i cs))"
    and "c \<in> set cs \<Longrightarrow> lpa_liabilityMerkleRoot (asc_liabilityProof c) =
      buildMerkleRoot (hashes lib) (map sl_leafHash (leaf_rows i (as_id (asc_asset c)) (liabilityLeafRows i cs)))"
proof -
  have dist: "distinct (map (as_id \<circ> asc_asset) cs)" using assms by (simp add: computed_for_def)
  show "well_indexed (hashes lib) (leaf_rows i a (liabilityLeafRows i cs))"
  proof (cases "\<exists>c\<in>set cs. a = as_id (asc_asset c)")
    case True
    then obtain c where c: "c \<in> set cs" "a = as_id (asc_asset c)" by blast
    with assms obtain entries where "lpa_leaves (asc_liabilityProof c) = orderedLeaves lib i (asc_asset c) entries"
      by (auto simp: computed_for_def built_proof_def)
    then show ?thesis using leaf_rows_computed [OF c(1) dist] ordered_rows by (simp add: c(2))
  next
    case False
    then have "leaf_rows i a (liabilityLeafRows i cs) = []"
      using leaf_rows_asset by (fastforce simp: leaf_rows_def filter_empty_conv)
    then show ?thesis by (simp add: well_indexed_def)
  qed
  show "lpa_liabilityMerkleRoot (asc_liabilityProof c) =
      buildMerkleRoot (hashes lib) (map sl_leafHash (leaf_rows i (as_id (asc_asset c)) (liabilityLeafRows i cs)))"
    if "c \<in> set cs"
    using leaf_rows_computed [OF that dist] assms that by (simp add: computed_for_def built_proof_def comp_def)
qed

section \<open>The signed report\<close>

fun member :: "string \<Rightarrow> json \<Rightarrow> json option" where
  "member key (JObject fs) = map_of fs key"
| "member key v = None"

definition reported_root :: "json \<Rightarrow> string \<Rightarrow> json option" where
  "reported_root payload assetId = (case member ''assets'' payload of
       Some (JArray items) \<Rightarrow> Option.bind (find (\<lambda>x. member ''assetId'' x = Some (JString assetId)) items)
         (member ''liabilityMerkleRoot'')
     | _ \<Rightarrow> None)"

lemma reported_asset:
  assumes "c \<in> set cs" "distinct (map (as_id \<circ> asc_asset) cs)"
  shows "reported_root (report_object cfg lib i g t sm cs pol) (as_id (asc_asset c)) =
    Some (nullable JString (lpa_liabilityMerkleRoot (asc_liabilityProof c)))"
proof -
  have sel: "member ''assetId'' (asset_object lib d) = Some (JString (as_id (asc_asset d)))"
    "member ''liabilityMerkleRoot'' (asset_object lib d) =
       Some (nullable JString (lpa_liabilityMerkleRoot (asc_liabilityProof d)))" for d
    by (simp_all add: asset_object_def Let_def)
  have "find (\<lambda>x. member ''assetId'' x = Some (JString (as_id (asc_asset c)))) (map (asset_object lib) cs) =
      map_option (asset_object lib) (find (\<lambda>d. (as_id \<circ> asc_asset) d = (as_id \<circ> asc_asset) c) cs)"
    by (induction cs) (simp_all add: sel)
  also have "\<dots> = Some (asset_object lib c)" using find_key_unique [OF assms(2,1)] by simp
  finally show ?thesis by (simp add: reported_root_def report_object_def sel)
qed

section \<open>The archive\<close>

definition complete_at :: "string \<Rightarrow> solvency_state \<Rightarrow> bool" where
  "complete_at i s \<longleftrightarrow> (\<exists>r\<in>set (solvencySnapshots s). sn_id r = i \<and> sn_completedAt r \<noteq> None)"

definition published :: "solvency_library \<Rightarrow> solvency_liability_leaf list \<Rightarrow> solvency_report \<Rightarrow> bool" where
  "published lib leaves rep \<longleftrightarrow> sr_reportHash (spr_signed rep) = keccakText (hashes lib) (stableStringify (sr_payload (spr_signed rep))) \<and>
     (\<forall>l\<in>set leaves. sl_snapshotId l = spr_snapshotId rep \<longrightarrow>
        reported_root (sr_payload (spr_signed rep)) (sl_assetId l) = Some (nullable JString
          (buildMerkleRoot (hashes lib) (map sl_leafHash (leaf_rows (spr_snapshotId rep) (sl_assetId l) leaves)))))"

definition archive_ok :: "solvency_library \<Rightarrow> solvency_state \<Rightarrow> bool" where
  "archive_ok lib s \<longleftrightarrow> (\<forall>i a. well_indexed (hashes lib) (leaf_rows i a (solvencyLiabilityLeaves s))) \<and>
     (\<forall>l\<in>set (solvencyLiabilityLeaves s). complete_at (sl_snapshotId l) s) \<and>
     (\<forall>rep\<in>set (solvencyReports s). complete_at (spr_snapshotId rep) s \<and> published lib (solvencyLiabilityLeaves s) rep)"

text \<open>Only a recorded snapshot writes it.\<close>

definition archive :: "solvency_state \<Rightarrow> solvency_liability_leaf list \<times> solvency_report list" where
  "archive s = (solvencyLiabilityLeaves s, solvencyReports s)"

lemma archive_kept [keeps_intro]:
  "keeps (\<lambda>s. archive s = A) (inDb m)"
  "keeps (\<lambda>s. archive s = A) (writeT (\<lambda>s. s\<lparr>solvencyPolicyResumeRequests := rs s\<rparr>))"
  "keeps (\<lambda>s. archive s = A) (writeT (\<lambda>s. s\<lparr>solvencySnapshots := sn s\<rparr>))"
  by (auto simp: keeps_def tx_iff archive_def)

lemma archive_operations:
  "keeps (\<lambda>s. archive s = A) (persistPolicyState cfg i der actor)"
  "keeps (\<lambda>s. archive s = A) (createPendingSnapshot cfg)"
  "keeps (\<lambda>s. archive s = A) (failSnapshot lib actor i e)"
  "keeps (\<lambda>s. archive s = A) (requestPolicyResume_transaction cfg i ex nt oper role)"
  "keeps (\<lambda>s. archive s = A) (requestPolicyResume cfg i ex nt oper orole)"
  "keeps (\<lambda>s. archive s = A) (approvePolicyResume_transaction cfg signer k i nt oper role)"
  "keeps (\<lambda>s. archive s = A) (approvePolicyResume cfg signer k nt oper orole)"
  "keeps (\<lambda>s. archive s = A) (rejectPolicyResume cfg k nt oper orole)"
  "keeps (\<lambda>s. archive s = A) (rejectPolicyResume_transaction k nt oper role)"
  unfolding persistPolicyState_def createPendingSnapshot_def failSnapshot_def requestPolicyResume_transaction_def
    requestPolicyResume_def approvePolicyResume_transaction_def approvePolicyResume_def rejectPolicyResume_def
    rejectPolicyResume_transaction_def
    solvencyPolicyState_put_def auditSolvency_def openSolvencyReviewCase_def solvencySnapshot_update_def
    resumeRequest_update_def assertCanRequestResume_def assertCanApproveResume_def assertOperatorRoleAuthorized_def Let_def
  by (intro keeps_intro)+

lemma quiet_archive: "quiet s t \<Longrightarrow> archive t = archive s"
  by (auto simp: quiet_def archive_def)

lemma transaction_leaves:
  assumes "generateSnapshot_transaction cfg i cs issues der summary sr actor s = Inr (u, t)"
  shows "solvencyLiabilityLeaves t = solvencyLiabilityLeaves s @ liabilityLeafRows i cs"
proof -
  let ?f = "completed (now_ms (so_db s)) summary (length cs) (length issues) (der_status der \<noteq> normal)"
  from assms obtain s1 s2 s3 s4 s5 where
    s1: "solvencySnapshot_update i ?f s = Inr ((), s1)" and s2: "createSnapshotRows i cs issues s1 = Inr ((), s2)"
    and s3: "persistPolicyState cfg i der actor s2 = Inr ((), s3)"
    and s4: "solvencyReport_create cfg i sr s3 = Inr ((), s4)" and t: "quiet s4 s5" "quiet s5 t"
    unfolding transaction_unfold
    by (auto simp: bindT_Inr inDb_Inr new_Date_Inr throwIf_Inr dest!: quiet_audit quiet_audits)
  have "solvencyLiabilityLeaves s2 = solvencyLiabilityLeaves s @ liabilityLeafRows i cs"
    using s1 s2 by (auto simp: update_snapshot_Inr createSnapshotRows_def tx_iff Let_def)
  moreover have "solvencyLiabilityLeaves s3 = solvencyLiabilityLeaves s2"
    using keepsD [OF archive_operations(1) s3 refl] by (simp add: archive_def)
  moreover have "solvencyLiabilityLeaves s4 = solvencyLiabilityLeaves s3" using report_Inr [OF s4] by auto
  ultimately show ?thesis using quiet_archive [OF t(1)] quiet_archive [OF t(2)] by (simp add: archive_def)
qed

lemma signed_report:
  assumes "buildSignedReport cfg lib signer i g c sm cs pol = Inr sr"
  shows "sr_payload sr = report_object cfg lib i g c sm cs pol"
    "sr_reportHash sr = keccakText (hashes lib) (stableStringify (sr_payload sr))"
  using assms by (auto simp: buildSignedReport_def buildSignedSolvencyReport_def Let_def split: option.splits)

lemma record_archive:
  assumes "recordSnapshot cfg lib signer provider rd actor row s = Inr (u, t)" "distinct (map as_id (rd_assets rd))"
  obtains cs rep f where "computed_for lib (sn_id row) cs"
    "solvencyLiabilityLeaves t = solvencyLiabilityLeaves s @ liabilityLeafRows (sn_id row) cs"
    "solvencyReports t = solvencyReports s @ [rep]" "spr_snapshotId rep = sn_id row"
    "sr_reportHash (spr_signed rep) = keccakText (hashes lib) (stableStringify (sr_payload (spr_signed rep)))"
    "\<exists>g c sm pol. sr_payload (spr_signed rep) = report_object cfg lib (sn_id row) g c sm cs pol"
    "solvencySnapshots t = update_rows sn_id (sn_id row) f (solvencySnapshots s)"
    "\<And>r. sn_id (f r) = sn_id r" "\<And>r. sn_completedAt (f r) \<noteq> None" "find_snapshot (sn_id row) s \<noteq> None"
proof -
  let ?cs = "assetComputations cfg lib provider rd (now_ms (so_db s)) (sn_id row)"
  let ?issues = "concat (map asc_issues ?cs)"
  let ?summary = "buildSnapshotSummary ?cs ?issues"
  obtain sr where sr: "buildSignedReport cfg lib signer (sn_id row) (toISOString signer (sn_generatedAt row))
      (toISOString signer (now_ms (so_db s))) ?summary ?cs (derivePolicyState ?issues) = Inr sr"
    and tx: "generateSnapshot_transaction cfg (sn_id row) ?cs ?issues (derivePolicyState ?issues) ?summary sr actor s = Inr (u, t)"
    using assms(1) by (auto simp: recordSnapshot_def tx_iff Let_def split: sum.splits)
  have signed: "sr_reportHash sr = keccakText (hashes lib) (stableStringify (sr_payload sr))"
    "\<exists>g c sm pol. sr_payload sr = report_object cfg lib (sn_id row) g c sm ?cs pol"
    using signed_report [OF sr] by blast+
  from transaction_effect [OF tx] obtain rep where rep: "spr_snapshotId rep = sn_id row" "spr_signed rep = sr"
      "solvencyReports t = solvencyReports s @ [rep]" "find_snapshot (sn_id row) s \<noteq> None"
    and snaps: "solvencySnapshots t = update_rows sn_id (sn_id row) (completed (now_ms (so_db s)) ?summary (length ?cs)
      (length ?issues) (der_status (derivePolicyState ?issues) \<noteq> normal)) (solvencySnapshots s)" by blast
  show thesis
    by (rule that [OF computations_computed [OF assms(2)] transaction_leaves [OF tx] rep(3,1) _ _ snaps])
      (simp_all add: rep signed)
qed

lemma complete_at_update:
  assumes "solvencySnapshots t = update_rows sn_id i f (solvencySnapshots s)" "\<And>r. sn_id (f r) = sn_id r"
    "\<And>r. sn_completedAt (f r) \<noteq> None"
  shows "complete_at j s \<Longrightarrow> complete_at j t" and "find_snapshot i s \<noteq> None \<Longrightarrow> complete_at i t"
proof -
  have new: "complete_at j t" if r: "r \<in> set (solvencySnapshots s)" "sn_id r = j" "j = i \<or> sn_completedAt r \<noteq> None" for r j
  proof -
    let ?r = "if sn_id r = i then f r else r"
    have "?r \<in> set (solvencySnapshots t)" using r(1) by (simp add: assms(1) update_rows_def)
    moreover have "sn_id ?r = j" "sn_completedAt ?r \<noteq> None" using r(2,3) assms(2,3) by auto
    ultimately show ?thesis unfolding complete_at_def by blast
  qed
  show "complete_at j s \<Longrightarrow> complete_at j t" using new by (auto simp: complete_at_def)
  show "complete_at i t" if found: "find_snapshot i s \<noteq> None"
  proof -
    from found obtain r where "find (\<lambda>r. sn_id r = i) (solvencySnapshots s) = Some r" by (auto simp: find_snapshot_def)
    from find_key_Some [OF this] new [of r i] show ?thesis by blast
  qed
qed

lemma complete_at_same: "solvencySnapshots t = solvencySnapshots s \<Longrightarrow> complete_at j t = complete_at j s"
  by (simp add: complete_at_def)

lemma archive_ok_same:
  assumes "archive_ok lib s" "archive t = archive s" "\<And>j. complete_at j s \<Longrightarrow> complete_at j t"
  shows "archive_ok lib t"
  using assms by (simp add: archive_ok_def archive_def)

lemma archive_ok_record:
  assumes ok: "archive_ok lib s" and inv: "snapshots_ok s" and row: "row \<in> set (solvencySnapshots s)" "sn_completedAt row = None"
    and run: "recordSnapshot cfg lib signer provider rd actor row s = Inr (u, t)" "distinct (map as_id (rd_assets rd))"
  shows "archive_ok lib t"
proof -
  from record_archive [OF run] obtain cs rep f where cs: "computed_for lib (sn_id row) cs"
    and leaves: "solvencyLiabilityLeaves t = solvencyLiabilityLeaves s @ liabilityLeafRows (sn_id row) cs"
    and reports: "solvencyReports t = solvencyReports s @ [rep]" "spr_snapshotId rep = sn_id row"
      "sr_reportHash (spr_signed rep) = keccakText (hashes lib) (stableStringify (sr_payload (spr_signed rep)))"
      "\<exists>g c sm pol. sr_payload (spr_signed rep) = report_object cfg lib (sn_id row) g c sm cs pol"
    and snaps: "solvencySnapshots t = update_rows sn_id (sn_id row) f (solvencySnapshots s)"
      "\<And>r. sn_id (f r) = sn_id r" "\<And>r. sn_completedAt (f r) \<noteq> None" "find_snapshot (sn_id row) s \<noteq> None" by blast
  note complete = complete_at_update [OF snaps(1-3)]
  have open_row: "\<not> complete_at (sn_id row) s"
    using inv row by (auto simp: complete_at_def snapshots_ok_def distinct_map inj_on_def)
  then have unused: "leaf_rows (sn_id row) a (solvencyLiabilityLeaves s) = []" for a
    using ok by (auto simp: archive_ok_def leaf_rows_def filter_empty_conv)
  have rows: "leaf_rows j a (solvencyLiabilityLeaves t) = (if j = sn_id row then leaf_rows j a (liabilityLeafRows j cs)
      else leaf_rows j a (solvencyLiabilityLeaves s))" for j a
    by (simp add: leaves leaf_rows_append unused leaf_rows_other)
  have wf: "well_indexed (hashes lib) (leaf_rows j a (solvencyLiabilityLeaves t))" for j a
    using ok computed_rows(1) [OF cs] by (simp add: rows archive_ok_def)
  have here: "complete_at (sn_id row) t" using complete(2) snaps(4) by blast
  have leaf_complete: "complete_at (sl_snapshotId l) t" if "l \<in> set (solvencyLiabilityLeaves t)" for l
    using that ok complete(1) here leaf_rows_asset by (auto simp: leaves archive_ok_def)
  have old: "published lib (solvencyLiabilityLeaves t) r" if r: "r \<in> set (solvencyReports s)" for r
  proof -
    have other: "spr_snapshotId r \<noteq> sn_id row" using ok r open_row by (auto simp: archive_ok_def)
    have "l \<in> set (solvencyLiabilityLeaves s)" if "l \<in> set (solvencyLiabilityLeaves t)" "sl_snapshotId l = spr_snapshotId r" for l
      using that other leaf_rows_asset by (auto simp: leaves)
    with ok r other show ?thesis by (auto simp: archive_ok_def published_def rows)
  qed
  have new: "published lib (solvencyLiabilityLeaves t) rep"
    unfolding published_def reports(2)
  proof (intro conjI ballI impI reports(3))
    fix l assume l: "l \<in> set (solvencyLiabilityLeaves t)" "sl_snapshotId l = sn_id row"
    with open_row ok have "l \<in> set (liabilityLeafRows (sn_id row) cs)" by (auto simp: leaves archive_ok_def)
    from leaf_rows_asset [OF this] obtain c where c: "c \<in> set cs" "sl_assetId l = as_id (asc_asset c)" by blast
    have dist: "distinct (map (as_id \<circ> asc_asset) cs)" using cs by (simp add: computed_for_def)
    show "reported_root (sr_payload (spr_signed rep)) (sl_assetId l) = Some (nullable JString
        (buildMerkleRoot (hashes lib) (map sl_leafHash (leaf_rows (sn_id row) (sl_assetId l) (solvencyLiabilityLeaves t)))))"
      using reports(4) reported_asset [OF c(1) dist] computed_rows(2) [OF cs c(1)] by (auto simp: c(2) rows)
  qed
  show ?thesis
    unfolding archive_ok_def using wf leaf_complete old new ok complete(1) here reports(1,2) by (auto simp: archive_ok_def)
qed

lemma step_archive:
  assumes "solvency_step cfg svc evm lib s t" "snapshots_ok s" "archive_ok lib s"
  shows "archive_ok lib t"
  using assms
proof (induction rule: solvency_step.induct)
  case (begin_snapshot s row t)
  have "archive t = archive s" by (rule keepsD [OF archive_operations(2) begin_snapshot(1) refl])
  moreover have "complete_at j t" if "complete_at j s" for j
    using that begin_snapshot(1) by (auto simp: complete_at_def createPendingSnapshot_def tx_iff Let_def)
  ultimately show ?case by (rule archive_ok_same [OF begin_snapshot(3)])
next
  case (record_snapshot row s rd signer provider actor u t)
  then show ?case using archive_ok_record by blast
next
  case (fail_snapshot row s actor e u t)
  have same: "archive t = archive s" by (rule keepsD [OF archive_operations(3) fail_snapshot(3) refl])
  obtain f where f: "\<And>r. sn_id (f r) = sn_id r" "\<And>r. sn_completedAt (f r) \<noteq> None"
    "solvencySnapshots t = update_rows sn_id (sn_id row) f (solvencySnapshots s)"
  proof (rule that)
    show "solvencySnapshots t = update_rows sn_id (sn_id row) (\<lambda>r. r\<lparr>sn_completedAt := Some (now_ms (so_db s)),
      sn_status := SolvencySnapshotStatus.failed, sn_evidenceFreshness := unknown,
      sn_failureCode := Some (fst (normalizeError lib e)), sn_failureMessage := Some (snd (normalizeError lib e))\<rparr>) (solvencySnapshots s)"
      using fail_snapshot(3) by (auto simp: failSnapshot_def tx_iff update_snapshot_Inr dest!: quiet_audit quiet_sel(2))
  qed simp_all
  show ?case by (rule archive_ok_same [OF fail_snapshot(5) same complete_at_update(1) [OF f(3,1,2)]])
next
  case (request_resume i expected nt oper role s q t)
  have same: "archive t = archive s" by (rule keepsD [OF archive_operations(5) request_resume(1) refl])
  have "solvencySnapshots t = solvencySnapshots s" using request_effect [OF request_resume(1)] by metis
  from archive_ok_same [OF request_resume(3) same] complete_at_same [OF this] show ?case by blast
next
  case (request_late i expected nt oper role' s q t)
  have same: "archive t = archive s" by (rule keepsD [OF archive_operations(4) request_late(1) refl])
  have "solvencySnapshots t = solvencySnapshots s" using request_transaction_effect [OF request_late(1)] by metis
  from archive_ok_same [OF request_late(3) same] complete_at_same [OF this] show ?case by blast
next
  case (approve_resume signer k nt oper role s q t)
  have same: "archive t = archive s" by (rule keepsD [OF archive_operations(7) approve_resume(1) refl])
  have "solvencySnapshots t = solvencySnapshots s"
    using approve_runs [OF approve_resume(1)] approve_transaction_effect by metis
  from archive_ok_same [OF approve_resume(3) same] complete_at_same [OF this] show ?case by blast
next
  case (approve_late role s role' k r oper signer nt r' t)
  have same: "archive t = archive s" by (rule keepsD [OF archive_operations(6) approve_late(4) refl])
  have "solvencySnapshots t = solvencySnapshots s" using approve_transaction_effect [OF approve_late(4)] by metis
  from archive_ok_same [OF approve_late(6) same] complete_at_same [OF this] show ?case by blast
next
  case (reject_resume k nt oper role s q t)
  have same: "archive t = archive s" by (rule keepsD [OF archive_operations(8) reject_resume(1) refl])
  have "solvencySnapshots t = solvencySnapshots s"
    by (rule reject_runs [OF reject_resume(1)]) (erule reject_effect, drule quiet_sel(2), simp)
  from archive_ok_same [OF reject_resume(3) same] complete_at_same [OF this] show ?case by blast
next
  case (reject_late k nt oper role' s q t)
  have same: "archive t = archive s" by (rule keepsD [OF archive_operations(9) reject_late(1) refl])
  have "solvencySnapshots t = solvencySnapshots s"
    by (rule reject_effect [OF reject_late(1)]) (drule quiet_sel(2), simp)
  from archive_ok_same [OF reject_late(3) same] complete_at_same [OF this] show ?case by blast
qed (auto simp: archive_ok_def complete_at_def)

lemma solvency_reachable_archive: "solvency_reachable cfg svc evm lib s \<Longrightarrow> archive_ok lib s"
proof (induction rule: solvency_reachable.induct)
  case (start gen now)
  show ?case by (simp add: archive_ok_def empty_solvency_def leaf_rows_def well_indexed_def)
next
  case (step s t)
  from solvency_reachable_inv [OF step(1)] step_archive [OF step(2) _ step(3)] show ?case by (simp add: solvency_inv_def)
qed

section \<open>What the customer receives\<close>

lemma mapT_reads:
  assumes "mapT f xs s = Inr (ys, t)" "\<And>x y u. f x s = Inr (y, u) \<Longrightarrow> u = s"
  shows "t = s \<and> list_all2 (\<lambda>x y. f x s = Inr (y, s)) xs ys"
  using assms(1)
proof (induction xs arbitrary: ys)
  case (Cons x xs)
  then show ?case using assms(2) by (auto simp: bindT_Inr returnT_Inr)
qed (simp add: returnT_Inr)

lemma inclusion_run:
  "inclusionProof lib leaf s = Inr (p, t) \<longleftrightarrow> t = s \<and> (\<exists>a root. find (\<lambda>a. as_id a = sl_assetId leaf) (assets (so_db s)) = Some a \<and>
     buildMerkleRoot (hashes lib) (allLeafHashes s (sl_snapshotId leaf) (sl_assetId leaf)) = Some root \<and> root \<noteq> [] \<and>
     p = \<lparr>ip_asset = a, ip_leafIndex = sl_leafIndex leaf, ip_leafHash = sl_leafHash leaf, ip_rootHash = root,
       ip_proof = buildMerkleProof (hashes lib) (allLeafHashes s (sl_snapshotId leaf) (sl_assetId leaf)) (int (sl_leafIndex leaf)),
       ip_payload = sl_canonicalPayload leaf\<rparr>)"
  by (auto simp: inclusionProof_def tx_iff Let_def truthy_iff)

definition browser_input :: "liability_inclusion_proof \<Rightarrow> LiabilityProofInput" where
  "browser_input p = \<lparr>pi_payload = ip_payload p, pi_leafHash = ip_leafHash p, pi_rootHash = ip_rootHash p,
     pi_proof = ip_proof p, pi_leafIndex = ip_leafIndex p\<rparr>"

lemma stored_leaf_verifies:
  assumes ok: "archive_ok lib s" and leaf: "leaf \<in> set (solvencyLiabilityLeaves s)" and p: "inclusionProof lib leaf s = Inr (p, t)"
  shows "isLeafHashValid (verifyLiabilityProof (hashes lib) (browser_input p))"
    "isRootValid (verifyLiabilityProof (hashes lib) (browser_input p))"
    "buildMerkleRoot (hashes lib) (map sl_leafHash (leaf_rows (sl_snapshotId leaf) (sl_assetId leaf) (solvencyLiabilityLeaves s))) =
      Some (ip_rootHash p)"
    "ll_customerAccountId (ip_payload p) = sl_customerAccountId leaf"
proof -
  let ?rows = "leaf_rows (sl_snapshotId leaf) (sl_assetId leaf) (solvencyLiabilityLeaves s)"
  have wi: "well_indexed (hashes lib) ?rows" using ok by (simp add: archive_ok_def)
  have leafHashes: "allLeafHashes s (sl_snapshotId leaf) (sl_assetId leaf) = map sl_leafHash ?rows"
    by (simp add: allLeafHashes_def well_indexed_sorted [OF wi])
  from leaf have "leaf \<in> set ?rows" by (simp add: leaf_rows_def)
  then obtain k where k: "k < length ?rows" "leaf = ?rows ! k" by (metis in_set_conv_nth)
  with wi have index: "sl_leafIndex leaf = k" "ll_customerAccountId (sl_canonicalPayload leaf) = sl_customerAccountId leaf"
    by (auto simp: well_indexed_def)
  from p show "buildMerkleRoot (hashes lib) (map sl_leafHash ?rows) = Some (ip_rootHash p)"
    by (auto simp: inclusion_run leafHashes)
  from proof_verifies [OF wi k this] show "isLeafHashValid (verifyLiabilityProof (hashes lib) (browser_input p))"
    "isRootValid (verifyLiabilityProof (hashes lib) (browser_input p))"
    using p by (auto simp: inclusion_run leafHashes browser_input_def index)
  show "ll_customerAccountId (ip_payload p) = sl_customerAccountId leaf" using p index by (auto simp: inclusion_run)
qed

end
