(* ===== verification/Solvency_Progress.thy ===== *)
theory Solvency_Progress
  imports Solvency_Proofs
begin

text \<open>
  When a snapshot is recorded: what it needs is a configured service and amounts that fit their
  columns; the policy write and the audits never fail, and neither does the unique report hash unless
  the report's text collides with that of an earlier one. Then what a recorded snapshot does to the policy row.
\<close>

section \<open>Writes that never fail\<close>

definition returns :: "'a solvencytx \<Rightarrow> bool" where
  "returns m \<longleftrightarrow> (\<forall>s. \<exists>x t. m s = Inr (x, t))"

named_theorems returns_intro

lemma returns_basic [returns_intro]: "returns (returnT x)" "returns (readT f)" "returns (writeT g)" "returns (inDb new_Date)"
  by (simp_all add: returns_def tx_iff)

lemma returns_bind [returns_intro]: "returns m \<Longrightarrow> (\<And>x. returns (f x)) \<Longrightarrow> returns (bindT m f)"
  unfolding returns_def bindT_Inr by meson

lemma returns_if [returns_intro]: "returns m \<Longrightarrow> returns m' \<Longrightarrow> returns (if b then m else m')"
  by simp

lemma returns_prod [returns_intro]: "(\<And>x y. returns (f x y)) \<Longrightarrow> returns (case p of (x, y) \<Rightarrow> f x y)"
  by (cases p) simp

lemma returns_audit [returns_intro]: "returns (auditSolvency actor act tty tid)"
  by (auto simp: returns_def auditSolvency_def auditEvent_create_def tx_iff cuid_Inr)

lemma returns_case [returns_intro]: "returns (inDb (openOrReuseReviewCase params))"
  unfolding returns_def inDb_Inr openOrReuseReviewCase_def
  by (auto simp: tx_iff cuid_Inr reviewCase_create_def reviewCaseEvent_create_def auditEvent_create_def split: option.splits)

lemma returns_put [returns_intro]: "returns (solvencyPolicyState_put p)"
  by (auto simp: returns_def put_Inr)

lemma returns_persist [returns_intro]: "returns (persistPolicyState cfg i der actor)"
  unfolding persistPolicyState_def openSolvencyReviewCase_def Let_def by (intro returns_intro)+

lemma returns_audits [returns_intro]: "returns (auditCriticalIssues actor i issues)"
  by (induction actor i issues rule: auditCriticalIssues.induct) (simp_all add: returns_intro)

section \<open>A report's text names its snapshot\<close>

lemma report_text_binds:
  assumes "stableStringify (report_object cfg lib i g t sm cs pol) = stableStringify (report_object cfg' lib' i' g' t' sm' cs' pol')"
  shows "i = i'"
proof -
  define fs where "fs r = (case r of JObject xs \<Rightarrow> map (\<lambda>(k, v). (k, canon v)) xs | _ \<Rightarrow> [])" for r
  have canon_fs: "canon (report_object cfg lib i g t sm cs pol) = JObject (sort_key fst (fs (report_object cfg lib i g t sm cs pol)))"
    for cfg lib i g t sm cs pol by (simp add: fs_def report_object_def)
  from stableStringify_canon_inject [OF assms]
  have "set (fs (report_object cfg lib i g t sm cs pol)) = set (fs (report_object cfg' lib' i' g' t' sm' cs' pol'))"
    unfolding canon_fs json.inject by (metis set_sort)
  moreover have "(''snapshotId'', JString i) \<in> set (fs (report_object cfg lib i g t sm cs pol))"
    by (simp add: fs_def report_object_def)
  ultimately have "(''snapshotId'', JString i) \<in> set (fs (report_object cfg' lib' i' g' t' sm' cs' pol'))" by simp
  then show ?thesis by (simp add: fs_def report_object_def)
qed

section \<open>A snapshot is recorded\<close>

definition storable :: "string \<Rightarrow> AssetSnapshotComputation list \<Rightarrow> bool" where
  "storable i cs \<longleftrightarrow> fits_summary (buildSnapshotSummary cs (concat (map asc_issues cs))) \<and> list_all fits_asset_row cs \<and>
     list_all fits_leaf_row (liabilityLeafRows i cs) \<and> list_all fits_evidence_row (concat (map asc_reserveEvidence cs))"

text \<open>The report of a snapshot, and that its text hashes like no different text of an earlier report.\<close>

definition snapshotReport ::
  "solvency_config \<Rightarrow> solvency_library \<Rightarrow> report_signer \<Rightarrow> rpc_provider option \<Rightarrow> snapshot_reads \<Rightarrow> int \<Rightarrow> string \<Rightarrow> json" where
  "snapshotReport cfg lib signer provider rd now i =
     (let cs = assetComputations cfg lib provider rd now i; issues = concat (map asc_issues cs) in
      report_object cfg lib i (toISOString signer now) (toISOString signer now) (buildSnapshotSummary cs issues) cs
        (derivePolicyState issues))"

definition no_hash_clash :: "hash_library \<Rightarrow> json \<Rightarrow> solvency_report list \<Rightarrow> bool" where
  "no_hash_clash lib payload reports \<longleftrightarrow> (\<forall>r\<in>set reports. let earlier = stableStringify (sr_payload (spr_signed r)) in
     keccakText lib (stableStringify payload) = keccakText lib earlier \<longrightarrow> stableStringify payload = earlier)"

definition reports_bound :: "solvency_config \<Rightarrow> solvency_library \<Rightarrow> solvency_state \<Rightarrow> bool" where
  "reports_bound cfg lib s \<longleftrightarrow> (\<forall>r\<in>set (solvencyReports s). complete_at (spr_snapshotId r) s \<and>
     sr_reportHash (spr_signed r) = keccakText (hashes lib) (stableStringify (sr_payload (spr_signed r))) \<and>
     (\<exists>g t sm cs pol. sr_payload (spr_signed r) = report_object cfg lib (spr_snapshotId r) g t sm cs pol))"

lemma record_succeeds:
  assumes conf: "infrastructureDisabledReason cfg = None"
    and clash: "no_hash_clash (hashes lib) (snapshotReport cfg lib signer provider rd (now_ms (so_db s)) (sn_id row)) (solvencyReports s)"
    and row: "row \<in> set (solvencySnapshots s)" "\<not> complete_at (sn_id row) s" "sn_generatedAt row = now_ms (so_db s)"
    and bound: "reports_bound cfg lib s"
    and fits: "storable (sn_id row) (assetComputations cfg lib provider rd (now_ms (so_db s)) (sn_id row))"
  shows "\<exists>t. recordSnapshot cfg lib signer provider rd actor row s = Inr ((), t)"
proof -
  let ?i = "sn_id row"
  let ?cs = "assetComputations cfg lib provider rd (now_ms (so_db s)) ?i"
  let ?issues = "concat (map asc_issues ?cs)"
  let ?summary = "buildSnapshotSummary ?cs ?issues"
  let ?der = "derivePolicyState ?issues"
  obtain sr where sr: "buildSignedReport cfg lib signer ?i (toISOString signer (sn_generatedAt row))
      (toISOString signer (now_ms (so_db s))) ?summary ?cs ?der = Inr sr" using conf by (simp add: buildSignedReport_def)
  let ?f = "completed (now_ms (so_db s)) ?summary (length ?cs) (length ?issues) (der_status ?der \<noteq> normal)"
  let ?s1 = "s\<lparr>solvencySnapshots := update_rows sn_id ?i ?f (solvencySnapshots s)\<rparr>"
  have "find_snapshot ?i s \<noteq> None" using row(1) by (auto simp: find_snapshot_def find_None_iff)
  then have s1: "solvencySnapshot_update ?i ?f s = Inr ((), ?s1)" by (simp add: update_snapshot_Inr)
  obtain s2 where s2: "createSnapshotRows ?i ?cs ?issues ?s1 = Inr ((), s2)" "solvencyReports s2 = solvencyReports s"
    using fits by (auto simp: createSnapshotRows_def storable_def tx_iff Let_def)
  obtain s3 where s3: "persistPolicyState cfg ?i ?der actor s2 = Inr ((), s3)"
    using returns_persist [of cfg ?i ?der actor] by (auto simp: returns_def)
  from persist_effect [OF s3] s2(2) have reps: "solvencyReports s3 = solvencyReports s" by metis
  have new: "\<not> (\<exists>r\<in>set (solvencyReports s3). spr_snapshotId r = ?i \<or> sr_reportHash (spr_signed r) = sr_reportHash sr)"
  proof
    assume "\<exists>r\<in>set (solvencyReports s3). spr_snapshotId r = ?i \<or> sr_reportHash (spr_signed r) = sr_reportHash sr"
    then obtain r where r: "r \<in> set (solvencyReports s)" "spr_snapshotId r = ?i \<or> sr_reportHash (spr_signed r) = sr_reportHash sr"
      by (auto simp: reps)
    from bound r(1) have h: "complete_at (spr_snapshotId r) s"
      "sr_reportHash (spr_signed r) = keccakText (hashes lib) (stableStringify (sr_payload (spr_signed r)))"
      "\<exists>g t sm cs pol. sr_payload (spr_signed r) = report_object cfg lib (spr_snapshotId r) g t sm cs pol"
      unfolding reports_bound_def by blast+
    have "sr_payload sr = snapshotReport cfg lib signer provider rd (now_ms (so_db s)) ?i"
      using signed_report(1) [OF sr] row(3) by (simp add: snapshotReport_def Let_def)
    with r h(2) signed_report(2) [OF sr] clash
    have "spr_snapshotId r = ?i \<or> stableStringify (sr_payload sr) = stableStringify (sr_payload (spr_signed r))"
      by (auto simp: no_hash_clash_def Let_def)
    then have "spr_snapshotId r = ?i" using h(3) signed_report(1) [OF sr] report_text_binds by metis
    with h(1) row(2) show False by simp
  qed
  then obtain s4 where s4: "solvencyReport_create cfg ?i sr s3 = Inr ((), s4)"
    by (auto simp: solvencyReport_create_def tx_iff)
  obtain s5 where s5: "auditSolvency actor ''solvency.snapshot.created'' ''SolvencySnapshot'' ?i s4 = Inr ((), s5)"
    using returns_audit [of actor "''solvency.snapshot.created''" "''SolvencySnapshot''" ?i] by (auto simp: returns_def)
  obtain s6 where s6: "auditCriticalIssues actor ?i ?issues s5 = Inr ((), s6)"
    using returns_audits [of actor ?i ?issues] by (auto simp: returns_def)
  have "generateSnapshot_transaction cfg ?i ?cs ?issues ?der ?summary sr actor s = Inr ((), s6)"
    unfolding transaction_unfold using fits s1 s2(1) s3 s4 s5 s6
    by (simp add: bindT_Inr inDb_Inr new_Date_Inr throwIf_Inr storable_def)
  then have "recordSnapshot cfg lib signer provider rd actor row s = Inr ((), s6)"
    unfolding recordSnapshot_def Let_def using sr by (simp add: bindT_Inr inDb_Inr new_Date_Inr)
  then show ?thesis by blast
qed

section \<open>The reports of reachable states\<close>

text \<open>Only recording a snapshot writes leaves and reports.\<close>

lemma step_writes:
  assumes "solvency_step cfg svc evm lib s t"
  shows "archive t = archive s \<or> (\<exists>signer provider rd actor row u. distinct (map as_id (rd_assets rd)) \<and>
    row \<in> set (solvencySnapshots s) \<and> sn_completedAt row = None \<and>
    recordSnapshot cfg lib signer provider rd actor row s = Inr (u, t))"
  using assms
proof (cases rule: solvency_step.cases)
  case (begin_snapshot row)
  from keepsD [OF archive_operations(2) this refl] show ?thesis ..
next
  case (record_snapshot row rd signer provider actor u)
  then show ?thesis by blast
next
  case (fail_snapshot row actor e u)
  from keepsD [OF archive_operations(3) fail_snapshot(3) refl] show ?thesis ..
next
  case (request_resume i expected nt oper role q)
  from keepsD [OF archive_operations(5) this refl] show ?thesis ..
next
  case (request_late i expected nt oper role' q)
  from keepsD [OF archive_operations(4) this refl] show ?thesis ..
next
  case (approve_resume signer k nt oper role q)
  from keepsD [OF archive_operations(7) this refl] show ?thesis ..
next
  case (approve_late role role' k q oper signer nt q')
  from keepsD [OF archive_operations(6) approve_late(4) refl] show ?thesis ..
next
  case (reject_resume k nt oper role q)
  from keepsD [OF archive_operations(8) this refl] show ?thesis ..
next
  case (reject_late k nt oper role' q)
  from keepsD [OF archive_operations(9) this refl] show ?thesis ..
qed (auto simp: archive_def)

definition reports_named :: "solvency_config \<Rightarrow> solvency_library \<Rightarrow> solvency_state \<Rightarrow> bool" where
  "reports_named cfg lib s \<longleftrightarrow> (\<forall>r\<in>set (solvencyReports s). \<exists>g t sm cs pol.
     sr_payload (spr_signed r) = report_object cfg lib (spr_snapshotId r) g t sm cs pol)"

lemma solvency_reachable_named: "solvency_reachable cfg svc evm lib s \<Longrightarrow> reports_named cfg lib s"
proof (induction rule: solvency_reachable.induct)
  case (start gen now)
  show ?case by (simp add: reports_named_def empty_solvency_def)
next
  case (step s t)
  from step_writes [OF step(2)] show ?case
  proof
    assume "archive t = archive s"
    with step(3) show ?thesis by (simp add: archive_def reports_named_def)
  next
    assume "\<exists>signer provider rd actor row u. distinct (map as_id (rd_assets rd)) \<and>
      row \<in> set (solvencySnapshots s) \<and> sn_completedAt row = None \<and>
      recordSnapshot cfg lib signer provider rd actor row s = Inr (u, t)"
    then obtain signer provider rd actor row u where d: "distinct (map as_id (rd_assets rd))"
      and run: "recordSnapshot cfg lib signer provider rd actor row s = Inr (u, t)" by blast
    from record_archive [OF run d] obtain cs rep where rep: "solvencyReports t = solvencyReports s @ [rep]"
      "spr_snapshotId rep = sn_id row"
      "\<exists>g c sm pol. sr_payload (spr_signed rep) = report_object cfg lib (sn_id row) g c sm cs pol" by metis
    have "\<exists>g t sm cs pol. sr_payload (spr_signed rep) = report_object cfg lib (spr_snapshotId rep) g t sm cs pol"
      using rep(2,3) by metis
    with step(3) show ?thesis unfolding reports_named_def rep(1) by auto
  qed
qed

section \<open>The handler succeeds\<close>

lemma generate_succeeds:
  assumes conf: "infrastructureDisabledReason cfg = None"
    and clash: "no_hash_clash (hashes lib) (snapshotReport cfg lib signer provider rd (now_ms (so_db s)) i) (solvencyReports s)"
    and reach: "solvency_reachable cfg svc evm lib s"
    and i: "i = cuid_of (so_db s) (cuid_count (so_db s))" "i \<notin> sn_id ` set (solvencySnapshots s)"
    and fits: "storable i (assetComputations cfg lib provider rd (now_ms (so_db s)) i)"
  shows "\<exists>p t. generateSnapshot cfg lib signer provider rd actor s = (Inr p, t)"
proof -
  obtain row s1 where pend: "createPendingSnapshot cfg s = Inr (row, s1)" and row: "sn_id row = i" "sn_completedAt row = None"
    "sn_generatedAt row = now_ms (so_db s)" "solvencyReports s1 = solvencyReports s"
    using i by (auto simp: createPendingSnapshot_def tx_iff cuid_Inr Let_def)
  have s1: "row \<in> set (solvencySnapshots s1)" "now_ms (so_db s1) = now_ms (so_db s)"
    using pend by (auto simp: createPendingSnapshot_def tx_iff cuid_Inr Let_def)
  have reach1: "solvency_reachable cfg svc evm lib s1"
    by (rule solvency_reachable.step [OF reach begin_snapshot [OF pend]])
  from solvency_reachable_inv [OF reach1] have "distinct (map sn_id (solvencySnapshots s1))"
    by (simp add: solvency_inv_def snapshots_ok_def)
  with s1(1) row have "\<not> complete_at (sn_id row) s1" by (auto simp: complete_at_def distinct_map inj_on_def)
  moreover have "reports_bound cfg lib s1"
    using solvency_reachable_archive [OF reach1] solvency_reachable_named [OF reach1]
    by (simp add: reports_bound_def archive_ok_def reports_named_def published_def)
  ultimately obtain t where t: "recordSnapshot cfg lib signer provider rd actor row s1 = Inr ((), t)"
    using record_succeeds [OF conf _ s1(1)] clash fits row s1(2) by metis
  obtain p d where "getOrCreatePolicyState (so_db t) = Inr (p, d)"
    using getOrCreate_Inr by (cases "solvencyPolicyState (so_db t)") auto
  with t have "generateSnapshot cfg lib signer provider rd actor s = (Inr p, t\<lparr>so_db := d\<rparr>)"
    unfolding generateSnapshot_def by (simp add: pend bindT_def inDb_def)
  then show ?thesis by blast
qed

end
