(* ===== verification/Liability_Books.thy ===== *)
theory Liability_Books
  imports Liability_Snapshot Ledger_Properties
begin

text \<open>
  What a snapshot relies on in the ledger's tables: every ledger account is filed under the key of
  its type, asset and owner, on the product chain; a customer without a balance row has nothing
  pending in the books; a customer has one vault per asset.
\<close>

section \<open>Filed accounts\<close>

fun key_prefix :: "ledger_account_type \<Rightarrow> string" where
  "key_prefix asset_inbound_clearing = ''asset_inbound_clearing''"
| "key_prefix asset_outbound_clearing = ''asset_outbound_clearing''"
| "key_prefix customer_asset_liability = ''customer_asset_liability''"
| "key_prefix customer_asset_pending_withdrawal_liability = ''customer_asset_pending_withdrawal_liability''"
| "key_prefix customer_asset_pending_internal_transfer_liability = ''customer_asset_pending_internal_transfer_liability''"
| "key_prefix customer_retirement_vault_liability = ''customer_retirement_vault_liability''"
| "key_prefix loan_principal_receivable = ''loan_principal_receivable''"
| "key_prefix loan_service_fee_receivable = ''loan_service_fee_receivable''"
| "key_prefix loan_service_fee_income = ''loan_service_fee_income''"
| "key_prefix loan_collateral_custody = ''loan_collateral_custody''"
| "key_prefix loan_liquidation_clearing = ''loan_liquidation_clearing''"

lemma key_prefix_no_colon: "no_colon (key_prefix ty)"
  by (cases ty) (simp_all add: no_colon_def)

lemma key_prefix_inject: "key_prefix ty = key_prefix ty' \<Longrightarrow> ty = ty'"
  by (cases ty; cases ty') simp_all

text \<open>The account types of customers, and whose an account is: \<open>own\<close> gives the owners of the vaults.\<close>

definition customer_types :: "ledger_account_type set" where
  "customer_types = {customer_asset_liability, customer_asset_pending_withdrawal_liability,
     customer_asset_pending_internal_transfer_liability}"

definition filed_account :: "nat \<Rightarrow> (string \<Rightarrow> string option) \<Rightarrow> ledger_account \<Rightarrow> bool" where
  "filed_account chain own a \<longleftrightarrow>
     (\<exists>x. la_ledgerKey a = colon_key (key_prefix (la_accountType a)) x (la_assetId a) \<and>
        (la_accountType a \<in> customer_types \<longrightarrow>
           la_chainId a = chain \<and> no_colon x \<and> la_customerAccountId a = Some x) \<and>
        (la_accountType a = customer_retirement_vault_liability \<longrightarrow>
           la_chainId a = chain \<and> no_colon x \<and> own x \<noteq> None \<and> la_customerAccountId a = own x))"

definition vault_owner :: "db \<Rightarrow> string \<Rightarrow> string option" where
  "vault_owner s v = map_option rv_customerAccountId (retirementVaults s v)"

definition filed :: "nat \<Rightarrow> (string \<Rightarrow> string option) \<Rightarrow> db \<Rightarrow> bool" where
  "filed chain own s \<longleftrightarrow>
     (\<forall>v. vault_owner s v = own v) \<and>
     (\<forall>k a. ledgerAccounts s k = Some a \<longrightarrow> filed_account chain own a) \<and>
     (\<forall>k\<in>dom (customerAssetBalances s). no_colon (fst k))"

lemma filed_upsert [keeps_intro]:
  assumes "\<exists>x. key = colon_key (key_prefix ty) x asset \<and>
      (ty \<in> customer_types \<longrightarrow> ch = chain \<and> no_colon x \<and> customer = Some x) \<and>
      (ty = customer_retirement_vault_liability \<longrightarrow> ch = chain \<and> no_colon x \<and> own x \<noteq> None \<and> customer = own x)"
  shows "keeps (filed chain own) (ledgerAccount_upsert key ty ch asset customer)"
  unfolding keeps_def
proof (intro allI impI)
  fix s a t
  assume f: "filed chain own s" and run: "ledgerAccount_upsert key ty ch asset customer s = Inr (a, t)"
  from ledgerAccount_upsert_cases [OF run] show "filed chain own t"
  proof
    assume new: "ledgerAccounts s key = None \<and>
      a = \<lparr>la_id = cuid_of s (cuid_count s), la_ledgerKey = key, la_accountType = ty,
          la_chainId = ch, la_assetId = asset, la_customerAccountId = customer\<rparr> \<and>
      t = s\<lparr>cuid_count := Suc (cuid_count s), ledgerAccounts := (ledgerAccounts s)(key \<mapsto> a)\<rparr>"
    with assms have "filed_account chain own a" by (simp add: filed_account_def)
    with f new show ?thesis by (simp add: filed_def vault_owner_def)
  qed (use f in simp)
qed

lemma filed_rows [keeps_intro]:
  "keeps (filed chain own) (ledgerJournal_create i g e jt ch a)"
  "keeps (filed chain own) (ledgerPosting_createMany ps)"
  "keeps (filed chain own) (customerAssetBalance_findUnique c a)"
  "keeps (filed chain own) (retirementVault_findUnique v)"
  "keeps (filed chain own) new_Date"
  by (auto simp: keeps_def tx_iff cuid_Inr ledgerJournal_create_def ledgerPosting_createMany_def Let_def
      customerAssetBalance_findUnique_def retirementVault_findUnique_def filed_def vault_owner_def)

lemma filed_write:
  assumes "filed chain own s"
  shows "no_colon c \<Longrightarrow> filed chain own (s\<lparr>customerAssetBalances := (customerAssetBalances s)((c, a) \<mapsto> b)\<rparr>)"
    and "retirementVaults s v = Some r \<Longrightarrow> rv_customerAccountId r' = rv_customerAccountId r \<Longrightarrow>
      filed chain own (s\<lparr>retirementVaults := (retirementVaults s)(v \<mapsto> r')\<rparr>)"
proof -
  note f = assms [unfolded filed_def vault_owner_def]
  show "filed chain own (s\<lparr>customerAssetBalances := (customerAssetBalances s)((c, a) \<mapsto> b)\<rparr>)" if "no_colon c"
    using f that unfolding filed_def vault_owner_def by simp
  assume r: "retirementVaults s v = Some r" "rv_customerAccountId r' = rv_customerAccountId r"
  have "own v = Some (rv_customerAccountId r)" using f r(1) by (metis option.simps(9))
  then show "filed chain own (s\<lparr>retirementVaults := (retirementVaults s)(v \<mapsto> r')\<rparr>)"
    using f r unfolding filed_def vault_owner_def by simp
qed

lemma filed_balance [keeps_intro]:
  "no_colon c \<Longrightarrow> keeps (filed chain own) (customerAssetBalance_put c a b)"
  "no_colon c \<Longrightarrow> keeps (filed chain own) (customerAssetBalance_credit c a x)"
  "no_colon c \<Longrightarrow> keeps (filed chain own) (customerAssetBalance_updateMany c a guard upd)"
  unfolding customerAssetBalance_credit_def customerAssetBalance_updateMany_def Let_def
    customerAssetBalance_findUnique_def
  by (auto simp: keeps_def tx_iff customerAssetBalance_put_def split: option.splits if_splits
      intro: filed_write)

lemma filed_vault [keeps_intro]:
  assumes "\<And>r. rv_customerAccountId (upd r) = rv_customerAccountId r"
  shows "keeps (filed chain own) (retirementVault_update v upd)"
    and "keeps (filed chain own) (retirementVault_updateMany v guard upd)"
  using assms by (auto simp: keeps_def tx_iff retirementVault_put_def retirementVault_findUnique_def
      retirementVault_update_def retirementVault_updateMany_def split: option.splits if_splits
      intro: filed_write)

text \<open>What the callers add: the product chain, and a vault named together with its owner.\<close>

fun on_chain :: "nat \<Rightarrow> (string \<Rightarrow> string option) \<Rightarrow> ledger_op \<Rightarrow> bool" where
  "on_chain chain own (SettleDeposit p) = (p_chainId p = chain \<and> no_colon (p_customerAccountId p))"
| "on_chain chain own (ReserveWithdrawal p) = (p_chainId p = chain \<and> no_colon (p_customerAccountId p))"
| "on_chain chain own (ReleaseWithdrawal p) = (p_chainId p = chain \<and> no_colon (p_customerAccountId p))"
| "on_chain chain own (SettleWithdrawal p) = (p_chainId p = chain \<and> no_colon (p_customerAccountId p))"
| "on_chain chain own (ReserveTransfer p) = (p_chainId p = chain \<and> no_colon (p_customerAccountId p))"
| "on_chain chain own (ReleaseTransfer p) = (p_chainId p = chain \<and> no_colon (p_customerAccountId p))"
| "on_chain chain own (SettleTransfer p) = (si_chainId p = chain \<and> no_colon (si_senderCustomerAccountId p) \<and>
     no_colon (si_recipientCustomerAccountId p))"
| "on_chain chain own (FundVault p) = (fv_chainId p = chain \<and> no_colon (fv_customerAccountId p) \<and>
     no_colon (fv_retirementVaultId p) \<and> own (fv_retirementVaultId p) = Some (fv_customerAccountId p))"
| "on_chain chain own (ReleaseVault p) = (fv_chainId p = chain \<and> no_colon (fv_customerAccountId p) \<and>
     no_colon (fv_retirementVaultId p) \<and> own (fv_retirementVaultId p) = Some (fv_customerAccountId p))"
| "on_chain chain own (DisburseLoan p) = (ld_chainId p = chain)"
| "on_chain chain own (RepayLoan p) = (lr_chainId p = chain \<and> no_colon (lr_customerAccountId p))"

lemma filed_accounts:
  "no_colon c \<Longrightarrow> keeps (filed chain own) (customerLiabilityAccount c chain a)"
  "no_colon c \<Longrightarrow> keeps (filed chain own) (pendingWithdrawalLiabilityAccount c chain a)"
  "no_colon c \<Longrightarrow> keeps (filed chain own) (pendingInternalTransferLiabilityAccount c chain a)"
  "no_colon v \<Longrightarrow> own v = Some c \<Longrightarrow> keeps (filed chain own) (retirementVaultLiabilityAccount v c chain a)"
  "keeps (filed chain own) (inboundClearingAccount ch a)"
  "keeps (filed chain own) (outboundClearingAccount ch a)"
  "keeps (filed chain own) (loanPrincipalReceivableAccount l ch a)"
  "keeps (filed chain own) (loanServiceFeeReceivableAccount l ch a)"
  "keeps (filed chain own) (loanServiceFeeIncomeAccount ch a)"
  unfolding ledger_account_defs ledger_key_defs
  by (rule filed_upsert; auto simp: customer_types_def)+

lemma filed_when_fee [keeps_intro]: "keeps (filed chain own) m \<Longrightarrow> keeps (filed chain own) (whenFee x m)"
  unfolding whenFee_def by (intro keeps_intro)

lemma filed_journal_lookups [keeps_intro]:
  "keeps (filed chain own) (findLedgerJournalByIntentAndType i jt)"
  "keeps (filed chain own) (findLedgerJournalByLoanAgreementAndType l jt)"
  "keeps (filed chain own) (findLedgerJournalByLoanRepaymentEventAndType e jt)"
  unfolding findLedgerJournalByIntentAndType_def findLedgerJournalByLoanAgreementAndType_def
    findLedgerJournalByLoanRepaymentEventAndType_def by (intro keeps_intro)+

lemma run_ledger_op_filed:
  "on_chain chain own op \<Longrightarrow> keeps (filed chain own) (run_ledger_op op)"
  by (cases op; simp only: run_ledger_op.simps on_chain.simps voidT_def settleConfirmedDeposit_def
      reserveWithdrawalBalance_def releaseWithdrawalReservation_def settleConfirmedWithdrawal_def
      reserveInternalBalanceTransferBalance_def releaseInternalBalanceTransferReservation_def
      settleInternalBalanceTransfer_def senderDebitAccount_def debitSenderBalance_def
      fundRetirementVaultBalance_def releaseRetirementVaultBalance_def recordLoanDisbursement_def
      recordLoanRepayment_def)
    (intro keeps_intro filed_accounts | (auto split: option.splits; fail))+

section \<open>Customers without a balance row\<close>

definition unopened :: "db \<Rightarrow> bool" where
  "unopened s \<longleftrightarrow> (\<forall>c a. no_colon c \<longrightarrow> customerAssetBalances s (c, a) = None \<longrightarrow>
     key_net s (buildPendingWithdrawalLiabilityLedgerKey c a) = 0 \<and>
     key_net s (buildPendingInternalTransferLiabilityLedgerKey c a) = 0)"

lemma kept_row_basic [keeps_intro]:
  "keeps (\<lambda>s. k \<in> dom (customerAssetBalances s)) (ledgerAccount_upsert key ty ch asset customer)"
  "keeps (\<lambda>s. k \<in> dom (customerAssetBalances s)) (ledgerJournal_create i g e jt ch a)"
  "keeps (\<lambda>s. k \<in> dom (customerAssetBalances s)) (ledgerPosting_createMany ps)"
  "keeps (\<lambda>s. k \<in> dom (customerAssetBalances s)) (customerAssetBalance_put c a b)"
  "keeps (\<lambda>s. k \<in> dom (customerAssetBalances s)) (retirementVault_put v r)"
  "keeps (\<lambda>s. k \<in> dom (customerAssetBalances s)) new_Date"
  by (auto simp: keeps_def tx_iff cuid_Inr ledgerJournal_create_def ledgerPosting_createMany_def Let_def
      customerAssetBalance_put_def retirementVault_put_def dest!: ledgerAccount_upsert_cases)

lemma run_ledger_op_rows: "keeps (\<lambda>s. k \<in> dom (customerAssetBalances s)) (run_ledger_op op)"
  by (cases op; simp only: run_ledger_op.simps voidT_def settleConfirmedDeposit_def
      reserveWithdrawalBalance_def releaseWithdrawalReservation_def settleConfirmedWithdrawal_def
      reserveInternalBalanceTransferBalance_def releaseInternalBalanceTransferReservation_def
      settleInternalBalanceTransfer_def senderDebitAccount_def debitSenderBalance_def
      fundRetirementVaultBalance_def releaseRetirementVaultBalance_def recordLoanDisbursement_def
      recordLoanRepayment_def whenFee_def ledger_account_defs customerAssetBalance_credit_def Let_def
      customerAssetBalance_updateMany_def retirementVault_update_def retirementVault_updateMany_def
      customerAssetBalance_findUnique_def retirementVault_findUnique_def
      findLedgerJournalByIntentAndType_def findLedgerJournalByLoanAgreementAndType_def
      findLedgerJournalByLoanRepaymentEventAndType_def)
    (intro keeps_intro | (simp split: option.splits; intro keeps_intro allI impI conjI; fail))+

lemma unopened_shift:
  assumes "unopened s" "shifts f s t" "dom (customerAssetBalances s) \<subseteq> dom (customerAssetBalances t)"
    and "\<And>c a. no_colon c \<Longrightarrow> customerAssetBalances s (c, a) = None \<Longrightarrow>
      f (buildPendingWithdrawalLiabilityLedgerKey c a) = 0 \<and>
      f (buildPendingInternalTransferLiabilityLedgerKey c a) = 0"
  shows "unopened t"
  unfolding unopened_def
proof (intro allI impI)
  fix c a
  assume c: "no_colon c" "customerAssetBalances t (c, a) = None"
  then have "customerAssetBalances s (c, a) = None" using assms(3) by blast
  with c assms(1,2,4) show "key_net t (buildPendingWithdrawalLiabilityLedgerKey c a) = 0 \<and>
      key_net t (buildPendingInternalTransferLiabilityLedgerKey c a) = 0"
    by (simp add: unopened_def shifts_def)
qed

lemma run_ledger_op_unopened:
  assumes run: "run_ledger_op op s = Inr (u, t)" and wf: "ledger_wf s"
    and valid: "valid_op s op" and un: "unopened s"
  shows "unopened t"
proof -
  have rows: "dom (customerAssetBalances s) \<subseteq> dom (customerAssetBalances t)"
    using run_ledger_op_rows run by (blast dest: keepsD)
  show ?thesis
  proof (cases op)
    case (SettleDeposit p)
    with run obtain r where r: "settleConfirmedDeposit p s = Inr (r, t)" by (auto simp: tx_iff)
    note l = settleConfirmedDeposit_law [OF r wf]
    show ?thesis using valid SettleDeposit 
      by (intro unopened_shift [OF un ledger_effect_shifts [OF l(1)] rows])
        (auto simp: key_simps available_def pending_def split: option.splits if_splits)
  next
    case (ReserveWithdrawal p)
    with run obtain r where r: "reserveWithdrawalBalance p s = Inr (r, t)" by (auto simp: tx_iff)
    note l = reserveWithdrawalBalance_law [OF r wf]
    show ?thesis using valid ReserveWithdrawal l(4)
      by (intro unopened_shift [OF un ledger_effect_shifts [OF l(1)] rows])
        (auto simp: key_simps available_def pending_def split: option.splits if_splits)
  next
    case (ReleaseWithdrawal p)
    with run obtain r where r: "releaseWithdrawalReservation p s = Inr (r, t)" by (auto simp: tx_iff)
    note l = releaseWithdrawalReservation_law [OF r wf]
    show ?thesis using valid ReleaseWithdrawal l(4)
      by (intro unopened_shift [OF un ledger_effect_shifts [OF l(1)] rows])
        (auto simp: key_simps available_def pending_def split: option.splits if_splits)
  next
    case (SettleWithdrawal p)
    with run obtain r where r: "settleConfirmedWithdrawal p s = Inr (r, t)" by (auto simp: tx_iff)
    note l = settleConfirmedWithdrawal_law [OF r wf]
    show ?thesis using valid SettleWithdrawal l(4)
      by (intro unopened_shift [OF un ledger_effect_shifts [OF l(1)] rows])
        (auto simp: key_simps available_def pending_def split: option.splits if_splits)
  next
    case (ReserveTransfer p)
    with run obtain r where r: "reserveInternalBalanceTransferBalance p s = Inr (r, t)" by (auto simp: tx_iff)
    note l = reserveInternalBalanceTransferBalance_law [OF r wf]
    show ?thesis using valid ReserveTransfer l(4)
      by (intro unopened_shift [OF un ledger_effect_shifts [OF l(1)] rows])
        (auto simp: key_simps available_def pending_def split: option.splits if_splits)
  next
    case (ReleaseTransfer p)
    with run obtain r where r: "releaseInternalBalanceTransferReservation p s = Inr (r, t)" by (auto simp: tx_iff)
    note l = releaseInternalBalanceTransferReservation_law [OF r wf]
    show ?thesis using valid ReleaseTransfer l(4)
      by (intro unopened_shift [OF un ledger_effect_shifts [OF l(1)] rows])
        (auto simp: key_simps available_def pending_def split: option.splits if_splits)
  next
    case (SettleTransfer p)
    with run obtain r where r: "settleInternalBalanceTransfer p s = Inr (r, t)" by (auto simp: tx_iff)
    note l = settleInternalBalanceTransfer_law [OF r wf]
    show ?thesis using valid SettleTransfer l(4)
      by (intro unopened_shift [OF un ledger_effect_shifts [OF l(1)] rows])
        (auto simp: key_simps available_def pending_def split: option.splits if_splits)
  next
    case (FundVault p)
    with run obtain r where r: "fundRetirementVaultBalance p s = Inr (r, t)" by (auto simp: tx_iff)
    note l = fundRetirementVaultBalance_law [OF r wf]
    show ?thesis using valid FundVault 
      by (intro unopened_shift [OF un ledger_effect_shifts [OF l(1)] rows])
        (auto simp: key_simps available_def pending_def split: option.splits if_splits)
  next
    case (ReleaseVault p)
    with run obtain r where r: "releaseRetirementVaultBalance p s = Inr (r, t)" by (auto simp: tx_iff)
    note l = releaseRetirementVaultBalance_law [OF r wf]
    show ?thesis using valid ReleaseVault 
      by (intro unopened_shift [OF un ledger_effect_shifts [OF l(1)] rows])
        (auto simp: key_simps available_def pending_def split: option.splits if_splits)
  next
    case (DisburseLoan p)
    with run obtain r where r: "recordLoanDisbursement p s = Inr (r, t)" by (auto simp: tx_iff)
    note l = recordLoanDisbursement_law [OF r wf]
    from l(1) obtain d c fr fi where "shifts (entries_shift (disbursementEntries p d c fr fi)) s t"
      unfolding ledger_effect_def by blast
    then show ?thesis by (rule unopened_shift [OF un _ rows]) (simp_all add: key_simps split: option.splits)
  next
    case (RepayLoan p)
    with run obtain r where r: "recordLoanRepayment p s = Inr (r, t)" by (auto simp: tx_iff)
    note l = recordLoanRepayment_law [OF r wf]
    from l(1) obtain d c fr where sh: "shifts (entries_shift (repaymentEntries p d c fr)) s t"
      unfolding ledger_effect_def by blast
    show ?thesis using valid RepayLoan
      by (intro unopened_shift [OF un sh rows]) (auto simp add: key_simps split: option.splits)
  qed
qed

section \<open>Reachable books\<close>

text \<open>
  A step of the ledger on the product chain. A vault is opened, for a customer and an asset
  without one (\<open>@@unique([customerAccountId, assetId])\<close>), with nothing locked in it.
\<close>

inductive book_step :: "nat \<Rightarrow> db \<Rightarrow> db \<Rightarrow> bool" for chain where
  operation: "valid_op s op \<Longrightarrow> on_chain chain (vault_owner s) op \<Longrightarrow> run_ledger_op op s = Inr (u, t) \<Longrightarrow>
    book_step chain s t"
| open_vault: "retirementVaults s v = None \<Longrightarrow> rv_lockedBalance r = 0 \<Longrightarrow>
    no_colon v \<Longrightarrow> no_colon (rv_customerAccountId r) \<Longrightarrow>
    (\<forall>r'\<in>ran (retirementVaults s). \<not> (rv_customerAccountId r' = rv_customerAccountId r \<and> rv_assetId r' = rv_assetId r)) \<Longrightarrow>
    book_step chain s (s\<lparr>retirementVaults := (retirementVaults s)(v \<mapsto> r)\<rparr>)"
| elsewhere: "off_ledger s t \<Longrightarrow> book_step chain s t"

inductive books_reachable :: "nat \<Rightarrow> db \<Rightarrow> bool" for chain where
  start: "inj gen \<Longrightarrow> books_reachable chain (empty_db gen now)"
| step: "books_reachable chain s \<Longrightarrow> book_step chain s t \<Longrightarrow> books_reachable chain t"

text \<open>Whose a vault is and in what asset.\<close>

definition vault_identity :: "db \<Rightarrow> string \<Rightarrow> (string \<times> string) option" where
  "vault_identity s v = map_option (\<lambda>r. (rv_customerAccountId r, rv_assetId r)) (retirementVaults s v)"

definition one_vault :: "db \<Rightarrow> bool" where
  "one_vault s \<longleftrightarrow>
     (\<forall>v v' o'. vault_identity s v = Some o' \<longrightarrow> vault_identity s v' = Some o' \<longrightarrow> v = v') \<and>
     (\<forall>v o'. vault_identity s v = Some o' \<longrightarrow> no_colon v \<and> no_colon (fst o'))"

definition books_inv :: "nat \<Rightarrow> db \<Rightarrow> bool" where
  "books_inv chain s \<longleftrightarrow> ledger_invariant s \<and> filed chain (vault_owner s) s \<and> unopened s \<and> one_vault s"

text \<open>No operation changes whose a vault is or in what asset.\<close>

lemma kept_identity [keeps_intro]:
  "keeps (\<lambda>s. vault_identity s = own) (ledgerAccount_upsert key ty ch asset customer)"
  "keeps (\<lambda>s. vault_identity s = own) (ledgerJournal_create i g e jt ch a)"
  "keeps (\<lambda>s. vault_identity s = own) (ledgerPosting_createMany ps)"
  "keeps (\<lambda>s. vault_identity s = own) (customerAssetBalance_put c a b)"
  "keeps (\<lambda>s. vault_identity s = own) new_Date"
  by (auto simp: keeps_def tx_iff cuid_Inr ledgerJournal_create_def ledgerPosting_createMany_def Let_def
      customerAssetBalance_put_def vault_identity_def fun_eq_iff dest!: ledgerAccount_upsert_cases)

lemma identity_write:
  "retirementVaults s v = Some r \<Longrightarrow>
     (rv_customerAccountId r', rv_assetId r') = (rv_customerAccountId r, rv_assetId r) \<Longrightarrow>
     vault_identity (s\<lparr>retirementVaults := (retirementVaults s)(v \<mapsto> r')\<rparr>) = vault_identity s"
  by (auto simp: vault_identity_def fun_eq_iff)

lemma kept_identity_vault [keeps_intro]:
  assumes "\<And>r. rv_customerAccountId (upd r) = rv_customerAccountId r \<and> rv_assetId (upd r) = rv_assetId r"
  shows "keeps (\<lambda>s. vault_identity s = own) (retirementVault_update v upd)"
    and "keeps (\<lambda>s. vault_identity s = own) (retirementVault_updateMany v guard upd)"
  using assms by (auto simp: keeps_def tx_iff retirementVault_put_def retirementVault_findUnique_def
      retirementVault_update_def retirementVault_updateMany_def identity_write split: option.splits if_splits)

lemma run_ledger_op_identity: "keeps (\<lambda>s. vault_identity s = own) (run_ledger_op op)"
  by (cases op; simp only: run_ledger_op.simps voidT_def settleConfirmedDeposit_def
      reserveWithdrawalBalance_def releaseWithdrawalReservation_def settleConfirmedWithdrawal_def
      reserveInternalBalanceTransferBalance_def releaseInternalBalanceTransferReservation_def
      settleInternalBalanceTransfer_def senderDebitAccount_def debitSenderBalance_def
      fundRetirementVaultBalance_def releaseRetirementVaultBalance_def recordLoanDisbursement_def
      recordLoanRepayment_def whenFee_def ledger_account_defs customerAssetBalance_credit_def Let_def
      customerAssetBalance_updateMany_def customerAssetBalance_findUnique_def retirementVault_findUnique_def
      findLedgerJournalByIntentAndType_def findLedgerJournalByLoanAgreementAndType_def
      findLedgerJournalByLoanRepaymentEventAndType_def)
    (intro keeps_intro | (simp split: option.splits; intro keeps_intro allI impI conjI; fail) | (simp; fail))+

lemma books_inv_start: "inj gen \<Longrightarrow> books_inv chain (empty_db gen now)"
  by (simp add: books_inv_def ledger_invariant_start)
    (simp add: empty_db_def filed_def unopened_def one_vault_def vault_identity_def key_net_def)

lemma books_inv_step: "book_step chain s t \<Longrightarrow> books_inv chain s \<Longrightarrow> books_inv chain t"
proof (induction rule: book_step.induct)
  case (operation s op u t)
  have led: "ledger_invariant t"
    using ledger_invariant_step [OF ledger_step.operation] operation by (simp add: books_inv_def)
  have filed: "filed chain (vault_owner s) t"
    using keepsD [OF run_ledger_op_filed [OF operation.hyps(2)] operation.hyps(3)] operation.prems
    by (simp add: books_inv_def)
  then have "vault_owner t = vault_owner s" by (auto simp: filed_def)
  moreover have "vault_identity t = vault_identity s"
    using keepsD [OF run_ledger_op_identity operation.hyps(3)] by simp
  moreover have "unopened t"
    using run_ledger_op_unopened [OF operation.hyps(3) _ operation.hyps(1)] operation.prems
    by (simp add: books_inv_def ledger_invariant_def)
  ultimately show ?case using led filed operation.prems by (simp add: books_inv_def one_vault_def)
next
  case (open_vault s v r)
  let ?t = "s\<lparr>retirementVaults := (retirementVaults s)(v \<mapsto> r)\<rparr>"
  have "ledger_invariant ?t"
    using ledger_invariant_step [OF ledger_step.open_vault] open_vault by (simp add: books_inv_def)
  moreover have "filed chain (vault_owner ?t) ?t"
  proof -
    have "filed_account chain (vault_owner ?t) a" if "filed_account chain (vault_owner s) a" for a
    proof -
      have "vault_owner s x \<noteq> None \<Longrightarrow> vault_owner ?t x = vault_owner s x" for x
        using open_vault.hyps(1) by (auto simp: vault_owner_def)
      with that show ?thesis unfolding filed_account_def by metis
    qed
    with open_vault.prems show ?thesis by (simp add: books_inv_def filed_def)
  qed
  moreover have "unopened ?t"
    using open_vault.prems by (simp add: books_inv_def unopened_def same_books_key_net [of s ?t] same_books_def)
  moreover have "one_vault ?t"
  proof -
    let ?o = "(rv_customerAccountId r, rv_assetId r)"
    have "vault_identity ?t = (vault_identity s)(v \<mapsto> ?o)"
      by (auto simp: vault_identity_def fun_eq_iff)
    moreover have "vault_identity s w \<noteq> Some ?o" for w
      using open_vault.hyps(5) by (auto simp: vault_identity_def ranI)
    ultimately show ?thesis
      using open_vault.prems open_vault.hyps(3,4) by (auto simp: books_inv_def one_vault_def)
  qed
  ultimately show ?case by (simp add: books_inv_def)
next
  case (elsewhere s t)
  have "ledger_invariant t"
    using ledger_invariant_step [OF ledger_step.elsewhere] elsewhere by (simp add: books_inv_def)
  moreover have same: "ledgerAccounts t = ledgerAccounts s" "customerAssetBalances t = customerAssetBalances s"
    "retirementVaults t = retirementVaults s"
    using elsewhere.hyps by (simp_all add: off_ledger_def same_money_def)
  moreover have "vault_owner t = vault_owner s" "vault_identity t = vault_identity s"
    using same(3) by (simp_all add: vault_owner_def vault_identity_def fun_eq_iff)
  ultimately show ?case
    using elsewhere.prems off_ledger_key_net [OF elsewhere.hyps]
    by (simp add: books_inv_def filed_def unopened_def one_vault_def)
qed

lemma books_reachable_inv: "books_reachable chain s \<Longrightarrow> books_inv chain s"
  by (induction rule: books_reachable.induct) (blast intro: books_inv_start books_inv_step)+

end
