(* ===== verification/Liability_Laws.thy ===== *)
theory Liability_Laws
  imports Liability_Books
begin

text \<open>
  What the passes of a snapshot over the tables compute: the entry of an asset holds sums over the
  rows of that asset, the leaf of a customer what the rows of that customer say; then the sums over
  the ledger's accounts against those over the projections.
\<close>

section \<open>Passes over rows\<close>

lemma map_of_amend: "map_of (amend k f m) k' = (if k' = k then map_option f (map_of m k) else map_of m k')"
  by (auto simp: amend_def update_conv' split: option.splits)

lemma map_of_enter:
  "map_of (enter k d f m) k' = (if k' = k then Some (f (case map_of m k of Some e \<Rightarrow> e | None \<Rightarrow> d)) else map_of m k')"
  by (simp add: enter_def update_conv')

lemma foldl_amend:
  "map_of (foldl (\<lambda>m r. amend (key r) (upd r) m) m rows) k =
     map_option (\<lambda>e. foldl (\<lambda>e r. upd r e) e (filter (\<lambda>r. key r = k) rows)) (map_of m k)"
  by (induction rows arbitrary: m) (auto simp: map_of_amend option.map_comp o_def option.map_ident)

lemma foldl_enter:
  "map_of (foldl (\<lambda>m r. enter (key r) (dflt r) (upd r) m) m rows) k =
     (case filter (\<lambda>r. key r = k) rows of
        [] \<Rightarrow> map_of m k
      | r # rs \<Rightarrow> Some (foldl (\<lambda>e r. upd r e) (case map_of m k of Some e \<Rightarrow> e | None \<Rightarrow> dflt r) (r # rs)))"
  by (induction rows arbitrary: m) (auto simp: map_of_enter split: list.splits)

lemma netAmount_net: "netAmount ps a = account_net ps (la_id a)"
proof -
  have "foldl (\<lambda>current posting. if lp_direction posting = credit then current + lp_amount posting
      else current - lp_amount posting) c xs = c + sum_list (map credit_effect xs)" for c xs
    by (induction xs arbitrary: c) (auto simp: credit_effect_def split: ledger_posting_direction.splits)
  then show ?thesis by (simp add: netAmount_def account_net_def)
qed

section \<open>The entry of an asset\<close>

abbreviation (input) accounts_of :: "nat \<Rightarrow> liability_tables \<Rightarrow> ledger_account_type \<Rightarrow> string \<Rightarrow> ledger_account list" where
  "accounts_of chain q ty i \<equiv> filter (\<lambda>a. la_chainId a = chain \<and> la_accountType a = ty \<and> la_assetId a = i)
     (lt_ledgerAccounts q)"

definition net_of :: "nat \<Rightarrow> liability_tables \<Rightarrow> ledger_account_type \<Rightarrow> string \<Rightarrow> decimal" where
  "net_of chain q ty i = sum_list (map (netAmount (lt_ledgerPostings q)) (accounts_of chain q ty i))"

definition balances_of :: "(customer_asset_balance \<Rightarrow> decimal) \<Rightarrow> liability_tables \<Rightarrow> string \<Rightarrow> decimal" where
  "balances_of f q i = sum_list (map (f \<circ> snd) (filter (\<lambda>r. snd (fst r) = i) (lt_customerAssetBalances q)))"

definition locked_of :: "liability_tables \<Rightarrow> string \<Rightarrow> decimal" where
  "locked_of q i = sum_list (map (rv_lockedBalance \<circ> snd) (filter (\<lambda>r. rv_assetId (snd r) = i) (lt_retirementVaults q)))"

lemma foldl_addAccount:
  fixes rows ps e
  defines "f \<equiv> foldl (\<lambda>e r. addAccount ps r e) e rows"
    and "pick ty \<equiv> sum_list (map (netAmount ps) (filter (\<lambda>a. la_accountType a = ty) rows))"
  assumes "\<forall>a\<in>set rows. la_accountType a \<in> set liabilityAccountTypes"
  shows "lac_availableLiabilityAmount f = lac_availableLiabilityAmount e + pick customer_asset_liability"
    and "lac_reservedLiabilityAmount f = lac_reservedLiabilityAmount e + pick customer_asset_pending_withdrawal_liability"
    and "lac_vaultLiabilityAmount f = lac_vaultLiabilityAmount e + pick customer_retirement_vault_liability"
    and "lac_projectionAvailableAmount f = lac_projectionAvailableAmount e"
    and "lac_projectionPendingAmount f = lac_projectionPendingAmount e"
    and "lac_projectionVaultLockedAmount f = lac_projectionVaultLockedAmount e"
    and "lac_asset f = lac_asset e"
  using assms(3) unfolding f_def pick_def
  by (induction rows arbitrary: e) (auto simp: addAccount_def Let_def liabilityAccountTypes_def)

lemma foldl_addBalance:
  "foldl (\<lambda>e r. addBalance (snd r) e) e rows = e
     \<lparr>lac_projectionAvailableAmount := lac_projectionAvailableAmount e + sum_list (map (cab_availableBalance \<circ> snd) rows),
      lac_projectionPendingAmount := lac_projectionPendingAmount e + sum_list (map (cab_pendingBalance \<circ> snd) rows)\<rparr>"
  by (induction rows arbitrary: e) (auto simp: addBalance_def)

lemma foldl_addVault:
  "foldl (\<lambda>e r. addVault (snd r) e) e rows = e
     \<lparr>lac_projectionVaultLockedAmount := lac_projectionVaultLockedAmount e + sum_list (map (rv_lockedBalance \<circ> snd) rows)\<rparr>"
  by (induction rows arbitrary: e) (auto simp: addVault_def)

lemma foldl_addReleaseRequest:
  "foldl (\<lambda>e r. addReleaseRequest (fst r) e) e rows = e
     \<lparr>lac_pendingVaultReleaseAmount := lac_pendingVaultReleaseAmount e + sum_list (map (vr_requestedAmount \<circ> fst) rows)\<rparr>"
  by (induction rows arbitrary: e) (auto simp: addReleaseRequest_def)

lemma foldl_update:
  "distinct (map g xs) \<Longrightarrow> x \<in> set xs \<Longrightarrow> map_of (foldl (\<lambda>m a. AList.update (g a) (h a) m) m xs) (g x) = Some (h x)"
proof (induction xs arbitrary: m)
  case (Cons y ys)
  show ?case
  proof (cases "x \<in> set ys")
    case True
    with Cons show ?thesis by simp
  next
    case False
    with Cons.prems have x: "x = y" and out: "g y \<notin> g ` set ys" by auto
    have "k \<notin> g ` set ys \<Longrightarrow> map_of (foldl (\<lambda>m a. AList.update (g a) (h a) m) m ys) k = map_of m k" for m k
      by (induction ys arbitrary: m) (auto simp: update_conv')
    with x out show ?thesis by (simp add: update_conv')
  qed
qed simp

lemma map_of_map_snd: "map_of (map (\<lambda>p. (fst p, f (snd p))) m) k = map_option f (map_of m k)"
  by (induction m) auto

lemma liability_entry:
  assumes "distinct (map as_id assetList)" "a \<in> set assetList"
  obtains e where
    "map_of (computeLiabilitiesByAsset chain q assetList mismatches) (as_id a) = Some e"
    "lac_asset e = a"
    "lac_availableLiabilityAmount e = net_of chain q customer_asset_liability (as_id a)"
    "lac_reservedLiabilityAmount e = net_of chain q customer_asset_pending_withdrawal_liability (as_id a)"
    "lac_vaultLiabilityAmount e = net_of chain q customer_retirement_vault_liability (as_id a)"
    "lac_projectionAvailableAmount e = balances_of cab_availableBalance q (as_id a)"
    "lac_projectionPendingAmount e = balances_of cab_pendingBalance q (as_id a)"
    "lac_projectionVaultLockedAmount e = locked_of q (as_id a)"
    "lac_totalLiabilityAmount e = lac_availableLiabilityAmount e + lac_reservedLiabilityAmount e + lac_vaultLiabilityAmount e"
    "lac_projectionMatchesLedger e \<longleftrightarrow>
       lac_projectionAvailableAmount e = lac_availableLiabilityAmount e \<and>
       lac_projectionPendingAmount e = lac_reservedLiabilityAmount e \<and>
       lac_projectionVaultLockedAmount e = lac_vaultLiabilityAmount e"
proof -
  let ?i = "as_id a"
  let ?e0 = "(createZeroLiabilityComputation a)
      \<lparr>lac_openReconciliationMismatchCount := fst (mismatches ?i),
       lac_criticalReconciliationMismatchCount := snd (mismatches ?i)\<rparr>"
  let ?accounts = "filter (\<lambda>r. la_assetId r = ?i) (liabilityAccounts chain q)"
  let ?e1 = "foldl (\<lambda>e r. addAccount (lt_ledgerPostings q) r e) ?e0 ?accounts"
  let ?e2 = "foldl (\<lambda>e r. addBalance (snd r) e) ?e1 (filter (\<lambda>r. snd (fst r) = ?i) (lt_customerAssetBalances q))"
  let ?e3 = "foldl (\<lambda>e r. addVault (snd r) e) ?e2 (filter (\<lambda>r. rv_assetId (snd r) = ?i) (vaultsOf assetList q))"
  let ?e4 = "foldl (\<lambda>e r. addReleaseRequest (fst r) e) ?e3
      (filter (\<lambda>r. rv_assetId (snd r) = ?i) (activeReleaseRequests assetList q))"
  have found: "map_of (computeLiabilitiesByAsset chain q assetList mismatches) ?i = Some (closeEntry ?e4)"
    using foldl_update [OF assms, where h = "\<lambda>a. (createZeroLiabilityComputation a)
      \<lparr>lac_openReconciliationMismatchCount := fst (mismatches (as_id a)),
       lac_criticalReconciliationMismatchCount := snd (mismatches (as_id a))\<rparr>" and m = "[]"]
    by (simp add: computeLiabilitiesByAsset_def Let_def map_of_map_snd case_prod_unfold
        foldl_amend [where key = "\<lambda>r. rv_assetId (snd r)" and upd = "\<lambda>r. addReleaseRequest (fst r)"]
        foldl_amend [where key = "\<lambda>r. rv_assetId (snd r)" and upd = "\<lambda>r. addVault (snd r)"]
        foldl_amend [where key = "\<lambda>r. snd (fst r)" and upd = "\<lambda>r. addBalance (snd r)"]
        foldl_amend [where key = la_assetId and upd = "addAccount (lt_ledgerPostings q)"])
  have pick: "filter (\<lambda>r. la_accountType r = ty) ?accounts = accounts_of chain q ty ?i"
    if "ty \<in> set liabilityAccountTypes" for ty
    using that by (auto simp: liabilityAccounts_def intro!: filter_cong)
  have vaults: "filter (\<lambda>r. rv_assetId (snd r) = ?i) (vaultsOf assetList q) =
      filter (\<lambda>r. rv_assetId (snd r) = ?i) (lt_retirementVaults q)"
    using assms(2) by (auto simp: vaultsOf_def intro!: filter_cong)
  have types: "\<forall>r\<in>set ?accounts. la_accountType r \<in> set liabilityAccountTypes"
    by (auto simp: liabilityAccounts_def)
  note acc = foldl_addAccount [OF types, of "lt_ledgerPostings q" ?e0]
  have in_types: "customer_asset_liability \<in> set liabilityAccountTypes"
    "customer_asset_pending_withdrawal_liability \<in> set liabilityAccountTypes"
    "customer_retirement_vault_liability \<in> set liabilityAccountTypes"
    by (simp_all add: liabilityAccountTypes_def)
  have e1: "lac_asset ?e1 = a"
    "lac_availableLiabilityAmount ?e1 = net_of chain q customer_asset_liability ?i"
    "lac_reservedLiabilityAmount ?e1 = net_of chain q customer_asset_pending_withdrawal_liability ?i"
    "lac_vaultLiabilityAmount ?e1 = net_of chain q customer_retirement_vault_liability ?i"
    "lac_projectionAvailableAmount ?e1 = 0" "lac_projectionPendingAmount ?e1 = 0"
    "lac_projectionVaultLockedAmount ?e1 = 0"
    by (simp_all only: acc pick in_types net_of_def) (simp_all add: createZeroLiabilityComputation_def)
  obtain e1 where opaque: "?e1 = e1" by blast
  note e1 = e1 [unfolded opaque]
  show thesis
    by (rule that [OF found [unfolded opaque]])
      (simp_all add: closeEntry_def foldl_addReleaseRequest foldl_addVault foldl_addBalance vaults e1
        balances_of_def locked_of_def)
qed

section \<open>Accounts and projections\<close>

text \<open>The lists are the tables of a database.\<close>

definition lists_tables :: "liability_tables \<Rightarrow> db \<Rightarrow> bool" where
  "lists_tables q s \<longleftrightarrow>
     distinct (map la_ledgerKey (lt_ledgerAccounts q)) \<and>
     (\<forall>k a. ledgerAccounts s k = Some a \<longleftrightarrow> a \<in> set (lt_ledgerAccounts q) \<and> la_ledgerKey a = k) \<and>
     lt_ledgerPostings q = ledgerPostings s \<and>
     distinct (map fst (lt_customerAssetBalances q)) \<and>
     map_of (lt_customerAssetBalances q) = customerAssetBalances s \<and>
     distinct (map fst (lt_retirementVaults q)) \<and> map_of (lt_retirementVaults q) = retirementVaults s"

definition type_key :: "ledger_account_type \<Rightarrow> string \<Rightarrow> string \<Rightarrow> string" where
  "type_key ty x i = colon_key (key_prefix ty) x i"

lemma type_key_builders:
  "type_key customer_asset_liability c i = buildCustomerLiabilityLedgerKey c i"
  "type_key customer_asset_pending_withdrawal_liability c i = buildPendingWithdrawalLiabilityLedgerKey c i"
  "type_key customer_asset_pending_internal_transfer_liability c i = buildPendingInternalTransferLiabilityLedgerKey c i"
  "type_key customer_retirement_vault_liability c i = buildRetirementVaultLiabilityLedgerKey c i"
  by (simp_all add: type_key_def ledger_key_defs)

text \<open>The account under the key of a customer or vault is of that type, asset and chain.\<close>

lemma filed_key:
  assumes "filed chain own s" "no_colon x" "ledgerAccounts s (type_key ty x i) = Some a"
    "la_ledgerKey a = type_key ty x i" "ty \<in> insert customer_retirement_vault_liability customer_types"
  shows "la_accountType a = ty \<and> la_assetId a = i \<and> la_chainId a = chain"
    and "ty \<in> customer_types \<Longrightarrow> la_customerAccountId a = Some x"
    and "ty = customer_retirement_vault_liability \<Longrightarrow> la_customerAccountId a = own x \<and> own x \<noteq> None"
proof -
  from assms(1,3) obtain y where key: "la_ledgerKey a = colon_key (key_prefix (la_accountType a)) y (la_assetId a)"
    and cust: "la_accountType a \<in> customer_types \<Longrightarrow> la_chainId a = chain \<and> no_colon y \<and> la_customerAccountId a = Some y"
    and vault: "la_accountType a = customer_retirement_vault_liability \<Longrightarrow>
      la_chainId a = chain \<and> no_colon y \<and> own y \<noteq> None \<and> la_customerAccountId a = own y"
    unfolding filed_def filed_account_def by blast
  have eq: "colon_key (key_prefix (la_accountType a)) y (la_assetId a) = colon_key (key_prefix ty) x i"
    using key assms(4) by (simp add: type_key_def)
  then have "key_prefix (la_accountType a) = key_prefix ty"
    by (rule colon_key_prefix [OF key_prefix_no_colon key_prefix_no_colon])
  then have ty: "la_accountType a = ty" by (rule key_prefix_inject)
  with assms(5) cust vault have y: "no_colon y" "la_chainId a = chain" by auto
  have "la_assetId a = i \<and> y = x"
    using eq ty y(1) assms(2) by (simp add: colon_key_eq_iff key_prefix_no_colon)
  with ty y cust vault assms(5)
  show "la_accountType a = ty \<and> la_assetId a = i \<and> la_chainId a = chain"
    and "ty \<in> customer_types \<Longrightarrow> la_customerAccountId a = Some x"
    and "ty = customer_retirement_vault_liability \<Longrightarrow> la_customerAccountId a = own x \<and> own x \<noteq> None"
    by auto
qed

lemma net_of_sum:
  assumes f: "filed chain own s" and q: "lists_tables q s"
    and ty: "ty \<in> insert customer_retirement_vault_liability customer_types"
    and U: "finite U" "\<forall>x\<in>U. no_colon x"
      "\<And>x. no_colon x \<Longrightarrow> ledgerAccounts s (type_key ty x i) \<noteq> None \<Longrightarrow> x \<in> U"
  shows "net_of chain q ty i = (\<Sum>x\<in>U. key_net s (type_key ty x i))"
proof -
  let ?A = "accounts_of chain q ty i"
  let ?C = "{x\<in>U. ledgerAccounts s (type_key ty x i) \<noteq> None}"
  let ?h = "\<lambda>x. the (ledgerAccounts s (type_key ty x i))"
  note q' = q [unfolded lists_tables_def]
  have key: "ledgerAccounts s k = Some a \<longleftrightarrow> a \<in> set (lt_ledgerAccounts q) \<and> la_ledgerKey a = k" for k a
    using q' by blast
  have inj_key: "no_colon x \<Longrightarrow> no_colon y \<Longrightarrow> type_key ty x i = type_key ty y i \<Longrightarrow> x = y" for x y
    by (simp add: type_key_def colon_key_eq_iff key_prefix_no_colon)
  have image: "?h ` ?C = set ?A"
  proof
    show "?h ` ?C \<subseteq> set ?A"
    proof
      fix a
      assume "a \<in> ?h ` ?C"
      then obtain x where x: "x \<in> U" "ledgerAccounts s (type_key ty x i) = Some a" by auto
      then have a: "a \<in> set (lt_ledgerAccounts q)" "la_ledgerKey a = type_key ty x i" using key by auto
      from filed_key(1) [OF f _ x(2) a(2) ty] x(1) U(2) a(1) show "a \<in> set ?A" by simp
    qed
    show "set ?A \<subseteq> ?h ` ?C"
    proof
      fix a
      assume "a \<in> set ?A"
      then have a: "a \<in> set (lt_ledgerAccounts q)" "la_accountType a = ty" "la_assetId a = i" by auto
      then have look: "ledgerAccounts s (la_ledgerKey a) = Some a" using key by blast
      with f a ty obtain x where "no_colon x" "la_ledgerKey a = type_key ty x i"
        unfolding filed_def filed_account_def type_key_def by blast
      with look U(3) [of x] show "a \<in> ?h ` ?C" by (force intro!: image_eqI [of _ _ x])
    qed
  qed
  have inj: "inj_on ?h ?C"
  proof (rule inj_onI)
    fix x y
    assume xy: "x \<in> ?C" "y \<in> ?C" "?h x = ?h y"
    then obtain a where a: "ledgerAccounts s (type_key ty x i) = Some a" "ledgerAccounts s (type_key ty y i) = Some a"
      by auto
    have eq: "type_key ty x i = type_key ty y i"
      by (rule trans [OF sym [OF key [THEN iffD1, OF a(1), THEN conjunct2]] key [THEN iffD1, OF a(2), THEN conjunct2]])
    have "no_colon x" "no_colon y" using xy(1,2) U(2) by blast+
    then show "x = y" using eq by (rule inj_key)
  qed
  have "distinct ?A" using q' [THEN conjunct1] by (simp add: distinct_map)
  then have "net_of chain q ty i = sum (netAmount (lt_ledgerPostings q)) (set ?A)"
    unfolding net_of_def by (rule sum_list_distinct_conv_sum_set)
  also have "\<dots> = (\<Sum>x\<in>?C. netAmount (lt_ledgerPostings q) (?h x))"
    unfolding image [symmetric] by (rule sum.reindex_cong [OF inj refl refl])
  also have "\<dots> = (\<Sum>x\<in>?C. key_net s (type_key ty x i))"
    using q' [THEN conjunct2, THEN conjunct2, THEN conjunct1]
    by (intro sum.cong refl) (auto simp: key_net_def netAmount_net)
  also have "\<dots> = (\<Sum>x\<in>U. key_net s (type_key ty x i))"
    using U(1) by (intro sum.mono_neutral_left) (auto simp: key_net_def)
  finally show ?thesis .
qed

lemma balances_of_sum:
  assumes q: "lists_tables q s"
    and U: "finite U" "\<And>c. customerAssetBalances s (c, i) \<noteq> None \<Longrightarrow> c \<in> U"
  shows "balances_of f q i = (\<Sum>c\<in>U. case customerAssetBalances s (c, i) of None \<Rightarrow> 0 | Some b \<Rightarrow> f b)"
proof -
  let ?rows = "filter (\<lambda>r. snd (fst r) = i) (lt_customerAssetBalances q)"
  let ?C = "{c\<in>U. customerAssetBalances s (c, i) \<noteq> None}"
  let ?h = "\<lambda>c. ((c, i), the (customerAssetBalances s (c, i)))"
  have dist: "distinct (map fst (lt_customerAssetBalances q))"
    and map: "map_of (lt_customerAssetBalances q) = customerAssetBalances s"
    using q by (simp_all add: lists_tables_def)
  have mem: "((c, a), b) \<in> set (lt_customerAssetBalances q) \<longleftrightarrow> customerAssetBalances s (c, a) = Some b" for c a b
    using map_of_eq_Some_iff [OF dist] map by simp
  have image: "?h ` ?C = set ?rows"
  proof (intro set_eqI iffI)
    fix r
    assume "r \<in> set ?rows"
    moreover obtain c a b where r: "r = ((c, a), b)" by (cases r) auto
    ultimately have "r = ((c, i), b)" "customerAssetBalances s (c, i) = Some b" using mem by auto
    then show "r \<in> ?h ` ?C" using U(2) [of c] by (auto intro!: image_eqI [of _ _ c])
  qed (use mem in auto)
  have "distinct ?rows" using dist by (simp add: distinct_map)
  then have "balances_of f q i = sum (f \<circ> snd) (set ?rows)"
    unfolding balances_of_def by (rule sum_list_distinct_conv_sum_set)
  also have "\<dots> = (\<Sum>c\<in>?C. (f \<circ> snd) (?h c))"
    unfolding image [symmetric] by (rule sum.reindex_cong [OF _ refl refl]) (auto intro: inj_onI)
  also have "\<dots> = (\<Sum>c\<in>?C. case customerAssetBalances s (c, i) of None \<Rightarrow> 0 | Some b \<Rightarrow> f b)"
    by (intro sum.cong refl) auto
  also have "\<dots> = (\<Sum>c\<in>U. case customerAssetBalances s (c, i) of None \<Rightarrow> 0 | Some b \<Rightarrow> f b)"
    using U(1) by (intro sum.mono_neutral_left) auto
  finally show ?thesis .
qed

lemma locked_of_sum:
  assumes q: "lists_tables q s"
    and U: "finite U" "\<And>v. retirementVaults s v \<noteq> None \<Longrightarrow> v \<in> U"
  shows "locked_of q i = (\<Sum>v\<in>U. vault_locked s v i)"
proof -
  let ?rows = "filter (\<lambda>r. rv_assetId (snd r) = i) (lt_retirementVaults q)"
  let ?C = "{v\<in>U. \<exists>r. retirementVaults s v = Some r \<and> rv_assetId r = i}"
  let ?h = "\<lambda>v. (v, the (retirementVaults s v))"
  have dist: "distinct (map fst (lt_retirementVaults q))"
    and map: "map_of (lt_retirementVaults q) = retirementVaults s"
    using q by (simp_all add: lists_tables_def)
  have mem: "(v, r) \<in> set (lt_retirementVaults q) \<longleftrightarrow> retirementVaults s v = Some r" for v r
    using map_of_eq_Some_iff [OF dist] map by simp
  have image: "?h ` ?C = set ?rows"
  proof (intro set_eqI iffI)
    fix r
    assume "r \<in> set ?rows"
    moreover obtain v x where r: "r = (v, x)" by (cases r) auto
    ultimately have "r = (v, x)" "retirementVaults s v = Some x" "rv_assetId x = i" using mem by auto
    then show "r \<in> ?h ` ?C" using U(2) [of v] by (auto intro!: image_eqI [of _ _ v])
  qed (use mem in auto)
  have "distinct ?rows" using dist by (simp add: distinct_map)
  then have "locked_of q i = sum (rv_lockedBalance \<circ> snd) (set ?rows)"
    unfolding locked_of_def by (rule sum_list_distinct_conv_sum_set)
  also have "\<dots> = (\<Sum>v\<in>?C. (rv_lockedBalance \<circ> snd) (?h v))"
    unfolding image [symmetric] by (rule sum.reindex_cong [OF _ refl refl]) (auto intro: inj_onI)
  also have "\<dots> = (\<Sum>v\<in>?C. vault_locked s v i)"
    by (intro sum.cong refl) (auto simp: vault_locked_def)
  also have "\<dots> = (\<Sum>v\<in>U. vault_locked s v i)"
    using U(1) by (intro sum.mono_neutral_left) (auto simp: vault_locked_def split: option.splits)
  finally show ?thesis .
qed

lemma customers_of_asset:
  assumes "filed chain own s" "lists_tables q s"
  obtains U where "finite U" "\<forall>c\<in>U. no_colon c"
    "\<And>c. customerAssetBalances s (c, i) \<noteq> None \<Longrightarrow> c \<in> U"
    "\<And>ty c. ty \<in> customer_types \<Longrightarrow> no_colon c \<Longrightarrow> ledgerAccounts s (type_key ty c i) \<noteq> None \<Longrightarrow> c \<in> U"
proof
  let ?B = "fst ` dom (customerAssetBalances s)"
  let ?A = "{c. no_colon c \<and> (\<exists>ty\<in>customer_types. ledgerAccounts s (type_key ty c i) \<noteq> None)}"
  have "customerAssetBalances s = map_of (lt_customerAssetBalances q)"
    using assms(2) by (simp add: lists_tables_def)
  then have "finite ?B" by (simp add: finite_dom_map_of)
  moreover have "?A \<subseteq> (the \<circ> la_customerAccountId) ` set (lt_ledgerAccounts q)"
  proof
    fix c
    assume "c \<in> ?A"
    then obtain ty a where c: "no_colon c" "ty \<in> customer_types" "ledgerAccounts s (type_key ty c i) = Some a" by auto
    have key: "\<forall>k a. ledgerAccounts s k = Some a \<longleftrightarrow> a \<in> set (lt_ledgerAccounts q) \<and> la_ledgerKey a = k"
      using assms(2) unfolding lists_tables_def by blast
    from key c(3) have a: "a \<in> set (lt_ledgerAccounts q)" "la_ledgerKey a = type_key ty c i" by blast+
    from filed_key(2) [OF assms(1) c(1,3) a(2)] c(2) have "la_customerAccountId a = Some c" by simp
    with a(1) show "c \<in> (the \<circ> la_customerAccountId) ` set (lt_ledgerAccounts q)" by (force intro: image_eqI [of _ _ a])
  qed
  ultimately show "finite (?B \<union> ?A)" by (meson finite_UnI finite_imageI finite_set finite_subset)
  show "\<forall>c\<in>?B \<union> ?A. no_colon c" using assms(1) by (auto simp: filed_def)
  show "c \<in> ?B \<union> ?A" if "customerAssetBalances s (c, i) \<noteq> None" for c
    using that by (force intro: image_eqI [of _ _ "(c, i)"])
  show "c \<in> ?B \<union> ?A" if "ty \<in> customer_types" "no_colon c" "ledgerAccounts s (type_key ty c i) \<noteq> None" for ty c
    using that by blast
qed

lemma books_totals:
  assumes inv: "books_inv chain s" and q: "lists_tables q s"
  shows "net_of chain q customer_asset_liability i = balances_of cab_availableBalance q i"
    and "net_of chain q customer_asset_pending_withdrawal_liability i +
      net_of chain q customer_asset_pending_internal_transfer_liability i = balances_of cab_pendingBalance q i"
    and "net_of chain q customer_retirement_vault_liability i = locked_of q i"
proof -
  have f: "filed chain (vault_owner s) s" and rec: "reconciled s" and one: "one_vault s"
    using inv by (simp_all add: books_inv_def ledger_invariant_def)
  obtain U where U: "finite U" "\<forall>c\<in>U. no_colon c"
    "\<And>c. customerAssetBalances s (c, i) \<noteq> None \<Longrightarrow> c \<in> U"
    "\<And>ty c. ty \<in> customer_types \<Longrightarrow> no_colon c \<Longrightarrow> ledgerAccounts s (type_key ty c i) \<noteq> None \<Longrightarrow> c \<in> U"
    using customers_of_asset [OF f q] by blast
  have net: "net_of chain q ty i = (\<Sum>c\<in>U. key_net s (type_key ty c i))" if "ty \<in> customer_types" for ty
    using that U by (intro net_of_sum [OF f q]) auto
  have types: "customer_asset_liability \<in> customer_types"
    "customer_asset_pending_withdrawal_liability \<in> customer_types"
    "customer_asset_pending_internal_transfer_liability \<in> customer_types"
    by (simp_all add: customer_types_def)
  have avail: "balances_of cab_availableBalance q i = (\<Sum>c\<in>U. available s c i)"
    and pend: "balances_of cab_pendingBalance q i = (\<Sum>c\<in>U. pending s c i)"
    using balances_of_sum [OF q U(1,3)] by (simp_all add: available_def pending_def)
  have keys: "available s c i = key_net s (type_key customer_asset_liability c i)"
    "pending s c i = key_net s (type_key customer_asset_pending_withdrawal_liability c i) +
      key_net s (type_key customer_asset_pending_internal_transfer_liability c i)" if "c \<in> U" for c
    using rec that U(2) by (simp_all add: reconciled_def type_key_builders)
  show "net_of chain q customer_asset_liability i = balances_of cab_availableBalance q i"
    unfolding net [OF types(1)] avail using keys(1) by (intro sum.cong refl) simp
  show "net_of chain q customer_asset_pending_withdrawal_liability i +
      net_of chain q customer_asset_pending_internal_transfer_liability i = balances_of cab_pendingBalance q i"
    unfolding net [OF types(2)] net [OF types(3)] pend sum.distrib [symmetric]
    using keys(2) by (intro sum.cong refl) simp
  let ?V = "dom (retirementVaults s)"
  have "retirementVaults s = map_of (lt_retirementVaults q)" using q by (simp add: lists_tables_def)
  then have V: "finite ?V" by (simp add: finite_dom_map_of)
  have plain: "\<forall>v\<in>?V. no_colon v"
  proof
    fix v
    assume "v \<in> ?V"
    then obtain o' where "vault_identity s v = Some o'" by (auto simp: vault_identity_def)
    with one show "no_colon v" unfolding one_vault_def by blast
  qed
  have "net_of chain q customer_retirement_vault_liability i =
      (\<Sum>v\<in>?V. key_net s (type_key customer_retirement_vault_liability v i))"
  proof (rule net_of_sum [OF f q _ V plain])
    fix v
    assume v: "no_colon v" "ledgerAccounts s (type_key customer_retirement_vault_liability v i) \<noteq> None"
    then obtain a where a: "ledgerAccounts s (type_key customer_retirement_vault_liability v i) = Some a" by blast
    have "ledger_wf s" using inv by (simp add: books_inv_def ledger_invariant_def)
    with a have "la_ledgerKey a = type_key customer_retirement_vault_liability v i" by (simp add: ledger_wf_def)
    from filed_key(3) [OF f v(1) a this] have "vault_owner s v \<noteq> None" by blast
    then show "v \<in> ?V" by (simp add: vault_owner_def dom_def)
  qed simp
  also have "\<dots> = (\<Sum>v\<in>?V. vault_locked s v i)"
    using rec plain by (intro sum.cong refl) (simp add: reconciled_def type_key_builders)
  also have "\<dots> = locked_of q i" by (rule locked_of_sum [OF q V, symmetric]) auto
  finally show "net_of chain q customer_retirement_vault_liability i = locked_of q i" .
qed

end
