(* ===== verification/Liability_Leaves.thy ===== *)
theory Liability_Leaves
  imports Liability_Laws
begin

text \<open>
  The leaves of a snapshot: one for every customer with a claim on the asset, with what the
  projections say the customer has.
\<close>

section \<open>Composite keys\<close>

lemma compositeKey_eq_iff:
  assumes "no_colon c" "no_colon c'"
  shows "compositeKey a c = compositeKey a' c' \<longleftrightarrow> a = a' \<and> c = c'"
proof
  assume "compositeKey a c = compositeKey a' c'"
  then have "rev c @ CHR '':'' # rev a = rev c' @ CHR '':'' # rev a'"
    unfolding compositeKey_def by (metis append.assoc append_Cons append_Nil rev.simps(2) rev_append)
  then show "a = a' \<and> c = c'"
    using split_at_sep [of "CHR '':''" "rev c" "rev c'" "rev a" "rev a'"] assms by (simp add: no_colon_def)
qed simp

lemma filter_lookup:
  "distinct (map fst rows) \<Longrightarrow>
     filter (\<lambda>r. fst r = k) rows = (case map_of rows k of None \<Rightarrow> [] | Some b \<Rightarrow> [(k, b)])"
proof (induction rows)
  case (Cons r rows)
  obtain k' b where r: "r = (k', b)" by (cases r) auto
  show ?case
  proof (cases "k' = k")
    case True
    with Cons.prems r have "map_of rows k = None" by (simp add: map_of_eq_None_iff)
    with Cons r True show ?thesis by simp
  qed (use Cons r in simp)
qed simp

lemma filter_at_most_one:
  "distinct xs \<Longrightarrow> (\<And>x y. x \<in> set xs \<Longrightarrow> y \<in> set xs \<Longrightarrow> P x \<Longrightarrow> P y \<Longrightarrow> x = y) \<Longrightarrow>
     filter P xs = (case find P xs of None \<Rightarrow> [] | Some x \<Rightarrow> [x])"
proof (induction xs)
  case (Cons x xs)
  show ?case
  proof (cases "P x")
    case True
    have "filter P xs = []"
      using Cons.prems True by (fastforce simp: filter_empty_conv)
    with True show ?thesis by simp
  next
    case False
    with Cons show ?thesis by simp
  qed
qed simp

section \<open>The passes\<close>

text \<open>Every entry sits under the key of its asset and customer, and adds up.\<close>

definition keyed_leaves :: "(string \<times> LiabilityLeafComputation) list \<Rightarrow> bool" where
  "keyed_leaves m \<longleftrightarrow> distinct (map fst m) \<and>
     (\<forall>(k, e)\<in>set m. k = compositeKey (lf_assetId e) (lf_customerAccountId e) \<and>
        no_colon (lf_customerAccountId e) \<and>
        lf_totalLiabilityAmount e = lf_availableLiabilityAmount e + lf_reservedLiabilityAmount e + lf_vaultLiabilityAmount e)"

definition tidy :: "(LiabilityLeafComputation \<Rightarrow> LiabilityLeafComputation) \<Rightarrow> bool" where
  "tidy f \<longleftrightarrow> (\<forall>e. lf_assetId (f e) = lf_assetId e \<and> lf_customerAccountId (f e) = lf_customerAccountId e \<and>
     (lf_totalLiabilityAmount e = lf_availableLiabilityAmount e + lf_reservedLiabilityAmount e + lf_vaultLiabilityAmount e \<longrightarrow>
      lf_totalLiabilityAmount (f e) = lf_availableLiabilityAmount (f e) + lf_reservedLiabilityAmount (f e) + lf_vaultLiabilityAmount (f e)))"

lemma tidy_changes [simp]:
  "tidy (leafAccount ps r)" "tidy (leafBalance b)" "tidy (leafVault v)" "tidy (leafReleaseRequest x)"
  by (auto simp: tidy_def leafAccount_def leafBalance_def leafVault_def leafReleaseRequest_def totalLeaf_def Let_def)

lemma keyed_enter:
  assumes "keyed_leaves m" "tidy f" "no_colon c"
  shows "keyed_leaves (enterLeaf a c f m)"
proof -
  let ?k = "compositeKey a c"
  let ?old = "case map_of m ?k of Some e \<Rightarrow> e | None \<Rightarrow> emptyLeaf a c"
  have old: "lf_assetId ?old = a \<and> lf_customerAccountId ?old = c \<and>
      lf_totalLiabilityAmount ?old = lf_availableLiabilityAmount ?old + lf_reservedLiabilityAmount ?old + lf_vaultLiabilityAmount ?old"
  proof (cases "map_of m ?k")
    case None
    then show ?thesis by (simp add: emptyLeaf_def)
  next
    case (Some e)
    then have "(?k, e) \<in> set m" by (rule map_of_SomeD)
    with assms(1) have e: "?k = compositeKey (lf_assetId e) (lf_customerAccountId e)" "no_colon (lf_customerAccountId e)"
      "lf_totalLiabilityAmount e = lf_availableLiabilityAmount e + lf_reservedLiabilityAmount e + lf_vaultLiabilityAmount e"
      by (auto simp: keyed_leaves_def)
    with assms(3) have "a = lf_assetId e \<and> c = lf_customerAccountId e" by (simp add: compositeKey_eq_iff)
    with e(3) Some show ?thesis by simp
  qed
  have "distinct (map fst (AList.update ?k (f ?old) m))"
    using assms(1) by (simp add: keyed_leaves_def distinct_update)
  moreover have "\<forall>(k, e)\<in>set (AList.update ?k (f ?old) m). (k, e) \<in> set m \<or> (k, e) = (?k, f ?old)"
  proof -
    have "set (AList.update k v m) \<subseteq> insert (k, v) (set m)" for k v
      by (induction m) auto
    then show ?thesis by blast
  qed
  ultimately show ?thesis
    using assms old unfolding keyed_leaves_def enterLeaf_def enter_def tidy_def by fastforce
qed

lemma keyed_foldl:
  "keyed_leaves m \<Longrightarrow> (\<And>r. r \<in> set rows \<Longrightarrow> tidy (upd r) \<and> no_colon (cust r)) \<Longrightarrow>
     keyed_leaves (foldl (\<lambda>m r. enterLeaf (ast r) (cust r) (upd r) m) m rows)"
  by (induction rows arbitrary: m) (simp_all add: keyed_enter)

lemma foldl_enterLeaf:
  assumes "\<forall>r\<in>set rows. no_colon (cust r)" "no_colon c"
  shows "map_of (foldl (\<lambda>m r. enterLeaf (ast r) (cust r) (upd r) m) m rows) (compositeKey i c) =
     (let rs = filter (\<lambda>r. ast r = i \<and> cust r = c) rows in
      if rs = [] then map_of m (compositeKey i c)
      else Some (foldl (\<lambda>e r. upd r e)
        (case map_of m (compositeKey i c) of Some e \<Rightarrow> e | None \<Rightarrow> emptyLeaf i c) rs))"
proof -
  have same: "filter (\<lambda>r. compositeKey (ast r) (cust r) = compositeKey i c) rows = filter (\<lambda>r. ast r = i \<and> cust r = c) rows"
    using assms by (intro filter_cong) (auto simp: compositeKey_eq_iff)
  show ?thesis
  proof (cases "filter (\<lambda>r. ast r = i \<and> cust r = c) rows")
    case Nil
    then show ?thesis unfolding enterLeaf_def foldl_enter same by simp
  next
    case (Cons r rs)
    then have "ast r = i" "cust r = c" by (auto dest: filter_eq_ConsD)
    then show ?thesis unfolding enterLeaf_def foldl_enter same Cons by (simp cong: option.case_cong)
  qed
qed

section \<open>The leaf of a customer\<close>

definition customer_vault :: "liability_tables \<Rightarrow> string \<Rightarrow> string \<Rightarrow> (string \<times> retirement_vault) option" where
  "customer_vault q c i = find (\<lambda>r. rv_assetId (snd r) = i \<and> rv_customerAccountId (snd r) = c) (lt_retirementVaults q)"

definition customer_locked :: "liability_tables \<Rightarrow> string \<Rightarrow> string \<Rightarrow> decimal" where
  "customer_locked q c i = (case customer_vault q c i of None \<Rightarrow> 0 | Some r \<Rightarrow> rv_lockedBalance (snd r))"

definition customer_claim :: "db \<Rightarrow> liability_tables \<Rightarrow> string \<Rightarrow> string \<Rightarrow> decimal" where
  "customer_claim s q c i = available s c i + pending s c i + customer_locked q c i"

text \<open>What the accounts of a customer add up to.\<close>

definition customer_net :: "nat \<Rightarrow> liability_tables \<Rightarrow> ledger_account_type \<Rightarrow> string \<Rightarrow> string \<Rightarrow> decimal" where
  "customer_net chain q ty c i = sum_list (map (netAmount (lt_ledgerPostings q))
     (filter (\<lambda>a. la_customerAccountId a = Some c) (accounts_of chain q ty i)))"

lemma customer_net_key:
  assumes f: "filed chain own s" and q: "lists_tables q s" and ty: "ty \<in> customer_types" and c: "no_colon c"
  shows "customer_net chain q ty c i = key_net s (type_key ty c i)"
proof -
  have key: "ledgerAccounts s k = Some a \<longleftrightarrow> a \<in> set (lt_ledgerAccounts q) \<and> la_ledgerKey a = k" for k a
    using q unfolding lists_tables_def by blast
  let ?P = "\<lambda>a. la_chainId a = chain \<and> la_accountType a = ty \<and> la_assetId a = i \<and> la_customerAccountId a = Some c"
  have P: "?P a \<longleftrightarrow> la_ledgerKey a = type_key ty c i" if "a \<in> set (lt_ledgerAccounts q)" for a
  proof
    assume "?P a"
    moreover have "filed_account chain own a" using f key that unfolding filed_def by blast
    ultimately show "la_ledgerKey a = type_key ty c i" using ty by (auto simp: filed_account_def type_key_def)
  next
    assume k: "la_ledgerKey a = type_key ty c i"
    with key that have "ledgerAccounts s (type_key ty c i) = Some a" by blast
    from filed_key(1,2) [OF f c this k] ty show "?P a" by simp
  qed
  have "filter (\<lambda>a. la_customerAccountId a = Some c) (accounts_of chain q ty i) =
      filter (\<lambda>a. la_ledgerKey a = type_key ty c i) (lt_ledgerAccounts q)"
    using P by (auto intro!: filter_cong simp: conj_ac)
  also have "\<dots> = (case find (\<lambda>a. la_ledgerKey a = type_key ty c i) (lt_ledgerAccounts q) of None \<Rightarrow> [] | Some a \<Rightarrow> [a])"
  proof (rule filter_at_most_one)
    have dist: "distinct (map la_ledgerKey (lt_ledgerAccounts q))" using q by (simp add: lists_tables_def)
    then show "distinct (lt_ledgerAccounts q)" by (simp add: distinct_map)
    show "x = y" if "x \<in> set (lt_ledgerAccounts q)" "y \<in> set (lt_ledgerAccounts q)"
      "la_ledgerKey x = type_key ty c i" "la_ledgerKey y = type_key ty c i" for x y
      using dist that unfolding distinct_map inj_on_def by metis
  qed
  also have "find (\<lambda>a. la_ledgerKey a = type_key ty c i) (lt_ledgerAccounts q) = ledgerAccounts s (type_key ty c i)"
  proof (cases "ledgerAccounts s (type_key ty c i)")
    case None
    have "la_ledgerKey a \<noteq> type_key ty c i" if "a \<in> set (lt_ledgerAccounts q)" for a
    proof
      assume "la_ledgerKey a = type_key ty c i"
      with that have "ledgerAccounts s (type_key ty c i) = Some a" by (intro key [THEN iffD2] conjI)
      with None show False by simp
    qed
    then have "find (\<lambda>a. la_ledgerKey a = type_key ty c i) (lt_ledgerAccounts q) = None"
      by (simp add: find_None_iff_all)
    with None show ?thesis by simp
  next
    case (Some a)
    have dist: "distinct (map la_ledgerKey (lt_ledgerAccounts q))" using q by (simp add: lists_tables_def)
    from Some key have a: "a \<in> set (lt_ledgerAccounts q)" "la_ledgerKey a = type_key ty c i" by blast+
    then obtain b where b: "find (\<lambda>a. la_ledgerKey a = type_key ty c i) (lt_ledgerAccounts q) = Some b"
      by (cases "find (\<lambda>a. la_ledgerKey a = type_key ty c i) (lt_ledgerAccounts q)") (auto simp: find_None_iff)
    from find_SomeD [OF b] a dist have "b = a" unfolding distinct_map inj_on_def by metis
    with b Some show ?thesis by simp
  qed
  finally have "customer_net chain q ty c i = sum_list (map (netAmount (lt_ledgerPostings q))
      (case ledgerAccounts s (type_key ty c i) of None \<Rightarrow> [] | Some a \<Rightarrow> [a]))"
    by (simp add: customer_net_def)
  also have "\<dots> = key_net s (type_key ty c i)"
    using q [unfolded lists_tables_def, THEN conjunct2, THEN conjunct2, THEN conjunct1]
    by (simp add: key_net_def netAmount_net split: option.split)
  finally show ?thesis .
qed

lemma customer_vault_net:
  assumes inv: "books_inv chain s" and q: "lists_tables q s" and none: "customer_vault q c i = None"
  shows "customer_net chain q customer_retirement_vault_liability c i = 0"
  unfolding customer_net_def
proof (rule sum_list_all_zero, rule ballI)
  fix a
  assume "a \<in> set (filter (\<lambda>a. la_customerAccountId a = Some c) (accounts_of chain q customer_retirement_vault_liability i))"
  then have a: "a \<in> set (lt_ledgerAccounts q)" "la_accountType a = customer_retirement_vault_liability"
    "la_assetId a = i" "la_customerAccountId a = Some c" by auto
  have look: "ledgerAccounts s (la_ledgerKey a) = Some a" using q a(1) unfolding lists_tables_def by blast
  have f: "filed chain (vault_owner s) s" and rec: "reconciled s" using inv by (simp_all add: books_inv_def ledger_invariant_def)
  then have "filed_account chain (vault_owner s) a" using look unfolding filed_def by blast
  with a obtain v where v: "la_ledgerKey a = buildRetirementVaultLiabilityLedgerKey v i" "no_colon v" "vault_owner s v = Some c"
    by (auto simp: filed_account_def ledger_key_defs)
  then obtain r where r: "retirementVaults s v = Some r" "rv_customerAccountId r = c" by (auto simp: vault_owner_def)
  have "(v, r) \<in> set (lt_retirementVaults q)"
  proof (rule map_of_SomeD)
    show "map_of (lt_retirementVaults q) v = Some r" using q r(1) unfolding lists_tables_def by metis
  qed
  with none r(2) have "rv_assetId r \<noteq> i" by (auto simp: customer_vault_def find_None_iff)
  with r(1) have "vault_locked s v i = 0" by (simp add: vault_locked_def)
  with rec v have "key_net s (la_ledgerKey a) = 0" by (simp add: reconciled_def)
  with look q [unfolded lists_tables_def, THEN conjunct2, THEN conjunct2, THEN conjunct1]
  show "netAmount (lt_ledgerPostings q) a = 0" by (simp add: key_net_def netAmount_net)
qed

lemma foldl_leafAccount:
  fixes rows ps e
  defines "f \<equiv> foldl (\<lambda>e r. leafAccount ps r e) e rows"
    and "pick ty \<equiv> sum_list (map (netAmount ps) (filter (\<lambda>a. la_accountType a = ty) rows))"
  assumes "\<forall>a\<in>set rows. la_accountType a \<in> set liabilityAccountTypes"
  shows "lf_availableLiabilityAmount f = lf_availableLiabilityAmount e + pick customer_asset_liability"
    and "lf_reservedLiabilityAmount f = lf_reservedLiabilityAmount e + pick customer_asset_pending_withdrawal_liability"
    and "lf_vaultLiabilityAmount f = lf_vaultLiabilityAmount e + pick customer_retirement_vault_liability"
  using assms(3) unfolding f_def pick_def
  by (induction rows arbitrary: e) (auto simp: leafAccount_def totalLeaf_def Let_def liabilityAccountTypes_def)

lemma foldl_leafReleaseRequest:
  "foldl (\<lambda>e r. leafReleaseRequest (fst r) e) e rows = e
     \<lparr>lf_pendingVaultReleaseAmount := lf_pendingVaultReleaseAmount e + sum_list (map (vr_requestedAmount \<circ> fst) rows)\<rparr>"
  by (induction rows arbitrary: e) (auto simp: leafReleaseRequest_def)

text \<open>The four passes, as passes of \<^const>\<open>enterLeaf\<close>.\<close>

definition accountPass :: "nat \<Rightarrow> liability_tables \<Rightarrow> ledger_account list" where
  "accountPass chain q = filter (\<lambda>a. la_customerAccountId a \<noteq> None) (liabilityAccounts chain q)"

definition balancePass :: "AssetRecord list \<Rightarrow> liability_tables \<Rightarrow> ((string \<times> string) \<times> customer_asset_balance) list" where
  "balancePass assetList q = filter (\<lambda>r. snd (fst r) \<in> as_id ` set assetList) (lt_customerAssetBalances q)"

definition afterAccounts where
  "afterAccounts chain q = foldl (\<lambda>m r. enterLeaf (la_assetId r) (the (la_customerAccountId r))
     (leafAccount (lt_ledgerPostings q) r) m) [] (accountPass chain q)"

definition afterBalances where
  "afterBalances chain assetList q = foldl (\<lambda>m r. enterLeaf (snd (fst r)) (fst (fst r)) (leafBalance (snd r)) m)
     (afterAccounts chain q) (balancePass assetList q)"

definition afterVaults where
  "afterVaults chain assetList q = foldl (\<lambda>m r. enterLeaf (rv_assetId (snd r)) (rv_customerAccountId (snd r))
     (leafVault (snd r)) m) (afterBalances chain assetList q) (vaultsOf assetList q)"

lemma leaves_passes:
  "leavesByCompositeKey chain q assetList =
     foldl (\<lambda>m r. enterLeaf (rv_assetId (snd r)) (rv_customerAccountId (snd r)) (leafReleaseRequest (fst r)) m)
       (afterVaults chain assetList q) (activeReleaseRequests assetList q)"
proof -
  have "foldl (\<lambda>m account. case la_customerAccountId account of None \<Rightarrow> m
          | Some c \<Rightarrow> enterLeaf (la_assetId account) c (leafAccount (lt_ledgerPostings q) account) m) []
          (accountPass chain q) = afterAccounts chain q"
    unfolding afterAccounts_def accountPass_def by (rule foldl_cong) auto
  moreover have "filter (\<lambda>((c, a), balance). a \<in> as_id ` set assetList) (lt_customerAssetBalances q) = balancePass assetList q"
    by (auto simp: balancePass_def intro!: filter_cong)
  ultimately show ?thesis
    by (simp only: leavesByCompositeKey_def Let_def accountPass_def [symmetric] case_prod_unfold
        afterBalances_def afterVaults_def)
qed

text \<open>Nothing sits under a name with a colon.\<close>

lemma plain_customers:
  assumes inv: "books_inv chain s" and q: "lists_tables q s"
  shows "\<forall>r\<in>set (accountPass chain q). no_colon (the (la_customerAccountId r))"
    and "\<forall>r\<in>set (balancePass assetList q). no_colon (fst (fst r))"
    and "\<forall>r\<in>set (vaultsOf assetList q). no_colon (rv_customerAccountId (snd r))"
    and "\<forall>r\<in>set (activeReleaseRequests assetList q). no_colon (rv_customerAccountId (snd r))"
proof -
  have f: "filed chain (vault_owner s) s" and one: "one_vault s" using inv by (simp_all add: books_inv_def)
  have vault: "no_colon (rv_customerAccountId r)" if "retirementVaults s v = Some r" for v r
  proof -
    have "vault_identity s v = Some (rv_customerAccountId r, rv_assetId r)" using that by (simp add: vault_identity_def)
    with one show ?thesis unfolding one_vault_def by (metis fst_conv)
  qed
  have rows: "map_of (lt_retirementVaults q) = retirementVaults s" "distinct (map fst (lt_retirementVaults q))"
    "map_of (lt_customerAssetBalances q) = customerAssetBalances s"
    using q by (simp_all add: lists_tables_def)
  have listed: "no_colon (rv_customerAccountId (snd r))" if "r \<in> set (lt_retirementVaults q)" for r
    using that rows vault [of "fst r" "snd r"] by (metis map_of_eq_Some_iff prod.collapse)
  show "\<forall>r\<in>set (accountPass chain q). no_colon (the (la_customerAccountId r))"
  proof
    fix a
    assume a: "a \<in> set (accountPass chain q)"
    then have "a \<in> set (lt_ledgerAccounts q)" "la_accountType a \<in> set liabilityAccountTypes"
      by (auto simp: accountPass_def liabilityAccounts_def)
    then have "filed_account chain (vault_owner s) a"
      using f q unfolding filed_def lists_tables_def by blast
    with \<open>la_accountType a \<in> set liabilityAccountTypes\<close> show "no_colon (the (la_customerAccountId a))"
      by (auto simp: filed_account_def liabilityAccountTypes_def customer_types_def vault_owner_def dest: vault)
  qed
  show "\<forall>r\<in>set (balancePass assetList q). no_colon (fst (fst r))"
  proof
    fix r
    assume "r \<in> set (balancePass assetList q)"
    then have "fst r \<in> dom (map_of (lt_customerAssetBalances q))"
      by (auto simp: balancePass_def dom_map_of_conv_image_fst)
    with rows(3) have "fst r \<in> dom (customerAssetBalances s)" by simp
    then show "no_colon (fst (fst r))" using f unfolding filed_def by blast
  qed
  show "\<forall>r\<in>set (vaultsOf assetList q). no_colon (rv_customerAccountId (snd r))"
    using listed by (auto simp: vaultsOf_def)
  show "\<forall>r\<in>set (activeReleaseRequests assetList q). no_colon (rv_customerAccountId (snd r))"
    using vault rows(1) by (auto simp: activeReleaseRequests_def List.map_filter_def split: option.splits if_splits)
qed

lemma leaves_keyed:
  assumes "books_inv chain s" "lists_tables q s"
  shows "keyed_leaves (leavesByCompositeKey chain q assetList)"
proof -
  note plain = plain_customers [OF assms, rule_format]
  have "keyed_leaves []" by (simp add: keyed_leaves_def)
  then have "keyed_leaves (afterAccounts chain q)"
    unfolding afterAccounts_def using plain(1) by (intro keyed_foldl) auto
  then have "keyed_leaves (afterBalances chain assetList q)"
    unfolding afterBalances_def using plain(2) by (intro keyed_foldl) auto
  then have "keyed_leaves (afterVaults chain assetList q)"
    unfolding afterVaults_def using plain(3) by (intro keyed_foldl) auto
  then show ?thesis
    unfolding leaves_passes using plain(4) by (intro keyed_foldl) auto
qed

text \<open>At most one row of each table beside the accounts is a customer's.\<close>

lemma customer_balance_rows:
  assumes q: "lists_tables q s" and i: "i \<in> as_id ` set assetList"
  shows "filter (\<lambda>r. snd (fst r) = i \<and> fst (fst r) = c) (balancePass assetList q) =
    (case customerAssetBalances s (c, i) of None \<Rightarrow> [] | Some b \<Rightarrow> [((c, i), b)])"
proof -
  have "filter (\<lambda>r. snd (fst r) = i \<and> fst (fst r) = c) (balancePass assetList q) =
      filter (\<lambda>r. fst r = (c, i)) (lt_customerAssetBalances q)"
    using i by (auto simp: balancePass_def intro!: filter_cong)
  then show ?thesis using q by (simp add: filter_lookup lists_tables_def)
qed

lemma customer_vault_rows:
  assumes inv: "books_inv chain s" and q: "lists_tables q s" and i: "i \<in> as_id ` set assetList"
  shows "filter (\<lambda>r. rv_assetId (snd r) = i \<and> rv_customerAccountId (snd r) = c) (vaultsOf assetList q) =
    (case customer_vault q c i of None \<Rightarrow> [] | Some r \<Rightarrow> [r])"
proof -
  have dist: "distinct (map fst (lt_retirementVaults q))" and map: "map_of (lt_retirementVaults q) = retirementVaults s"
    using q by (simp_all add: lists_tables_def)
  have one: "one_vault s" using inv by (simp add: books_inv_def)
  have "filter (\<lambda>r. rv_assetId (snd r) = i \<and> rv_customerAccountId (snd r) = c) (vaultsOf assetList q) =
      filter (\<lambda>r. rv_assetId (snd r) = i \<and> rv_customerAccountId (snd r) = c) (lt_retirementVaults q)"
    using i by (auto simp: vaultsOf_def intro!: filter_cong)
  also have "\<dots> = (case customer_vault q c i of None \<Rightarrow> [] | Some r \<Rightarrow> [r])"
    unfolding customer_vault_def
  proof (rule filter_at_most_one)
    show "distinct (lt_retirementVaults q)" using dist by (simp add: distinct_map)
    fix x y
    assume x: "x \<in> set (lt_retirementVaults q)" "rv_assetId (snd x) = i \<and> rv_customerAccountId (snd x) = c"
      and y: "y \<in> set (lt_retirementVaults q)" "rv_assetId (snd y) = i \<and> rv_customerAccountId (snd y) = c"
    have "retirementVaults s (fst x) = Some (snd x)" "retirementVaults s (fst y) = Some (snd y)"
      using x(1) y(1) map map_of_eq_Some_iff [OF dist] by (metis prod.collapse)+
    then have "vault_identity s (fst x) = Some (c, i)" "vault_identity s (fst y) = Some (c, i)"
      using x(2) y(2) by (simp_all add: vault_identity_def)
    with one have "fst x = fst y" unfolding one_vault_def by blast
    with x(1) y(1) dist show "x = y" unfolding distinct_map inj_on_def by blast
  qed
  finally show ?thesis .
qed

lemma customer_account_rows:
  assumes "ty \<in> set liabilityAccountTypes"
  shows "filter (\<lambda>a. la_accountType a = ty) (filter (\<lambda>a. la_assetId a = i \<and> the (la_customerAccountId a) = c)
      (accountPass chain q)) = filter (\<lambda>a. la_customerAccountId a = Some c) (accounts_of chain q ty i)"
  using assms by (auto simp: accountPass_def liabilityAccounts_def intro!: filter_cong)

lemma leaf_of_customer:
  assumes inv: "books_inv chain s" and q: "lists_tables q s" and i: "i \<in> as_id ` set assetList" and c: "no_colon c"
  defines "leaf \<equiv> map_of (leavesByCompositeKey chain q assetList) (compositeKey i c)"
  shows "leaf = None \<Longrightarrow> customer_claim s q c i = 0"
    and "leaf = Some e \<Longrightarrow> lf_availableLiabilityAmount e = available s c i \<and>
      lf_reservedLiabilityAmount e = pending s c i \<and> lf_vaultLiabilityAmount e = customer_locked q c i"
proof -
  note plain = plain_customers [OF inv q]
  have f: "filed chain (vault_owner s) s" and rec: "reconciled s" and un: "unopened s"
    using inv by (simp_all add: books_inv_def ledger_invariant_def)
  let ?get = "\<lambda>m. map_of m (compositeKey i c)"
  let ?acc = "filter (\<lambda>a. la_assetId a = i \<and> the (la_customerAccountId a) = c) (accountPass chain q)"
  define net where "net ty = customer_net chain q ty c i" for ty
  have nets: "net customer_asset_liability = available s c i"
    "customerAssetBalances s (c, i) = None \<Longrightarrow> net customer_asset_pending_withdrawal_liability = pending s c i"
    "customer_vault q c i = None \<Longrightarrow> net customer_retirement_vault_liability = 0"
    using customer_net_key [OF f q _ c] customer_vault_net [OF inv q] rec un c
    by (simp_all add: net_def customer_types_def type_key_builders reconciled_def unopened_def pending_def)
  have types: "\<forall>a\<in>set ?acc. la_accountType a \<in> set liabilityAccountTypes"
    by (auto simp: accountPass_def liabilityAccounts_def)
  have picks: "sum_list (map (netAmount (lt_ledgerPostings q)) (filter (\<lambda>a. la_accountType a = ty) ?acc)) = net ty"
    if "ty \<in> set liabilityAccountTypes" for ty
    unfolding customer_account_rows [OF that] by (simp add: net_def customer_net_def)
  have in_types: "customer_asset_liability \<in> set liabilityAccountTypes"
    "customer_asset_pending_withdrawal_liability \<in> set liabilityAccountTypes"
    "customer_retirement_vault_liability \<in> set liabilityAccountTypes"
    by (simp_all add: liabilityAccountTypes_def)
  note fa = foldl_leafAccount [OF types, of "lt_ledgerPostings q" "emptyLeaf i c"]
  have a1: "?get (afterAccounts chain q) = (if ?acc = [] then None
      else Some (foldl (\<lambda>e r. leafAccount (lt_ledgerPostings q) r e) (emptyLeaf i c) ?acc))"
    unfolding afterAccounts_def foldl_enterLeaf [OF plain(1) c] by (simp add: Let_def)
  have zero: "net ty = 0" if "?acc = []" "ty \<in> set liabilityAccountTypes" for ty
    using picks [OF that(2)] that(1) by simp
  obtain e1 where e1: "case ?get (afterAccounts chain q) of None \<Rightarrow> e1 = emptyLeaf i c | Some e \<Rightarrow> e1 = e"
    "lf_availableLiabilityAmount e1 = net customer_asset_liability"
    "lf_reservedLiabilityAmount e1 = net customer_asset_pending_withdrawal_liability"
    "lf_vaultLiabilityAmount e1 = net customer_retirement_vault_liability"
  proof (cases "?acc = []")
    case True
    with a1 zero in_types show ?thesis by (intro that [of "emptyLeaf i c"]) (simp_all add: emptyLeaf_def)
  next
    case False
    show ?thesis
      by (rule that [of "foldl (\<lambda>e r. leafAccount (lt_ledgerPostings q) r e) (emptyLeaf i c) ?acc"])
        (simp_all only: a1 False if_False option.case fa picks in_types, simp_all add: emptyLeaf_def)
  qed
  have a2: "?get (afterBalances chain assetList q) = (case customerAssetBalances s (c, i) of
      None \<Rightarrow> ?get (afterAccounts chain q) | Some b \<Rightarrow> Some (leafBalance b e1))"
    unfolding afterBalances_def foldl_enterLeaf [OF plain(2) c] customer_balance_rows [OF q i]
    using e1(1) by (simp add: Let_def split: option.splits)
  obtain e2 where e2: "case ?get (afterBalances chain assetList q) of None \<Rightarrow> e2 = emptyLeaf i c | Some e \<Rightarrow> e2 = e"
    "lf_availableLiabilityAmount e2 = available s c i" "lf_reservedLiabilityAmount e2 = pending s c i"
    "lf_vaultLiabilityAmount e2 = net customer_retirement_vault_liability"
  proof (cases "customerAssetBalances s (c, i)")
    case None
    with a2 e1 nets(1,2) show ?thesis by (intro that [of e1]) simp_all
  next
    case (Some b)
    with a2 e1 show ?thesis
      by (intro that [of "leafBalance b e1"]) (simp_all add: leafBalance_def totalLeaf_def available_def pending_def)
  qed
  have a3: "?get (afterVaults chain assetList q) = (case customer_vault q c i of
      None \<Rightarrow> ?get (afterBalances chain assetList q) | Some r \<Rightarrow> Some (leafVault (snd r) e2))"
    unfolding afterVaults_def foldl_enterLeaf [OF plain(3) c] customer_vault_rows [OF inv q i]
    using e2(1) by (simp add: Let_def split: option.splits)
  obtain e3 where e3: "case ?get (afterVaults chain assetList q) of None \<Rightarrow> e3 = emptyLeaf i c | Some e \<Rightarrow> e3 = e"
    "lf_availableLiabilityAmount e3 = available s c i" "lf_reservedLiabilityAmount e3 = pending s c i"
    "lf_vaultLiabilityAmount e3 = customer_locked q c i"
  proof (cases "customer_vault q c i")
    case None
    with a3 e2 nets(3) show ?thesis by (intro that [of e2]) (simp_all add: customer_locked_def)
  next
    case (Some r)
    with a3 e2 show ?thesis
      by (intro that [of "leafVault (snd r) e2"]) (simp_all add: leafVault_def totalLeaf_def customer_locked_def)
  qed
  have a4: "leaf = (let rs = filter (\<lambda>r. rv_assetId (snd r) = i \<and> rv_customerAccountId (snd r) = c)
        (activeReleaseRequests assetList q) in
      if rs = [] then ?get (afterVaults chain assetList q)
      else Some (foldl (\<lambda>e r. leafReleaseRequest (fst r) e) e3 rs))"
    unfolding leaf_def leaves_passes foldl_enterLeaf [OF plain(4) c]
    using e3(1) by (simp add: Let_def split: option.splits)
  show "customer_claim s q c i = 0" if "leaf = None"
    using that a4 e3 by (simp add: Let_def customer_claim_def emptyLeaf_def split: if_splits)
  show "lf_availableLiabilityAmount e = available s c i \<and> lf_reservedLiabilityAmount e = pending s c i \<and>
      lf_vaultLiabilityAmount e = customer_locked q c i" if "leaf = Some e"
    using that a4 e3 by (auto simp: Let_def foldl_leafReleaseRequest split: if_splits)
qed

section \<open>All leaves of an asset\<close>

lemma raw_leaf:
  assumes inv: "books_inv chain s" and q: "lists_tables q s" and i: "i \<in> as_id ` set assetList"
    and e: "e \<in> set (rawLeaves chain q assetList i)"
  shows "no_colon (lf_customerAccountId e)"
    and "lf_availableLiabilityAmount e = available s (lf_customerAccountId e) i"
    and "lf_reservedLiabilityAmount e = pending s (lf_customerAccountId e) i"
    and "lf_vaultLiabilityAmount e = customer_locked q (lf_customerAccountId e) i"
    and "lf_totalLiabilityAmount e = customer_claim s q (lf_customerAccountId e) i"
    and "0 < lf_totalLiabilityAmount e"
proof -
  let ?m = "leavesByCompositeKey chain q assetList"
  have keyed: "keyed_leaves ?m" by (rule leaves_keyed [OF inv q])
  from e obtain k where k: "(k, e) \<in> set ?m" and pos: "0 < lf_totalLiabilityAmount e" "lf_assetId e = i"
    by (auto simp: rawLeaves_def)
  with keyed have key: "k = compositeKey i (lf_customerAccountId e)" and c: "no_colon (lf_customerAccountId e)"
    and total: "lf_totalLiabilityAmount e = lf_availableLiabilityAmount e + lf_reservedLiabilityAmount e + lf_vaultLiabilityAmount e"
    by (auto simp: keyed_leaves_def)
  have "map_of ?m k = Some e" using keyed k by (simp add: keyed_leaves_def)
  from leaf_of_customer(2) [OF inv q i c this [unfolded key]]
  show "no_colon (lf_customerAccountId e)" "lf_availableLiabilityAmount e = available s (lf_customerAccountId e) i"
    "lf_reservedLiabilityAmount e = pending s (lf_customerAccountId e) i"
    "lf_vaultLiabilityAmount e = customer_locked q (lf_customerAccountId e) i"
    "lf_totalLiabilityAmount e = customer_claim s q (lf_customerAccountId e) i"
    "0 < lf_totalLiabilityAmount e"
    using c total pos by (simp_all add: customer_claim_def)
qed

lemma raw_leaf_found:
  assumes inv: "books_inv chain s" and q: "lists_tables q s" and i: "i \<in> as_id ` set assetList"
    and c: "no_colon c" and claim: "0 < customer_claim s q c i"
  shows "c \<in> lf_customerAccountId ` set (rawLeaves chain q assetList i)"
proof -
  let ?m = "leavesByCompositeKey chain q assetList"
  have keyed: "keyed_leaves ?m" by (rule leaves_keyed [OF inv q])
  obtain e where e: "map_of ?m (compositeKey i c) = Some e"
    using leaf_of_customer(1) [OF inv q i c] claim by fastforce
  then have mem: "(compositeKey i c, e) \<in> set ?m" by (rule map_of_SomeD)
  with keyed have "compositeKey i c = compositeKey (lf_assetId e) (lf_customerAccountId e)" "no_colon (lf_customerAccountId e)"
    "lf_totalLiabilityAmount e = lf_availableLiabilityAmount e + lf_reservedLiabilityAmount e + lf_vaultLiabilityAmount e"
    by (auto simp: keyed_leaves_def)
  with c leaf_of_customer(2) [OF inv q i c e] claim
  have "lf_assetId e = i" "lf_customerAccountId e = c" "0 < lf_totalLiabilityAmount e"
    by (simp_all add: compositeKey_eq_iff customer_claim_def)
  with mem show ?thesis by (force simp: rawLeaves_def intro: image_eqI [of _ _ e])
qed

lemma raw_leaves_distinct:
  assumes "keyed_leaves (leavesByCompositeKey chain q assetList)"
  shows "distinct (map lf_customerAccountId (rawLeaves chain q assetList i))"
proof -
  have "keyed_leaves m \<Longrightarrow> distinct (map lf_customerAccountId
      (filter (\<lambda>e. \<not> lf_totalLiabilityAmount e \<le> 0 \<and> lf_assetId e = i) (map snd m)))" for m
    by (induction m) (force simp: keyed_leaves_def)+
  with assms show ?thesis by (simp add: rawLeaves_def)
qed

lemma claim_nonneg:
  assumes "books_inv chain s" "lists_tables q s"
  shows "0 \<le> customer_locked q c i" and "0 \<le> customer_claim s q c i"
proof -
  have sol: "solvent s" using assms(1) by (simp add: books_inv_def ledger_invariant_def)
  have "0 \<le> rv_lockedBalance (snd r)" if "r \<in> set (lt_retirementVaults q)" for r
  proof -
    have "map_of (lt_retirementVaults q) (fst r) = Some (snd r)"
      using assms(2) that by (intro map_of_is_SomeI) (simp_all add: lists_tables_def)
    with assms(2) have "retirementVaults s (fst r) = Some (snd r)" unfolding lists_tables_def by metis
    then have "locked s (fst r) = rv_lockedBalance (snd r)" by (simp add: locked_def)
    with sol show ?thesis unfolding solvent_def by metis
  qed
  then show locked: "0 \<le> customer_locked q c i"
    by (auto simp: customer_locked_def customer_vault_def split: option.splits dest: find_SomeD)
  with sol show "0 \<le> customer_claim s q c i" by (simp add: customer_claim_def solvent_def)
qed

text \<open>The leaves add up to what the projections hold.\<close>

lemma raw_leaves_total:
  assumes inv: "books_inv chain s" and q: "lists_tables q s" and i: "i \<in> as_id ` set assetList"
  shows "sum_list (map lf_totalLiabilityAmount (rawLeaves chain q assetList i)) =
    balances_of cab_availableBalance q i + balances_of cab_pendingBalance q i + locked_of q i"
proof -
  let ?raw = "rawLeaves chain q assetList i"
  have f: "filed chain (vault_owner s) s" and one: "one_vault s" using inv by (simp_all add: books_inv_def)
  obtain U where U: "finite U" "\<forall>c\<in>U. no_colon c" "\<And>c. customerAssetBalances s (c, i) \<noteq> None \<Longrightarrow> c \<in> U"
    by (rule customers_of_asset [OF f q, where i = i], rule that) assumption+
  let ?rows = "filter (\<lambda>r. rv_assetId (snd r) = i) (lt_retirementVaults q)"
  let ?owner = "\<lambda>r. rv_customerAccountId (snd r)"
  let ?W = "U \<union> ?owner ` set ?rows"
  have vault: "retirementVaults s (fst r) = Some (snd r)" if "r \<in> set (lt_retirementVaults q)" for r
  proof -
    have "map_of (lt_retirementVaults q) (fst r) = Some (snd r)"
      using q that by (intro map_of_is_SomeI) (simp_all add: lists_tables_def)
    with q show ?thesis unfolding lists_tables_def by metis
  qed
  have ident: "vault_identity s (fst r) = Some (?owner r, rv_assetId (snd r))" if "r \<in> set (lt_retirementVaults q)" for r
    using vault [OF that] by (simp add: vault_identity_def)
  have W: "finite ?W" "\<forall>c\<in>?W. no_colon c"
  proof -
    show "finite ?W" using U(1) by simp
    have "no_colon (?owner r)" if "r \<in> set (lt_retirementVaults q)" for r
      using one ident [OF that] unfolding one_vault_def by (metis fst_conv)
    with U(2) show "\<forall>c\<in>?W. no_colon c" by auto
  qed
  have dist: "distinct ?rows" "distinct (map fst (lt_retirementVaults q))"
    using q by (auto simp: lists_tables_def distinct_map)
  have one_row: "x = y" if "x \<in> set ?rows" "y \<in> set ?rows" "?owner x = ?owner y" for x y
  proof -
    have "vault_identity s (fst x) = Some (?owner x, i)" "vault_identity s (fst y) = Some (?owner x, i)"
      using ident [of x] ident [of y] that by simp_all
    with one have "fst x = fst y" unfolding one_vault_def by blast
    moreover have "x \<in> set (lt_retirementVaults q)" "y \<in> set (lt_retirementVaults q)" using that by auto
    ultimately show ?thesis using dist(2) unfolding distinct_map inj_on_def by blast
  qed
  have found: "customer_vault q (?owner r) i = Some r" if r: "r \<in> set ?rows" for r
  proof -
    obtain x where x: "customer_vault q (?owner r) i = Some x"
    proof (cases "customer_vault q (?owner r) i")
      case None
      then have "\<forall>v\<in>set (lt_retirementVaults q). \<not> (rv_assetId (snd v) = i \<and> rv_customerAccountId (snd v) = ?owner r)"
        unfolding customer_vault_def find_None_iff_all .
      moreover from r have "r \<in> set (lt_retirementVaults q)" "rv_assetId (snd r) = i" by simp_all
      ultimately show ?thesis by blast
    qed (rule that)
    from find_SomeD [OF x [unfolded customer_vault_def]] have "x \<in> set ?rows" "?owner x = ?owner r" by auto
    with one_row r x show ?thesis by simp
  qed
  have "distinct (map lf_customerAccountId ?raw)" by (rule raw_leaves_distinct [OF leaves_keyed [OF inv q]])
  then have "distinct ?raw" and inj: "inj_on lf_customerAccountId (set ?raw)" by (simp_all add: distinct_map)
  then have "sum_list (map lf_totalLiabilityAmount ?raw) = sum lf_totalLiabilityAmount (set ?raw)"
    by (intro sum_list_distinct_conv_sum_set)
  also have "\<dots> = sum (\<lambda>e. customer_claim s q (lf_customerAccountId e) i) (set ?raw)"
    using raw_leaf(5) [OF inv q i] by (intro sum.cong refl)
  also have "\<dots> = (\<Sum>c\<in>lf_customerAccountId ` set ?raw. customer_claim s q c i)"
    by (rule sum.reindex_cong [OF inj refl refl, symmetric])
  also have "\<dots> = (\<Sum>c\<in>?W. customer_claim s q c i)"
  proof (rule sum.mono_neutral_left [OF W(1)])
    show "lf_customerAccountId ` set ?raw \<subseteq> ?W"
    proof
      fix c
      assume "c \<in> lf_customerAccountId ` set ?raw"
      then obtain e where "e \<in> set ?raw" "c = lf_customerAccountId e" by blast
      with raw_leaf(5,6) [OF inv q i] have pos: "0 < customer_claim s q c i" by metis
      show "c \<in> ?W"
      proof (cases "customerAssetBalances s (c, i)")
        case None
        with pos have "customer_locked q c i \<noteq> 0" by (simp add: customer_claim_def available_def pending_def)
        then obtain x where "customer_vault q c i = Some x" by (cases "customer_vault q c i") (auto simp: customer_locked_def)
        from find_SomeD [OF this [unfolded customer_vault_def]] show ?thesis by auto
      qed (use U(3) in auto)
    qed
    show "\<forall>c\<in>?W - lf_customerAccountId ` set ?raw. customer_claim s q c i = 0"
    proof
      fix c
      assume c: "c \<in> ?W - lf_customerAccountId ` set ?raw"
      with W(2) raw_leaf_found [OF inv q i, of c] have "\<not> 0 < customer_claim s q c i" by blast
      with claim_nonneg(2) [OF inv q, of c i] show "customer_claim s q c i = 0" by simp
    qed
  qed
  also have "\<dots> = (\<Sum>c\<in>?W. available s c i) + (\<Sum>c\<in>?W. pending s c i) + (\<Sum>c\<in>?W. customer_locked q c i)"
    by (simp add: customer_claim_def sum.distrib)
  also have "(\<Sum>c\<in>?W. available s c i) = balances_of cab_availableBalance q i"
    using balances_of_sum [OF q W(1), where i = i] U(3) by (simp add: available_def)
  also have "(\<Sum>c\<in>?W. pending s c i) = balances_of cab_pendingBalance q i"
    using balances_of_sum [OF q W(1), where i = i] U(3) by (simp add: pending_def)
  also have "(\<Sum>c\<in>?W. customer_locked q c i) = (\<Sum>c\<in>?owner ` set ?rows. customer_locked q c i)"
  proof (rule sum.mono_neutral_right [OF W(1)])
    show "\<forall>c\<in>?W - ?owner ` set ?rows. customer_locked q c i = 0"
    proof
      fix c
      assume "c \<in> ?W - ?owner ` set ?rows"
      then have out: "c \<notin> ?owner ` set ?rows" by blast
      have "customer_vault q c i = None"
      proof (cases "customer_vault q c i")
        case (Some x)
        from find_SomeD [OF this [unfolded customer_vault_def]] have "x \<in> set ?rows" "c = ?owner x" by auto
        with out show ?thesis by blast
      qed
      then show "customer_locked q c i = 0" by (simp add: customer_locked_def)
    qed
  qed simp
  also have "\<dots> = (\<Sum>r\<in>set ?rows. rv_lockedBalance (snd r))"
    using one_row found by (subst sum.reindex) (auto intro!: inj_onI sum.cong simp: customer_locked_def)
  also have "\<dots> = locked_of q i"
    using sum_list_distinct_conv_sum_set [OF dist(1), of "rv_lockedBalance \<circ> snd"] by (simp add: locked_of_def)
  finally show ?thesis .
qed

end
