(* ===== verification/Reserve_Laws.thy ===== *)
theory Reserve_Laws
  imports Solvency_Progress Liability_Leaves
begin

text \<open>
  What a snapshot's numbers are: the usable reserves of an asset are what the readable reserve
  wallets hold beyond what open withdrawals were promised from them, what is owed is the net of
  the ledger's liability accounts; and what a shortfall, or a ratio too large for its column, does.
\<close>

section \<open>Usable reserves and liabilities\<close>

definition promised :: "solvency_config \<Rightarrow> snapshot_reads \<Rightarrow> reserve_wallet \<Rightarrow> AssetRecord \<Rightarrow> decimal" where
  "promised cfg rd w a = sum_list (map ti_requestedAmount (filter (\<lambda>intent.
     ti_chainId intent = sc_productChainId cfg \<and> ti_status intent \<in> set EXECUTION_ENCUMBERED_STATUSES \<and>
     ti_sourceWalletId intent = Some (wa_id w) \<and> ti_assetId intent = as_id a) (rd_intents rd)))"

definition usable_balance ::
  "solvency_config \<Rightarrow> rpc_provider option \<Rightarrow> snapshot_reads \<Rightarrow> AssetRecord \<Rightarrow> reserve_wallet \<Rightarrow> decimal" where
  "usable_balance cfg provider rd a w =
     (case readWalletAssetBalance cfg provider w a of Inl e \<Rightarrow> 0 | Inr x \<Rightarrow> max (x - promised cfg rd w a) 0)"

definition usable_reserves :: "solvency_config \<Rightarrow> rpc_provider option \<Rightarrow> snapshot_reads \<Rightarrow> AssetRecord \<Rightarrow> decimal" where
  "usable_reserves cfg provider rd a = sum_list (map (usable_balance cfg provider rd a) (listReserveWallets cfg rd))"

definition owed :: "solvency_config \<Rightarrow> snapshot_reads \<Rightarrow> AssetRecord \<Rightarrow> decimal" where
  "owed cfg rd a = net_of (sc_productChainId cfg) (rd_tables rd) customer_asset_liability (as_id a) +
     net_of (sc_productChainId cfg) (rd_tables rd) customer_asset_pending_withdrawal_liability (as_id a) +
     net_of (sc_productChainId cfg) (rd_tables rd) customer_retirement_vault_liability (as_id a)"

lemma foldl_sum: "foldl (\<lambda>x r. x + f r) (x :: decimal) rows = x + sum_list (map f rows)"
  by (induction rows arbitrary: x) simp_all

lemma encumbered_amount:
  assumes "w \<in> set ws" "\<forall>w\<in>set ws. no_colon (wa_id w)"
  shows "(case map_of (listReserveEncumbrances cfg (rd_intents rd) (map wa_id ws)) (wa_id w @ '':'' @ as_id a) of
      None \<Rightarrow> 0 | Some x \<Rightarrow> x) = promised cfg rd w a"
proof -
  let ?open = "filter (\<lambda>intent. ti_chainId intent = sc_productChainId cfg \<and>
      ti_sourceWalletId intent \<in> Some ` set (map wa_id ws) \<and>
      ti_status intent \<in> set EXECUTION_ENCUMBERED_STATUSES) (rd_intents rd)"
  let ?key = "\<lambda>intent. the (ti_sourceWalletId intent) @ '':'' @ ti_assetId intent"
  have fold: "listReserveEncumbrances cfg (rd_intents rd) (map wa_id ws) =
      foldl (\<lambda>m intent. enter (?key intent) 0 (\<lambda>x. x + ti_requestedAmount intent) m) [] ?open"
    unfolding listReserveEncumbrances_def by (rule foldl_cong) auto
  have mine: "?key intent = wa_id w @ '':'' @ as_id a \<longleftrightarrow> ti_sourceWalletId intent = Some (wa_id w) \<and> ti_assetId intent = as_id a"
    if "intent \<in> set ?open" for intent
  proof -
    from that obtain v where v: "ti_sourceWalletId intent = Some (wa_id v)" "v \<in> set ws" by auto
    have "no_colon (wa_id v)" "no_colon (wa_id w)" using v(2) assms by blast+
    then show ?thesis
      using split_at_sep [of "CHR '':''" "wa_id v" "wa_id w" "ti_assetId intent" "as_id a"] v(1)
      by (auto simp: no_colon_def)
  qed
  have "filter (\<lambda>intent. ?key intent = wa_id w @ '':'' @ as_id a) ?open =
      filter (\<lambda>intent. ti_chainId intent = sc_productChainId cfg \<and> ti_status intent \<in> set EXECUTION_ENCUMBERED_STATUSES \<and>
        ti_sourceWalletId intent = Some (wa_id w) \<and> ti_assetId intent = as_id a) (rd_intents rd)" (is "?l = ?r")
  proof -
    have "?l = filter (\<lambda>intent. ti_sourceWalletId intent = Some (wa_id w) \<and> ti_assetId intent = as_id a) ?open"
      using mine by (intro filter_cong refl) blast
    also have "\<dots> = ?r" using assms(1) by (auto intro!: filter_cong)
    finally show ?thesis .
  qed
  then show ?thesis
    unfolding fold foldl_enter promised_def by (simp add: foldl_sum split: list.splits)
qed

lemma evidence_usable:
  assumes "w \<in> set ws" "\<forall>w\<in>set ws. no_colon (wa_id w)"
  shows "(case ev_usableBalanceAmount (reserveEvidenceRow cfg provider now
      (listReserveEncumbrances cfg (rd_intents rd) (map wa_id ws)) rows a w) of None \<Rightarrow> 0 | Some x \<Rightarrow> x) =
    usable_balance cfg provider rd a w"
  by (auto simp: reserveEvidenceRow_def usable_balance_def Let_def encumbered_amount [OF assms, simplified] split: sum.splits)

lemma sum_amounts_sum: "sum_amounts f xs = sum_list (map (\<lambda>x. case f x of None \<Rightarrow> 0 | Some y \<Rightarrow> y) xs)"
  by (simp add: sum_amounts_def foldl_sum)

lemma evidence_of_asset:
  assumes "distinct (map as_id assetList)" "a \<in> set assetList" "\<forall>w\<in>set ws. no_colon (wa_id w)"
  shows "sum_amounts ev_usableBalanceAmount (lookup_or [] (computeReserveEvidenceByAsset cfg provider now
      (rd_intents rd) rows assetList ws) (as_id a)) = sum_list (map (usable_balance cfg provider rd a) ws)"
proof (cases "ws = []")
  case True
  then show ?thesis by (simp add: computeReserveEvidenceByAsset_def lookup_or_def sum_amounts_def)
next
  case False
  have "map_of (computeReserveEvidenceByAsset cfg provider now (rd_intents rd) rows assetList ws) (as_id a) =
      Some (map (reserveEvidenceRow cfg provider now
        (listReserveEncumbrances cfg (rd_intents rd) (map wa_id ws)) rows a) ws)"
    using False foldl_update [OF assms(1,2)] by (simp add: computeReserveEvidenceByAsset_def Let_def)
  then show ?thesis
    using evidence_usable [OF _ assms(3)] by (simp add: lookup_or_def sum_amounts_sum comp_def cong: map_cong)
qed

text \<open>The computation of an active asset.\<close>

definition plain_wallets :: "snapshot_reads \<Rightarrow> bool" where
  "plain_wallets rd \<longleftrightarrow> (\<forall>w\<in>set (rd_wallets rd). no_colon (wa_id w))"

lemma asset_computation:
  assumes "distinct (map as_id (rd_assets rd))" "plain_wallets rd" "a \<in> set (listActiveAssets cfg rd)"
  obtains c where "c \<in> set (assetComputations cfg lib provider rd now i)" "asc_asset c = a"
    "asc_usableReserveAmount c = usable_reserves cfg provider rd a"
    "lac_totalLiabilityAmount (asc_liabilities c) = owed cfg rd a"
    "asc_reserveRatioBps c = computeReserveRatioBps (usable_reserves cfg provider rd a) (owed cfg rd a)"
    "usable_reserves cfg provider rd a < owed cfg rd a \<Longrightarrow>
      \<exists>x\<in>set (asc_issues c). iss_severity x = SolvencyIssueSeverity.critical"
proof -
  let ?active = "listActiveAssets cfg rd"
  have dist: "distinct (map as_id ?active)" using assms(1) by (simp add: listActiveAssets_def distinct_map_filter)
  have plain: "\<forall>w\<in>set (listReserveWallets cfg rd). no_colon (wa_id w)"
    using assms(2) by (simp add: plain_wallets_def listReserveWallets_def)
  have "\<exists>e. map_of (computeLiabilitiesByAsset (sc_productChainId cfg) (rd_tables rd) ?active
      (listOpenReconciliationMismatchCounts (sc_productChainId cfg) (rd_tables rd))) (as_id a) = Some e \<and>
    lac_totalLiabilityAmount e = owed cfg rd a"
    by (rule liability_entry [OF dist assms(3)]) (auto simp: owed_def)
  then obtain e where e: "map_of (computeLiabilitiesByAsset (sc_productChainId cfg) (rd_tables rd) ?active
      (listOpenReconciliationMismatchCounts (sc_productChainId cfg) (rd_tables rd))) (as_id a) = Some e"
    "lac_totalLiabilityAmount e = owed cfg rd a" by blast
  let ?ev = "lookup_or [] (computeReserveEvidenceByAsset cfg provider now (rd_intents rd) (rd_evidence rd) ?active
      (listReserveWallets cfg rd)) (as_id a)"
  let ?p = "lookup_or \<lparr>lpa_assetId = as_id a, lpa_liabilityMerkleRoot = None, lpa_liabilityLeafCount = 0,
      lpa_liabilitySetChecksumSha256 = None, lpa_leaves = []\<rparr>
    (computeLiabilityLeavesByAsset (sc_productChainId cfg) lib (rd_tables rd) i ?active) (as_id a)"
  let ?c = "buildAssetSnapshotComputation cfg a e ?ev ?p"
  have "?c \<in> set (assetComputations cfg lib provider rd now i)"
    using assms(3) e(1) by (force simp: assetComputations_def Let_def lookup_or_def intro: image_eqI [of _ _ a])
  moreover have "sum_amounts ev_usableBalanceAmount ?ev = usable_reserves cfg provider rd a"
    unfolding usable_reserves_def by (rule evidence_of_asset [OF dist assms(3) plain])
  ultimately show thesis
    by (intro that [of ?c]) (auto simp: buildAssetSnapshotComputation_def Let_def e(2) coverageIssues_def)
qed

section \<open>A shortfall\<close>

lemma critical_pauses:
  "(\<exists>x\<in>set issues. iss_severity x = SolvencyIssueSeverity.critical) \<Longrightarrow> der_status (derivePolicyState issues) = paused"
  by (auto simp: derivePolicyState_def find_None_iff split: option.splits)

lemma paused_stays: "der_status e = paused \<Longrightarrow> derived_ok e \<Longrightarrow>
    sp_status (nextPolicyState p (effectivePolicyState p e) b i now) = paused"
  by (simp add: nextPolicyState_def effectivePolicyState_def holdPausedForManualResume_def split: option.splits)

text \<open>A handler that succeeds has recorded its snapshot.\<close>

lemma generate_recorded:
  assumes "generateSnapshot cfg lib signer provider rd actor s = (Inr p, t)"
  obtains row s1 s2 d where "createPendingSnapshot cfg s = Inr (row, s1)"
    "recordSnapshot cfg lib signer provider rd actor row s1 = Inr ((), s2)"
    "getOrCreatePolicyState (so_db s2) = Inr (p, d)" "t = s2\<lparr>so_db := d\<rparr>"
  using assms by (auto simp: generateSnapshot_def tx_iff split: sum.splits prod.splits)

lemma recorded_policy:
  assumes "generateSnapshot cfg lib signer provider rd actor s = (Inr p, t)"
  obtains i now q b where "policy_of t = Some p" "p = nextPolicyState q (effectivePolicyState q
      (derivePolicyState (concat (map asc_issues (assetComputations cfg lib provider rd now i))))) b i now"
proof -
  from generate_recorded [OF assms] obtain row s1 s2 d where
    run: "recordSnapshot cfg lib signer provider rd actor row s1 = Inr ((), s2)"
    and p: "getOrCreatePolicyState (so_db s2) = Inr (p, d)" "t = s2\<lparr>so_db := d\<rparr>" by metis
  obtain cs sr where cs: "cs = assetComputations cfg lib provider rd (now_ms (so_db s1)) (sn_id row)"
    and tx: "generateSnapshot_transaction cfg (sn_id row) cs (concat (map asc_issues cs)) (derivePolicyState (concat (map asc_issues cs)))
      (buildSnapshotSummary cs (concat (map asc_issues cs))) sr actor s1 = Inr ((), s2)"
    using record_transaction [OF run] by metis
  from transaction_effect [OF tx] obtain b where q: "policy_of s2 = Some (nextPolicyState (policy_of s1) (effectivePolicyState (policy_of s1)
      (derivePolicyState (concat (map asc_issues cs)))) b (sn_id row) (now_ms (so_db s1)))"
    unfolding posted_def by metis
  with p have "policy_of t = Some p \<and> policy_of s2 = Some p" by (auto simp: getOrCreate_Inr policy_of_def)
  show thesis
    by (rule that [of "policy_of s1" "now_ms (so_db s1)" "sn_id row" b]) (use q cs \<open>policy_of t = Some p \<and> policy_of s2 = Some p\<close> in auto)
qed

section \<open>A ratio that does not fit\<close>

lemma ratio_overflow:
  assumes "0 < o'" "2 ^ 31 * o' \<le> u * 10000"
  shows "\<exists>r. computeReserveRatioBps u o' = Some r \<and> \<not> fits_int r"
proof -
  have big: "2147483648 * o' \<le> u * 10000" using assms(2) by simp
  then have u: "0 < u" using assms(1) by linarith
  have "2147483648 * (2 * o') \<le> 2 * (u * 10000) + o'" using big assms(1) by linarith
  then have "2147483648 \<le> (2 * (u * 10000) + o') div (2 * o')" using assms(1)
    by (metis nonzero_mult_div_cancel_right order_less_irrefl zdiv_mono1 zero_less_mult_iff zero_less_numeral)
  then show ?thesis using assms(1) u by (simp add: computeReserveRatioBps_def round_half_up_def fits_int_def)
qed

end
