(* ===== verification/Snapshot_Run.thy ===== *)
theory Snapshot_Run
  imports Reserve_Laws
begin

text \<open>A whole call of \<open>generateSnapshot\<close> from a reachable state: what it finds, writes and leaves alone.\<close>

definition recorded_snapshot ::
  "solvency_config \<Rightarrow> solvency_library \<Rightarrow> rpc_provider option \<Rightarrow> snapshot_reads \<Rightarrow> solvency_state \<Rightarrow> solvency_state
     \<Rightarrow> string \<Rightarrow> bool" where
  "recorded_snapshot cfg lib provider rd s t i \<longleftrightarrow>
     (let cs = assetComputations cfg lib provider rd (now_ms (so_db s)) i;
          issues = concat (map asc_issues cs) in
      (\<exists>row. solvencySnapshots t = solvencySnapshots s @ [row] \<and> sn_id row = i \<and> sn_environment row = sc_environment cfg \<and>
         sn_status row = resolveStatusFromIssues issues) \<and>
      (\<exists>rep. solvencyReports t = solvencyReports s @ [rep] \<and> spr_snapshotId rep = i \<and>
         (\<exists>g c sm pol. sr_payload (spr_signed rep) = report_object cfg lib i g c sm cs pol)) \<and>
      solvencyLiabilityLeaves t = solvencyLiabilityLeaves s @ liabilityLeafRows i cs \<and>
      (\<exists>b. policy_of t = Some (nextPolicyState (policy_of s) (effectivePolicyState (policy_of s) (derivePolicyState issues))
         b i (now_ms (so_db s)))) \<and>
      (solvencyPolicyResumeRequests s = [] \<longrightarrow> solvencyPolicyResumeRequests t = []) \<and> same_core (so_db s) (so_db t))"

lemma pending_effect:
  assumes "createPendingSnapshot cfg s = Inr (row, t)"
  shows "sn_id row = cuid_of (so_db s) (cuid_count (so_db s))" "sn_id row \<notin> sn_id ` set (solvencySnapshots s)"
    "sn_environment row = sc_environment cfg" "sn_completedAt row = None"
    "t = s\<lparr>so_db := (so_db s)\<lparr>cuid_count := Suc (cuid_count (so_db s))\<rparr>, solvencySnapshots := solvencySnapshots s @ [row]\<rparr>"
  using assms by (auto simp: createPendingSnapshot_def tx_iff cuid_Inr Let_def)

lemma update_last:
  "i \<notin> sn_id ` set rows \<Longrightarrow> sn_id row = i \<Longrightarrow> update_rows sn_id i f (rows @ [row]) = rows @ [f row]"
  by (induction rows) (auto simp: update_rows_def)

lemma generate_effect:
  assumes "generateSnapshot cfg lib signer provider rd actor s = (Inr p, t)"
  shows "policy_of t = Some p" and "recorded_snapshot cfg lib provider rd s t (cuid_of (so_db s) (cuid_count (so_db s)))"
    and "cuid_count (so_db s) < cuid_count (so_db t)"
proof -
  let ?i = "cuid_of (so_db s) (cuid_count (so_db s))"
  from generate_recorded [OF assms] obtain row s1 s2 d where pend: "createPendingSnapshot cfg s = Inr (row, s1)"
    and run: "recordSnapshot cfg lib signer provider rd actor row s1 = Inr ((), s2)"
    and p: "getOrCreatePolicyState (so_db s2) = Inr (p, d)" "t = s2\<lparr>so_db := d\<rparr>" by metis
  note row = pending_effect [OF pend]
  have s1: "policy_of s1 = policy_of s" "solvencyPolicyResumeRequests s1 = solvencyPolicyResumeRequests s"
    "solvencyReports s1 = solvencyReports s" "solvencyLiabilityLeaves s1 = solvencyLiabilityLeaves s"
    "now_ms (so_db s1) = now_ms (so_db s)" "solvencySnapshots s1 = solvencySnapshots s @ [row]"
    "same_core (so_db s) (so_db s1)" "cuid_count (so_db s) < cuid_count (so_db s1)"
    by (simp_all add: row(5) policy_of_def same_core_def off_ledger_def same_money_def)
  let ?cs = "assetComputations cfg lib provider rd (now_ms (so_db s)) ?i"
  let ?issues = "concat (map asc_issues ?cs)"
  let ?summary = "buildSnapshotSummary ?cs ?issues"
  obtain sr g c where tx: "generateSnapshot_transaction cfg ?i ?cs ?issues (derivePolicyState ?issues) ?summary sr actor s1 = Inr ((), s2)"
    and signed: "buildSignedReport cfg lib signer ?i g c ?summary ?cs (derivePolicyState ?issues) = Inr sr"
    using run by (auto simp: recordSnapshot_def tx_iff Let_def row(1) s1(5) split: sum.splits)
  from transaction_effect [OF tx] obtain b rs rep where
    q: "posted s1 s2 (nextPolicyState (policy_of s) (effectivePolicyState (policy_of s) (derivePolicyState ?issues)) b ?i
      (now_ms (so_db s))) rs"
    and rs: "rs = solvencyPolicyResumeRequests s \<or> rs = map (supersede (now_ms (so_db s))) (solvencyPolicyResumeRequests s)"
    and snaps: "solvencySnapshots s2 = update_rows sn_id ?i (completed (now_ms (so_db s)) ?summary (length ?cs) (length ?issues)
       (der_status (derivePolicyState ?issues) \<noteq> normal)) (solvencySnapshots s @ [row])"
    and rep: "spr_snapshotId rep = ?i" "solvencyReports s2 = solvencyReports s @ [rep]" "spr_signed rep = sr"
    unfolding s1 by metis
  have d: "d = so_db s2" using p(1) q by (auto simp: getOrCreate_Inr posted_def policy_of_def)
  then have t: "t = s2" using p(2) by simp
  show "policy_of t = Some p" using p(1) q by (auto simp: t getOrCreate_Inr posted_def policy_of_def)
  have mid: "same_core (so_db s1) (so_db t)" using q by (simp add: t posted_def)
  have core: "same_core (so_db s) (so_db t)" by (rule same_core_trans [OF s1(7) mid])
  show "cuid_count (so_db s) < cuid_count (so_db t)" using mid s1(8) by (simp add: same_core_def off_ledger_def)
  let ?f = "completed (now_ms (so_db s)) ?summary (length ?cs) (length ?issues) (der_status (derivePolicyState ?issues) \<noteq> normal)"
  have "solvencySnapshots t = solvencySnapshots s @ [?f row]"
    unfolding t snaps using row(1,2) by (intro update_last) simp_all
  moreover have "sn_id (?f row) = ?i" "sn_environment (?f row) = sc_environment cfg"
    "sn_status (?f row) = resolveStatusFromIssues ?issues"
    using row(1,3) by (simp_all add: completed_def buildSnapshotSummary_def Let_def)
  ultimately have "\<exists>row. solvencySnapshots t = solvencySnapshots s @ [row] \<and> sn_id row = ?i \<and>
      sn_environment row = sc_environment cfg \<and> sn_status row = resolveStatusFromIssues ?issues" by blast
  moreover have "solvencyLiabilityLeaves t = solvencyLiabilityLeaves s @ liabilityLeafRows ?i ?cs"
    using transaction_leaves [OF tx] s1(4) by (simp add: t)
  moreover have "policy_of t = Some (nextPolicyState (policy_of s) (effectivePolicyState (policy_of s)
      (derivePolicyState ?issues)) b ?i (now_ms (so_db s)))"
    "solvencyPolicyResumeRequests s = [] \<longrightarrow> solvencyPolicyResumeRequests t = []"
    using q rs by (auto simp: t posted_def)
  ultimately show "recorded_snapshot cfg lib provider rd s t ?i"
    using rep core signed_report(1) [OF signed] unfolding recorded_snapshot_def Let_def t by blast
qed

text \<open>Identifiers handed out in order leave the next one unused.\<close>

definition ids_used :: "solvency_state \<Rightarrow> bool" where
  "ids_used s \<longleftrightarrow> inj (cuid_of (so_db s)) \<and>
     sn_id ` set (solvencySnapshots s) \<subseteq> cuid_of (so_db s) ` {..<cuid_count (so_db s)}"

lemma next_id_unused: "ids_used s \<Longrightarrow> cuid_of (so_db s) (cuid_count (so_db s)) \<notin> sn_id ` set (solvencySnapshots s)"
proof
  assume used: "ids_used s" and "cuid_of (so_db s) (cuid_count (so_db s)) \<in> sn_id ` set (solvencySnapshots s)"
  then obtain k where "k < cuid_count (so_db s)" "cuid_of (so_db s) (cuid_count (so_db s)) = cuid_of (so_db s) k"
    unfolding ids_used_def by blast
  with used show False unfolding ids_used_def by (auto dest: injD)
qed

lemma ids_used_grow:
  assumes "ids_used s" "same_core (so_db s) (so_db t)" "cuid_count (so_db s) < cuid_count (so_db t)"
    "sn_id ` set (solvencySnapshots t) \<subseteq> insert (cuid_of (so_db s) (cuid_count (so_db s))) (sn_id ` set (solvencySnapshots s))"
  shows "ids_used t"
proof -
  have gen: "cuid_of (so_db t) = cuid_of (so_db s)" using assms(2) by (simp add: same_core_def off_ledger_def)
  have more: "cuid_of (so_db s) ` {..<cuid_count (so_db s)} \<subseteq> cuid_of (so_db s) ` {..<cuid_count (so_db t)}"
    by (rule image_mono, use assms(3) in simp)
  have "cuid_of (so_db s) (cuid_count (so_db s)) \<in> cuid_of (so_db s) ` {..<cuid_count (so_db t)}"
    by (rule imageI, use assms(3) in simp)
  moreover have "sn_id ` set (solvencySnapshots s) \<subseteq> cuid_of (so_db s) ` {..<cuid_count (so_db t)}"
    by (rule order_trans [OF conjunct2 [OF assms(1) [unfolded ids_used_def]] more])
  ultimately have "sn_id ` set (solvencySnapshots t) \<subseteq> cuid_of (so_db s) ` {..<cuid_count (so_db t)}"
    by (intro order_trans [OF assms(4)]) simp
  with assms(1) show ?thesis unfolding ids_used_def gen by (simp only: simp_thms)
qed

lemma generate_ids:
  assumes "generateSnapshot cfg lib signer provider rd actor s = (Inr p, t)" "ids_used s"
  shows "ids_used t"
proof -
  have "sn_id ` set (solvencySnapshots t) = insert (cuid_of (so_db s) (cuid_count (so_db s))) (sn_id ` set (solvencySnapshots s))"
    "same_core (so_db s) (so_db t)"
    using generate_effect(2) [OF assms(1)] by (auto simp: recorded_snapshot_def Let_def)
  then show ?thesis using ids_used_grow [OF assms(2)] generate_effect(3) [OF assms(1)] by simp
qed

lemma snapshot_run:
  assumes "infrastructureDisabledReason cfg = None"
    "no_hash_clash (hashes lib) (snapshotReport cfg lib signer provider rd (now_ms (so_db s)) i) (solvencyReports s)"
    "solvency_reachable cfg svc evm lib s"
    "ids_used s" "i = cuid_of (so_db s) (cuid_count (so_db s))" "distinct (map as_id (rd_assets rd))"
    "storable i (assetComputations cfg lib provider rd (now_ms (so_db s)) i)"
  obtains p t where "generateSnapshot cfg lib signer provider rd actor s = (Inr p, t)" "policy_of t = Some p"
    "recorded_snapshot cfg lib provider rd s t i" "ids_used t" "solvency_reachable cfg svc evm lib t"
proof -
  obtain p t where run: "generateSnapshot cfg lib signer provider rd actor s = (Inr p, t)"
    using generate_succeeds [OF assms(1-3,5) _ assms(7)] next_id_unused [OF assms(4)] assms(5) by metis
  show thesis
    by (rule that [OF run generate_effect(1) [OF run] generate_effect(2) [OF run, folded assms(5)] generate_ids [OF run assms(4)]
      solvency_reachable_steps [OF generateSnapshot_steps [OF run assms(6)] assms(3)]])
qed

end
