(* ===== verification/Proof_Binding.thy ===== *)
theory Proof_Binding
  imports Solvency_Progress
begin

text \<open>
  What a customer can conclude from a proof the browser accepts. The two hash functions are those of
  ethers over one Keccak-256 of byte messages, so a leaf's message is the UTF-8 of its text and a
  node's the 64 bytes of two hashes, and nothing but their lengths keeps them apart. Whatever index
  and path an accepted proof names, its payload is one of the leaves the signed root was built over,
  or the messages hashed for the tree and for the check contain a collision of Keccak-256.
\<close>

section \<open>Bytes\<close>

text \<open>\<open>toUtf8Bytes\<close>: the characters of the model are the code points below 256.\<close>

definition utf8_char :: "char \<Rightarrow> string" where
  "utf8_char c = (let n = of_char c :: nat in if n < 128 then [c] else [char_of (192 + n div 64), char_of (128 + n mod 64)])"

definition toUtf8Bytes :: "string \<Rightarrow> string" where
  "toUtf8Bytes x = concat (map utf8_char x)"

lemma utf8_char_inject: "utf8_char c @ xs = utf8_char d @ ys \<Longrightarrow> c = d \<and> xs = ys"
proof -
  assume eq: "utf8_char c @ xs = utf8_char d @ ys"
  have lim: "of_char c < (256 :: nat)" "of_char d < (256 :: nat)" by simp_all
  have low: "n < 128 \<Longrightarrow> char_of n \<noteq> (char_of (192 + m div 64) :: char)" if "m < 256" for m n :: nat
  proof
    assume n: "n < 128" and "char_of n = (char_of (192 + m div 64) :: char)"
    then have "(of_char (char_of n :: char) :: nat) = of_char (char_of (192 + m div 64) :: char)" by simp
    moreover have "192 + m div 64 < 256" using that by (simp add: less_mult_imp_div_less)
    ultimately show False using n by simp
  qed
  have two: "m = n" if "(192 + m div 64) mod 256 = (192 + n div 64) mod 256" "m mod 64 = n mod 64" "m < 256" "n < 256" for m n :: nat
  proof -
    have "192 + m div 64 < 256" "192 + n div 64 < 256" using that(3,4) by (simp_all add: less_mult_imp_div_less)
    with that(1) have "m div 64 = n div 64" by simp
    with that(2) show ?thesis by (metis div_mult_mod_eq)
  qed
  have same: "of_char c = (of_char d :: nat)" if "\<not> of_char c < (128 :: nat)" "\<not> of_char d < (128 :: nat)"
    using eq that lim by - (rule two; simp add: utf8_char_def Let_def)
  show ?thesis
    using eq lim low [of "of_char c" "of_char d"] low [of "of_char d" "of_char c"] same
    by (auto simp: utf8_char_def Let_def split: if_splits)
qed

lemma toUtf8Bytes_inject: "toUtf8Bytes x = toUtf8Bytes y \<Longrightarrow> x = y"
proof (induction x arbitrary: y)
  case Nil
  then show ?case by (cases y) (auto simp: toUtf8Bytes_def utf8_char_def Let_def split: if_splits)
next
  case (Cons c cs)
  then obtain d ds where y: "y = d # ds"
    by (cases y) (auto simp: toUtf8Bytes_def utf8_char_def Let_def split: if_splits)
  with Cons.prems have "utf8_char c @ toUtf8Bytes cs = utf8_char d @ toUtf8Bytes ds" by (simp add: toUtf8Bytes_def)
  from utf8_char_inject [OF this] Cons.IH y show ?case by simp
qed

lemma length_toUtf8Bytes: "length x \<le> length (toUtf8Bytes x)"
  by (induction x) (auto simp: toUtf8Bytes_def utf8_char_def Let_def)

text \<open>Two digits a byte, in lower case, and back, in any case.\<close>

fun spell :: "string \<Rightarrow> string" where
  "spell [] = []"
| "spell (c # cs) = hex_digit (of_char c div 16) # hex_digit (of_char c mod 16) # spell cs"

fun unhex :: "string \<Rightarrow> string" where
  "unhex (a # b # cs) = char_of (16 * hex_value (lower_char a) + hex_value (lower_char b)) # unhex cs"
| "unhex cs = []"

text \<open>A \<open>bytes32\<close> as ethers takes it, and \<open>solidityPack\<close> of two.\<close>

definition is_hex_digit :: "char \<Rightarrow> bool" where
  "is_hex_digit c \<longleftrightarrow> (let n = of_char (lower_char c) :: nat in 48 \<le> n \<and> n \<le> 57 \<or> 97 \<le> n \<and> n \<le> 102)"

definition bytes32 :: "string \<Rightarrow> bool" where
  "bytes32 x \<longleftrightarrow> take 2 x = ''0x'' \<and> length x = 66 \<and> list_all is_hex_digit (drop 2 x)"

definition solidityPack :: "string \<Rightarrow> string \<Rightarrow> string" where
  "solidityPack left right = unhex (drop 2 left) @ unhex (drop 2 right)"

lemma byte_digits: "of_char c div 16 < (16 :: nat)" "of_char c mod 16 < (16 :: nat)"
  by (simp_all add: less_mult_imp_div_less)

lemma hex_digit_plain: "n < 16 \<Longrightarrow> lower_char (hex_digit n) = hex_digit n" "n < 16 \<Longrightarrow> is_hex_digit (hex_digit n)"
  by (auto simp: hex_digit_def lower_char_def is_hex_digit_def Let_def dest: arg_cong [where f = "of_char :: char \<Rightarrow> nat"])

lemma spell_plain: "toLowerCase (spell x) = spell x" "list_all is_hex_digit (spell x)" "length (spell x) = 2 * length x"
  by (induction x) (simp_all add: toLowerCase_def hex_digit_plain byte_digits)

lemma unhex_spell: "unhex (spell x) = x"
proof (induction x)
  case (Cons c cs)
  have "16 * (of_char c div 16) + of_char c mod 16 = (of_char c :: nat)" by simp
  with Cons show ?case by (simp add: hex_digit_plain(1) byte_digits hex_value_digit)
qed simp

lemma length_unhex: "length (unhex x) = length x div 2"
  by (induction x rule: unhex.induct) auto

section \<open>The hash functions\<close>

text \<open>
  What ethers documents: both functions are Keccak-256 of the bytes described above, and the 32 bytes
  of the result are written with \<open>0x\<close> in lower case. A pair whose members are not of 32 bytes throws,
  so nothing is said of it.
\<close>

definition hash_text :: "(string \<Rightarrow> string) \<Rightarrow> string \<Rightarrow> string" where
  "hash_text keccak m = ''0x'' @ spell (keccak m)"

definition ethers_hashes :: "hash_library \<Rightarrow> (string \<Rightarrow> string) \<Rightarrow> bool" where
  "ethers_hashes lib keccak \<longleftrightarrow> (\<forall>m. length (keccak m) = 32) \<and>
     (\<forall>x. keccakText lib x = hash_text keccak (toUtf8Bytes x)) \<and>
     (\<forall>a b. bytes32 a \<longrightarrow> bytes32 b \<longrightarrow> keccakPair lib a b = hash_text keccak (solidityPack a b))"

lemma hash_text_inject: "hash_text keccak m = hash_text keccak' n \<Longrightarrow> keccak m = keccak' n"
  by (metis hash_text_def same_append_eq unhex_spell)

lemma hash_text_bytes32: "length (keccak m) = 32 \<Longrightarrow> bytes32 (hash_text keccak m)"
  by (simp add: bytes32_def hash_text_def spell_plain)

lemma hash_text_lower: "toLowerCase (hash_text keccak m) = hash_text keccak m"
proof -
  have "toLowerCase ''0x'' = ''0x''" by code_simp
  moreover have "toLowerCase (x @ y) = toLowerCase x @ toLowerCase y" for x y by (simp add: toLowerCase_def)
  ultimately show ?thesis by (simp only: hash_text_def spell_plain(1))
qed

text \<open>Packing two of 32 bytes tells them apart, up to the case of their digits.\<close>

lemma pack_inject:
  assumes "bytes32 a" "bytes32 b" "bytes32 c" "bytes32 d" "solidityPack a b = solidityPack c d"
  shows "unhex (drop 2 a) = unhex (drop 2 c) \<and> unhex (drop 2 b) = unhex (drop 2 d)"
  using assms by (intro append_eq_append_conv [THEN iffD1]) (auto simp: solidityPack_def bytes32_def length_unhex)

lemma length_pack: "bytes32 a \<Longrightarrow> bytes32 b \<Longrightarrow> length (solidityPack a b) = 64"
  by (simp add: solidityPack_def bytes32_def length_unhex)

lemma unhex_hash: "unhex (drop 2 (hash_text keccak m)) = keccak m"
  by (simp add: hash_text_def unhex_spell)

section \<open>The messages that are hashed\<close>

text \<open>Building the tree over a list of hashes, and climbing from a hash along a path.\<close>

fun level_messages :: "string list \<Rightarrow> string list" where
  "level_messages [] = []"
| "level_messages [left] = [solidityPack left left]"
| "level_messages (left # right # level) = solidityPack left right # level_messages level"

function tree_messages :: "hash_library \<Rightarrow> string list \<Rightarrow> string list" where
  "tree_messages lib level = (if length level > 1 then level_messages level @ tree_messages lib (nextLevel lib level) else [])"
  by pat_completeness auto
termination
  by (relation "measure (\<lambda>(lib, level). length level)") (auto simp: length_nextLevel)

declare tree_messages.simps [simp del]

fun climb_messages :: "hash_library \<Rightarrow> string \<Rightarrow> nat \<Rightarrow> string list \<Rightarrow> string list" where
  "climb_messages lib currentHash currentIndex [] = []"
| "climb_messages lib currentHash currentIndex (siblingHash # siblings) =
     (let (left, right) = (if currentIndex mod 2 = 0 then (currentHash, siblingHash) else (siblingHash, currentHash)) in
      solidityPack left right # climb_messages lib (hashMerklePair lib left right) (currentIndex div 2) siblings)"

definition leaf_message :: "LiabilityLeafPayload \<Rightarrow> string" where
  "leaf_message p = toUtf8Bytes (stableStringify (leaf_object p))"

section \<open>Climbing meets the leaves\<close>

lemma ethersD:
  assumes "ethers_hashes lib keccak"
  shows "length (keccak m) = 32" "keccakText lib x = hash_text keccak (toUtf8Bytes x)" "bytes32 (hash_text keccak m)"
    "bytes32 a \<Longrightarrow> bytes32 b \<Longrightarrow> hashMerklePair lib a b = hash_text keccak (solidityPack a b)"
  using assms hash_text_bytes32 by (auto simp: ethers_hashes_def hashMerklePair_def)

lemma nextLevel_pairs:
  "y \<in> set (nextLevel lib xs) \<Longrightarrow> \<exists>a b. y = hashMerklePair lib a b \<and> a \<in> set xs \<and> b \<in> set xs \<and>
     solidityPack a b \<in> set (level_messages xs)"
proof (induction lib xs rule: nextLevel.induct)
  case (3 lib left right level)
  then show ?case by auto
qed auto

lemma level_message_pair: "m \<in> set (level_messages xs) \<Longrightarrow> \<exists>a\<in>set xs. \<exists>b\<in>set xs. m = solidityPack a b"
  by (induction xs rule: level_messages.induct) auto

lemma climb_step:
  "m < length path \<Longrightarrow> \<exists>l r. climb lib x i (take (Suc m) path) = hashMerklePair lib l r \<and>
     solidityPack l r \<in> set (climb_messages lib x i path) \<and>
     (l, r) \<in> {(climb lib x i (take m path), path ! m), (path ! m, climb lib x i (take m path))}"
proof (induction path arbitrary: x i m)
  case (Cons s path)
  show ?case
  proof (cases m)
    case 0
    then show ?thesis by (auto simp: Let_def)
  next
    case (Suc k)
    let ?l = "if i mod 2 = 0 then x else s" and ?r = "if i mod 2 = 0 then s else x"
    let ?up = "hashMerklePair lib ?l ?r"
    have up: "climb lib x i (take n (s # path)) = climb lib ?up (i div 2) (take (n - 1) path)" if "0 < n" for n
      using that by (cases n) simp_all
    from Cons.IH [of k ?up "i div 2"] Cons.prems Suc obtain l r where
      "climb lib ?up (i div 2) (take (Suc k) path) = hashMerklePair lib l r"
      "solidityPack l r \<in> set (climb_messages lib ?up (i div 2) path)"
      "(l, r) \<in> {(climb lib ?up (i div 2) (take k path), path ! k), (path ! k, climb lib ?up (i div 2) (take k path))}" by auto
    moreover have "set (climb_messages lib ?up (i div 2) path) \<subseteq> set (climb_messages lib x i (s # path))" by auto
    ultimately show ?thesis using up [of m] up [of "Suc m"] Suc by (intro exI [of _ l] exI [of _ r]) auto
  qed
qed simp

lemma take_bytes32: "list_all bytes32 path \<Longrightarrow> list_all bytes32 (take m path)"
  by (auto simp: list_all_iff dest: in_set_takeD)

lemma climb_hash:
  assumes "ethers_hashes lib keccak" "list_all bytes32 path"
  shows "x = hash_text keccak n \<Longrightarrow> \<exists>n'. climb lib x i path = hash_text keccak n'"
  using assms(2)
proof (induction path arbitrary: x n i)
  case (Cons s path)
  have "bytes32 x" using Cons.prems(1) ethersD(3) [OF assms(1)] by simp
  then have "\<exists>n'. hashMerklePair lib x s = hash_text keccak n'" "\<exists>n'. hashMerklePair lib s x = hash_text keccak n'"
    using Cons.prems(2) ethersD(4) [OF assms(1)] by auto
  with Cons show ?case by auto
qed auto

definition hashed :: "(string \<Rightarrow> string) \<Rightarrow> string list \<Rightarrow> bool" where
  "hashed keccak xs \<longleftrightarrow> (\<forall>y\<in>set xs. \<exists>m. y = hash_text keccak m)"

lemma hashed_next:
  assumes "ethers_hashes lib keccak" "hashed keccak level"
  shows "hashed keccak (nextLevel lib level)"
  unfolding hashed_def
proof
  fix y assume "y \<in> set (nextLevel lib level)"
  from nextLevel_pairs [OF this] obtain a b where "y = hashMerklePair lib a b" "a \<in> set level" "b \<in> set level" by blast
  moreover from this assms have "bytes32 a" "bytes32 b" using ethersD(3) by (auto simp: hashed_def)
  ultimately show "\<exists>m. y = hash_text keccak m" using ethersD(4) [OF assms(1)] by blast
qed

lemma path_bytes32:
  assumes "ethers_hashes lib keccak"
  shows "hashed keccak level \<Longrightarrow> i < length level \<Longrightarrow> list_all bytes32 (proof_path lib level i)"
proof (induction "length level" arbitrary: level i rule: less_induct)
  case less
  show ?case
  proof (cases "length level > 1")
    case False
    then show ?thesis by (simp add: proof_path.simps [of lib level i])
  next
    case True
    have "sibling level i \<in> set level" using less.prems(2) by (auto simp: sibling_def Let_def)
    then have "bytes32 (sibling level i)" using less.prems(1) ethersD(3) [OF assms] unfolding hashed_def by metis
    moreover have "list_all bytes32 (proof_path lib (nextLevel lib level) (i div 2))"
      by (rule less.hyps [OF _ hashed_next [OF assms less.prems(1)]]) (use True less.prems(2) in \<open>simp_all add: length_nextLevel\<close>)
    ultimately show ?thesis using True by (simp add: proof_path.simps [of lib level i])
  qed
qed

definition collides :: "(string \<Rightarrow> string) \<Rightarrow> string list \<Rightarrow> string list \<Rightarrow> bool" where
  "collides keccak ms ns \<longleftrightarrow> (\<exists>m\<in>set ms. \<exists>n\<in>set ns. m \<noteq> n \<and> keccak m = keccak n)"

lemma collides_append: "collides keccak (ms @ ms') ns \<longleftrightarrow> collides keccak ms ns \<or> collides keccak ms' ns"
  by (auto simp: collides_def)

lemma climb_meets_level:
  assumes hs: "ethers_hashes lib keccak" and x: "x = hash_text keccak n" and path: "list_all bytes32 path"
  shows "hashed keccak level \<Longrightarrow> merkle_levels lib level = [climb lib x i path] \<Longrightarrow>
     \<not> collides keccak (tree_messages lib level) (climb_messages lib x i path) \<Longrightarrow>
     (\<exists>k\<le>length path. climb lib x i (take k path) \<in> set level) \<or> (\<exists>m\<in>set (tree_messages lib level). keccak n = keccak m)"
proof (induction "length level" arbitrary: level rule: less_induct)
  case less
  show ?case
  proof (cases "length level > 1")
    case False
    then have "level = [climb lib x i path]" using less.prems(2) by (simp add: merkle_levels.simps [of lib level])
    then show ?thesis by (intro disjI1 exI [of _ "length path"]) simp
  next
    case True
    note tree = tree_messages.simps [of lib level, unfolded if_P [OF True]]
    have shorter: "length (nextLevel lib level) < length level" using True by (simp add: length_nextLevel)
    have next_levels: "merkle_levels lib (nextLevel lib level) = [climb lib x i path]"
      using less.prems(2) True by (simp add: merkle_levels.simps [of lib level])
    have "\<not> collides keccak (tree_messages lib (nextLevel lib level)) (climb_messages lib x i path)"
      using less.prems(3) by (simp add: tree collides_append)
    from less.hyps [OF shorter hashed_next [OF hs less.prems(1)] next_levels this] show ?thesis
    proof
      assume "\<exists>k\<le>length path. climb lib x i (take k path) \<in> set (nextLevel lib level)"
      then obtain k where k: "k \<le> length path" "climb lib x i (take k path) \<in> set (nextLevel lib level)" by blast
      from nextLevel_pairs [OF k(2)] obtain a b where ab: "climb lib x i (take k path) = hashMerklePair lib a b"
        "a \<in> set level" "b \<in> set level" "solidityPack a b \<in> set (level_messages level)" by blast
      obtain a' b' where hashes: "a = hash_text keccak a'" "b = hash_text keccak b'"
        using less.prems(1) ab(2,3) unfolding hashed_def by blast
      have ok: "bytes32 a" "bytes32 b" using hashes ethersD(3) [OF hs] by simp_all
      have node: "climb lib x i (take k path) = hash_text keccak (solidityPack a b)"
        unfolding ab(1) by (rule ethersD(4) [OF hs ok])
      show ?thesis
      proof (cases k)
        case 0
        with node x have "keccak n = keccak (solidityPack a b)" by (auto dest: hash_text_inject)
        with ab(4) show ?thesis unfolding tree by (intro disjI2 bexI [of _ "solidityPack a b"]) simp_all
      next
        case (Suc m)
        let ?c = "climb lib x i (take m path)"
        obtain c' where c: "?c = hash_text keccak c'"
          using climb_hash [OF hs take_bytes32 [OF path] x] by blast
        have sib: "bytes32 (path ! m)" "bytes32 ?c"
          using path k(1) Suc ethersD(3) [OF hs] c by (auto simp: list_all_length)
        from climb_step [of m path lib x i] k(1) Suc obtain l r where lr: "climb lib x i (take k path) = hashMerklePair lib l r"
          "solidityPack l r \<in> set (climb_messages lib x i path)" "(l, r) \<in> {(?c, path ! m), (path ! m, ?c)}" by auto
        have lr_ok: "bytes32 l" "bytes32 r" using lr(3) sib by auto
        from node lr(1) ethersD(4) [OF hs lr_ok] have "keccak (solidityPack a b) = keccak (solidityPack l r)"
          by (auto dest: hash_text_inject)
        with less.prems(3) ab(4) lr(2) have "solidityPack a b = solidityPack l r"
          unfolding tree collides_def by auto
        from pack_inject [OF ok lr_ok this] have "keccak c' = keccak a' \<or> keccak c' = keccak b'"
          using lr(3) c hashes by (auto simp: unhex_hash)
        then have "?c \<in> {a, b}" using c hashes by (auto simp: hash_text_def)
        with ab k(1) Suc show ?thesis by (intro disjI1 exI [of _ m]) auto
      qed
    qed (auto simp: tree)
  qed
qed

text \<open>The messages of nodes are shorter than those of leaves.\<close>

lemma tree_message_length:
  assumes "ethers_hashes lib keccak"
  shows "hashed keccak level \<Longrightarrow> m \<in> set (tree_messages lib level) \<Longrightarrow> length m = 64"
proof (induction "length level" arbitrary: level rule: less_induct)
  case less
  have long: "length level > 1" using less.prems(2) by (auto simp: tree_messages.simps [of lib level] split: if_splits)
  then have "m \<in> set (level_messages level) \<or> m \<in> set (tree_messages lib (nextLevel lib level))"
    using less.prems(2) by (simp add: tree_messages.simps [of lib level])
  then show ?case
  proof
    assume "m \<in> set (level_messages level)"
    from level_message_pair [OF this] obtain a b where "a \<in> set level" "b \<in> set level" "m = solidityPack a b" by blast
    with less.prems(1) show ?thesis using length_pack ethersD(3) [OF assms] unfolding hashed_def by metis
  next
    assume "m \<in> set (tree_messages lib (nextLevel lib level))"
    with long show ?thesis by (intro less.hyps [OF _ hashed_next [OF assms less.prems(1)]]) (simp_all add: length_nextLevel)
  qed
qed

lemma length_join: "sum_list (map length xs) \<le> length (join sep xs)"
  by (induction sep xs rule: join.induct) auto

lemma sum_sorted: "sum_list (map f (sort_key k xs)) = (sum_list (map f xs) :: nat)"
  by (metis mset_map mset_sort sum_mset_sum_list)

lemma leaf_message_length: "64 < length (leaf_message p)"
proof -
  let ?text = "\<lambda>(key, text). stringify_string key @ '':'' @ text"
  obtain fields where fields: "leaf_object p = JObject fields" by (simp add: leaf_object_def)
  let ?fs = "map (\<lambda>(key, v). (key, stableStringify v)) fields"
  have "sum_list (map (length \<circ> ?text) ?fs) \<le> length (stableStringify (leaf_object p))"
    unfolding fields using length_join [of "map ?text (sort_key fst ?fs)" "'',''"] sum_sorted [of "length \<circ> ?text" fst ?fs]
    by simp
  moreover have "64 < sum_list (map (length \<circ> ?text) ?fs)"
    using fields unfolding leaf_object_def by (auto simp: stringify_string_def escape_char_def Let_def)
  ultimately show ?thesis using length_toUtf8Bytes [of "stableStringify (leaf_object p)"] by (simp add: leaf_message_def)
qed

text \<open>A leaf whose hash climbs to the root of a tree over leaves is one of them.\<close>

lemma leaves_only:
  assumes hs: "ethers_hashes lib keccak" and path: "list_all bytes32 path" and some: "ps \<noteq> []"
    and root: "buildMerkleRoot lib (map (hashLiabilityLeaf lib) ps) = Some (climb lib (hashLiabilityLeaf lib p) i path)"
    and free: "\<not> collides keccak (map leaf_message ps @ tree_messages lib (map (hashLiabilityLeaf lib) ps))
      (leaf_message p # climb_messages lib (hashLiabilityLeaf lib p) i path)"
  shows "p \<in> set ps"
proof -
  let ?level = "map (hashLiabilityLeaf lib) ps" and ?x = "hashLiabilityLeaf lib p"
  have leaf: "hashLiabilityLeaf lib q = hash_text keccak (leaf_message q)" for q
    by (simp add: hashLiabilityLeaf_def leaf_message_def ethersD(2) [OF hs])
  have hashed: "hashed keccak ?level" by (auto simp: hashed_def leaf)
  have "merkle_levels lib ?level = [climb lib ?x i path]"
    using levels_climb [of 0 ?level lib] root some by (auto simp: buildMerkleRoot_def)
  from climb_meets_level [OF hs leaf path hashed this] free
  have "(\<exists>k\<le>length path. climb lib ?x i (take k path) \<in> set ?level) \<or>
      (\<exists>m\<in>set (tree_messages lib ?level). keccak (leaf_message p) = keccak m)"
    by (auto simp: collides_def)
  then show ?thesis
  proof
    assume "\<exists>m\<in>set (tree_messages lib ?level). keccak (leaf_message p) = keccak m"
    then obtain m where m: "m \<in> set (tree_messages lib ?level)" "keccak m = keccak (leaf_message p)" by auto
    with free have "m = leaf_message p" by (auto simp: collides_def)
    with tree_message_length [OF hs hashed m(1)] leaf_message_length [of p] show ?thesis by simp
  next
    assume "\<exists>k\<le>length path. climb lib ?x i (take k path) \<in> set ?level"
    then obtain k q where k: "k \<le> length path" "q \<in> set ps" "climb lib ?x i (take k path) = hash_text keccak (leaf_message q)"
      by (auto simp: leaf)
    show ?thesis
    proof (cases k)
      case 0
      with k(3) have "keccak (leaf_message q) = keccak (leaf_message p)" by (auto simp: leaf dest: hash_text_inject)
      with free k(2) have "leaf_message q = leaf_message p" by (auto simp: collides_def)
      then have "q = p"
        unfolding leaf_message_def by (blast dest: toUtf8Bytes_inject stableStringify_canon_inject leaf_object_inject)
      with k(2) show ?thesis by simp
    next
      case (Suc m)
      obtain c' where c: "climb lib ?x i (take m path) = hash_text keccak c'"
        using climb_hash [OF hs take_bytes32 [OF path] leaf] by blast
      have sib: "bytes32 (path ! m)" "bytes32 (climb lib ?x i (take m path))"
        using path k(1) Suc ethersD(3) [OF hs] c by (auto simp: list_all_length)
      from climb_step [of m path lib ?x i] k(1) Suc obtain l r where lr: "climb lib ?x i (take k path) = hashMerklePair lib l r"
        "solidityPack l r \<in> set (climb_messages lib ?x i path)" "bytes32 l" "bytes32 r" using sib by auto
      from lr(1) k(3) ethersD(4) [OF hs lr(3,4)] have "keccak (leaf_message q) = keccak (solidityPack l r)"
        by (auto dest: hash_text_inject)
      with free k(2) lr(2) have "leaf_message q = solidityPack l r" by (auto simp: collides_def)
      with leaf_message_length [of q] length_pack [OF lr(3,4)] show ?thesis by simp
    qed
  qed
qed

text \<open>The messages hashed for the leaves of an asset and for a check, and what an accepted check computed.\<close>

definition built_messages :: "hash_library \<Rightarrow> solvency_liability_leaf list \<Rightarrow> string list" where
  "built_messages lib rows = map leaf_message (map sl_canonicalPayload rows) @ tree_messages lib (map sl_leafHash rows)"

definition checked_messages :: "hash_library \<Rightarrow> LiabilityProofInput \<Rightarrow> string list" where
  "checked_messages lib input = leaf_message (pi_payload input) #
     climb_messages lib (hashLiabilityLeaf lib (pi_payload input)) (pi_leafIndex input) (pi_proof input)"

lemma accepted_root:
  assumes hs: "ethers_hashes lib keccak" and path: "list_all bytes32 (pi_proof input)"
    and root: "buildMerkleRoot lib (map (hashLiabilityLeaf lib) ps) = Some (pi_rootHash input)"
    and valid: "isRootValid (verifyLiabilityProof lib input)"
  shows "pi_rootHash input = climb lib (hashLiabilityLeaf lib (pi_payload input)) (pi_leafIndex input) (pi_proof input)"
proof -
  have leaf: "hashLiabilityLeaf lib q = hash_text keccak (leaf_message q)" for q
    by (simp add: hashLiabilityLeaf_def leaf_message_def ethersD(2) [OF hs])
  have some: "ps \<noteq> []" using root by (auto simp: buildMerkleRoot_def)
  have lower: "toLowerCase (climb lib (hashLiabilityLeaf lib q) i hs') = climb lib (hashLiabilityLeaf lib q) i hs'"
    if "list_all bytes32 hs'" for q i hs'
    using climb_hash [OF hs that leaf] hash_text_lower by metis
  let ?level = "map (hashLiabilityLeaf lib) ps"
  have top: "pi_rootHash input = climb lib (?level ! 0) 0 (buildMerkleProof lib ?level (int 0))"
    using proof_leads_to_root [of 0 ?level lib] root some by simp
  have "list_all bytes32 (buildMerkleProof lib ?level (int 0))"
    using path_bytes32 [OF hs, of ?level 0] some leaf by (auto simp: buildMerkleProof_def hashed_def)
  with top lower [of _ "ps ! 0" 0] some have "toLowerCase (pi_rootHash input) = pi_rootHash input" by simp
  with lower [OF path] valid show ?thesis by (simp add: verifyLiabilityProof_def Let_def)
qed

section \<open>The reported roots\<close>

definition roots_ok :: "solvency_library \<Rightarrow> solvency_state \<Rightarrow> bool" where
  "roots_ok lib s \<longleftrightarrow> (\<forall>rep\<in>set (solvencyReports s). \<forall>a root.
     reported_root (sr_payload (spr_signed rep)) a = Some (JString root) \<longrightarrow>
     buildMerkleRoot (hashes lib) (map sl_leafHash (leaf_rows (spr_snapshotId rep) a (solvencyLiabilityLeaves s))) = Some root)"

lemma reported_of_computed:
  assumes cs: "computed_for lib i cs" and root: "reported_root (report_object cfg lib i g t sm cs pol) a = Some (JString root)"
  shows "buildMerkleRoot (hashes lib) (map sl_leafHash (leaf_rows i a (liabilityLeafRows i cs))) = Some root"
proof -
  have dist: "distinct (map (as_id \<circ> asc_asset) cs)" using cs by (simp add: computed_for_def)
  have sel: "member ''assetId'' (asset_object lib d) = Some (JString (as_id (asc_asset d)))" for d
    by (simp add: asset_object_def Let_def)
  from root obtain x where x: "find (\<lambda>x. member ''assetId'' x = Some (JString a)) (map (asset_object lib) cs) = Some x"
    by (auto simp: reported_root_def report_object_def bind_eq_Some_conv)
  from find_SomeD [OF x] obtain c where c: "c \<in> set cs" "a = as_id (asc_asset c)" by (auto simp: sel)
  from reported_asset [OF c(1) dist] root have "nullable JString (lpa_liabilityMerkleRoot (asc_liabilityProof c)) = JString root"
    by (simp add: c(2))
  then show ?thesis using computed_rows(2) [OF cs c(1)] by (simp add: c(2) nullable_def split: option.splits)
qed

lemma solvency_reachable_roots: "solvency_reachable cfg svc evm lib s \<Longrightarrow> roots_ok lib s"
proof (induction rule: solvency_reachable.induct)
  case (start gen now)
  show ?case by (simp add: roots_ok_def empty_solvency_def)
next
  case (step s t)
  from step_writes [OF step(2)] show ?case
  proof
    assume "archive t = archive s"
    with step(3) show ?thesis by (simp add: archive_def roots_ok_def)
  next
    assume "\<exists>signer provider rd actor row u. distinct (map as_id (rd_assets rd)) \<and>
      row \<in> set (solvencySnapshots s) \<and> sn_completedAt row = None \<and>
      recordSnapshot cfg lib signer provider rd actor row s = Inr (u, t)"
    then obtain signer provider rd actor row u where d: "distinct (map as_id (rd_assets rd))"
      and row: "row \<in> set (solvencySnapshots s)" "sn_completedAt row = None"
      and run: "recordSnapshot cfg lib signer provider rd actor row s = Inr (u, t)" by blast
    from record_archive [OF run d] obtain cs rep where cs: "computed_for lib (sn_id row) cs"
      and leaves: "solvencyLiabilityLeaves t = solvencyLiabilityLeaves s @ liabilityLeafRows (sn_id row) cs"
      and rep: "solvencyReports t = solvencyReports s @ [rep]" "spr_snapshotId rep = sn_id row"
      and payload: "\<exists>g c sm pol. sr_payload (spr_signed rep) = report_object cfg lib (sn_id row) g c sm cs pol" by metis
    have ok: "archive_ok lib s" by (rule solvency_reachable_archive [OF step(1)])
    have "snapshots_ok s" using solvency_reachable_inv [OF step(1)] by (simp add: solvency_inv_def)
    then have open_row: "\<not> complete_at (sn_id row) s"
      using row by (auto simp: complete_at_def snapshots_ok_def distinct_map inj_on_def)
    then have unused: "leaf_rows (sn_id row) a (solvencyLiabilityLeaves s) = []" for a
      using ok by (auto simp: archive_ok_def leaf_rows_def filter_empty_conv)
    have rows: "leaf_rows j a (solvencyLiabilityLeaves t) = (if j = sn_id row then leaf_rows j a (liabilityLeafRows j cs)
        else leaf_rows j a (solvencyLiabilityLeaves s))" for j a
      by (simp add: leaves leaf_rows_append unused leaf_rows_other)
    have "spr_snapshotId r \<noteq> sn_id row" if "r \<in> set (solvencyReports s)" for r
      using that ok open_row by (auto simp: archive_ok_def)
    then show ?thesis
      using step(3) payload reported_of_computed [OF cs] unfolding roots_ok_def rep(1) by (auto simp: rows rep(2))
  qed
qed

end
