(* ===== verification/Demo_Hashes.thy ===== *)
theory Demo_Hashes
  imports Proof_Binding
begin

text \<open>
  Hash functions for the demonstration: a toy digest of 32 bytes, cut out of the message, used the way
  ethers uses Keccak-256. It has collisions, as any digest has, but none among the messages of the story.
\<close>

section \<open>How canonical texts start\<close>

definition field :: "string \<Rightarrow> string \<Rightarrow> string" where
  "field k v = stringify_string k @ '':'' @ v"

lemma leaf_text: "\<exists>rest. stableStringify (leaf_object p) = ''{'' @ field ''assetId'' (stringify_string (ll_assetId p)) @ '','' @
   field ''assetSymbol'' (stringify_string (ll_assetSymbol p)) @ '','' @
   field ''availableLiabilityAmount'' (stringify_string (ll_availableLiabilityAmount p)) @ '','' @
   field ''customerAccountId'' (stringify_string (ll_customerAccountId p)) @ rest"
  by (simp add: leaf_object_def field_def less_char_def less_eq_char_def)

lemma report_text: "\<exists>rest. stableStringify (report_object cfg lib i g c sm cs pol) =
   ''{'' @ field ''assets'' (stableStringify (JArray (map (asset_object lib) cs))) @ rest"
  by (simp add: report_object_def field_def less_char_def less_eq_char_def del: stableStringify.simps(5))

section \<open>The digest\<close>

definition demo_keccak :: "string \<Rightarrow> string" where
  "demo_keccak m = take 12 (m @ replicate 12 (CHR 0x00)) @ take 20 (drop 60 m @ replicate 20 (CHR 0x00))"

definition solv_hashes :: hash_library where
  "solv_hashes = \<lparr>keccakText = (\<lambda>x. hash_text demo_keccak (toUtf8Bytes x)),
     keccakPair = (\<lambda>a b. hash_text demo_keccak (solidityPack a b)), sha256Hex = (\<lambda>x. ''sha'')\<rparr>"

lemma demo_keccak_length: "length (demo_keccak m) = 32"
  by (simp add: demo_keccak_def)

lemma solv_hashes_good: "ethers_hashes solv_hashes demo_keccak"
  by (simp add: ethers_hashes_def solv_hashes_def demo_keccak_length)

lemma utf8_append: "toUtf8Bytes (x @ y) = toUtf8Bytes x @ toUtf8Bytes y"
  by (simp add: toUtf8Bytes_def)

lemma start_bytes: "toUtf8Bytes x = x \<Longrightarrow> length x = 12 \<Longrightarrow> take 12 (demo_keccak (toUtf8Bytes (x @ r))) = x"
  by (simp add: utf8_append demo_keccak_def)

lemma report_hashes_differ:
  "keccakText solv_hashes (stableStringify (report_object cfg lib i g c sm [] pol)) \<noteq>
   keccakText solv_hashes (stableStringify (report_object cfg' lib' i' g' c' sm' (x # xs) pol'))"
proof
  assume eq: "keccakText solv_hashes (stableStringify (report_object cfg lib i g c sm [] pol)) =
    keccakText solv_hashes (stableStringify (report_object cfg' lib' i' g' c' sm' (x # xs) pol'))"
  obtain r1 where r1: "stableStringify (report_object cfg lib i g c sm [] pol) = ''{'' @ field ''assets'' ''[]'' @ r1"
    using report_text [of cfg lib i g c sm "[]" pol] by auto
  obtain r where "stableStringify (asset_object lib' x) = ''{'' @ r" by (simp add: asset_object_def Let_def)
  then have "\<exists>r'. stableStringify (JArray (map (asset_object lib') (x # xs))) = ''[{'' @ r'" by (cases xs) simp_all
  then obtain r' where arr: "stableStringify (JArray (map (asset_object lib') (x # xs))) = ''[{'' @ r'" ..
  obtain rest where "stableStringify (report_object cfg' lib' i' g' c' sm' (x # xs) pol') =
      ''{'' @ field ''assets'' (stableStringify (JArray (map (asset_object lib') (x # xs)))) @ rest"
    using report_text [of cfg' lib' i' g' c' sm' "x # xs" pol'] ..
  then have r2: "stableStringify (report_object cfg' lib' i' g' c' sm' (x # xs) pol') = ''{'' @ field ''assets'' ''[{'' @ (r' @ rest)"
    unfolding arr by (simp add: field_def)
  have p: "toUtf8Bytes (''{'' @ field ''assets'' ''[]'') = ''{'' @ field ''assets'' ''[]''"
    "toUtf8Bytes (''{'' @ field ''assets'' ''[{'') = ''{'' @ field ''assets'' ''[{''" by code_simp+
  have len: "length (''{'' @ field ''assets'' ''[]'') = 12" "length (''{'' @ field ''assets'' ''[{'') = 12" by code_simp+
  note t = start_bytes [OF p(1) len(1), of r1] start_bytes [OF p(2) len(2), of "r' @ rest"]
  from eq have "demo_keccak (toUtf8Bytes ((''{'' @ field ''assets'' ''[]'') @ r1)) = demo_keccak (toUtf8Bytes ((''{'' @ field ''assets'' ''[{'') @ (r' @ rest)))"
    unfolding solv_hashes_def hash_library.select_convs r1 r2 append_assoc by (rule hash_text_inject)
  with t have "''{'' @ field ''assets'' ''[]'' = ''{'' @ field ''assets'' ''[{''" by metis
  then show False by (simp add: field_def)
qed

text \<open>How the texts of the two leaves start.\<close>

definition leaf_start :: "string \<Rightarrow> string \<Rightarrow> string" where
  "leaf_start amount customer = ''{'' @ field ''assetId'' (stringify_string ''eth'') @ '','' @
     field ''assetSymbol'' (stringify_string ''ETH'') @ '','' @ field ''availableLiabilityAmount'' (stringify_string amount) @ '','' @
     field ''customerAccountId'' (stringify_string customer)"

lemma leaf_starts:
  "ll_assetId p = ''eth'' \<Longrightarrow> ll_assetSymbol p = ''ETH'' \<Longrightarrow>
     \<exists>r. stableStringify (leaf_object p) = leaf_start (ll_availableLiabilityAmount p) (ll_customerAccountId p) @ r"
  using leaf_text [of p] by (auto simp: leaf_start_def)

lemma start_digest:
  "toUtf8Bytes x = x \<Longrightarrow> 80 \<le> length x \<Longrightarrow> demo_keccak (toUtf8Bytes (x @ r)) = take 12 x @ take 20 (drop 60 x)"
  by (simp add: utf8_append demo_keccak_def)

lemma demo_starts:
  "toUtf8Bytes (leaf_start (stringify_int 100) ''alice'') = leaf_start (stringify_int 100) ''alice''"
  "toUtf8Bytes (leaf_start (stringify_int 50) ''bob'') = leaf_start (stringify_int 50) ''bob''"
  "80 \<le> length (leaf_start (stringify_int 100) ''alice'')" "80 \<le> length (leaf_start (stringify_int 50) ''bob'')"
  "take 20 (drop 60 (leaf_start (stringify_int 100) ''alice'')) \<noteq> take 20 (drop 60 (leaf_start (stringify_int 50) ''bob''))"
  "last (take 20 (drop 60 (leaf_start (stringify_int 100) ''alice''))) \<noteq> CHR 0x00"
  "last (take 20 (drop 60 (leaf_start (stringify_int 50) ''bob''))) \<noteq> CHR 0x00"
  by code_simp+

lemma node_digest: "length m = 64 \<Longrightarrow> last (demo_keccak m) = CHR 0x00"
  by (simp add: demo_keccak_def)

lemma leaf_digests:
  assumes "ll_assetId p = ''eth''" "ll_assetSymbol p = ''ETH''" "ll_availableLiabilityAmount p = stringify_int 100"
    "ll_customerAccountId p = ''alice''" "ll_assetId q = ''eth''" "ll_assetSymbol q = ''ETH''"
    "ll_availableLiabilityAmount q = stringify_int 50" "ll_customerAccountId q = ''bob''"
  shows "demo_keccak (leaf_message p) \<noteq> demo_keccak (leaf_message q)"
    "length m = 64 \<Longrightarrow> demo_keccak (leaf_message p) \<noteq> demo_keccak m" "length m = 64 \<Longrightarrow> demo_keccak (leaf_message q) \<noteq> demo_keccak m"
proof -
  obtain r where "stableStringify (leaf_object p) = leaf_start (stringify_int 100) ''alice'' @ r"
    using leaf_starts [OF assms(1,2)] assms by auto
  then have p: "demo_keccak (leaf_message p) = take 12 (leaf_start (stringify_int 100) ''alice'') @
      take 20 (drop 60 (leaf_start (stringify_int 100) ''alice''))"
    by (simp only: leaf_message_def start_digest [OF demo_starts(1,3)])
  obtain r where "stableStringify (leaf_object q) = leaf_start (stringify_int 50) ''bob'' @ r"
    using leaf_starts [OF assms(5,6)] assms by auto
  then have q: "demo_keccak (leaf_message q) = take 12 (leaf_start (stringify_int 50) ''bob'') @
      take 20 (drop 60 (leaf_start (stringify_int 50) ''bob''))"
    by (simp only: leaf_message_def start_digest [OF demo_starts(2,4)])
  have long: "take 20 (drop 60 (leaf_start (stringify_int 100) ''alice'')) \<noteq> []"
    "take 20 (drop 60 (leaf_start (stringify_int 50) ''bob'')) \<noteq> []"
    using demo_starts(3,4) by auto
  have lasts: "last (demo_keccak (leaf_message p)) \<noteq> CHR 0x00" "last (demo_keccak (leaf_message q)) \<noteq> CHR 0x00"
    using demo_starts(6,7) long by (simp_all add: p q)
  show "demo_keccak (leaf_message p) \<noteq> demo_keccak (leaf_message q)"
    using demo_starts(3-5) by (auto simp: p q)
  show "length m = 64 \<Longrightarrow> demo_keccak (leaf_message p) \<noteq> demo_keccak m" "length m = 64 \<Longrightarrow> demo_keccak (leaf_message q) \<noteq> demo_keccak m"
    using lasts node_digest by metis+
qed

end
