(* ===== verification/Solvency_Demo.thy ===== *)
theory Solvency_Demo
  imports Snapshot_Run Service_Demo Demo_Hashes
begin

text \<open>
  A small bank whose solvency is watched, on which the properties' witnesses run: one asset, two
  customers, no reserve wallet; a healthy snapshot, then one that finds a shortfall.
\<close>

definition solv_cfg :: solvency_config where
  "solv_cfg = \<lparr>sc_productChainId = 1, sc_environment = ''test'', evidenceStaleAfterSeconds = 300,
     warningReserveRatioBps = 10500, resumeRequestAllowedOperatorRoles = [''risk_manager''],
     resumeApproverAllowedOperatorRoles = [''risk_manager''], resumeApprovalTimelockSeconds = 1,
     infrastructureDisabledReason = None\<rparr>"

definition solv_lib :: solvency_library where
  "solv_lib = \<lparr>hashes = solv_hashes, decimalText = stringify_int, collationKey = (\<lambda>x. x), databaseError = (\<lambda>e. (''DatabaseError'', ''failed''))\<rparr>"

definition solv_signer :: report_signer where
  "solv_signer = \<lparr>signerAddress = ''0xsigner'', signDigest = (\<lambda>x. ''0xsig''), toISOString = stringify_int\<rparr>"

definition solv_actor :: SnapshotActor where
  "solv_actor = \<lparr>sa_actorType = ''worker'', sa_actorId = Some ''w1''\<rparr>"

definition eth_record :: AssetRecord where
  "eth_record = \<lparr>as_id = ''eth'', as_chainId = 1, as_symbol = ''ETH'', as_status = AssetStatus.active,
     as_displayName = ''Ether'', as_decimals = 18, as_assetType = native, as_contractAddress = None\<rparr>"

definition no_tables :: liability_tables where
  "no_tables = \<lparr>lt_ledgerAccounts = [], lt_ledgerPostings = [], lt_customerAssetBalances = [],
     lt_retirementVaults = [], lt_releaseRequests = [], lt_mismatches = []\<rparr>"

definition solv_balances :: liability_tables where
  "solv_balances = no_tables\<lparr>
     lt_ledgerAccounts := [
       \<lparr>la_id = ''a1'', la_ledgerKey = buildCustomerLiabilityLedgerKey ''alice'' ''eth'',
        la_accountType = customer_asset_liability, la_chainId = 1, la_assetId = ''eth'', la_customerAccountId = Some ''alice''\<rparr>,
       \<lparr>la_id = ''a2'', la_ledgerKey = buildCustomerLiabilityLedgerKey ''bob'' ''eth'',
        la_accountType = customer_asset_liability, la_chainId = 1, la_assetId = ''eth'', la_customerAccountId = Some ''bob''\<rparr>],
     lt_ledgerPostings := [
       \<lparr>lp_ledgerJournalId = ''j1'', lp_ledgerAccountId = ''a1'', lp_direction = credit, lp_amount = 100\<rparr>,
       \<lparr>lp_ledgerJournalId = ''j2'', lp_ledgerAccountId = ''a2'', lp_direction = credit, lp_amount = 50\<rparr>],
     lt_customerAssetBalances := [
       ((''alice'', ''eth''), \<lparr>cab_availableBalance = 100, cab_pendingBalance = 0\<rparr>),
       ((''bob'', ''eth''), \<lparr>cab_availableBalance = 50, cab_pendingBalance = 0\<rparr>)]\<rparr>"

definition healthy_reads :: snapshot_reads where
  "healthy_reads = \<lparr>rd_assets = [], rd_wallets = [], rd_tables = no_tables, rd_intents = [], rd_evidence = []\<rparr>"

definition short_reads :: snapshot_reads where
  "short_reads = \<lparr>rd_assets = [eth_record], rd_wallets = [], rd_tables = solv_balances, rd_intents = [], rd_evidence = []\<rparr>"

definition alice_leaf :: LiabilityLeafComputation where
  "alice_leaf = \<lparr>lf_assetId = ''eth'', lf_customerAccountId = ''alice'', lf_availableLiabilityAmount = 100,
     lf_reservedLiabilityAmount = 0, lf_vaultLiabilityAmount = 0, lf_pendingVaultReleaseAmount = 0,
     lf_pendingCreditAmount = 0, lf_totalLiabilityAmount = 100\<rparr>"

definition bob_leaf :: LiabilityLeafComputation where
  "bob_leaf = \<lparr>lf_assetId = ''eth'', lf_customerAccountId = ''bob'', lf_availableLiabilityAmount = 50,
     lf_reservedLiabilityAmount = 0, lf_vaultLiabilityAmount = 0, lf_pendingVaultReleaseAmount = 0,
     lf_pendingCreditAmount = 0, lf_totalLiabilityAmount = 50\<rparr>"

section \<open>The snapshots' numbers\<close>

lemma short_leaves: "rawLeaves 1 solv_balances [eth_record] ''eth'' = [alice_leaf, bob_leaf]"
  by code_simp

definition short_owed :: LiabilityAssetComputation where
  "short_owed = (createZeroLiabilityComputation eth_record)\<lparr>lac_availableLiabilityAmount := 150,
     lac_totalLiabilityAmount := 150, lac_projectionAvailableAmount := 150\<rparr>"

lemma short_liabilities:
  "computeLiabilitiesByAsset 1 solv_balances [eth_record] (listOpenReconciliationMismatchCounts 1 solv_balances) =
     [(''eth'', short_owed)]"
  by code_simp

definition short_proof :: "string \<Rightarrow> LiabilityProofAssetComputation" where
  "short_proof i = (let leaves = orderedLeaves solv_lib i eth_record [alice_leaf, bob_leaf];
       leafHashes = map lv_leafHash leaves in
     \<lparr>lpa_assetId = ''eth'', lpa_liabilityMerkleRoot = buildMerkleRoot (hashes solv_lib) leafHashes,
      lpa_liabilityLeafCount = 2,
      lpa_liabilitySetChecksumSha256 = Some (buildSha256Checksum (hashes solv_lib) (join [CHR 0x0A] leafHashes)),
      lpa_leaves = leaves\<rparr>)"

lemma eth_id: "as_id eth_record = ''eth''"
  by (simp add: eth_record_def)

lemma short_proofs: "computeLiabilityLeavesByAsset 1 solv_lib solv_balances i [eth_record] = [(''eth'', short_proof i)]"
proof -
  have "length (orderedLeaves solv_lib i eth_record [alice_leaf, bob_leaf]) = 2" by (simp add: orderedLeaves_def)
  moreover from this have "orderedLeaves solv_lib i eth_record [alice_leaf, bob_leaf] \<noteq> []" by (metis list.size(3) zero_neq_numeral)
  ultimately show ?thesis
    by (simp add: computeLiabilityLeavesByAsset_def short_proof_def Let_def eth_id short_leaves [unfolded One_nat_def])
qed

definition short_computation :: "string \<Rightarrow> AssetSnapshotComputation" where
  "short_computation i = buildAssetSnapshotComputation solv_cfg eth_record short_owed [] (short_proof i)"

lemma short_computations: "assetComputations solv_cfg solv_lib None short_reads now i = [short_computation i]"
proof -
  have "listActiveAssets solv_cfg short_reads = [eth_record]" "listReserveWallets solv_cfg short_reads = []"
    by (simp_all add: listActiveAssets_def listReserveWallets_def short_reads_def eth_record_def solv_cfg_def)
  moreover have "sc_productChainId solv_cfg = 1" "rd_tables short_reads = solv_balances"
    by (simp_all add: solv_cfg_def short_reads_def)
  ultimately show ?thesis
    by (simp add: assetComputations_def short_liabilities [unfolded One_nat_def] short_proofs [unfolded One_nat_def] short_computation_def lookup_or_def eth_id
        computeReserveEvidenceByAsset_def Let_def)
qed

lemma short_sorted: "sort_key (\<lambda>e. collationKey solv_lib (lf_customerAccountId e)) [alice_leaf, bob_leaf] = [alice_leaf, bob_leaf]"
  by (simp add: solv_lib_def alice_leaf_def bob_leaf_def)

definition leaf_payload :: "string \<Rightarrow> nat \<Rightarrow> LiabilityLeafComputation \<Rightarrow> LiabilityLeafPayload" where
  "leaf_payload i k e = \<lparr>ll_version = 2, ll_snapshotId = i, ll_assetId = ''eth'',
     ll_assetSymbol = ''ETH'', ll_customerAccountId = lf_customerAccountId e, ll_leafIndex = k,
     ll_availableLiabilityAmount = stringify_int (lf_availableLiabilityAmount e),
     ll_reservedLiabilityAmount = stringify_int (lf_reservedLiabilityAmount e),
     ll_vaultLiabilityAmount = stringify_int (lf_vaultLiabilityAmount e),
     ll_pendingVaultReleaseAmount = stringify_int (lf_pendingVaultReleaseAmount e),
     ll_pendingCreditAmount = stringify_int (lf_pendingCreditAmount e),
     ll_totalLiabilityAmount = stringify_int (lf_totalLiabilityAmount e)\<rparr>"

definition leaf_row :: "string \<Rightarrow> nat \<Rightarrow> LiabilityLeafComputation \<Rightarrow> solvency_liability_leaf" where
  "leaf_row i k e = \<lparr>sl_snapshotId = i, sl_assetId = ''eth'', sl_customerAccountId = lf_customerAccountId e,
     sl_leafIndex = k, sl_leafHash = hashLiabilityLeaf (hashes solv_lib) (leaf_payload i k e),
     sl_canonicalPayload = leaf_payload i k e, sl_amounts = e\<rparr>"

lemma short_rows: "liabilityLeafRows i [short_computation i] = [leaf_row i 0 alice_leaf, leaf_row i 1 bob_leaf]"
proof -
  have "decimalText solv_lib = stringify_int" "as_symbol eth_record = ''ETH''" by (simp_all add: solv_lib_def eth_record_def)
  then show ?thesis
    by (simp add: liabilityLeafRows_def short_computation_def buildAssetSnapshotComputation_def Let_def short_proof_def
        orderedLeaves_def short_sorted leaf_row_def leaf_payload_def eth_id del: sort_key_simps)
qed

lemma short_storable: "storable i [short_computation i]"
proof -
  have "list_all fits_asset_row [short_computation i]"
    by (simp add: short_computation_def buildAssetSnapshotComputation_def Let_def fits_asset_row_def short_owed_def
        createZeroLiabilityComputation_def sum_amounts_def fits_decimal_def decimal_limit_def computeReserveRatioBps_def
        round_half_up_def fits_int_def)
  moreover have "fits_summary (buildSnapshotSummary [short_computation i] issues)" for issues
    by (simp add: short_computation_def buildAssetSnapshotComputation_def Let_def fits_summary_def short_owed_def
        createZeroLiabilityComputation_def sum_amounts_def fits_decimal_def decimal_limit_def buildSnapshotSummary_def)
  moreover have "list_all fits_leaf_row (liabilityLeafRows i [short_computation i])"
    by (simp add: short_rows leaf_row_def fits_leaf_row_def alice_leaf_def bob_leaf_def fits_decimal_def decimal_limit_def)
  moreover have "asc_reserveEvidence (short_computation i) = []"
    by (simp add: short_computation_def buildAssetSnapshotComputation_def Let_def)
  ultimately show ?thesis by (simp add: storable_def)
qed

lemma short_critical: "\<exists>x\<in>set (asc_issues (short_computation i)). iss_severity x = SolvencyIssueSeverity.critical"
  by (simp add: short_computation_def buildAssetSnapshotComputation_def Let_def coverageIssues_def short_owed_def sum_amounts_def)

section \<open>The states of the story\<close>

definition state_after :: "'a solvencytx \<Rightarrow> solvency_state \<Rightarrow> solvency_state" where
  "state_after m s = (case m s of Inr (x, t) \<Rightarrow> t | Inl e \<Rightarrow> s)"

definition take_snapshot :: "snapshot_reads \<Rightarrow> solvency_state \<Rightarrow> (error + solvency_policy_state) \<times> solvency_state" where
  "take_snapshot rd s = generateSnapshot solv_cfg solv_lib solv_signer None rd solv_actor s"

definition watched0 :: solvency_state where
  "watched0 = (empty_solvency demo_id 0)\<lparr>so_db := platform0\<rparr>"

definition watched_healthy :: solvency_state where
  "watched_healthy = snd (take_snapshot healthy_reads watched0)"

definition watched_short :: solvency_state where
  "watched_short = snd (take_snapshot short_reads watched_healthy)"

definition healthy_id :: string where "healthy_id = demo_id 0"

definition short_id :: string where
  "short_id = cuid_of (so_db watched_healthy) (cuid_count (so_db watched_healthy))"

abbreviation (input) watched :: "solvency_state \<Rightarrow> bool" where
  "watched s \<equiv> solvency_reachable solv_cfg demo_cfg demo_evm solv_lib s"

lemma watched0_reachable: "watched watched0"
proof (rule solvency_reachable.step [OF solvency_reachable.start [OF inj_demo_id, of _ _ _ _ 0]])
  show "solvency_step solv_cfg demo_cfg demo_evm solv_lib (empty_solvency demo_id 0) watched0"
    unfolding watched0_def
    by (rule meanwhile)
      (simp_all add: elsewhere_step_def platform0_def off_ledger_def same_money_def accounts_wf_def demo_account_def
        no_colon_def empty_db_def empty_solvency_def policy_of_def)
qed

lemma solv_conf: "infrastructureDisabledReason solv_cfg = None"
  by (simp add: solv_cfg_def)

lemma first_report: "no_hash_clash lib payload (solvencyReports watched0)"
  by (simp add: no_hash_clash_def watched0_def empty_solvency_def)

lemma healthy_storable: "storable i []"
  by (simp add: storable_def buildSnapshotSummary_def Let_def fits_summary_def fits_decimal_def decimal_limit_def liabilityLeafRows_def)

lemma healthy_computations: "assetComputations solv_cfg solv_lib None healthy_reads now i = []"
  by (simp add: assetComputations_def listActiveAssets_def healthy_reads_def)

lemma watched_healthy_run:
  "recorded_snapshot solv_cfg solv_lib None healthy_reads watched0 watched_healthy healthy_id \<and> ids_used watched_healthy \<and>
   watched watched_healthy"
proof -
  have ids: "ids_used watched0" "healthy_id = cuid_of (so_db watched0) (cuid_count (so_db watched0))"
    by (simp_all add: ids_used_def watched0_def empty_solvency_def platform0_def empty_db_def inj_demo_id healthy_id_def)
  have fits: "storable healthy_id (assetComputations solv_cfg solv_lib None healthy_reads (now_ms (so_db watched0)) healthy_id)"
    unfolding healthy_computations by (rule healthy_storable)
  obtain p t where run: "take_snapshot healthy_reads watched0 = (Inr p, t)"
    "recorded_snapshot solv_cfg solv_lib None healthy_reads watched0 t healthy_id" "ids_used t" "watched t"
    unfolding take_snapshot_def
    by (rule snapshot_run [OF solv_conf first_report watched0_reachable ids _ fits]) (simp_all add: healthy_reads_def)
  then show ?thesis by (simp add: watched_healthy_def)
qed

lemma second_report: "no_hash_clash (hashes solv_lib)
    (snapshotReport solv_cfg solv_lib solv_signer None short_reads now short_id) (solvencyReports watched_healthy)"
proof -
  obtain rep g c sm pol where rep: "solvencyReports watched_healthy = [rep]"
    "sr_payload (spr_signed rep) = report_object solv_cfg solv_lib healthy_id g c sm [] pol"
    using watched_healthy_run unfolding recorded_snapshot_def Let_def healthy_computations
    by (auto simp: watched0_def empty_solvency_def)
  have h: "hashes solv_lib = solv_hashes" by (simp add: solv_lib_def)
  show ?thesis
    unfolding no_hash_clash_def Let_def rep(1) snapshotReport_def short_computations h
    by (simp only: list.set ball_simps simp_thms rep(2) report_hashes_differ [THEN not_sym])
qed

lemma watched_short_run:
  "(\<exists>p. take_snapshot short_reads watched_healthy = (Inr p, watched_short) \<and> policy_of watched_short = Some p) \<and>
   recorded_snapshot solv_cfg solv_lib None short_reads watched_healthy watched_short short_id \<and> watched watched_short"
proof -
  note before = watched_healthy_run
  have fits: "storable short_id (assetComputations solv_cfg solv_lib None short_reads (now_ms (so_db watched_healthy)) short_id)"
    unfolding short_computations by (rule short_storable)
  obtain p t where run: "take_snapshot short_reads watched_healthy = (Inr p, t)" "policy_of t = Some p"
    "recorded_snapshot solv_cfg solv_lib None short_reads watched_healthy t short_id" "ids_used t" "watched t"
    unfolding take_snapshot_def
    by (rule snapshot_run [OF solv_conf second_report _ _ short_id_def _ fits]) (use before in \<open>auto simp: short_reads_def\<close>)
  then show ?thesis by (simp add: watched_short_def)
qed

lemma watched_short_facts:
  "\<exists>p. policy_of watched_short = Some p \<and> sp_status p = paused \<and> sp_manualResumeRequired p \<and> sp_updatedAt p = 0"
  "\<exists>a b. solvencySnapshots watched_short = [a, b] \<and> sn_id a = healthy_id \<and> sn_environment a = ''test'' \<and>
     sn_status a = SolvencySnapshotStatus.healthy \<and> sn_id b = short_id \<and> sn_environment b = ''test'' \<and>
     sn_status b = SolvencySnapshotStatus.critical"
  "map spr_snapshotId (solvencyReports watched_short) = [healthy_id, short_id]"
  "solvencyLiabilityLeaves watched_short = [leaf_row short_id 0 alice_leaf, leaf_row short_id 1 bob_leaf]"
  "solvencyPolicyResumeRequests watched_short = []" "now_ms (so_db watched_short) = 0"
  "customerAccounts (so_db watched_short) = customerAccounts platform0" "assets (so_db watched_short) = assets platform0"
  "short_id \<noteq> healthy_id"
proof -
  note h = conjunct1 [OF watched_healthy_run, unfolded recorded_snapshot_def Let_def healthy_computations]
  note r = watched_short_run [THEN conjunct2, THEN conjunct1, unfolded recorded_snapshot_def Let_def short_computations]
  have start: "solvencySnapshots watched0 = []" "solvencyReports watched0 = []" "solvencyLiabilityLeaves watched0 = []"
    "policy_of watched0 = None" "solvencyPolicyResumeRequests watched0 = []" "now_ms (so_db watched0) = 0" "so_db watched0 = platform0"
    by (simp_all add: watched0_def empty_solvency_def policy_of_def platform0_def empty_db_def)
  have core: "same_core platform0 (so_db watched_short)"
    using h r start same_core_trans by metis
  then show "now_ms (so_db watched_short) = 0" "customerAccounts (so_db watched_short) = customerAccounts platform0"
    "assets (so_db watched_short) = assets platform0"
    by (simp_all add: same_core_def) (simp add: platform0_def empty_db_def)
  have now: "now_ms (so_db watched_healthy) = 0" using h start by (simp add: same_core_def)
  from h start obtain a ra where a: "solvencySnapshots watched_healthy = [a]" "sn_id a = healthy_id" "sn_environment a = ''test''"
    "sn_status a = SolvencySnapshotStatus.healthy" "solvencyReports watched_healthy = [ra]" "spr_snapshotId ra = healthy_id"
    "solvencyLiabilityLeaves watched_healthy = []" "solvencyPolicyResumeRequests watched_healthy = []"
    by (auto simp: resolveStatusFromIssues_def solv_cfg_def liabilityLeafRows_def)
  have crit: "\<exists>x\<in>set (concat (map asc_issues [short_computation short_id])). iss_severity x = SolvencyIssueSeverity.critical"
    using short_critical by simp
  let ?issues = "concat (map asc_issues [short_computation short_id])"
  from r obtain b rb where b: "solvencySnapshots watched_short = [a] @ [b]" "sn_id b = short_id" "sn_environment b = ''test''"
    "sn_status b = resolveStatusFromIssues ?issues" "solvencyReports watched_short = [ra] @ [rb]" "spr_snapshotId rb = short_id"
    "solvencyLiabilityLeaves watched_short = liabilityLeafRows short_id [short_computation short_id]"
    "solvencyPolicyResumeRequests watched_short = []"
    unfolding a by (auto simp: solv_cfg_def)
  have "resolveStatusFromIssues ?issues = SolvencySnapshotStatus.critical"
    unfolding resolveStatusFromIssues_def using crit by (simp only: if_True)
  with a b show "\<exists>a b. solvencySnapshots watched_short = [a, b] \<and> sn_id a = healthy_id \<and> sn_environment a = ''test'' \<and>
     sn_status a = SolvencySnapshotStatus.healthy \<and> sn_id b = short_id \<and> sn_environment b = ''test'' \<and>
     sn_status b = SolvencySnapshotStatus.critical" by (intro exI [of _ a] exI [of _ b]) simp
  show "map spr_snapshotId (solvencyReports watched_short) = [healthy_id, short_id]" using a b by simp
  show "solvencyLiabilityLeaves watched_short = [leaf_row short_id 0 alice_leaf, leaf_row short_id 1 bob_leaf]"
    unfolding b short_rows ..
  show "solvencyPolicyResumeRequests watched_short = []" by (rule b)
  have inv: "solvency_inv solv_cfg watched_short" using solvency_reachable_inv watched_short_run by blast
  from inv have "distinct (map sn_id (solvencySnapshots watched_short))" by (simp add: solvency_inv_def snapshots_ok_def)
  then show "short_id \<noteq> healthy_id" using a b by auto
  from r obtain e where p: "policy_of watched_short = Some (nextPolicyState (policy_of watched_healthy)
      (effectivePolicyState (policy_of watched_healthy) (derivePolicyState ?issues)) e short_id 0)" unfolding now by blast
  have st: "sp_status (nextPolicyState (policy_of watched_healthy) (effectivePolicyState (policy_of watched_healthy)
      (derivePolicyState ?issues)) e short_id 0) = paused"
    by (rule paused_stays [OF critical_pauses [OF crit] derived_postures(1)])
  obtain q where q: "policy_of watched_short = Some q" "sp_status q = paused" "sp_updatedAt q = 0"
    by (rule that [OF p st]) (simp add: nextPolicyState_def)
  with inv_parts(2) [OF inv q(1)] show "\<exists>p. policy_of watched_short = Some p \<and> sp_status p = paused \<and>
      sp_manualResumeRequired p \<and> sp_updatedAt p = 0"
    by (intro exI [of _ q]) (simp add: policy_ok_def posture_def)
qed

section \<open>A resume\<close>

definition resume_request :: "solvency_policy_resume_request solvencytx" where
  "resume_request = requestPolicyResume solv_cfg healthy_id 0 (Some ''evidence restored'') ''op1'' (Some ''risk_manager'')"

definition watched_asked :: solvency_state where
  "watched_asked = state_after resume_request watched_short"

definition tick :: "int \<Rightarrow> solvency_state \<Rightarrow> solvency_state" where
  "tick ms s = s\<lparr>so_db := (so_db s)\<lparr>now_ms := now_ms (so_db s) + ms\<rparr>\<rparr>"

lemma tick_reachable: "watched s \<Longrightarrow> 0 \<le> ms \<Longrightarrow> watched (tick ms s)"
proof (rule solvency_reachable.step)
  assume s: "watched s" and ms: "0 \<le> ms"
  have "service_inv (so_db s)" using solvency_reachable_inv [OF s] by (simp add: solvency_inv_def)
  then have "accounts_wf (so_db s)" by (simp add: service_inv_def)
  then have "elsewhere_step (so_db s) ((so_db s)\<lparr>now_ms := now_ms (so_db s) + ms\<rparr>)"
    by (simp add: elsewhere_step_def off_ledger_def same_money_def accounts_wf_def)
  then show "solvency_step solv_cfg demo_cfg demo_evm solv_lib s (tick ms s)"
    unfolding tick_def by (rule meanwhile) (use ms in \<open>simp_all add: policy_of_def\<close>)
qed

lemma demo_roles: "assertCanRequestResume solv_cfg (Some ''risk_manager'') s = Inr (''risk_manager'', s)"
  "assertCanApproveResume solv_cfg (Some ''risk_manager'') s = Inr (''risk_manager'', s)"
proof -
  have "toLowerCase (trim ''risk_manager'') = ''risk_manager''" by code_simp
  then show "assertCanRequestResume solv_cfg (Some ''risk_manager'') s = Inr (''risk_manager'', s)"
    "assertCanApproveResume solv_cfg (Some ''risk_manager'') s = Inr (''risk_manager'', s)"
    by (simp_all add: assertCanRequestResume_def assertCanApproveResume_def assertOperatorRoleAuthorized_def
        normalizeOperatorRole_def solv_cfg_def returnT_def)
qed

lemma request_transaction_runs:
  assumes "policy_of s = Some p" "sp_updatedAt p = expected"
    "cuid_of (so_db s) (cuid_count (so_db s)) \<notin> pr_id ` set (solvencyPolicyResumeRequests s)"
  obtains r t where "requestPolicyResume_transaction cfg i expected nt oper role s = Inr (r, t)" "pr_snapshotId r = i"
proof -
  have "returns (auditSolvency actor act tty tid)" for actor act tty tid by (rule returns_audit)
  then have audit: "\<exists>u. auditSolvency actor act tty tid s = Inr ((), u)" for actor act tty tid s by (auto simp: returns_def)
  have "\<exists>r t. requestPolicyResume_transaction cfg i expected nt oper role s = Inr (r, t) \<and> pr_snapshotId r = i"
    using assms audit unfolding requestPolicyResume_transaction_def Let_def
    by (simp add: tx_iff put_Inr cuid_Inr image_iff)
  with that show thesis by blast
qed

lemma tick_sel [simp]:
  "policy_of (tick ms s) = policy_of s" "find_resume_request k (tick ms s) = find_resume_request k s"
  "find_snapshot i (tick ms s) = find_snapshot i s" "report_for i (tick ms s) = report_for i s"
  "now_ms (so_db (tick ms s)) = now_ms (so_db s) + ms"
  by (simp_all add: tick_def policy_of_def find_resume_request_def find_snapshot_def report_for_def)

lemma resume_request_runs:
  "\<exists>r t. resume_request (tick ms watched_short) = Inr (r, t) \<and> find_resume_request (pr_id r) t = Some r \<and>
     pr_status r = pending_approval \<and> pr_requestedByOperatorId r = ''op1'' \<and> pr_snapshotId r = healthy_id \<and>
     pr_expectedPolicyUpdatedAt r = 0 \<and> pr_requestedAt r = ms"
proof -
  let ?s = "tick ms watched_short"
  obtain p where p: "policy_of ?s = Some p" "sp_status p = paused" "sp_manualResumeRequired p" "sp_updatedAt p = 0"
    using watched_short_facts(1) by auto
  then have gate: "getOrCreatePolicyState (so_db ?s) = Inr (p, so_db ?s)"
    by (simp add: getOrCreate_Inr policy_of_def)
  obtain a where snap: "find_snapshot healthy_id ?s = Some a" "sn_id a = healthy_id" "sn_environment a = ''test''"
    "sn_status a = SolvencySnapshotStatus.healthy"
    using watched_short_facts(2) by (auto simp: find_snapshot_def tick_def)
  have "healthy_id \<in> spr_snapshotId ` set (solvencyReports watched_short)"
    using arg_cong [OF watched_short_facts(3), of set] by simp
  then have "report_for healthy_id watched_short \<noteq> None" by (auto simp: report_for_def find_None_iff)
  then obtain rp where rep: "report_for healthy_id ?s = Some rp" by auto
  have env: "sc_environment solv_cfg = ''test''" by (simp add: solv_cfg_def)
  have none: "solvencyPolicyResumeRequests ?s = []" by (simp add: tick_def watched_short_facts(5))
  have run: "resume_request ?s = requestPolicyResume_transaction solv_cfg healthy_id 0
      (normalizeOptionalString (Some ''evidence restored'')) ''op1'' ''risk_manager'' ?s"
    using p gate snap rep by (simp add: resume_request_def requestPolicyResume_def bindT_def inDb_def tx_defs demo_roles
        none env)
  obtain r t where t: "requestPolicyResume_transaction solv_cfg healthy_id 0
      (normalizeOptionalString (Some ''evidence restored'')) ''op1'' ''risk_manager'' ?s = Inr (r, t)"
    "pr_snapshotId r = healthy_id"
    by (rule request_transaction_runs [OF p(1,4)]) (simp add: none)
  from request_transaction_effect [OF t(1)] have
    q: "asked solv_cfg 0 ms ''op1'' [] r" "solvencyPolicyResumeRequests t = [r]"
    by (auto simp: posted_def none watched_short_facts(6))
  with run t show ?thesis by (auto simp: asked_def find_resume_request_def)
qed

lemma watched_asked_run:
  "\<exists>r. resume_request watched_short = Inr (r, watched_asked) \<and> find_resume_request (pr_id r) watched_asked = Some r \<and>
     pr_status r = pending_approval \<and> pr_requestedByOperatorId r = ''op1'' \<and> pr_snapshotId r = healthy_id \<and>
     pr_expectedPolicyUpdatedAt r = 0 \<and> pr_requestedAt r = 0"
proof -
  have "tick 0 watched_short = watched_short" by (simp add: tick_def)
  with resume_request_runs [of 0] show ?thesis by (auto simp: watched_asked_def state_after_def)
qed

lemma watched_asked_reachable: "watched watched_asked"
proof -
  obtain r where "resume_request watched_short = Inr (r, watched_asked)" using watched_asked_run by blast
  from request_resume [OF this [unfolded resume_request_def]] watched_short_run show ?thesis
    by (blast intro: solvency_reachable.step)
qed

text \<open>A second later, another operator approves.\<close>

definition watched_later :: solvency_state where
  "watched_later = tick 1000 watched_asked"

lemma watched_later_reachable: "watched watched_later"
  unfolding watched_later_def by (rule tick_reachable [OF watched_asked_reachable]) simp

lemma approve_transaction_runs:
  assumes "find_resume_request k s = Some r" "pr_status r = pending_approval" "policy_of s = Some p"
    "sp_updatedAt p = pr_expectedPolicyUpdatedAt r" "sp_status p = paused" "find_snapshot i s = Some sn"
    "sn_status sn = SolvencySnapshotStatus.healthy" "report_for i s = Some rep"
    "buildResumeApprovalEligibleAt cfg (pr_requestedAt r) \<le> now_ms (so_db s)"
  obtains q t where "approvePolicyResume_transaction cfg signer k i nt oper role s = Inr (q, t)"
proof -
  have "returns (auditSolvency actor act tty tid)" for actor act tty tid by (rule returns_audit)
  then have audit: "\<exists>u. auditSolvency actor act tty tid s = Inr ((), u)" for actor act tty tid s by (auto simp: returns_def)
  have ids: "pr_id r = k" "sn_id sn = i"
    using assms(1,6) unfolding find_resume_request_def find_snapshot_def by (blast dest: find_key_Some)+
  have "\<exists>q t. approvePolicyResume_transaction cfg signer k i nt oper role s = Inr (q, t)"
    using assms audit unfolding approvePolicyResume_transaction_def resumeRequest_update_def
    by (simp add: tx_iff put_Inr ids)
  with that show thesis by blast
qed

lemma watched_approval:
  "\<exists>k q t. approvePolicyResume solv_cfg solv_signer k None ''op2'' (Some ''risk_manager'') watched_later = Inr (q, t) \<and>
     (\<exists>p. policy_of watched_later = Some p \<and> sp_status p = paused) \<and> (\<exists>p. policy_of t = Some p \<and> sp_status p = normal)"
proof -
  obtain r where asked: "resume_request watched_short = Inr (r, watched_asked)" and
    r: "find_resume_request (pr_id r) watched_asked = Some r"
     "pr_status r = pending_approval" "pr_requestedByOperatorId r = ''op1''" "pr_snapshotId r = healthy_id"
     "pr_expectedPolicyUpdatedAt r = 0" "pr_requestedAt r = 0" using watched_asked_run by blast
  obtain p0 d where g: "getOrCreatePolicyState (so_db watched_short) = Inr (p0, d)" "sp_status p0 = paused"
    and posted: "posted (watched_short\<lparr>so_db := d\<rparr>) watched_asked (p0\<lparr>sp_manualResumeRequestedAt :=
      Some (now_ms (so_db watched_short)), sp_updatedAt := now_ms (so_db watched_short)\<rparr>)
      (solvencyPolicyResumeRequests watched_short @ [r])"
    and same: "solvencySnapshots watched_asked = solvencySnapshots watched_short" "solvencyReports watched_asked = solvencyReports watched_short"
    by (rule request_effect [OF asked [unfolded resume_request_def]], rule that) assumption+
  have "now_ms d = now_ms (so_db watched_short)" using g(1) by (auto simp: getOrCreate_Inr split: option.splits)
  with posted g(2) have p0: "policy_of watched_asked = Some (p0\<lparr>sp_manualResumeRequestedAt :=
      Some (now_ms (so_db watched_short)), sp_updatedAt := now_ms (so_db watched_short)\<rparr>)" "sp_status p0 = paused"
    "now_ms (so_db watched_asked) = now_ms (so_db watched_short)"
    by (simp_all add: posted_def same_core_def)
  obtain p where p: "policy_of watched_asked = Some p" "sp_status p = paused" "sp_updatedAt p = 0"
    by (rule that [OF p0(1)]) (simp_all add: p0(2) watched_short_facts(6))
  obtain a where snap: "find_snapshot healthy_id watched_asked = Some a" "sn_status a = SolvencySnapshotStatus.healthy"
    using watched_short_facts(2) by (auto simp: find_snapshot_def same)
  have "healthy_id \<in> spr_snapshotId ` set (solvencyReports watched_asked)"
    using arg_cong [OF watched_short_facts(3), of set] by (simp add: same)
  then have "report_for healthy_id watched_asked \<noteq> None" by (auto simp: report_for_def find_None_iff)
  then obtain rp where rep: "report_for healthy_id watched_asked = Some rp" by blast
  have timelock: "buildResumeApprovalEligibleAt solv_cfg 0 = 1000"
    unfolding buildResumeApprovalEligibleAt_def solv_cfg_def by simp
  obtain q t where tx: "approvePolicyResume_transaction solv_cfg solv_signer (pr_id r) healthy_id None ''op2'' ''risk_manager''
      watched_later = Inr (q, t)"
    by (rule approve_transaction_runs [of "pr_id r" watched_later r p healthy_id a rp solv_cfg])
      (simp_all add: watched_later_def r p snap rep p0(3) watched_short_facts(6) timelock)
  have "approvePolicyResume solv_cfg solv_signer (pr_id r) None ''op2'' (Some ''risk_manager'') watched_later = Inr (q, t)"
    using tx r by (simp add: approvePolicyResume_def bindT_def tx_defs demo_roles watched_later_def normalizeOptionalString_def
        trim_opt_def)
  moreover have "\<exists>p. policy_of t = Some p \<and> sp_status p = normal"
    by (rule approve_transaction_effect [OF tx]) (simp add: posted_def resumedPolicy_def)
  moreover have "\<exists>p. policy_of watched_later = Some p \<and> sp_status p = paused" using p by (simp add: watched_later_def)
  ultimately show ?thesis by blast
qed

section \<open>A proof on request\<close>

lemma short_id_nonempty: "short_id \<noteq> []"
proof -
  have "same_core platform0 (so_db watched_healthy)"
    using watched_healthy_run by (simp add: recorded_snapshot_def Let_def watched0_def)
  then have "cuid_of (so_db watched_healthy) = demo_id"
    by (simp add: same_core_def off_ledger_def platform0_def empty_db_def)
  then show ?thesis by (simp add: short_id_def demo_id_def)
qed

lemma proof_request_runs:
  "\<exists>res. getCustomerLiabilityInclusionProof solv_cfg solv_lib ''u-alice'' (Some short_id) watched_short = Inr (res, watched_short) \<and>
     sn_id (ic_snapshot res) = short_id \<and> ic_customerAccountId res = ''alice''"
proof -
  have env: "sc_environment solv_cfg = ''test''" by (simp add: solv_cfg_def)
  have account: "find (\<lambda>c. ca_supabaseUserId c = ''u-alice'') (customerAccounts (so_db watched_short)) = Some (demo_account ''alice'')"
    by (simp add: watched_short_facts(7) platform0_def demo_account_def)
  obtain b where b: "proof_snapshot solv_cfg (Some short_id) watched_short = Some b" "sn_id b = short_id"
    using watched_short_facts(2,9) by (auto simp: proof_snapshot_def env short_id_nonempty)
  have "short_id \<in> spr_snapshotId ` set (solvencyReports watched_short)"
    using arg_cong [OF watched_short_facts(3), of set] by simp
  then have "report_for short_id watched_short \<noteq> None" by (auto simp: report_for_def find_None_iff)
  then obtain rp where rep: "report_for short_id watched_short = Some rp" by blast
  have leaves: "customerLeaves watched_short short_id ''alice'' = [leaf_row short_id 0 alice_leaf]"
    by (simp add: customerLeaves_def watched_short_facts(4) leaf_row_def alice_leaf_def bob_leaf_def)
  have hashes: "allLeafHashes watched_short short_id ''eth'' =
      [hashLiabilityLeaf (hashes solv_lib) (leaf_payload short_id 0 alice_leaf),
       hashLiabilityLeaf (hashes solv_lib) (leaf_payload short_id 1 bob_leaf)]"
    by (simp add: allLeafHashes_def leaf_rows_def watched_short_facts(4) leaf_row_def)
  have pair: "hashMerklePair (hashes solv_lib) x y \<noteq> []" for x y by (simp add: hashMerklePair_def solv_lib_def solv_hashes_def hash_text_def)
  have "\<exists>p. inclusionProof solv_lib (leaf_row short_id 0 alice_leaf) watched_short = Inr (p, watched_short)"
    by (simp add: inclusion_run watched_short_facts(8) platform0_def leaf_row_def hashes buildMerkleRoot_def
        merkle_levels.simps pair)
  then obtain p where "inclusionProof solv_lib (leaf_row short_id 0 alice_leaf) watched_short = Inr (p, watched_short)" ..
  then have "mapT (inclusionProof solv_lib) (customerLeaves watched_short short_id ''alice'') watched_short = Inr ([p], watched_short)"
    by (simp add: leaves bindT_def returnT_def)
  moreover have "ca_id (demo_account ''alice'') = ''alice''" by (simp add: demo_account_def)
  ultimately show ?thesis
    using account b rep by (simp add: getCustomerLiabilityInclusionProof_def bindT_def tx_defs)
qed

lemma reported_demo_root:
  assumes "rep \<in> set (solvencyReports watched_short)" "spr_snapshotId rep = short_id"
  obtains root where "reported_root (sr_payload (spr_signed rep)) ''eth'' = Some (JString root)"
proof -
  have ok: "archive_ok solv_lib watched_short" using solvency_reachable_archive watched_short_run by blast
  let ?rows = "leaf_rows short_id ''eth'' (solvencyLiabilityLeaves watched_short)"
  have l: "leaf_row short_id 0 alice_leaf \<in> set (solvencyLiabilityLeaves watched_short)"
    "sl_assetId (leaf_row short_id 0 alice_leaf) = ''eth''" "sl_snapshotId (leaf_row short_id 0 alice_leaf) = short_id"
    by (simp_all add: watched_short_facts(4) leaf_row_def)
  then have "?rows \<noteq> []" by (auto simp: leaf_rows_def filter_empty_conv)
  then obtain root where "buildMerkleRoot (hashes solv_lib) (map sl_leafHash ?rows) = Some root"
    using proof_leads_to_root [of 0 "map sl_leafHash ?rows" "hashes solv_lib"] by auto
  moreover have "reported_root (sr_payload (spr_signed rep)) ''eth'' =
      Some (nullable JString (buildMerkleRoot (hashes solv_lib) (map sl_leafHash ?rows)))"
    using ok assms l unfolding archive_ok_def published_def by metis
  ultimately show thesis by (intro that [of root]) (simp add: nullable_def)
qed

lemma demo_apart:
  "demo_keccak (leaf_message (leaf_payload i 0 alice_leaf)) \<noteq> demo_keccak (leaf_message (leaf_payload i 1 bob_leaf))"
  "length m = 64 \<Longrightarrow> demo_keccak (leaf_message (leaf_payload i 0 alice_leaf)) \<noteq> demo_keccak m"
  "length m = 64 \<Longrightarrow> demo_keccak (leaf_message (leaf_payload i 1 bob_leaf)) \<noteq> demo_keccak m"
  using leaf_digests [of "leaf_payload i 0 alice_leaf" "leaf_payload i 1 bob_leaf"]
  by (simp_all add: leaf_payload_def alice_leaf_def bob_leaf_def)

section \<open>A request a moment too late\<close>

definition watched_late :: solvency_state where
  "watched_late = state_after resume_request (tick 5 watched_short)"

lemma watched_late_run:
  "\<exists>r. find_resume_request (pr_id r) watched_late = Some r \<and> pr_status r = pending_approval \<and>
     pr_requestedByOperatorId r = ''op1'' \<and> pr_expectedPolicyUpdatedAt r < pr_requestedAt r \<and> watched watched_late"
proof -
  obtain r where run: "resume_request (tick 5 watched_short) = Inr (r, watched_late)"
    and r: "find_resume_request (pr_id r) watched_late = Some r" "pr_status r = pending_approval"
      "pr_requestedByOperatorId r = ''op1''" "pr_expectedPolicyUpdatedAt r = 0" "pr_requestedAt r = 5"
    using resume_request_runs [of 5] by (auto simp: watched_late_def state_after_def)
  have "watched (tick 5 watched_short)" by (rule tick_reachable) (use watched_short_run in auto)
  then have "watched watched_late"
    by (rule solvency_reachable.step) (rule request_resume [OF run [unfolded resume_request_def]])
  with r show ?thesis by (intro exI [of _ r]) simp
qed

section \<open>Reserves far above the liabilities\<close>

definition rich_wallet :: reserve_wallet where
  "rich_wallet = \<lparr>wa_id = ''treasury'', wa_customerAccountId = None, wa_chainId = 1, wa_address = ''0xtreasury'',
     wa_status = WalletStatus.active, wa_kind = treasury, wa_custodyType = multisig_controlled\<rparr>"

definition rich_provider :: rpc_provider where
  "rich_provider = \<lparr>getBalance = (\<lambda>a. Inr (10 ^ 18)), balanceOf = (\<lambda>a b. Inr 0)\<rparr>"

definition rich_reads :: snapshot_reads where
  "rich_reads = short_reads\<lparr>rd_wallets := [rich_wallet]\<rparr>"

lemma rich_amounts: "owed solv_cfg rich_reads eth_record = 150"
  "usable_reserves solv_cfg (Some rich_provider) rich_reads eth_record = 10 ^ 18"
proof -
  have "owed solv_cfg short_reads eth_record = 150" by code_simp
  then show "owed solv_cfg rich_reads eth_record = 150" by (simp add: owed_def rich_reads_def)
  show "usable_reserves solv_cfg (Some rich_provider) rich_reads eth_record = 10 ^ 18"
    by (simp add: usable_reserves_def listReserveWallets_def rich_reads_def rich_wallet_def solv_cfg_def RESERVE_WALLET_KINDS_def
        usable_balance_def readWalletAssetBalance_def eth_record_def rich_provider_def formatUnits_def promised_def short_reads_def)
qed

end
