(* ===== verification/Liability_Demo.thy ===== *)
theory Liability_Demo
  imports Liability_Leaves
begin

text \<open>Books in which part of a customer's balance is held for an internal transfer under review.\<close>

definition transfer_hold :: SettleConfirmedDepositParams where
  "transfer_hold = demo_deposit\<lparr>p_transactionIntentId := ''t1'', p_amount := 30\<rparr>"

definition held_books :: db where
  "held_books = commit (run_ledger_op (ReserveTransfer transfer_hold)) demo1"

definition held_asset :: AssetRecord where
  "held_asset = \<lparr>as_id = ''eth'', as_chainId = 1, as_symbol = ''ETH'', as_status = AssetStatus.active,
     as_displayName = ''Ether'', as_decimals = 18, as_assetType = native, as_contractAddress = None\<rparr>"

definition held_accounts :: "ledger_account list" where
  "held_accounts = [
     \<lparr>la_id = demo_gen 0, la_ledgerKey = ''asset_inbound_clearing:1:eth'', la_accountType = asset_inbound_clearing,
      la_chainId = 1, la_assetId = ''eth'', la_customerAccountId = None\<rparr>,
     \<lparr>la_id = demo_gen 1, la_ledgerKey = ''customer_asset_liability:alice:eth'', la_accountType = customer_asset_liability,
      la_chainId = 1, la_assetId = ''eth'', la_customerAccountId = Some ''alice''\<rparr>,
     \<lparr>la_id = demo_gen 3, la_ledgerKey = ''customer_asset_pending_internal_transfer_liability:alice:eth'',
      la_accountType = customer_asset_pending_internal_transfer_liability, la_chainId = 1, la_assetId = ''eth'',
      la_customerAccountId = Some ''alice''\<rparr>]"

definition held_postings :: "ledger_posting list" where
  "held_postings =
     [\<lparr>lp_ledgerJournalId = demo_gen 2, lp_ledgerAccountId = demo_gen 0, lp_direction = debit, lp_amount = 100\<rparr>,
      \<lparr>lp_ledgerJournalId = demo_gen 2, lp_ledgerAccountId = demo_gen 1, lp_direction = credit, lp_amount = 100\<rparr>,
      \<lparr>lp_ledgerJournalId = demo_gen 4, lp_ledgerAccountId = demo_gen 1, lp_direction = debit, lp_amount = 30\<rparr>,
      \<lparr>lp_ledgerJournalId = demo_gen 4, lp_ledgerAccountId = demo_gen 3, lp_direction = credit, lp_amount = 30\<rparr>]"

definition held_tables :: liability_tables where
  "held_tables = \<lparr>lt_ledgerAccounts = held_accounts, lt_ledgerPostings = held_postings,
     lt_customerAssetBalances = [((''alice'', ''eth''), \<lparr>cab_availableBalance = 70, cab_pendingBalance = 30\<rparr>)],
     lt_retirementVaults = [], lt_releaseRequests = [], lt_mismatches = []\<rparr>"

lemma held_run: "run_ledger_op (ReserveTransfer transfer_hold) demo1 = Inr ((), held_books)"
  by (simp add: held_books_def commit_def demo1_value reserveInternalBalanceTransferBalance_def demo_deposit_def
      transfer_hold_def ledger_eval)

lemma held_value:
  "ledgerAccounts held_books = map_of (map (\<lambda>a. (la_ledgerKey a, a)) held_accounts)"
  "ledgerPostings held_books = held_postings"
  "customerAssetBalances held_books = map_of (lt_customerAssetBalances held_tables)"
  "retirementVaults held_books = Map.empty"
  by (simp_all add: held_books_def commit_def demo1_value reserveInternalBalanceTransferBalance_def demo_deposit_def
      transfer_hold_def ledger_eval held_accounts_def held_postings_def held_tables_def numeral_2_eq_2 fun_eq_iff)

lemma held_reachable: "books_reachable 1 held_books"
proof (rule books_reachable.step [OF books_reachable.step [OF books_reachable.start [OF inj_demo_gen]]])
  show "book_step 1 (empty_db demo_gen 0) demo1"
    using demo1_run unfolding demo0_def
    by (rule book_step.operation [rotated 2]) (simp_all add: demo_deposit_def no_colon_def)
  show "book_step 1 demo1 held_books"
    using held_run by (rule book_step.operation [rotated 2]) (simp_all add: transfer_hold_def demo_deposit_def no_colon_def)
qed

lemma held_lists: "lists_tables held_tables held_books"
proof -
  have dist: "distinct (map la_ledgerKey held_accounts)" by (simp add: held_accounts_def)
  have "ledgerAccounts held_books k = Some a \<longleftrightarrow> a \<in> set held_accounts \<and> la_ledgerKey a = k" for k a
    unfolding held_value using dist by (subst map_of_eq_Some_iff) (auto simp: comp_def)
  then show ?thesis
    using dist by (simp add: lists_tables_def held_value held_tables_def)
qed

lemma held_amount: "net_of 1 held_tables customer_asset_pending_internal_transfer_liability ''eth'' = 30"
  by code_simp

lemma held_leaves: "map lf_totalLiabilityAmount (rawLeaves 1 held_tables [held_asset] ''eth'') = [100]"
  by code_simp

end
