(* ===== verification/Solvency_Properties.thy ===== *)
theory Solvency_Properties
  imports Solvency_Demo Liability_Demo
begin

text \<open>
  What the solvency controls guarantee: the text a report is hashed as, the inclusion proofs
  customers check, the leaves they are built over, when the controls close and what opens them.
\<close>

section \<open>Reports and proofs\<close>

lemma list_all2_sources: "list_all2 P xs ys \<Longrightarrow> y \<in> set ys \<Longrightarrow> \<exists>x\<in>set xs. P x y"
  by (induction rule: list_all2_induct) auto

text \<open>
  C27. The text of a signed value does not depend on the order its fields were written in, and it
  determines the value: two values have the same text exactly when they agree once their fields
  are put in key order, at every depth.
\<close>

theorem canonical_text_faithful:
  "(same_json v w \<longrightarrow> stableStringify v = stableStringify w) \<and>
   (stableStringify v = stableStringify w \<longleftrightarrow> canon v = canon w)"
  by (metis same_json_canon stableStringify_canon_inject stableStringify_print)

theorem canonical_text_faithful_witness:
  "stableStringify (JObject [(''b'', JNumber 1), (''a'', JBool True)]) =
     stableStringify (JObject [(''a'', JBool True), (''b'', JNumber 1)])"
proof -
  have "same_json (JObject [(''b'', JNumber 1), (''a'', JBool True)]) (JObject [(''a'', JBool True), (''b'', JNumber 1)])"
    by (rule objects [where gs = "[(''b'', JNumber 1), (''a'', JBool True)]"]) (auto intro: same)
  with canonical_text_faithful show ?thesis by blast
qed

text \<open>
  C28. Every inclusion proof a customer is given checks out in the browser: for each of the leaves
  stored for the customer in the snapshot there is one proof, its leaf hash and its root are the ones
  the browser computes, the payload names that customer, and the root is the one the report lists
  for the asset, a report whose hash is that of its canonical text. The request changes nothing.
\<close>

theorem inclusion_proofs_verify:
  assumes "solvency_reachable cfg svc evm lib s"
    and "getCustomerLiabilityInclusionProof cfg lib user snapshotId s = Inr (res, t)"
  shows "t = s \<and>
    map ip_payload (ic_proofs res) =
      map sl_canonicalPayload (customerLeaves s (sn_id (ic_snapshot res)) (ic_customerAccountId res)) \<and>
    sr_reportHash (spr_signed (ic_report res)) =
      keccakText (hashes lib) (stableStringify (sr_payload (spr_signed (ic_report res)))) \<and>
    (\<forall>p\<in>set (ic_proofs res).
       isLeafHashValid (verifyLiabilityProof (hashes lib) (browser_input p)) \<and>
       isRootValid (verifyLiabilityProof (hashes lib) (browser_input p)) \<and>
       ll_customerAccountId (ip_payload p) = ic_customerAccountId res \<and>
       reported_root (sr_payload (spr_signed (ic_report res))) (as_id (ip_asset p)) = Some (JString (ip_rootHash p)))"
proof -
  have ok: "archive_ok lib s" by (rule solvency_reachable_archive [OF assms(1)])
  have rep: "report_for (sn_id (ic_snapshot res)) s = Some (ic_report res)"
    and run: "mapT (inclusionProof lib) (customerLeaves s (sn_id (ic_snapshot res)) (ic_customerAccountId res)) s = Inr (ic_proofs res, t)"
    using assms(2) by (auto simp: getCustomerLiabilityInclusionProof_def tx_iff)
  let ?leaves = "customerLeaves s (sn_id (ic_snapshot res)) (ic_customerAccountId res)"
  let ?report = "spr_signed (ic_report res)"
  have t: "t = s" and each: "list_all2 (\<lambda>x y. inclusionProof lib x s = Inr (y, s)) ?leaves (ic_proofs res)"
    using mapT_reads [OF run] by (auto simp: inclusion_run)
  have payloads: "map ip_payload (ic_proofs res) = map sl_canonicalPayload ?leaves"
    using each by (induction rule: list_all2_induct) (auto simp: inclusion_run)
  have r: "ic_report res \<in> set (solvencyReports s)" "spr_snapshotId (ic_report res) = sn_id (ic_snapshot res)"
    using rep by (auto simp: report_for_def dest: find_SomeD)
  with ok have hash: "sr_reportHash ?report = keccakText (hashes lib) (stableStringify (sr_payload ?report))"
    by (auto simp: archive_ok_def published_def)
  have checked: "isLeafHashValid (verifyLiabilityProof (hashes lib) (browser_input p)) \<and>
      isRootValid (verifyLiabilityProof (hashes lib) (browser_input p)) \<and>
      ll_customerAccountId (ip_payload p) = ic_customerAccountId res \<and>
      reported_root (sr_payload ?report) (as_id (ip_asset p)) = Some (JString (ip_rootHash p))"
    if p: "p \<in> set (ic_proofs res)" for p
  proof -
    from list_all2_sources [OF each p] obtain leaf where leaf: "leaf \<in> set ?leaves" "inclusionProof lib leaf s = Inr (p, s)" by blast
    then have l: "leaf \<in> set (solvencyLiabilityLeaves s)" "sl_snapshotId leaf = sn_id (ic_snapshot res)"
      "sl_customerAccountId leaf = ic_customerAccountId res" by (auto simp: customerLeaves_def)
    have a: "as_id (ip_asset p) = sl_assetId leaf" using leaf(2) by (auto simp: inclusion_run dest: find_SomeD)
    note v = stored_leaf_verifies [OF ok l(1) leaf(2)]
    have "reported_root (sr_payload ?report) (sl_assetId leaf) = Some (JString (ip_rootHash p))"
      using ok r l v(3) unfolding archive_ok_def published_def by (auto simp: nullable_def)
    with v l a show ?thesis by simp
  qed
  show ?thesis using t payloads hash checked by simp
qed

theorem inclusion_proofs_verify_witness:
  "\<exists>res p. getCustomerLiabilityInclusionProof solv_cfg solv_lib ''u-alice'' (Some short_id) watched_short = Inr (res, watched_short) \<and>
     ic_proofs res = [p] \<and> ll_totalLiabilityAmount (ip_payload p) = stringify_int 100 \<and>
     isRootValid (verifyLiabilityProof (hashes solv_lib) (browser_input p))"
proof -
  obtain res where run: "getCustomerLiabilityInclusionProof solv_cfg solv_lib ''u-alice'' (Some short_id) watched_short =
      Inr (res, watched_short)" and res: "sn_id (ic_snapshot res) = short_id" "ic_customerAccountId res = ''alice''"
    using proof_request_runs by blast
  note ok = inclusion_proofs_verify [OF _ run, OF watched_short_run [THEN conjunct2, THEN conjunct2]]
  have "customerLeaves watched_short short_id ''alice'' = [leaf_row short_id 0 alice_leaf]"
    by (simp add: customerLeaves_def watched_short_facts(4) leaf_row_def alice_leaf_def bob_leaf_def)
  then have "map ip_payload (ic_proofs res) = [leaf_payload short_id 0 alice_leaf]"
    using ok by (simp add: res leaf_row_def)
  then obtain p where "ic_proofs res = [p]" "ip_payload p = leaf_payload short_id 0 alice_leaf" by auto
  with ok run show ?thesis by (auto simp: leaf_payload_def alice_leaf_def)
qed

text \<open>
  C29. No other payload passes: when the browser accepts a proof against the root a report lists
  for an asset, whatever index and path the proof names, its payload is one of the leaves stored for
  that asset in the snapshot of the report, or two different messages, one hashed when the tree over
  these leaves was built and one hashed in the check, have the same Keccak-256. The path is of
  32-byte hashes in any case of their digits, as ethers refuses to pack anything else.
\<close>

theorem accepted_proofs_are_recorded:
  assumes "ethers_hashes (hashes lib) keccak" and "list_all bytes32 (pi_proof input)"
    and "solvency_reachable cfg svc evm lib s" "rep \<in> set (solvencyReports s)"
    and "reported_root (sr_payload (spr_signed rep)) assetId = Some (JString (pi_rootHash input))"
    and "isRootValid (verifyLiabilityProof (hashes lib) input)"
  shows "let rows = leaf_rows (spr_snapshotId rep) assetId (solvencyLiabilityLeaves s) in
    pi_payload input \<in> sl_canonicalPayload ` set rows \<or>
    collides keccak (built_messages (hashes lib) rows) (checked_messages (hashes lib) input)"
proof -
  let ?h = "hashes lib"
  let ?rows = "leaf_rows (spr_snapshotId rep) assetId (solvencyLiabilityLeaves s)"
  let ?ps = "map sl_canonicalPayload ?rows"
  have root: "buildMerkleRoot ?h (map sl_leafHash ?rows) = Some (pi_rootHash input)"
    using solvency_reachable_roots [OF assms(3)] assms(4,5) by (simp add: roots_ok_def)
  then have some: "?ps \<noteq> []" by (auto simp: buildMerkleRoot_def)
  have wi: "well_indexed ?h ?rows" using solvency_reachable_archive [OF assms(3)] by (simp add: archive_ok_def)
  have level: "map sl_leafHash ?rows = map (hashLiabilityLeaf ?h) ?ps"
    by (rule nth_equalityI) (use wi in \<open>auto simp: well_indexed_def\<close>)
  have "pi_rootHash input = climb ?h (hashLiabilityLeaf ?h (pi_payload input)) (pi_leafIndex input) (pi_proof input)"
    by (rule accepted_root [OF assms(1,2) root [unfolded level] assms(6)])
  with root have top: "buildMerkleRoot ?h (map (hashLiabilityLeaf ?h) ?ps) =
      Some (climb ?h (hashLiabilityLeaf ?h (pi_payload input)) (pi_leafIndex input) (pi_proof input))" by (simp only: level)
  have "pi_payload input \<in> set ?ps" if "\<not> collides keccak (built_messages ?h ?rows) (checked_messages ?h input)"
    by (rule leaves_only [OF assms(1,2) some top]) (use that in \<open>simp only: built_messages_def checked_messages_def level simp_thms\<close>)
  then show ?thesis by (auto simp: Let_def)
qed

text \<open>The proof of Alice's leaf, on the digest of the demonstration.\<close>

definition alice_proof :: LiabilityProofInput where
  "alice_proof = (let h = (\<lambda>k e. hashLiabilityLeaf solv_hashes (leaf_payload short_id k e)) in
     \<lparr>pi_payload = leaf_payload short_id 0 alice_leaf, pi_leafHash = h 0 alice_leaf,
      pi_rootHash = hashMerklePair solv_hashes (h 0 alice_leaf) (h 1 bob_leaf), pi_proof = [h 1 bob_leaf], pi_leafIndex = 0\<rparr>)"

theorem accepted_proofs_are_recorded_witness:
  "\<exists>rep\<in>set (solvencyReports watched_short).
     reported_root (sr_payload (spr_signed rep)) ''eth'' = Some (JString (pi_rootHash alice_proof)) \<and>
     pi_payload alice_proof \<in> sl_canonicalPayload ` set (leaf_rows (spr_snapshotId rep) ''eth'' (solvencyLiabilityLeaves watched_short)) \<and>
     \<not> collides demo_keccak (built_messages solv_hashes (leaf_rows (spr_snapshotId rep) ''eth'' (solvencyLiabilityLeaves watched_short)))
       (checked_messages solv_hashes alice_proof)"
proof -
  note reach = watched_short_run [THEN conjunct2, THEN conjunct2]
  obtain rep where rep: "rep \<in> set (solvencyReports watched_short)" "spr_snapshotId rep = short_id"
  proof -
    have "short_id \<in> spr_snapshotId ` set (solvencyReports watched_short)"
      using arg_cong [OF watched_short_facts(3), of set] by simp
    then obtain x where "short_id = spr_snapshotId x" "x \<in> set (solvencyReports watched_short)" by (rule imageE)
    from that [OF this(2) this(1) [symmetric]] show ?thesis .
  qed
  let ?rows = "leaf_rows short_id ''eth'' (solvencyLiabilityLeaves watched_short)"
  have rows: "?rows = [leaf_row short_id 0 alice_leaf, leaf_row short_id 1 bob_leaf]"
    by (simp add: leaf_rows_def watched_short_facts(4) leaf_row_def)
  have h: "hashes solv_lib = solv_hashes" by (simp add: solv_lib_def)
  let ?a = "leaf_payload short_id 0 alice_leaf" and ?b = "leaf_payload short_id 1 bob_leaf"
  let ?ha = "hashLiabilityLeaf solv_hashes ?a" and ?hb = "hashLiabilityLeaf solv_hashes ?b"
  have leaves: "map sl_leafHash ?rows = [?ha, ?hb]" by (simp add: rows leaf_row_def h)
  then have tree: "buildMerkleRoot solv_hashes (map sl_leafHash ?rows) = Some (pi_rootHash alice_proof)"
    by (simp add: buildMerkleRoot_def merkle_levels.simps alice_proof_def Let_def)
  obtain root where root: "reported_root (sr_payload (spr_signed rep)) ''eth'' = Some (JString root)"
    by (rule reported_demo_root [OF rep])
  with solvency_reachable_roots [OF reach] rep tree have "root = pi_rootHash alice_proof"
    by (auto simp: roots_ok_def h)
  note root = root [unfolded this]
  have proof32: "list_all bytes32 (pi_proof alice_proof)"
    using ethersD(2,3) [OF solv_hashes_good] by (simp add: alice_proof_def Let_def hashLiabilityLeaf_def)
  have valid: "isRootValid (verifyLiabilityProof solv_hashes alice_proof)"
    by (simp add: alice_proof_def Let_def verifyLiabilityProof_def)
  have free: "\<not> collides demo_keccak (built_messages solv_hashes ?rows) (checked_messages solv_hashes alice_proof)"
  proof -
    have "length (solidityPack ?ha ?hb) = 64"
      using ethersD(2,3) [OF solv_hashes_good] by (intro length_pack) (simp_all add: hashLiabilityLeaf_def)
    note apart = demo_apart(1) [where i = short_id] demo_apart(2,3) [where i = short_id, OF this]
    have "built_messages solv_hashes ?rows = [leaf_message ?a, leaf_message ?b, solidityPack ?ha ?hb]"
      unfolding built_messages_def leaves by (simp add: rows leaf_row_def tree_messages.simps)
    moreover have "checked_messages solv_hashes alice_proof = [leaf_message ?a, solidityPack ?ha ?hb]"
      by (simp add: checked_messages_def alice_proof_def Let_def)
    ultimately show ?thesis using apart by (auto simp: collides_def)
  qed
  from accepted_proofs_are_recorded [OF solv_hashes_good [folded h] proof32 reach rep(1) root valid [folded h]]
  show ?thesis
    using rep root free by (intro bexI [OF _ rep(1)]) (simp add: Let_def h)
qed

text \<open>
  C30. Building a tree ends in a single root, and the proof of a leaf is as long as the tree is
  high, whichever leaf it is for: doubling once per hash of the proof reaches the number of leaves,
  and with one hash less it would not.
\<close>

theorem merkle_proof_length:
  assumes "i < length leafHashes"
  shows "(\<exists>root. merkle_levels lib leafHashes = [root]) \<and>
    length leafHashes \<le> 2 ^ length (buildMerkleProof lib leafHashes (int i)) \<and>
    (buildMerkleProof lib leafHashes (int i) \<noteq> [] \<longrightarrow>
       2 ^ (length (buildMerkleProof lib leafHashes (int i)) - 1) < length leafHashes)"
proof -
  have "leafHashes \<noteq> []" using assms by auto
  with path_length [OF this, of lib i] levels_climb [OF assms, of lib] assms show ?thesis
    by (simp add: buildMerkleProof_def)
qed

theorem merkle_proof_length_witness:
  "length (buildMerkleProof (hashes solv_lib) [''a'', ''b'', ''c'', ''d'', ''e''] 4) = 3"
proof -
  let ?p = "buildMerkleProof (hashes solv_lib) [''a'', ''b'', ''c'', ''d'', ''e''] 4"
  have five: "length [''a'', ''b'', ''c'', ''d'', ''e''] = 5" by simp
  have "5 \<le> (2 :: nat) ^ length ?p \<and> (?p \<noteq> [] \<longrightarrow> (2 :: nat) ^ (length ?p - 1) < 5)"
    using merkle_proof_length [of 4 "[''a'', ''b'', ''c'', ''d'', ''e'']" "hashes solv_lib", unfolded five] by simp
  then have lo: "5 \<le> (2 :: nat) ^ length ?p" and hi: "?p \<noteq> [] \<longrightarrow> (2 :: nat) ^ (length ?p - 1) < 5" by blast+
  have "length ?p \<noteq> n" if "n < 3" for n
  proof
    assume "length ?p = n"
    with lo have "5 \<le> (2 :: nat) ^ n" by simp
    also have "(2 :: nat) ^ n \<le> 2 ^ 2" using that by (intro power_increasing) simp_all
    finally show False by simp
  qed
  moreover have "length ?p \<le> 3"
  proof (rule ccontr)
    assume "\<not> length ?p \<le> 3"
    then have "(2 :: nat) ^ 3 \<le> 2 ^ (length ?p - 1)" by (intro power_increasing) simp_all
    with hi \<open>\<not> length ?p \<le> 3\<close> show False by auto
  qed
  ultimately show ?thesis by (metis le_neq_implies_less)
qed

section \<open>Liabilities\<close>

text \<open>
  C31. The leaves of an asset are its customers' claims: in every state of the books, each leaf is of
  a different customer and carries that customer's available and pending balances and locked vault
  balance as they stand, every customer with a positive claim has one, and the leaves add up to all
  the projections of the asset hold.
\<close>

theorem leaves_are_claims:
  assumes "books_reachable chain s" "lists_tables q s" "assetId \<in> as_id ` set assetList"
  shows "distinct (map lf_customerAccountId (rawLeaves chain q assetList assetId)) \<and>
    (\<forall>e\<in>set (rawLeaves chain q assetList assetId).
       lf_availableLiabilityAmount e = available s (lf_customerAccountId e) assetId \<and>
       lf_reservedLiabilityAmount e = pending s (lf_customerAccountId e) assetId \<and>
       lf_vaultLiabilityAmount e = customer_locked q (lf_customerAccountId e) assetId \<and>
       lf_totalLiabilityAmount e = customer_claim s q (lf_customerAccountId e) assetId \<and> 0 < lf_totalLiabilityAmount e) \<and>
    (\<forall>c. no_colon c \<and> 0 < customer_claim s q c assetId \<longrightarrow>
       c \<in> lf_customerAccountId ` set (rawLeaves chain q assetList assetId)) \<and>
    sum_list (map lf_totalLiabilityAmount (rawLeaves chain q assetList assetId)) =
      balances_of cab_availableBalance q assetId + balances_of cab_pendingBalance q assetId + locked_of q assetId"
proof -
  note inv = books_reachable_inv [OF assms(1)]
  show ?thesis
    using raw_leaves_distinct [OF leaves_keyed [OF inv assms(2)]] raw_leaf [OF inv assms(2,3)]
      raw_leaf_found [OF inv assms(2,3)] raw_leaves_total [OF inv assms(2,3)] by blast
qed

theorem leaves_are_claims_witness:
  "lf_customerAccountId ` set (rawLeaves 1 held_tables [held_asset] ''eth'') = {''alice''} \<and>
   customer_claim held_books held_tables ''alice'' ''eth'' = 100"
proof -
  have i: "''eth'' \<in> as_id ` set [held_asset]" by (simp add: held_asset_def)
  obtain e where e: "rawLeaves 1 held_tables [held_asset] ''eth'' = [e]" "lf_totalLiabilityAmount e = 100"
    using held_leaves by (cases "rawLeaves 1 held_tables [held_asset] ''eth''") auto
  note claims = leaves_are_claims [OF held_reachable held_lists i, unfolded e(1)]
  have "customer_claim held_books held_tables ''alice'' ''eth'' = 100"
    by (simp add: customer_claim_def available_def pending_def held_value held_tables_def customer_locked_def customer_vault_def)
  moreover have "no_colon ''alice''" by (simp add: no_colon_def)
  ultimately have "''alice'' \<in> lf_customerAccountId ` set [e]" using claims by simp
  with \<open>customer_claim held_books held_tables ''alice'' ''eth'' = 100\<close> show ?thesis unfolding e(1) by simp
qed

text \<open>
  C32. What the ledger side of a snapshot leaves out: the liabilities of an asset are the leaves'
  total less what is held for internal transfers under review, and the projections are found to
  match the ledger exactly when nothing is held for such transfers.
\<close>

theorem held_transfers_left_out:
  assumes "books_reachable chain s" "lists_tables q s" "distinct (map as_id assetList)" "a \<in> set assetList"
  shows "\<exists>e. map_of (computeLiabilitiesByAsset chain q assetList mismatchCounts) (as_id a) = Some e \<and>
    lac_totalLiabilityAmount e + net_of chain q customer_asset_pending_internal_transfer_liability (as_id a) =
      sum_list (map lf_totalLiabilityAmount (rawLeaves chain q assetList (as_id a))) \<and>
    (lac_projectionMatchesLedger e \<longleftrightarrow> net_of chain q customer_asset_pending_internal_transfer_liability (as_id a) = 0)"
proof -
  note inv = books_reachable_inv [OF assms(1)]
  note totals = books_totals [OF inv assms(2), of "as_id a"]
  have leaves: "sum_list (map lf_totalLiabilityAmount (rawLeaves chain q assetList (as_id a))) =
      balances_of cab_availableBalance q (as_id a) + balances_of cab_pendingBalance q (as_id a) + locked_of q (as_id a)"
    using raw_leaves_total [OF inv assms(2)] assms(4) by blast
  show ?thesis
    by (rule liability_entry [OF assms(3,4), of chain q mismatchCounts]) (use totals leaves in auto)
qed

theorem held_transfers_left_out_witness:
  "\<exists>e. map_of (computeLiabilitiesByAsset 1 held_tables [held_asset] (\<lambda>_. (0, 0))) ''eth'' = Some e \<and>
     lac_totalLiabilityAmount e = 70 \<and> \<not> lac_projectionMatchesLedger e"
proof -
  have "as_id held_asset = ''eth''" by (simp add: held_asset_def)
  with held_transfers_left_out [OF held_reachable held_lists, of "[held_asset]" held_asset "\<lambda>_. (0, 0)"] show ?thesis
    by (auto simp: held_amount [unfolded One_nat_def] held_leaves [unfolded One_nat_def])
qed

section \<open>The controls close\<close>

text \<open>
  C33. A shortfall pauses the outflows: whenever a snapshot is taken in which the readable balances of
  the reserve wallets, less what open withdrawals were promised from each, are below what the
  liability accounts of an active asset net to, the policy row that results is paused, with all
  four switches on, and can only be resumed by hand.
\<close>

theorem shortfall_pauses:
  assumes "generateSnapshot cfg lib signer provider rd actor s = (Inr p, t)"
    and "distinct (map as_id (rd_assets rd))" "plain_wallets rd"
    and "a \<in> set (listActiveAssets cfg rd)" "usable_reserves cfg provider rd a < owed cfg rd a"
  shows "policy_of t = Some p \<and> sp_status p = paused \<and> sp_pauseWithdrawalApprovals p \<and>
    sp_pauseManagedWithdrawalExecution p \<and> sp_pauseLoanFunding p \<and> sp_pauseStakingWrites p \<and> sp_manualResumeRequired p"
proof -
  from recorded_policy [OF assms(1)] obtain i now q b where pol: "policy_of t = Some p"
    and p: "p = nextPolicyState q (effectivePolicyState q
      (derivePolicyState (concat (map asc_issues (assetComputations cfg lib provider rd now i))))) b i now" by metis
  let ?e = "derivePolicyState (concat (map asc_issues (assetComputations cfg lib provider rd now i)))"
  obtain c where "c \<in> set (assetComputations cfg lib provider rd now i)"
    "\<exists>x\<in>set (asc_issues c). iss_severity x = SolvencyIssueSeverity.critical"
    using asset_computation [OF assms(2-4)] assms(5) by metis
  then have "der_status ?e = paused" by (intro critical_pauses) auto
  then have "sp_status p = paused" unfolding p by (rule paused_stays) (rule derived_postures)
  moreover have "policy_ok now p" unfolding p by (intro policy_postures derived_postures)
  ultimately show ?thesis using pol by (simp add: policy_ok_def posture_def)
qed

theorem shortfall_pauses_witness:
  "\<exists>p. policy_of watched_short = Some p \<and> sp_pauseWithdrawalApprovals p \<and> sp_pauseManagedWithdrawalExecution p"
proof -
  obtain p where run: "generateSnapshot solv_cfg solv_lib solv_signer None short_reads solv_actor watched_healthy = (Inr p, watched_short)"
    using watched_short_run unfolding take_snapshot_def by blast
  have "eth_record \<in> set (listActiveAssets solv_cfg short_reads)" "usable_reserves solv_cfg None short_reads eth_record = 0"
    by (simp_all add: listActiveAssets_def short_reads_def eth_record_def solv_cfg_def usable_reserves_def listReserveWallets_def)
  moreover have "owed solv_cfg short_reads eth_record = 150" by code_simp
  moreover have "distinct (map as_id (rd_assets short_reads))" "plain_wallets short_reads"
    by (simp_all add: short_reads_def plain_wallets_def)
  ultimately show ?thesis using shortfall_pauses [OF run, of eth_record] by auto
qed

section \<open>What opens them\<close>

text \<open>
  C35. Only a governed approval lifts a pause: whatever step the system takes from a reachable state in
  which the policy is paused to one in which it is not, the step approved a pending resume request on
  behalf of an authorized operator other than the one who asked, at least the timelock after the
  request, and the snapshot named in the request was healthy and had a signed report.
\<close>

theorem pause_lifted_by_approval_only:
  assumes "solvency_reachable cfg svc evm lib s" "solvency_step cfg svc evm lib s t"
    and "policy_of s = Some p" "sp_status p = paused" "policy_of t = Some q" "sp_status q \<noteq> paused"
  shows "\<exists>k r r' oper role sn. find_resume_request k s = Some r \<and> pr_status r = pending_approval \<and>
    find_resume_request k t = Some r' \<and> pr_status r' = SolvencyPolicyResumeRequestStatus.approved \<and>
    pr_approvedByOperatorId r' = Some oper \<and> oper \<noteq> pr_requestedByOperatorId r \<and>
    pr_approvedByOperatorRole r' = Some role \<and> role \<in> set (resumeApproverAllowedOperatorRoles cfg) \<and>
    pr_requestedAt r + resumeApprovalTimelockSeconds cfg * 1000 \<le> now_ms (so_db s) \<and>
    find_snapshot (pr_snapshotId r) s = Some sn \<and> sn_status sn = SolvencySnapshotStatus.healthy \<and>
    report_for (pr_snapshotId r) s \<noteq> None"
  using pause_lifted [OF assms(2) solvency_reachable_inv [OF assms(1)] assms(3-6)]
  unfolding approval_on_record_def resumable_def by metis

theorem pause_lifted_by_approval_only_witness:
  "\<exists>k r t q. solvency_step solv_cfg demo_cfg demo_evm solv_lib watched_later t \<and> policy_of t = Some q \<and> sp_status q = normal \<and>
     find_resume_request k watched_later = Some r \<and> pr_status r = pending_approval"
proof -
  obtain k q t p p' where run: "approvePolicyResume solv_cfg solv_signer k None ''op2'' (Some ''risk_manager'') watched_later = Inr (q, t)"
    and p: "policy_of watched_later = Some p" "sp_status p = paused" "policy_of t = Some p'" "sp_status p' = normal"
    using watched_approval by blast
  have step: "solvency_step solv_cfg demo_cfg demo_evm solv_lib watched_later t" by (rule approve_resume [OF run])
  from pause_lifted_by_approval_only [OF watched_later_reachable step p(1-3)] p(4) step p(3) show ?thesis by auto
qed

text \<open>
  C36. The policy row is always in one of three postures: paused, with every switch on, a manual
  review and a manual resume required; guarded, with only the review required; or normal, with
  nothing required. A row that is not normal says since when and why and has not been cleared.
\<close>

theorem policy_row_postures:
  assumes "solvency_reachable cfg svc evm lib s" "policy_of s = Some p"
  shows "(\<forall>switch\<in>set [sp_pauseWithdrawalApprovals p, sp_pauseManagedWithdrawalExecution p, sp_pauseLoanFunding p,
      sp_pauseStakingWrites p, sp_manualResumeRequired p]. switch = (sp_status p = paused)) \<and>
    (sp_requireManualOperatorReview p \<longleftrightarrow> sp_status p \<noteq> normal) \<and>
    (sp_status p \<noteq> normal \<longrightarrow> sp_triggeredAt p \<noteq> None \<and> sp_reasonCode p \<noteq> None \<and> sp_clearedAt p = None) \<and>
    sp_updatedAt p \<le> now_ms (so_db s)"
  using inv_parts(2) [OF solvency_reachable_inv [OF assms(1)] assms(2)]
  by (auto simp: policy_ok_def posture_def)

theorem policy_row_postures_witness:
  "\<exists>p. policy_of watched_short = Some p \<and> sp_pauseStakingWrites p \<and> sp_requireManualOperatorReview p \<and> sp_triggeredAt p \<noteq> None"
proof -
  obtain p where "policy_of watched_short = Some p" "sp_status p = paused" using watched_short_facts(1) by blast
  with policy_row_postures [OF _ this(1)] watched_short_run show ?thesis by fastforce
qed

text \<open>
  C37. A resume request made after the instant the policy row was last written can never be approved:
  asking writes the row itself, and the approval refuses every request whose expected date is not
  the row's. In every reachable state, whoever the authorized second operator is and whenever the
  approval comes, it fails with the conflict that the policy changed.
\<close>

theorem late_resume_request_never_approved:
  assumes "solvency_reachable cfg svc evm lib s" "find_resume_request k s = Some r"
    and "pr_status r = pending_approval" "pr_expectedPolicyUpdatedAt r < pr_requestedAt r"
    and "assertCanApproveResume cfg role s = Inr (approver, s)" "operatorId \<noteq> pr_requestedByOperatorId r"
  shows "approvePolicyResume cfg signer k nt operatorId role s = Inl (ConflictException
    ''Solvency policy changed after the resume request was created. Request a new governed resume.'')"
proof -
  have k: "pr_id r = k" "r \<in> set (solvencyPolicyResumeRequests s)"
    using assms(2) unfolding find_resume_request_def by (blast dest: find_key_Some)+
  from inv_parts(5) [OF solvency_reachable_inv [OF assms(1)] k(2)] obtain p where
    p: "policy_of s = Some p" "pr_requestedAt r \<le> sp_updatedAt p" by (auto simp: request_ok_def)
  with assms(4) have "sp_updatedAt p \<noteq> pr_expectedPolicyUpdatedAt r" by simp
  with p(1) assms(2,3,5,6) show ?thesis
    by (simp add: approvePolicyResume_def approvePolicyResume_transaction_def bindT_def tx_defs)
qed

theorem late_resume_request_never_approved_witness:
  "\<exists>k. approvePolicyResume solv_cfg solv_signer k None ''op2'' (Some ''risk_manager'') watched_late =
     Inl (ConflictException ''Solvency policy changed after the resume request was created. Request a new governed resume.'')"
proof -
  obtain r where r: "find_resume_request (pr_id r) watched_late = Some r" "pr_status r = pending_approval"
    "pr_expectedPolicyUpdatedAt r < pr_requestedAt r" "pr_requestedByOperatorId r = ''op1''" and reach: "solvency_reachable solv_cfg demo_cfg demo_evm solv_lib watched_late"
    using watched_late_run by blast
  from late_resume_request_never_approved [OF reach r(1-3) demo_roles(2), of "''op2''" solv_signer None] r(4) show ?thesis by auto
qed

section \<open>When a snapshot can be recorded\<close>

text \<open>
  C38. A reserve far above what is owed stops the snapshots: when the usable reserves of an active
  asset reach 214748.3648 times the liabilities, the ratio in basis points leaves its 32-bit column,
  the snapshot fails and the policy row is left as it was, whatever the other assets show.
\<close>

theorem large_reserve_ratio_blocks_snapshots:
  assumes "generateSnapshot cfg lib signer provider rd actor s = (res, t)"
    and "distinct (map as_id (rd_assets rd))" "plain_wallets rd" "a \<in> set (listActiveAssets cfg rd)"
    and "0 < owed cfg rd a" "2 ^ 31 * owed cfg rd a \<le> usable_reserves cfg provider rd a * 10000"
  shows "(\<exists>e. res = Inl e) \<and> policy_of t = policy_of s \<and> solvencyReports t = solvencyReports s"
proof -
  have refused: "recordSnapshot cfg lib signer provider rd actor row u \<noteq> Inr (x, v)" for row u x v
  proof
    assume "recordSnapshot cfg lib signer provider rd actor row u = Inr (x, v)"
    from record_transaction [OF this] obtain cs sr where cs: "cs = assetComputations cfg lib provider rd (now_ms (so_db u)) (sn_id row)"
      and tx: "generateSnapshot_transaction cfg (sn_id row) cs (concat (map asc_issues cs)) (derivePolicyState (concat (map asc_issues cs)))
        (buildSnapshotSummary cs (concat (map asc_issues cs))) sr actor u = Inr (x, v)" by metis
    from transaction_effect [OF tx] have "list_all fits_asset_row cs" by metis
    moreover obtain c where "c \<in> set cs"
      "asc_reserveRatioBps c = computeReserveRatioBps (usable_reserves cfg provider rd a) (owed cfg rd a)"
      using asset_computation [OF assms(2-4)] cs by metis
    ultimately show False using ratio_overflow [OF assms(5,6)] by (fastforce simp: list_all_iff fits_asset_row_def Let_def)
  qed
  show ?thesis
  proof (cases "createPendingSnapshot cfg s")
    case (Inl e)
    with assms(1) show ?thesis by (auto simp: generateSnapshot_def)
  next
    case (Inr y)
    then obtain row s1 where pend: "createPendingSnapshot cfg s = Inr (row, s1)" by (cases y) auto
    then have s1: "policy_of s1 = policy_of s" "solvencyReports s1 = solvencyReports s"
      using pending_effect(5) [OF pend] by (simp_all add: policy_of_def)
    obtain e where "recordSnapshot cfg lib signer provider rd actor row s1 = Inl e"
      using refused [of row s1] by (cases "recordSnapshot cfg lib signer provider rd actor row s1") auto
    with assms(1) pend have "(\<exists>e. res = Inl e) \<and> (t = s1 \<or> (\<exists>u. failSnapshot lib actor (sn_id row) e s1 = Inr (u, t)))"
      by (auto simp: generateSnapshot_def bindT_def split: sum.splits prod.splits)
    moreover have "policy_of t = policy_of s1 \<and> solvencyReports t = solvencyReports s1"
      if "failSnapshot lib actor (sn_id row) e s1 = Inr (u, t)" for u
    proof -
      from that obtain f where "quiet (s1\<lparr>solvencySnapshots := update_rows sn_id (sn_id row) f (solvencySnapshots s1)\<rparr>) t"
        by (auto simp: failSnapshot_def tx_iff update_snapshot_Inr dest!: quiet_audit)
      from quiet_sel(1,3) [OF this] show ?thesis by (simp add: policy_of_def)
    qed
    ultimately show ?thesis using s1 by auto
  qed
qed

theorem large_reserve_ratio_blocks_snapshots_witness:
  "policy_of (snd (generateSnapshot solv_cfg solv_lib solv_signer (Some rich_provider) rich_reads solv_actor watched_short)) =
     policy_of watched_short"
proof -
  obtain res t where run: "generateSnapshot solv_cfg solv_lib solv_signer (Some rich_provider) rich_reads solv_actor watched_short = (res, t)"
    by (cases "generateSnapshot solv_cfg solv_lib solv_signer (Some rich_provider) rich_reads solv_actor watched_short")
  have "eth_record \<in> set (listActiveAssets solv_cfg rich_reads)" "distinct (map as_id (rd_assets rich_reads))" "plain_wallets rich_reads"
    by (simp_all add: listActiveAssets_def rich_reads_def short_reads_def eth_record_def solv_cfg_def plain_wallets_def rich_wallet_def
        no_colon_def)
  with large_reserve_ratio_blocks_snapshots [OF run, of eth_record] rich_amounts run show ?thesis by simp
qed

text \<open>
  C39. Nothing else stops a snapshot of a configured service whose amounts fit their columns: from
  every reachable state, with a fresh identifier and unless the text of its report collides with the
  different text of an earlier one, the call succeeds, the snapshot is on record with the status its issues call for and a signed report, and
  the policy row names it.
\<close>

theorem snapshot_recorded:
  assumes "solvency_reachable cfg svc evm lib s" "infrastructureDisabledReason cfg = None"
    and "no_hash_clash (hashes lib) (snapshotReport cfg lib signer provider rd (now_ms (so_db s)) i) (solvencyReports s)"
    and "i = cuid_of (so_db s) (cuid_count (so_db s))" "i \<notin> sn_id ` set (solvencySnapshots s)"
    and "storable i (assetComputations cfg lib provider rd (now_ms (so_db s)) i)"
  shows "\<exists>p t row rep. generateSnapshot cfg lib signer provider rd actor s = (Inr p, t) \<and>
    policy_of t = Some p \<and> sp_latestSnapshotId p = Some i \<and>
    solvencySnapshots t = solvencySnapshots s @ [row] \<and> sn_id row = i \<and>
    sn_status row = resolveStatusFromIssues (concat (map asc_issues (assetComputations cfg lib provider rd (now_ms (so_db s)) i))) \<and>
    solvencyReports t = solvencyReports s @ [rep] \<and> spr_snapshotId rep = i"
proof -
  obtain p t where run: "generateSnapshot cfg lib signer provider rd actor s = (Inr p, t)"
    using generate_succeeds [OF assms(2,3,1,4-6)] by blast
  from generate_effect(1,2) [OF run] obtain b row rep where "policy_of t = Some p"
    "policy_of t = Some (nextPolicyState (policy_of s) (effectivePolicyState (policy_of s) (derivePolicyState
      (concat (map asc_issues (assetComputations cfg lib provider rd (now_ms (so_db s)) i))))) b i (now_ms (so_db s)))"
    "solvencySnapshots t = solvencySnapshots s @ [row]" "sn_id row = i"
    "sn_status row = resolveStatusFromIssues (concat (map asc_issues (assetComputations cfg lib provider rd (now_ms (so_db s)) i)))"
    "solvencyReports t = solvencyReports s @ [rep]" "spr_snapshotId rep = i"
    unfolding recorded_snapshot_def Let_def assms(4) [symmetric] by blast
  with run show ?thesis by (intro exI conjI) (auto simp: nextPolicyState_def)
qed

theorem snapshot_recorded_witness:
  "\<exists>p t. generateSnapshot solv_cfg solv_lib solv_signer None healthy_reads solv_actor watched0 = (Inr p, t) \<and>
     sp_latestSnapshotId p = Some healthy_id"
proof -
  have "healthy_id = cuid_of (so_db watched0) (cuid_count (so_db watched0))" "solvencySnapshots watched0 = []"
    by (simp_all add: watched0_def empty_solvency_def platform0_def empty_db_def healthy_id_def)
  with snapshot_recorded [OF watched0_reachable solv_conf first_report, of healthy_id None healthy_reads solv_signer solv_actor] healthy_storable
  show ?thesis by (auto simp: healthy_computations)
qed

end
