(* ===== verification/Loan_Funding.thy ===== *)
theory Loan_Funding
  imports Ledger Solvency_Policy
begin

text \<open>
  The funding of a loan agreement by the worker (\<open>fundAgreement\<close> of \<open>loans/loans.service.ts\<close>): the
  solvency gate, the gate of governed execution (\<open>governed-execution.service.ts\<close>) with the overrides
  operators have approved, and the transaction that books the disbursement, activates the agreement
  and locks its collateral. The gates commit what they write by themselves.
\<close>

section \<open>Tables\<close>

datatype LoanLifecycleStatus =
    draft_application | submitted | under_review | approved | rejected | awaiting_funding | active
  | grace_period | delinquent | defaulted | liquidating | closed

datatype LoanCollateralStatus =
    pending_lock | locked | margin_warning | liquidation_review | liquidating | released | seized

datatype OverrideStatus = pending_approval | approved | rejected | expired

record loan_agreement =
  ag_id :: string
  ag_status :: LoanLifecycleStatus
  ag_customerAccountId :: string
  ag_borrowAssetId :: string
  ag_principalAmount :: decimal
  ag_serviceFeeAmount :: decimal
  ag_contractLoanId :: "string option"
  ag_activationTransactionHash :: "string option"
  ag_fundedAt :: "int option"
  ag_activatedAt :: "int option"

record loan_collateral_position =
  cp_id :: string
  cp_loanAgreementId :: string
  cp_assetId :: string
  cp_amount :: decimal
  cp_status :: LoanCollateralStatus
  cp_lockedAt :: "int option"

record loan_event =
  le_id :: string
  le_loanAgreementId :: "string option"
  le_actorType :: string
  le_actorId :: "string option"
  le_eventType :: string
  le_note :: "string option"

record execution_override =
  ov_id :: string
  ov_environment :: string
  ov_status :: OverrideStatus
  ov_allowUnsafeWithdrawalExecution :: bool
  ov_allowDirectLoanFunding :: bool
  ov_allowDirectStakingWrites :: bool
  ov_expiresAt :: int

record loan_state =
  ln_db :: db
  loanAgreements :: "loan_agreement list"
  loanCollateralPositions :: "loan_collateral_position list"
  loanEvents :: "loan_event list"
  executionOverrides :: "execution_override list"

record governed_config =
  governedExecutionRequiredInProduction :: bool
  gc_environment :: string
  loanFundingExecutionMode :: string

section \<open>Calls\<close>

text \<open>
  A call is a sequence of commits: a transaction that fails leaves no trace, the ones before it stay.
\<close>

type_synonym 'a loantx = "(loan_state, 'a) tx"
type_synonym 'a loancall = "loan_state \<Rightarrow> (error + 'a) \<times> loan_state"

definition inLedger :: "'a dbtx \<Rightarrow> 'a loantx" where
  "inLedger m = (\<lambda>s. case m (ln_db s) of Inl e \<Rightarrow> Inl e | Inr (x, d) \<Rightarrow> Inr (x, s\<lparr>ln_db := d\<rparr>))"

definition transact :: "'a loantx \<Rightarrow> 'a loancall" where
  "transact m = (\<lambda>s. case m s of Inl e \<Rightarrow> (Inl e, s) | Inr (x, t) \<Rightarrow> (Inr x, t))"

definition bindC :: "'a loancall \<Rightarrow> ('a \<Rightarrow> 'b loancall) \<Rightarrow> 'b loancall" where
  "bindC m f = (\<lambda>s. case m s of (Inl e, t) \<Rightarrow> (Inl e, t) | (Inr x, t) \<Rightarrow> f x t)"

section \<open>Governed execution\<close>

definition isLoanFundingGovernedExternalEnabled :: "governed_config \<Rightarrow> bool" where
  "isLoanFundingGovernedExternalEnabled gcfg \<longleftrightarrow> loanFundingExecutionMode gcfg = ''governed_external''"

definition stale_override :: "governed_config \<Rightarrow> int \<Rightarrow> execution_override \<Rightarrow> bool" where
  "stale_override gcfg now r \<longleftrightarrow> ov_environment r = gc_environment gcfg \<and>
     ov_status r \<in> {OverrideStatus.pending_approval, OverrideStatus.approved} \<and> ov_expiresAt r < now"

definition expireStaleOverrides :: "governed_config \<Rightarrow> int \<Rightarrow> unit loantx" where
  "expireStaleOverrides gcfg now =
     bindT (readT executionOverrides) (\<lambda>rows.
     bindT (writeT (\<lambda>s. s\<lparr>executionOverrides :=
       map (\<lambda>r. if stale_override gcfg now r then r\<lparr>ov_status := expired\<rparr> else r) rows\<rparr>)) (\<lambda>_.
     if list_ex (stale_override gcfg now) rows
     then inLedger (bindT cuid (\<lambda>i. writeT (\<lambda>d. d\<lparr>auditEvents := auditEvents d @
       [\<lparr>ae_id = i, ae_customerId = None, ae_actorType = ''system'', ae_actorId = None,
         ae_action = ''governed_execution.override.expired'', ae_targetType = ''GovernedExecutionOverrideRequest'',
         ae_targetId = None, ae_previousStatus = None, ae_newStatus = None\<rparr>]\<rparr>)))
     else returnT ()))"

text \<open>The order of the rows, newest approval first, plays no part: they are only searched.\<close>

definition getActiveApprovedOverrides :: "governed_config \<Rightarrow> int \<Rightarrow> execution_override list loancall" where
  "getActiveApprovedOverrides gcfg now =
     bindC (transact (expireStaleOverrides gcfg now)) (\<lambda>_.
     transact (readT (\<lambda>s. filter (\<lambda>r. ov_environment r = gc_environment gcfg \<and>
       ov_status r = OverrideStatus.approved \<and> now < ov_expiresAt r) (executionOverrides s))))"

definition hasOverride :: "execution_override list \<Rightarrow> (execution_override \<Rightarrow> bool) \<Rightarrow> bool" where
  "hasOverride overrides scope \<longleftrightarrow> list_ex scope overrides"

definition assertLoanFundingExecutionAllowed :: "governed_config \<Rightarrow> unit loancall" where
  "assertLoanFundingExecutionAllowed gcfg =
     (if \<not> governedExecutionRequiredInProduction gcfg \<or> gc_environment gcfg \<noteq> ''production''
      then transact (returnT ())
      else if isLoanFundingGovernedExternalEnabled gcfg then transact (returnT ())
      else
        bindC (transact (inLedger new_Date)) (\<lambda>now.
        bindC (getActiveApprovedOverrides gcfg now) (\<lambda>activeOverrides.
        if hasOverride activeOverrides ov_allowDirectLoanFunding then transact (returnT ())
        else transact (throwT (ServiceUnavailableException
          ''Loan funding is blocked because governed treasury execution is required in production.'')))))"

section \<open>Funding\<close>

definition recordLoanEvent ::
  "string option \<Rightarrow> string \<Rightarrow> string option \<Rightarrow> string \<Rightarrow> string option \<Rightarrow> unit loantx" where
  "recordLoanEvent agreementId actorType actorId eventType note =
     bindT (inLedger cuid) (\<lambda>i.
     writeT (\<lambda>s. s\<lparr>loanEvents := loanEvents s @
       [\<lparr>le_id = i, le_loanAgreementId = agreementId, le_actorType = actorType, le_actorId = actorId,
         le_eventType = eventType, le_note = note\<rparr>]\<rparr>))"

definition find_agreement :: "string \<Rightarrow> loan_state \<Rightarrow> loan_agreement option" where
  "find_agreement i s = find (\<lambda>r. ag_id r = i) (loanAgreements s)"

definition fundAgreement_transaction :: "governed_config \<Rightarrow> string \<Rightarrow> string \<Rightarrow> loan_agreement loantx" where
  "fundAgreement_transaction gcfg loanAgreementId workerId =
     bindT (readT (find_agreement loanAgreementId)) (\<lambda>found.
     bindT (requireT found (NotFoundException ''Loan agreement not found.'')) (\<lambda>currentAgreement.
     bindT (readT (\<lambda>s. find (\<lambda>a. as_id a = ag_borrowAssetId currentAgreement) (assets (ln_db s)))) (\<lambda>asset.
     bindT (requireT asset RecordNotFound) (\<lambda>borrowAsset.
     bindT (throwIf (isLoanFundingGovernedExternalEnabled gcfg \<and>
         (\<not> truthy (ag_contractLoanId currentAgreement) \<or> \<not> truthy (ag_activationTransactionHash currentAgreement)))
       (BadRequestException ''Loan funding cannot proceed until governed contract execution has been recorded.'')) (\<lambda>_.
     bindT (inLedger (recordLoanDisbursement
       \<lparr>ld_loanAgreementId = ag_id currentAgreement, ld_assetId = ag_borrowAssetId currentAgreement,
        ld_chainId = as_chainId borrowAsset, ld_principalAmount = ag_principalAmount currentAgreement,
        ld_serviceFeeAmount = ag_serviceFeeAmount currentAgreement\<rparr>)) (\<lambda>ledgerResult.
     bindT (inLedger new_Date) (\<lambda>now.
     bindT (writeT (\<lambda>s. s\<lparr>loanAgreements := update_rows ag_id loanAgreementId (\<lambda>r. r\<lparr>
       ag_status := LoanLifecycleStatus.active, ag_fundedAt := Some now, ag_activatedAt := Some now\<rparr>) (loanAgreements s)\<rparr>)) (\<lambda>_.
     bindT (writeT (\<lambda>s. s\<lparr>loanCollateralPositions :=
       map (\<lambda>r. if cp_loanAgreementId r = loanAgreementId
                then r\<lparr>cp_status := LoanCollateralStatus.locked, cp_lockedAt := Some now\<rparr> else r)
         (loanCollateralPositions s)\<rparr>)) (\<lambda>_.
     bindT (recordLoanEvent (Some loanAgreementId) ''worker'' (Some workerId) ''funded''
       (Some ''Funding workflow completed and the agreement is active.'')) (\<lambda>_.
     bindT (readT (find_agreement loanAgreementId)) (\<lambda>updated.
     requireT updated RecordNotFound)))))))))))"

definition fundAgreement :: "governed_config \<Rightarrow> string \<Rightarrow> string \<Rightarrow> loan_agreement loancall" where
  "fundAgreement gcfg loanAgreementId workerId =
     bindC (transact (inLedger assertLoanFundingAllowed)) (\<lambda>_.
     bindC (assertLoanFundingExecutionAllowed gcfg) (\<lambda>_.
     transact (fundAgreement_transaction gcfg loanAgreementId workerId)))"

section \<open>The gate comes first\<close>

lemma inLedger_Inr [tx_iff]: "inLedger m s = Inr (x, t) \<longleftrightarrow> (\<exists>d. m (ln_db s) = Inr (x, d) \<and> t = s\<lparr>ln_db := d\<rparr>)"
  by (auto simp: inLedger_def split: sum.splits)

lemma paused_refuses_funding:
  assumes "assertLoanFundingAllowed (ln_db s) = Inl e"
  shows "fundAgreement gcfg i w s = (Inl e, s)"
  using assms by (simp add: fundAgreement_def bindC_def transact_def inLedger_def)

end
