(* ===== verification/Outflow_Properties.thy ===== *)
theory Outflow_Properties
  imports Solvency_Demo Loan_Funding
begin

text \<open>What a paused policy refuses: the outgoing steps of withdrawals and the funding of loans.\<close>

text \<open>
  C34. While the policy is paused no value leaves: in every reachable state whose policy row is paused,
  approving a withdrawal and queueing an approved one are refused with the policy's conflict, no
  worker can start a managed withdrawal, and no worker can fund a loan agreement, whatever the loan
  tables hold and however governed execution is configured: the call ends with the policy's conflict
  and changes nothing.
\<close>

theorem paused_refuses_outflows:
  assumes "solvency_reachable cfg svc evm lib s" "policy_of s = Some p" "sp_status p = paused"
  shows "(\<forall>intentId operatorId dto role. de_decision dto = OperatorDecision.approved \<longrightarrow>
      decideWithdrawalIntent svc intentId operatorId dto role (so_db s) = Inl (policyConflict p
        ''Withdrawal approvals are paused by the current solvency policy state.'')) \<and>
    (\<forall>intentId operatorId role. queueApprovedWithdrawalIntent svc intentId operatorId role (so_db s) = Inl (policyConflict p
        ''Withdrawal approvals are paused by the current solvency policy state.'')) \<and>
    (\<forall>intentId workerId reclaim. \<exists>e. startManagedWithdrawalExecution svc evm intentId workerId reclaim (so_db s) = Inl e) \<and>
    (\<forall>gcfg loanAgreementId workerId loans. ln_db loans = so_db s \<longrightarrow>
      fundAgreement gcfg loanAgreementId workerId loans = (Inl (policyConflict p
        ''Loan funding is paused by the current solvency policy state.''), loans))"
proof -
  have "policy_ok (now_ms (so_db s)) p" by (rule inv_parts(2) [OF solvency_reachable_inv [OF assms(1)] assms(2)])
  with assms(3) have on: "sp_pauseWithdrawalApprovals p" "sp_pauseManagedWithdrawalExecution p" "sp_pauseLoanFunding p"
    by (simp_all add: policy_ok_def posture_def)
  have gate: "getOrCreatePolicyState (so_db s) = Inr (p, so_db s)"
    using assms(2) by (simp add: getOrCreate_Inr policy_of_def)
  have gates: "assertWithdrawalApprovalAllowed (so_db s) = Inl (policyConflict p
      ''Withdrawal approvals are paused by the current solvency policy state.'')"
    "assertManagedWithdrawalExecutionAllowed (so_db s) = Inl (policyConflict p
      ''Managed withdrawal execution is paused by the current solvency policy state.'')"
    "assertLoanFundingAllowed (so_db s) = Inl (policyConflict p
      ''Loan funding is paused by the current solvency policy state.'')"
    using gate on by (simp_all add: assertWithdrawalApprovalAllowed_def assertManagedWithdrawalExecutionAllowed_def
        assertLoanFundingAllowed_def bindT_def throwIf_def throwT_def)
  have "\<exists>e. startManagedWithdrawalExecution svc evm intentId workerId reclaim (so_db s) = Inl e" for intentId workerId reclaim
  proof (cases "startManagedWithdrawalExecution svc evm intentId workerId reclaim (so_db s)")
    case (Inr r)
    then show ?thesis
      using gates(2) by (cases r) (auto simp: startManagedWithdrawalExecution_def tx_iff findWithdrawalIntentForReview_def)
  qed blast
  moreover have "fundAgreement gcfg i w loans = (Inl (policyConflict p
      ''Loan funding is paused by the current solvency policy state.''), loans)" if "ln_db loans = so_db s" for gcfg i w loans
    by (rule paused_refuses_funding) (simp only: that gates(3))
  ultimately show ?thesis
    using gates by (simp add: decideWithdrawalIntent_def queueApprovedWithdrawalIntent_def bindT_def)
qed

text \<open>An agreement that is waiting for its funding while the policy is paused.\<close>

definition waiting_loan :: loan_state where
  "waiting_loan = \<lparr>ln_db = so_db watched_short, loanAgreements = [\<lparr>ag_id = ''l1'', ag_status = awaiting_funding,
     ag_customerAccountId = ''alice'', ag_borrowAssetId = ''eth'', ag_principalAmount = 10, ag_serviceFeeAmount = 1,
     ag_contractLoanId = None, ag_activationTransactionHash = None, ag_fundedAt = None, ag_activatedAt = None\<rparr>],
     loanCollateralPositions = [], loanEvents = [], executionOverrides = []\<rparr>"

definition demo_governed :: governed_config where
  "demo_governed = \<lparr>governedExecutionRequiredInProduction = True, gc_environment = ''test'', loanFundingExecutionMode = ''direct_private_key''\<rparr>"

theorem paused_refuses_outflows_witness:
  "(\<exists>e. queueApprovedWithdrawalIntent demo_cfg (demo_id 9) ''op'' demo_role (so_db watched_short) = Inl e) \<and>
   (\<exists>e. fundAgreement demo_governed ''l1'' ''w1'' waiting_loan = (Inl e, waiting_loan))"
proof -
  obtain p where "policy_of watched_short = Some p" "sp_status p = paused" using watched_short_facts(1) by blast
  note closed = paused_refuses_outflows [OF watched_short_run [THEN conjunct2, THEN conjunct2] this]
  have "ln_db waiting_loan = so_db watched_short" by (simp add: waiting_loan_def)
  with closed show ?thesis by blast
qed

end
