(* ===== verification/Spec2Isabelle.thy ===== *)
theory Spec2Isabelle
  imports Ledger_Properties Service_Properties Replay_Properties Solvency_Properties Outflow_Properties
begin

text \<open>
  The money path of the bank's API (\<open>src/apps/api/src\<close>) and the solvency controls over it.

  \<^bold>\<open>The program.\<close> Customers hold balances per asset (\<open>CustomerAssetBalance\<close>) and locked
  retirement vaults; behind them stands a double-entry ledger of accounts, journals and postings.
  \<open>ledger/ledger.service.ts\<close> is the only code that moves money: each operation books one journal
  and updates the projections in one database transaction. Deposits
  (\<open>transaction-intents/transaction-intents.service.ts\<close>), withdrawals
  (\<open>transaction-intents/withdrawal-intents.service.ts\<close>) and internal transfers
  (\<open>balance-transfers/balance-transfers.service.ts\<close>) are rows of \<open>TransactionIntent\<close> that
  customers request under an idempotency key, operators decide and workers carry through queue,
  broadcast, confirmation and settlement; the ledger is called when money is held, released, credited
  or paid. Two reconciliation services (\<open>deposit-\<close> and
  \<open>withdrawal-settlement-reconciliation.service.ts\<close>) list the intents whose books lag behind the
  chain and let one operator ask for a replay and another approve and execute it.
  \<open>solvency/solvency.service.ts\<close> compares what the ledger owes with what the reserve wallets hold,
  signs the result, publishes a Merkle tree of the customers' claims, and keeps the policy row that
  the withdrawal, loan and staking paths ask before they let value out. A customer checks the own
  claim in the browser (\<open>src/apps/web/src/lib/solvency-proof.ts\<close>).

  \<^bold>\<open>How it is modelled.\<close> The rows and enumerations of \<open>prisma/schema.prisma\<close> are records and
  datatypes with their column names, tables are lists in insertion order or maps by unique key
  (\<open>Schema\<close>; \<open>Ledger_Tables\<close> and \<open>Service_Tables\<close> for the ORM's calls on them,
  with the unique constraints and the range of \<open>Decimal(36, 18)\<close> columns as errors). A handler is
  a state-passing function into an error or a result and the next state (\<open>Bank_Prelude\<close>):
  an error leaves no state behind, as an aborted \<open>$transaction\<close> does. A handler of several commits is
  composed of its parts, which are definitions of their own (\<open>generateSnapshot\<close> returns a state in
  every case; \<open>generateSnapshot_transaction\<close> and the other \<open>_transaction\<close> definitions are the
  bodies of the transactions). Identifiers come from an injective supply, the clock is part of the
  state and moves between steps only.

  Theories and sources:
  \<^item> \<open>Bank_Prelude\<close>, \<open>JS_Strings\<close>: errors, transactions, decimals, sums, string methods.
  \<^item> \<open>Ledger\<close> (\<open>ledger.service.ts\<close>, all eleven operations); \<open>Ledger_Spec\<close>, the abstract
    bank they refine; \<open>Ledger_Laws\<close>, one law of success per operation; \<open>Ledger_Progress\<close>, when
    they succeed; \<open>Ledger_Invariants\<close>, reconciliation, trial balance, written once.
  \<^item> \<open>Operator_Policy\<close> (\<open>auth/internal-operator-role-policy.ts\<close>), \<open>Review_Cases\<close>
    (\<open>openOrReuseReviewCase\<close>), \<open>Solvency_Policy\<close> (the four gates), \<open>Intent_Common\<close>.
  \<^item> \<open>Deposit_Intents\<close>, \<open>Withdrawal_Intents\<close>, \<open>Balance_Transfers\<close>: the three services,
    function by function. \<open>Service_Frames\<close>, \<open>Service_Steps\<close>, \<open>Service_Invariants\<close> and the
    \<open>_Lifecycle\<close> theories show that every call keeps the invariant; \<open>Intent_System\<close> is the
    step relation; \<open>Intent_Effects\<close>, \<open>Service_Persistence\<close>, \<open>Service_Liveness\<close> and
    \<open>Withdrawal_Completion\<close> what follows for balances, final statuses, keys and progress.
    \<open>Call_Frames\<close> lifts whatever the single writes keep to every call, \<open>Column_Bounds\<close> uses it.
  \<^item> \<open>Settlement_Reconciliation\<close>, \<open>Replay_Approvals\<close>, \<open>Replay_System\<close>: the two
    reconciliation services.
  \<^item> \<open>Canonical_Json\<close> and \<open>Merkle_Proofs\<close> (\<open>solvency-proof.ts\<close> of the API and of the
    browser), \<open>Liability_Snapshot\<close> (\<open>computeLiabilitiesByAsset\<close>,
    \<open>computeLiabilityLeavesByAsset\<close>), \<open>Solvency_Assessment\<close> (reserves, issues, ratio, derived
    policy), \<open>Solvency_Report\<close> (the signed report), \<open>Solvency_Governance\<close> (snapshots, the policy
    row, manual resume), \<open>Solvency_Proofs\<close> (inclusion proofs on request).
    \<open>Liability_Books\<close>, \<open>Liability_Laws\<close> and \<open>Liability_Leaves\<close> relate a snapshot's sums to
    the ledger's invariants; \<open>Reserve_Laws\<close> says what its numbers are; \<open>Solvency_System\<close> is the
    step relation with its invariant, \<open>Snapshot_Run\<close> and \<open>Solvency_Progress\<close> a whole snapshot,
    \<open>Proof_Binding\<close> what an accepted proof means.
  \<^item> \<open>Loan_Funding\<close>: \<open>fundAgreement\<close> of \<open>loans.service.ts\<close> with the gates it passes, the one of
    \<open>governed-execution.service.ts\<close> included.
\<close>

text \<open>
  \<^bold>\<open>Interfaces.\<close> \<open>reservation\<close> is the contract of holding money (reserve, then release or
  settle), interpreted on the ledger's withdrawal and internal transfer operations.
  \<open>replays\<close> is the contract of a reconciliation service, interpreted on both. \<open>call_frame\<close>
  takes a predicate the single writes keep, interpreted for the range of the columns
  (\<open>bounds\<close>) and for the solvency policy row (\<open>gate\<close>).

  \<^bold>\<open>What is shown.\<close> Claims 1 to 12 (\<open>Ledger_Properties\<close>): in every state the ledger reaches,
  projections equal postings, journals balance, nothing is negative and no journal is booked twice;
  each operation is a move of the abstract bank; reservations and transfers conserve money; which
  loan repayments balance and which can be booked. Claims 13 to 22 (\<open>Service_Properties\<close>): in every
  state the intent services reach, the books are the sum of what the intents have moved, settled
  deposits are backed by distinct chain transfers, a withdrawal has one outcome, final statuses and
  request keys are final, covered requests are accepted, pending withdrawals can be denied or
  carried to their payout, and what a stale approval does. Claims 23 to 26 (\<open>Replay_Properties\<close>):
  reconciliation always classifies an intent by its status, replays take two operators, and which
  replays go through. Claims 27 to 39 (\<open>Solvency_Properties\<close>, \<open>Outflow_Properties\<close>): the signed
  text determines the signed value, the inclusion proofs served check out in the browser and no other
  payload does unless Keccak-256 collides, leaves are exactly the customers' claims, a shortfall
  pauses the outflows, only a second operator's approval over a healthy signed snapshot lifts the
  pause, and when a snapshot or a resume cannot go through.

  \<^bold>\<open>Interleaving.\<close> A step of \<open>service_step\<close> is a whole handler, or only what a handler runs after
  its checks (\<open>late_part\<close>), which may have been made on an older state. Most transactions read their
  intent again and repeat the checks on it. Those of \<open>decideDepositIntent\<close>,
  \<open>decideWithdrawalIntent\<close>, \<open>decideBalanceTransfer\<close> and the two \<open>queueApproved\<close> handlers do not:
  they come late in the model too, after any other step, but only while their intent is still in the
  status their check asked for, and work on its row and relations as they are then. The invariants do
  not cover two of them racing on one intent; claim 22 shows what such a race does. In
  \<open>solvency_step\<close> the two commits of a snapshot are separate steps, and the transactions of a resume
  request, an approval and a rejection may come late without such a proviso; the rows a snapshot has
  read are arbitrary. The handlers of \<open>Replay_Approvals\<close> are atomic. Within a transaction reads and
  writes are serial, which the database's default isolation does not promise. The policy row that a
  gate creates when there is none is lost in the model when the rest of the handler fails, while the
  code has committed it: the state with the row is reached by a step of its own (\<open>gate\<close>, or
  \<open>elsewhere_step\<close>), and a gate that creates the row, unpaused, does not refuse.

  \<^bold>\<open>Bounds and recursion.\<close> No definition has fuel: the loops of the Merkle tree halve a list and
  have termination proofs, the others are structural. An amount is an integer count of \<open>10 ^ -18\<close>
  units, the scale of its \<open>Decimal(36, 18)\<close> column, with exact arithmetic and refused when it does not
  fit the column; the request validators admit no more decimals, tokens are taken to have at most 18,
  and the 20 significant digits of the client's decimal library are not modelled. 32-bit \<open>Int\<close>
  columns are checked where a computed ratio is stored (\<open>fits_int\<close>).

  \<^bold>\<open>Parameters.\<close> Code outside the repository is an argument: keccak and SHA-256
  (\<open>hash_library\<close>; \<open>ethers_hashes\<close> in \<open>Proof_Binding\<close> is what ethers promises of them), the text of a decimal and of a date, string collation and the messages of the
  database client (\<open>solvency_library\<close>, \<open>report_signer\<close>), the RPC node (\<open>rpc_provider\<close>), address
  parsing and signed transactions (\<open>evm_library\<close>). No hash function is taken to be
  injective: claim 29 says that an accepted proof is on record or exhibits a collision, claim 39 asks
  that the new report does not collide with those on record; their witnesses use a toy digest of 32
  bytes, which has collisions elsewhere. A snapshot observes
  all wallets at one instant. Metadata of audit events and of issues is left out.

  \<^bold>\<open>Not modelled.\<close> Of the solvency service the report anchors, the workspace listings and the
  public bundles, which read and format rows; of \<open>review-cases.service.ts\<close> everything but opening a
  case; notifications. Of the other services: authentication, loans (applications, approval,
  installments and autopay; their ledger operations and the funding are modelled), the release workflow of retirement vaults, governed
  execution, ledger reconciliation scans, oversight incidents, operations monitoring, release
  readiness, staking and treasury, which use the ledger's operations and the policy gates but are state
  machines of their own; of the callers of the loan and staking gates only \<open>fundAgreement\<close> is modelled.
  Strings are lists of single-byte characters and trimming and case mapping are those of ASCII. The worker, the clients other than the proof check, runtime configuration,
  contracts and generated bindings are glue, input and output, or third-party code.
\<close>

end
